(* ===== verification/Factory_Prelude.thy ===== *)
theory Factory_Prelude
  imports Main "HOL-Library.Char_ord" "HOL-Library.List_Lexorder" "HOL-Library.Product_Lexorder"
begin

text \<open>
  Shared vocabulary of the development: the outcome of a Python call (a value or a raised
  exception), a state-and-exception composition for code that makes several durable writes
  before it may raise, a weakest-precondition calculus for it, table operations (rows are
  lists in insertion order), and the string functions of the Python standard library that
  the factory uses.  Strings range over the code points U+0000 to U+00FF.
\<close>

section \<open>Calls that may raise\<close>

type_synonym ('e, 'a) outcome = "'e + 'a"

text \<open>A call that reads and writes a state \<open>'s\<close> and may raise \<open>'e\<close>.  What was written before
  the exception stays written, as a committed transaction does.\<close>

type_synonym ('s, 'e, 'a) sx = "'s \<Rightarrow> ('e, 'a) outcome \<times> 's"

definition ret :: "'a \<Rightarrow> ('s, 'e, 'a) sx" where
  "ret a = (\<lambda>s. (Inr a, s))"

definition raise :: "'e \<Rightarrow> ('s, 'e, 'a) sx" where
  "raise e = (\<lambda>s. (Inl e, s))"

definition andthen :: "('s, 'e, 'a) sx \<Rightarrow> ('a \<Rightarrow> ('s, 'e, 'b) sx) \<Rightarrow> ('s, 'e, 'b) sx" where
  "andthen m f = (\<lambda>s. case m s of (Inl e, s') \<Rightarrow> (Inl e, s') | (Inr a, s') \<Rightarrow> f a s')"

definition on_error :: "('s, 'e, 'a) sx \<Rightarrow> ('e \<Rightarrow> ('s, 'e, 'a) sx) \<Rightarrow> ('s, 'e, 'a) sx" where
  "on_error m h = (\<lambda>s. case m s of (Inl e, s') \<Rightarrow> h e s' | (Inr a, s') \<Rightarrow> (Inr a, s'))"

definition reads :: "('s \<Rightarrow> 'a) \<Rightarrow> ('s, 'e, 'a) sx" where
  "reads f = (\<lambda>s. (Inr (f s), s))"

definition check :: "bool \<Rightarrow> 'e \<Rightarrow> ('s, 'e, unit) sx" where
  "check b e = (if b then ret () else raise e)"

definition from_outcome :: "('e, 'a) outcome \<Rightarrow> ('s, 'e, 'a) sx" where
  "from_outcome r = (\<lambda>s. (r, s))"

definition or_raise :: "'a option \<Rightarrow> 'e \<Rightarrow> ('s, 'e, 'a) sx" where
  "or_raise x e = (case x of None \<Rightarrow> raise e | Some a \<Rightarrow> ret a)"

text \<open>A \<open>for\<close> loop that updates an accumulator, and one that returns at the first result.\<close>

fun each :: "('a \<Rightarrow> 'b \<Rightarrow> ('s, 'e, 'b) sx) \<Rightarrow> 'a list \<Rightarrow> 'b \<Rightarrow> ('s, 'e, 'b) sx" where
  "each f [] acc = ret acc"
| "each f (x # xs) acc = andthen (f x acc) (each f xs)"

fun first_result :: "('a \<Rightarrow> ('s, 'e, 'b option) sx) \<Rightarrow> 'a list \<Rightarrow> ('s, 'e, 'b option) sx" where
  "first_result f [] = ret None"
| "first_result f (x # xs) = andthen (f x) (\<lambda>r. case r of None \<Rightarrow> first_result f xs | Some b \<Rightarrow> ret (Some b))"

text \<open>A transaction: \<open>with self._connect() as conn\<close> commits the new state on success and rolls
  back when the block raises.\<close>

definition transact :: "('s \<Rightarrow> ('e, 'a \<times> 's) outcome) \<Rightarrow> ('s, 'e, 'a) sx" where
  "transact f = (\<lambda>s. case f s of Inl e \<Rightarrow> (Inl e, s) | Inr (a, s') \<Rightarrow> (Inr a, s'))"

subsection \<open>Transaction bodies\<close>

text \<open>The body of one transaction computes the result and the state to commit, or raises.\<close>

type_synonym ('s, 'e, 'a) tx = "'s \<Rightarrow> ('e, 'a \<times> 's) outcome"

definition tx_step :: "('e, 's) outcome \<Rightarrow> ('s \<Rightarrow> ('e, 'b) outcome) \<Rightarrow> ('e, 'b) outcome" where
  "tx_step r f = (case r of Inl e \<Rightarrow> Inl e | Inr s \<Rightarrow> f s)"

lemma tx_step_simps [simp]:
  "tx_step (Inl e) f = Inl e"
  "tx_step (Inr s) f = f s"
  by (simp_all add: tx_step_def)

lemma tx_step_eq_Inr: "tx_step r f = Inr b \<longleftrightarrow> (\<exists>s. r = Inr s \<and> f s = Inr b)"
  by (cases r) auto

lemma tx_step_eq_Inl: "tx_step r f = Inl e \<longleftrightarrow> r = Inl e \<or> (\<exists>s. r = Inr s \<and> f s = Inl e)"
  by (cases r) auto

subsection \<open>Weakest preconditions\<close>

definition wp :: "('s, 'e, 'a) sx \<Rightarrow> ('a \<Rightarrow> 's \<Rightarrow> bool) \<Rightarrow> ('e \<Rightarrow> 's \<Rightarrow> bool) \<Rightarrow> 's \<Rightarrow> bool" where
  "wp m Q E s = (case m s of (Inl e, s') \<Rightarrow> E e s' | (Inr a, s') \<Rightarrow> Q a s')"

named_theorems wp_simps "symbolic execution of calls"

lemma wp_ret [wp_simps]: "wp (ret a) Q E = Q a"
  by (simp add: fun_eq_iff wp_def ret_def)

lemma wp_raise [wp_simps]: "wp (raise e) Q E = E e"
  by (simp add: fun_eq_iff wp_def raise_def)

lemma wp_andthen [wp_simps]: "wp (andthen m f) Q E s = wp m (\<lambda>a. wp (f a) Q E) E s"
  by (simp add: wp_def andthen_def split: prod.splits sum.splits)

lemma wp_on_error [wp_simps]: "wp (on_error m h) Q E s = wp m Q (\<lambda>e. wp (h e) Q E) s"
  by (simp add: wp_def on_error_def split: prod.splits sum.splits)

lemma wp_reads [wp_simps]: "wp (reads f) Q E s = Q (f s) s"
  by (simp add: wp_def reads_def)

lemma wp_check [wp_simps]: "wp (check b e) Q E s = (if b then Q () s else E e s)"
  by (simp add: check_def wp_simps)

lemma wp_from_outcome [wp_simps]:
  "wp (from_outcome r) Q E s = (case r of Inl e \<Rightarrow> E e s | Inr a \<Rightarrow> Q a s)"
  by (simp add: wp_def from_outcome_def split: sum.splits)

lemma wp_or_raise [wp_simps]:
  "wp (or_raise x e) Q E s = (case x of None \<Rightarrow> E e s | Some a \<Rightarrow> Q a s)"
  by (simp add: or_raise_def wp_simps split: option.splits)

lemma wp_transact [wp_simps]:
  "wp (transact f) Q E s = (case f s of Inl e \<Rightarrow> E e s | Inr (a, s') \<Rightarrow> Q a s')"
  by (simp add: wp_def transact_def split: sum.splits prod.splits)

lemma wp_if [wp_simps]: "wp (if b then m else n) Q E s = (if b then wp m Q E s else wp n Q E s)"
  by simp

lemma wp_case_option [wp_simps]:
  "wp (case x of None \<Rightarrow> m | Some a \<Rightarrow> n a) Q E s =
    (case x of None \<Rightarrow> wp m Q E s | Some a \<Rightarrow> wp (n a) Q E s)"
  by (simp split: option.splits)

lemma wp_case_prod [wp_simps]:
  "wp (case x of (a, b) \<Rightarrow> n a b) Q E s = (case x of (a, b) \<Rightarrow> wp (n a b) Q E s)"
  by (simp split: prod.splits)

lemma wp_mono:
  assumes "wp m Q E s" "\<And>a s'. Q a s' \<Longrightarrow> Q' a s'" "\<And>e s'. E e s' \<Longrightarrow> E' e s'"
  shows "wp m Q' E' s"
  using assms by (auto simp: wp_def split: prod.splits sum.splits)

lemma wp_each:
  assumes "\<And>x a s. x \<in> set xs \<Longrightarrow> I a s \<Longrightarrow> wp (f x a) I E s" "I acc s"
  shows "wp (each f xs acc) I E s"
  using assms
proof (induction xs arbitrary: acc s)
  case (Cons x xs)
  have "wp (f x acc) I E s" using Cons.prems by simp
  then have "wp (f x acc) (\<lambda>a. wp (each f xs a) I E) E s"
    by (rule wp_mono) (use Cons in auto)
  then show ?case by (simp add: wp_andthen)
qed (simp add: wp_ret)

lemma wpD_Inr: "wp m Q E s \<Longrightarrow> m s = (Inr a, s') \<Longrightarrow> Q a s'"
  by (simp add: wp_def)

lemma wpD_Inl: "wp m Q E s \<Longrightarrow> m s = (Inl e, s') \<Longrightarrow> E e s'"
  by (simp add: wp_def)

lemma wpI: "(\<And>a s'. m s = (Inr a, s') \<Longrightarrow> Q a s') \<Longrightarrow> (\<And>e s'. m s = (Inl e, s') \<Longrightarrow> E e s') \<Longrightarrow> wp m Q E s"
  by (auto simp: wp_def split: prod.splits sum.splits)

subsection \<open>State relations kept by a call\<close>

text \<open>\<open>keeps R m\<close>: whatever the call does and however it ends, the states before and after are
  related by \<open>R\<close>.  With \<open>R\<close> reflexive and transitive the relation is compositional, so an
  invariant (\<open>I s \<longrightarrow> I s'\<close>) or a monotonicity fact of every durable operation lifts to every
  service built from them.\<close>

definition keeps :: "('s \<Rightarrow> 's \<Rightarrow> bool) \<Rightarrow> ('s, 'e, 'a) sx \<Rightarrow> bool" where
  "keeps R m \<longleftrightarrow> (\<forall>s. R s (snd (m s)))"

named_theorems keeps_intros "compositional rules for keeps"

lemma keepsD: "keeps R m \<Longrightarrow> m s = (r, s') \<Longrightarrow> R s s'"
  by (metis keeps_def snd_conv)

lemma keeps_transact:
  "reflp R \<Longrightarrow> (\<And>s a s'. f s = Inr (a, s') \<Longrightarrow> R s s') \<Longrightarrow> keeps R (transact f)"
  by (auto simp: keeps_def transact_def reflp_def split: sum.splits prod.splits)

locale preorder_relation =
  fixes R :: "'s \<Rightarrow> 's \<Rightarrow> bool"
  assumes R_refl: "R s s" and R_trans: "R s t \<Longrightarrow> R t u \<Longrightarrow> R s u"
begin

lemma keeps_ret: "keeps R (ret a)"
  by (simp add: keeps_def ret_def R_refl)

lemma keeps_raise: "keeps R (raise e)"
  by (simp add: keeps_def raise_def R_refl)

lemma keeps_reads: "keeps R (reads f)"
  by (simp add: keeps_def reads_def R_refl)

lemma keeps_check: "keeps R (check b e)"
  by (simp add: check_def keeps_ret keeps_raise)

lemma keeps_from_outcome: "keeps R (from_outcome r)"
  by (simp add: keeps_def from_outcome_def R_refl)

lemma keeps_or_raise: "keeps R (or_raise x e)"
  by (simp add: or_raise_def keeps_ret keeps_raise split: option.splits)

lemma keeps_andthen:
  assumes "keeps R m" "\<And>a. keeps R (f a)"
  shows "keeps R (andthen m f)"
  unfolding keeps_def
proof
  fix s
  show "R s (snd (andthen m f s))"
  proof (cases "m s")
    case (Pair r s1)
    then have R1: "R s s1" by (rule keepsD [OF assms(1)])
    show ?thesis
    proof (cases r)
      case (Inl e)
      then show ?thesis using Pair R1 by (simp add: andthen_def)
    next
      case (Inr a)
      have "R s1 (snd (f a s1))" using assms(2) by (simp add: keeps_def)
      then show ?thesis using Pair Inr R_trans [OF R1] by (simp add: andthen_def)
    qed
  qed
qed

lemma keeps_on_error:
  assumes "keeps R m" "\<And>e. keeps R (h e)"
  shows "keeps R (on_error m h)"
  unfolding keeps_def
proof
  fix s
  show "R s (snd (on_error m h s))"
  proof (cases "m s")
    case (Pair r s1)
    then have R1: "R s s1" by (rule keepsD [OF assms(1)])
    show ?thesis
    proof (cases r)
      case (Inr a)
      then show ?thesis using Pair R1 by (simp add: on_error_def)
    next
      case (Inl e)
      have "R s1 (snd (h e s1))" using assms(2) by (simp add: keeps_def)
      then show ?thesis using Pair Inl R_trans [OF R1] by (simp add: on_error_def)
    qed
  qed
qed

lemma keeps_if: "keeps R m \<Longrightarrow> keeps R n \<Longrightarrow> keeps R (if b then m else n)"
  by simp

lemma keeps_if_cond: "(b \<Longrightarrow> keeps R m) \<Longrightarrow> (\<not> b \<Longrightarrow> keeps R n) \<Longrightarrow> keeps R (if b then m else n)"
  by simp

lemma keeps_case_option:
  "keeps R m \<Longrightarrow> (\<And>a. keeps R (n a)) \<Longrightarrow> keeps R (case x of None \<Rightarrow> m | Some a \<Rightarrow> n a)"
  by (simp split: option.splits)

lemma keeps_case_prod:
  "(\<And>a b. keeps R (n a b)) \<Longrightarrow> keeps R (case x of (a, b) \<Rightarrow> n a b)"
  by (simp split: prod.splits)

lemma keeps_each: "(\<And>x acc. x \<in> set xs \<Longrightarrow> keeps R (f x acc)) \<Longrightarrow> keeps R (each f xs acc)"
  by (induction xs arbitrary: acc) (simp_all add: keeps_ret keeps_andthen)

lemma keeps_first: "(\<And>x. x \<in> set xs \<Longrightarrow> keeps R (f x)) \<Longrightarrow> keeps R (first_result f xs)"
  by (induction xs) (auto intro!: keeps_ret keeps_andthen split: option.split)

lemmas keeps_basic = keeps_ret keeps_raise keeps_reads keeps_check keeps_from_outcome
  keeps_or_raise keeps_andthen keeps_on_error keeps_if keeps_case_option keeps_case_prod

end

section \<open>Tables\<close>

text \<open>A table is the list of its rows in insertion order, so the position of a row is its rowid.\<close>

definition set_rows :: "('r \<Rightarrow> bool) \<Rightarrow> ('r \<Rightarrow> 'r) \<Rightarrow> 'r list \<Rightarrow> 'r list" where
  "set_rows p f rows = map (\<lambda>r. if p r then f r else r) rows"

definition count_rows :: "('r \<Rightarrow> bool) \<Rightarrow> 'r list \<Rightarrow> nat" where
  "count_rows p rows = length (filter p rows)"

lemma length_set_rows [simp]: "length (set_rows p f rows) = length rows"
  by (simp add: set_rows_def)

lemma set_rows_Nil [simp]: "set_rows p f [] = []"
  by (simp add: set_rows_def)

lemma set_rows_Cons [simp]: "set_rows p f (r # rs) = (if p r then f r else r) # set_rows p f rs"
  by (simp add: set_rows_def)

lemma map_set_rows: "(\<And>r. p r \<Longrightarrow> g (f r) = g r) \<Longrightarrow> map g (set_rows p f rows) = map g rows"
  by (simp add: set_rows_def)

lemma in_set_rows:
  "x \<in> set (set_rows p f rows) \<longleftrightarrow> (\<exists>r \<in> set rows. x = (if p r then f r else r))"
  by (auto simp: set_rows_def)

lemma ball_set_rows:
  "(\<And>x. x \<in> set xs \<Longrightarrow> Q x) \<Longrightarrow> (\<And>x. x \<in> set xs \<Longrightarrow> p x \<Longrightarrow> Q x \<Longrightarrow> Q (f x)) \<Longrightarrow>
    \<forall>x \<in> set (set_rows p f xs). Q x"
  by (auto simp: set_rows_def)

lemma find_SomeD: "find p xs = Some x \<Longrightarrow> x \<in> set xs \<and> p x"
  by (induction xs) (auto split: if_splits)

lemma find_None_iff': "find p xs = None \<longleftrightarrow> (\<forall>x \<in> set xs. \<not> p x)"
  by (induction xs) auto

lemma find_append:
  "find p (xs @ ys) = (case find p xs of None \<Rightarrow> find p ys | Some x \<Rightarrow> Some x)"
  by (induction xs) auto

lemma find_set_rows:
  assumes "\<And>r. q r \<Longrightarrow> p (f r) = p r"
  shows "find p (set_rows q f rows) = map_option (\<lambda>r. if q r then f r else r) (find p rows)"
  using assms by (induction rows) auto

lemma distinct_map_unique:
  "distinct (map g xs) \<Longrightarrow> x \<in> set xs \<Longrightarrow> y \<in> set xs \<Longrightarrow> g x = g y \<Longrightarrow> x = y"
  by (auto simp: distinct_map inj_on_def)

lemma find_distinct:
  assumes "distinct (map g xs)" "x \<in> set xs"
  shows "find (\<lambda>r. g r = g x) xs = Some x"
  using assms by (induction xs) (auto simp: image_iff)

lemma sorted_map_last_max:
  "sorted (map g xs) \<Longrightarrow> x \<in> set xs \<Longrightarrow> g x \<le> g (last xs)"
  by (induction xs) auto

section \<open>Strings\<close>

definition code_point :: "char \<Rightarrow> nat" where
  "code_point c = of_char c"

definition is_space :: "char \<Rightarrow> bool" where
  "is_space c \<longleftrightarrow> (let n = code_point c in
     9 \<le> n \<and> n \<le> 13 \<or> 28 \<le> n \<and> n \<le> 32 \<or> n = 133 \<or> n = 160)"

definition is_printable :: "char \<Rightarrow> bool" where
  "is_printable c \<longleftrightarrow> (let n = code_point c in
     32 \<le> n \<and> n \<le> 126 \<or> 161 \<le> n \<and> n \<noteq> 173)"

definition lstrip :: "string \<Rightarrow> string" where
  "lstrip = dropWhile is_space"

definition rstrip :: "string \<Rightarrow> string" where
  "rstrip s = rev (dropWhile is_space (rev s))"

definition strip :: "string \<Rightarrow> string" where
  "strip s = rstrip (lstrip s)"

definition rstrip_char :: "char \<Rightarrow> string \<Rightarrow> string" where
  "rstrip_char c s = rev (dropWhile (\<lambda>d. d = c) (rev s))"

definition starts_with :: "string \<Rightarrow> string \<Rightarrow> bool" where
  "starts_with p s \<longleftrightarrow> take (length p) s = p"

fun contains :: "string \<Rightarrow> string \<Rightarrow> bool" where
  "contains p [] = (p = [])"
| "contains p (c # s) = (starts_with p (c # s) \<or> contains p s)"

fun join :: "string \<Rightarrow> string list \<Rightarrow> string" where
  "join sep [] = []"
| "join sep [s] = s"
| "join sep (s # t # ss) = s @ sep @ join sep (t # ss)"

definition is_lower :: "char \<Rightarrow> bool" where
  "is_lower c \<longleftrightarrow> CHR ''a'' \<le> c \<and> c \<le> CHR ''z''"

definition is_upper :: "char \<Rightarrow> bool" where
  "is_upper c \<longleftrightarrow> CHR ''A'' \<le> c \<and> c \<le> CHR ''Z''"

definition is_digit :: "char \<Rightarrow> bool" where
  "is_digit c \<longleftrightarrow> CHR ''0'' \<le> c \<and> c \<le> CHR ''9''"

fun decimal :: "nat \<Rightarrow> string" where
  "decimal n = (if n < 10 then [char_of (48 + n)] else decimal (n div 10) @ [char_of (48 + n mod 10)])"

declare decimal.simps [simp del]

definition decimal_int :: "int \<Rightarrow> string" where
  "decimal_int i = (if i < 0 then ''-'' @ decimal (nat (- i)) else decimal (nat i))"

lemma strip_Nil [simp]: "strip [] = []"
  by (simp add: strip_def lstrip_def rstrip_def)

lemma starts_with_append [simp]: "starts_with p (p @ s)"
  by (simp add: starts_with_def)

lemma starts_with_iff: "starts_with p s \<longleftrightarrow> (\<exists>t. s = p @ t)"
  by (auto simp: starts_with_def) (metis append_take_drop_id)

section \<open>JSON values\<close>

text \<open>A JSON column is modelled by the value it encodes; an object is its list of members, in
  sorted order of the keys.\<close>

datatype json =
    J_null
  | J_bool bool
  | J_int int
  | J_string string
  | J_list "json list"
  | J_object "(string \<times> json) list"

definition j_option :: "string option \<Rightarrow> json" where
  "j_option x = (case x of None \<Rightarrow> J_null | Some s \<Rightarrow> J_string s)"

end
