(* ===== verification/Factory_Domain.thy ===== *)
theory Factory_Domain
  imports Factory_Prelude
begin

text \<open>
  The domain layer, \<^verbatim>\<open>src/factory/domain\<close>: the enumerations of \<^verbatim>\<open>enums.py\<close>, the lifecycle graph of
  \<^verbatim>\<open>task_lifecycle.py\<close>, the data containers and derived run properties of \<^verbatim>\<open>models.py\<close>, the
  exceptions of \<^verbatim>\<open>errors.py\<close>, the project registry of \<^verbatim>\<open>projects.py\<close> and the backlog and sprint
  values of \<^verbatim>\<open>backlog.py\<close> and \<^verbatim>\<open>sprint.py\<close>.  Timestamps are integers (microseconds, UTC).
\<close>

section \<open>Enumerations (enums.py)\<close>

datatype task_status =
    Task_DISCOVERED | Task_READY | Task_CLAIMED | Task_RUNNING | Task_VALIDATING | Task_PR_OPEN
  | Task_WAITING_HUMAN | Task_CHANGES_REQUESTED | Task_DONE | Task_BLOCKED | Task_FAILED
  | Task_CANCELLED

datatype run_status = Run_PENDING | Run_RUNNING | Run_SUCCEEDED | Run_FAILED | Run_CANCELLED

datatype task_kind = CODE | OPERATIONAL

datatype gate_status = Gate_PENDING | Gate_PASSED | Gate_FAILED | Gate_SKIPPED

datatype validation_outcome = Outcome_PENDING | READY_FOR_NEXT_PHASE | GATES_FAILED

datatype agent_kind = OPENHANDS | CODEX | OTHER

datatype repository_role = CONTROL_PLANE | TARGET

instantiation task_status :: enum
begin

definition enum_task_status :: "task_status list" where
  "enum_task_status = [Task_DISCOVERED, Task_READY, Task_CLAIMED, Task_RUNNING, Task_VALIDATING,
     Task_PR_OPEN, Task_WAITING_HUMAN, Task_CHANGES_REQUESTED, Task_DONE, Task_BLOCKED,
     Task_FAILED, Task_CANCELLED]"

definition enum_all_task_status :: "(task_status \<Rightarrow> bool) \<Rightarrow> bool" where
  "enum_all_task_status P \<longleftrightarrow> list_all P (enum_class.enum :: task_status list)"

definition enum_ex_task_status :: "(task_status \<Rightarrow> bool) \<Rightarrow> bool" where
  "enum_ex_task_status P \<longleftrightarrow> list_ex P (enum_class.enum :: task_status list)"

instance
proof
  show U: "(UNIV :: task_status set) = set enum_class.enum"
  proof (rule set_eqI)
    fix x :: task_status
    show "x \<in> UNIV \<longleftrightarrow> x \<in> set enum_class.enum"
      by (cases x) (simp_all add: enum_task_status_def)
  qed
  show "distinct (enum_class.enum :: task_status list)"
    by (simp add: enum_task_status_def)
  show "enum_class.enum_all P \<longleftrightarrow> Ball UNIV P" for P :: "task_status \<Rightarrow> bool"
    unfolding U enum_all_task_status_def by (simp add: list_all_iff)
  show "enum_class.enum_ex P \<longleftrightarrow> Bex UNIV P" for P :: "task_status \<Rightarrow> bool"
    unfolding U enum_ex_task_status_def by (simp add: list_ex_iff)
qed

end

fun task_status_value :: "task_status \<Rightarrow> string" where
  "task_status_value Task_DISCOVERED = ''DISCOVERED''"
| "task_status_value Task_READY = ''READY''"
| "task_status_value Task_CLAIMED = ''CLAIMED''"
| "task_status_value Task_RUNNING = ''RUNNING''"
| "task_status_value Task_VALIDATING = ''VALIDATING''"
| "task_status_value Task_PR_OPEN = ''PR_OPEN''"
| "task_status_value Task_WAITING_HUMAN = ''WAITING_HUMAN''"
| "task_status_value Task_CHANGES_REQUESTED = ''CHANGES_REQUESTED''"
| "task_status_value Task_DONE = ''DONE''"
| "task_status_value Task_BLOCKED = ''BLOCKED''"
| "task_status_value Task_FAILED = ''FAILED''"
| "task_status_value Task_CANCELLED = ''CANCELLED''"

fun run_status_value :: "run_status \<Rightarrow> string" where
  "run_status_value Run_PENDING = ''PENDING''"
| "run_status_value Run_RUNNING = ''RUNNING''"
| "run_status_value Run_SUCCEEDED = ''SUCCEEDED''"
| "run_status_value Run_FAILED = ''FAILED''"
| "run_status_value Run_CANCELLED = ''CANCELLED''"

fun gate_status_value :: "gate_status \<Rightarrow> string" where
  "gate_status_value Gate_PENDING = ''PENDING''"
| "gate_status_value Gate_PASSED = ''PASSED''"
| "gate_status_value Gate_FAILED = ''FAILED''"
| "gate_status_value Gate_SKIPPED = ''SKIPPED''"

fun validation_outcome_value :: "validation_outcome \<Rightarrow> string" where
  "validation_outcome_value Outcome_PENDING = ''PENDING''"
| "validation_outcome_value READY_FOR_NEXT_PHASE = ''READY_FOR_NEXT_PHASE''"
| "validation_outcome_value GATES_FAILED = ''GATES_FAILED''"

section \<open>The lifecycle graph (task\_lifecycle.py)\<close>

definition TERMINAL_STATES :: "task_status set" where
  "TERMINAL_STATES = {Task_DONE, Task_FAILED, Task_CANCELLED}"

fun TRANSITIONS :: "task_status \<Rightarrow> task_status set" where
  "TRANSITIONS Task_DISCOVERED = {Task_READY, Task_CANCELLED, Task_FAILED}"
| "TRANSITIONS Task_READY = {Task_CLAIMED, Task_BLOCKED, Task_CANCELLED}"
| "TRANSITIONS Task_CLAIMED = {Task_RUNNING, Task_BLOCKED, Task_CANCELLED}"
| "TRANSITIONS Task_RUNNING = {Task_VALIDATING, Task_BLOCKED, Task_FAILED, Task_CANCELLED}"
| "TRANSITIONS Task_VALIDATING =
     {Task_PR_OPEN, Task_READY, Task_BLOCKED, Task_DONE, Task_FAILED, Task_CANCELLED}"
| "TRANSITIONS Task_PR_OPEN = {Task_WAITING_HUMAN, Task_BLOCKED, Task_FAILED, Task_CANCELLED}"
| "TRANSITIONS Task_WAITING_HUMAN =
     {Task_CHANGES_REQUESTED, Task_DONE, Task_FAILED, Task_CANCELLED}"
| "TRANSITIONS Task_CHANGES_REQUESTED = {Task_READY, Task_CANCELLED}"
| "TRANSITIONS Task_BLOCKED = {Task_READY, Task_VALIDATING, Task_CANCELLED}"
| "TRANSITIONS Task_DONE = {}"
| "TRANSITIONS Task_FAILED = {}"
| "TRANSITIONS Task_CANCELLED = {}"

definition next_states :: "task_status \<Rightarrow> task_status set" where
  "next_states status = TRANSITIONS status"

fun PERSISTENCE_ONLY_TRANSITIONS :: "task_status \<Rightarrow> task_status set" where
  "PERSISTENCE_ONLY_TRANSITIONS Task_READY = {Task_WAITING_HUMAN}"
| "PERSISTENCE_ONLY_TRANSITIONS Task_RUNNING = {Task_WAITING_HUMAN}"
| "PERSISTENCE_ONLY_TRANSITIONS Task_FAILED = {Task_READY}"
| "PERSISTENCE_ONLY_TRANSITIONS _ = {}"

definition can_transition :: "task_status \<Rightarrow> task_status \<Rightarrow> bool" where
  "can_transition source target \<longleftrightarrow> target \<in> TRANSITIONS source"

definition can_persist_transition :: "task_status \<Rightarrow> task_status \<Rightarrow> bool" where
  "can_persist_transition source target \<longleftrightarrow>
     can_transition source target \<or> target \<in> PERSISTENCE_ONLY_TRANSITIONS source"

section \<open>Data (models.py)\<close>

record task_source =
  src_provider :: string
  src_repository :: string
  src_issue_number :: int

record task_transition =
  tt_task_id :: string
  tt_from :: task_status
  tt_to :: task_status
  tt_id :: string
  tt_occurred_at :: int

record repository =
  repo_slug :: string
  repo_role :: repository_role
  repo_default_branch :: string
  repo_fork_slug :: "string option"

record workspace =
  ws_id :: string
  ws_repository :: string
  ws_branch :: string
  ws_path :: string
  ws_kind :: task_kind
  ws_created_at :: int

record quality_gate =
  gate_name :: string
  gate_status :: gate_status
  gate_detail :: "string option"
  gate_required :: bool

record gate_spec =
  spec_name :: string
  spec_argv :: "string list"
  spec_required :: bool

record context_fragment =
  frag_source :: string
  frag_type :: string
  frag_id :: string
  frag_version :: string
  frag_content_ref :: string
  frag_content :: string

record context_pack =
  pack_version :: int
  pack_budget :: int
  pack_fragments :: "context_fragment list"
  pack_sha256 :: string
  pack_base_sha256 :: "string option"

record factory_task =
  task_title :: string
  task_repository :: string
  task_source :: "task_source option"
  task_id :: string
  task_body :: string
  task_status :: task_status
  task_labels :: "string list"
  task_kind :: task_kind
  task_blocked_reason :: "string option"
  task_created_at :: int
  task_updated_at :: int
  task_project :: string

record agent_run =
  run_task_id :: string
  run_adapter :: agent_kind
  run_id :: string
  run_status :: run_status
  run_workspace :: "workspace option"
  run_summary :: "string option"
  run_started_at :: "int option"
  run_last_heartbeat :: "int option"
  run_agent_heartbeat :: "int option"
  run_finished_at :: "int option"
  run_gates :: "quality_gate list"
  run_validated_revision :: "string option"
  run_context_pack :: "context_pack option"
  run_project :: string
  run_worker_id :: "string option"
  run_session_id :: "string option"

record published_revision =
  rev_commit_sha :: string
  rev_branch :: string

record pull_request =
  pr_repository :: string
  pr_head_branch :: string
  pr_base_branch :: string
  pr_title :: string
  pr_body :: string
  pr_number :: "int option"
  pr_url :: "string option"
  pr_task_id :: "string option"
  pr_run_id :: "string option"
  pr_opened_at :: int
  pr_merged :: bool
  pr_commit_sha :: "string option"

section \<open>Exceptions (errors.py and the exceptions of the services)\<close>

text \<open>One constructor per exception class; the arguments are the attributes the class keeps.
  \<open>OtherError\<close> stands for an exception of a provider, an engine or the operating system.\<close>

datatype py_error =
    KeyError string
  | ValueError string
  | AssertionError
  | IntegrityError
  | ProviderRequestError
  | PersistenceError string
  | TaskSourceError string
  | DuplicateTaskError task_source
  | InvalidTransitionError task_status task_status
  | TaskStateChangedError string task_status task_status
  | DuplicateRunError string "string option" "string option"
  | TaskNotReadyError string task_status
  | DispatchConflictError string
  | AgentDispatchError string string
  | AgentCollectError string string
  | WorkspaceProvisioningError string
  | TaskNotPublishableError string string string
  | RevisionNotPublishableError string
  | ValidatedRevisionMissingError string string
  | ValidatedRevisionMismatchError string
  | WorkspaceRevisionError string
  | PullRequestIdentityError string string
  | UnsafeRemoteError string
  | DuplicatePullRequestError string string string
  | RetryNotAllowedError string
  | ReworkNotAllowedError string
  | ContextBuildError string
  | ProjectRoutingError string
  | TerminalRecoveryRefused string
  | SecurityReviewBlocked string
  | OtherError string

fun is_value_error :: "py_error \<Rightarrow> bool" where
  "is_value_error (ValueError _) = True"
| "is_value_error (TaskSourceError _) = True"
| "is_value_error (InvalidTransitionError _ _) = True"
| "is_value_error (ReworkNotAllowedError _) = True"
| "is_value_error (ContextBuildError _) = True"
| "is_value_error (ProjectRoutingError _) = True"
| "is_value_error (TerminalRecoveryRefused _) = True"
| "is_value_error _ = False"

fun is_factory_error :: "py_error \<Rightarrow> bool" where
  "is_factory_error (KeyError _) = False"
| "is_factory_error (ValueError _) = False"
| "is_factory_error AssertionError = False"
| "is_factory_error IntegrityError = False"
| "is_factory_error (ReworkNotAllowedError _) = False"
| "is_factory_error (ContextBuildError _) = False"
| "is_factory_error (ProjectRoutingError _) = False"
| "is_factory_error (TerminalRecoveryRefused _) = False"
| "is_factory_error (SecurityReviewBlocked _) = False"
| "is_factory_error (OtherError _) = False"
| "is_factory_error _ = True"

section \<open>Construction checks (the \<open>__post_init__\<close> methods)\<close>

definition validate_slug :: "string \<Rightarrow> (py_error, unit) outcome" where
  "validate_slug slug =
     (if CHR ''/'' \<notin> set slug then Inl (ValueError ''repository slug must be owner/name'')
      else Inr ())"

text \<open>\<^verbatim>\<open>[a-z0-9][a-z0-9._-]*\<close>, full match.\<close>

definition provider_pattern :: "string \<Rightarrow> bool" where
  "provider_pattern s = (case s of [] \<Rightarrow> False
     | c # cs \<Rightarrow> (is_lower c \<or> is_digit c) \<and>
         list_all (\<lambda>d. is_lower d \<or> is_digit d \<or> d \<in> set ''._-'') cs)"

definition check_task_source :: "task_source \<Rightarrow> (py_error, task_source) outcome" where
  "check_task_source s =
     (if \<not> provider_pattern (src_provider s)
        then Inl (ValueError ''task source provider must be a lowercase ascii token'')
      else case validate_slug (src_repository s) of
        Inl e \<Rightarrow> Inl e
      | Inr _ \<Rightarrow> if src_issue_number s \<le> 0
          then Inl (ValueError ''task source issue number must be positive'') else Inr s)"

definition source_external_ref :: "task_source \<Rightarrow> string" where
  "source_external_ref s = src_repository s @ ''#'' @ decimal_int (src_issue_number s)"

definition check_workspace :: "workspace \<Rightarrow> (py_error, workspace) outcome" where
  "check_workspace w =
     (if ws_branch w = [] \<and> ws_kind w = CODE
        then Inl (ValueError ''workspace must be created on an isolated branch'')
      else if ws_kind w = OPERATIONAL \<and> ws_path w = []
        then Inl (ValueError ''operational workspace must have a path'')
      else Inr w)"

definition check_gate_spec :: "gate_spec \<Rightarrow> (py_error, gate_spec) outcome" where
  "check_gate_spec g =
     (if strip (spec_name g) = [] then Inl (ValueError ''quality gate name must not be empty'')
      else if spec_argv g = [] then Inl (ValueError ''quality gate argv must not be empty'')
      else Inr g)"

definition check_factory_task :: "factory_task \<Rightarrow> (py_error, factory_task) outcome" where
  "check_factory_task t =
     (if strip (task_title t) = [] then Inl (ValueError ''task title must not be empty'')
      else case validate_slug (task_repository t) of
        Inl e \<Rightarrow> Inl e
      | Inr _ \<Rightarrow> if task_project t = [] then Inl (ValueError ''task project id is required'')
          else Inr t)"

definition check_published_revision :: "published_revision \<Rightarrow> (py_error, published_revision) outcome" where
  "check_published_revision r =
     (if strip (rev_commit_sha r) = []
        then Inl (ValueError ''published revision must carry a commit sha'')
      else if strip (rev_branch r) = []
        then Inl (ValueError ''published revision must carry a branch'')
      else Inr r)"

definition task_external_ref :: "factory_task \<Rightarrow> string option" where
  "task_external_ref t = map_option source_external_ref (task_source t)"

text \<open>\<open>new_workspace\<close> and \<open>new_operational_workspace\<close>: the generated id and the clock are arguments.\<close>

definition new_workspace :: "string \<Rightarrow> int \<Rightarrow> factory_task \<Rightarrow> string \<Rightarrow> (py_error, workspace) outcome" where
  "new_workspace wid now t root = check_workspace
     \<lparr>ws_id = wid, ws_repository = task_repository t,
      ws_branch = ''factory/'' @ task_id t @ ''/'' @ wid,
      ws_path = rstrip_char (CHR ''/'') root @ ''/'' @ wid, ws_kind = CODE, ws_created_at = now\<rparr>"

definition new_operational_workspace ::
    "string \<Rightarrow> int \<Rightarrow> factory_task \<Rightarrow> string \<Rightarrow> (py_error, workspace) outcome" where
  "new_operational_workspace wid now t root = check_workspace
     \<lparr>ws_id = wid, ws_repository = task_repository t, ws_branch = [],
      ws_path = rstrip_char (CHR ''/'') root @ ''/'' @ wid, ws_kind = OPERATIONAL,
      ws_created_at = now\<rparr>"

section \<open>Derived properties of gates and runs\<close>

definition is_green :: "quality_gate \<Rightarrow> bool" where
  "is_green g \<longleftrightarrow> gate_status g = Gate_PASSED"

definition is_blocking :: "quality_gate \<Rightarrow> bool" where
  "is_blocking g \<longleftrightarrow> gate_required g \<and> \<not> is_green g"

definition terminal_run_status :: "run_status \<Rightarrow> bool" where
  "terminal_run_status s \<longleftrightarrow> s \<in> {Run_SUCCEEDED, Run_FAILED, Run_CANCELLED}"

definition is_terminal :: "agent_run \<Rightarrow> bool" where
  "is_terminal r \<longleftrightarrow> terminal_run_status (run_status r)"

definition all_gates_passed :: "agent_run \<Rightarrow> bool" where
  "all_gates_passed r \<longleftrightarrow> run_gates r \<noteq> [] \<and> list_all is_green (run_gates r)"

definition required_gates_passed :: "agent_run \<Rightarrow> bool" where
  "required_gates_passed r \<longleftrightarrow> list_all is_green (filter gate_required (run_gates r))"

definition has_required_gates :: "agent_run \<Rightarrow> bool" where
  "has_required_gates r \<longleftrightarrow> list_ex gate_required (run_gates r)"

definition validation_outcome :: "agent_run \<Rightarrow> validation_outcome" where
  "validation_outcome r =
     (if run_status r \<noteq> Run_SUCCEEDED then Outcome_PENDING
      else if required_gates_passed r then READY_FOR_NEXT_PHASE
      else GATES_FAILED)"

section \<open>Projects (projects.py), backlog items and sprint manifests\<close>

record project_profile =
  prof_project_id :: string
  prof_repository :: string
  prof_checkout :: string
  prof_base_ref :: string
  prof_gates :: "gate_spec list"
  prof_context_profile :: string
  prof_deploy_policy :: string
  prof_git_host :: string
  prof_deploy_required :: bool
  prof_provider_ci_required :: bool
  prof_required_ci_checks :: "string list"

definition slug_char :: "char \<Rightarrow> bool" where
  "slug_char c \<longleftrightarrow> is_lower c \<or> is_upper c \<or> is_digit c \<or> c \<in> set ''_.-''"

text \<open>\<^verbatim>\<open>[a-z0-9][a-z0-9-]{0,63}\<close> and \<^verbatim>\<open>[A-Za-z0-9_.-]+/[A-Za-z0-9_.-]+\<close>, full match.\<close>

definition project_id_pattern :: "string \<Rightarrow> bool" where
  "project_id_pattern s = (case s of [] \<Rightarrow> False
     | c # cs \<Rightarrow> (is_lower c \<or> is_digit c) \<and> length cs \<le> 63 \<and>
         list_all (\<lambda>d. is_lower d \<or> is_digit d \<or> d = CHR ''-'') cs)"

definition repository_pattern :: "string \<Rightarrow> bool" where
  "repository_pattern s = (let owner = takeWhile (\<lambda>c. c \<noteq> CHR ''/'') s;
       rest = dropWhile (\<lambda>c. c \<noteq> CHR ''/'') s in
     owner \<noteq> [] \<and> list_all slug_char owner \<and>
     (case rest of [] \<Rightarrow> False | _ # name \<Rightarrow> name \<noteq> [] \<and> list_all slug_char name))"

definition git_host_pattern :: "string \<Rightarrow> bool" where
  "git_host_pattern s \<longleftrightarrow> s \<noteq> [] \<and>
     list_all (\<lambda>c. is_lower c \<or> is_upper c \<or> is_digit c \<or> c \<in> set ''.-'') s"

definition check_project_profile :: "project_profile \<Rightarrow> (py_error, project_profile) outcome" where
  "check_project_profile p =
     (if \<not> project_id_pattern (prof_project_id p) then Inl (ProjectRoutingError ''invalid project id'')
      else if \<not> repository_pattern (prof_repository p)
        then Inl (ProjectRoutingError ''invalid project repository'')
      else if prof_checkout p = [] \<or> prof_base_ref p = [] \<or>
          prof_context_profile p \<notin> {''repository'', ''repository+ecc''}
        then Inl (ProjectRoutingError ''incomplete project profile'')
      else if \<not> starts_with ''/'' (prof_checkout p)
        then Inl (ProjectRoutingError ''project checkout must be absolute'')
      else if prof_deploy_policy p \<noteq> ''human-only''
        then Inl (ProjectRoutingError ''unsupported deploy policy'')
      else if list_ex (\<lambda>n. strip n = []) (prof_required_ci_checks p)
        then Inl (ProjectRoutingError ''invalid required CI check'')
      else if \<not> distinct (prof_required_ci_checks p)
        then Inl (ProjectRoutingError ''duplicate required CI check'')
      else if prof_gates p = [] \<or> \<not> list_ex spec_required (prof_gates p)
        then Inl (ProjectRoutingError ''project requires at least one quality gate'')
      else if \<not> git_host_pattern (prof_git_host p)
        then Inl (ProjectRoutingError ''invalid project git host'')
      else Inr p)"

type_synonym project_registry = "project_profile list"

definition make_registry :: "project_profile list \<Rightarrow> (py_error, project_registry) outcome" where
  "make_registry profiles =
     (if profiles = [] \<or> \<not> distinct (map prof_project_id profiles) \<or>
         \<not> distinct (map prof_repository profiles)
      then Inl (ProjectRoutingError ''duplicate or empty project registry'') else Inr profiles)"

definition resolve_project ::
    "project_registry \<Rightarrow> string \<Rightarrow> string option \<Rightarrow> (py_error, project_profile) outcome" where
  "resolve_project reg project slug =
     (case find (\<lambda>p. prof_project_id p = project) reg of
        None \<Rightarrow> Inl (ProjectRoutingError ''unregistered or mismatched project'')
      | Some p \<Rightarrow> if (\<exists>s \<in> set_option slug. s \<noteq> prof_repository p)
          then Inl (ProjectRoutingError ''unregistered or mismatched project'') else Inr p)"

definition for_repository :: "project_registry \<Rightarrow> string \<Rightarrow> (py_error, project_profile) outcome" where
  "for_repository reg slug =
     (case find (\<lambda>p. prof_repository p = slug) reg of
        None \<Rightarrow> Inl (ProjectRoutingError ''unregistered project repository'')
      | Some p \<Rightarrow> Inr p)"

record work_item =
  item_provider :: string
  item_external_id :: string
  item_title :: string
  item_body :: string
  item_repository :: string
  item_eligible :: bool
  item_dependencies_satisfied :: bool
  item_project :: string

definition check_work_item :: "work_item \<Rightarrow> (py_error, work_item) outcome" where
  "check_work_item w =
     (if item_provider w = [] \<or> item_external_id w = [] \<or> strip (item_title w) = []
        then Inl (ValueError ''work item identity and title are required'')
      else if count_list (item_repository w) (CHR ''/'') \<noteq> 1
        then Inl (ValueError ''work item target repository must be owner/name'')
      else if item_project w = [] then Inl (ValueError ''work item project id is required'')
      else Inr w)"

record materialized_issue =
  iss_repository :: string
  iss_number :: int
  iss_url :: string

datatype sprint_state = Sprint_ACTIVE | Sprint_PAUSED | Sprint_CANCELLED | Sprint_COMPLETE

record sprint_step =
  step_item :: work_item
  step_dependencies :: "string list"

definition STOP_CONDITIONS :: "string list" where
  "STOP_CONDITIONS = [''WAITING_HUMAN'', ''BLOCKED'', ''FAILED'', ''CANCELLED'']"

definition PIPELINE :: "string list" where
  "PIPELINE = [''Trigger:watch'', ''Conditions:active,ordered'',
     ''Validators:authorization,scope,dependencies,wip,duplicates,human_gate'',
     ''Actions:materialize_issue,pause,resume,cancel,request_human'']"

record sprint_manifest =
  man_sprint_id :: string
  man_steps :: "sprint_step list"
  man_wip_limit :: int
  man_stop_conditions :: "string list"
  man_pipeline :: "string list"

definition check_sprint_manifest :: "sprint_manifest \<Rightarrow> (py_error, sprint_manifest) outcome" where
  "check_sprint_manifest m =
     (if man_sprint_id m = [] \<or> \<not> list_all (\<lambda>c. code_point c < 128) (man_sprint_id m) \<or>
         80 < length (man_sprint_id m)
        then Inl (ValueError ''invalid sprint id'')
      else if man_wip_limit m \<noteq> 1 \<or> man_steps m = []
        then Inl (ValueError ''sprint requires steps and WIP=1'')
      else if man_stop_conditions m \<noteq> STOP_CONDITIONS \<or> man_pipeline m \<noteq> PIPELINE
        then Inl (ValueError ''unsupported sprint policy or action'')
      else Inr m)"

end
