(* ===== verification/Factory_Store.thy ===== *)
theory Factory_Store
  imports Factory_Domain "HOL-Library.Sublist"
begin

text \<open>
  The SQLite database of the factory: the tables of \<^verbatim>\<open>infrastructure/persistence/schema.py\<close> with
  their primary keys, unique indexes and foreign keys, and the triggers that project every
  committed fact into the append-only \<^verbatim>\<open>audit_events\<close> table and queue status events.  A trigger
  runs inside the transaction of the statement that fires it, so an index it violates aborts
  that transaction.
\<close>

section \<open>Rows\<close>

record task_row =
  trow_task :: factory_task
  trow_origin :: "string option"
  trow_item :: "string option"

text \<open>A run row stores the workspace by id and the context pack as metadata; its agent run is kept
  without the joined workspace.\<close>

record run_row =
  rrow_run :: agent_run
  rrow_ws :: "string option"
  rrow_created :: int

record pr_row =
  prow_id :: string
  prow_pr :: pull_request

record rework_row =
  rw_id :: string
  rw_task :: string
  rw_run :: string
  rw_feedback :: string
  rw_requested_at :: int

datatype link_state = RESERVED | POSTING | MATERIALIZED

record link_row =
  lk_provider :: string
  lk_external :: string
  lk_repository :: string
  lk_project :: string
  lk_state :: link_state
  lk_number :: "int option"
  lk_url :: "string option"

record rejection_row =
  rej_provider :: string
  rej_external :: string
  rej_project :: string
  rej_reason :: string

record sprint_row =
  sp_manifest :: sprint_manifest
  sp_state :: sprint_state
  sp_position :: nat

record status_event =
  se_transition :: string
  se_task :: string
  se_phase :: string
  se_occurred_at :: int
  se_delivered_at :: "int option"

record audit_event =
  ev_key :: string
  ev_correlation :: string
  ev_seq :: nat
  ev_name :: string
  ev_task :: string
  ev_run :: "string option"
  ev_workspace :: "string option"
  ev_pull_request :: "string option"
  ev_cause :: string
  ev_source :: "task_source option"
  ev_aggregate_type :: string
  ev_aggregate_id :: string
  ev_aggregate_version :: nat
  ev_occurred_at :: int
  ev_evidence :: "(string \<times> json) list"

record store =
  db_tasks :: "task_row list"
  db_transitions :: "task_transition list"
  db_status_events :: "status_event list"
  db_workspaces :: "workspace list"
  db_runs :: "run_row list"
  db_prs :: "pr_row list"
  db_rework :: "rework_row list"
  db_links :: "link_row list"
  db_rejections :: "rejection_row list"
  db_sprints :: "sprint_row list"
  db_audit :: "audit_event list"

definition empty_store :: store where
  "empty_store = \<lparr>db_tasks = [], db_transitions = [], db_status_events = [], db_workspaces = [],
     db_runs = [], db_prs = [], db_rework = [], db_links = [], db_rejections = [],
     db_sprints = [], db_audit = []\<rparr>"

abbreviation tid_of :: "task_row \<Rightarrow> string" where
  "tid_of r \<equiv> task_id (trow_task r)"

abbreviation rid_of :: "run_row \<Rightarrow> string" where
  "rid_of r \<equiv> run_id (rrow_run r)"

definition task_row_of :: "store \<Rightarrow> string \<Rightarrow> task_row option" where
  "task_row_of d tid = find (\<lambda>r. tid_of r = tid) (db_tasks d)"

definition run_row_of :: "store \<Rightarrow> string \<Rightarrow> run_row option" where
  "run_row_of d rid = find (\<lambda>r. rid_of r = rid) (db_runs d)"

definition active_status :: "run_status \<Rightarrow> bool" where
  "active_status s \<longleftrightarrow> s \<in> {Run_PENDING, Run_RUNNING}"

definition active_row :: "run_row \<Rightarrow> bool" where
  "active_row r \<longleftrightarrow> active_status (run_status (rrow_run r))"

text \<open>\<open>ORDER BY created_at DESC, rowid DESC LIMIT 1\<close>\<close>

definition latest_run_row :: "store \<Rightarrow> string \<Rightarrow> run_row option" where
  "latest_run_row d tid =
     (case sort_key rrow_created (filter (\<lambda>r. run_task_id (rrow_run r) = tid) (db_runs d)) of
        [] \<Rightarrow> None | x # xs \<Rightarrow> Some (last (x # xs)))"

definition latest_pr_row :: "store \<Rightarrow> string \<Rightarrow> pr_row option" where
  "latest_pr_row d tid = find (\<lambda>p. pr_task_id (prow_pr p) = Some tid) (rev (db_prs d))"

section \<open>Audit triggers\<close>

definition audit_insert :: "string \<Rightarrow> string \<Rightarrow> string option \<Rightarrow> string \<Rightarrow> string \<Rightarrow> string \<Rightarrow> int \<Rightarrow>
    string option \<Rightarrow> string option \<Rightarrow> string option \<Rightarrow> store \<Rightarrow> (py_error, store) outcome" where
  "audit_insert name key task cause aggregate aggregate_id occurred run ws pr d =
     (case task of None \<Rightarrow> Inr d
      | Some tid \<Rightarrow> case task_row_of d tid of None \<Rightarrow> Inr d
        | Some t \<Rightarrow>
          let seq = count_rows (\<lambda>e. ev_correlation e = tid) (db_audit d) + 1;
              version = count_rows (\<lambda>e. ev_aggregate_type e = aggregate \<and>
                          ev_aggregate_id e = aggregate_id) (db_audit d) + 1
          in if list_ex (\<lambda>e. ev_key e = key \<or> ev_correlation e = tid \<and> ev_seq e = seq) (db_audit d)
             then Inl IntegrityError
             else Inr (d\<lparr>db_audit := db_audit d @
               [\<lparr>ev_key = key, ev_correlation = tid, ev_seq = seq, ev_name = name, ev_task = tid,
                 ev_run = run, ev_workspace = ws, ev_pull_request = pr, ev_cause = cause,
                 ev_source = task_source (trow_task t), ev_aggregate_type = aggregate,
                 ev_aggregate_id = aggregate_id, ev_aggregate_version = version,
                 ev_occurred_at = occurred, ev_evidence = []\<rparr>]\<rparr>))"

text \<open>\<open>INSERT OR IGNORE\<close>: a violated index drops the row instead of aborting.\<close>

definition audit_insert_or_ignore :: "string \<Rightarrow> string \<Rightarrow> string option \<Rightarrow> string \<Rightarrow> string \<Rightarrow> string \<Rightarrow>
    int \<Rightarrow> string option \<Rightarrow> string option \<Rightarrow> string option \<Rightarrow> store \<Rightarrow> store" where
  "audit_insert_or_ignore name key task cause aggregate aggregate_id occurred run ws pr d =
     (case audit_insert name key task cause aggregate aggregate_id occurred run ws pr d of
        Inl _ \<Rightarrow> d | Inr d' \<Rightarrow> d')"

definition audit_task_materialized :: "factory_task \<Rightarrow> store \<Rightarrow> (py_error, store) outcome" where
  "audit_task_materialized t d =
     tx_step (audit_insert ''IssueMaterialized'' (''task:'' @ task_id t) (Some (task_id t)) (task_id t)
                ''task'' (task_id t) (task_created_at t) None None None d)
       (\<lambda>d. if task_status t = Task_READY
          then audit_insert ''WorkItemReady'' (''task:ready:'' @ task_id t) (Some (task_id t))
                 (task_id t) ''task'' (task_id t) (task_created_at t) None None None d
          else Inr d)"

definition transition_event_name :: "store \<Rightarrow> task_transition \<Rightarrow> string" where
  "transition_event_name d tr = (case tt_to tr of
       Task_READY \<Rightarrow> ''WorkItemReady''
     | Task_CLAIMED \<Rightarrow> ''TaskClaimed''
     | Task_PR_OPEN \<Rightarrow>
         if 1 < count_rows (\<lambda>x. tt_task_id x = tt_task_id tr \<and> tt_to x = Task_PR_OPEN)
                  (db_transitions d)
         then ''PRUpdated'' else ''TaskPR_OPEN''
     | Task_WAITING_HUMAN \<Rightarrow> ''HumanApprovalRequired''
     | Task_CHANGES_REQUESTED \<Rightarrow> ''ChangesRequested''
     | Task_DONE \<Rightarrow> ''TaskCompleted''
     | s \<Rightarrow> ''Task'' @ task_status_value s)"

definition audit_transition :: "task_transition \<Rightarrow> store \<Rightarrow> (py_error, store) outcome" where
  "audit_transition tr d =
     (let run = latest_run_row d (tt_task_id tr)
      in audit_insert (transition_event_name d tr) (''transition:'' @ tt_id tr)
           (Some (tt_task_id tr)) (tt_id tr) ''task'' (tt_task_id tr) (tt_occurred_at tr)
           (map_option rid_of run) (Option.bind run rrow_ws)
           (map_option prow_id (latest_pr_row d (tt_task_id tr))) d)"

definition audit_run_insert :: "run_row \<Rightarrow> store \<Rightarrow> (py_error, store) outcome" where
  "audit_run_insert row d =
     (let r = rrow_run row; tid = Some (run_task_id r);
          at = (case run_started_at r of None \<Rightarrow> rrow_created row | Some x \<Rightarrow> x)
      in tx_step (audit_insert ''RunStarted'' (''run:start:'' @ run_id r) tid (run_id r) ''run''
                    (run_id r) at (Some (run_id r)) (rrow_ws row) None d)
           (\<lambda>d. if run_context_pack r = None then Inr d
              else audit_insert ''ContextPackBuilt'' (''context:'' @ run_id r) tid (run_id r) ''run''
                     (run_id r) (rrow_created row) (Some (run_id r)) (rrow_ws row) None d))"

definition audit_run_finish :: "int \<Rightarrow> run_row \<Rightarrow> run_row \<Rightarrow> store \<Rightarrow> (py_error, store) outcome" where
  "audit_run_finish now old new d =
     (let r = rrow_run new in
      if \<not> is_terminal (rrow_run old) \<and> is_terminal r
      then audit_insert ''RunFinished'' (''run:finish:'' @ run_id r) (Some (run_task_id r)) (run_id r)
             ''run'' (run_id r) (case run_finished_at r of None \<Rightarrow> now | Some x \<Rightarrow> x)
             (Some (run_id r)) (rrow_ws new) None d
      else Inr d)"

definition audit_validation :: "int \<Rightarrow> run_row \<Rightarrow> run_row \<Rightarrow> store \<Rightarrow> store" where
  "audit_validation now old new d =
     (let r = rrow_run new; q = rrow_run old;
          failed = list_ex (\<lambda>g. gate_required g \<and> gate_status g \<noteq> Gate_PASSED) (run_gates r)
      in if run_status r = Run_SUCCEEDED \<and> (run_status q \<noteq> Run_SUCCEEDED \<or>
              run_gates q \<noteq> run_gates r \<or> run_validated_revision q \<noteq> run_validated_revision r)
         then audit_insert_or_ignore (if failed then ''ValidationFailed'' else ''ValidationPassed'')
                (''validation:'' @ run_id r @ '':'' @ (if failed then ''failed'' else ''passed''))
                (Some (run_task_id r)) (run_id r) ''run'' (run_id r) now (Some (run_id r))
                (rrow_ws new) None d
         else d)"

definition audit_pr_insert :: "pr_row \<Rightarrow> store \<Rightarrow> (py_error, store) outcome" where
  "audit_pr_insert p d =
     (let rid = (case pr_run_id (prow_pr p) of None \<Rightarrow> [] | Some r \<Rightarrow> r); run = run_row_of d rid
      in audit_insert ''PRCreated'' (''pr:create:'' @ prow_id p)
           (map_option (\<lambda>r. run_task_id (rrow_run r)) run) rid ''pull_request'' (prow_id p)
           (pr_opened_at (prow_pr p)) (Some rid) (Option.bind run rrow_ws) (Some (prow_id p)) d)"

definition audit_pr_update :: "int \<Rightarrow> pr_row \<Rightarrow> pr_row \<Rightarrow> store \<Rightarrow> (py_error, store) outcome" where
  "audit_pr_update now old new d =
     (let p = prow_pr new; q = prow_pr old;
          rid = (case pr_run_id p of None \<Rightarrow> [] | Some r \<Rightarrow> r); run = run_row_of d rid;
          n = count_rows (\<lambda>e. ev_aggregate_type e = ''pull_request'' \<and>
                ev_aggregate_id e = prow_id new) (db_audit d) + 1
      in if pr_number q \<noteq> pr_number p \<or> pr_url q \<noteq> pr_url p \<or> pr_merged q \<noteq> pr_merged p \<or>
            pr_commit_sha q \<noteq> pr_commit_sha p \<or> pr_run_id q \<noteq> pr_run_id p
         then audit_insert ''PRUpdated'' (''pr:update:'' @ prow_id new @ '':'' @ decimal n)
                (map_option (\<lambda>r. run_task_id (rrow_run r)) run) rid ''pull_request'' (prow_id new)
                now (Some rid) (Option.bind run rrow_ws) (Some (prow_id new)) d
         else Inr d)"

section \<open>Transition rows\<close>

definition queued_phases :: "task_status set" where
  "queued_phases = {Task_CLAIMED, Task_RUNNING, Task_VALIDATING, Task_PR_OPEN, Task_WAITING_HUMAN,
     Task_FAILED, Task_BLOCKED, Task_DONE, Task_CANCELLED, Task_CHANGES_REQUESTED}"

definition queue_status_transition :: "task_transition \<Rightarrow> store \<Rightarrow> (py_error, store) outcome" where
  "queue_status_transition tr d =
     (if tt_to tr \<notin> queued_phases then Inr d
      else if list_ex (\<lambda>e. se_transition e = tt_id tr) (db_status_events d) then Inl IntegrityError
      else Inr (d\<lparr>db_status_events := db_status_events d @
        [\<lparr>se_transition = tt_id tr, se_task = tt_task_id tr, se_phase = task_status_value (tt_to tr),
          se_occurred_at = tt_occurred_at tr, se_delivered_at = None\<rparr>]\<rparr>))"

text \<open>\<open>INSERT INTO transitions\<close> with its primary key, its foreign key and its two triggers.\<close>

definition insert_transition :: "task_transition \<Rightarrow> store \<Rightarrow> (py_error, store) outcome" where
  "insert_transition tr d =
     (if list_ex (\<lambda>x. tt_id x = tt_id tr) (db_transitions d) then Inl IntegrityError
      else if task_row_of d (tt_task_id tr) = None then Inl IntegrityError
      else tx_step (queue_status_transition tr (d\<lparr>db_transitions := db_transitions d @ [tr]\<rparr>))
             (audit_transition tr))"

section \<open>What only grows\<close>

text \<open>Tables that no operation deletes from or rewrites: the audit trace, the transition history and
  the rework requests are only appended to, and no task, run, workspace or pull request row is
  ever removed.\<close>

definition store_grows :: "store \<Rightarrow> store \<Rightarrow> bool" where
  "store_grows d d' \<longleftrightarrow>
     prefix (db_audit d) (db_audit d') \<and>
     prefix (db_transitions d) (db_transitions d') \<and>
     prefix (db_rework d) (db_rework d') \<and>
     prefix (db_workspaces d) (db_workspaces d') \<and>
     prefix (map tid_of (db_tasks d)) (map tid_of (db_tasks d')) \<and>
     prefix (map (\<lambda>r. (rid_of r, run_task_id (rrow_run r), run_project (rrow_run r), rrow_ws r,
               rrow_created r)) (db_runs d))
            (map (\<lambda>r. (rid_of r, run_task_id (rrow_run r), run_project (rrow_run r), rrow_ws r,
               rrow_created r)) (db_runs d')) \<and>
     prefix (map prow_id (db_prs d)) (map prow_id (db_prs d'))"

lemma store_grows_refl [simp]: "store_grows d d"
  by (simp add: store_grows_def)

lemma store_grows_trans: "store_grows d e \<Longrightarrow> store_grows e f \<Longrightarrow> store_grows d f"
  unfolding store_grows_def by (meson prefix_order.trans)

interpretation growth: preorder_relation store_grows
  by unfold_locales (auto intro: store_grows_trans)

named_theorems frame_simps "fields an operation leaves alone"

lemma audit_insert_cases:
  assumes "audit_insert nm k t c a ai occ r w p d = Inr d'"
  obtains "d' = d" | e where "d' = d\<lparr>db_audit := db_audit d @ [e]\<rparr>" "ev_key e = k"
    "ev_key e \<notin> ev_key ` set (db_audit d)" "Some (ev_correlation e) = t"
    "ev_seq e = count_rows (\<lambda>x. ev_correlation x = ev_correlation e) (db_audit d) + 1"
    "ev_name e = nm" "ev_task e = ev_correlation e" "ev_cause e = c"
proof (cases "d' = d")
  case False
  have "d' = d\<lparr>db_audit := db_audit d @ [last (db_audit d')]\<rparr>"
    "ev_key (last (db_audit d')) = k" "k \<notin> ev_key ` set (db_audit d)"
    "Some (ev_correlation (last (db_audit d'))) = t"
    "ev_seq (last (db_audit d')) =
       count_rows (\<lambda>x. ev_correlation x = ev_correlation (last (db_audit d'))) (db_audit d) + 1"
    "ev_name (last (db_audit d')) = nm"
    "ev_task (last (db_audit d')) = ev_correlation (last (db_audit d'))"
    "ev_cause (last (db_audit d')) = c"
    using assms False
    by (auto simp: audit_insert_def Let_def list_ex_iff split: option.splits if_splits)
  then show thesis by (intro that(2)) simp_all
qed (rule that(1))

lemma audit_insert_eq:
  "audit_insert nm k t c a ai occ r w p d = Inr d' \<Longrightarrow> d' = d\<lparr>db_audit := db_audit d'\<rparr>"
  by (erule audit_insert_cases) simp_all

lemma audit_or_ignore_eq:
  "audit_insert_or_ignore nm k t c a ai occ r w p d = d\<lparr>db_audit :=
     db_audit (audit_insert_or_ignore nm k t c a ai occ r w p d)\<rparr>"
  by (auto simp: audit_insert_or_ignore_def dest: audit_insert_eq split: sum.splits)

end
