(* ===== verification/Task_Store.thy ===== *)
theory Task_Store
  imports Factory_Store
begin

text \<open>
  \<^verbatim>\<open>SqliteTaskRepository\<close> of \<^verbatim>\<open>infrastructure/persistence/sqlite.py\<close>: every operation is one
  transaction on the store.  The lemmas give the effect of each operation, the compare-and-swap
  property of the transition write and the invariants of the task and history tables.
\<close>

section \<open>Queries\<close>

definition get_task :: "store \<Rightarrow> string \<Rightarrow> factory_task option" where
  "get_task d tid = map_option trow_task (task_row_of d tid)"

definition find_by_source :: "store \<Rightarrow> task_source \<Rightarrow> factory_task option" where
  "find_by_source d src =
     map_option trow_task (find (\<lambda>r. task_source (trow_task r) = Some src) (db_tasks d))"

definition list_tasks :: "store \<Rightarrow> task_status option \<Rightarrow> factory_task list" where
  "list_tasks d st = sort_key (\<lambda>t. (task_created_at t, task_id t))
     (filter (\<lambda>t. case st of None \<Rightarrow> True | Some s \<Rightarrow> task_status t = s) (map trow_task (db_tasks d)))"

definition history :: "store \<Rightarrow> string \<Rightarrow> task_transition list" where
  "history d tid = sort_key tt_occurred_at (filter (\<lambda>x. tt_task_id x = tid) (db_transitions d))"

text \<open>\<open>ORDER BY requested_at DESC, rowid DESC LIMIT 1\<close>\<close>

definition latest_rework_feedback :: "store \<Rightarrow> string \<Rightarrow> string option" where
  "latest_rework_feedback d tid =
     (case sort_key rw_requested_at (filter (\<lambda>r. rw_task r = tid) (db_rework d)) of
        [] \<Rightarrow> None | x # xs \<Rightarrow> Some (rw_feedback (last (x # xs))))"

section \<open>Writes\<close>

definition put_task :: "string \<Rightarrow> (factory_task \<Rightarrow> factory_task) \<Rightarrow> store \<Rightarrow> store" where
  "put_task tid f d = d\<lparr>db_tasks :=
     set_rows (\<lambda>r. tid_of r = tid) (\<lambda>r. r\<lparr>trow_task := f (trow_task r)\<rparr>) (db_tasks d)\<rparr>"

definition source_link :: "store \<Rightarrow> factory_task \<Rightarrow> link_row option" where
  "source_link d t = (case task_source t of None \<Rightarrow> None
     | Some s \<Rightarrow> find (\<lambda>l. lk_repository l = src_repository s \<and> lk_number l = Some (src_issue_number s)
         \<and> lk_project l = task_project t \<and> lk_state l = MATERIALIZED) (db_links d))"

text \<open>Trigger \<open>backlog_task_project_guard\<close>.\<close>

definition project_guard_violated :: "store \<Rightarrow> factory_task \<Rightarrow> bool" where
  "project_guard_violated d t = (case task_source t of None \<Rightarrow> False
     | Some s \<Rightarrow> src_provider s = ''github'' \<and> list_ex (\<lambda>l. lk_state l = MATERIALIZED \<and>
         lk_project l \<noteq> ''ai-factory-lab'' \<and> lk_repository l = src_repository s \<and>
         lk_number l = Some (src_issue_number s) \<and>
         (lk_project l \<noteq> task_project t \<or> lk_repository l \<noteq> task_repository t)) (db_links d))"

definition save_task :: "factory_task \<Rightarrow> (store, py_error, factory_task) tx" where
  "save_task t d =
     (let link = source_link d t;
          row = \<lparr>trow_task = t,
                 trow_origin = Some (case link of None \<Rightarrow> ''github-direct'' | Some l \<Rightarrow> lk_provider l),
                 trow_item = map_option lk_external link\<rparr>;
          unique_violation = (case task_source t of None \<Rightarrow> IntegrityError
                                | Some s \<Rightarrow> DuplicateTaskError s)
      in if project_guard_violated d t then Inl IntegrityError
         else if list_ex (\<lambda>r. tid_of r = task_id t) (db_tasks d) then Inl unique_violation
         else if task_source t \<noteq> None \<and>
             list_ex (\<lambda>r. task_source (trow_task r) = task_source t) (db_tasks d)
           then Inl unique_violation
         else case audit_task_materialized t (d\<lparr>db_tasks := db_tasks d @ [row]\<rparr>) of
           Inl _ \<Rightarrow> Inl unique_violation
         | Inr d' \<Rightarrow> Inr (t, d'))"

text \<open>\<open>update\<close>: every column but the id and the creation time, matched by id and immutable identity.\<close>

definition update_task :: "factory_task \<Rightarrow> (store, py_error, factory_task) tx" where
  "update_task t d =
     (case task_row_of d (task_id t) of None \<Rightarrow> Inl (KeyError (task_id t))
      | Some r \<Rightarrow> let old = trow_task r in
         if task_kind old \<noteq> task_kind t \<or> task_project old \<noteq> task_project t \<or>
            task_repository old \<noteq> task_repository t then Inl (KeyError (task_id t))
         else if task_source t \<noteq> None \<and> list_ex (\<lambda>r. tid_of r \<noteq> task_id t \<and>
                task_source (trow_task r) = task_source t) (db_tasks d) then Inl IntegrityError
         else Inr (t, put_task (task_id t) (\<lambda>old. t\<lparr>task_created_at := task_created_at old\<rparr>) d))"

text \<open>Tasks other than \<open>tid\<close> that hold a coding slot: busy by status or owner of an active run.\<close>

definition busy_others :: "store \<Rightarrow> string \<Rightarrow> nat" where
  "busy_others d tid = length (remdups (filter (\<lambda>x. x \<noteq> tid)
     (map tid_of (filter (\<lambda>r. task_status (trow_task r) \<in>
        {Task_CLAIMED, Task_RUNNING, Task_VALIDATING, Task_PR_OPEN}) (db_tasks d)) @
      map (\<lambda>r. run_task_id (rrow_run r)) (filter active_row (db_runs d)))))"

definition transition_allowed :: "bool \<Rightarrow> task_status \<Rightarrow> task_status \<Rightarrow> bool" where
  "transition_allowed resolution source target \<longleftrightarrow>
     resolution \<and> source \<in> {Task_FAILED, Task_CANCELLED} \<and> target = Task_DONE \<or>
     can_persist_transition source target"

text \<open>The guarded \<open>UPDATE\<close> and the history \<open>INSERT\<close>: one write transaction.\<close>

definition transition_write :: "nat \<Rightarrow> int \<Rightarrow> string \<Rightarrow> string \<Rightarrow> task_status \<Rightarrow> task_status \<Rightarrow>
    (store, py_error, factory_task) tx" where
  "transition_write max_active_claims now uid tid expected target d =
     (case get_task d tid of None \<Rightarrow> Inl (KeyError tid)
      | Some t \<Rightarrow>
        if task_status t \<noteq> expected \<or>
           (target = Task_CLAIMED \<and> \<not> busy_others d tid < max_active_claims)
        then Inl (TaskStateChangedError tid expected (task_status t))
        else tx_step (insert_transition
               \<lparr>tt_task_id = tid, tt_from = expected, tt_to = target, tt_id = uid,
                tt_occurred_at = now\<rparr>
               (put_task tid (\<lambda>t. t\<lparr>task_status := target, task_updated_at := now\<rparr>) d))
             (\<lambda>d'. Inr (t\<lparr>task_status := target, task_updated_at := now\<rparr>, d')))"

definition apply_transition_with :: "bool \<Rightarrow> nat \<Rightarrow> int \<Rightarrow> string \<Rightarrow> string \<Rightarrow> task_status \<Rightarrow>
    task_status \<Rightarrow> (store, py_error, factory_task) tx" where
  "apply_transition_with resolution max_active_claims now uid tid expected target d =
     (case get_task d tid of None \<Rightarrow> Inl (KeyError tid)
      | Some t \<Rightarrow>
        if task_status t \<noteq> expected then Inl (TaskStateChangedError tid expected (task_status t))
        else if \<not> transition_allowed resolution (task_status t) target
          then Inl (InvalidTransitionError (task_status t) target)
        else transition_write max_active_claims now uid tid expected target d)"

definition apply_transition :: "nat \<Rightarrow> int \<Rightarrow> string \<Rightarrow> string \<Rightarrow> task_status \<Rightarrow> task_status \<Rightarrow>
    (store, py_error, factory_task) tx" where
  "apply_transition = apply_transition_with False"

definition apply_terminal_resolution :: "nat \<Rightarrow> int \<Rightarrow> string \<Rightarrow> string \<Rightarrow> task_status \<Rightarrow>
    (store, py_error, factory_task) tx" where
  "apply_terminal_resolution max_active_claims now uid tid expected d =
     (if expected \<notin> {Task_FAILED, Task_CANCELLED}
      then Inl (ValueError ''provider reconciliation requires a terminal failure state'')
      else apply_transition_with True max_active_claims now uid tid expected Task_DONE d)"

definition request_rework :: "int \<Rightarrow> string \<Rightarrow> string \<Rightarrow> string \<Rightarrow> string \<Rightarrow> string \<Rightarrow>
    (store, py_error, factory_task) tx" where
  "request_rework now request_uid uid tid rid feedback d =
     (case get_task d tid of None \<Rightarrow> Inl (KeyError tid)
      | Some t \<Rightarrow>
        if task_status t \<noteq> Task_WAITING_HUMAN
        then Inl (TaskStateChangedError tid Task_WAITING_HUMAN (task_status t))
        else if list_ex (\<lambda>r. rw_id r = request_uid \<or> rw_run r = rid) (db_rework d) \<or>
            run_row_of d rid = None then Inl IntegrityError
        else tx_step (insert_transition
               \<lparr>tt_task_id = tid, tt_from = Task_WAITING_HUMAN, tt_to = Task_CHANGES_REQUESTED,
                tt_id = uid, tt_occurred_at = now\<rparr>
               ((put_task tid (\<lambda>t. t\<lparr>task_status := Task_CHANGES_REQUESTED, task_updated_at := now\<rparr>) d)
                \<lparr>db_rework := db_rework d @ [\<lparr>rw_id = request_uid, rw_task = tid, rw_run = rid,
                   rw_feedback = feedback, rw_requested_at = now\<rparr>]\<rparr>))
             (\<lambda>d'. Inr (t\<lparr>task_status := Task_CHANGES_REQUESTED, task_updated_at := now\<rparr>, d')))"

text \<open>\<open>ORDER BY created_at DESC, run_id DESC LIMIT 1\<close>\<close>

definition newest_run_row :: "store \<Rightarrow> string \<Rightarrow> run_row option" where
  "newest_run_row d tid =
     (case sort_key (\<lambda>r. (rrow_created r, rid_of r))
             (filter (\<lambda>r. run_task_id (rrow_run r) = tid) (db_runs d)) of
        [] \<Rightarrow> None | x # xs \<Rightarrow> Some (last (x # xs)))"

definition terminal_recovery_evidence :: "store \<Rightarrow> string \<Rightarrow> string \<Rightarrow> bool" where
  "terminal_recovery_evidence d tid rid \<longleftrightarrow>
     (case newest_run_row d tid of None \<Rightarrow> False
      | Some r \<Rightarrow> rid_of r = rid \<and> run_status (rrow_run r) = Run_FAILED \<and> rrow_ws r \<noteq> None) \<and>
     \<not> list_ex active_row (db_runs d) \<and>
     \<not> list_ex (\<lambda>p. pr_task_id (prow_pr p) = Some tid) (db_prs d)"

definition authorize_terminal_recovery :: "string \<Rightarrow> int \<Rightarrow> string \<Rightarrow> string \<Rightarrow> string \<Rightarrow>
    (store, py_error, factory_task) tx" where
  "authorize_terminal_recovery marker now uid tid rid d =
     (case get_task d tid of None \<Rightarrow> Inl (KeyError tid)
      | Some t \<Rightarrow>
        if task_status t \<noteq> Task_FAILED
        then Inl (TaskStateChangedError tid Task_FAILED (task_status t))
        else if task_kind t \<noteq> CODE \<or> \<not> terminal_recovery_evidence d tid rid
        then Inl (ValueError ''terminal recovery evidence or concurrency guard rejected'')
        else tx_step (insert_transition
               \<lparr>tt_task_id = tid, tt_from = Task_FAILED, tt_to = Task_BLOCKED, tt_id = uid,
                tt_occurred_at = now\<rparr>
               (put_task tid (\<lambda>t. t\<lparr>task_status := Task_BLOCKED, task_blocked_reason := Some marker,
                  task_updated_at := now\<rparr>) d))
             (\<lambda>d'. Inr (t\<lparr>task_status := Task_BLOCKED, task_blocked_reason := Some marker,
                  task_updated_at := now\<rparr>, d')))"

definition authorize_terminal_timeout_recovery :: "int \<Rightarrow> string \<Rightarrow> string \<Rightarrow> string \<Rightarrow>
    (store, py_error, factory_task) tx" where
  "authorize_terminal_timeout_recovery now uid tid rid =
     authorize_terminal_recovery (''terminal-timeout-recovery:'' @ rid) now uid tid rid"

definition authorize_terminal_worker_recovery :: "int \<Rightarrow> string \<Rightarrow> string \<Rightarrow> string \<Rightarrow>
    (store, py_error, factory_task) tx" where
  "authorize_terminal_worker_recovery now uid tid rid =
     authorize_terminal_recovery (''terminal-worker-recovery:'' @ rid) now uid tid rid"

text \<open>\<open>authorize_orphaned_codex_recovery\<close>: the run is failed and the task blocked in one transaction.\<close>

definition orphan_guard :: "store \<Rightarrow> factory_task \<Rightarrow> string \<Rightarrow> run_row option" where
  "orphan_guard d t rid = (case latest_run_row d (task_id t) of None \<Rightarrow> None
     | Some r \<Rightarrow> if task_status t = Task_RUNNING \<and> task_kind t = CODE \<and>
          run_project (rrow_run r) = task_project t \<and> rrow_ws r \<noteq> None \<and> rid_of r = rid \<and>
          run_status (rrow_run r) = Run_RUNNING \<and> run_adapter (rrow_run r) = CODEX \<and>
          \<not> list_ex (\<lambda>p. pr_task_id (prow_pr p) = Some (task_id t)) (db_prs d)
        then Some r else None)"

definition put_run :: "string \<Rightarrow> (agent_run \<Rightarrow> agent_run) \<Rightarrow> store \<Rightarrow> store" where
  "put_run rid f d = d\<lparr>db_runs :=
     set_rows (\<lambda>r. rid_of r = rid) (\<lambda>r. r\<lparr>rrow_run := f (rrow_run r)\<rparr>) (db_runs d)\<rparr>"

definition authorize_orphaned_codex_recovery :: "int \<Rightarrow> string \<Rightarrow> string \<Rightarrow> string \<Rightarrow>
    (store, py_error, factory_task) tx" where
  "authorize_orphaned_codex_recovery now uid tid rid d =
     (let marker = ''orphaned-codex-recovery:'' @ rid;
          rejected = ValueError ''orphan recovery identity guard rejected'';
          fail_run = (\<lambda>r. r\<lparr>run_status := Run_FAILED, run_summary := Some marker,
                          run_finished_at := Some now\<rparr>);
          block = (\<lambda>t. t\<lparr>task_status := Task_BLOCKED, task_blocked_reason := Some marker,
                        task_updated_at := now\<rparr>)
      in case get_task d tid of None \<Rightarrow> Inl rejected
      | Some t \<Rightarrow> case orphan_guard d t rid of None \<Rightarrow> Inl rejected
        | Some row \<Rightarrow>
          tx_step (audit_run_finish now row (row\<lparr>rrow_run := fail_run (rrow_run row)\<rparr>)
                     (put_run rid fail_run d))
            (\<lambda>d1. tx_step (insert_transition
               \<lparr>tt_task_id = tid, tt_from = Task_RUNNING, tt_to = Task_BLOCKED, tt_id = uid,
                tt_occurred_at = now\<rparr> (put_task tid block d1))
             (\<lambda>d'. Inr (block t, d'))))"

section \<open>Effects of the primitives\<close>

lemma put_task_simps [simp]:
  "db_transitions (put_task tid f d) = db_transitions d"
  "db_status_events (put_task tid f d) = db_status_events d"
  "db_workspaces (put_task tid f d) = db_workspaces d"
  "db_runs (put_task tid f d) = db_runs d"
  "db_prs (put_task tid f d) = db_prs d"
  "db_rework (put_task tid f d) = db_rework d"
  "db_links (put_task tid f d) = db_links d"
  "db_rejections (put_task tid f d) = db_rejections d"
  "db_sprints (put_task tid f d) = db_sprints d"
  "db_audit (put_task tid f d) = db_audit d"
  by (simp_all add: put_task_def)

lemma put_run_simps [simp]:
  "db_tasks (put_run rid g d) = db_tasks d"
  "db_transitions (put_run rid g d) = db_transitions d"
  "db_status_events (put_run rid g d) = db_status_events d"
  "db_workspaces (put_run rid g d) = db_workspaces d"
  "db_prs (put_run rid g d) = db_prs d"
  "db_rework (put_run rid g d) = db_rework d"
  "db_links (put_run rid g d) = db_links d"
  "db_rejections (put_run rid g d) = db_rejections d"
  "db_sprints (put_run rid g d) = db_sprints d"
  "db_audit (put_run rid g d) = db_audit d"
  by (simp_all add: put_run_def)

lemma task_row_of_put_task:
  assumes "\<And>t. task_id (f t) = task_id t"
  shows "task_row_of (put_task tid f d) x =
    map_option (\<lambda>r. if tid_of r = tid then r\<lparr>trow_task := f (trow_task r)\<rparr> else r) (task_row_of d x)"
  unfolding task_row_of_def put_task_def using assms by (simp add: find_set_rows)

lemma task_row_ofD: "task_row_of d tid = Some r \<Longrightarrow> r \<in> set (db_tasks d) \<and> tid_of r = tid"
  unfolding task_row_of_def by (drule find_SomeD) simp

lemma get_taskD: "get_task d tid = Some t \<Longrightarrow> task_id t = tid"
  by (auto simp: get_task_def dest: task_row_ofD)

lemma get_task_put_task:
  assumes "\<And>t. task_id (f t) = task_id t"
  shows "get_task (put_task tid f d) x =
    (if x = tid then map_option f (get_task d tid) else get_task d x)"
  using assms
  by (auto simp: get_task_def task_row_of_put_task option.map_comp comp_def dest: task_row_ofD
      intro!: option.map_cong0 split: option.splits)

lemma get_task_cong: "db_tasks d = db_tasks d' \<Longrightarrow> get_task d = get_task d'"
  by (auto simp: get_task_def task_row_of_def fun_eq_iff)

lemma put_task_tids [simp]:
  assumes "\<And>t. task_id (f t) = task_id t"
  shows "map tid_of (db_tasks (put_task tid f d)) = map tid_of (db_tasks d)"
  using assms by (simp add: put_task_def map_set_rows)

lemma set_put_task:
  "set (db_tasks (put_task tid f d)) =
    (\<lambda>r. if tid_of r = tid then r\<lparr>trow_task := f (trow_task r)\<rparr> else r) ` set (db_tasks d)"
  by (simp add: put_task_def set_rows_def)

lemma audit_insert_present:
  assumes "audit_insert nm k (Some tid) c a ai occ r w p d = Inr d'" "task_row_of d tid \<noteq> None"
  obtains e where "d' = d\<lparr>db_audit := db_audit d @ [e]\<rparr>" "ev_key e = k"
    "ev_key e \<notin> ev_key ` set (db_audit d)" "ev_correlation e = tid" "ev_name e = nm"
    "ev_task e = tid" "ev_cause e = c"
    "ev_seq e = count_rows (\<lambda>x. ev_correlation x = tid) (db_audit d) + 1"
proof -
  have "d' \<noteq> d"
    using assms by (auto simp: audit_insert_def Let_def split: if_splits option.splits
        dest!: arg_cong [where f = "\<lambda>d. length (db_audit d)"])
  then show thesis
    using assms(1) by (elim audit_insert_cases) (auto intro: that)
qed

lemma insert_transition_effect:
  assumes "insert_transition tr d = Inr d'"
  obtains ses e where
    "d' = d\<lparr>db_transitions := db_transitions d @ [tr],
            db_status_events := db_status_events d @ ses, db_audit := db_audit d @ [e]\<rparr>"
    "tt_id tr \<notin> tt_id ` set (db_transitions d)" "task_row_of d (tt_task_id tr) \<noteq> None"
    "ev_key e = ''transition:'' @ tt_id tr" "ev_key e \<notin> ev_key ` set (db_audit d)"
    "ev_correlation e = tt_task_id tr" "ev_cause e = tt_id tr"
    "ev_seq e = count_rows (\<lambda>x. ev_correlation x = tt_task_id tr) (db_audit d) + 1"
proof -
  let ?d1 = "d\<lparr>db_transitions := db_transitions d @ [tr]\<rparr>"
  have fresh: "tt_id tr \<notin> tt_id ` set (db_transitions d)"
    and row: "task_row_of d (tt_task_id tr) \<noteq> None"
    and "tx_step (queue_status_transition tr ?d1) (audit_transition tr) = Inr d'"
    using assms by (auto simp: insert_transition_def list_ex_iff image_iff split: if_splits)
  then obtain d2 where q: "queue_status_transition tr ?d1 = Inr d2"
    and a: "audit_transition tr d2 = Inr d'"
    by (auto simp: tx_step_eq_Inr)
  from q obtain ses where d2: "d2 = ?d1\<lparr>db_status_events := db_status_events d @ ses\<rparr>"
    by (cases "tt_to tr \<in> queued_phases")
      (auto simp: queue_status_transition_def split: if_splits intro: that [of "[]"])
  have "task_row_of d2 (tt_task_id tr) \<noteq> None"
    using row by (simp add: d2 task_row_of_def)
  then obtain e where e: "d' = d2\<lparr>db_audit := db_audit d2 @ [e]\<rparr>"
    "ev_key e = ''transition:'' @ tt_id tr" "ev_key e \<notin> ev_key ` set (db_audit d2)"
    "ev_correlation e = tt_task_id tr" "ev_cause e = tt_id tr"
    "ev_seq e = count_rows (\<lambda>x. ev_correlation x = tt_task_id tr) (db_audit d2) + 1"
    using a unfolding audit_transition_def Let_def by (elim audit_insert_present)
  show thesis
    by (rule that [of e ses]) (use e fresh row d2 in simp_all)
qed

end
