(* ===== verification/Task_Facts.thy ===== *)
theory Task_Facts
  imports Task_Store
begin

text \<open>
  Facts about the task table: the uniqueness invariant, the audit invariant (unique keys and
  gap-free sequence numbers), the history invariant (the recorded transitions of a task form a
  chain of permitted edges that ends in its stored status), and what each task operation does to
  them.
\<close>

section \<open>Invariants\<close>

definition tasks_ok :: "store \<Rightarrow> bool" where
  "tasks_ok d \<longleftrightarrow> distinct (map tid_of (db_tasks d)) \<and>
     distinct (filter (\<lambda>s. s \<noteq> None) (map (\<lambda>r. task_source (trow_task r)) (db_tasks d)))"

definition audit_ok :: "store \<Rightarrow> bool" where
  "audit_ok d \<longleftrightarrow> distinct (map ev_key (db_audit d)) \<and>
     (\<forall>c. map ev_seq (filter (\<lambda>e. ev_correlation e = c) (db_audit d)) =
          [1..<Suc (count_rows (\<lambda>e. ev_correlation e = c) (db_audit d))])"

text \<open>Edges a durable adapter may record: the lifecycle graph, the persistence-only edges, the
  provider resolution of a failed task and the operator recovery of a failed task.\<close>

definition recorded_edge :: "task_status \<Rightarrow> task_status \<Rightarrow> bool" where
  "recorded_edge a b \<longleftrightarrow> transition_allowed True a b \<or> a = Task_FAILED \<and> b = Task_BLOCKED"

fun chain :: "task_status \<Rightarrow> task_transition list \<Rightarrow> task_status \<Rightarrow> bool" where
  "chain a [] b = (a = b)"
| "chain a (t # ts) b = (tt_from t = a \<and> recorded_edge a (tt_to t) \<and> chain (tt_to t) ts b)"

definition task_history :: "store \<Rightarrow> string \<Rightarrow> task_transition list" where
  "task_history d tid = filter (\<lambda>x. tt_task_id x = tid) (db_transitions d)"

definition history_ok :: "store \<Rightarrow> bool" where
  "history_ok d \<longleftrightarrow>
     (\<forall>r \<in> set (db_tasks d). \<exists>a. chain a (task_history d (tid_of r)) (task_status (trow_task r))) \<and>
     (\<forall>x \<in> set (db_transitions d). task_row_of d (tt_task_id x) \<noteq> None)"

lemma chain_snoc: "chain a ts b \<Longrightarrow> tt_from t = b \<Longrightarrow> recorded_edge b (tt_to t) \<Longrightarrow>
    chain a (ts @ [t]) (tt_to t)"
  by (induction ts arbitrary: a) auto

lemma chain_edge: "chain a ts b \<Longrightarrow> t \<in> set ts \<Longrightarrow> recorded_edge (tt_from t) (tt_to t)"
  by (induction ts arbitrary: a) auto

section \<open>Audit insertion\<close>

lemma audit_ok_append:
  assumes "audit_ok d" "ev_key e \<notin> ev_key ` set (db_audit d)"
    "ev_seq e = count_rows (\<lambda>x. ev_correlation x = ev_correlation e) (db_audit d) + 1"
  shows "audit_ok (d\<lparr>db_audit := db_audit d @ [e]\<rparr>)"
  using assms by (auto simp: audit_ok_def count_rows_def)

lemma audit_ok_cong: "db_audit d = db_audit d' \<Longrightarrow> audit_ok d = audit_ok d'"
  by (simp add: audit_ok_def)

lemma audit_insert_ok: "audit_insert nm k t c a ai occ r w p d = Inr d' \<Longrightarrow> audit_ok d \<Longrightarrow> audit_ok d'"
  by (erule audit_insert_cases) (auto intro: audit_ok_append)

lemma audit_or_ignore_ok:
  "audit_ok d \<Longrightarrow> audit_ok (audit_insert_or_ignore nm k t c a ai occ r w p d)"
  by (auto simp: audit_insert_or_ignore_def split: sum.splits intro: audit_insert_ok)

lemma audit_insert_prefix:
  "audit_insert nm k t c a ai occ r w p d = Inr d' \<Longrightarrow> prefix (db_audit d) (db_audit d')"
  by (erule audit_insert_cases) auto

lemma audit_or_ignore_prefix:
  "prefix (db_audit d) (db_audit (audit_insert_or_ignore nm k t c a ai occ r w p d))"
  by (auto simp: audit_insert_or_ignore_def split: sum.splits intro: audit_insert_prefix)

text \<open>A trigger changes the audit table only; \<open>only_audit\<close> says so and carries the audit facts.\<close>

definition only_audit :: "store \<Rightarrow> store \<Rightarrow> bool" where
  "only_audit d d' \<longleftrightarrow> d' = d\<lparr>db_audit := db_audit d'\<rparr> \<and> prefix (db_audit d) (db_audit d') \<and>
     (audit_ok d \<longrightarrow> audit_ok d')"

lemma only_audit_refl [simp]: "only_audit d d"
  by (simp add: only_audit_def)

lemma only_audit_trans: "only_audit d e \<Longrightarrow> only_audit e f \<Longrightarrow> only_audit d f"
  unfolding only_audit_def
  by (metis (no_types, lifting) prefix_order.trans store.surjective store.update_convs(11))

lemma only_audit_insert: "audit_insert nm k t c a ai occ r w p d = Inr d' \<Longrightarrow> only_audit d d'"
  by (simp add: only_audit_def audit_insert_ok audit_insert_prefix audit_insert_eq [symmetric])

lemma only_audit_or_ignore: "only_audit d (audit_insert_or_ignore nm k t c a ai occ r w p d)"
  by (simp add: only_audit_def audit_or_ignore_ok audit_or_ignore_prefix audit_or_ignore_eq [symmetric])

lemma only_audit_task: "audit_task_materialized t d = Inr d' \<Longrightarrow> only_audit d d'"
  by (auto simp: audit_task_materialized_def tx_step_eq_Inr split: if_splits
      intro: only_audit_insert only_audit_trans)

lemma only_audit_run_insert: "audit_run_insert row d = Inr d' \<Longrightarrow> only_audit d d'"
  by (auto simp: audit_run_insert_def Let_def tx_step_eq_Inr split: if_splits
      intro: only_audit_insert only_audit_trans)

lemma only_audit_run_finish: "audit_run_finish now old new d = Inr d' \<Longrightarrow> only_audit d d'"
  by (auto simp: audit_run_finish_def Let_def split: if_splits intro: only_audit_insert)

lemma only_audit_validation: "only_audit d (audit_validation now old new d)"
  unfolding audit_validation_def Let_def by (simp add: only_audit_or_ignore)

lemma only_audit_pr_insert: "audit_pr_insert p d = Inr d' \<Longrightarrow> only_audit d d'"
  by (auto simp: audit_pr_insert_def Let_def intro: only_audit_insert)

lemma only_audit_pr_update: "audit_pr_update now old new d = Inr d' \<Longrightarrow> only_audit d d'"
  by (auto simp: audit_pr_update_def Let_def split: if_splits intro: only_audit_insert)

lemma only_auditD:
  assumes "only_audit d d'"
  shows "db_tasks d' = db_tasks d" "db_transitions d' = db_transitions d"
    "db_status_events d' = db_status_events d" "db_workspaces d' = db_workspaces d"
    "db_runs d' = db_runs d" "db_prs d' = db_prs d" "db_rework d' = db_rework d"
    "db_links d' = db_links d" "db_rejections d' = db_rejections d" "db_sprints d' = db_sprints d"
    "prefix (db_audit d) (db_audit d')" "audit_ok d \<Longrightarrow> audit_ok d'"
proof -
  have *: "d' = d\<lparr>db_audit := db_audit d'\<rparr>"
    using assms unfolding only_audit_def by blast
  show "db_tasks d' = db_tasks d" "db_transitions d' = db_transitions d"
    "db_status_events d' = db_status_events d" "db_workspaces d' = db_workspaces d"
    "db_runs d' = db_runs d" "db_prs d' = db_prs d" "db_rework d' = db_rework d"
    "db_links d' = db_links d" "db_rejections d' = db_rejections d" "db_sprints d' = db_sprints d"
    by (subst *, simp)+
  show "prefix (db_audit d) (db_audit d')" "audit_ok d \<Longrightarrow> audit_ok d'"
    using assms by (simp_all add: only_audit_def)
qed

lemma only_audit_grows: "only_audit d d' \<Longrightarrow> store_grows d d'"
  by (auto simp: store_grows_def only_auditD)

section \<open>Moving one task along an edge\<close>

text \<open>The common part of every status-changing operation: one task row gets a new status and the
  transition is recorded, in the same transaction.\<close>

definition task_moved :: "string \<Rightarrow> task_status \<Rightarrow> task_status \<Rightarrow> (factory_task \<Rightarrow> factory_task) \<Rightarrow>
    task_transition \<Rightarrow> store \<Rightarrow> store \<Rightarrow> bool" where
  "task_moved tid a b f tr d d' \<longleftrightarrow>
     (\<exists>t. get_task d tid = Some t \<and> task_status t = a) \<and>
     (\<forall>t. task_id (f t) = task_id t \<and> task_source (f t) = task_source t \<and>
          task_project (f t) = task_project t \<and> task_repository (f t) = task_repository t \<and>
          task_status (f t) = b) \<and>
     tt_task_id tr = tid \<and> tt_from tr = a \<and> tt_to tr = b \<and>
     tt_id tr \<notin> tt_id ` set (db_transitions d) \<and>
     db_tasks d' = db_tasks (put_task tid f d) \<and> db_transitions d' = db_transitions d @ [tr]"

lemma moved_get_task:
  "task_moved tid a b f tr d d' \<Longrightarrow>
    get_task d' x = (if x = tid then map_option f (get_task d tid) else get_task d x)"
  using get_task_put_task [of f tid d x] get_task_cong [of d' "put_task tid f d"]
  by (simp add: task_moved_def)

lemma filter_sources_put:
  assumes "\<And>t. task_source (f t) = task_source t"
  shows "map (\<lambda>r. task_source (trow_task r)) (db_tasks (put_task tid f d)) =
    map (\<lambda>r. task_source (trow_task r)) (db_tasks d)"
  using assms by (simp add: put_task_def map_set_rows)

lemma moved_tasks_ok: "task_moved tid a b f tr d d' \<Longrightarrow> tasks_ok d \<Longrightarrow> tasks_ok d'"
  by (simp add: task_moved_def tasks_ok_def filter_sources_put)

lemma moved_row_of:
  "task_moved tid a b f tr d d' \<Longrightarrow> task_row_of d' x = None \<longleftrightarrow> task_row_of d x = None"
  using task_row_of_put_task [of f tid d x]
  by (simp add: task_moved_def task_row_of_def)

lemma moved_history_ok:
  assumes m: "task_moved tid a b f tr d d'" and e: "recorded_edge a b"
    and ok: "tasks_ok d" "history_ok d"
  shows "history_ok d'"
  unfolding history_ok_def
proof (intro conjI ballI)
  fix r assume "r \<in> set (db_tasks d')"
  then obtain q where q: "q \<in> set (db_tasks d)"
    and r: "r = (if tid_of q = tid then q\<lparr>trow_task := f (trow_task q)\<rparr> else q)"
    using m by (auto simp: task_moved_def set_put_task)
  have H: "task_history d' x = task_history d x @ (if x = tid then [tr] else [])" for x
    using m by (auto simp: task_history_def task_moved_def)
  obtain s where s: "chain s (task_history d (tid_of q)) (task_status (trow_task q))"
    using ok(2) q by (auto simp: history_ok_def)
  show "\<exists>s. chain s (task_history d' (tid_of r)) (task_status (trow_task r))"
  proof (cases "tid_of q = tid")
    case True
    obtain t where t: "get_task d tid = Some t" "task_status t = a"
      using m by (auto simp: task_moved_def)
    then obtain q' where q': "q' \<in> set (db_tasks d)" "tid_of q' = tid" "trow_task q' = t"
      by (auto simp: get_task_def dest: task_row_ofD)
    have "q' = q"
      using ok(1) q q' True by (auto simp: tasks_ok_def intro: distinct_map_unique)
    with t q' s get_taskD [OF t(1)] have "chain s (task_history d tid) a" by simp
    moreover have "tt_from tr = a" "tt_to tr = b" using m by (auto simp: task_moved_def)
    ultimately have "chain s (task_history d tid @ [tr]) b"
      using chain_snoc [of s "task_history d tid" a tr] e by simp
    moreover have "tid_of r = tid" "task_status (trow_task r) = b"
      using m True r by (auto simp: task_moved_def)
    ultimately show ?thesis using H [of tid] by auto
  next
    case False
    then show ?thesis using s r H by auto
  qed
next
  fix x assume "x \<in> set (db_transitions d')"
  then have "x \<in> set (db_transitions d) \<or> x = tr" using m by (auto simp: task_moved_def)
  moreover have "task_row_of d tid \<noteq> None" using m by (auto simp: task_moved_def get_task_def)
  ultimately have "task_row_of d (tt_task_id x) \<noteq> None"
    using ok(2) m by (auto simp: history_ok_def task_moved_def)
  then show "task_row_of d' (tt_task_id x) \<noteq> None" using moved_row_of [OF m] by simp
qed

text \<open>The identity columns of the task table, which runs and pull requests refer to.\<close>

definition task_identity :: "store \<Rightarrow> (string \<times> string \<times> string) list" where
  "task_identity d = map (\<lambda>r. (tid_of r, task_project (trow_task r), task_repository (trow_task r)))
     (db_tasks d)"

lemma moved_identity: "task_moved tid a b f tr d d' \<Longrightarrow> task_identity d' = task_identity d"
  by (auto simp: task_moved_def task_identity_def put_task_def set_rows_def)

lemma prefix_map_tids:
  assumes "task_identity d' = task_identity d"
  shows "map tid_of (db_tasks d') = map tid_of (db_tasks d)"
proof -
  have "map fst (task_identity d') = map fst (task_identity d)" using assms by simp
  then show ?thesis by (simp add: task_identity_def comp_def)
qed

section \<open>The status-changing operations\<close>

lemma insert_transition_moved:
  assumes "insert_transition tr d1 = Inr d'"
    and "db_tasks d1 = db_tasks (put_task tid f d)" "db_transitions d1 = db_transitions d"
    and "get_task d tid = Some t" "task_status t = a"
    and "\<And>t. task_id (f t) = task_id t \<and> task_source (f t) = task_source t \<and>
           task_project (f t) = task_project t \<and> task_repository (f t) = task_repository t \<and>
           task_status (f t) = b"
    and "tt_task_id tr = tid" "tt_from tr = a" "tt_to tr = b"
  shows "task_moved tid a b f tr d d'"
  by (rule insert_transition_effect [OF assms(1)]) (use assms(2-) in \<open>simp add: task_moved_def\<close>)

lemma insert_transition_audit_ok:
  "insert_transition tr d = Inr d' \<Longrightarrow> audit_ok d \<Longrightarrow> audit_ok d'"
  by (elim insert_transition_effect) (auto simp: audit_ok_def count_rows_def)

lemma insert_transition_frame:
  assumes "insert_transition tr d = Inr d'"
  shows "db_tasks d' = db_tasks d" "db_workspaces d' = db_workspaces d" "db_runs d' = db_runs d"
    "db_prs d' = db_prs d" "db_rework d' = db_rework d" "db_links d' = db_links d"
    "db_rejections d' = db_rejections d" "db_sprints d' = db_sprints d"
    "prefix (db_audit d) (db_audit d')" "prefix (db_transitions d) (db_transitions d')"
  by (rule insert_transition_effect [OF assms]; simp)+

lemma transition_write_moved:
  assumes "transition_write m now uid tid a b d = Inr (t', d')"
  shows "task_moved tid a b (\<lambda>t. t\<lparr>task_status := b, task_updated_at := now\<rparr>)
     \<lparr>tt_task_id = tid, tt_from = a, tt_to = b, tt_id = uid, tt_occurred_at = now\<rparr> d d'"
    and "get_task d' tid = Some t'"
    and "b = Task_CLAIMED \<Longrightarrow> busy_others d tid < m"
    and "db_workspaces d' = db_workspaces d" "db_runs d' = db_runs d" "db_prs d' = db_prs d"
      "db_rework d' = db_rework d" "db_links d' = db_links d"
      "db_rejections d' = db_rejections d" "db_sprints d' = db_sprints d"
    and "audit_ok d \<Longrightarrow> audit_ok d'" and "store_grows d d'"
proof -
  let ?f = "\<lambda>t. t\<lparr>task_status := b, task_updated_at := now\<rparr>"
  from assms obtain t where t: "get_task d tid = Some t" "task_status t = a" and t': "t' = ?f t"
    and c: "b = Task_CLAIMED \<longrightarrow> busy_others d tid < m"
    and i: "insert_transition \<lparr>tt_task_id = tid, tt_from = a, tt_to = b, tt_id = uid,
              tt_occurred_at = now\<rparr> (put_task tid ?f d) = Inr d'"
    by (auto simp: transition_write_def tx_step_eq_Inr split: option.splits if_splits)
  show m: "task_moved tid a b ?f
     \<lparr>tt_task_id = tid, tt_from = a, tt_to = b, tt_id = uid, tt_occurred_at = now\<rparr> d d'"
    by (rule insert_transition_moved [OF i _ _ t]) simp_all
  show "get_task d' tid = Some t'" using moved_get_task [OF m, of tid] t t' by simp
  show "b = Task_CLAIMED \<Longrightarrow> busy_others d tid < m" using c by simp
  show "db_workspaces d' = db_workspaces d" "db_runs d' = db_runs d" "db_prs d' = db_prs d"
    "db_rework d' = db_rework d" "db_links d' = db_links d"
    "db_rejections d' = db_rejections d" "db_sprints d' = db_sprints d"
    using insert_transition_frame [OF i] by simp_all
  show "audit_ok d \<Longrightarrow> audit_ok d'"
    using insert_transition_audit_ok [OF i] audit_ok_cong [of "put_task tid ?f d" d] by simp
  show "store_grows d d'"
    using insert_transition_frame [OF i] prefix_map_tids [OF moved_identity [OF m]]
    by (simp add: store_grows_def)
qed

lemma apply_transition_with_eq_Inr:
  "apply_transition_with res m now uid tid a b d = Inr x \<longleftrightarrow>
    transition_write m now uid tid a b d = Inr x \<and> transition_allowed res a b"
  by (auto simp: apply_transition_with_def transition_write_def split: option.splits)

lemma recorded_edge_allowed: "transition_allowed res a b \<Longrightarrow> recorded_edge a b"
  by (auto simp: recorded_edge_def transition_allowed_def)

end
