(* ===== verification/Run_Store.thy ===== *)
theory Run_Store
  imports Task_Facts
begin

text \<open>
  \<^verbatim>\<open>SqliteRunRepository\<close> (\<^verbatim>\<open>run_sqlite.py\<close>) and \<^verbatim>\<open>SqlitePullRequestRepository\<close> (\<^verbatim>\<open>pr_sqlite.py\<close>).
  An insert checks the partial unique indexes newest first, as SQLite does; only the payload of
  the refusal depends on that order.
\<close>

section \<open>Reading runs\<close>

definition workspace_row :: "store \<Rightarrow> string \<Rightarrow> workspace option" where
  "workspace_row d wid = find (\<lambda>w. ws_id w = wid) (db_workspaces d)"

definition get_workspace :: "store \<Rightarrow> string \<Rightarrow> workspace option" where
  "get_workspace = workspace_row"

definition row_to_run :: "store \<Rightarrow> run_row \<Rightarrow> agent_run" where
  "row_to_run d row = (rrow_run row)\<lparr>run_workspace := Option.bind (rrow_ws row) (workspace_row d)\<rparr>"

definition get_run :: "store \<Rightarrow> string \<Rightarrow> agent_run option" where
  "get_run d rid = map_option (row_to_run d) (run_row_of d rid)"

definition run_rows_for :: "store \<Rightarrow> string option \<Rightarrow> run_row list" where
  "run_rows_for d tid = sort_key (\<lambda>r. (rrow_created r, rid_of r))
     (filter (\<lambda>r. case tid of None \<Rightarrow> True | Some x \<Rightarrow> run_task_id (rrow_run r) = x) (db_runs d))"

definition list_runs :: "store \<Rightarrow> string option \<Rightarrow> agent_run list" where
  "list_runs d tid = map (row_to_run d) (run_rows_for d tid)"

definition find_active_run :: "store \<Rightarrow> string \<Rightarrow> agent_run option" where
  "find_active_run d tid =
     map_option (row_to_run d) (find active_row (run_rows_for d (Some tid)))"

section \<open>Writing runs\<close>

text \<open>The context pack is stored as its metadata: the fragment contents are not persisted.\<close>

definition pack_metadata :: "context_pack \<Rightarrow> context_pack" where
  "pack_metadata p = p\<lparr>pack_fragments := map (\<lambda>f. f\<lparr>frag_content := []\<rparr>) (pack_fragments p)\<rparr>"

definition save_workspace :: "workspace \<Rightarrow> (store, py_error, workspace) tx" where
  "save_workspace w d =
     (if workspace_row d (ws_id w) \<noteq> None then Inl (DuplicateRunError (ws_id w) None None)
      else Inr (w, d\<lparr>db_workspaces := db_workspaces d @ [w]\<rparr>))"

definition ensure_workspace :: "workspace option \<Rightarrow> store \<Rightarrow> store" where
  "ensure_workspace w d = (case w of None \<Rightarrow> d
     | Some w \<Rightarrow> if workspace_row d (ws_id w) = None
         then d\<lparr>db_workspaces := db_workspaces d @ [w]\<rparr> else d)"

definition run_row_for :: "int \<Rightarrow> agent_run \<Rightarrow> run_row" where
  "run_row_for created run = \<lparr>rrow_run = run\<lparr>run_workspace := None,
       run_context_pack := map_option pack_metadata (run_context_pack run)\<rparr>,
     rrow_ws = map_option ws_id (run_workspace run), rrow_created = created\<rparr>"

definition duplicate_error :: "agent_run \<Rightarrow> py_error" where
  "duplicate_error run = (if active_status (run_status run)
     then DuplicateRunError (run_id run) (Some (run_task_id run)) None
     else DuplicateRunError (run_id run) None None)"

definition save_run :: "int \<Rightarrow> agent_run \<Rightarrow> (store, py_error, agent_run) tx" where
  "save_run created run d =
     (let row = run_row_for created run; ws = rrow_ws row;
          mismatch = PersistenceError ''run project identity mismatch''
      in case get_task d (run_task_id run) of None \<Rightarrow> Inl mismatch
      | Some owner \<Rightarrow>
        if task_project owner \<noteq> run_project run \<or>
           (\<exists>w \<in> set_option (run_workspace run). task_repository owner \<noteq> ws_repository w)
        then Inl mismatch
        else if ws \<noteq> None \<and> (case find (\<lambda>r. rrow_ws r = ws) (db_runs d) of None \<Rightarrow> False
              | Some r \<Rightarrow> run_task_id (rrow_run r) \<noteq> run_task_id run)
        then Inl (DuplicateRunError (run_task_id run) None None)
        else if ws \<noteq> None \<and> list_ex (\<lambda>r. rrow_ws r = ws \<and>
               run_task_id (rrow_run r) \<noteq> run_task_id run) (db_runs d)
        then Inl (PersistenceError ''run could not be persisted'')
        else if active_row row \<and> ws \<noteq> None \<and>
               list_ex (\<lambda>r. active_row r \<and> rrow_ws r = ws) (db_runs d)
        then Inl (DuplicateRunError (run_id run) None ws)
        else if active_row row \<and> list_ex (\<lambda>r. active_row r \<and>
               run_task_id (rrow_run r) = run_task_id run) (db_runs d)
        then Inl (duplicate_error run)
        else if run_row_of d (run_id run) \<noteq> None then Inl (duplicate_error run)
        else case audit_run_insert row ((ensure_workspace (run_workspace run) d)
               \<lparr>db_runs := db_runs d @ [row]\<rparr>) of
          Inl _ \<Rightarrow> Inl (duplicate_error run)
        | Inr d' \<Rightarrow> Inr (run, d'))"

text \<open>The columns \<open>update_run\<close> writes.\<close>

definition overwrite_run :: "agent_run \<Rightarrow> agent_run \<Rightarrow> agent_run" where
  "overwrite_run run old = old\<lparr>run_status := run_status run, run_summary := run_summary run,
     run_started_at := run_started_at run, run_last_heartbeat := run_last_heartbeat run,
     run_agent_heartbeat := run_agent_heartbeat run, run_finished_at := run_finished_at run,
     run_gates := run_gates run, run_validated_revision := run_validated_revision run\<rparr>"

definition update_run :: "int \<Rightarrow> agent_run \<Rightarrow> (store, py_error, agent_run) tx" where
  "update_run now run d =
     (case run_row_of d (run_id run) of None \<Rightarrow> Inl (KeyError (run_id run))
      | Some row \<Rightarrow> let old = rrow_run row;
          new = row\<lparr>rrow_run := overwrite_run run old\<rparr>
        in if run_task_id old \<noteq> run_task_id run \<or> run_project old \<noteq> run_project run
           then Inl (PersistenceError (''run '' @ run_id run @ '' belongs to another task''))
           else if run_worker_id old \<noteq> run_worker_id run \<or> run_session_id old \<noteq> run_session_id run
           then Inl (PersistenceError (''run '' @ run_id run @ '' cannot change its owner''))
           else if map_option ws_id (run_workspace run) \<noteq> rrow_ws row
           then Inl (PersistenceError (''run '' @ run_id run @ '' cannot change its workspace''))
           else if map_option pack_metadata (run_context_pack run) \<noteq> run_context_pack old
           then Inl (PersistenceError (''run '' @ run_id run @ '' cannot change its context pack''))
           else if active_row new \<and> list_ex (\<lambda>r. rid_of r \<noteq> run_id run \<and> active_row r \<and>
                 (run_task_id (rrow_run r) = run_task_id run \<or>
                  rrow_ws r \<noteq> None \<and> rrow_ws r = rrow_ws row)) (db_runs d)
           then Inl IntegrityError
           else tx_step (audit_run_finish now row new (put_run (run_id run) (overwrite_run run) d))
                  (\<lambda>d'. Inr (run, audit_validation now row new d')))"

section \<open>Pull requests (pr\_sqlite.py)\<close>

text \<open>The body of a pull request is not stored: a row is read back with an empty one.\<close>

definition row_to_pull_request :: "pr_row \<Rightarrow> pull_request" where
  "row_to_pull_request r = (prow_pr r)\<lparr>pr_body := []\<rparr>"

definition pr_row_for_run :: "store \<Rightarrow> string \<Rightarrow> pr_row option" where
  "pr_row_for_run d rid = find (\<lambda>p. pr_run_id (prow_pr p) = Some rid) (db_prs d)"

definition get_for_run :: "store \<Rightarrow> string \<Rightarrow> pull_request option" where
  "get_for_run d rid = map_option row_to_pull_request (pr_row_for_run d rid)"

definition find_by_branch :: "store \<Rightarrow> string \<Rightarrow> string \<Rightarrow> pull_request option" where
  "find_by_branch d slug head = map_option row_to_pull_request
     (find (\<lambda>p. pr_repository (prow_pr p) = slug \<and> pr_head_branch (prow_pr p) = head) (db_prs d))"

definition save_pr :: "string \<Rightarrow> pull_request \<Rightarrow> (store, py_error, pull_request) tx" where
  "save_pr uid pr d =
     (let failed = PersistenceError ''pull request could not be persisted'' in
      case pr_run_id pr of None \<Rightarrow> Inl failed
      | Some rid \<Rightarrow>
        let duplicate = DuplicatePullRequestError rid (pr_repository pr) (pr_head_branch pr);
            row = \<lparr>prow_id = uid, prow_pr = pr\<lparr>pr_body := []\<rparr>\<rparr>
        in if list_ex (\<lambda>p. prow_id p = uid \<or> pr_run_id (prow_pr p) = Some rid \<or>
              pr_repository (prow_pr p) = pr_repository pr \<and>
              pr_head_branch (prow_pr p) = pr_head_branch pr) (db_prs d) then Inl duplicate
           else case audit_pr_insert row (d\<lparr>db_prs := db_prs d @ [row]\<rparr>) of
             Inl _ \<Rightarrow> Inl duplicate
           | Inr d' \<Rightarrow> if run_row_of d rid = None then Inl failed else Inr (pr, d'))"

text \<open>The join of a run with its task and its workspace, as \<open>record_revision\<close> selects it.\<close>

definition run_identity :: "store \<Rightarrow> string \<Rightarrow>
    (string \<times> string \<times> string \<times> string \<times> string \<times> string \<times> string) option" where
  "run_identity d rid = (case run_row_of d rid of None \<Rightarrow> None
     | Some r \<Rightarrow> case get_task d (run_task_id (rrow_run r)) of None \<Rightarrow> None
       | Some t \<Rightarrow> case Option.bind (rrow_ws r) (workspace_row d) of None \<Rightarrow> None
         | Some w \<Rightarrow> Some (run_task_id (rrow_run r), run_project (rrow_run r), ws_id w,
             task_project t, task_repository t, ws_repository w, ws_branch w))"

definition pr_identity_match :: "pull_request \<Rightarrow> pull_request \<Rightarrow> bool" where
  "pr_identity_match p q \<longleftrightarrow> pr_run_id p \<noteq> None \<and> pr_run_id q = pr_run_id p \<and>
     pr_task_id p \<noteq> None \<and> pr_task_id q = pr_task_id p \<and> pr_repository q = pr_repository p \<and>
     pr_head_branch q = pr_head_branch p \<and> pr_base_branch q = pr_base_branch p \<and>
     pr_number p \<noteq> None \<and> pr_number q = pr_number p"

definition put_pr :: "(pr_row \<Rightarrow> bool) \<Rightarrow> (pull_request \<Rightarrow> pull_request) \<Rightarrow> store \<Rightarrow> store" where
  "put_pr p f d = d\<lparr>db_prs := set_rows p (\<lambda>r. r\<lparr>prow_pr := f (prow_pr r)\<rparr>) (db_prs d)\<rparr>"

definition revision_source :: "store \<Rightarrow> pull_request \<Rightarrow>
    (string \<times> string \<times> string \<times> string \<times> string \<times> string \<times> string) option" where
  "revision_source d pr = (case pr_run_id pr of None \<Rightarrow> None
     | Some rid \<Rightarrow> if pr_task_id pr \<noteq> None \<and> list_ex (\<lambda>p. pr_run_id (prow_pr p) = Some rid \<and>
           pr_task_id (prow_pr p) = pr_task_id pr) (db_prs d)
         then run_identity d rid else None)"

definition record_revision :: "int \<Rightarrow> pull_request \<Rightarrow> string \<Rightarrow> string \<Rightarrow>
    (store, py_error, pull_request) tx" where
  "record_revision now pr rid commit d =
     (let mismatch = ValueError ''pull request revision identity mismatch'' in
      if strip commit = [] \<or> strip rid = [] \<or> pr_run_id pr = None
      then Inl (ValueError ''invalid published revision'')
      else case (revision_source d pr, run_identity d rid) of
        (Some (stid, sproj, swid, stproj, srepo, swrepo, sbranch),
         Some (dtid, dproj, dwid, dtproj, drepo, dwrepo, dbranch)) \<Rightarrow>
          if (stid, sproj, swid, stproj, srepo, swrepo, sbranch) \<noteq>
               (dtid, dproj, dwid, dtproj, drepo, dwrepo, dbranch) \<or>
             Some dtid \<noteq> pr_task_id pr \<or> sproj \<noteq> stproj \<or> swrepo \<noteq> srepo \<or>
             dproj \<noteq> dtproj \<or> dwrepo \<noteq> drepo \<or> drepo \<noteq> pr_repository pr \<or>
             dbranch \<noteq> pr_head_branch pr
          then Inl mismatch
          else (case find (\<lambda>p. pr_identity_match pr (prow_pr p)) (db_prs d) of
              None \<Rightarrow> Inl mismatch
            | Some row \<Rightarrow>
              let f = (\<lambda>q. q\<lparr>pr_run_id := Some rid, pr_commit_sha := Some commit, pr_merged := False\<rparr>);
                  new = row\<lparr>prow_pr := f (prow_pr row)\<rparr>
              in if list_ex (\<lambda>p. prow_id p \<noteq> prow_id row \<and> pr_run_id (prow_pr p) = Some rid) (db_prs d)
                 then Inl IntegrityError
                 else tx_step (audit_pr_update now row new
                        (put_pr (\<lambda>p. prow_id p = prow_id row) f d))
                        (\<lambda>d'. Inr (row_to_pull_request new, d')))
      | _ \<Rightarrow> Inl mismatch)"

definition record_provider_revision :: "int \<Rightarrow> pull_request \<Rightarrow> string \<Rightarrow>
    (store, py_error, pull_request) tx" where
  "record_provider_revision now pr commit d =
     (case (pr_run_id pr, pr_task_id pr, pr_number pr) of
        (Some rid, Some _, Some _) \<Rightarrow>
          if strip commit = [] then Inl (ValueError ''invalid provider revision identity'')
          else (case find (\<lambda>p. pr_identity_match pr (prow_pr p)) (db_prs d) of
              None \<Rightarrow> (case get_for_run d rid of
                  None \<Rightarrow> Inl (ValueError ''provider revision identity mismatch'')
                | Some stored \<Rightarrow> Inr (stored, d))
            | Some row \<Rightarrow>
              let f = (\<lambda>q. q\<lparr>pr_commit_sha := Some commit, pr_merged := False\<rparr>);
                  new = row\<lparr>prow_pr := f (prow_pr row)\<rparr>
              in tx_step (audit_pr_update now row new
                   (put_pr (\<lambda>p. prow_id p = prow_id row) f d))
                   (\<lambda>d'. Inr (row_to_pull_request new, d')))
      | _ \<Rightarrow> Inl (ValueError ''invalid provider revision identity''))"

definition record_merged :: "int \<Rightarrow> pull_request \<Rightarrow> (store, py_error, pull_request) tx" where
  "record_merged now pr d =
     (case (pr_run_id pr, pr_task_id pr, pr_number pr, pr_commit_sha pr) of
        (Some rid, Some _, Some _, Some sha) \<Rightarrow>
          if sha = [] then Inl (ValueError ''invalid pull request merge identity'')
          else (case find (\<lambda>p. pr_identity_match pr (prow_pr p) \<and>
                   pr_commit_sha (prow_pr p) = Some sha \<and> \<not> pr_merged (prow_pr p)) (db_prs d) of
              Some row \<Rightarrow>
                let new = row\<lparr>prow_pr := (prow_pr row)\<lparr>pr_merged := True\<rparr>\<rparr>
                in tx_step (audit_pr_update now row new
                     (put_pr (\<lambda>p. prow_id p = prow_id row) (\<lambda>q. q\<lparr>pr_merged := True\<rparr>) d))
                     (\<lambda>d'. Inr (row_to_pull_request new, d'))
            | None \<Rightarrow> (case pr_row_for_run d rid of
                  None \<Rightarrow> Inl (ValueError ''pull request merge identity mismatch'')
                | Some row \<Rightarrow>
                  if pr_identity_match pr (prow_pr row) \<and> pr_commit_sha (prow_pr row) = Some sha \<and>
                     pr_merged (prow_pr row)
                  then Inr (row_to_pull_request row, d)
                  else Inl (ValueError ''pull request merge identity mismatch'')))
      | _ \<Rightarrow> Inl (ValueError ''invalid pull request merge identity''))"

end
