(* ===== verification/Store_Invariants.thy ===== *)
theory Store_Invariants
  imports Run_Store
begin

text \<open>
  The invariant of the whole database and its preservation by every repository operation: unique
  task ids and sources, unique runs, at most one active run per task and per workspace, one task
  per workspace, run rows that refer to an existing task of the same project and to a stored
  workspace, pull requests unique per run and per branch, and an audit trace with unique keys and
  gap-free sequence numbers.
\<close>

section \<open>Run and pull request invariants\<close>

definition runs_unique :: "store \<Rightarrow> bool" where
  "runs_unique d \<longleftrightarrow> distinct (map rid_of (db_runs d)) \<and> distinct (map ws_id (db_workspaces d))"

text \<open>At most one active run per task and at most one per workspace.\<close>

definition runs_exclusive :: "store \<Rightarrow> bool" where
  "runs_exclusive d \<longleftrightarrow> (\<forall>r \<in> set (db_runs d). \<forall>q \<in> set (db_runs d). rid_of r \<noteq> rid_of q \<longrightarrow>
     \<not> (active_row r \<and> active_row q \<and>
        (run_task_id (rrow_run r) = run_task_id (rrow_run q) \<or>
         rrow_ws r \<noteq> None \<and> rrow_ws r = rrow_ws q)))"

text \<open>All runs of a workspace belong to one task.\<close>

definition runs_owner :: "store \<Rightarrow> bool" where
  "runs_owner d \<longleftrightarrow> (\<forall>r \<in> set (db_runs d). \<forall>q \<in> set (db_runs d).
     run_task_id (rrow_run r) \<noteq> run_task_id (rrow_run q) \<longrightarrow>
     \<not> (rrow_ws r \<noteq> None \<and> rrow_ws r = rrow_ws q))"

definition runs_refer :: "store \<Rightarrow> bool" where
  "runs_refer d \<longleftrightarrow> (\<forall>r \<in> set (db_runs d).
     (\<exists>repo. (run_task_id (rrow_run r), run_project (rrow_run r), repo) \<in> set (task_identity d)) \<and>
     (\<forall>w. rrow_ws r = Some w \<longrightarrow> w \<in> ws_id ` set (db_workspaces d)))"

definition runs_ok :: "store \<Rightarrow> bool" where
  "runs_ok d \<longleftrightarrow> runs_unique d \<and> runs_exclusive d \<and> runs_owner d \<and> runs_refer d"

lemmas runs_ok_defs = runs_ok_def runs_unique_def runs_exclusive_def runs_owner_def runs_refer_def

definition prs_ok :: "store \<Rightarrow> bool" where
  "prs_ok d \<longleftrightarrow>
     distinct (map prow_id (db_prs d)) \<and>
     distinct (map (\<lambda>p. pr_run_id (prow_pr p)) (db_prs d)) \<and>
     distinct (map (\<lambda>p. (pr_repository (prow_pr p), pr_head_branch (prow_pr p))) (db_prs d)) \<and>
     (\<forall>p \<in> set (db_prs d). \<exists>rid. pr_run_id (prow_pr p) = Some rid \<and> rid \<in> set (map rid_of (db_runs d)))"

definition store_inv :: "store \<Rightarrow> bool" where
  "store_inv d \<longleftrightarrow> tasks_ok d \<and> runs_ok d \<and> prs_ok d \<and> audit_ok d"

text \<open>A sound step: nothing durable is lost and the invariant is kept.\<close>

definition sound_step :: "store \<Rightarrow> store \<Rightarrow> bool" where
  "sound_step d d' \<longleftrightarrow> store_grows d d' \<and> (store_inv d \<longrightarrow> store_inv d')"

text \<open>A historical step also keeps the transition history a chain of recorded edges.\<close>

definition historical_step :: "store \<Rightarrow> store \<Rightarrow> bool" where
  "historical_step d d' \<longleftrightarrow> sound_step d d' \<and> (store_inv d \<and> history_ok d \<longrightarrow> history_ok d')"

interpretation soundness: preorder_relation sound_step
  by unfold_locales (auto simp: sound_step_def intro: store_grows_trans)

interpretation historical: preorder_relation historical_step
  by unfold_locales (auto simp: historical_step_def sound_step_def intro: store_grows_trans)

lemma historical_sound: "historical_step d d' \<Longrightarrow> sound_step d d'"
  by (simp add: historical_step_def)

lemma empty_store_inv: "store_inv empty_store" "history_ok empty_store"
  by (simp_all add: store_inv_def tasks_ok_def runs_ok_defs prs_ok_def audit_ok_def history_ok_def
      empty_store_def count_rows_def)

lemma runs_ok_cong:
  "db_runs d = db_runs d' \<Longrightarrow> db_workspaces d = db_workspaces d' \<Longrightarrow>
    task_identity d = task_identity d' \<Longrightarrow> runs_ok d = runs_ok d'"
  by (simp add: runs_ok_defs)

lemma runs_ok_more_tasks:
  assumes "runs_ok d" "db_runs d' = db_runs d" "db_workspaces d' = db_workspaces d"
    "set (task_identity d) \<subseteq> set (task_identity d')"
  shows "runs_ok d'"
proof -
  have "runs_refer d'"
    unfolding runs_refer_def
  proof (rule ballI)
    fix r assume r: "r \<in> set (db_runs d')"
    have "runs_refer d" using assms(1) by (simp add: runs_ok_def)
    then have "(\<exists>repo. (run_task_id (rrow_run r), run_project (rrow_run r), repo) \<in> set (task_identity d)) \<and>
        (\<forall>w. rrow_ws r = Some w \<longrightarrow> w \<in> ws_id ` set (db_workspaces d))"
      using r assms(2) by (simp add: runs_refer_def)
    then show "(\<exists>repo. (run_task_id (rrow_run r), run_project (rrow_run r), repo) \<in> set (task_identity d')) \<and>
        (\<forall>w. rrow_ws r = Some w \<longrightarrow> w \<in> ws_id ` set (db_workspaces d'))"
      using assms(4) unfolding assms(3) by blast
  qed
  then show ?thesis
    using assms by (simp add: runs_ok_def runs_unique_def runs_exclusive_def runs_owner_def)
qed

lemma prs_ok_cong:
  "db_prs d = db_prs d' \<Longrightarrow> map rid_of (db_runs d) = map rid_of (db_runs d') \<Longrightarrow> prs_ok d = prs_ok d'"
  unfolding prs_ok_def by simp

lemma tasks_ok_cong: "db_tasks d = db_tasks d' \<Longrightarrow> tasks_ok d = tasks_ok d'"
  by (simp add: tasks_ok_def)

lemma history_ok_cong:
  "db_tasks d = db_tasks d' \<Longrightarrow> db_transitions d = db_transitions d' \<Longrightarrow> history_ok d = history_ok d'"
  by (simp add: history_ok_def task_history_def task_row_of_def)

lemma identity_cong: "db_tasks d = db_tasks d' \<Longrightarrow> task_identity d = task_identity d'"
  by (simp add: task_identity_def)

lemma only_audit_historical: "only_audit d d' \<Longrightarrow> historical_step d d'"
  using only_auditD [of d d'] tasks_ok_cong [of d d'] runs_ok_cong [of d d'] prs_ok_cong [of d d']
    history_ok_cong [of d d'] identity_cong [of d d']
  by (simp add: historical_step_def sound_step_def only_audit_grows store_inv_def)

section \<open>Task operations\<close>

text \<open>A status move that leaves the other tables alone is a historical step.\<close>

lemma moved_historical:
  assumes m: "task_moved tid a b f tr d d'" and e: "recorded_edge a b"
    and frame: "db_workspaces d' = db_workspaces d" "db_runs d' = db_runs d" "db_prs d' = db_prs d"
    and au: "audit_ok d \<Longrightarrow> audit_ok d'" and g: "store_grows d d'"
  shows "historical_step d d'"
  using moved_tasks_ok [OF m] moved_history_ok [OF m e] moved_identity [OF m] frame au g
    runs_ok_cong [of d' d] prs_ok_cong [of d' d]
  by (simp add: historical_step_def sound_step_def store_inv_def)

lemma transition_write_historical:
  assumes "transition_write m now uid tid a b d = Inr (t', d')" "recorded_edge a b"
  shows "historical_step d d'"
  using transition_write_moved [OF assms(1)] by (intro moved_historical [OF _ assms(2)]) simp_all

lemma apply_transition_with_historical:
  "apply_transition_with res m now uid tid a b d = Inr (t', d') \<Longrightarrow> historical_step d d'"
  by (auto simp: apply_transition_with_eq_Inr
      intro: transition_write_historical recorded_edge_allowed)

lemma apply_transition_historical:
  "apply_transition m now uid tid a b d = Inr (t', d') \<Longrightarrow> historical_step d d'"
  unfolding apply_transition_def by (rule apply_transition_with_historical)

lemma apply_terminal_resolution_historical:
  "apply_terminal_resolution m now uid tid a d = Inr (t', d') \<Longrightarrow> historical_step d d'"
  by (auto simp: apply_terminal_resolution_def split: if_splits
      intro: apply_transition_with_historical)

text \<open>The same for an operation that records the move after writing the task row in \<open>d1\<close>.\<close>

lemma insert_transition_historical:
  assumes i: "insert_transition \<lparr>tt_task_id = tid, tt_from = a, tt_to = b, tt_id = uid,
                tt_occurred_at = now\<rparr> d1 = Inr d'"
    and d1: "db_tasks d1 = db_tasks (put_task tid f d)" "db_transitions d1 = db_transitions d"
      "db_workspaces d1 = db_workspaces d" "db_runs d1 = db_runs d" "db_prs d1 = db_prs d"
      "db_audit d1 = db_audit d" "prefix (db_rework d) (db_rework d1)"
    and t: "get_task d tid = Some t" "task_status t = a" and e: "recorded_edge a b"
    and f: "\<And>t. task_id (f t) = task_id t \<and> task_source (f t) = task_source t \<and>
           task_project (f t) = task_project t \<and> task_repository (f t) = task_repository t \<and>
           task_status (f t) = b"
  shows "historical_step d d'"
proof -
  have m: "task_moved tid a b f \<lparr>tt_task_id = tid, tt_from = a, tt_to = b, tt_id = uid,
      tt_occurred_at = now\<rparr> d d'"
    using f by (intro insert_transition_moved [OF i d1(1,2) t]) simp_all
  have "store_grows d d'"
    using insert_transition_frame [OF i] d1 prefix_map_tids [OF moved_identity [OF m]]
    by (simp add: store_grows_def)
  then show ?thesis
    using insert_transition_frame [OF i] d1 insert_transition_audit_ok [OF i] audit_ok_cong [of d1 d]
    by (intro moved_historical [OF m e]) simp_all
qed

lemma request_rework_historical:
  assumes "request_rework now ruid uid tid rid fb d = Inr (t', d')"
  shows "historical_step d d'"
proof -
  let ?f = "\<lambda>t. t\<lparr>task_status := Task_CHANGES_REQUESTED, task_updated_at := now\<rparr>"
  from assms obtain t where t: "get_task d tid = Some t" "task_status t = Task_WAITING_HUMAN"
    and i: "insert_transition \<lparr>tt_task_id = tid, tt_from = Task_WAITING_HUMAN,
        tt_to = Task_CHANGES_REQUESTED, tt_id = uid, tt_occurred_at = now\<rparr>
      ((put_task tid ?f d)\<lparr>db_rework := db_rework d @ [\<lparr>rw_id = ruid, rw_task = tid,
         rw_run = rid, rw_feedback = fb, rw_requested_at = now\<rparr>]\<rparr>) = Inr d'"
    by (auto simp: request_rework_def tx_step_eq_Inr split: option.splits if_splits)
  have "recorded_edge Task_WAITING_HUMAN Task_CHANGES_REQUESTED"
    by (simp add: recorded_edge_def transition_allowed_def can_persist_transition_def can_transition_def)
  then show ?thesis
    by (intro insert_transition_historical [OF i _ _ _ _ _ _ _ t, where f = ?f]) simp_all
qed

lemma authorize_terminal_recovery_historical:
  assumes "authorize_terminal_recovery marker now uid tid rid d = Inr (t', d')"
  shows "historical_step d d'"
proof -
  let ?f = "\<lambda>t. t\<lparr>task_status := Task_BLOCKED, task_blocked_reason := Some marker,
                  task_updated_at := now\<rparr>"
  from assms obtain t where t: "get_task d tid = Some t" "task_status t = Task_FAILED"
    and i: "insert_transition \<lparr>tt_task_id = tid, tt_from = Task_FAILED, tt_to = Task_BLOCKED,
        tt_id = uid, tt_occurred_at = now\<rparr> (put_task tid ?f d) = Inr d'"
    by (auto simp: authorize_terminal_recovery_def tx_step_eq_Inr split: option.splits if_splits)
  have "recorded_edge Task_FAILED Task_BLOCKED" by (simp add: recorded_edge_def)
  then show ?thesis
    by (intro insert_transition_historical [OF i _ _ _ _ _ _ _ t, where f = ?f]) simp_all
qed

section \<open>Saving and updating tasks\<close>

lemma save_task_effect:
  assumes "save_task t d = Inr (t', d')"
  obtains row where "t' = t" "trow_task row = t" "only_audit (d\<lparr>db_tasks := db_tasks d @ [row]\<rparr>) d'"
    "task_id t \<notin> set (map tid_of (db_tasks d))"
    "\<And>r. r \<in> set (db_tasks d) \<Longrightarrow> task_source t \<noteq> None \<Longrightarrow> task_source (trow_task r) \<noteq> task_source t"
proof -
  let ?row = "\<lparr>trow_task = t,
     trow_origin = Some (case source_link d t of None \<Rightarrow> ''github-direct'' | Some l \<Rightarrow> lk_provider l),
     trow_item = map_option lk_external (source_link d t)\<rparr>"
  from assms have a: "audit_task_materialized t (d\<lparr>db_tasks := db_tasks d @ [?row]\<rparr>) = Inr d'"
    "t' = t" "\<not> list_ex (\<lambda>r. tid_of r = task_id t) (db_tasks d)"
    "\<not> (task_source t \<noteq> None \<and> list_ex (\<lambda>r. task_source (trow_task r) = task_source t) (db_tasks d))"
    by (auto simp: save_task_def Let_def split: if_splits sum.splits)
  show thesis
    by (rule that [of ?row]) (use a in \<open>auto simp: list_ex_iff intro: only_audit_task\<close>)
qed

lemma history_ok_unknown:
  assumes "history_ok d" "tid \<notin> set (map tid_of (db_tasks d))"
  shows "task_history d tid = []"
proof (rule ccontr)
  assume "task_history d tid \<noteq> []"
  then obtain x where "x \<in> set (db_transitions d)" "tt_task_id x = tid"
    unfolding task_history_def by (auto simp: filter_empty_conv)
  then have "task_row_of d tid \<noteq> None" using assms(1) by (auto simp: history_ok_def)
  then show False using assms(2) by (auto dest: task_row_ofD)
qed

lemma save_task_historical:
  assumes "save_task t d = Inr (t', d')"
  shows "historical_step d d'"
proof -
  obtain row where row: "trow_task row = t" and oa: "only_audit (d\<lparr>db_tasks := db_tasks d @ [row]\<rparr>) d'"
    and new: "task_id t \<notin> set (map tid_of (db_tasks d))"
    and src: "\<And>r. r \<in> set (db_tasks d) \<Longrightarrow> task_source t \<noteq> None \<Longrightarrow>
      task_source (trow_task r) \<noteq> task_source t"
    using save_task_effect [OF assms(1)] by metis
  let ?d1 = "d\<lparr>db_tasks := db_tasks d @ [row]\<rparr>"
  have "tasks_ok d \<Longrightarrow> tasks_ok ?d1"
    using new src row by (auto simp: tasks_ok_def)
  moreover have "runs_ok d \<Longrightarrow> runs_ok ?d1"
    by (erule runs_ok_more_tasks) (auto simp: task_identity_def)
  moreover have "prs_ok d \<Longrightarrow> prs_ok ?d1" "audit_ok d \<Longrightarrow> audit_ok ?d1"
    by (simp_all add: prs_ok_def audit_ok_def)
  moreover have "store_grows d ?d1" by (simp add: store_grows_def)
  moreover have "history_ok d \<Longrightarrow> history_ok ?d1"
  proof -
    assume h: "history_ok d"
    have "task_history ?d1 x = task_history d x" for x by (simp add: task_history_def)
    moreover have "task_row_of d x \<noteq> None \<Longrightarrow> task_row_of ?d1 x \<noteq> None" for x
      by (auto simp: task_row_of_def find_append)
    ultimately show "history_ok ?d1"
      using h row history_ok_unknown [OF h new]
      by (auto simp: history_ok_def intro: exI [of _ "task_status t"])
  qed
  ultimately have "historical_step d ?d1"
    by (simp add: historical_step_def sound_step_def store_inv_def)
  then show ?thesis
    using only_audit_historical [OF oa] by (rule historical.R_trans)
qed

text \<open>\<open>update\<close> rewrites a whole row without comparing the stored status, so it is sound for the
  tables but keeps the history a chain only when the status it writes is the stored one.\<close>

lemma update_task_effect:
  assumes "update_task t d = Inr (t', d')"
  obtains old where "t' = t" "get_task d (task_id t) = Some old" "task_project old = task_project t"
    "task_repository old = task_repository t" "task_kind old = task_kind t"
    "\<And>r. r \<in> set (db_tasks d) \<Longrightarrow> tid_of r \<noteq> task_id t \<Longrightarrow> task_source t \<noteq> None \<Longrightarrow>
       task_source (trow_task r) \<noteq> task_source t"
    "d' = put_task (task_id t) (\<lambda>old. t\<lparr>task_created_at := task_created_at old\<rparr>) d"
  using assms
  by (auto simp: update_task_def get_task_def Let_def list_ex_iff split: option.splits if_splits)

lemma set_task_row:
  assumes "tasks_ok d" "get_task d tid = Some old" "r \<in> set (db_tasks d)" "tid_of r = tid"
  shows "trow_task r = old"
proof -
  obtain q where "q \<in> set (db_tasks d)" "tid_of q = tid" "trow_task q = old"
    using assms(2) by (auto simp: get_task_def dest: task_row_ofD)
  moreover have "q = r"
    using calculation assms by (auto simp: tasks_ok_def intro: distinct_map_unique)
  ultimately show ?thesis by simp
qed

lemma distinct_sources_put:
  assumes "distinct (filter (\<lambda>s. s \<noteq> None) (map f rows))" "distinct (map g rows)"
    and "\<And>r. r \<in> set rows \<Longrightarrow> g r = k \<Longrightarrow> f' r = s" and "\<And>r. r \<in> set rows \<Longrightarrow> g r \<noteq> k \<Longrightarrow> f' r = f r"
    and "s \<noteq> None \<Longrightarrow> \<forall>r \<in> set rows. g r \<noteq> k \<longrightarrow> f r \<noteq> s"
  shows "distinct (filter (\<lambda>s. s \<noteq> None) (map f' rows))"
  using assms
proof (induction rows)
  case (Cons r rows)
  have IH: "distinct (filter (\<lambda>s. s \<noteq> None) (map f' rows))"
    using Cons by (auto split: if_splits)
  show ?case
  proof (cases "g r = k")
    case True
    then have "k \<notin> g ` set rows" using Cons.prems(2) by auto
    then have k: "\<forall>q \<in> set rows. g q \<noteq> k" by auto
    then have e: "\<forall>q \<in> set rows. f' q = f q" using Cons.prems(4) by auto
    have s: "f' r = s" using Cons.prems(3) True by simp
    have "s \<noteq> None \<Longrightarrow> s \<notin> f' ` set rows" using Cons.prems(5) k e by auto
    then show ?thesis using IH s by auto
  next
    case False
    then have r: "f' r = f r" using Cons.prems(4) by simp
    have "f r \<noteq> None \<Longrightarrow> f r \<notin> f' ` set rows"
    proof
      assume n: "f r \<noteq> None" and "f r \<in> f' ` set rows"
      then obtain q where q: "q \<in> set rows" "f r = f' q" by auto
      show False
      proof (cases "g q = k")
        case True
        then have "f' q = s" using Cons.prems(3) q by simp
        then show False using Cons.prems(5) n q False by auto
      next
        case False
        then have "f' q = f q" using Cons.prems(4) q by simp
        then show False using Cons.prems(1) n q by (auto split: if_splits)
      qed
    qed
    then show ?thesis using IH r by (auto simp: image_iff)
  qed
qed simp

lemma update_task_sound:
  assumes "update_task t d = Inr (t', d')"
  shows "sound_step d d'"
proof -
  let ?f = "\<lambda>old. t\<lparr>task_created_at := task_created_at old\<rparr>" and ?k = "task_id t"
  obtain old where old: "get_task d ?k = Some old" "task_project old = task_project t"
      "task_repository old = task_repository t"
    and src: "\<And>r. r \<in> set (db_tasks d) \<Longrightarrow> tid_of r \<noteq> ?k \<Longrightarrow> task_source t \<noteq> None \<Longrightarrow>
       task_source (trow_task r) \<noteq> task_source t"
    and d': "d' = put_task ?k ?f d"
    using update_task_effect [OF assms] by metis
  have tids: "map tid_of (db_tasks d') = map tid_of (db_tasks d)"
    by (simp add: d' put_task_def map_set_rows)
  have "tasks_ok d'" and "task_identity d' = task_identity d" if ok: "tasks_ok d"
  proof -
    let ?g = "\<lambda>r. task_source (trow_task (if tid_of r = ?k
        then r\<lparr>trow_task := ?f (trow_task r)\<rparr> else r))"
    have "distinct (filter (\<lambda>s. s \<noteq> None) (map ?g (db_tasks d)))"
    proof (rule distinct_sources_put [of "\<lambda>r. task_source (trow_task r)" "db_tasks d" tid_of ?k ?g
            "task_source t"])
      show "distinct (filter (\<lambda>s. s \<noteq> None) (map (\<lambda>r. task_source (trow_task r)) (db_tasks d)))"
        "distinct (map tid_of (db_tasks d))" using ok by (simp_all add: tasks_ok_def)
      show "task_source t \<noteq> None \<Longrightarrow> \<forall>r \<in> set (db_tasks d). tid_of r \<noteq> ?k \<longrightarrow>
          task_source (trow_task r) \<noteq> task_source t" using src by blast
    qed simp_all
    moreover have "map (\<lambda>r. task_source (trow_task r)) (db_tasks d') = map ?g (db_tasks d)"
      by (simp add: d' put_task_def set_rows_def)
    moreover have "distinct (map tid_of (db_tasks d))" using ok by (simp add: tasks_ok_def)
    ultimately show "tasks_ok d'" unfolding tasks_ok_def tids by simp
    show "task_identity d' = task_identity d"
      using old set_task_row [OF ok old(1)]
      by (auto simp: task_identity_def d' put_task_def set_rows_def)
  qed
  moreover have "store_grows d d'" using tids by (simp add: store_grows_def d')
  ultimately show ?thesis
    using runs_ok_cong [of d' d] prs_ok_cong [of d' d] audit_ok_cong [of d' d]
    by (auto simp: sound_step_def store_inv_def d')
qed

lemma update_task_historical:
  assumes u: "update_task t d = Inr (t', d')" and s: "get_task d (task_id t) = Some old"
    "task_status old = task_status t"
  shows "historical_step d d'"
proof -
  have d': "d' = put_task (task_id t) (\<lambda>old. t\<lparr>task_created_at := task_created_at old\<rparr>) d"
    using update_task_effect [OF u] by metis
  have "history_ok d'" if ok: "tasks_ok d" "history_ok d"
    unfolding history_ok_def
  proof (intro conjI ballI)
    fix r assume "r \<in> set (db_tasks d')"
    then obtain q where q: "q \<in> set (db_tasks d)" and r: "r = (if tid_of q = task_id t
        then q\<lparr>trow_task := t\<lparr>task_created_at := task_created_at (trow_task q)\<rparr>\<rparr> else q)"
      by (auto simp: d' set_put_task)
    have "tid_of r = tid_of q" "task_status (trow_task r) = task_status (trow_task q)"
      using r s(2) set_task_row [OF ok(1) s(1) q] by auto
    then show "\<exists>a. chain a (task_history d' (tid_of r)) (task_status (trow_task r))"
      using ok(2) q by (auto simp: history_ok_def task_history_def d')
  next
    fix x assume "x \<in> set (db_transitions d')"
    then have "task_row_of d (tt_task_id x) \<noteq> None"
      using ok(2) by (auto simp: d' history_ok_def)
    then obtain q where "q \<in> set (db_tasks d)" "tid_of q = tt_task_id x"
      by (auto dest: task_row_ofD)
    then have "tt_task_id x \<in> set (map tid_of (db_tasks d))" by force
    moreover have "map tid_of (db_tasks d') = map tid_of (db_tasks d)"
      by (simp add: d' put_task_def map_set_rows)
    ultimately have "tt_task_id x \<in> tid_of ` set (db_tasks d')" by (metis list.set_map)
    then show "task_row_of d' (tt_task_id x) \<noteq> None"
      by (auto simp: task_row_of_def find_None_iff')
  qed
  then show ?thesis
    using update_task_sound [OF u] by (simp add: historical_step_def store_inv_def)
qed

section \<open>Run operations\<close>

lemma ball2_snoc:
  "(\<forall>r \<in> insert a A. \<forall>q \<in> insert a A. P r q) \<longleftrightarrow>
    P a a \<and> (\<forall>r \<in> A. P r a \<and> P a r) \<and> (\<forall>r \<in> A. \<forall>q \<in> A. P r q)"
  by auto

lemma run_row_ofD: "run_row_of d rid = Some r \<Longrightarrow> r \<in> set (db_runs d) \<and> rid_of r = rid"
  unfolding run_row_of_def by (drule find_SomeD) simp

lemma workspace_rowD: "workspace_row d w = Some x \<Longrightarrow> x \<in> set (db_workspaces d) \<and> ws_id x = w"
  unfolding workspace_row_def by (drule find_SomeD) simp

lemma workspace_row_None: "workspace_row d w = None \<longleftrightarrow> w \<notin> ws_id ` set (db_workspaces d)"
  by (auto simp: workspace_row_def find_None_iff')

lemma run_row_of_None: "run_row_of d rid = None \<longleftrightarrow> rid \<notin> rid_of ` set (db_runs d)"
  by (auto simp: run_row_of_def find_None_iff')

lemma ensure_workspace_frame [simp]:
  "db_tasks (ensure_workspace w d) = db_tasks d"
  "db_transitions (ensure_workspace w d) = db_transitions d"
  "db_status_events (ensure_workspace w d) = db_status_events d"
  "db_runs (ensure_workspace w d) = db_runs d"
  "db_prs (ensure_workspace w d) = db_prs d"
  "db_rework (ensure_workspace w d) = db_rework d"
  "db_links (ensure_workspace w d) = db_links d"
  "db_rejections (ensure_workspace w d) = db_rejections d"
  "db_sprints (ensure_workspace w d) = db_sprints d"
  "db_audit (ensure_workspace w d) = db_audit d"
  by (simp_all add: ensure_workspace_def split: option.splits)

lemma ensure_workspace_rows:
  "prefix (db_workspaces d) (db_workspaces (ensure_workspace w d))"
  "distinct (map ws_id (db_workspaces d)) \<Longrightarrow> distinct (map ws_id (db_workspaces (ensure_workspace w d)))"
  "w = Some x \<Longrightarrow> ws_id x \<in> ws_id ` set (db_workspaces (ensure_workspace w d))"
  by (auto simp: ensure_workspace_def workspace_row_None split: option.splits)

lemma ensure_workspace_set: "set (db_workspaces d) \<subseteq> set (db_workspaces (ensure_workspace w d))"
  by (auto simp: ensure_workspace_def split: option.splits)

lemma save_run_effect:
  assumes "save_run created run d = Inr (run', d')"
  obtains owner where "run' = run" "get_task d (run_task_id run) = Some owner"
    "task_project owner = run_project run"
    "\<And>w. run_workspace run = Some w \<Longrightarrow> task_repository owner = ws_repository w"
    "\<And>r. r \<in> set (db_runs d) \<Longrightarrow> rrow_ws r \<noteq> None \<Longrightarrow>
       rrow_ws r = map_option ws_id (run_workspace run) \<Longrightarrow> run_task_id (rrow_run r) = run_task_id run"
    "\<And>r. r \<in> set (db_runs d) \<Longrightarrow> active_row r \<Longrightarrow> active_status (run_status run) \<Longrightarrow>
       run_task_id (rrow_run r) \<noteq> run_task_id run \<and>
       (rrow_ws r = None \<or> rrow_ws r \<noteq> map_option ws_id (run_workspace run))"
    "run_id run \<notin> rid_of ` set (db_runs d)"
    "only_audit ((ensure_workspace (run_workspace run) d)
       \<lparr>db_runs := db_runs d @ [run_row_for created run]\<rparr>) d'"
proof -
  let ?row = "run_row_for created run"
  have row: "rrow_ws ?row = map_option ws_id (run_workspace run)"
      "active_row ?row = active_status (run_status run)"
    by (simp_all add: run_row_for_def active_row_def)
  from assms obtain owner where o: "get_task d (run_task_id run) = Some owner"
    by (auto simp: save_run_def Let_def split: option.splits)
  note u = assms [unfolded save_run_def Let_def o option.case]
  have a: "audit_run_insert ?row ((ensure_workspace (run_workspace run) d)
        \<lparr>db_runs := db_runs d @ [?row]\<rparr>) = Inr d'" "run' = run"
    and c: "\<not> (task_project owner \<noteq> run_project run \<or>
           (\<exists>w \<in> set_option (run_workspace run). task_repository owner \<noteq> ws_repository w))"
      "\<not> (rrow_ws ?row \<noteq> None \<and> list_ex (\<lambda>r. rrow_ws r = rrow_ws ?row \<and>
               run_task_id (rrow_run r) \<noteq> run_task_id run) (db_runs d))"
      "\<not> (active_row ?row \<and> rrow_ws ?row \<noteq> None \<and>
               list_ex (\<lambda>r. active_row r \<and> rrow_ws r = rrow_ws ?row) (db_runs d))"
      "\<not> (active_row ?row \<and> list_ex (\<lambda>r. active_row r \<and>
               run_task_id (rrow_run r) = run_task_id run) (db_runs d))"
      "run_row_of d (run_id run) = None"
    using u by (simp_all split: if_splits sum.splits)
  show thesis
  proof (rule that [of owner])
    show "run_id run \<notin> rid_of ` set (db_runs d)" using c(5) by (simp add: run_row_of_None)
  qed (use a o c row in \<open>auto simp: list_ex_iff intro: only_audit_run_insert\<close>)
qed

lemma save_run_historical:
  assumes "save_run created run d = Inr (run', d')"
  shows "historical_step d d'"
proof -
  let ?row = "run_row_for created run"
  let ?d1 = "(ensure_workspace (run_workspace run) d)\<lparr>db_runs := db_runs d @ [?row]\<rparr>"
  have row: "rrow_ws ?row = map_option ws_id (run_workspace run)" "rid_of ?row = run_id run"
      "active_row ?row = active_status (run_status run)"
      "run_task_id (rrow_run ?row) = run_task_id run" "run_project (rrow_run ?row) = run_project run"
    by (simp_all add: run_row_for_def active_row_def)
  obtain owner where o: "get_task d (run_task_id run) = Some owner"
    "task_project owner = run_project run" and
    own: "\<And>r. r \<in> set (db_runs d) \<Longrightarrow> rrow_ws r \<noteq> None \<Longrightarrow>
       rrow_ws r = map_option ws_id (run_workspace run) \<Longrightarrow> run_task_id (rrow_run r) = run_task_id run" and
    act: "\<And>r. r \<in> set (db_runs d) \<Longrightarrow> active_row r \<Longrightarrow> active_status (run_status run) \<Longrightarrow>
       run_task_id (rrow_run r) \<noteq> run_task_id run \<and>
       (rrow_ws r = None \<or> rrow_ws r \<noteq> map_option ws_id (run_workspace run))" and
    new: "run_id run \<notin> rid_of ` set (db_runs d)" and oa: "only_audit ?d1 d'"
    using save_run_effect [OF assms] by blast
  have ident: "task_identity ?d1 = task_identity d" by (simp add: task_identity_def)
  have ref: "(run_task_id run, run_project run, task_repository owner) \<in> set (task_identity d)"
    using o by (force simp: task_identity_def get_task_def dest: task_row_ofD)
  have "runs_ok ?d1" if ok: "runs_ok d"
  proof -
    have "runs_unique ?d1"
      using ok new ensure_workspace_rows(2) by (simp add: runs_ok_def runs_unique_def row)
    moreover have "runs_exclusive ?d1"
    proof -
      have "\<not> (run_task_id (rrow_run r) = run_task_id run \<or>
          rrow_ws r \<noteq> None \<and> rrow_ws r = map_option ws_id (run_workspace run))"
        if "r \<in> set (db_runs d)" "active_row r" "active_status (run_status run)" for r
        using act [OF that] by auto
      then show ?thesis
        using ok unfolding runs_ok_def runs_exclusive_def by (simp add: ball2_snoc row) force
    qed
    moreover have "runs_owner ?d1"
      using ok own unfolding runs_ok_def runs_owner_def by (simp add: ball2_snoc row) force
    moreover have "runs_refer ?d1"
      unfolding runs_refer_def ident
    proof (rule ballI)
      fix r assume "r \<in> set (db_runs ?d1)"
      then consider "r \<in> set (db_runs d)" | "r = ?row" by auto
      then show "(\<exists>repo. (run_task_id (rrow_run r), run_project (rrow_run r), repo) \<in> set (task_identity d)) \<and>
          (\<forall>w. rrow_ws r = Some w \<longrightarrow> w \<in> ws_id ` set (db_workspaces ?d1))"
      proof cases
        case 1
        have "ws_id ` set (db_workspaces d) \<subseteq>
            ws_id ` set (db_workspaces (ensure_workspace (run_workspace run) d))"
          by (rule image_mono [OF ensure_workspace_set])
        with 1 show ?thesis using ok by (auto simp: runs_ok_def runs_refer_def)
      next
        case 2
        then show ?thesis using ref ensure_workspace_rows(3) by (auto simp: row)
      qed
    qed
    ultimately show ?thesis by (simp add: runs_ok_def)
  qed
  moreover have "prs_ok d \<Longrightarrow> prs_ok ?d1" by (auto simp: prs_ok_def)
  moreover have "tasks_ok d \<Longrightarrow> tasks_ok ?d1" "audit_ok d \<Longrightarrow> audit_ok ?d1"
      "history_ok d \<Longrightarrow> history_ok ?d1"
    by (simp_all add: tasks_ok_def audit_ok_def history_ok_def task_history_def task_row_of_def)
  moreover have "store_grows d ?d1"
    using ensure_workspace_rows(1) by (simp add: store_grows_def)
  ultimately have "historical_step d ?d1"
    by (simp add: historical_step_def sound_step_def store_inv_def)
  then show ?thesis
    using only_audit_historical [OF oa] by (rule historical.R_trans)
qed

text \<open>Rewriting one run row in place: the identity columns stay, and an activation must not clash.\<close>

lemma put_run_historical:
  assumes f: "\<And>r. run_id (f r) = run_id r \<and> run_task_id (f r) = run_task_id r \<and>
      run_project (f r) = run_project r"
    and row: "run_row_of d rid = Some row"
    and act: "active_status (run_status (f (rrow_run row))) \<Longrightarrow> \<forall>r \<in> set (db_runs d). rid_of r \<noteq> rid \<longrightarrow>
      active_row r \<longrightarrow> \<not> (run_task_id (rrow_run r) = run_task_id (rrow_run row) \<or>
        rrow_ws r \<noteq> None \<and> rrow_ws r = rrow_ws row)"
  shows "historical_step d (put_run rid f d)"
proof -
  let ?g = "\<lambda>r. if rid_of r = rid then r\<lparr>rrow_run := f (rrow_run r)\<rparr> else r"
  have rows: "db_runs (put_run rid f d) = map ?g (db_runs d)"
    by (simp add: put_run_def set_rows_def)
  have g: "rid_of (?g r) = rid_of r" "run_task_id (rrow_run (?g r)) = run_task_id (rrow_run r)"
    "run_project (rrow_run (?g r)) = run_project (rrow_run r)" "rrow_ws (?g r) = rrow_ws r"
    "rrow_created (?g r) = rrow_created r" for r
    using f by simp_all
  have rids: "map rid_of (db_runs (put_run rid f d)) = map rid_of (db_runs d)"
    unfolding rows using g(1) by (simp add: comp_def)
  have "runs_ok (put_run rid f d)" if ok: "runs_ok d"
  proof -
    have uniq: "q = row" if "q \<in> set (db_runs d)" "rid_of q = rid" for q
      using ok that run_row_ofD [OF row]
      by (auto simp: runs_ok_def runs_unique_def intro: distinct_map_unique)
    have "runs_unique (put_run rid f d)"
      using ok rids by (simp add: runs_ok_def runs_unique_def)
    moreover have "runs_exclusive (put_run rid f d)"
      unfolding runs_exclusive_def
    proof (intro ballI impI)
      fix r q assume rq: "r \<in> set (db_runs (put_run rid f d))" "q \<in> set (db_runs (put_run rid f d))"
        and ne: "rid_of r \<noteq> rid_of q"
      obtain r' q' where r': "r' \<in> set (db_runs d)" "r = ?g r'" and q': "q' \<in> set (db_runs d)" "q = ?g q'"
        using rq by (auto simp: rows)
      have ne': "rid_of r' \<noteq> rid_of q'" using ne unfolding r'(2) q'(2) g(1) .
      have ex: "\<not> (active_row r' \<and> active_row q' \<and> (run_task_id (rrow_run r') = run_task_id (rrow_run q') \<or>
         rrow_ws r' \<noteq> None \<and> rrow_ws r' = rrow_ws q'))"
        using ok r'(1) q'(1) ne' by (simp add: runs_ok_def runs_exclusive_def)
      have *: "\<not> (active_row (?g x) \<and> active_row y \<and> (run_task_id (rrow_run x) = run_task_id (rrow_run y) \<or>
         rrow_ws x \<noteq> None \<and> rrow_ws x = rrow_ws y))"
        if "x \<in> set (db_runs d)" "y \<in> set (db_runs d)" "rid_of x = rid" "rid_of y \<noteq> rid" for x y
      proof
        assume A: "active_row (?g x) \<and> active_row y \<and>
          (run_task_id (rrow_run x) = run_task_id (rrow_run y) \<or> rrow_ws x \<noteq> None \<and> rrow_ws x = rrow_ws y)"
        have x: "x = row" by (rule uniq [OF that(1,3)])
        have "active_status (run_status (f (rrow_run row)))"
          using A that(3) x by (simp add: active_row_def)
        then have "\<not> (run_task_id (rrow_run y) = run_task_id (rrow_run row) \<or>
            rrow_ws y \<noteq> None \<and> rrow_ws y = rrow_ws row)"
          using act that(2,4) A by blast
        then show False using A unfolding x by metis
      qed
      show "\<not> (active_row r \<and> active_row q \<and> (run_task_id (rrow_run r) = run_task_id (rrow_run q) \<or>
         rrow_ws r \<noteq> None \<and> rrow_ws r = rrow_ws q))"
        unfolding r'(2) q'(2) g(2,4)
      proof (cases "rid_of r' = rid")
        case True
        then have "rid_of q' \<noteq> rid" using ne' by simp
        then show "\<not> (active_row (?g r') \<and> active_row (?g q') \<and>
            (run_task_id (rrow_run r') = run_task_id (rrow_run q') \<or>
             rrow_ws r' \<noteq> None \<and> rrow_ws r' = rrow_ws q'))"
          using * [OF r'(1) q'(1) True] by simp
      next
        case False
        show "\<not> (active_row (?g r') \<and> active_row (?g q') \<and>
            (run_task_id (rrow_run r') = run_task_id (rrow_run q') \<or>
             rrow_ws r' \<noteq> None \<and> rrow_ws r' = rrow_ws q'))"
        proof (cases "rid_of q' = rid")
          case True
          have sym: "(run_task_id (rrow_run q') = run_task_id (rrow_run r') \<or>
              rrow_ws q' \<noteq> None \<and> rrow_ws q' = rrow_ws r') =
            (run_task_id (rrow_run r') = run_task_id (rrow_run q') \<or>
              rrow_ws r' \<noteq> None \<and> rrow_ws r' = rrow_ws q')"
            by metis
          have r: "?g r' = r'" using False by simp
          show ?thesis using * [OF q'(1) r'(1) True False] unfolding sym r by blast
        next
          case q: False
          show ?thesis using ex False q by simp
        qed
      qed
    qed
    moreover have "runs_owner (put_run rid f d)"
      unfolding runs_owner_def
    proof (intro ballI impI)
      fix r q assume rq: "r \<in> set (db_runs (put_run rid f d))" "q \<in> set (db_runs (put_run rid f d))"
        and ne: "run_task_id (rrow_run r) \<noteq> run_task_id (rrow_run q)"
      obtain r' q' where r': "r' \<in> set (db_runs d)" "r = ?g r'" and q': "q' \<in> set (db_runs d)" "q = ?g q'"
        using rq by (auto simp: rows)
      show "\<not> (rrow_ws r \<noteq> None \<and> rrow_ws r = rrow_ws q)"
        using ok r'(1) q'(1) ne unfolding r'(2) q'(2) g(2,4) by (simp add: runs_ok_def runs_owner_def)
    qed
    moreover have "runs_refer (put_run rid f d)"
      unfolding runs_refer_def
    proof (rule ballI)
      fix r assume "r \<in> set (db_runs (put_run rid f d))"
      then obtain r' where r': "r' \<in> set (db_runs d)" "r = ?g r'" by (auto simp: rows)
      have fr: "task_identity (put_run rid f d) = task_identity d"
        "db_workspaces (put_run rid f d) = db_workspaces d"
        by (simp_all add: put_run_def task_identity_def)
      show "(\<exists>repo. (run_task_id (rrow_run r), run_project (rrow_run r), repo)
            \<in> set (task_identity (put_run rid f d))) \<and>
          (\<forall>w. rrow_ws r = Some w \<longrightarrow> w \<in> ws_id ` set (db_workspaces (put_run rid f d)))"
        using ok r'(1) unfolding r'(2) g(2,3,4) fr by (simp add: runs_ok_def runs_refer_def)
    qed
    ultimately show ?thesis by (simp add: runs_ok_def)
  qed
  moreover have "store_grows d (put_run rid f d)"
    unfolding store_grows_def rows using g by (simp add: comp_def)
  ultimately show ?thesis
    using rids prs_ok_cong [of "put_run rid f d" d] tasks_ok_cong [of "put_run rid f d" d]
      audit_ok_cong [of "put_run rid f d" d] history_ok_cong [of "put_run rid f d" d]
    by (simp add: historical_step_def sound_step_def store_inv_def)
qed

lemma update_run_effect:
  assumes "update_run now run d = Inr (run', d')"
  obtains row d1 where "run' = run" "run_row_of d (run_id run) = Some row"
    "run_task_id (rrow_run row) = run_task_id run" "run_project (rrow_run row) = run_project run"
    "rrow_ws row = map_option ws_id (run_workspace run)"
    "active_status (run_status run) \<Longrightarrow> \<not> list_ex (\<lambda>r. rid_of r \<noteq> run_id run \<and> active_row r \<and>
                 (run_task_id (rrow_run r) = run_task_id run \<or>
                  rrow_ws r \<noteq> None \<and> rrow_ws r = rrow_ws row)) (db_runs d)"
    "only_audit (put_run (run_id run) (overwrite_run run) d) d1" "only_audit d1 d'"
proof -
  from assms obtain row where row: "run_row_of d (run_id run) = Some row"
    by (auto simp: update_run_def split: option.splits)
  let ?new = "row\<lparr>rrow_run := overwrite_run run (rrow_run row)\<rparr>"
  note u = assms [unfolded update_run_def row option.case Let_def]
  obtain d1 where d1: "audit_run_finish now row ?new (put_run (run_id run) (overwrite_run run) d) = Inr d1"
    "d' = audit_validation now row ?new d1" "run' = run"
    using u by (auto simp: tx_step_eq_Inr split: if_splits)
  have oa: "only_audit (put_run (run_id run) (overwrite_run run) d) d1" "only_audit d1 d'"
    unfolding d1(2) by (rule only_audit_run_finish [OF d1(1)]) (rule only_audit_validation)
  have "active_row ?new = active_status (run_status run)"
    by (simp add: active_row_def overwrite_run_def)
  then show thesis
    using u d1(3) by (intro that [OF _ row _ _ _ _ oa]) (auto split: if_splits)
qed

lemma overwrite_run_identity [simp]:
  "run_id (overwrite_run run r) = run_id r" "run_task_id (overwrite_run run r) = run_task_id r"
  "run_project (overwrite_run run r) = run_project r" "run_status (overwrite_run run r) = run_status run"
  by (simp_all add: overwrite_run_def)

lemma update_run_historical:
  assumes "update_run now run d = Inr (run', d')"
  shows "historical_step d d'"
proof (rule update_run_effect [OF assms])
  fix row d1
  assume row: "run_row_of d (run_id run) = Some row"
    and same: "run_task_id (rrow_run row) = run_task_id run"
    and act: "active_status (run_status run) \<Longrightarrow> \<not> list_ex (\<lambda>r. rid_of r \<noteq> run_id run \<and> active_row r \<and>
                 (run_task_id (rrow_run r) = run_task_id run \<or>
                  rrow_ws r \<noteq> None \<and> rrow_ws r = rrow_ws row)) (db_runs d)"
    and oa: "only_audit (put_run (run_id run) (overwrite_run run) d) d1" "only_audit d1 d'"
  have "historical_step d (put_run (run_id run) (overwrite_run run) d)"
    by (rule put_run_historical [OF _ row]) (use act same in \<open>auto simp: list_ex_iff\<close>)
  then show ?thesis
    using only_audit_historical [OF oa(1)] only_audit_historical [OF oa(2)]
    by (blast intro: historical.R_trans)
qed

lemma save_workspace_historical:
  assumes "save_workspace w d = Inr (w', d')"
  shows "historical_step d d'"
proof -
  have new: "ws_id w \<notin> ws_id ` set (db_workspaces d)"
    and d': "d' = d\<lparr>db_workspaces := db_workspaces d @ [w]\<rparr>"
    using assms by (auto simp: save_workspace_def workspace_row_None split: if_splits)
  have "runs_ok d'" if ok: "runs_ok d"
  proof -
    have "runs_refer d'"
      unfolding runs_refer_def
    proof (rule ballI)
      fix r assume "r \<in> set (db_runs d')"
      then have "(\<exists>repo. (run_task_id (rrow_run r), run_project (rrow_run r), repo) \<in> set (task_identity d)) \<and>
          (\<forall>w. rrow_ws r = Some w \<longrightarrow> w \<in> ws_id ` set (db_workspaces d))"
        using ok by (simp add: d' runs_ok_def runs_refer_def)
      then show "(\<exists>repo. (run_task_id (rrow_run r), run_project (rrow_run r), repo) \<in> set (task_identity d')) \<and>
          (\<forall>w. rrow_ws r = Some w \<longrightarrow> w \<in> ws_id ` set (db_workspaces d'))"
        by (auto simp: d' task_identity_def)
    qed
    then show ?thesis
      using ok new by (simp add: d' runs_ok_def runs_unique_def runs_exclusive_def runs_owner_def)
  qed
  then show ?thesis
    using d' prs_ok_cong [of d' d] tasks_ok_cong [of d' d] audit_ok_cong [of d' d]
      history_ok_cong [of d' d]
    by (simp add: historical_step_def sound_step_def store_inv_def store_grows_def)
qed

lemma authorize_orphaned_codex_recovery_historical:
  assumes "authorize_orphaned_codex_recovery now uid tid rid d = Inr (t', d')"
  shows "historical_step d d'"
proof -
  let ?marker = "''orphaned-codex-recovery:'' @ rid"
  let ?fail = "\<lambda>r. r\<lparr>run_status := Run_FAILED, run_summary := Some ?marker, run_finished_at := Some now\<rparr>"
  let ?f = "\<lambda>t. t\<lparr>task_status := Task_BLOCKED, task_blocked_reason := Some ?marker,
                  task_updated_at := now\<rparr>"
  obtain t row where t: "get_task d tid = Some t" and g: "orphan_guard d t rid = Some row"
    using assms by (auto simp: authorize_orphaned_codex_recovery_def Let_def split: option.splits)
  obtain d1 where a: "audit_run_finish now row (row\<lparr>rrow_run := ?fail (rrow_run row)\<rparr>)
      (put_run rid ?fail d) = Inr d1"
    and i: "insert_transition \<lparr>tt_task_id = tid, tt_from = Task_RUNNING, tt_to = Task_BLOCKED,
      tt_id = uid, tt_occurred_at = now\<rparr> (put_task tid ?f d1) = Inr d'"
    using assms t g
    by (auto simp: authorize_orphaned_codex_recovery_def Let_def tx_step_eq_Inr)
  have st: "task_status t = Task_RUNNING" "rid_of row = rid" "row \<in> set (db_runs d)"
  proof -
    show "task_status t = Task_RUNNING" "rid_of row = rid"
      using g by (auto simp: orphan_guard_def split: option.splits if_splits)
    have l: "latest_run_row d (task_id t) = Some row"
      using g by (auto simp: orphan_guard_def split: option.splits if_splits)
    let ?rows = "sort_key rrow_created (filter (\<lambda>r. run_task_id (rrow_run r) = task_id t) (db_runs d))"
    have "?rows \<noteq> []" "row = last ?rows"
      using l by (auto simp: latest_run_row_def split: list.splits if_splits)
    then have "row \<in> set ?rows" by (metis last_in_set)
    then show "row \<in> set (db_runs d)" by simp
  qed
  have oa: "only_audit (put_run rid ?fail d) d1" by (rule only_audit_run_finish [OF a])
  obtain row' where row': "run_row_of d rid = Some row'"
    using st by (cases "run_row_of d rid") (auto simp: run_row_of_None)
  have h1: "historical_step d (put_run rid ?fail d)"
    by (rule put_run_historical [OF _ row']) (simp_all add: active_status_def)
  have h2: "historical_step (put_run rid ?fail d) d1" by (rule only_audit_historical [OF oa])
  have t1: "get_task d1 tid = Some t" using t get_task_cong [of d1 d] only_auditD(1) [OF oa] by simp
  have "recorded_edge Task_RUNNING Task_BLOCKED"
    by (simp add: recorded_edge_def transition_allowed_def can_persist_transition_def can_transition_def)
  then have "historical_step d1 d'"
    by (intro insert_transition_historical [OF i _ _ _ _ _ _ _ t1 st(1), where f = ?f]) simp_all
  with h1 h2 show ?thesis by (blast intro: historical.R_trans)
qed

section \<open>Pull request operations\<close>

lemma save_pr_historical:
  assumes "save_pr uid pr d = Inr (pr', d')"
  shows "historical_step d d'"
proof -
  let ?row = "\<lparr>prow_id = uid, prow_pr = pr\<lparr>pr_body := []\<rparr>\<rparr>" let ?d1 = "d\<lparr>db_prs := db_prs d @ [?row]\<rparr>"
  obtain rid where r: "pr_run_id pr = Some rid" "run_row_of d rid \<noteq> None"
    and n: "\<not> list_ex (\<lambda>p. prow_id p = uid \<or> pr_run_id (prow_pr p) = Some rid \<or>
              pr_repository (prow_pr p) = pr_repository pr \<and>
              pr_head_branch (prow_pr p) = pr_head_branch pr) (db_prs d)"
    and a: "audit_pr_insert ?row ?d1 = Inr d'"
    using assms by (auto simp: save_pr_def Let_def split: option.splits if_splits sum.splits)
  have "rid \<in> set (map rid_of (db_runs d))" using r(2) by (simp add: run_row_of_None)
  then have "prs_ok d \<Longrightarrow> prs_ok ?d1" using r(1) n by (auto simp: prs_ok_def list_ex_iff)
  then have "historical_step d ?d1"
    using runs_ok_cong [of ?d1 d] tasks_ok_cong [of ?d1 d] audit_ok_cong [of ?d1 d]
      history_ok_cong [of ?d1 d] identity_cong [of ?d1 d]
    by (simp add: historical_step_def sound_step_def store_inv_def store_grows_def)
  then show ?thesis
    using only_audit_historical [OF only_audit_pr_insert [OF a]] by (rule historical.R_trans)
qed

lemma put_pr_historical:
  assumes row: "row \<in> set (db_prs d)"
    and f: "\<And>q. pr_repository (f q) = pr_repository q \<and> pr_head_branch (f q) = pr_head_branch q"
    and rid: "\<And>q. pr_run_id (f q) = pr_run_id q \<or> pr_run_id (f q) = Some rid"
    and new: "(\<forall>q. pr_run_id (f q) = pr_run_id q) \<or> (rid \<in> rid_of ` set (db_runs d) \<and>
      (\<forall>p \<in> set (db_prs d). prow_id p \<noteq> prow_id row \<longrightarrow> pr_run_id (prow_pr p) \<noteq> Some rid) \<and>
      (\<forall>q. pr_run_id (f q) = Some rid))"
  shows "historical_step d (put_pr (\<lambda>p. prow_id p = prow_id row) f d)"
proof -
  let ?g = "\<lambda>p. if prow_id p = prow_id row then p\<lparr>prow_pr := f (prow_pr p)\<rparr> else p"
  let ?d1 = "put_pr (\<lambda>p. prow_id p = prow_id row) f d"
  have rows: "db_prs ?d1 = map ?g (db_prs d)" by (simp add: put_pr_def set_rows_def)
  have fr: "db_tasks ?d1 = db_tasks d" "db_transitions ?d1 = db_transitions d"
    "db_workspaces ?d1 = db_workspaces d" "db_runs ?d1 = db_runs d" "db_rework ?d1 = db_rework d"
    "db_audit ?d1 = db_audit d"
    by (simp_all add: put_pr_def)
  have g: "prow_id (?g p) = prow_id p" "pr_repository (prow_pr (?g p)) = pr_repository (prow_pr p)"
    "pr_head_branch (prow_pr (?g p)) = pr_head_branch (prow_pr p)" for p
    using f by simp_all
  have ids: "map prow_id (db_prs ?d1) = map prow_id (db_prs d)"
    "map (\<lambda>p. (pr_repository (prow_pr p), pr_head_branch (prow_pr p))) (db_prs ?d1) =
     map (\<lambda>p. (pr_repository (prow_pr p), pr_head_branch (prow_pr p))) (db_prs d)"
    unfolding rows using f by simp_all
  have "prs_ok ?d1" if ok: "prs_ok d"
  proof -
    have uniq: "p = q" if "p \<in> set (db_prs d)" "q \<in> set (db_prs d)" "prow_id p = prow_id q" for p q
      using ok that by (auto simp: prs_ok_def intro: distinct_map_unique)
    have inj: "inj_on (\<lambda>p. pr_run_id (prow_pr p)) (set (db_prs d))" "distinct (db_prs d)"
      using ok by (auto simp: prs_ok_def distinct_map)
    have "inj_on (\<lambda>p. pr_run_id (prow_pr (?g p))) (set (db_prs d))"
    proof (cases "\<forall>q. pr_run_id (f q) = pr_run_id q")
      case True
      then have "(\<lambda>p :: pr_row. pr_run_id (prow_pr (?g p))) = (\<lambda>p. pr_run_id (prow_pr p))"
        by (intro ext) simp
      then show ?thesis using inj(1) by (simp only:)
    next
      case False
      then have N: "\<forall>p \<in> set (db_prs d). prow_id p \<noteq> prow_id row \<longrightarrow> pr_run_id (prow_pr p) \<noteq> Some rid"
        "\<forall>q. pr_run_id (f q) = Some rid" using new by blast+
      show ?thesis
      proof (rule inj_onI)
        fix p q assume pq: "p \<in> set (db_prs d)" "q \<in> set (db_prs d)"
          and e: "pr_run_id (prow_pr (?g p)) = pr_run_id (prow_pr (?g q))"
        show "p = q"
        proof (cases "prow_id p = prow_id q")
          case True then show ?thesis using uniq pq by blast
        next
          case False
          then have "prow_id p \<noteq> prow_id row \<and> prow_id q \<noteq> prow_id row"
            using N pq e by (cases "prow_id p = prow_id row"; cases "prow_id q = prow_id row") auto
          then show ?thesis using inj(1) pq e by (auto dest: inj_onD)
        qed
      qed
    qed
    then have "distinct (map (\<lambda>p. pr_run_id (prow_pr p)) (db_prs ?d1))"
      using inj(2) unfolding rows by (simp add: distinct_map comp_def)
    moreover have "\<forall>p \<in> set (db_prs ?d1). \<exists>r. pr_run_id (prow_pr p) = Some r \<and> r \<in> set (map rid_of (db_runs ?d1))"
    proof
      fix p assume "p \<in> set (db_prs ?d1)"
      then obtain q where q: "q \<in> set (db_prs d)" "p = ?g q" by (auto simp: rows)
      have old: "\<exists>r. pr_run_id (prow_pr q) = Some r \<and> r \<in> set (map rid_of (db_runs d))"
        using ok q(1) by (simp add: prs_ok_def)
      show "\<exists>r. pr_run_id (prow_pr p) = Some r \<and> r \<in> set (map rid_of (db_runs ?d1))"
        using old rid [of "prow_pr q"] new unfolding q(2) fr by auto
    qed
    ultimately show ?thesis
      using ok ids unfolding prs_ok_def by simp
  qed
  moreover have "store_grows d ?d1" using fr ids by (simp add: store_grows_def)
  ultimately show ?thesis
    using fr runs_ok_cong [of ?d1 d] tasks_ok_cong [of ?d1 d] audit_ok_cong [of ?d1 d]
      history_ok_cong [of ?d1 d] identity_cong [of ?d1 d]
    by (simp add: historical_step_def sound_step_def store_inv_def)
qed

text \<open>The three revision operations rewrite the one row that carries the caller's identity.\<close>

lemma tx_step_audit_effect:
  assumes "tx_step (audit_pr_update now old new d) (\<lambda>d'. Inr (x, d')) = Inr (pr', d')"
  shows "pr' = x \<and> only_audit d d'"
  using assms only_audit_pr_update by (auto simp: tx_step_eq_Inr)

lemma record_revision_effect:
  assumes "record_revision now pr rid commit d = Inr (pr', d')"
  obtains row f where "row \<in> set (db_prs d)" "pr_identity_match pr (prow_pr row)"
    "f = (\<lambda>q. q\<lparr>pr_run_id := Some rid, pr_commit_sha := Some commit, pr_merged := False\<rparr>)"
    "rid \<in> rid_of ` set (db_runs d)"
    "\<forall>p \<in> set (db_prs d). prow_id p \<noteq> prow_id row \<longrightarrow> pr_run_id (prow_pr p) \<noteq> Some rid"
    "only_audit (put_pr (\<lambda>p. prow_id p = prow_id row) f d) d'"
    "pr' = row_to_pull_request (row\<lparr>prow_pr := f (prow_pr row)\<rparr>)"
proof -
  obtain row where row: "find (\<lambda>p. pr_identity_match pr (prow_pr p)) (db_prs d) = Some row"
    and new: "\<not> list_ex (\<lambda>p. prow_id p \<noteq> prow_id row \<and> pr_run_id (prow_pr p) = Some rid) (db_prs d)"
    and id: "run_identity d rid \<noteq> None"
    and t: "tx_step (audit_pr_update now row (row\<lparr>prow_pr := (prow_pr row)\<lparr>pr_run_id := Some rid,
          pr_commit_sha := Some commit, pr_merged := False\<rparr>\<rparr>)
        (put_pr (\<lambda>p. prow_id p = prow_id row)
          (\<lambda>q. q\<lparr>pr_run_id := Some rid, pr_commit_sha := Some commit, pr_merged := False\<rparr>) d))
        (\<lambda>d'. Inr (row_to_pull_request (row\<lparr>prow_pr := (prow_pr row)\<lparr>pr_run_id := Some rid,
          pr_commit_sha := Some commit, pr_merged := False\<rparr>\<rparr>), d')) = Inr (pr', d')"
    using assms unfolding record_revision_def Let_def
    by (simp split: if_splits option.splits prod.splits)
  have "rid \<in> rid_of ` set (db_runs d)"
    using id by (auto simp: run_identity_def split: option.splits dest: run_row_ofD)
  with find_SomeD [OF row] new tx_step_audit_effect [OF t] show thesis
    by (intro that [OF _ _ refl]) (auto simp: list_ex_iff)
qed

lemma record_revision_historical:
  assumes "record_revision now pr rid commit d = Inr (pr', d')"
  shows "historical_step d d'"
proof (rule record_revision_effect [OF assms])
  fix row f
  assume "row \<in> set (db_prs d)" "rid \<in> rid_of ` set (db_runs d)"
    "f = (\<lambda>q. q\<lparr>pr_run_id := Some rid, pr_commit_sha := Some commit, pr_merged := False\<rparr>)"
    "\<forall>p \<in> set (db_prs d). prow_id p \<noteq> prow_id row \<longrightarrow> pr_run_id (prow_pr p) \<noteq> Some rid"
    and oa: "only_audit (put_pr (\<lambda>p. prow_id p = prow_id row) f d) d'"
  then have "historical_step d (put_pr (\<lambda>p. prow_id p = prow_id row) f d)"
    by (intro put_pr_historical [where rid = rid]) simp_all
  then show ?thesis using only_audit_historical [OF oa] by (rule historical.R_trans)
qed

lemma put_pr_flag_historical:
  assumes "row \<in> set (db_prs d)"
    and "\<And>q. pr_repository (f q) = pr_repository q \<and> pr_head_branch (f q) = pr_head_branch q"
    and "\<And>q. pr_run_id (f q) = pr_run_id q"
    and oa: "only_audit (put_pr (\<lambda>p. prow_id p = prow_id row) f d) d'"
  shows "historical_step d d'"
proof -
  have "historical_step d (put_pr (\<lambda>p. prow_id p = prow_id row) f d)"
    by (rule put_pr_historical [where rid = "[]"]) (simp_all add: assms(1-3))
  then show ?thesis using only_audit_historical [OF oa] by (rule historical.R_trans)
qed

lemma record_provider_revision_historical:
  assumes "record_provider_revision now pr commit d = Inr (pr', d')"
  shows "historical_step d d'"
proof (cases "find (\<lambda>p. pr_identity_match pr (prow_pr p)) (db_prs d)")
  case None
  then have "d' = d"
    using assms by (auto simp: record_provider_revision_def split: option.splits if_splits)
  then show ?thesis by (simp add: historical.R_refl)
next
  case (Some row)
  let ?f = "\<lambda>q. q\<lparr>pr_commit_sha := Some commit, pr_merged := False\<rparr>"
  have "tx_step (audit_pr_update now row (row\<lparr>prow_pr := ?f (prow_pr row)\<rparr>)
        (put_pr (\<lambda>p. prow_id p = prow_id row) ?f d))
      (\<lambda>d'. Inr (row_to_pull_request (row\<lparr>prow_pr := ?f (prow_pr row)\<rparr>), d')) = Inr (pr', d')"
    using assms Some by (simp add: record_provider_revision_def Let_def split: option.splits if_splits)
  from tx_step_audit_effect [OF this] show ?thesis
    by (intro put_pr_flag_historical [where f = ?f and row = row]) (use find_SomeD [OF Some] in simp_all)
qed

lemma record_merged_historical:
  assumes "record_merged now pr d = Inr (pr', d')"
  shows "historical_step d d'"
proof -
  obtain sha where sha: "pr_commit_sha pr = Some sha" "sha \<noteq> []"
    using assms by (auto simp: record_merged_def split: option.splits if_splits)
  show ?thesis
  proof (cases "find (\<lambda>p. pr_identity_match pr (prow_pr p) \<and> pr_commit_sha (prow_pr p) = Some sha \<and>
      \<not> pr_merged (prow_pr p)) (db_prs d)")
    case None
    then have "d' = d"
      using assms sha by (auto simp: record_merged_def split: option.splits if_splits)
    then show ?thesis by (simp add: historical.R_refl)
  next
    case (Some row)
    let ?f = "\<lambda>q. q\<lparr>pr_merged := True\<rparr>"
    have "tx_step (audit_pr_update now row (row\<lparr>prow_pr := ?f (prow_pr row)\<rparr>)
          (put_pr (\<lambda>p. prow_id p = prow_id row) ?f d))
        (\<lambda>d'. Inr (row_to_pull_request (row\<lparr>prow_pr := ?f (prow_pr row)\<rparr>), d')) = Inr (pr', d')"
      using assms sha Some by (simp add: record_merged_def Let_def split: option.splits if_splits)
    from tx_step_audit_effect [OF this] show ?thesis
      by (intro put_pr_flag_historical [where f = ?f and row = row]) (use find_SomeD [OF Some] in simp_all)
  qed
qed

end
