(* ===== verification/Planning_Store.thy ===== *)
theory Planning_Store
  imports Store_Invariants
begin

text \<open>
  The planning tables: \<^verbatim>\<open>SqliteBacklogLinkRepository\<close> (\<^verbatim>\<open>backlog_sqlite.py\<close>), which reserves one remote
  write per work item, and \<^verbatim>\<open>SqliteSprintRepository\<close> (\<^verbatim>\<open>sprint_sqlite.py\<close>), which stores immutable
  sprint authorizations and appends their state facts to the audit trace.  A manifest column is
  modelled by the manifest it encodes.
\<close>

section \<open>Backlog links\<close>

definition link_for :: "string \<Rightarrow> string \<Rightarrow> link_row \<Rightarrow> bool" where
  "link_for provider external l \<longleftrightarrow> lk_provider l = provider \<and> lk_external l = external"

definition link_row_of :: "store \<Rightarrow> string \<Rightarrow> string \<Rightarrow> link_row option" where
  "link_row_of d provider external = find (link_for provider external) (db_links d)"

definition reserve :: "work_item \<Rightarrow> (store, py_error, bool) tx" where
  "reserve item d =
     (let changed = ValueError ''backlog link repository identity changed''
      in case link_row_of d (item_provider item) (item_external_id item) of
        None \<Rightarrow> Inr (True, d\<lparr>db_links := db_links d @
          [\<lparr>lk_provider = item_provider item, lk_external = item_external_id item,
            lk_repository = item_repository item, lk_project = item_project item,
            lk_state = RESERVED, lk_number = None, lk_url = None\<rparr>]\<rparr>)
      | Some l \<Rightarrow> if lk_repository l \<noteq> item_repository item \<or> lk_project l \<noteq> item_project item
          then Inl changed else Inr (False, d))"

definition link_matches :: "work_item \<Rightarrow> link_row \<Rightarrow> bool" where
  "link_matches item l \<longleftrightarrow> link_for (item_provider item) (item_external_id item) l \<and>
     lk_repository l = item_repository item \<and> lk_project l = item_project item"

definition begin_write :: "work_item \<Rightarrow> (store, py_error, bool) tx" where
  "begin_write item d =
     (let p = (\<lambda>l. link_matches item l \<and> lk_state l = RESERVED)
      in Inr (count_rows p (db_links d) = 1,
              d\<lparr>db_links := set_rows p (\<lambda>l. l\<lparr>lk_state := POSTING\<rparr>) (db_links d)\<rparr>))"

definition get_issue :: "store \<Rightarrow> string \<Rightarrow> string \<Rightarrow> materialized_issue option" where
  "get_issue d provider external = (case link_row_of d provider external of None \<Rightarrow> None
     | Some l \<Rightarrow> if lk_state l \<noteq> MATERIALIZED then None
       else Some \<lparr>iss_repository = lk_repository l, iss_number = the (lk_number l),
                  iss_url = the (lk_url l)\<rparr>)"

definition find_work_item :: "store \<Rightarrow> string \<Rightarrow> string \<Rightarrow> int \<Rightarrow> (string \<times> string) option" where
  "find_work_item d project repository number =
     map_option (\<lambda>l. (lk_provider l, lk_external l))
       (find (\<lambda>l. lk_project l = project \<and> lk_repository l = repository \<and>
          lk_number l = Some number \<and> lk_state l = MATERIALIZED) (db_links d))"

definition reconciliation_origin :: "store \<Rightarrow> string \<Rightarrow> (string \<times> string option) option" where
  "reconciliation_origin d tid = (case task_row_of d tid of None \<Rightarrow> None
     | Some r \<Rightarrow> case trow_origin r of None \<Rightarrow> None
       | Some origin \<Rightarrow>
         if origin \<notin> {''trello'', ''github-direct''} then None
         else if (origin = ''trello'') \<noteq> (trow_item r \<noteq> None \<and> trow_item r \<noteq> Some []) then None
         else if origin = ''github-direct'' \<and>
           (case task_source (trow_task r) of None \<Rightarrow> False
            | Some s \<Rightarrow> list_ex (\<lambda>l. lk_repository l = src_repository s \<and>
                lk_number l = Some (src_issue_number s)) (db_links d)) then None
         else Some (origin, trow_item r))"

text \<open>\<open>UNIQUE (repository_slug, issue_number)\<close> refuses an issue that another row holds.\<close>

definition complete_link :: "work_item \<Rightarrow> materialized_issue \<Rightarrow> (store, py_error, unit) tx" where
  "complete_link item issue d =
     (let p = (\<lambda>l. link_matches item l \<and> lk_state l \<noteq> MATERIALIZED);
          f = (\<lambda>l. l\<lparr>lk_state := MATERIALIZED, lk_number := Some (iss_number issue),
                    lk_url := Some (iss_url issue)\<rparr>)
      in if iss_repository issue \<noteq> item_repository item \<or> iss_number issue \<le> 0
         then Inl (ValueError ''issue identity does not match backlog reservation'')
         else case find p (db_links d) of
           Some l \<Rightarrow>
             if list_ex (\<lambda>m. \<not> link_for (lk_provider l) (lk_external l) m \<and>
                  lk_repository m = lk_repository l \<and> lk_number m = Some (iss_number issue))
                (db_links d)
             then Inl (ValueError ''issue is linked to another work item'')
             else Inr ((), d\<lparr>db_links := set_rows p f (db_links d)\<rparr>)
         | None \<Rightarrow> (case link_row_of d (item_provider item) (item_external_id item) of
             None \<Rightarrow> Inl (ValueError ''conflicting backlog issue link'')
           | Some l \<Rightarrow>
             if lk_number l \<noteq> Some (iss_number issue) \<or> lk_url l \<noteq> Some (iss_url issue) \<or>
                lk_repository l \<noteq> item_repository item \<or> lk_project l \<noteq> item_project item
             then Inl (ValueError ''conflicting backlog issue link'') else Inr ((), d)))"

definition record_rejection :: "work_item \<Rightarrow> string \<Rightarrow> (store, py_error, unit) tx" where
  "record_rejection item reason d =
     (if reason \<noteq> ''PROJECT_ROUTING_REJECTED''
      then Inl (ValueError ''invalid routing rejection reason'')
      else let row = \<lparr>rej_provider = item_provider item, rej_external = item_external_id item,
                      rej_project = take 64 (item_project item), rej_reason = reason\<rparr>
        in Inr ((), if row \<in> set (db_rejections d) then d
                    else d\<lparr>db_rejections := db_rejections d @ [row]\<rparr>))"

section \<open>Sprints\<close>

type_synonym sprint_view = "sprint_manifest \<times> sprint_state \<times> nat"

definition sprint_decode :: "sprint_row \<Rightarrow> sprint_view" where
  "sprint_decode r = (sp_manifest r, sp_state r, sp_position r)"

definition live_state :: "sprint_state \<Rightarrow> bool" where
  "live_state s \<longleftrightarrow> s \<in> {Sprint_ACTIVE, Sprint_PAUSED}"

definition manifest_projects :: "sprint_manifest \<Rightarrow> string list" where
  "manifest_projects m = map (\<lambda>s. item_project (step_item s)) (man_steps m)"

definition sprint_row_of :: "store \<Rightarrow> string \<Rightarrow> sprint_row option" where
  "sprint_row_of d sid = find (\<lambda>r. man_sprint_id (sp_manifest r) = sid) (db_sprints d)"

text \<open>\<open>_event\<close>: \<open>INSERT OR IGNORE\<close> under both unique constraints of the audit table.\<close>

definition sprint_event_row :: "int \<Rightarrow> string \<Rightarrow> string \<Rightarrow> string \<Rightarrow> store \<Rightarrow> audit_event" where
  "sprint_event_row now sid name key d =
     (let trace = ''sprint:'' @ sid
      in \<lparr>ev_key = ''sprint:'' @ sid @ '':'' @ key, ev_correlation = trace,
          ev_seq = count_rows (\<lambda>e. ev_correlation e = trace) (db_audit d) + 1,
          ev_name = name, ev_task = trace, ev_run = None, ev_workspace = None,
          ev_pull_request = None, ev_cause = key, ev_source = None,
          ev_aggregate_type = ''sprint'', ev_aggregate_id = sid,
          ev_aggregate_version = count_rows (\<lambda>e. ev_aggregate_type e = ''sprint'' \<and>
             ev_aggregate_id e = sid) (db_audit d) + 1,
          ev_occurred_at = now, ev_evidence = []\<rparr>)"

definition sprint_event :: "int \<Rightarrow> string \<Rightarrow> string \<Rightarrow> string \<Rightarrow> store \<Rightarrow> store" where
  "sprint_event now sid name key d =
     (let row = sprint_event_row now sid name key d
      in if list_ex (\<lambda>e. ev_key e = ev_key row \<or>
             ev_correlation e = ev_correlation row \<and> ev_seq e = ev_seq row) (db_audit d) then d
         else d\<lparr>db_audit := db_audit d @ [row]\<rparr>)"

definition authorize_sprint :: "int \<Rightarrow> sprint_manifest \<Rightarrow> (store, py_error, unit) tx" where
  "authorize_sprint now m d =
     (let clash = ValueError ''another sprint is active for this project'' in
      case sprint_row_of d (man_sprint_id m) of
        Some r \<Rightarrow> if sp_manifest r \<noteq> m then Inl (ValueError ''sprint authorization is immutable'')
                   else Inr ((), d)
      | None \<Rightarrow>
        if list_ex (\<lambda>r. live_state (sp_state r) \<and>
             list_ex (\<lambda>p. p \<in> set (manifest_projects m)) (manifest_projects (sp_manifest r)))
           (db_sprints d) then Inl clash
        else if list_ex (\<lambda>r. live_state (sp_state r) \<and>
             take 1 (manifest_projects (sp_manifest r)) = take 1 (manifest_projects m)) (db_sprints d)
        then Inl clash
        else Inr ((), sprint_event now (man_sprint_id m) ''SprintAuthorized'' ''authorize''
          (d\<lparr>db_sprints := db_sprints d @
             [\<lparr>sp_manifest = m, sp_state = Sprint_ACTIVE, sp_position = 0\<rparr>]\<rparr>)))"

definition current_sprint :: "store \<Rightarrow> sprint_view option" where
  "current_sprint d = (case rev (db_sprints d) of [] \<Rightarrow> None | r # _ \<Rightarrow> Some (sprint_decode r))"

definition current_for_project :: "store \<Rightarrow> string \<Rightarrow> sprint_view option" where
  "current_for_project d project = map_option sprint_decode
     (find (\<lambda>r. sp_state r \<noteq> Sprint_CANCELLED \<and> project \<in> set (manifest_projects (sp_manifest r)))
        (rev (db_sprints d)))"

definition live_projects :: "store \<Rightarrow> string list" where
  "live_projects d = sort (remdups (concat (map (\<lambda>r. manifest_projects (sp_manifest r))
     (filter (\<lambda>r. live_state (sp_state r)) (db_sprints d)))))"

definition find_for_work_item :: "store \<Rightarrow> string \<Rightarrow> string \<Rightarrow> string \<Rightarrow> (py_error, string option) outcome" where
  "find_for_work_item d project provider external =
     (case filter (\<lambda>r. sp_state r \<noteq> Sprint_CANCELLED \<and>
             list_ex (\<lambda>s. item_project (step_item s) = project \<and>
               item_provider (step_item s) = provider \<and> item_external_id (step_item s) = external)
             (man_steps (sp_manifest r))) (db_sprints d) of
        [] \<Rightarrow> Inr None
      | [r] \<Rightarrow> Inr (Some (man_sprint_id (sp_manifest r)))
      | _ \<Rightarrow> Inl (ValueError ''WorkItem belongs to multiple Sprints''))"

definition valid_sprint_move :: "string \<Rightarrow> sprint_state \<Rightarrow> nat \<Rightarrow> sprint_state \<Rightarrow> nat \<Rightarrow> bool" where
  "valid_sprint_move event old pos state position \<longleftrightarrow>
     (if event = ''WorkItemSelected''
        then old = Sprint_ACTIVE \<and> state = Sprint_ACTIVE \<and> position = pos
      else if event = ''SprintPaused''
        then old = Sprint_ACTIVE \<and> state = Sprint_PAUSED \<and> position = pos
      else if event = ''SprintResumed''
        then old = Sprint_PAUSED \<and> state = Sprint_ACTIVE \<and> position = pos
      else if event = ''SprintCancelled''
        then old \<in> {Sprint_ACTIVE, Sprint_PAUSED} \<and> state = Sprint_CANCELLED \<and> position = pos
      else if event = ''SprintAdvanced''
        then old = Sprint_ACTIVE \<and> state = Sprint_ACTIVE \<and> position = pos + 1
      else event = ''SprintCompleted'' \<and>
        old = Sprint_ACTIVE \<and> state = Sprint_COMPLETE \<and> position = pos + 1)"

definition sprint_events :: "string set" where
  "sprint_events = {''WorkItemSelected'', ''SprintPaused'', ''SprintResumed'', ''SprintCancelled'',
     ''SprintAdvanced'', ''SprintCompleted''}"

text \<open>Pauses and resumptions repeat at one position, so their keys carry an occurrence number.\<close>

definition sprint_event_key :: "string \<Rightarrow> string \<Rightarrow> nat \<Rightarrow> store \<Rightarrow> string" where
  "sprint_event_key sid event position d =
     event @ '':'' @ decimal position @
       (if event \<in> {''SprintPaused'', ''SprintResumed''}
        then '':'' @ decimal (count_rows (\<lambda>e. ev_aggregate_type e = ''sprint'' \<and>
               ev_aggregate_id e = sid \<and> ev_name e = event) (db_audit d) + 1)
        else [])"

definition move_sprint :: "int \<Rightarrow> string \<Rightarrow> sprint_state \<Rightarrow> nat \<Rightarrow> string \<Rightarrow> (store, py_error, unit) tx" where
  "move_sprint now sid state position event d =
     (if event \<notin> sprint_events then Inl (ValueError ''unsupported sprint event'')
      else case sprint_row_of d sid of None \<Rightarrow> Inl (KeyError sid)
      | Some r \<Rightarrow>
        if \<not> valid_sprint_move event (sp_state r) (sp_position r) state position
        then Inl (ValueError ''invalid sprint transition'')
        else Inr ((), sprint_event now sid event (sprint_event_key sid event position d)
               (d\<lparr>db_sprints := set_rows (\<lambda>r. man_sprint_id (sp_manifest r) = sid)
                 (\<lambda>r. r\<lparr>sp_state := state, sp_position := position\<rparr>) (db_sprints d)\<rparr>)))"

end
