(* ===== verification/Planning_Facts.thy ===== *)
theory Planning_Facts
  imports Planning_Store
begin

text \<open>
  The invariants of the planning tables: one link row per work item, one work item per issue, an
  issue identity exactly on the materialized rows; unique sprint ids and at most one live sprint
  per project.  A planning step keeps them, never rewrites a link identity, a materialized issue or
  a manifest, and is a historical step of the store.
\<close>

section \<open>Backlog link invariant\<close>

abbreviation link_key :: "link_row \<Rightarrow> string \<times> string" where
  "link_key l \<equiv> (lk_provider l, lk_external l)"

definition link_identity :: "link_row \<Rightarrow> string \<times> string \<times> string \<times> string" where
  "link_identity l = (lk_provider l, lk_external l, lk_repository l, lk_project l)"

text \<open>A row carries an issue exactly when it is materialized.\<close>

definition link_state_ok :: "link_row \<Rightarrow> bool" where
  "link_state_ok l \<longleftrightarrow> (if lk_state l = MATERIALIZED
     then lk_url l \<noteq> None \<and> (\<exists>n > 0. lk_number l = Some n)
     else lk_number l = None \<and> lk_url l = None)"

definition links_ok :: "store \<Rightarrow> bool" where
  "links_ok d \<longleftrightarrow> distinct (map link_key (db_links d)) \<and>
     (\<forall>l \<in> set (db_links d). \<forall>m \<in> set (db_links d). link_key l \<noteq> link_key m \<longrightarrow>
        \<not> (lk_number l \<noteq> None \<and> lk_number l = lk_number m \<and> lk_repository l = lk_repository m)) \<and>
     (\<forall>l \<in> set (db_links d). link_state_ok l)"

definition sprints_ok :: "store \<Rightarrow> bool" where
  "sprints_ok d \<longleftrightarrow> distinct (map (\<lambda>r. man_sprint_id (sp_manifest r)) (db_sprints d)) \<and>
     (\<forall>r \<in> set (db_sprints d). \<forall>q \<in> set (db_sprints d).
        man_sprint_id (sp_manifest r) \<noteq> man_sprint_id (sp_manifest q) \<longrightarrow>
        live_state (sp_state r) \<longrightarrow> live_state (sp_state q) \<longrightarrow>
        set (manifest_projects (sp_manifest r)) \<inter> set (manifest_projects (sp_manifest q)) = {})"

definition planning_step :: "store \<Rightarrow> store \<Rightarrow> bool" where
  "planning_step d d' \<longleftrightarrow>
     (links_ok d \<longrightarrow> links_ok d') \<and> (sprints_ok d \<longrightarrow> sprints_ok d') \<and>
     prefix (map link_identity (db_links d)) (map link_identity (db_links d')) \<and>
     (\<forall>l \<in> set (db_links d). lk_state l = MATERIALIZED \<longrightarrow> l \<in> set (db_links d')) \<and>
     prefix (map sp_manifest (db_sprints d)) (map sp_manifest (db_sprints d'))"

interpretation planning: preorder_relation planning_step
  by unfold_locales (auto simp: planning_step_def intro: prefix_order.trans)

text \<open>The operations of the planning tables leave the task, run and pull request tables alone.\<close>

definition only_planning :: "store \<Rightarrow> store \<Rightarrow> bool" where
  "only_planning d d' \<longleftrightarrow> db_tasks d' = db_tasks d \<and> db_transitions d' = db_transitions d \<and>
     db_workspaces d' = db_workspaces d \<and> db_runs d' = db_runs d \<and> db_prs d' = db_prs d \<and>
     db_rework d' = db_rework d \<and> prefix (db_audit d) (db_audit d') \<and> (audit_ok d \<longrightarrow> audit_ok d')"

lemma only_planning_historical:
  assumes "only_planning d d'" shows "historical_step d d'"
  using assms tasks_ok_cong [of d' d] runs_ok_cong [of d' d] prs_ok_cong [of d' d]
    history_ok_cong [of d' d] identity_cong [of d' d]
  by (simp add: only_planning_def historical_step_def sound_step_def store_inv_def store_grows_def)

text \<open>What leaves the planning tables alone is a planning step.\<close>

definition same_planning :: "store \<Rightarrow> store \<Rightarrow> bool" where
  "same_planning d d' \<longleftrightarrow> db_links d' = db_links d \<and> db_sprints d' = db_sprints d"

lemma same_planning_step: "same_planning d d' \<Longrightarrow> planning_step d d'"
  by (simp add: same_planning_def planning_step_def links_ok_def sprints_ok_def)

section \<open>Backlog link operations\<close>

lemma link_row_ofD: "link_row_of d p x = Some l \<Longrightarrow> l \<in> set (db_links d) \<and> link_key l = (p, x)"
  unfolding link_row_of_def by (drule find_SomeD) (simp add: link_for_def)

lemma link_row_of_None:
  "link_row_of d p x = None \<longleftrightarrow> (p, x) \<notin> link_key ` set (db_links d)"
  by (auto simp: link_row_of_def find_None_iff' link_for_def)

lemma links_of_update: "db_links (d\<lparr>db_links := ls\<rparr>) = ls"
  by simp

lemma reserve_planning:
  assumes "reserve item d = Inr (b, d')"
  shows "planning_step d d' \<and> only_planning d d'"
proof (cases "link_row_of d (item_provider item) (item_external_id item)")
  case None
  let ?new = "\<lparr>lk_provider = item_provider item, lk_external = item_external_id item,
    lk_repository = item_repository item, lk_project = item_project item,
    lk_state = RESERVED, lk_number = None, lk_url = None\<rparr>"
  have d': "d' = d\<lparr>db_links := db_links d @ [?new]\<rparr>"
    using assms None by (simp add: reserve_def)
  have "links_ok d'" if "links_ok d"
    using that None unfolding links_ok_def d' by (auto simp: link_row_of_None link_state_ok_def)
  then show ?thesis
    unfolding d' by (simp add: planning_step_def only_planning_def sprints_ok_def audit_ok_def)
next
  case (Some l)
  then have "d' = d" using assms by (auto simp: reserve_def Let_def split: if_splits)
  then show ?thesis by (simp add: planning.R_refl only_planning_def)
qed

text \<open>Rewriting the state and issue of rows that are not materialized yet.\<close>

lemma set_links_planning:
  assumes p: "\<And>l. p l \<Longrightarrow> lk_state l \<noteq> MATERIALIZED"
    and f: "\<And>l. link_identity (f l) = link_identity l"
    and ok: "links_ok d \<Longrightarrow> links_ok (d\<lparr>db_links := set_rows p f (db_links d)\<rparr>)"
  shows "planning_step d (d\<lparr>db_links := set_rows p f (db_links d)\<rparr>) \<and>
    only_planning d (d\<lparr>db_links := set_rows p f (db_links d)\<rparr>)"
proof -
  have "map link_identity (set_rows p f (db_links d)) = map link_identity (db_links d)"
    using f by (simp add: map_set_rows)
  moreover have "l \<in> set (set_rows p f (db_links d))"
    if "l \<in> set (db_links d)" "lk_state l = MATERIALIZED" for l
    unfolding in_set_rows using that p [of l] by (intro bexI [of _ l]) auto
  ultimately show ?thesis
    using ok by (simp add: planning_step_def only_planning_def sprints_ok_def audit_ok_def)
qed

lemma link_keys_set_rows:
  assumes "\<And>l. link_key (f l) = link_key l"
  shows "map link_key (set_rows p f ls) = map link_key ls"
  using assms by (simp add: map_set_rows)

lemma begin_write_planning:
  assumes "begin_write item d = Inr (b, d')"
  shows "planning_step d d' \<and> only_planning d d'"
proof -
  let ?p = "\<lambda>l. link_matches item l \<and> lk_state l = RESERVED" let ?f = "\<lambda>l. l\<lparr>lk_state := POSTING\<rparr>"
  have d': "d' = d\<lparr>db_links := set_rows ?p ?f (db_links d)\<rparr>"
    using assms by (simp add: begin_write_def Let_def)
  have "links_ok (d\<lparr>db_links := set_rows ?p ?f (db_links d)\<rparr>)" if ok: "links_ok d"
    unfolding links_ok_def
  proof (intro conjI)
    show "distinct (map link_key (db_links (d\<lparr>db_links := set_rows ?p ?f (db_links d)\<rparr>)))"
      using ok by (simp add: link_keys_set_rows links_ok_def)
    show "\<forall>l \<in> set (db_links (d\<lparr>db_links := set_rows ?p ?f (db_links d)\<rparr>)). link_state_ok l"
      unfolding links_of_update
      by (rule ball_set_rows) (use ok in \<open>simp_all add: links_ok_def link_state_ok_def\<close>)
    show "\<forall>l \<in> set (db_links (d\<lparr>db_links := set_rows ?p ?f (db_links d)\<rparr>)).
      \<forall>m \<in> set (db_links (d\<lparr>db_links := set_rows ?p ?f (db_links d)\<rparr>)). link_key l \<noteq> link_key m \<longrightarrow>
        \<not> (lk_number l \<noteq> None \<and> lk_number l = lk_number m \<and> lk_repository l = lk_repository m)"
      unfolding links_of_update
      by (intro ball_set_rows) (use ok in \<open>auto simp: links_ok_def\<close>)
  qed
  then show ?thesis
    unfolding d' by (intro set_links_planning) (auto simp: link_identity_def)
qed

lemma complete_effect:
  assumes "complete_link item issue d = Inr (u, d')"
  shows "(d' = d \<and> (\<exists>l. link_row_of d (item_provider item) (item_external_id item) = Some l \<and>
            lk_number l = Some (iss_number issue) \<and> lk_url l = Some (iss_url issue) \<and>
            link_matches item l)) \<or>
    (\<exists>l \<in> set (db_links d). link_matches item l \<and> lk_state l \<noteq> MATERIALIZED \<and>
       \<not> list_ex (\<lambda>m. link_key m \<noteq> link_key l \<and> lk_repository m = lk_repository l \<and>
            lk_number m = Some (iss_number issue)) (db_links d) \<and> 0 < iss_number issue \<and>
       d' = d\<lparr>db_links := set_rows (\<lambda>l. link_matches item l \<and> lk_state l \<noteq> MATERIALIZED)
          (\<lambda>l. l\<lparr>lk_state := MATERIALIZED, lk_number := Some (iss_number issue),
               lk_url := Some (iss_url issue)\<rparr>) (db_links d)\<rparr>)"
proof (cases "find (\<lambda>l. link_matches item l \<and> lk_state l \<noteq> MATERIALIZED) (db_links d)")
  case None
  then obtain l where "link_row_of d (item_provider item) (item_external_id item) = Some l"
    "lk_number l = Some (iss_number issue)" "lk_url l = Some (iss_url issue)"
    "lk_repository l = item_repository item" "lk_project l = item_project item" "d' = d"
    using assms by (auto simp: complete_link_def Let_def split: if_splits option.splits)
  then show ?thesis
    using link_row_ofD [of d "item_provider item" "item_external_id item" l]
    by (auto simp: link_matches_def link_for_def)
next
  case (Some l)
  then have "\<not> list_ex (\<lambda>m. \<not> link_for (lk_provider l) (lk_external l) m \<and>
      lk_repository m = lk_repository l \<and> lk_number m = Some (iss_number issue)) (db_links d)"
    "0 < iss_number issue"
    "d' = d\<lparr>db_links := set_rows (\<lambda>l. link_matches item l \<and> lk_state l \<noteq> MATERIALIZED)
       (\<lambda>l. l\<lparr>lk_state := MATERIALIZED, lk_number := Some (iss_number issue),
            lk_url := Some (iss_url issue)\<rparr>) (db_links d)\<rparr>"
    using assms by (simp_all add: complete_link_def Let_def split: if_splits)
  then show ?thesis
    using find_SomeD [OF Some] by (intro disjI2 bexI [of _ l]) (auto simp: list_ex_iff link_for_def)
qed

lemma complete_planning:
  assumes "complete_link item issue d = Inr (u, d')"
  shows "planning_step d d' \<and> only_planning d d'"
  using complete_effect [OF assms]
proof (elim disjE conjE bexE)
  assume "d' = d"
  then show ?thesis by (simp add: planning.R_refl only_planning_def)
next
  let ?p = "\<lambda>l. link_matches item l \<and> lk_state l \<noteq> MATERIALIZED"
  let ?f = "\<lambda>l. l\<lparr>lk_state := MATERIALIZED, lk_number := Some (iss_number issue),
               lk_url := Some (iss_url issue)\<rparr>"
  fix l assume l: "l \<in> set (db_links d)" "link_matches item l" "lk_state l \<noteq> MATERIALIZED"
    and free: "\<not> list_ex (\<lambda>m. link_key m \<noteq> link_key l \<and> lk_repository m = lk_repository l \<and>
            lk_number m = Some (iss_number issue)) (db_links d)"
    and pos: "0 < iss_number issue" and d': "d' = d\<lparr>db_links := set_rows ?p ?f (db_links d)\<rparr>"
  have same: "link_key m = link_key l \<and> lk_repository m = lk_repository l" if "?p m" for m
    using that l(2) by (auto simp: link_matches_def link_for_def)
  have "links_ok (d\<lparr>db_links := set_rows ?p ?f (db_links d)\<rparr>)" if ok: "links_ok d"
    unfolding links_ok_def
  proof (intro conjI)
    show "distinct (map link_key (db_links (d\<lparr>db_links := set_rows ?p ?f (db_links d)\<rparr>)))"
      using ok by (simp add: link_keys_set_rows links_ok_def)
    show "\<forall>l \<in> set (db_links (d\<lparr>db_links := set_rows ?p ?f (db_links d)\<rparr>)).
      \<forall>m \<in> set (db_links (d\<lparr>db_links := set_rows ?p ?f (db_links d)\<rparr>)). link_key l \<noteq> link_key m \<longrightarrow>
        \<not> (lk_number l \<noteq> None \<and> lk_number l = lk_number m \<and> lk_repository l = lk_repository m)"
    proof (intro ballI impI)
      fix a b assume "a \<in> set (db_links (d\<lparr>db_links := set_rows ?p ?f (db_links d)\<rparr>))"
        "b \<in> set (db_links (d\<lparr>db_links := set_rows ?p ?f (db_links d)\<rparr>))" and ne: "link_key a \<noteq> link_key b"
      then obtain x y where x: "x \<in> set (db_links d)" "a = (if ?p x then ?f x else x)"
        and y: "y \<in> set (db_links d)" "b = (if ?p y then ?f y else y)"
        by (auto simp: in_set_rows)
      have old: "\<not> (lk_number x \<noteq> None \<and> lk_number x = lk_number y \<and> lk_repository x = lk_repository y)"
        if "link_key x \<noteq> link_key y" using ok x(1) y(1) that unfolding links_ok_def by blast
      have taken: "\<not> (lk_repository z = lk_repository l \<and> lk_number z = Some (iss_number issue))"
        if "z \<in> set (db_links d)" "link_key z \<noteq> link_key l" for z
        using free that by (auto simp: list_ex_iff)
      have keys: "link_key a = link_key x" "link_key b = link_key y"
        "lk_repository a = lk_repository x" "lk_repository b = lk_repository y"
        using x(2) y(2) by simp_all
      show "\<not> (lk_number a \<noteq> None \<and> lk_number a = lk_number b \<and> lk_repository a = lk_repository b)"
      proof (cases "?p x")
        case True
        have "\<not> ?p y"
        proof
          assume "?p y"
          from same [OF this] same [OF True] ne keys show False by simp
        qed
        then have b: "b = y" using y(2) by (simp only: if_False)
        have a: "a = ?f x" using x(2) True by (simp only: if_True simp_thms)
        show ?thesis
          using same [OF True] taken [OF y(1)] ne unfolding a b by auto
      next
        case False
        then show ?thesis
          using same [of y] taken [OF x(1)] old ne keys x(2) y(2) by (cases "?p y") auto
      qed
    qed
    show "\<forall>l \<in> set (db_links (d\<lparr>db_links := set_rows ?p ?f (db_links d)\<rparr>)). link_state_ok l"
      unfolding links_of_update
      by (rule ball_set_rows) (use ok pos in \<open>simp_all add: links_ok_def link_state_ok_def\<close>)
  qed
  then show ?thesis
    unfolding d' by (intro set_links_planning) (auto simp: link_identity_def)
qed

lemma record_rejection_planning:
  assumes "record_rejection item reason d = Inr (u, d')"
  shows "planning_step d d' \<and> only_planning d d'"
proof -
  have "same_planning d d'" "only_planning d d'"
    using assms by (auto simp: record_rejection_def Let_def same_planning_def only_planning_def
        audit_ok_def split: if_splits)
  then show ?thesis by (simp add: same_planning_step)
qed

section \<open>Sprint operations\<close>

lemma sprint_event_row_seq:
  "ev_seq (sprint_event_row now sid name key d) = count_rows
     (\<lambda>x. ev_correlation x = ev_correlation (sprint_event_row now sid name key d)) (db_audit d) + 1"
  by (simp add: sprint_event_row_def Let_def)

lemma sprint_event_only_audit: "only_audit d (sprint_event now sid name key d)"
proof (cases "sprint_event now sid name key d = d")
  case False
  let ?row = "sprint_event_row now sid name key d"
  have e: "sprint_event now sid name key d = d\<lparr>db_audit := db_audit d @ [?row]\<rparr>"
    and fresh: "\<forall>x \<in> set (db_audit d). ev_key x \<noteq> ev_key ?row"
    using False by (auto simp: sprint_event_def Let_def list_ex_iff split: if_splits)
  have "ev_key ?row \<notin> ev_key ` set (db_audit d)"
    using fresh by (metis imageE)
  then show ?thesis
    unfolding e by (simp add: only_audit_def audit_ok_append [OF _ _ sprint_event_row_seq])
qed simp

lemma sprint_row_ofD:
  "sprint_row_of d sid = Some r \<Longrightarrow> r \<in> set (db_sprints d) \<and> man_sprint_id (sp_manifest r) = sid"
  unfolding sprint_row_of_def by (drule find_SomeD) simp

lemma sprint_row_of_None:
  "sprint_row_of d sid = None \<longleftrightarrow> sid \<notin> (\<lambda>r. man_sprint_id (sp_manifest r)) ` set (db_sprints d)"
  by (auto simp: sprint_row_of_def find_None_iff')

lemma sprints_of_update: "db_sprints (d\<lparr>db_sprints := ss\<rparr>) = ss"
  by simp

lemma sprint_update_planning:
  assumes d1: "d1 = d\<lparr>db_sprints := ss\<rparr>" and ok: "sprints_ok d \<Longrightarrow> sprints_ok d1"
    and pre: "prefix (map sp_manifest (db_sprints d)) (map sp_manifest ss)"
    and oa: "only_audit d1 d'"
  shows "planning_step d d' \<and> only_planning d d'"
proof -
  have "links_ok d' = links_ok d" "sprints_ok d' = sprints_ok d1" "audit_ok d1 = audit_ok d"
    using only_auditD [OF oa] by (simp_all add: links_ok_def sprints_ok_def d1 audit_ok_def)
  then show ?thesis
    using ok pre only_auditD [OF oa]
    by (simp add: planning_step_def only_planning_def) (simp add: d1)
qed

lemma authorize_sprint_planning:
  assumes "authorize_sprint now m d = Inr (u, d')"
  shows "planning_step d d' \<and> only_planning d d'"
proof (cases "sprint_row_of d (man_sprint_id m)")
  case (Some r)
  then have "d' = d" using assms by (auto simp: authorize_sprint_def Let_def split: if_splits)
  then show ?thesis by (simp add: planning.R_refl only_planning_def)
next
  case None
  let ?row = "\<lparr>sp_manifest = m, sp_state = Sprint_ACTIVE, sp_position = 0\<rparr>"
  let ?d1 = "d\<lparr>db_sprints := db_sprints d @ [?row]\<rparr>"
  have d': "d' = sprint_event now (man_sprint_id m) ''SprintAuthorized'' ''authorize'' ?d1"
    using assms None by (simp add: authorize_sprint_def Let_def split: if_splits)
  have "\<not> list_ex (\<lambda>r. live_state (sp_state r) \<and>
      list_ex (\<lambda>p. p \<in> set (manifest_projects m)) (manifest_projects (sp_manifest r))) (db_sprints d)"
    using assms None by (simp add: authorize_sprint_def Let_def split: if_splits)
  then have free: "set (manifest_projects (sp_manifest r)) \<inter> set (manifest_projects m) = {}"
    if "r \<in> set (db_sprints d)" "live_state (sp_state r)" for r
    using that by (auto simp: list_ex_iff)
  have "sprints_ok ?d1" if ok: "sprints_ok d"
    using ok None free unfolding sprints_ok_def sprints_of_update
    by (simp add: sprint_row_of_None) (metis inf_commute)
  moreover have "prefix (map sp_manifest (db_sprints d)) (map sp_manifest (db_sprints d @ [?row]))"
    by simp
  ultimately show ?thesis
    unfolding d' by (rule sprint_update_planning [OF refl _ _ sprint_event_only_audit])
qed

lemma valid_sprint_move_live:
  "valid_sprint_move event old pos state position \<Longrightarrow> live_state old"
  by (auto simp: valid_sprint_move_def live_state_def split: if_splits)

lemma move_sprint_effect:
  assumes "move_sprint now sid state position event d = Inr (u, d')"
  obtains r where "sprint_row_of d sid = Some r"
    "valid_sprint_move event (sp_state r) (sp_position r) state position"
    "d' = sprint_event now sid event (sprint_event_key sid event position d) (d\<lparr>db_sprints :=
       set_rows (\<lambda>r. man_sprint_id (sp_manifest r) = sid)
         (\<lambda>r. r\<lparr>sp_state := state, sp_position := position\<rparr>) (db_sprints d)\<rparr>)"
proof -
  from assms obtain r where r: "sprint_row_of d sid = Some r"
    by (auto simp: move_sprint_def split: if_splits option.splits)
  show thesis
    by (rule that [OF r]) (use assms r in \<open>simp_all add: move_sprint_def split: if_splits\<close>)
qed

lemma move_sprint_planning:
  assumes "move_sprint now sid state position event d = Inr (u, d')"
  shows "planning_step d d' \<and> only_planning d d'"
proof (rule move_sprint_effect [OF assms])
  fix r
  let ?p = "\<lambda>r. man_sprint_id (sp_manifest r) = sid"
  let ?f = "\<lambda>r. r\<lparr>sp_state := state, sp_position := position\<rparr>"
  let ?d1 = "d\<lparr>db_sprints := set_rows ?p ?f (db_sprints d)\<rparr>"
  assume r: "sprint_row_of d sid = Some r"
    and v: "valid_sprint_move event (sp_state r) (sp_position r) state position"
    and d': "d' = sprint_event now sid event (sprint_event_key sid event position d) ?d1"
  have manifests: "map sp_manifest (set_rows ?p ?f (db_sprints d)) = map sp_manifest (db_sprints d)"
    by (simp add: map_set_rows)
  have ids: "map (\<lambda>r. man_sprint_id (sp_manifest r)) (set_rows ?p ?f (db_sprints d)) =
      map (\<lambda>r. man_sprint_id (sp_manifest r)) (db_sprints d)"
    by (simp add: map_set_rows)
  have "sprints_ok ?d1" if ok: "sprints_ok d"
    unfolding sprints_ok_def sprints_of_update ids
  proof (intro conjI ballI impI)
    show "distinct (map (\<lambda>r. man_sprint_id (sp_manifest r)) (db_sprints d))"
      using ok by (simp add: sprints_ok_def)
    fix a b assume "a \<in> set (set_rows ?p ?f (db_sprints d))" "b \<in> set (set_rows ?p ?f (db_sprints d))"
      and ne: "man_sprint_id (sp_manifest a) \<noteq> man_sprint_id (sp_manifest b)"
      and live: "live_state (sp_state a)" "live_state (sp_state b)"
    then obtain x y where x: "x \<in> set (db_sprints d)" "a = (if ?p x then ?f x else x)"
      and y: "y \<in> set (db_sprints d)" "b = (if ?p y then ?f y else y)"
      by (auto simp: in_set_rows)
    have "z = r" if "z \<in> set (db_sprints d)" "?p z" for z
      using ok that sprint_row_ofD [OF r] distinct_map_unique
      by (fastforce simp: sprints_ok_def)
    then have "live_state (sp_state x)" "live_state (sp_state y)"
      using x y live valid_sprint_move_live [OF v] by (auto split: if_splits)
    moreover have m: "sp_manifest a = sp_manifest x" "sp_manifest b = sp_manifest y"
      using x(2) y(2) by simp_all
    ultimately show "set (manifest_projects (sp_manifest a)) \<inter> set (manifest_projects (sp_manifest b)) = {}"
      using ok x(1) y(1) ne unfolding m by (simp add: sprints_ok_def)
  qed
  moreover have "prefix (map sp_manifest (db_sprints d))
      (map sp_manifest (set_rows ?p ?f (db_sprints d)))"
    unfolding manifests by simp
  ultimately show ?thesis
    unfolding d' by (rule sprint_update_planning [OF refl _ _ sprint_event_only_audit])
qed

end
