(* ===== verification/Event_Store.thy ===== *)
theory Event_Store
  imports Planning_Facts
begin

text \<open>
  The repositories that append their own facts to the audit trace or drain the status queue:
  \<^verbatim>\<open>SqliteSecurityReviewGate\<close> (\<^verbatim>\<open>security.py\<close>), \<^verbatim>\<open>SqliteFeedbackEventRepository\<close>
  (\<^verbatim>\<open>feedback_sqlite.py\<close>) and \<^verbatim>\<open>SqliteStatusEventStore\<close> (\<^verbatim>\<open>status_events.py\<close>).  All of them leave the
  tables of tasks, runs and plans alone.
\<close>

section \<open>Security review facts (domain/security.py)\<close>

definition SECURITY_RULE_VERSION :: string where
  "SECURITY_RULE_VERSION = ''factory-security-v1''"

record security_finding =
  fnd_rule :: string
  fnd_path_digest :: string
  fnd_line :: int

record security_review =
  rvw_rule_version :: string
  rvw_revision :: string
  rvw_findings :: "security_finding list"

definition critical :: "security_review \<Rightarrow> bool" where
  "critical r \<longleftrightarrow> rvw_findings r \<noteq> []"

section \<open>The security review gate\<close>

definition security_key :: "string \<Rightarrow> agent_run \<Rightarrow> security_review \<Rightarrow> string" where
  "security_key name run r = ''security:'' @ name @ '':'' @ run_id run @ '':'' @
     rvw_rule_version r @ '':'' @ rvw_revision r"

text \<open>The event that \<open>_append\<close> inserts, numbered within its trace and its aggregate.\<close>

definition security_event :: "int \<Rightarrow> task_row \<Rightarrow> agent_run \<Rightarrow> security_review \<Rightarrow> string \<Rightarrow>
    (string \<times> json) list \<Rightarrow> store \<Rightarrow> audit_event" where
  "security_event now t run r name evidence d =
     \<lparr>ev_key = security_key name run r, ev_correlation = tid_of t,
      ev_seq = count_rows (\<lambda>e. ev_correlation e = tid_of t) (db_audit d) + 1,
      ev_name = name, ev_task = tid_of t, ev_run = Some (run_id run),
      ev_workspace = map_option ws_id (run_workspace run), ev_pull_request = None,
      ev_cause = run_id run, ev_source = task_source (trow_task t),
      ev_aggregate_type = ''run'', ev_aggregate_id = run_id run,
      ev_aggregate_version = count_rows (\<lambda>e. ev_aggregate_type e = ''run'' \<and>
        ev_aggregate_id e = run_id run) (db_audit d) + 1,
      ev_occurred_at = now, ev_evidence = evidence\<rparr>"

text \<open>An event row is refused when its key or its place in the trace is taken.\<close>

definition event_clash :: "audit_event \<Rightarrow> store \<Rightarrow> bool" where
  "event_clash row d \<longleftrightarrow> list_ex (\<lambda>e. ev_key e = ev_key row \<or>
     ev_correlation e = ev_correlation row \<and> ev_seq e = ev_seq row) (db_audit d)"

definition append_security :: "int \<Rightarrow> factory_task \<Rightarrow> agent_run \<Rightarrow> security_review \<Rightarrow> string \<Rightarrow>
    (string \<times> json) list \<Rightarrow> (store, py_error, unit) tx" where
  "append_security now task run r name evidence d =
     (case find (\<lambda>t. tid_of t = task_id task \<and> task_project (trow_task t) = task_project task \<and>
            task_repository (trow_task t) = task_repository task) (db_tasks d) of
        None \<Rightarrow> Inl (ValueError ''security review task identity mismatch'')
      | Some t \<Rightarrow>
        if list_ex (\<lambda>e. ev_key e = security_key name run r) (db_audit d) then Inr ((), d)
        else let row = security_event now t run r name evidence d
          in if event_clash row d then Inl IntegrityError
             else Inr ((), d\<lparr>db_audit := db_audit d @ [row]\<rparr>))"

definition finding_json :: "security_finding \<Rightarrow> json" where
  "finding_json f = J_object [(''line'', J_int (fnd_line f)),
     (''path_digest'', J_string (fnd_path_digest f)), (''rule_id'', J_string (fnd_rule f))]"

definition review_evidence :: "factory_task \<Rightarrow> security_review \<Rightarrow> (string \<times> json) list" where
  "review_evidence task r =
     [(''critical'', J_bool (critical r)), (''findings'', J_list (map finding_json (rvw_findings r))),
      (''project_id'', J_string (task_project task)), (''revision'', J_string (rvw_revision r)),
      (''rule_version'', J_string (rvw_rule_version r))]"

definition unavailable_review :: "agent_run \<Rightarrow> security_review" where
  "unavailable_review run = \<lparr>rvw_rule_version = SECURITY_RULE_VERSION,
     rvw_revision = (case run_validated_revision run of None \<Rightarrow> ''unbound''
       | Some v \<Rightarrow> if v = [] then ''unbound'' else v), rvw_findings = []\<rparr>"

definition unavailable_evidence :: "security_review \<Rightarrow> (string \<times> json) list" where
  "unavailable_evidence r = [(''revision'', J_string (rvw_revision r)),
     (''rule_version'', J_string SECURITY_RULE_VERSION)]"

definition has_event :: "string \<Rightarrow> factory_task \<Rightarrow> agent_run \<Rightarrow> security_review \<Rightarrow> store \<Rightarrow> bool" where
  "has_event name task run r d \<longleftrightarrow> list_ex (\<lambda>e. ev_key e = security_key name run r \<and>
     ev_task e = task_id task \<and> ev_run e = Some (run_id run)) (db_audit d)"

definition is_overridden :: "factory_task \<Rightarrow> agent_run \<Rightarrow> security_review \<Rightarrow> store \<Rightarrow> bool" where
  "is_overridden = has_event ''SecurityReviewOverridden''"

definition review_recorded :: "factory_task \<Rightarrow> agent_run \<Rightarrow> security_review \<Rightarrow> store \<Rightarrow> bool" where
  "review_recorded = has_event ''SecurityReviewBlocked''"

definition override_evidence :: "(string \<Rightarrow> string) \<Rightarrow> security_review \<Rightarrow> string \<Rightarrow> string \<Rightarrow>
    (string \<times> json) list" where
  "override_evidence digest r actor reason =
     [(''actor_digest'', J_string (take 16 (digest actor))), (''decision'', J_string ''override''),
      (''reason_digest'', J_string (take 16 (digest reason))),
      (''revision'', J_string (rvw_revision r)), (''rule_version'', J_string (rvw_rule_version r))]"

section \<open>Reconciliation events\<close>

record feedback_identity =
  fid_project :: string
  fid_repository :: string
  fid_issue_number :: int
  fid_task :: string
  fid_run :: string
  fid_workspace :: string
  fid_commit_sha :: string
  fid_pr_number :: int
  fid_branch :: string
  fid_sprint :: "string option"
  fid_provider :: "string option"
  fid_item :: "string option"

record delivery_evidence =
  dlv_merged :: bool
  dlv_integration_verified :: bool
  dlv_required_ci_passed :: bool
  dlv_deploy_validated :: bool
  dlv_blockers :: bool

definition delivery_complete :: "delivery_evidence \<Rightarrow> bool" where
  "delivery_complete e \<longleftrightarrow> dlv_merged e \<and> dlv_integration_verified e \<and> dlv_required_ci_passed e \<and>
     dlv_deploy_validated e \<and> \<not> dlv_blockers e"

definition delivery_key :: "string \<Rightarrow> string" where
  "delivery_key tid = ''delivery:'' @ tid"

definition is_completed :: "store \<Rightarrow> string \<Rightarrow> bool" where
  "is_completed d tid \<longleftrightarrow> list_ex (\<lambda>e. ev_key e = delivery_key tid) (db_audit d)"

text \<open>\<open>INSERT OR IGNORE\<close> of a \<open>DeliveryReconciled\<close> fact.\<close>

definition reconciled_event :: "int \<Rightarrow> string \<Rightarrow> string \<Rightarrow> feedback_identity \<Rightarrow> string option \<Rightarrow>
    task_source option \<Rightarrow> (string \<times> json) list \<Rightarrow> store \<Rightarrow> audit_event" where
  "reconciled_event now key tid i pr source evidence d =
     \<lparr>ev_key = key, ev_correlation = tid,
      ev_seq = count_rows (\<lambda>e. ev_correlation e = tid) (db_audit d) + 1,
      ev_name = ''DeliveryReconciled'', ev_task = tid, ev_run = Some (fid_run i),
      ev_workspace = Some (fid_workspace i), ev_pull_request = pr, ev_cause = fid_run i,
      ev_source = source, ev_aggregate_type = ''task'', ev_aggregate_id = tid,
      ev_aggregate_version = count_rows (\<lambda>e. ev_aggregate_type e = ''task'' \<and>
        ev_aggregate_id e = tid) (db_audit d) + 1,
      ev_occurred_at = now, ev_evidence = evidence\<rparr>"

definition append_or_ignore :: "audit_event \<Rightarrow> store \<Rightarrow> store" where
  "append_or_ignore row d =
     (if event_clash row d then d else d\<lparr>db_audit := db_audit d @ [row]\<rparr>)"

text \<open>The rows of run, workspace and pull request that an identity names.\<close>

definition delivery_run :: "feedback_identity \<Rightarrow> run_row \<Rightarrow> bool" where
  "delivery_run i r \<longleftrightarrow> run_task_id (rrow_run r) = fid_task i \<and> rid_of r = fid_run i \<and>
     run_project (rrow_run r) = fid_project i \<and> rrow_ws r = Some (fid_workspace i)"

definition delivery_workspace :: "feedback_identity \<Rightarrow> workspace \<Rightarrow> bool" where
  "delivery_workspace i w \<longleftrightarrow> ws_id w = fid_workspace i \<and> ws_repository w = fid_repository i"

definition delivery_pr :: "feedback_identity \<Rightarrow> workspace \<Rightarrow> pr_row \<Rightarrow> bool" where
  "delivery_pr i w p \<longleftrightarrow> pr_task_id (prow_pr p) = Some (fid_task i) \<and>
     pr_run_id (prow_pr p) = Some (fid_run i) \<and> pr_repository (prow_pr p) = fid_repository i \<and>
     pr_head_branch (prow_pr p) = ws_branch w \<and> pr_number (prow_pr p) = Some (fid_pr_number i) \<and>
     pr_commit_sha (prow_pr p) = Some (fid_commit_sha i)"

definition delivery_task :: "feedback_identity \<Rightarrow> task_row \<Rightarrow> bool" where
  "delivery_task i t \<longleftrightarrow> tid_of t = fid_task i \<and> task_project (trow_task t) = fid_project i \<and>
     task_repository (trow_task t) = fid_repository i \<and>
     task_source (trow_task t) = Some \<lparr>src_provider = ''github'', src_repository = fid_repository i,
       src_issue_number = fid_issue_number i\<rparr>"

definition resolution_origin :: "feedback_identity \<Rightarrow> task_row \<Rightarrow> bool" where
  "resolution_origin i t \<longleftrightarrow>
     trow_origin t = Some ''github-direct'' \<and> trow_item t = None \<and> fid_provider i = None \<or>
     trow_origin t = Some ''trello'' \<and> trow_item t \<noteq> None \<and> trow_item t = fid_item i \<and>
       fid_provider i = Some ''trello''"

definition record_resolution :: "int \<Rightarrow> feedback_identity \<Rightarrow> string \<Rightarrow> (store, py_error, unit) tx" where
  "record_resolution now i reason d =
     (if reason \<notin> {''completed'', ''not_planned'', ''duplicate''}
      then Inl (ValueError ''invalid resolution reason'')
      else case find (\<lambda>t. delivery_task i t \<and> resolution_origin i t) (db_tasks d) of
        None \<Rightarrow> Inl (ValueError ''resolution identity mismatch'')
      | Some t \<Rightarrow>
        if \<not> (list_ex (delivery_run i) (db_runs d) \<and>
              list_ex (\<lambda>w. delivery_workspace i w \<and> list_ex (delivery_pr i w) (db_prs d)) (db_workspaces d)) \<or>
           task_status (trow_task t) \<noteq> Task_DONE
        then Inl (ValueError ''resolution identity mismatch'')
        else Inr ((), append_or_ignore
          (reconciled_event now (''resolution:'' @ fid_task i @ '':'' @ reason) (fid_task i) i
            (map_option prow_id (find (\<lambda>p. pr_task_id (prow_pr p) = Some (fid_task i) \<and>
               pr_run_id (prow_pr p) = Some (fid_run i)) (db_prs d)))
            (Some \<lparr>src_provider = ''github'', src_repository = fid_repository i,
               src_issue_number = fid_issue_number i\<rparr>)
            [(''commit_sha'', J_string (fid_commit_sha i)), (''issue_number'', J_int (fid_issue_number i)),
             (''project_id'', J_string (fid_project i)), (''pull_request_number'', J_int (fid_pr_number i)),
             (''reason'', J_string reason), (''source'', J_string ''github_issue''),
             (''work_item_id'', j_option (fid_item i)),
             (''work_item_provider'', j_option (fid_provider i))] d) d))"

definition completion_origin :: "feedback_identity \<Rightarrow> store \<Rightarrow> task_row \<Rightarrow> bool" where
  "completion_origin i d t \<longleftrightarrow>
     trow_origin t = Some ''trello'' \<and> trow_item t \<noteq> None \<and> trow_item t = fid_item i \<and>
       fid_provider i = Some ''trello'' \<and>
       list_ex (\<lambda>l. lk_project l = fid_project i \<and> lk_repository l = fid_repository i \<and>
         lk_number l = Some (fid_issue_number i) \<and> lk_provider l = ''trello'' \<and>
         Some (lk_external l) = trow_item t \<and> lk_state l = MATERIALIZED) (db_links d) \<or>
     trow_origin t = Some ''github-direct'' \<and> trow_item t = None \<and> fid_provider i = None \<and>
       fid_item i = None \<and>
       \<not> list_ex (\<lambda>l. lk_repository l = fid_repository i \<and>
         lk_number l = Some (fid_issue_number i)) (db_links d)"

definition completion_match :: "feedback_identity \<Rightarrow> store \<Rightarrow> task_row option" where
  "completion_match i d = (case find (\<lambda>t. delivery_task i t \<and> task_status (trow_task t) = Task_DONE \<and>
         completion_origin i d t) (db_tasks d) of
      None \<Rightarrow> None
    | Some t \<Rightarrow>
      if list_ex (delivery_run i) (db_runs d) \<and>
         list_ex (\<lambda>w. delivery_workspace i w \<and> list_ex (\<lambda>p. delivery_pr i w p \<and>
           pr_head_branch (prow_pr p) = fid_branch i \<and> pr_merged (prow_pr p)) (db_prs d)) (db_workspaces d)
      then Some t else None)"

definition record_completed :: "int \<Rightarrow> feedback_identity \<Rightarrow> (store, py_error, unit) tx" where
  "record_completed now i d = (case completion_match i d of
      None \<Rightarrow> Inl (ValueError ''feedback identity mismatch'')
    | Some t \<Rightarrow>
      (case find (\<lambda>p. pr_task_id (prow_pr p) = Some (fid_task i) \<and>
              pr_number (prow_pr p) = Some (fid_pr_number i) \<and>
              pr_repository (prow_pr p) = fid_repository i) (db_prs d) of
         None \<Rightarrow> Inr ((), d)
       | Some p \<Rightarrow> Inr ((), append_or_ignore
           (reconciled_event now (delivery_key (fid_task i)) (fid_task i) i (Some (prow_id p))
             (task_source (trow_task t))
             [(''commit_sha'', J_string (fid_commit_sha i)), (''issue_number'', J_int (fid_issue_number i)),
              (''project_id'', J_string (fid_project i)), (''pull_request_number'', J_int (fid_pr_number i)),
              (''sprint_id'', j_option (fid_sprint i)), (''work_item_id'', j_option (fid_item i)),
              (''work_item_provider'', j_option (fid_provider i))] d) d)))"

section \<open>The status queue\<close>

definition undelivered :: "store \<Rightarrow> status_event list" where
  "undelivered d = sort_key se_occurred_at (filter (\<lambda>e. se_delivered_at e = None) (db_status_events d))"

definition pending :: "store \<Rightarrow> (string \<times> string) list" where
  "pending d = map (\<lambda>e. (se_transition e, se_task e)) (take 100 (undelivered d))"

definition mark_delivered :: "int \<Rightarrow> string \<Rightarrow> (store, py_error, unit) tx" where
  "mark_delivered now event d = Inr ((), d\<lparr>db_status_events :=
     set_rows (\<lambda>e. se_transition e = event \<and> se_delivered_at e = None)
       (\<lambda>e. e\<lparr>se_delivered_at := Some now\<rparr>) (db_status_events d)\<rparr>)"

text \<open>SQL \<open>LIKE\<close>: \<open>%\<close> any text, \<open>_\<close> any character, ASCII letters without case.\<close>

definition fold_ascii :: "char \<Rightarrow> char" where
  "fold_ascii c = (if is_upper c then char_of (code_point c + 32) else c)"

fun like :: "string \<Rightarrow> string \<Rightarrow> bool" where
  "like [] s = (s = [])"
| "like (p # ps) s =
     (if p = CHR ''%'' then like ps s \<or> (case s of [] \<Rightarrow> False | _ # t \<Rightarrow> like (p # ps) t)
      else case s of [] \<Rightarrow> False
        | c # t \<Rightarrow> (p = CHR ''_'' \<or> fold_ascii p = fold_ascii c) \<and> like ps t)"

definition text_or_none :: "string option \<Rightarrow> string" where
  "text_or_none x = (case x of None \<Rightarrow> ''None'' | Some s \<Rightarrow> s)"

definition stall_event :: "string \<Rightarrow> string option \<Rightarrow> string option \<Rightarrow> string" where
  "stall_event rid beat started = ''stall:'' @ rid @ '':'' @
     text_or_none (case beat of None \<Rightarrow> started | Some b \<Rightarrow> if b = [] then started else Some b)"

definition was_stalled :: "string \<Rightarrow> string \<Rightarrow> store \<Rightarrow> bool" where
  "was_stalled tid rid d \<longleftrightarrow> list_ex (\<lambda>e. se_task e = tid \<and> se_phase e = ''STALLED'' \<and>
     like (''stall:'' @ rid @ '':%'') (se_transition e)) (db_status_events d)"

definition queue_observation :: "int \<Rightarrow> string \<Rightarrow> string \<Rightarrow> string \<Rightarrow> (store, py_error, unit) tx" where
  "queue_observation now event tid phase d =
     Inr ((), if list_ex (\<lambda>e. se_transition e = event) (db_status_events d) then d
       else d\<lparr>db_status_events := db_status_events d @
         [\<lparr>se_transition = event, se_task = tid, se_phase = phase, se_occurred_at = now,
           se_delivered_at = None\<rparr>]\<rparr>)"

section \<open>What these operations leave alone\<close>

definition only_events :: "store \<Rightarrow> store \<Rightarrow> bool" where
  "only_events d d' \<longleftrightarrow> same_planning d d' \<and> only_planning d d'"

lemma only_events_steps:
  "only_events d d' \<Longrightarrow> planning_step d d'" "only_events d d' \<Longrightarrow> historical_step d d'"
  by (simp_all add: only_events_def same_planning_step only_planning_historical)

lemma only_events_refl [simp]: "only_events d d"
  by (simp add: only_events_def same_planning_def only_planning_def)

lemma append_event_ok:
  assumes "\<not> event_clash e d"
    and "ev_seq e = count_rows (\<lambda>x. ev_correlation x = ev_correlation e) (db_audit d) + 1"
  shows "only_events d (d\<lparr>db_audit := db_audit d @ [e]\<rparr>)"
proof -
  have "ev_key e \<notin> ev_key ` set (db_audit d)"
    using assms(1) by (fastforce simp: event_clash_def list_ex_iff)
  then show ?thesis
    using audit_ok_append [OF _ _ assms(2)]
    by (simp add: only_events_def same_planning_def only_planning_def)
qed

lemma append_security_events:
  assumes "append_security now task run r name evidence d = Inr (u, d')"
  shows "only_events d d'"
proof (cases "d' = d")
  case False
  then obtain t where "d' = d\<lparr>db_audit := db_audit d @ [security_event now t run r name evidence d]\<rparr>"
    "\<not> event_clash (security_event now t run r name evidence d) d"
    using assms by (auto simp: append_security_def Let_def split: option.splits if_splits)
  then show ?thesis using append_event_ok by (simp add: security_event_def)
qed simp

lemma append_or_ignore_events:
  assumes "ev_seq e = count_rows (\<lambda>x. ev_correlation x = ev_correlation e) (db_audit d) + 1"
  shows "only_events d (append_or_ignore e d)"
  using append_event_ok [OF _ assms] by (simp add: append_or_ignore_def)

lemma record_resolution_events:
  "record_resolution now i reason d = Inr (u, d') \<Longrightarrow> only_events d d'"
  unfolding record_resolution_def
  by (auto intro!: append_or_ignore_events simp: reconciled_event_def split: option.splits if_splits)

lemma record_completed_events: "record_completed now i d = Inr (u, d') \<Longrightarrow> only_events d d'"
  unfolding record_completed_def
  by (auto intro!: append_or_ignore_events simp: reconciled_event_def split: option.splits)

lemma only_events_queue: "only_events d (d\<lparr>db_status_events := q\<rparr>)"
  by (simp add: only_events_def same_planning_def only_planning_def audit_ok_def)

lemma mark_delivered_events: "mark_delivered now event d = Inr (u, d') \<Longrightarrow> only_events d d'"
  by (auto simp: mark_delivered_def only_events_queue)

lemma queue_observation_events:
  "queue_observation now event tid phase d = Inr (u, d') \<Longrightarrow> only_events d d'"
  by (auto simp: queue_observation_def only_events_queue)

lemmas operation_events = append_security_events record_resolution_events record_completed_events
  mark_delivered_events queue_observation_events

end
