(* ===== verification/Store_Ops.thy ===== *)
theory Store_Ops
  imports Event_Store
begin

text \<open>
  Every committed repository operation as one value of \<open>store_op\<close>, and the stores that a sequence
  of them reaches from the empty database.  Several processes share the database, so whatever
  happens between two accesses of one process is a list of such operations.
\<close>

section \<open>Operations\<close>

datatype store_op =
    Save_task factory_task
  | Update_task factory_task
  | Apply_transition nat int string string task_status task_status
  | Resolve_terminal nat int string string task_status
  | Request_rework int string string string string string
  | Recover_timeout int string string string
  | Recover_worker int string string string
  | Recover_orphan int string string string
  | Save_workspace workspace
  | Save_run int agent_run
  | Update_run int agent_run
  | Save_pr string pull_request
  | Record_revision int pull_request string string
  | Record_provider_revision int pull_request string
  | Record_merged int pull_request
  | Reserve work_item
  | Begin_write work_item
  | Complete work_item materialized_issue
  | Record_rejection work_item string
  | Authorize_sprint int sprint_manifest
  | Move_sprint int string sprint_state nat string
  | Append_security int factory_task agent_run security_review string "(string \<times> json) list"
  | Record_resolution int feedback_identity string
  | Record_completed int feedback_identity
  | Mark_delivered int string
  | Queue_observation int string string string

text \<open>A transaction that raises leaves the store as it was.\<close>

definition commit :: "store \<Rightarrow> (py_error, 'a \<times> store) outcome \<Rightarrow> store" where
  "commit d r = (case r of Inl _ \<Rightarrow> d | Inr (_, d') \<Rightarrow> d')"

fun run_op :: "store_op \<Rightarrow> store \<Rightarrow> store" where
  "run_op (Save_task t) d = commit d (save_task t d)"
| "run_op (Update_task t) d = commit d (update_task t d)"
| "run_op (Apply_transition m now uid tid a b) d = commit d (apply_transition m now uid tid a b d)"
| "run_op (Resolve_terminal m now uid tid a) d = commit d (apply_terminal_resolution m now uid tid a d)"
| "run_op (Request_rework now rq uid tid rid fb) d = commit d (request_rework now rq uid tid rid fb d)"
| "run_op (Recover_timeout now uid tid rid) d =
     commit d (authorize_terminal_timeout_recovery now uid tid rid d)"
| "run_op (Recover_worker now uid tid rid) d =
     commit d (authorize_terminal_worker_recovery now uid tid rid d)"
| "run_op (Recover_orphan now uid tid rid) d =
     commit d (authorize_orphaned_codex_recovery now uid tid rid d)"
| "run_op (Save_workspace w) d = commit d (save_workspace w d)"
| "run_op (Save_run created run) d = commit d (save_run created run d)"
| "run_op (Update_run now run) d = commit d (update_run now run d)"
| "run_op (Save_pr uid pr) d = commit d (save_pr uid pr d)"
| "run_op (Record_revision now pr rid sha) d = commit d (record_revision now pr rid sha d)"
| "run_op (Record_provider_revision now pr sha) d = commit d (record_provider_revision now pr sha d)"
| "run_op (Record_merged now pr) d = commit d (record_merged now pr d)"
| "run_op (Reserve item) d = commit d (reserve item d)"
| "run_op (Begin_write item) d = commit d (begin_write item d)"
| "run_op (Complete item issue) d = commit d (complete_link item issue d)"
| "run_op (Record_rejection item reason) d = commit d (record_rejection item reason d)"
| "run_op (Authorize_sprint now m) d = commit d (authorize_sprint now m d)"
| "run_op (Move_sprint now sid st pos ev) d = commit d (move_sprint now sid st pos ev d)"
| "run_op (Append_security now t run r name ev) d = commit d (append_security now t run r name ev d)"
| "run_op (Record_resolution now i reason) d = commit d (record_resolution now i reason d)"
| "run_op (Record_completed now i) d = commit d (record_completed now i d)"
| "run_op (Mark_delivered now event) d = commit d (mark_delivered now event d)"
| "run_op (Queue_observation now event tid phase) d = commit d (queue_observation now event tid phase d)"

definition run_ops :: "store_op list \<Rightarrow> store \<Rightarrow> store" where
  "run_ops ops d = fold run_op ops d"

text \<open>The stores of a factory: what operations reach from the empty database.\<close>

inductive reachable :: "store \<Rightarrow> bool" where
  reachable_empty: "reachable empty_store"
| reachable_op: "reachable d \<Longrightarrow> reachable (run_op oper d)"

text \<open>\<open>update\<close> is the one operation that may write a status without recording a transition.\<close>

fun status_blind :: "store_op \<Rightarrow> bool" where
  "status_blind (Update_task t) = True"
| "status_blind _ = False"

inductive recorded_reachable :: "store \<Rightarrow> bool" where
  recorded_empty: "recorded_reachable empty_store"
| recorded_op: "recorded_reachable d \<Longrightarrow> \<not> status_blind oper \<Longrightarrow> recorded_reachable (run_op oper d)"

section \<open>Every operation is sound\<close>

lemma commit_rel:
  assumes "\<And>a d'. r = Inr (a, d') \<Longrightarrow> R d d'" "R d d"
  shows "R d (commit d r)"
  using assms by (auto simp: commit_def split: sum.splits prod.splits)

lemmas operation_historical = save_task_historical apply_transition_historical
  apply_terminal_resolution_historical request_rework_historical
  authorize_terminal_recovery_historical authorize_orphaned_codex_recovery_historical
  save_workspace_historical save_run_historical update_run_historical save_pr_historical
  record_revision_historical record_provider_revision_historical record_merged_historical

lemmas operation_planning = reserve_planning begin_write_planning complete_planning
  record_rejection_planning authorize_sprint_planning move_sprint_planning

lemma run_op_historical: "\<not> status_blind oper \<Longrightarrow> historical_step d (run_op oper d)"
  by (cases oper)
    (simp_all, (rule commit_rel [OF _ historical.R_refl],
      (erule operation_historical |
       fastforce simp: authorize_terminal_timeout_recovery_def authorize_terminal_worker_recovery_def
         intro: authorize_terminal_recovery_historical only_planning_historical
           only_events_steps(2) operation_events
         dest: operation_planning))+)

lemma run_op_sound: "sound_step d (run_op oper d)"
proof (cases "status_blind oper")
  case True
  then obtain t where "oper = Update_task t" by (cases oper) simp_all
  then show ?thesis
    by (auto intro: commit_rel update_task_sound soundness.R_refl)
next
  case False
  then show ?thesis by (intro historical_sound run_op_historical)
qed

section \<open>Every operation is a planning step\<close>

lemma same_planning_trans: "same_planning d e \<Longrightarrow> same_planning e f \<Longrightarrow> same_planning d f"
  by (simp add: same_planning_def)

lemma only_audit_same_planning: "only_audit d d' \<Longrightarrow> same_planning d d'"
  using only_auditD [of d d'] by (simp add: same_planning_def)

lemma insert_transition_same_planning:
  assumes "insert_transition tr d = Inr d'" shows "same_planning d d'"
  by (rule insert_transition_effect [OF assms]) (simp add: same_planning_def)

lemma save_task_same_planning: "save_task t d = Inr (t', d') \<Longrightarrow> same_planning d d'"
  by (auto simp: save_task_def Let_def same_planning_def split: if_splits sum.splits
      dest!: only_audit_task only_audit_same_planning)

lemma update_task_same_planning: "update_task t d = Inr (t', d') \<Longrightarrow> same_planning d d'"
  by (auto simp: update_task_def Let_def same_planning_def split: option.splits if_splits)

lemma transition_write_same_planning:
  "transition_write m now uid tid a b d = Inr (t', d') \<Longrightarrow> same_planning d d'"
  by (auto simp: transition_write_def tx_step_eq_Inr same_planning_def split: option.splits if_splits
      dest!: insert_transition_same_planning)

lemma apply_transition_same_planning:
  "apply_transition_with res m now uid tid a b d = Inr (t', d') \<Longrightarrow> same_planning d d'"
  by (auto simp: apply_transition_with_def split: option.splits if_splits
      dest: transition_write_same_planning)

lemma request_rework_same_planning:
  "request_rework now rq uid tid rid fb d = Inr (t', d') \<Longrightarrow> same_planning d d'"
  by (auto simp: request_rework_def tx_step_eq_Inr same_planning_def split: option.splits if_splits
      dest!: insert_transition_same_planning)

lemma authorize_terminal_recovery_same_planning:
  "authorize_terminal_recovery marker now uid tid rid d = Inr (t', d') \<Longrightarrow> same_planning d d'"
  by (auto simp: authorize_terminal_recovery_def tx_step_eq_Inr same_planning_def
      split: option.splits if_splits dest!: insert_transition_same_planning)

lemma authorize_orphaned_same_planning:
  "authorize_orphaned_codex_recovery now uid tid rid d = Inr (t', d') \<Longrightarrow> same_planning d d'"
  by (auto simp: authorize_orphaned_codex_recovery_def Let_def tx_step_eq_Inr same_planning_def
      split: option.splits dest!: insert_transition_same_planning only_audit_run_finish only_audit_same_planning)

lemma save_workspace_same_planning: "save_workspace w d = Inr (w', d') \<Longrightarrow> same_planning d d'"
  by (auto simp: save_workspace_def same_planning_def split: if_splits)

lemma ensure_workspace_planning [simp]:
  "db_links (ensure_workspace w d) = db_links d" "db_sprints (ensure_workspace w d) = db_sprints d"
  by (simp_all add: ensure_workspace_def split: option.splits)

lemma save_run_same_planning: "save_run created run d = Inr (r', d') \<Longrightarrow> same_planning d d'"
  by (auto simp: save_run_def Let_def same_planning_def split: option.splits if_splits sum.splits
      dest!: only_audit_run_insert only_audit_same_planning)

lemma update_run_same_planning:
  assumes "update_run now run d = Inr (r', d')" shows "same_planning d d'"
proof (rule update_run_effect [OF assms])
  fix d1
  assume "only_audit (put_run (run_id run) (overwrite_run run) d) d1" "only_audit d1 d'"
  then show ?thesis
    using only_audit_same_planning by (fastforce simp: same_planning_def)
qed

lemma save_pr_same_planning: "save_pr uid pr d = Inr (pr', d') \<Longrightarrow> same_planning d d'"
  by (auto simp: save_pr_def Let_def same_planning_def split: option.splits if_splits sum.splits
      dest!: only_audit_pr_insert only_audit_same_planning)

lemma put_pr_planning [simp]:
  "db_links (put_pr p f d) = db_links d" "db_sprints (put_pr p f d) = db_sprints d"
  by (simp_all add: put_pr_def)

lemma record_revision_same_planning:
  assumes "record_revision now pr rid sha d = Inr (pr', d')" shows "same_planning d d'"
proof (rule record_revision_effect [OF assms])
  fix row f
  assume "only_audit (put_pr (\<lambda>p. prow_id p = prow_id row) f d) d'"
  then show ?thesis by (auto simp: same_planning_def dest: only_audit_same_planning)
qed

lemma record_provider_revision_same_planning:
  "record_provider_revision now pr sha d = Inr (pr', d') \<Longrightarrow> same_planning d d'"
  by (auto simp: record_provider_revision_def Let_def tx_step_eq_Inr same_planning_def
      split: option.splits if_splits dest!: only_audit_pr_update only_audit_same_planning)

lemma record_merged_same_planning:
  "record_merged now pr d = Inr (pr', d') \<Longrightarrow> same_planning d d'"
  by (auto simp: record_merged_def Let_def tx_step_eq_Inr same_planning_def
      split: option.splits if_splits dest!: only_audit_pr_update only_audit_same_planning)

lemmas operation_same_planning = save_task_same_planning update_task_same_planning
  apply_transition_same_planning request_rework_same_planning
  authorize_terminal_recovery_same_planning authorize_orphaned_same_planning
  save_workspace_same_planning save_run_same_planning update_run_same_planning
  save_pr_same_planning record_revision_same_planning record_provider_revision_same_planning
  record_merged_same_planning

text \<open>Only five operations write the links and the sprints.\<close>

fun planning_op :: "store_op \<Rightarrow> bool" where
  "planning_op (Reserve item) = True"
| "planning_op (Begin_write item) = True"
| "planning_op (Complete item issue) = True"
| "planning_op (Authorize_sprint now m) = True"
| "planning_op (Move_sprint now sid st pos ev) = True"
| "planning_op _ = False"

lemma record_rejection_same_planning: "record_rejection item reason d = Inr (u, d') \<Longrightarrow> same_planning d d'"
  by (auto simp: record_rejection_def Let_def same_planning_def split: if_splits)

lemma run_op_same_planning:
  assumes "\<not> planning_op oper" shows "same_planning d (run_op oper d)"
proof -
  have refl: "same_planning e e" for e by (simp add: same_planning_def)
  note facts = operation_same_planning record_rejection_same_planning
    operation_events [THEN only_events_def [THEN iffD1], THEN conjunct1]
  show ?thesis
    using assms
    by (cases oper)
      (simp_all, (rule commit_rel [OF _ refl], auto simp: apply_transition_def apply_terminal_resolution_def
        authorize_terminal_timeout_recovery_def authorize_terminal_worker_recovery_def
        dest: facts split: if_splits)+)
qed

lemma run_op_planning: "planning_step d (run_op oper d)"
proof (cases "planning_op oper")
  case True
  then show ?thesis
    by (cases oper) (auto intro!: commit_rel [OF _ planning.R_refl] dest: operation_planning)
next
  case False
  then show ?thesis by (intro same_planning_step run_op_same_planning)
qed

section \<open>Reachable stores\<close>

definition factory_inv :: "store \<Rightarrow> bool" where
  "factory_inv d \<longleftrightarrow> store_inv d \<and> links_ok d \<and> sprints_ok d"

lemma empty_factory_inv: "factory_inv empty_store"
  using empty_store_inv by (simp add: factory_inv_def links_ok_def sprints_ok_def empty_store_def)

lemma run_op_factory_inv: "factory_inv d \<Longrightarrow> factory_inv (run_op oper d)"
  using run_op_sound [of d oper] run_op_planning [of d oper]
  by (simp add: factory_inv_def sound_step_def planning_step_def)

lemma reachable_factory_inv: "reachable d \<Longrightarrow> factory_inv d"
  by (induction rule: reachable.induct) (simp_all add: empty_factory_inv run_op_factory_inv)

lemma recorded_reachable_inv: "recorded_reachable d \<Longrightarrow> factory_inv d \<and> history_ok d"
proof (induction rule: recorded_reachable.induct)
  case recorded_empty
  then show ?case using empty_factory_inv empty_store_inv by simp
next
  case (recorded_op d oper)
  then show ?case
    using run_op_factory_inv [of d oper] run_op_historical [of oper d]
    by (simp add: historical_step_def factory_inv_def)
qed

lemma run_ops_rel:
  assumes "\<And>d. R d d" "\<And>d e f. R d e \<Longrightarrow> R e f \<Longrightarrow> R d f"
    and "\<And>d oper. oper \<in> set ops \<Longrightarrow> R d (run_op oper d)"
  shows "R d (run_ops ops d)"
  using assms(3) unfolding run_ops_def
proof (induction ops arbitrary: d)
  case Nil
  then show ?case using assms(1) by simp
next
  case (Cons oper ops)
  have "R d (run_op oper d)" using Cons.prems by simp
  moreover have "R (run_op oper d) (fold run_op ops (run_op oper d))"
    using Cons by simp
  ultimately show ?case using assms(2) by simp
qed

lemma run_ops_sound: "sound_step d (run_ops ops d)"
  by (rule run_ops_rel [of sound_step, OF soundness.R_refl soundness.R_trans run_op_sound])

lemma run_ops_planning: "planning_step d (run_ops ops d)"
  by (rule run_ops_rel [of planning_step, OF planning.R_refl planning.R_trans run_op_planning])

lemma run_ops_historical: "\<forall>oper \<in> set ops. \<not> status_blind oper \<Longrightarrow> historical_step d (run_ops ops d)"
  by (rule run_ops_rel [of historical_step, OF historical.R_refl historical.R_trans])
    (simp_all add: run_op_historical)

end
