(* ===== verification/Factory_System.thy ===== *)
theory Factory_System
  imports Store_Ops
begin

text \<open>
  One process of the factory: its calls read and write the shared store, call external ports, and
  read the clock.  Between two accesses of the store other processes may commit operations of
  their own; \<open>env_other\<close> is any schedule of them.  The external ports (engine adapters, git, the
  provider API, the file system) are parameters: functions on an external world \<open>'w\<close>.
\<close>

section \<open>State and environment\<close>

record 'w sys =
  sys_db :: store
  sys_world :: 'w
  sys_tick :: nat

record env =
  env_now :: "nat \<Rightarrow> int"
  env_uuid :: "nat \<Rightarrow> nat \<Rightarrow> string"
  env_other :: "nat \<Rightarrow> store_op list"
  env_max_claims :: nat

type_synonym ('w, 'a) call = "('w sys, py_error, 'a) sx"
type_synonym ('w, 'a) port = "'w \<Rightarrow> (py_error, 'a) outcome \<times> 'w"

text \<open>The store as the next access sees it.\<close>

definition db_view :: "env \<Rightarrow> 'w sys \<Rightarrow> store" where
  "db_view env s = run_ops (env_other env (sys_tick s)) (sys_db s)"

definition advance :: "store \<Rightarrow> 'w sys \<Rightarrow> 'w sys" where
  "advance d s = s\<lparr>sys_db := d, sys_tick := Suc (sys_tick s)\<rparr>"

definition db_read :: "env \<Rightarrow> (store \<Rightarrow> 'a) \<Rightarrow> ('w, 'a) call" where
  "db_read env f = (\<lambda>s. (Inr (f (db_view env s)), advance (db_view env s) s))"

text \<open>One transaction, with the clock and the generated ids it uses.\<close>

definition db_write :: "env \<Rightarrow> (int \<Rightarrow> (nat \<Rightarrow> string) \<Rightarrow> (store, py_error, 'a) tx) \<Rightarrow> ('w, 'a) call" where
  "db_write env f = (\<lambda>s. case f (env_now env (sys_tick s)) (env_uuid env (sys_tick s)) (db_view env s) of
       Inl e \<Rightarrow> (Inl e, advance (db_view env s) s)
     | Inr (a, d) \<Rightarrow> (Inr a, advance d s))"

definition clock :: "env \<Rightarrow> ('w, int) call" where
  "clock env = (\<lambda>s. (Inr (env_now env (sys_tick s)), advance (sys_db s) s))"

definition fresh_id :: "env \<Rightarrow> ('w, string) call" where
  "fresh_id env = (\<lambda>s. (Inr (env_uuid env (sys_tick s) 0), advance (sys_db s) s))"

definition external :: "('w, 'a) port \<Rightarrow> ('w, 'a) call" where
  "external p = (\<lambda>s. case p (sys_world s) of (r, w) \<Rightarrow> (r, s\<lparr>sys_world := w\<rparr>))"

text \<open>A \<open>try\<close> block whose handler returns a value.\<close>

definition attempt :: "('w, 'a) call \<Rightarrow> ('w, (py_error, 'a) outcome) call" where
  "attempt m = (\<lambda>s. case m s of (r, s') \<Rightarrow> (Inr r, s'))"

lemma sys_advance [simp]:
  "sys_db (advance d s) = d" "sys_world (advance d s) = sys_world s"
  "sys_tick (advance d s) = Suc (sys_tick s)"
  by (simp_all add: advance_def)

section \<open>Symbolic execution\<close>

lemma wp_db_read [wp_simps]:
  "wp (db_read env f) Q E s = Q (f (db_view env s)) (advance (db_view env s) s)"
  by (simp add: wp_def db_read_def)

lemma wp_db_write [wp_simps]:
  "wp (db_write env f) Q E s =
    (case f (env_now env (sys_tick s)) (env_uuid env (sys_tick s)) (db_view env s) of
       Inl e \<Rightarrow> E e (advance (db_view env s) s) | Inr (a, d) \<Rightarrow> Q a (advance d s))"
  by (simp add: wp_def db_write_def split: sum.splits prod.splits)

lemma wp_clock [wp_simps]: "wp (clock env) Q E s = Q (env_now env (sys_tick s)) (advance (sys_db s) s)"
  by (simp add: wp_def clock_def)

lemma wp_fresh_id [wp_simps]:
  "wp (fresh_id env) Q E s = Q (env_uuid env (sys_tick s) 0) (advance (sys_db s) s)"
  by (simp add: wp_def fresh_id_def)

lemma wp_external [wp_simps]:
  "wp (external p) Q E s = (case p (sys_world s) of
     (Inl e, w) \<Rightarrow> E e (s\<lparr>sys_world := w\<rparr>) | (Inr a, w) \<Rightarrow> Q a (s\<lparr>sys_world := w\<rparr>))"
  by (simp add: wp_def external_def split: sum.splits prod.splits)

lemma wp_attempt [wp_simps]: "wp (attempt m) Q E s = wp m (\<lambda>a. Q (Inr a)) (\<lambda>e. Q (Inl e)) s"
  by (cases "m s"; cases "fst (m s)") (simp_all add: wp_def attempt_def)

lemma wp_case_sum [wp_simps]:
  "wp (case r of Inl e \<Rightarrow> m e | Inr a \<Rightarrow> n a) Q E s =
    (case r of Inl e \<Rightarrow> wp (m e) Q E s | Inr a \<Rightarrow> wp (n a) Q E s)"
  by (simp split: sum.splits)

text \<open>A process that runs alone.\<close>

definition quiet :: "env \<Rightarrow> bool" where
  "quiet env \<longleftrightarrow> (\<forall>n. env_other env n = [])"

lemma quiet_view [simp]: "quiet env \<Longrightarrow> db_view env s = sys_db s"
  by (simp add: quiet_def db_view_def run_ops_def)

section \<open>Relations every call keeps\<close>

definition on_db :: "(store \<Rightarrow> store \<Rightarrow> bool) \<Rightarrow> 'w sys \<Rightarrow> 'w sys \<Rightarrow> bool" where
  "on_db R s s' = R (sys_db s) (sys_db s')"

text \<open>Other processes respect \<open>R\<close>; they always respect soundness and planning.\<close>

definition others_respect :: "(store \<Rightarrow> store \<Rightarrow> bool) \<Rightarrow> env \<Rightarrow> bool" where
  "others_respect R env \<longleftrightarrow> (\<forall>n d. R d (run_ops (env_other env n) d))"

lemma others_sound [simp]: "others_respect sound_step env"
  by (simp add: others_respect_def run_ops_sound)

lemma others_planning [simp]: "others_respect planning_step env"
  by (simp add: others_respect_def run_ops_planning)

definition others_recorded :: "env \<Rightarrow> bool" where
  "others_recorded env \<longleftrightarrow> (\<forall>n. list_all (\<lambda>oper. \<not> status_blind oper) (env_other env n))"

lemma others_historical: "others_recorded env \<Longrightarrow> others_respect historical_step env"
  by (simp add: others_recorded_def others_respect_def run_ops_historical list_all_iff)

lemma quiet_recorded: "quiet env \<Longrightarrow> others_recorded env"
  by (simp add: quiet_def others_recorded_def)

interpretation sys_sound: preorder_relation "on_db sound_step"
  by unfold_locales (auto simp: on_db_def intro: soundness.R_refl soundness.R_trans)

interpretation sys_historical: preorder_relation "on_db historical_step"
  by unfold_locales (auto simp: on_db_def intro: historical.R_refl historical.R_trans)

interpretation sys_planning: preorder_relation "on_db planning_step"
  by unfold_locales (auto simp: on_db_def intro: planning.R_refl planning.R_trans)

lemma keeps_db_read: "others_respect R env \<Longrightarrow> keeps (on_db R) (db_read env f)"
  by (simp add: keeps_def on_db_def db_read_def others_respect_def db_view_def)

lemma keeps_db_write:
  assumes "others_respect R env" "\<And>d e f. R d e \<Longrightarrow> R e f \<Longrightarrow> R d f"
    and "\<And>now ids d a d'. f now ids d = Inr (a, d') \<Longrightarrow> R d d'"
  shows "keeps (on_db R) (db_write env f)"
proof -
  show ?thesis
    unfolding keeps_def on_db_def
  proof
    fix s
    have view: "R (sys_db s) (db_view env s)"
      using assms(1) by (simp add: others_respect_def db_view_def)
    show "R (sys_db s) (sys_db (snd (db_write env f s)))"
    proof (cases "f (env_now env (sys_tick s)) (env_uuid env (sys_tick s)) (db_view env s)")
      case (Inl e)
      then show ?thesis using view by (simp add: db_write_def)
    next
      case (Inr p)
      obtain a d where p: "p = (a, d)" by (cases p)
      have "R (db_view env s) d" using assms(3) Inr p by blast
      then show ?thesis using Inr p assms(2) [OF view] by (simp add: db_write_def)
    qed
  qed
qed

lemma keeps_world:
  assumes "\<And>d. R d d"
  shows "keeps (on_db R) (clock env)" "keeps (on_db R) (fresh_id env)" "keeps (on_db R) (external p)"
  using assms by (simp_all add: keeps_def on_db_def clock_def fresh_id_def external_def split: prod.splits)

lemma keeps_attempt: "keeps R m \<Longrightarrow> keeps R (attempt m)"
  by (auto simp: keeps_def attempt_def split: prod.splits dest: spec [where P = "\<lambda>s. R s (snd (m s))"])
    (metis snd_conv)

lemma keeps_case_sum:
  "(\<And>e. keeps R (m e)) \<Longrightarrow> (\<And>a. keeps R (n a)) \<Longrightarrow> keeps R (case r of Inl e \<Rightarrow> m e | Inr a \<Rightarrow> n a)"
  by (simp split: sum.splits)

end
