(* ===== verification/Lifecycle_Service.thy ===== *)
theory Lifecycle_Service
  imports Factory_System
begin

text \<open>
  \<^verbatim>\<open>TaskStateMachine\<close> (\<^verbatim>\<open>machine.py\<close>) and \<^verbatim>\<open>TaskLifecycleService\<close> (\<^verbatim>\<open>transitions.py\<close>).  The service knows
  the repository through two of its operations; the locale \<open>task_port\<close> states what it relies on, and
  the SQLite repository of one process is shown to provide it under any interference.
\<close>

section \<open>TaskStateMachine\<close>

definition can_apply :: "factory_task \<Rightarrow> task_status \<Rightarrow> bool" where
  "can_apply t target = can_transition (task_status t) target"

definition machine_apply :: "int \<Rightarrow> factory_task \<Rightarrow> task_status \<Rightarrow> (py_error, factory_task) outcome" where
  "machine_apply now t target =
     (if \<not> can_apply t target then Inl (InvalidTransitionError (task_status t) target)
      else Inr (t\<lparr>task_status := target, task_updated_at := now\<rparr>))"

definition is_terminal_status :: "task_status \<Rightarrow> bool" where
  "is_terminal_status s \<longleftrightarrow> s \<in> TERMINAL_STATES"

definition legal_targets :: "task_status \<Rightarrow> task_status set" where
  "legal_targets s = TRANSITIONS s"

section \<open>TaskLifecycleService\<close>

type_synonym 's get_port = "string \<Rightarrow> ('s, py_error, factory_task option) sx"
type_synonym 's apply_port =
  "string \<Rightarrow> task_status \<Rightarrow> task_status \<Rightarrow> ('s, py_error, factory_task) sx"

definition lifecycle_transition :: "'s get_port \<Rightarrow> 's apply_port \<Rightarrow> string \<Rightarrow> task_status \<Rightarrow>
    task_status option \<Rightarrow> ('s, py_error, factory_task) sx" where
  "lifecycle_transition get app tid target expected_from =
     andthen (get tid) (\<lambda>t. case t of
         None \<Rightarrow> raise (KeyError tid)
       | Some task \<Rightarrow>
         let current = task_status task in
         if expected_from \<noteq> None \<and> expected_from \<noteq> Some current
         then raise (TaskStateChangedError tid (the expected_from) current)
         else if current = target \<and> expected_from = None then ret task
         else if \<not> can_apply task target then raise (InvalidTransitionError current target)
         else app tid current target)"

text \<open>What the service relies on: a read returns the stored status, and a compare-and-swap that
  returns has moved the task from the expected status to the target.\<close>

locale task_port =
  fixes get :: "'s get_port" and app :: "'s apply_port" and status_in :: "'s \<Rightarrow> string \<Rightarrow> task_status option"
  assumes get_reads: "get tid s = (Inr t, s') \<Longrightarrow> map_option task_status t = status_in s' tid"
    and get_total: "get tid s = (r, s') \<Longrightarrow> \<exists>t. r = Inr t"
    and get_id: "get tid s = (Inr (Some v), s') \<Longrightarrow> task_id v = tid"
    and app_moves: "app tid a b s = (Inr u, s') \<Longrightarrow>
      task_id u = tid \<and> task_status u = b \<and> status_in s' tid = Some b"
begin

lemma transition_reaches:
  assumes "lifecycle_transition get app tid target expected s = (Inr t, s')"
  shows "task_id t = tid \<and> task_status t = target \<and> status_in s' tid = Some target"
proof -
  obtain r s1 where g: "get tid s = (r, s1)" by (cases "get tid s")
  obtain t0 where r: "r = Inr t0" using get_total [OF g] by blast
  have st: "map_option task_status t0 = status_in s1 tid"
    using get_reads g r by simp
  show ?thesis
  proof (cases t0)
    case None
    then show ?thesis using assms g r by (simp add: lifecycle_transition_def andthen_def raise_def)
  next
    case (Some task)
    then show ?thesis
      using assms g r st get_id [of tid s task s1] app_moves [of tid "task_status task" target s1 t s']
      by (auto simp: lifecycle_transition_def andthen_def raise_def ret_def Let_def split: if_splits)
  qed
qed

text \<open>With an expected source the move is a real edge of the graph: no early return.\<close>

lemma transition_expected_edge:
  assumes "lifecycle_transition get app tid target (Some a) s = (Inr t, s')"
  shows "can_transition a target"
proof -
  obtain r s1 where g: "get tid s = (r, s1)" by (cases "get tid s")
  obtain t0 where r: "r = Inr t0" using get_total [OF g] by blast
  show ?thesis
    using assms g r
    by (auto simp: lifecycle_transition_def andthen_def raise_def Let_def can_apply_def
        split: option.splits if_splits)
qed

end

section \<open>The SQLite repository as a port\<close>

definition tasks_get :: "env \<Rightarrow> string \<Rightarrow> ('w, factory_task option) call" where
  "tasks_get env tid = db_read env (\<lambda>d. get_task d tid)"

definition tasks_apply :: "env \<Rightarrow> string \<Rightarrow> task_status \<Rightarrow> task_status \<Rightarrow> ('w, factory_task) call" where
  "tasks_apply env tid a b =
     db_write env (\<lambda>now ids. apply_transition (env_max_claims env) now (ids 0) tid a b)"

definition tasks_update :: "env \<Rightarrow> factory_task \<Rightarrow> ('w, factory_task) call" where
  "tasks_update env t = db_write env (\<lambda>now ids. update_task t)"

definition transition :: "env \<Rightarrow> string \<Rightarrow> task_status \<Rightarrow> task_status option \<Rightarrow> ('w, factory_task) call" where
  "transition env = lifecycle_transition (tasks_get env) (tasks_apply env)"

definition lifecycle_history :: "env \<Rightarrow> string \<Rightarrow> ('w, task_transition list) call" where
  "lifecycle_history env tid = db_read env (\<lambda>d. history d tid)"

definition reconcile_terminal_resolution :: "env \<Rightarrow> string \<Rightarrow> task_status \<Rightarrow> ('w, factory_task) call" where
  "reconcile_terminal_resolution env tid expected_from =
     (if expected_from \<notin> {Task_FAILED, Task_CANCELLED}
      then raise (ValueError ''provider reconciliation requires a terminal failure state'')
      else db_write env (\<lambda>now ids.
        apply_terminal_resolution (env_max_claims env) now (ids 0) tid expected_from))"

definition status_of :: "'w sys \<Rightarrow> string \<Rightarrow> task_status option" where
  "status_of s tid = map_option task_status (get_task (sys_db s) tid)"

lemma transition_write_result:
  assumes "transition_write m now uid tid a b d = Inr (t, d')"
  shows "task_id t = tid \<and> task_status t = b \<and> map_option task_status (get_task d' tid) = Some b"
proof -
  obtain t0 where t0: "get_task d tid = Some t0" "t = t0\<lparr>task_status := b, task_updated_at := now\<rparr>"
    and i: "insert_transition \<lparr>tt_task_id = tid, tt_from = a, tt_to = b, tt_id = uid,
        tt_occurred_at = now\<rparr>
      (put_task tid (\<lambda>t. t\<lparr>task_status := b, task_updated_at := now\<rparr>) d) = Inr d'"
    using assms by (auto simp: transition_write_def tx_step_eq_Inr split: option.splits if_splits)
  have "get_task d' tid = get_task (put_task tid (\<lambda>t. t\<lparr>task_status := b, task_updated_at := now\<rparr>) d) tid"
    by (rule insert_transition_effect [OF i]) (simp add: get_task_def task_row_of_def)
  then show ?thesis using t0 get_taskD [OF t0(1)] by (simp add: get_task_put_task)
qed

lemma apply_transition_result:
  "apply_transition m now uid tid a b d = Inr (t, d') \<Longrightarrow>
    task_id t = tid \<and> task_status t = b \<and> map_option task_status (get_task d' tid) = Some b"
  by (auto simp: apply_transition_def apply_transition_with_eq_Inr dest: transition_write_result)

interpretation sqlite: task_port "tasks_get env" "tasks_apply env" status_of for env
  by unfold_locales
    (auto simp: tasks_get_def tasks_apply_def db_read_def db_write_def status_of_def
      split: sum.splits dest: apply_transition_result get_taskD)

section \<open>Symbolic execution of the service\<close>

lemma wp_tasks_get [wp_simps]:
  "wp (tasks_get env tid) Q E s = Q (get_task (db_view env s) tid) (advance (db_view env s) s)"
  by (simp add: tasks_get_def wp_simps)

lemma keeps_tasks_get: "others_respect R env \<Longrightarrow> keeps (on_db R) (tasks_get env tid)"
  by (simp add: tasks_get_def keeps_db_read)

lemma historical_write:
  assumes "others_recorded env" "\<And>now ids d a d'. f now ids d = Inr (a, d') \<Longrightarrow> historical_step d d'"
  shows "keeps (on_db historical_step) (db_write env f)"
  by (rule keeps_db_write [OF others_historical [OF assms(1)] historical.R_trans assms(2)])

lemma sound_write:
  assumes "\<And>now ids d a d'. f now ids d = Inr (a, d') \<Longrightarrow> sound_step d d'"
  shows "keeps (on_db sound_step) (db_write env f)"
  by (rule keeps_db_write [OF others_sound soundness.R_trans assms])

context preorder_relation
begin

lemma keeps_lifecycle:
  assumes "\<And>tid. keeps R (get tid)" "\<And>tid a b. keeps R (app tid a b)"
  shows "keeps R (lifecycle_transition get app tid target expected)"
  unfolding lifecycle_transition_def Let_def
  by (intro keeps_basic assms)

end

lemma transition_historical: "others_recorded env \<Longrightarrow> keeps (on_db historical_step) (transition env tid b e)"
  unfolding transition_def tasks_apply_def
  by (intro sys_historical.keeps_lifecycle keeps_tasks_get historical_write others_historical)
    (auto intro: apply_transition_historical)

lemma transition_sound: "keeps (on_db sound_step) (transition env tid b e)"
  unfolding transition_def tasks_apply_def
  by (intro sys_sound.keeps_lifecycle keeps_tasks_get sound_write others_sound)
    (auto intro: apply_transition_historical historical_sound)

lemma reconcile_terminal_resolution_historical:
  "others_recorded env \<Longrightarrow> keeps (on_db historical_step) (reconcile_terminal_resolution env tid a)"
  unfolding reconcile_terminal_resolution_def
  by (intro sys_historical.keeps_basic historical_write) (auto intro: apply_terminal_resolution_historical)

section \<open>How a transition fails\<close>

text \<open>The exceptions of the lifecycle itself; a service's own refusals are others.\<close>

fun lifecycle_error :: "py_error \<Rightarrow> bool" where
  "lifecycle_error (KeyError _) = True"
| "lifecycle_error (InvalidTransitionError _ _) = True"
| "lifecycle_error (TaskStateChangedError _ _ _) = True"
| "lifecycle_error IntegrityError = True"
| "lifecycle_error _ = False"

lemma audit_insert_error: "audit_insert nm k t c a ai occ r w p d = Inl e \<Longrightarrow> e = IntegrityError"
  by (auto simp: audit_insert_def Let_def split: option.splits if_splits)

lemma insert_transition_error: "insert_transition tr d = Inl e \<Longrightarrow> e = IntegrityError"
  by (auto simp: insert_transition_def tx_step_eq_Inl queue_status_transition_def audit_transition_def
      Let_def split: if_splits dest: audit_insert_error)

lemma apply_transition_with_error:
  "apply_transition_with res m now uid tid a b d = Inl e \<Longrightarrow> lifecycle_error e"
  by (auto simp: apply_transition_with_def transition_write_def tx_step_eq_Inl
      split: option.splits if_splits dest: insert_transition_error)

lemma transition_outcome:
  "wp (transition env tid b e)
     (\<lambda>t s'. task_id t = tid \<and> task_status t = b \<and> status_of s' tid = Some b \<and> (\<forall>a. e = Some a \<longrightarrow> can_transition a b))
     (\<lambda>x s'. lifecycle_error x) s"
proof (rule wpI)
  fix t s' assume r: "transition env tid b e s = (Inr t, s')"
  show "task_id t = tid \<and> task_status t = b \<and> status_of s' tid = Some b \<and> (\<forall>a. e = Some a \<longrightarrow> can_transition a b)"
    using sqlite.transition_reaches sqlite.transition_expected_edge r
    unfolding transition_def by blast
next
  fix x s' assume "transition env tid b e s = (Inl x, s')"
  then show "lifecycle_error x"
    by (auto simp: transition_def lifecycle_transition_def andthen_def raise_def ret_def tasks_get_def
        db_read_def Let_def tasks_apply_def db_write_def apply_transition_def
        split: option.splits if_splits sum.splits dest: apply_transition_with_error)
qed

text \<open>Alone, a failed transition has written nothing.\<close>

lemma transition_refused_quiet:
  assumes "quiet env" "transition env tid b e s = (Inl x, s')"
  shows "sys_db s' = sys_db s"
  using assms
  by (auto simp: transition_def lifecycle_transition_def andthen_def raise_def ret_def tasks_get_def
      db_read_def Let_def tasks_apply_def db_write_def
      split: option.splits if_splits sum.splits)

text \<open>Alone, a transition is decided by the store it starts from.\<close>

lemma apply_transition_invalid:
  assumes "apply_transition m now uid tid a b d = Inl (InvalidTransitionError u v)"
  shows "\<not> can_persist_transition a b"
  using assms
  by (auto simp: apply_transition_def apply_transition_with_def transition_write_def tx_step_eq_Inl
      transition_allowed_def split: option.splits if_splits dest: insert_transition_error)

lemma transition_quiet:
  assumes "quiet env"
  shows "wp (transition env tid b e)
     (\<lambda>t s'. \<exists>t0. get_task (sys_db s) tid = Some t0 \<and> (e = None \<or> e = Some (task_status t0)) \<and>
        (task_status t0 = b \<and> e = None \<and> t = t0 \<and> sys_db s' = sys_db s \<or>
         can_transition (task_status t0) b \<and> (\<exists>now uid. apply_transition (env_max_claims env)
            now uid tid (task_status t0) b (sys_db s) = Inr (t, sys_db s'))))
     (\<lambda>x s'. sys_db s' = sys_db s \<and> (\<forall>u v. x = InvalidTransitionError u v \<longrightarrow>
        (\<exists>t0. get_task (sys_db s) tid = Some t0 \<and> \<not> can_transition (task_status t0) b))) s"
  unfolding transition_def lifecycle_transition_def tasks_apply_def Let_def wp_simps using assms
  by (auto simp: can_apply_def can_persist_transition_def split: option.splits sum.splits
      dest: apply_transition_invalid)

lemma transition_quiet_from:
  assumes "quiet env" "get_task (sys_db s) tid = Some t0" "task_status t0 \<noteq> b"
  shows "wp (transition env tid b None)
     (\<lambda>t s'. can_transition (task_status t0) b \<and> (\<exists>now uid. apply_transition (env_max_claims env)
            now uid tid (task_status t0) b (sys_db s) = Inr (t, sys_db s')))
     (\<lambda>x s'. sys_db s' = sys_db s \<and>
        (\<forall>u v. x = InvalidTransitionError u v \<longrightarrow> \<not> can_transition (task_status t0) b)) s"
  by (rule wp_mono [OF transition_quiet [OF assms(1)]]) (use assms(2,3) in auto)

lemma apply_transition_frame:
  assumes "apply_transition m now uid tid a b d = Inr (t, d')"
  shows "db_runs d' = db_runs d" "db_workspaces d' = db_workspaces d" "db_prs d' = db_prs d"
    "db_rework d' = db_rework d" "get_task d' tid = Some t" "task_status t = b"
    "x \<noteq> tid \<Longrightarrow> get_task d' x = get_task d x" "b = Task_CLAIMED \<Longrightarrow> busy_others d tid < m"
proof -
  have w: "transition_write m now uid tid a b d = Inr (t, d')"
    using assms by (simp add: apply_transition_def apply_transition_with_eq_Inr)
  show "db_runs d' = db_runs d" "db_workspaces d' = db_workspaces d" "db_prs d' = db_prs d"
    "db_rework d' = db_rework d" "get_task d' tid = Some t" "b = Task_CLAIMED \<Longrightarrow> busy_others d tid < m"
    using transition_write_moved [OF w] by simp_all
  show "task_status t = b" using apply_transition_result [OF assms] by simp
  show "x \<noteq> tid \<Longrightarrow> get_task d' x = get_task d x"
    using moved_get_task [OF transition_write_moved(1) [OF w], of x] by simp
qed

text \<open>A claim that finds the task already claimed returns it: the lost race goes unnoticed.\<close>

lemma transition_same_status:
  assumes "get_task (db_view env s) tid = Some t" "task_status t = b"
  shows "transition env tid b None s = (Inr t, advance (db_view env s) s)"
  using assms
  by (simp add: transition_def lifecycle_transition_def andthen_def tasks_get_def db_read_def ret_def
      Let_def)

end
