(* ===== verification/Recovery_Service.thy ===== *)
theory Recovery_Service
  imports Lifecycle_Service Complex_Main
begin

text \<open>
  Recovery of tasks without dispatch: \<^verbatim>\<open>RecoveryPolicy\<close> (\<^verbatim>\<open>recovery.py\<close>), \<^verbatim>\<open>RetryService\<close>
  (\<^verbatim>\<open>retry.py\<close>) and \<^verbatim>\<open>ReworkService\<close> (\<^verbatim>\<open>rework.py\<close>).  Delays are rationals: scaling a float by a
  power of two is exact.
\<close>

section \<open>RecoveryPolicy\<close>

datatype failure_class = TRANSIENT | CORRECTABLE | NON_RECOVERABLE

record recovery_policy =
  correction_limit :: int
  run_retry_limit :: int
  base_backoff_seconds :: rat
  max_backoff_seconds :: rat

definition default_policy :: recovery_policy where
  "default_policy = \<lparr>correction_limit = 2, run_retry_limit = 3, base_backoff_seconds = 60,
     max_backoff_seconds = 300\<rparr>"

definition operator_policy :: recovery_policy where
  "operator_policy = default_policy\<lparr>base_backoff_seconds := 0\<rparr>"

definition check_policy :: "recovery_policy \<Rightarrow> (py_error, recovery_policy) outcome" where
  "check_policy p =
     (if correction_limit p < 0 \<or> run_retry_limit p < 1 \<or> base_backoff_seconds p < 0 \<or>
         max_backoff_seconds p < base_backoff_seconds p
      then Inl (ValueError ''invalid recovery policy'') else Inr p)"

definition classify :: "agent_run \<Rightarrow> failure_class" where
  "classify run =
     (if validation_outcome run = GATES_FAILED then CORRECTABLE
      else if run_status run \<in> {Run_PENDING, Run_RUNNING} then TRANSIENT
      else NON_RECOVERABLE)"

definition publication_marker :: "agent_run \<Rightarrow> workspace \<Rightarrow> string" where
  "publication_marker run w = ''publication failed: run '' @ run_id run @ '', workspace '' @ ws_id w"

definition is_publication_retry :: "factory_task \<Rightarrow> agent_run option \<Rightarrow> bool" where
  "is_publication_retry task latest = (task_status task = Task_BLOCKED \<and> (case latest of
       None \<Rightarrow> False
     | Some run \<Rightarrow> run_task_id run = task_id task \<and> run_status run = Run_SUCCEEDED \<and>
         validation_outcome run = READY_FOR_NEXT_PHASE \<and>
         (case run_validated_revision run of None \<Rightarrow> False | Some r \<Rightarrow> strip r \<noteq> []) \<and>
         run_project run = task_project task \<and>
         (case run_workspace run of None \<Rightarrow> False
          | Some w \<Rightarrow> ws_repository w = task_repository task \<and>
              task_blocked_reason task = Some (publication_marker run w))))"

definition classify_retry :: "factory_task \<Rightarrow> agent_run option \<Rightarrow> bool \<Rightarrow> failure_class" where
  "classify_retry task latest rework_claim =
     (if task_status task \<notin> {Task_BLOCKED, Task_CLAIMED} then NON_RECOVERABLE
      else case latest of
        None \<Rightarrow>
          if task_status task = Task_BLOCKED \<and>
             (\<exists>r \<in> set_option (task_blocked_reason task). starts_with ''required context '' r)
          then CORRECTABLE else TRANSIENT
      | Some run \<Rightarrow>
          if run_status run = Run_FAILED then CORRECTABLE
          else if task_status task = Task_BLOCKED \<and> is_terminal run \<and>
             validation_outcome run = GATES_FAILED then CORRECTABLE
          else if is_publication_retry task latest then CORRECTABLE
          else if task_status task = Task_CLAIMED \<and> rework_claim \<and> is_terminal run
          then CORRECTABLE
          else NON_RECOVERABLE)"

definition delay_for :: "recovery_policy \<Rightarrow> int \<Rightarrow> (py_error, rat) outcome" where
  "delay_for p n =
     (if n < 1 then Inl (ValueError ''correction number must be positive'')
      else Inr (min (max_backoff_seconds p) (base_backoff_seconds p * 2 ^ nat (min (n - 1) 30))))"

section \<open>RetryService\<close>

definition latest_of :: "agent_run list \<Rightarrow> agent_run option" where
  "latest_of past = (if past = [] then None else Some (last past))"

definition retryable :: "agent_run \<Rightarrow> bool" where
  "retryable r \<longleftrightarrow> run_status r = Run_FAILED \<or> is_terminal r \<and> validation_outcome r = GATES_FAILED"

definition failed_runs :: "agent_run list \<Rightarrow> nat" where
  "failed_runs past = length (filter (\<lambda>r. run_status r = Run_FAILED) past)"

definition last_attempt :: "agent_run \<Rightarrow> int option" where
  "last_attempt r = (case run_finished_at r of None \<Rightarrow> run_started_at r | Some x \<Rightarrow> Some x)"

text \<open>Whether the backoff of the latest failure has not elapsed yet; times are microseconds.\<close>

definition backoff_pending :: "recovery_policy \<Rightarrow> int \<Rightarrow> agent_run list \<Rightarrow> bool" where
  "backoff_pending p now past = (case latest_of past of None \<Rightarrow> False
     | Some run \<Rightarrow> run_status run = Run_FAILED \<and> base_backoff_seconds p \<noteq> 0 \<and>
         (case last_attempt run of None \<Rightarrow> False
          | Some since \<Rightarrow> (case delay_for p (int (failed_runs past)) of Inl _ \<Rightarrow> False
              | Inr delay \<Rightarrow> of_int (now - since) / 1000000 < delay)))"

definition retry_target :: "factory_task \<Rightarrow> agent_run option \<Rightarrow> task_status" where
  "retry_target task latest =
     (if is_publication_retry task latest then Task_VALIDATING else Task_READY)"

definition claim_recoverable :: "agent_run list \<Rightarrow> bool \<Rightarrow> bool" where
  "claim_recoverable past rework_claim \<longleftrightarrow> past \<noteq> [] \<and>
     (run_status (last past) = Run_FAILED \<or> rework_claim \<and> is_terminal (last past))"

definition retry :: "env \<Rightarrow> recovery_policy \<Rightarrow> string \<Rightarrow> ('w, factory_task) call" where
  "retry env p tid =
     andthen (tasks_get env tid) (\<lambda>t. case t of
       None \<Rightarrow> raise (KeyError tid)
     | Some task \<Rightarrow>
       andthen (check (task_status task \<in> {Task_BLOCKED, Task_CLAIMED})
                  (RetryNotAllowedError (''task '' @ tid @ '' is not BLOCKED (status '' @
                     task_status_value (task_status task) @ '')''))) (\<lambda>_.
       andthen (db_read env (\<lambda>d. find_active_run d tid)) (\<lambda>active.
       andthen (check (active = None) (RetryNotAllowedError (''task '' @ tid @ '' has an active run''))) (\<lambda>_.
       andthen (db_read env (\<lambda>d. list_runs d (Some tid))) (\<lambda>past.
       andthen (db_read env (\<lambda>d. latest_rework_feedback d tid)) (\<lambda>feedback.
       let latest = latest_of past; rework_claim = (feedback \<noteq> None) in
       andthen (check (classify_retry task latest rework_claim \<noteq> NON_RECOVERABLE)
                  (RetryNotAllowedError (''task '' @ tid @ '' '' @ (if task_status task = Task_CLAIMED
                     then ''legacy CLAIMED recovery requires latest run FAILED''
                     else ''latest run is not recoverable'')))) (\<lambda>_.
       andthen (check (int (length (filter retryable past)) < run_retry_limit p)
                  (RetryNotAllowedError (''task '' @ tid @ '' retry limit reached''))) (\<lambda>_.
       andthen (clock env) (\<lambda>now.
       andthen (check (\<not> backoff_pending p now past)
                  (RetryNotAllowedError (''task '' @ tid @ '' retry backoff pending''))) (\<lambda>_.
       andthen (if task_status task = Task_CLAIMED
                then andthen (check (claim_recoverable past rework_claim)
                       (RetryNotAllowedError (''task '' @ tid @ '' legacy CLAIMED recovery requires latest run FAILED'')))
                     (\<lambda>_. andthen (transition env tid Task_BLOCKED (Some Task_CLAIMED)) (\<lambda>_. ret ()))
                else ret ()) (\<lambda>_.
       transition env tid (retry_target task latest) (Some Task_BLOCKED))))))))))))"

section \<open>ReworkService\<close>

text \<open>The credential pattern is matched on the lower-cased text at every position.\<close>

definition lower_char :: "char \<Rightarrow> char" where
  "lower_char c = (if is_upper c then char_of (code_point c + 32) else c)"

definition credential_word :: "string \<Rightarrow> string \<Rightarrow> bool" where
  "credential_word w s = (starts_with w s \<and> (case dropWhile is_space (drop (length w) s) of
       [] \<Rightarrow> False | c # _ \<Rightarrow> c = CHR '':'' \<or> c = CHR ''=''))"

definition credential_at :: "string \<Rightarrow> bool" where
  "credential_at s \<longleftrightarrow> starts_with ''github_pat_'' s \<or>
     list_ex (\<lambda>c. starts_with (''gh'' @ [c, CHR ''_'']) s) ''pousr'' \<or>
     starts_with ''sk-'' s \<and> 19 \<le> length s \<and>
       list_all (\<lambda>c. is_lower c \<or> is_digit c) (take 16 (drop 3 s)) \<or>
     list_ex (\<lambda>w. credential_word w s) [''token'', ''password'', ''secret'', ''authorization''] \<or>
     starts_with ''bearer'' s \<and> drop 6 s \<noteq> [] \<and> is_space (hd (drop 6 s)) \<and>
       dropWhile is_space (drop 6 s) \<noteq> []"

fun matches_somewhere :: "(string \<Rightarrow> bool) \<Rightarrow> string \<Rightarrow> bool" where
  "matches_somewhere p [] = p []"
| "matches_somewhere p (c # s) = (p (c # s) \<or> matches_somewhere p s)"

definition sensitive :: "string \<Rightarrow> bool" where
  "sensitive s = matches_somewhere credential_at (map lower_char s)"

definition feedback_char :: "char \<Rightarrow> bool" where
  "feedback_char c \<longleftrightarrow> is_printable c \<or> code_point c = 10 \<or> code_point c = 9"

definition sanitize_feedback :: "string \<Rightarrow> (py_error, string) outcome" where
  "sanitize_feedback raw = (let feedback = strip raw in
     if feedback = [] \<or> 4000 < length feedback \<or> \<not> list_all feedback_char feedback \<or>
        sensitive feedback
     then Inl (ReworkNotAllowedError ''QA feedback is empty, unsafe, or exceeds 4000 characters'')
     else Inr feedback)"

datatype pull_request_state = PR_OPEN | PR_MERGED | PR_CLOSED

text \<open>\<open>_matches\<close>\<close>

definition rework_matches :: "factory_task \<Rightarrow> pull_request \<Rightarrow> bool" where
  "rework_matches task pr \<longleftrightarrow> pr_task_id pr = Some (task_id task) \<and>
     pr_repository pr = task_repository task \<and> (\<exists>n \<in> set_option (pr_number pr). 0 < n)"

definition reviewed_pull_request :: "env \<Rightarrow> agent_run \<Rightarrow> ('w, pull_request option) call" where
  "reviewed_pull_request env run =
     andthen (db_read env (\<lambda>d. get_for_run d (run_id run))) (\<lambda>pr.
       case pr of Some p \<Rightarrow> ret (Some p)
       | None \<Rightarrow> (case run_workspace run of None \<Rightarrow> ret None
          | Some w \<Rightarrow> db_read env (\<lambda>d. find_by_branch d (ws_repository w) (ws_branch w))))"

definition request_rework_review :: "env \<Rightarrow> (pull_request \<Rightarrow> ('w, pull_request_state) port) \<Rightarrow>
    string \<Rightarrow> string \<Rightarrow> ('w, factory_task) call" where
  "request_rework_review env state_source tid feedback =
     andthen (from_outcome (sanitize_feedback feedback)) (\<lambda>clean.
     andthen (tasks_get env tid) (\<lambda>t. case t of
       None \<Rightarrow> raise (KeyError tid)
     | Some task \<Rightarrow>
       andthen (check (task_status task = Task_WAITING_HUMAN \<and> task_kind task = CODE)
                  (ReworkNotAllowedError ''task is not awaiting code review'')) (\<lambda>_.
       andthen (db_read env (\<lambda>d. list_runs d (Some tid))) (\<lambda>runs.
       andthen (check (runs \<noteq> [] \<and> run_status (last runs) = Run_SUCCEEDED)
                  (ReworkNotAllowedError ''reviewed run is missing or unsuccessful'')) (\<lambda>_.
       let run = last runs in
       andthen (reviewed_pull_request env run) (\<lambda>pr. case (run_workspace run, pr) of
         (Some w, Some p) \<Rightarrow>
           andthen (check (rework_matches task p \<and>
                       pr_run_id p \<in> set (map (\<lambda>r. Some (run_id r)) runs) \<and>
                       pr_head_branch p = ws_branch w)
                      (ReworkNotAllowedError ''reviewed pull request identity is stale'')) (\<lambda>_.
           andthen (attempt (external (state_source p))) (\<lambda>state. case state of
             Inl _ \<Rightarrow> raise (ReworkNotAllowedError ''reviewed pull request state is unavailable'')
           | Inr st \<Rightarrow>
             andthen (check (st = PR_OPEN)
                        (ReworkNotAllowedError ''reviewed pull request is no longer open'')) (\<lambda>_.
             db_write env (\<lambda>now ids. request_rework now (ids 0) (ids 1) tid (run_id run) clean))))
       | _ \<Rightarrow> raise (ReworkNotAllowedError ''reviewed pull request identity is stale'')))))))"

section \<open>Facts about the policy\<close>

lemma delay_for_bounds:
  assumes "check_policy p = Inr p" "delay_for p n = Inr x"
  shows "0 \<le> x \<and> x \<le> max_backoff_seconds p \<and> (1 \<le> n \<longrightarrow> base_backoff_seconds p \<le> x)"
proof -
  have base: "0 \<le> base_backoff_seconds p" "base_backoff_seconds p \<le> max_backoff_seconds p"
    using assms(1) by (auto simp: check_policy_def split: if_splits)
  have "1 \<le> (2 :: rat) ^ k" for k by simp
  then have "base_backoff_seconds p * 1 \<le> base_backoff_seconds p * 2 ^ k" for k
    using base(1) by (intro mult_left_mono) simp_all
  then show ?thesis
    using assms(2) base by (auto simp: delay_for_def min_def split: if_splits)
qed

lemma delay_for_mono:
  assumes "0 \<le> base_backoff_seconds p" "1 \<le> n" "n \<le> m"
  shows "\<exists>x y. delay_for p n = Inr x \<and> delay_for p m = Inr y \<and> x \<le> y"
proof -
  let ?k = "nat (min (n - 1) 30)" let ?l = "nat (min (m - 1) 30)"
  have "?k \<le> ?l" using assms(3) by (intro nat_mono) simp
  then have "(2 :: rat) ^ ?k \<le> 2 ^ ?l" by (simp add: power_increasing)
  then have "base_backoff_seconds p * 2 ^ ?k \<le> base_backoff_seconds p * 2 ^ ?l"
    using assms(1) by (intro mult_left_mono)
  then show ?thesis
    using assms(2,3) by (auto simp: delay_for_def intro: min.coboundedI1 min.mono)
qed

text \<open>Past the cap a longer history changes nothing.\<close>

lemma delay_for_saturates: "31 \<le> n \<Longrightarrow> delay_for p n = delay_for p 31"
  by (simp add: delay_for_def min_def)

section \<open>Facts about the feedback filter\<close>

lemma dropWhile_idem: "dropWhile p (dropWhile p xs) = dropWhile p xs"
  by (induction xs) auto

lemma dropWhile_keeps_last:
  assumes "\<not> p x" shows "dropWhile p (xs @ [x]) = dropWhile p xs @ [x]"
  using assms by (induction xs) auto

lemma lstrip_rstrip:
  assumes "lstrip s = s" shows "lstrip (rstrip s) = rstrip s"
proof (cases s)
  case Nil
  then show ?thesis by (simp add: rstrip_def lstrip_def)
next
  case (Cons c cs)
  then have c: "\<not> is_space c"
    using assms dropWhile_eq_Cons_conv [of is_space s c cs] by (simp add: lstrip_def)
  have "rev (dropWhile is_space (rev cs @ [c])) = c # rev (dropWhile is_space (rev cs))"
    using dropWhile_keeps_last [of is_space c] c by simp
  then show ?thesis using c by (simp add: Cons rstrip_def lstrip_def)
qed

lemma strip_idem [simp]: "strip (strip s) = strip s"
proof -
  have l: "lstrip (strip s) = strip s"
    unfolding strip_def by (rule lstrip_rstrip) (simp add: lstrip_def dropWhile_idem)
  have "rstrip (rstrip x) = rstrip x" for x
    by (simp add: rstrip_def dropWhile_idem)
  then show ?thesis using l by (simp add: strip_def)
qed

lemma sanitize_feedback_idem: "sanitize_feedback raw = Inr s \<Longrightarrow> sanitize_feedback s = Inr s"
  by (auto simp: sanitize_feedback_def Let_def split: if_splits)

section \<open>Facts about the services\<close>

lemma retry_historical:
  assumes "others_recorded env" shows "keeps (on_db historical_step) (retry env p tid)"
  unfolding retry_def Let_def tasks_get_def
  using assms transition_historical [OF assms] others_historical [OF assms] historical.R_refl
  by (intro sys_historical.keeps_basic keeps_db_read keeps_world)

lemma request_rework_review_historical:
  assumes "others_recorded env"
  shows "keeps (on_db historical_step) (request_rework_review env src tid fb)"
  unfolding request_rework_review_def Let_def tasks_get_def reviewed_pull_request_def
  using assms others_historical [OF assms] historical.R_refl
  by (intro sys_historical.keeps_basic keeps_db_read keeps_world keeps_attempt keeps_case_sum
      historical_write)
    (auto intro: request_rework_historical)

text \<open>What a successful retry has checked in the store it started from.\<close>

definition retry_allowed :: "recovery_policy \<Rightarrow> store \<Rightarrow> string \<Rightarrow> factory_task \<Rightarrow> bool" where
  "retry_allowed p d tid task \<longleftrightarrow>
     (let runs = list_runs d (Some tid); rework_claim = (latest_rework_feedback d tid \<noteq> None)
      in get_task d tid = Some task \<and> task_status task \<in> {Task_BLOCKED, Task_CLAIMED} \<and>
         find_active_run d tid = None \<and>
         classify_retry task (latest_of runs) rework_claim \<noteq> NON_RECOVERABLE \<and>
         int (length (filter retryable runs)) < run_retry_limit p \<and>
         (task_status task = Task_CLAIMED \<longrightarrow> claim_recoverable runs rework_claim))"

lemma retry_wp:
  assumes "quiet env"
  shows "wp (retry env p tid)
     (\<lambda>t s'. \<exists>task. retry_allowed p (sys_db s) tid task \<and>
        task_status t = retry_target task (latest_of (list_runs (sys_db s) (Some tid))) \<and>
        status_of s' tid = Some (task_status t))
     (\<lambda>e s'. lifecycle_error e \<or> sys_db s' = sys_db s) s"
  unfolding retry_def Let_def wp_simps using assms
  by (auto simp: retry_allowed_def Let_def intro!: wp_mono [OF transition_outcome] split: option.splits)

text \<open>The backoff is checked against the clock as this retry reads it, after its four reads of the store.\<close>

lemma retry_backoff:
  assumes "quiet env" "retry env p tid s = (Inr t, s')"
  shows "\<not> backoff_pending p (env_now env (sys_tick s + 4)) (list_runs (sys_db s) (Some tid))"
proof -
  have "wp (retry env p tid)
      (\<lambda>t s'. \<not> backoff_pending p (env_now env (sys_tick s + 4)) (list_runs (sys_db s) (Some tid))) (\<lambda>e s'. True) s"
    unfolding retry_def Let_def wp_simps using assms(1)
    by (auto simp: numeral_eq_Suc intro!: wp_mono [OF transition_outcome] split: option.splits)
  then show ?thesis using assms(2) by (rule wpD_Inr)
qed

text \<open>A rework request that returns has recorded the reviewed run and the sanitized feedback.\<close>

lemma request_rework_result:
  assumes "request_rework now rq uid tid rid fb d = Inr (t, d')"
  shows "task_status t = Task_CHANGES_REQUESTED \<and>
    map_option task_status (get_task d' tid) = Some Task_CHANGES_REQUESTED \<and>
    db_rework d' = db_rework d @ [\<lparr>rw_id = rq, rw_task = tid, rw_run = rid, rw_feedback = fb,
      rw_requested_at = now\<rparr>]"
proof -
  let ?d1 = "(put_task tid (\<lambda>t. t\<lparr>task_status := Task_CHANGES_REQUESTED, task_updated_at := now\<rparr>) d)
    \<lparr>db_rework := db_rework d @ [\<lparr>rw_id = rq, rw_task = tid, rw_run = rid,
       rw_feedback = fb, rw_requested_at = now\<rparr>]\<rparr>"
  obtain t0 where t0: "get_task d tid = Some t0"
    "t = t0\<lparr>task_status := Task_CHANGES_REQUESTED, task_updated_at := now\<rparr>"
    and i: "insert_transition \<lparr>tt_task_id = tid, tt_from = Task_WAITING_HUMAN,
        tt_to = Task_CHANGES_REQUESTED, tt_id = uid, tt_occurred_at = now\<rparr> ?d1 = Inr d'"
    using assms by (auto simp: request_rework_def tx_step_eq_Inr split: option.splits if_splits)
  have "get_task d' tid = get_task ?d1 tid \<and> db_rework d' = db_rework ?d1"
    by (rule insert_transition_effect [OF i]) (simp add: get_task_def task_row_of_def)
  moreover have "get_task ?d1 tid = get_task
      (put_task tid (\<lambda>t. t\<lparr>task_status := Task_CHANGES_REQUESTED, task_updated_at := now\<rparr>) d) tid"
    by (intro fun_cong [OF get_task_cong]) simp
  ultimately show ?thesis using t0 by (simp add: get_task_put_task)
qed

lemma rework_wp:
  assumes "quiet env"
  shows "wp (request_rework_review env src tid fb)
     (\<lambda>t s'. \<exists>task run clean rq now. get_task (sys_db s) tid = Some task \<and>
        task_status task = Task_WAITING_HUMAN \<and> task_kind task = CODE \<and>
        sanitize_feedback fb = Inr clean \<and> latest_of (list_runs (sys_db s) (Some tid)) = Some run \<and>
        run_status run = Run_SUCCEEDED \<and> task_status t = Task_CHANGES_REQUESTED \<and>
        status_of s' tid = Some Task_CHANGES_REQUESTED \<and>
        db_rework (sys_db s') = db_rework (sys_db s) @ [\<lparr>rw_id = rq, rw_task = tid,
          rw_run = run_id run, rw_feedback = clean, rw_requested_at = now\<rparr>])
     (\<lambda>e s'. sys_db s' = sys_db s) s"
  unfolding request_rework_review_def reviewed_pull_request_def Let_def wp_simps using assms
  by (auto simp: latest_of_def status_of_def wp_simps split: option.splits sum.splits prod.splits
      dest!: request_rework_result)

end
