(* ===== verification/Context_Pack.thy ===== *)
theory Context_Pack
  imports Lifecycle_Service "HOL-Library.Multiset"
begin

text \<open>
  Context packs: \<^verbatim>\<open>domain/context.py\<close> and \<^verbatim>\<open>orchestration/context.py\<close>.  SHA-256 of the UTF-8 text is
  the parameter \<open>digest\<close>; the JSON text it is applied to is modelled as \<open>json.dumps\<close> writes it
  (sorted keys, no spaces, ASCII only).  Injected sources are external ports.
\<close>

section \<open>JSON text\<close>

definition hex_digit :: "nat \<Rightarrow> char" where
  "hex_digit n = char_of (if n < 10 then 48 + n else 87 + n)"

definition json_char :: "char \<Rightarrow> string" where
  "json_char c = (let n = code_point c in
     if n = 34 then [CHR 0x5C, CHR 0x22]
     else if n = 92 then [CHR 0x5C, CHR 0x5C]
     else if n = 10 then [CHR 0x5C, CHR ''n'']
     else if n = 13 then [CHR 0x5C, CHR ''r'']
     else if n = 9 then [CHR 0x5C, CHR ''t'']
     else if n = 8 then [CHR 0x5C, CHR ''b'']
     else if n = 12 then [CHR 0x5C, CHR ''f'']
     else if 32 \<le> n \<and> n \<le> 126 then [c]
     else [CHR 0x5C, CHR ''u'', CHR ''0'', CHR ''0'', hex_digit (n div 16), hex_digit (n mod 16)])"

definition json_string :: "string \<Rightarrow> string" where
  "json_string s = [CHR 0x22] @ concat (map json_char s) @ [CHR 0x22]"

definition json_option :: "string option \<Rightarrow> string" where
  "json_option x = (case x of None \<Rightarrow> ''null'' | Some s \<Rightarrow> json_string s)"

definition json_object :: "(string \<times> string) list \<Rightarrow> string" where
  "json_object kvs = ''{'' @ join '','' (map (\<lambda>(k, v). json_string k @ '':'' @ v) kvs) @ ''}''"

definition json_array :: "string list \<Rightarrow> string" where
  "json_array vs = ''['' @ join '','' vs @ '']''"

section \<open>Packs (domain/context.py)\<close>

definition check_fragment :: "context_fragment \<Rightarrow> (py_error, context_fragment) outcome" where
  "check_fragment f =
     (if frag_source f = [] \<or> frag_type f = [] \<or> frag_id f = [] \<or> frag_version f = [] \<or>
         frag_content_ref f = []
      then Inl (ValueError ''incomplete context fragment'') else Inr f)"

text \<open>Equality of fragments ignores the content.\<close>

definition frag_same :: "context_fragment \<Rightarrow> context_fragment \<Rightarrow> bool" where
  "frag_same f g \<longleftrightarrow> f\<lparr>frag_content := []\<rparr> = g\<lparr>frag_content := []\<rparr>"

definition frag_key :: "context_fragment \<Rightarrow> string \<times> string \<times> string" where
  "frag_key f = (frag_source f, frag_type f, frag_id f)"

definition fragment_metadata :: "context_fragment \<Rightarrow> string" where
  "fragment_metadata f = json_object
     [(''content_ref'', json_string (frag_content_ref f)), (''id'', json_string (frag_id f)),
      (''source'', json_string (frag_source f)), (''type'', json_string (frag_type f)),
      (''version'', json_string (frag_version f))]"

definition canonical_pack :: "int \<Rightarrow> context_fragment list \<Rightarrow> string option \<Rightarrow> string" where
  "canonical_pack budget fs base = json_object
     [(''base_sha256'', json_option base), (''budget'', decimal_int budget),
      (''fragments'', json_array (map fragment_metadata fs)), (''version'', ''1'')]"

text \<open>The dictionary \<open>unique\<close> holds the last fragment accepted under each key.\<close>

fun collect_fragments :: "(string \<Rightarrow> string) \<Rightarrow> context_fragment list \<Rightarrow> context_fragment list \<Rightarrow>
    (py_error, context_fragment list) outcome" where
  "collect_fragments digest [] unique = Inr unique"
| "collect_fragments digest (f # fs) unique =
     (if frag_content f = [] \<or> digest (frag_content f) \<noteq> frag_content_ref f
      then Inl (ValueError ''invalid context content'')
      else case find (\<lambda>g. frag_key g = frag_key f) unique of
        Some g \<Rightarrow> if \<not> frag_same g f then Inl (ValueError ''conflicting context fragment'')
          else collect_fragments digest fs
                 (set_rows (\<lambda>g. frag_key g = frag_key f) (\<lambda>_. f) unique)
      | None \<Rightarrow> collect_fragments digest fs (unique @ [f]))"

definition build_pack :: "(string \<Rightarrow> string) \<Rightarrow> context_fragment list \<Rightarrow> int \<Rightarrow> string option \<Rightarrow>
    (py_error, context_pack) outcome" where
  "build_pack digest fs budget base =
     (if budget < 1 then Inl (ValueError ''invalid context budget'')
      else case collect_fragments digest fs [] of Inl e \<Rightarrow> Inl e
      | Inr unique \<Rightarrow> let ordered = sort_key frag_key unique in
        if ordered = [] \<or> budget < int (sum_list (map (\<lambda>f. length (frag_content f)) ordered))
        then Inl (ValueError ''required context missing or over budget'')
        else Inr \<lparr>pack_version = 1, pack_budget = budget, pack_fragments = ordered,
               pack_sha256 = digest (canonical_pack budget ordered base), pack_base_sha256 = base\<rparr>)"

text \<open>\<open>pack_from_metadata\<close> on metadata of the right shape: the stored digest is recomputed.\<close>

definition pack_from_metadata :: "(string \<Rightarrow> string) \<Rightarrow> context_pack \<Rightarrow> (py_error, context_pack) outcome" where
  "pack_from_metadata digest p =
     (if pack_version p \<noteq> 1 then Inl (ValueError ''invalid stored context pack'')
      else if list_ex (\<lambda>f. check_fragment f \<noteq> Inr f) (pack_fragments p)
      then Inl (ValueError ''incomplete context fragment'')
      else if digest (canonical_pack (pack_budget p) (pack_fragments p) (pack_base_sha256 p)) \<noteq>
                pack_sha256 p
      then Inl (ValueError ''context pack digest mismatch'') else Inr p)"

definition render_pack :: "context_pack \<Rightarrow> (py_error, string) outcome" where
  "render_pack p = (if list_ex (\<lambda>f. frag_content f = []) (pack_fragments p)
     then Inl (ValueError ''context content unavailable'')
     else Inr (join [CHR 0x0A, CHR 0x0A] (map frag_content (pack_fragments p))))"

section \<open>TaskContextSource\<close>

definition lines_of :: "string list \<Rightarrow> string" where
  "lines_of ls = join [CHR 0x0A] ls"

definition BOUNDARIES :: string where
  "BOUNDARIES = lines_of [''Hard boundaries:'',
     ''- Work only inside the workspace you were given.'',
     ''- Never push directly to a default branch (main/master).'',
     ''- Never merge a pull request.'',
     ''- Never deploy anything and never modify hosts, containers or secrets.'',
     ''- Do not modify any repository other than the target repository.'', [],
     ''When you are done, reply with a short summary of what you changed or found.'']"

definition default_project :: string where
  "default_project = ''ai-factory-lab''"

definition task_identity_json :: "factory_task \<Rightarrow> string" where
  "task_identity_json t = json_object
     ([(''body'', json_string (task_body t)),
       (''local_task_id'', if task_source t = None then json_string (task_id t) else ''null'')] @
      (if task_project t \<noteq> default_project
       then [(''project_id'', json_string (task_project t))] else []) @
      [(''source'', case task_source t of None \<Rightarrow> ''null''
          | Some s \<Rightarrow> json_array [json_string (src_provider s), json_string (src_repository s),
              decimal_int (src_issue_number s)]),
       (''target_repository'', json_string (task_repository t)),
       (''title'', json_string (task_title t))])"

definition task_instruction :: "factory_task \<Rightarrow> string" where
  "task_instruction t =
     (let body = (if strip (task_body t) = [] then ''(no description provided)''
                  else strip (task_body t))
      in lines_of ([''You are executing a task dispatched by AI Factory Lab.'', []] @
           (if task_project t \<noteq> default_project then [''Project ID: '' @ task_project t] else []) @
           [''Target repository: '' @ task_repository t,
            ''Task reference: '' @ (case task_external_ref t of None \<Rightarrow> task_id t | Some r \<Rightarrow> r),
            ''Task title: '' @ task_title t, [], ''Task description:'', take 8000 body, [],
            BOUNDARIES]))"

definition task_fragment :: "(string \<Rightarrow> string) \<Rightarrow> factory_task \<Rightarrow> (py_error, context_fragment) outcome" where
  "task_fragment digest t = check_fragment
     \<lparr>frag_source = ''factory'', frag_type = ''task'',
      frag_id = (case task_source t of None \<Rightarrow> task_id t
        | Some s \<Rightarrow> src_provider s @ '':'' @ src_repository s @ ''#'' @ decimal_int (src_issue_number s)),
      frag_version = digest (task_identity_json t),
      frag_content_ref = digest (task_instruction t), frag_content = task_instruction t\<rparr>"

section \<open>ContextPackBuilder\<close>

record 'w context_source =
  ctx_required :: bool
  ctx_fragments :: "factory_task \<Rightarrow> ('w, context_fragment list) port"

record 'w context_builder =
  cb_sources :: "'w context_source list"
  cb_budget :: int
  cb_digest :: "string \<Rightarrow> string"

fun supplied_fragments :: "'w context_source list \<Rightarrow> factory_task \<Rightarrow>
    ('w, context_fragment list) call" where
  "supplied_fragments [] t = ret []"
| "supplied_fragments (src # srcs) t =
     andthen (external (ctx_fragments src t)) (\<lambda>supplied.
     andthen (check (supplied \<noteq> [] \<or> \<not> ctx_required src)
                (ValueError ''mandatory source returned no fragments'')) (\<lambda>_.
     andthen (supplied_fragments srcs t) (\<lambda>rest. ret (supplied @ rest))))"

definition base_sha :: "context_pack \<Rightarrow> string" where
  "base_sha p = (case pack_base_sha256 p of None \<Rightarrow> pack_sha256 p
     | Some b \<Rightarrow> if b = [] then pack_sha256 p else b)"

definition feedback_fragment :: "(string \<Rightarrow> string) \<Rightarrow> context_pack \<Rightarrow> string \<Rightarrow>
    (py_error, context_fragment) outcome" where
  "feedback_fragment digest previous feedback =
     (let content = ''QA feedback for this rework:'' @ [CHR 0x0A] @ feedback
      in check_fragment \<lparr>frag_source = ''factory'', frag_type = ''feedback'',
           frag_id = pack_sha256 previous, frag_version = ''1'',
           frag_content_ref = digest content, frag_content = content\<rparr>)"

definition rework_fragments :: "'w context_builder \<Rightarrow> context_fragment list \<Rightarrow> string \<Rightarrow>
    context_pack option \<Rightarrow> (py_error, context_fragment list) outcome" where
  "rework_fragments b fs feedback previous = (case previous of
       None \<Rightarrow> Inl (ValueError ''rework requires historical context pack'')
     | Some p \<Rightarrow> (case build_pack (cb_digest b) fs (cb_budget b) None of
         Inl _ \<Rightarrow> Inl (ContextBuildError ''required context invalid or over budget'')
       | Inr base \<Rightarrow> if pack_sha256 base \<noteq> base_sha p
           then Inl (ValueError ''historical context pack changed'')
           else (case feedback_fragment (cb_digest b) p feedback of
               Inl e \<Rightarrow> Inl e | Inr f \<Rightarrow> Inr (fs @ [f]))))"

definition build_context :: "'w context_builder \<Rightarrow> factory_task \<Rightarrow> string option \<Rightarrow>
    context_pack option \<Rightarrow> ('w, context_pack) call" where
  "build_context b t feedback previous =
     andthen (attempt (andthen (from_outcome (task_fragment (cb_digest b) t)) (\<lambda>f.
                andthen (supplied_fragments (cb_sources b) t) (\<lambda>rest. ret (f # rest))))) (\<lambda>parts.
     case parts of Inl _ \<Rightarrow> raise (ContextBuildError ''required context unavailable'')
     | Inr fs \<Rightarrow>
       andthen (from_outcome (case feedback of None \<Rightarrow> Inr fs
                  | Some fb \<Rightarrow> rework_fragments b fs fb previous)) (\<lambda>fs.
       case build_pack (cb_digest b) fs (cb_budget b) (map_option base_sha previous) of
         Inl _ \<Rightarrow> raise (ContextBuildError ''required context invalid or over budget'')
       | Inr pack \<Rightarrow> ret pack))"

section \<open>Facts about packs\<close>

definition valid_content :: "(string \<Rightarrow> string) \<Rightarrow> context_fragment \<Rightarrow> bool" where
  "valid_content digest f \<longleftrightarrow> frag_content f \<noteq> [] \<and> digest (frag_content f) = frag_content_ref f"

text \<open>Whatever holds initially and is kept by each accepted fragment holds of the collection.\<close>

lemma collect_invariant:
  assumes "collect_fragments digest fs u = Inr us" "I u"
    and replace: "\<And>f u. I u \<Longrightarrow> f \<in> set fs \<Longrightarrow> valid_content digest f \<Longrightarrow>
      I (set_rows (\<lambda>g. frag_key g = frag_key f) (\<lambda>_. f) u)"
    and append: "\<And>f u. I u \<Longrightarrow> f \<in> set fs \<Longrightarrow> valid_content digest f \<Longrightarrow>
      frag_key f \<notin> frag_key ` set u \<Longrightarrow> I (u @ [f])"
  shows "I us"
  using assms
proof (induction fs arbitrary: u)
  case (Cons f fs)
  have v: "valid_content digest f"
    using Cons.prems(1) by (auto simp: valid_content_def split: if_splits)
  have "\<exists>u'. collect_fragments digest fs u' = Inr us \<and> I u'"
  proof (cases "find (\<lambda>g. frag_key g = frag_key f) u")
    case None
    then have "collect_fragments digest fs (u @ [f]) = Inr us"
      using Cons.prems(1) by (simp split: if_splits)
    moreover have "frag_key f \<notin> frag_key ` set u"
      using None unfolding find_None_iff' by (auto simp: image_iff)
    then have "I (u @ [f])" by (intro Cons.prems(4) [OF Cons.prems(2) _ v]) simp_all
    ultimately show ?thesis by blast
  next
    case (Some g)
    then have "collect_fragments digest fs (set_rows (\<lambda>g. frag_key g = frag_key f) (\<lambda>_. f) u) = Inr us"
      using Cons.prems(1) by (simp split: if_splits)
    moreover have "I (set_rows (\<lambda>g. frag_key g = frag_key f) (\<lambda>_. f) u)"
      by (rule Cons.prems(3) [OF Cons.prems(2) _ v]) simp
    ultimately show ?thesis by blast
  qed
  then obtain u' where u': "collect_fragments digest fs u' = Inr us" "I u'" by blast
  show ?case
  proof (rule Cons.IH [OF u'])
    show "I (set_rows (\<lambda>g. frag_key g = frag_key h) (\<lambda>_. h) v)"
      if "I v" "h \<in> set fs" "valid_content digest h" for h v
      by (rule Cons.prems(3)) (use that in simp_all)
    show "I (v @ [h])"
      if "I v" "h \<in> set fs" "valid_content digest h" "frag_key h \<notin> frag_key ` set v" for h v
      by (rule Cons.prems(4)) (use that in simp_all)
  qed
qed simp

lemma collect_keys: "collect_fragments digest fs [] = Inr us \<Longrightarrow> distinct (map frag_key us)"
  by (erule collect_invariant [where I = "\<lambda>u. distinct (map frag_key u)"]) (simp_all add: map_set_rows)

lemma collect_valid: "collect_fragments digest fs [] = Inr us \<Longrightarrow> \<forall>f \<in> set us. valid_content digest f"
  by (erule collect_invariant [where I = "\<lambda>u. \<forall>f \<in> set u. valid_content digest f"])
    (auto simp: set_rows_def)

lemma collect_subset: "collect_fragments digest fs [] = Inr us \<Longrightarrow> set us \<subseteq> set fs"
  by (erule collect_invariant [where I = "\<lambda>u. set u \<subseteq> set fs"]) (auto simp: set_rows_def)

lemma collect_distinct:
  assumes "distinct (map frag_key (u @ fs))"
  shows "collect_fragments digest fs u =
    (if list_all (valid_content digest) fs then Inr (u @ fs)
     else Inl (ValueError ''invalid context content''))"
  using assms
proof (induction digest fs u rule: collect_fragments.induct)
  case (2 digest f fs u)
  have "frag_key g \<noteq> frag_key f" if "g \<in> set u" for g
    using 2(3) that by (auto simp: image_iff)
  then have "find (\<lambda>g. frag_key g = frag_key f) u = None"
    by (simp add: find_None_iff')
  then show ?case using 2 by (simp add: valid_content_def)
qed simp

lemma build_pack_parts:
  assumes "build_pack digest fs budget base = Inr p"
  obtains us where "collect_fragments digest fs [] = Inr us" "pack_fragments p = sort_key frag_key us"
    "pack_sha256 p = digest (canonical_pack budget (pack_fragments p) base)"
    "pack_base_sha256 p = base" "pack_budget p = budget" "pack_version p = 1" "us \<noteq> []"
    "int (sum_list (map (\<lambda>f. length (frag_content f)) (pack_fragments p))) \<le> budget"
proof -
  from assms obtain us where "collect_fragments digest fs [] = Inr us"
    by (auto simp: build_pack_def split: if_splits sum.splits)
  moreover have "us \<noteq> []"
    using assms calculation by (auto simp: build_pack_def split: if_splits)
  ultimately show thesis
    using assms that by (auto simp: build_pack_def Let_def split: if_splits)
qed

lemma build_pack_sound:
  assumes "build_pack digest fs budget base = Inr p"
  shows "sorted (map frag_key (pack_fragments p)) \<and> distinct (map frag_key (pack_fragments p)) \<and>
    pack_fragments p \<noteq> [] \<and> set (pack_fragments p) \<subseteq> set fs \<and>
    (\<forall>f \<in> set (pack_fragments p). digest (frag_content f) = frag_content_ref f) \<and>
    int (sum_list (map (\<lambda>f. length (frag_content f)) (pack_fragments p))) \<le> budget"
proof -
  obtain us where us: "collect_fragments digest fs [] = Inr us" "pack_fragments p = sort_key frag_key us"
    "us \<noteq> []" "int (sum_list (map (\<lambda>f. length (frag_content f)) (pack_fragments p))) \<le> budget"
    by (rule build_pack_parts [OF assms]) blast
  have "distinct (map frag_key us)" using collect_keys [OF us(1)] by simp
  then have "distinct (map frag_key (sort_key frag_key us))" by (simp add: distinct_map)
  moreover have "sort_key frag_key us \<noteq> []"
    using us(3) by (metis length_0_conv length_sort)
  ultimately show ?thesis
    using us(4) collect_valid [OF us(1)] collect_subset [OF us(1)] unfolding us(2)
    by (auto simp: valid_content_def)
qed

lemma fragment_metadata_erase: "fragment_metadata (f\<lparr>frag_content := []\<rparr>) = fragment_metadata f"
  by (simp add: fragment_metadata_def)

lemma canonical_pack_erase:
  "canonical_pack budget (map (\<lambda>f. f\<lparr>frag_content := []\<rparr>) fs) base = canonical_pack budget fs base"
  by (simp add: canonical_pack_def fragment_metadata_erase comp_def)

lemma pack_metadata_roundtrip:
  assumes b: "build_pack digest fs budget base = Inr p" and f: "list_all (\<lambda>f. check_fragment f = Inr f) fs"
  shows "pack_from_metadata digest (pack_metadata p) = Inr (pack_metadata p)"
proof -
  have "\<forall>f \<in> set (pack_fragments p). check_fragment f = Inr f"
    using build_pack_sound [OF b] f by (auto simp: list_all_iff)
  then have "\<not> list_ex (\<lambda>f. check_fragment f \<noteq> Inr f) (map (\<lambda>f. f\<lparr>frag_content := []\<rparr>) (pack_fragments p))"
    by (auto simp: list_ex_iff check_fragment_def split: if_splits)
  moreover have "pack_sha256 p = digest (canonical_pack (pack_budget p) (pack_fragments p) (pack_base_sha256 p))"
    "pack_version p = 1"
    by (rule build_pack_parts [OF b], simp)+
  ultimately show ?thesis
    by (simp add: pack_from_metadata_def pack_metadata_def canonical_pack_erase)
qed

lemma filter_distinct_key:
  "distinct (map f xs) \<Longrightarrow> k \<in> set xs \<Longrightarrow> filter (\<lambda>x. f k = f x) xs = [k]"
proof (induction xs)
  case (Cons x xs)
  show ?case
  proof (cases "k = x")
    case True
    then have "filter (\<lambda>y. f k = f y) xs = []"
      using Cons.prems by (auto simp: filter_empty_conv image_iff)
    then show ?thesis using True by simp
  next
    case False
    then have "k \<in> set xs" "f k \<noteq> f x" using Cons.prems by (auto simp: image_iff)
    then show ?thesis using Cons by simp
  qed
qed simp

lemma sort_key_distinct_perm:
  assumes "distinct (map f xs)" "mset ys = mset xs"
  shows "sort_key f ys = sort_key f xs"
proof (rule properties_for_sort_key)
  have d: "distinct (map f ys)" "distinct (map f (sort_key f xs))"
    using assms by (metis mset_map mset_eq_imp_distinct_iff, metis mset_map mset_eq_imp_distinct_iff mset_sort)
  have s: "set ys = set xs" using assms(2) by (metis set_mset_mset)
  show "filter (\<lambda>x. f k = f x) (sort_key f xs) = filter (\<lambda>x. f k = f x) ys"
    if "k \<in> set (sort_key f xs)" for k
    using that s filter_distinct_key [OF d(1), of k] filter_distinct_key [OF d(2), of k] by simp
qed (simp_all add: assms(2))

lemma build_pack_order:
  assumes "distinct (map frag_key fs)" "mset gs = mset fs"
  shows "build_pack digest gs budget base = build_pack digest fs budget base"
proof -
  have set_eq: "set gs = set fs" using assms(2) by (metis set_mset_mset)
  have d: "distinct (map frag_key gs)"
    using assms by (metis mset_map mset_eq_imp_distinct_iff)
  have sorted: "sort_key frag_key gs = sort_key frag_key fs"
    by (rule sort_key_distinct_perm [OF assms])
  show ?thesis
    using sorted set_eq collect_distinct [of "[]" gs digest] collect_distinct [of "[]" fs digest] d assms(1)
    by (simp add: build_pack_def list_all_iff Let_def)
qed

end
