(* ===== verification/Dispatch_Service.thy ===== *)
theory Dispatch_Service
  imports Context_Pack
begin

text \<open>
  \<^verbatim>\<open>DispatchService\<close> (\<^verbatim>\<open>dispatch.py\<close>): claim a READY task, prepare its workspace, start the engine,
  persist the run, move the task to RUNNING.  The engine adapter and the workspace provisioner are
  external ports; every call may interleave with other processes.
\<close>

section \<open>Ports\<close>

record 'w adapter =
  ad_kind :: agent_kind
  ad_dispatch :: "factory_task \<Rightarrow> workspace \<Rightarrow> context_pack \<Rightarrow> ('w, agent_run) port"
  ad_collect :: "agent_run \<Rightarrow> ('w, agent_run) port"
  ad_heartbeat :: "(agent_run \<Rightarrow> ('w, int option) port) option"

record 'w provisioner =
  pv_prepare :: "factory_task \<Rightarrow> workspace \<Rightarrow> ('w, workspace) port"
  pv_repair :: "factory_task \<Rightarrow> workspace \<Rightarrow> ('w, workspace) port"

record 'w dispatcher =
  ds_provisioner :: "'w provisioner"
  ds_root :: string
  ds_builder :: "'w context_builder"
  ds_worker :: "string option"
  ds_session :: "string option"

definition branch_for :: "factory_task \<Rightarrow> workspace \<Rightarrow> string" where
  "branch_for t w = ws_branch w"

definition set_worker_owner :: "string \<Rightarrow> string \<Rightarrow> 'w dispatcher \<Rightarrow> (py_error, 'w dispatcher) outcome" where
  "set_worker_owner worker session ds =
     (if strip worker = [] \<or> strip session = []
      then Inl (ValueError ''worker and session identity are required'')
      else Inr (ds\<lparr>ds_worker := Some worker, ds_session := Some session\<rparr>))"

section \<open>Steps\<close>

definition require_task :: "env \<Rightarrow> string \<Rightarrow> ('w, factory_task) call" where
  "require_task env tid = andthen (tasks_get env tid) (\<lambda>t. or_raise t (KeyError tid))"

definition context_blocked :: string where
  "context_blocked = ''required context unavailable, invalid or over budget''"

definition dispatch_context :: "env \<Rightarrow> 'w dispatcher \<Rightarrow> factory_task \<Rightarrow> string option \<Rightarrow>
    context_pack option \<Rightarrow> ('w, context_pack) call" where
  "dispatch_context env ds t feedback previous =
     (if task_kind t = OPERATIONAL then build_context (ds_builder ds) t None None
      else on_error (build_context (ds_builder ds) t feedback previous) (\<lambda>e.
        if is_value_error e
        then andthen (transition env (task_id t) Task_BLOCKED (Some Task_READY)) (\<lambda>blocked.
             andthen (tasks_update env (blocked\<lparr>task_blocked_reason := Some context_blocked\<rparr>)) (\<lambda>_.
             raise (ContextBuildError context_blocked)))
        else raise e))"

definition claim :: "env \<Rightarrow> factory_task \<Rightarrow> ('w, factory_task) call" where
  "claim env t = on_error (transition env (task_id t) Task_CLAIMED None) (\<lambda>e. case e of
       TaskStateChangedError _ _ _ \<Rightarrow> raise (DispatchConflictError (task_id t))
     | InvalidTransitionError _ _ \<Rightarrow> raise (DispatchConflictError (task_id t))
     | _ \<Rightarrow> raise e)"

definition prepare_workspace :: "env \<Rightarrow> 'w dispatcher \<Rightarrow> factory_task \<Rightarrow> ('w, workspace) call" where
  "prepare_workspace env ds t =
     andthen (fresh_id env) (\<lambda>wid. andthen (clock env) (\<lambda>now.
     andthen (from_outcome (if task_kind t = OPERATIONAL
                then new_operational_workspace wid now t (ds_root ds)
                else new_workspace wid now t (ds_root ds))) (\<lambda>w.
     on_error (external (pv_prepare (ds_provisioner ds) t w)) (\<lambda>e. case e of
         WorkspaceProvisioningError x \<Rightarrow> raise (WorkspaceProvisioningError x)
       | _ \<Rightarrow> raise (WorkspaceProvisioningError (ws_id w))))))"

definition persist_run :: "env \<Rightarrow> agent_run \<Rightarrow> ('w, agent_run) call" where
  "persist_run env run = on_error (db_write env (\<lambda>now ids. save_run now run)) (\<lambda>e. case e of
       DuplicateRunError _ _ _ \<Rightarrow> raise (DispatchConflictError (run_task_id run))
     | _ \<Rightarrow> raise e)"

definition failed_run :: "'w adapter \<Rightarrow> factory_task \<Rightarrow> workspace \<Rightarrow> context_pack \<Rightarrow> string \<Rightarrow> int \<Rightarrow>
    int \<Rightarrow> agent_run" where
  "failed_run ad t w pack rid started finished =
     \<lparr>run_task_id = task_id t, run_adapter = ad_kind ad, run_id = rid, run_status = Run_FAILED,
      run_workspace = Some w, run_summary = None, run_started_at = Some started,
      run_last_heartbeat = None, run_agent_heartbeat = None, run_finished_at = Some finished,
      run_gates = [], run_validated_revision = None, run_context_pack = Some pack,
      run_project = task_project t, run_worker_id = None, run_session_id = None\<rparr>"

definition record_failure :: "env \<Rightarrow> 'w adapter \<Rightarrow> factory_task \<Rightarrow> workspace \<Rightarrow> context_pack \<Rightarrow>
    int \<Rightarrow> ('w, agent_run) call" where
  "record_failure env ad t w pack started =
     andthen (fresh_id env) (\<lambda>rid. andthen (clock env) (\<lambda>finished.
       persist_run env (failed_run ad t w pack rid started finished)))"

definition started_run :: "'w dispatcher \<Rightarrow> 'w adapter \<Rightarrow> factory_task \<Rightarrow> workspace \<Rightarrow>
    context_pack \<Rightarrow> int \<Rightarrow> agent_run \<Rightarrow> agent_run" where
  "started_run ds ad t w pack started produced =
     \<lparr>run_task_id = task_id t, run_adapter = ad_kind ad, run_id = run_id produced,
      run_status = run_status produced, run_workspace = Some w,
      run_summary = run_summary produced,
      run_started_at = (case run_started_at produced of None \<Rightarrow> Some started | Some x \<Rightarrow> Some x),
      run_last_heartbeat = (if run_status produced \<in> {Run_PENDING, Run_RUNNING}
                            then Some started else None),
      run_agent_heartbeat = None, run_finished_at = run_finished_at produced,
      run_gates = run_gates produced, run_validated_revision = None,
      run_context_pack = Some pack, run_project = task_project t,
      run_worker_id = ds_worker ds, run_session_id = ds_session ds\<rparr>"

definition start_run :: "env \<Rightarrow> 'w dispatcher \<Rightarrow> 'w adapter \<Rightarrow> factory_task \<Rightarrow> workspace \<Rightarrow>
    context_pack \<Rightarrow> ('w, agent_run) call" where
  "start_run env ds ad t w pack =
     andthen (clock env) (\<lambda>started.
     andthen (attempt (external (ad_dispatch ad t w pack))) (\<lambda>produced. case produced of
       Inl _ \<Rightarrow>
         andthen (record_failure env ad t w pack started) (\<lambda>failed.
         andthen (transition env (task_id t) Task_BLOCKED (Some Task_CLAIMED)) (\<lambda>_.
         raise (AgentDispatchError (task_id t) (run_id failed))))
     | Inr r \<Rightarrow> persist_run env (started_run ds ad t w pack started r)))"

definition advance_to_running :: "env \<Rightarrow> factory_task \<Rightarrow> ('w, unit) call" where
  "advance_to_running env t =
     andthen (transition env (task_id t) Task_RUNNING None) (\<lambda>_. ret ())"

section \<open>Dispatch\<close>

definition dispatch :: "env \<Rightarrow> 'w dispatcher \<Rightarrow> 'w adapter \<Rightarrow> string \<Rightarrow> ('w, agent_run) call" where
  "dispatch env ds ad tid =
     andthen (require_task env tid) (\<lambda>task.
     andthen (check (task_status task = Task_READY) (TaskNotReadyError tid (task_status task))) (\<lambda>_.
     andthen (db_read env (\<lambda>d. find_active_run d tid)) (\<lambda>active.
     andthen (check (active = None) (DispatchConflictError tid)) (\<lambda>_.
     andthen (dispatch_context env ds task None None) (\<lambda>pack.
     andthen (claim env task) (\<lambda>claimed.
     andthen (prepare_workspace env ds claimed) (\<lambda>w.
     andthen (start_run env ds ad claimed w pack) (\<lambda>run.
     andthen (advance_to_running env claimed) (\<lambda>_. ret run)))))))))"

definition timeout_recovery_prefix :: string where
  "timeout_recovery_prefix = ''Operator-authorized timeout recovery:''"

definition dispatch_rework :: "env \<Rightarrow> 'w dispatcher \<Rightarrow> 'w adapter \<Rightarrow> string \<Rightarrow> string \<Rightarrow>
    ('w, agent_run) call" where
  "dispatch_rework env ds ad tid feedback =
     andthen (require_task env tid) (\<lambda>task.
     andthen (check (task_status task = Task_READY \<and> task_kind task = CODE)
                (TaskNotReadyError tid (task_status task))) (\<lambda>_.
     andthen (db_read env (\<lambda>d. find_active_run d tid)) (\<lambda>active.
     andthen (check (active = None) (DispatchConflictError tid)) (\<lambda>_.
     andthen (db_read env (\<lambda>d. list_runs d (Some tid))) (\<lambda>runs.
     case runs of [] \<Rightarrow> raise (WorkspaceProvisioningError tid)
     | _ # _ \<Rightarrow>
       let previous = last runs in
       case run_workspace previous of None \<Rightarrow> raise (WorkspaceProvisioningError tid)
       | Some pw \<Rightarrow>
         andthen (check (is_terminal previous) (WorkspaceProvisioningError tid)) (\<lambda>_.
         andthen (if run_context_pack previous = None \<and>
                     starts_with timeout_recovery_prefix feedback
                  then andthen (dispatch_context env ds task None None) (\<lambda>p. ret (Some p))
                  else ret (run_context_pack previous)) (\<lambda>historical.
         andthen (dispatch_context env ds task (Some feedback) historical) (\<lambda>pack.
         andthen (claim env task) (\<lambda>claimed.
         andthen (external (pv_repair (ds_provisioner ds) claimed pw)) (\<lambda>w.
         andthen (start_run env ds ad claimed w pack) (\<lambda>run.
         andthen (advance_to_running env claimed) (\<lambda>_. ret run))))))))))))"

end
