(* ===== verification/Dispatch_Facts.thy ===== *)
theory Dispatch_Facts
  imports Dispatch_Service
begin

text \<open>
  What dispatch guarantees under any interleaving with other processes: a task that dispatch
  reports as started is RUNNING with a durable run behind it, an engine failure leaves a durable
  run and a BLOCKED task, and the store stays sound.
\<close>

section \<open>The contract of the run store\<close>

definition has_run :: "'w sys \<Rightarrow> string \<Rightarrow> string \<Rightarrow> bool" where
  "has_run s rid tid \<longleftrightarrow> (\<exists>r \<in> set (db_runs (sys_db s)). rid_of r = rid \<and> run_task_id (rrow_run r) = tid)"

text \<open>A stored run stays stored whatever the other operations do, so a run saved before the
  transition is still there after it.\<close>

locale run_port = task_port +
  fixes save :: "agent_run \<Rightarrow> ('a, py_error, agent_run) sx" and stored :: "'a \<Rightarrow> string \<Rightarrow> string \<Rightarrow> bool"
  assumes save_stores: "save r s = (Inr r', s') \<Longrightarrow> r' = r \<and> stored s' (run_id r) (run_task_id r)"
    and get_stored: "stored s rid tid \<Longrightarrow> get x s = (res, s') \<Longrightarrow> stored s' rid tid"
    and app_stored: "stored s rid tid \<Longrightarrow> app x a b s = (res', s') \<Longrightarrow> stored s' rid tid"
begin

lemma transition_stored:
  assumes "stored s rid tid" "lifecycle_transition get app x target e s = (res, s')"
  shows "stored s' rid tid"
proof -
  obtain r s1 where g: "get x s = (r, s1)" by (cases "get x s")
  have s1: "stored s1 rid tid" by (rule get_stored [OF assms(1) g])
  obtain t0 where r: "r = Inr t0" using get_total [OF g] by blast
  show ?thesis
    using assms(2) g r s1 app_stored [OF s1]
    by (auto simp: lifecycle_transition_def andthen_def raise_def ret_def Let_def
        split: option.splits if_splits)
qed

lemma save_then_transition:
  assumes "andthen (save r) (\<lambda>q. andthen (lifecycle_transition get app tid target e) (\<lambda>_. ret q)) s =
      (Inr q, s')"
  shows "q = r \<and> stored s' (run_id r) (run_task_id r) \<and> status_in s' tid = Some target"
proof -
  obtain r' s1 where sv: "save r s = (Inr r', s1)"
    using assms by (cases "save r s"; cases "fst (save r s)") (auto simp: andthen_def)
  obtain t where tr: "lifecycle_transition get app tid target e s1 = (Inr t, s')" and q: "q = r'"
    using assms sv
    by (cases "lifecycle_transition get app tid target e s1";
        cases "fst (lifecycle_transition get app tid target e s1)") (auto simp: andthen_def ret_def)
  show ?thesis
    using save_stores [OF sv] transition_stored [OF _ tr] transition_reaches [OF tr] q by blast
qed

end

lemma grows_runs:
  assumes "store_grows d d'" "r \<in> set (db_runs d)"
  shows "\<exists>q \<in> set (db_runs d'). rid_of q = rid_of r \<and> run_task_id (rrow_run q) = run_task_id (rrow_run r)"
proof -
  let ?k = "\<lambda>r. (rid_of r, run_task_id (rrow_run r), run_project (rrow_run r), rrow_ws r, rrow_created r)"
  have "prefix (map ?k (db_runs d)) (map ?k (db_runs d'))"
    using assms(1) by (simp add: store_grows_def)
  from set_mono_prefix [OF this] have "?k r \<in> ?k ` set (db_runs d')"
    using assms(2) by (simp add: image_subset_iff)
  then show ?thesis by (auto intro: bexI)
qed

lemma has_run_sound: "on_db sound_step s s' \<Longrightarrow> has_run s rid tid \<Longrightarrow> has_run s' rid tid"
  by (auto simp: on_db_def sound_step_def has_run_def dest: grows_runs)

lemma save_run_stores: "save_run created run d = Inr (run', d') \<Longrightarrow>
    run' = run \<and> (\<exists>r \<in> set (db_runs d'). rid_of r = run_id run \<and> run_task_id (rrow_run r) = run_task_id run)"
  by (auto simp: save_run_def Let_def run_row_for_def split: option.splits if_splits sum.splits
      dest!: only_audit_run_insert only_auditD(5))

lemma persist_run_stores:
  assumes "persist_run env r s = (Inr r', s')"
  shows "r' = r \<and> has_run s' (run_id r) (run_task_id r)"
proof -
  have "wp (persist_run env r) (\<lambda>r' s'. r' = r \<and> has_run s' (run_id r) (run_task_id r)) (\<lambda>_ _. True) s"
    unfolding persist_run_def wp_simps
    by (auto simp: has_run_def wp_simps split: sum.splits py_error.splits dest!: save_run_stores)
  then show ?thesis using assms by (rule wpD_Inr)
qed

interpretation sqlite_runs: run_port "tasks_get env" "tasks_apply env" status_of "persist_run env" has_run
  for env
proof unfold_locales
  show "persist_run env r s = (Inr r', s') \<Longrightarrow> r' = r \<and> has_run s' (run_id r) (run_task_id r)" for r s r' s'
    by (rule persist_run_stores)
  show "has_run s' rid tid" if "has_run s rid tid" "tasks_get env x s = (res, s')" for s rid tid x res s'
    by (rule has_run_sound [OF keepsD [OF keeps_tasks_get [OF others_sound] that(2)] that(1)])
  have k: "keeps (on_db sound_step) (tasks_apply env x a b)" for x a b
    unfolding tasks_apply_def
    by (rule sound_write) (auto intro: apply_transition_historical historical_sound)
  show "has_run s' rid tid" if "has_run s rid tid" "tasks_apply env x a b s = (res', s')"
    for s rid tid x a b res' s'
    by (rule has_run_sound [OF keepsD [OF k that(2)] that(1)])
qed

section \<open>Soundness\<close>

lemma tasks_update_sound: "keeps (on_db sound_step) (tasks_update env t)"
  unfolding tasks_update_def by (rule sound_write) (rule update_task_sound)

lemma persist_run_sound: "keeps (on_db sound_step) (persist_run env r)"
  unfolding persist_run_def
  by (intro sys_sound.keeps_basic sound_write)
    (auto intro: save_run_historical historical_sound sys_sound.keeps_raise split: py_error.splits)

lemma external_sound: "keeps (on_db sound_step) (external p)"
  "keeps (on_db sound_step) (clock env)" "keeps (on_db sound_step) (fresh_id env)"
  using keeps_world [where R = sound_step] soundness.R_refl by blast+

lemma supplied_fragments_sound: "keeps (on_db sound_step) (supplied_fragments srcs t)"
  by (induction srcs) (simp_all add: sys_sound.keeps_basic external_sound)

lemma build_context_sound: "keeps (on_db sound_step) (build_context b t fb p)"
  unfolding build_context_def
  by (intro sys_sound.keeps_basic keeps_attempt keeps_case_sum supplied_fragments_sound)

lemma dispatch_context_sound: "keeps (on_db sound_step) (dispatch_context env ds t fb p)"
  unfolding dispatch_context_def
  by (intro sys_sound.keeps_basic build_context_sound transition_sound tasks_update_sound)

lemma claim_sound: "keeps (on_db sound_step) (claim env t)"
  unfolding claim_def
  by (intro sys_sound.keeps_on_error transition_sound)
    (auto intro: sys_sound.keeps_raise split: py_error.splits)

lemma prepare_workspace_sound: "keeps (on_db sound_step) (prepare_workspace env ds t)"
  unfolding prepare_workspace_def
  by (intro sys_sound.keeps_andthen sys_sound.keeps_on_error sys_sound.keeps_from_outcome external_sound)
    (auto intro: sys_sound.keeps_raise split: py_error.splits)

lemma start_run_sound: "keeps (on_db sound_step) (start_run env ds ad t w p)"
  unfolding start_run_def record_failure_def
  by (intro sys_sound.keeps_basic keeps_attempt keeps_case_sum external_sound persist_run_sound
      transition_sound)

lemma dispatch_sound: "keeps (on_db sound_step) (dispatch env ds ad tid)"
  unfolding dispatch_def require_task_def advance_to_running_def
  by (intro sys_sound.keeps_basic keeps_tasks_get keeps_db_read others_sound dispatch_context_sound
      claim_sound prepare_workspace_sound start_run_sound transition_sound)

lemma keeps_case_list:
  "keeps R m \<Longrightarrow> (\<And>a as. keeps R (n a as)) \<Longrightarrow> keeps R (case xs of [] \<Rightarrow> m | a # as \<Rightarrow> n a as)"
  by (simp split: list.splits)

lemma dispatch_rework_sound: "keeps (on_db sound_step) (dispatch_rework env ds ad tid fb)"
  unfolding dispatch_rework_def require_task_def advance_to_running_def Let_def
  by (intro sys_sound.keeps_basic keeps_case_list keeps_tasks_get keeps_db_read others_sound
      dispatch_context_sound claim_sound external_sound start_run_sound transition_sound)

section \<open>What dispatch establishes\<close>

lemma claim_result:
  "wp (claim env t) (\<lambda>c s'. task_id c = task_id t \<and> task_status c = Task_CLAIMED) (\<lambda>_ _. True) s"
  unfolding claim_def wp_simps
  by (rule wp_mono [OF transition_outcome]) (auto simp: wp_simps split: py_error.splits)

lemma wp_trivial: "wp m (\<lambda>_ _. True) (\<lambda>_ _. True) s"
  by (simp add: wp_def split: prod.splits sum.splits)

lemma transition_keeps_run:
  assumes "has_run s rid x"
  shows "wp (transition env tid b e)
     (\<lambda>t s'. task_id t = tid \<and> task_status t = b \<and> status_of s' tid = Some b \<and> has_run s' rid x)
     (\<lambda>e s'. lifecycle_error e \<and> has_run s' rid x) s"
proof (rule wpI)
  fix t s' assume r: "transition env tid b e s = (Inr t, s')"
  show "task_id t = tid \<and> task_status t = b \<and> status_of s' tid = Some b \<and> has_run s' rid x"
    using wpD_Inr [OF transition_outcome r] has_run_sound [OF keepsD [OF transition_sound r] assms]
    by blast
next
  fix q s' assume r: "transition env tid b e s = (Inl q, s')"
  show "lifecycle_error q \<and> has_run s' rid x"
    using wpD_Inl [OF transition_outcome r] has_run_sound [OF keepsD [OF transition_sound r] assms]
    by blast
qed

lemma save_run_error: "save_run created run d = Inl e \<Longrightarrow> e \<noteq> AgentDispatchError t rid"
  by (auto simp: save_run_def Let_def duplicate_error_def split: option.splits if_splits sum.splits)

lemma persist_run_outcome:
  "wp (persist_run env r) (\<lambda>r' s'. r' = r \<and> has_run s' (run_id r) (run_task_id r))
     (\<lambda>e s'. \<forall>t rid. e \<noteq> AgentDispatchError t rid) s"
proof (rule wpI)
  fix r' s' assume "persist_run env r s = (Inr r', s')"
  then show "r' = r \<and> has_run s' (run_id r) (run_task_id r)" by (rule persist_run_stores)
next
  fix e s' assume r: "persist_run env r s = (Inl e, s')"
  have "wp (persist_run env r) (\<lambda>_ _. True) (\<lambda>e _. \<forall>t rid. e \<noteq> AgentDispatchError t rid) s"
    unfolding persist_run_def wp_simps
    by (auto simp: wp_simps split: sum.splits py_error.splits dest: save_run_error)
  then show "\<forall>t rid. e \<noteq> AgentDispatchError t rid" using r by (rule wpD_Inl)
qed

text \<open>The exceptions that dispatch raises itself for a failed engine start.\<close>

definition blocked_after :: "string \<Rightarrow> py_error \<Rightarrow> 'w sys \<Rightarrow> bool" where
  "blocked_after tid e s \<longleftrightarrow> (\<forall>t rid. e = AgentDispatchError t rid \<longrightarrow>
     t = tid \<and> has_run s rid tid \<and> status_of s tid = Some Task_BLOCKED)"

lemma blocked_after_other: "(\<forall>t rid. e \<noteq> AgentDispatchError t rid) \<Longrightarrow> blocked_after tid e s"
  by (simp add: blocked_after_def)

lemma lifecycle_error_other: "lifecycle_error e \<Longrightarrow> blocked_after tid e s"
  by (auto simp: blocked_after_def)

lemma value_error_other: "is_value_error e \<Longrightarrow> blocked_after tid e s"
  by (auto simp: blocked_after_def)

lemma start_run_outcome:
  "wp (start_run env ds ad t w p)
     (\<lambda>run s'. run_task_id run = task_id t \<and> has_run s' (run_id run) (task_id t))
     (blocked_after (task_id t)) s"
proof -
  have fail: "wp (andthen (persist_run env (failed_run ad t w p rid st fin)) (\<lambda>failed.
         andthen (transition env (task_id t) Task_BLOCKED (Some Task_CLAIMED)) (\<lambda>_.
         raise (AgentDispatchError (task_id t) (run_id failed)))))
     (\<lambda>run s'. run_task_id run = task_id t \<and> has_run s' (run_id run) (task_id t))
     (blocked_after (task_id t)) u" for rid st fin u
    unfolding wp_simps
    by (rule wp_mono [OF persist_run_outcome])
      (auto simp: failed_run_def blocked_after_def intro!: wp_mono [OF transition_keeps_run])
  have ok: "wp (persist_run env (started_run ds ad t w p st r))
     (\<lambda>run s'. run_task_id run = task_id t \<and> has_run s' (run_id run) (task_id t))
     (blocked_after (task_id t)) u" for st r u
    by (rule wp_mono [OF persist_run_outcome]) (auto simp: started_run_def blocked_after_other)
  show ?thesis
    unfolding start_run_def record_failure_def wp_simps
    using fail [unfolded wp_simps] ok by (auto split: prod.splits sum.splits)
qed

lemma build_context_error: "wp (build_context b t fb p) (\<lambda>_ _. True) (\<lambda>e _. is_value_error e) s"
  unfolding build_context_def wp_simps
  by (auto simp: wp_simps rework_fragments_def feedback_fragment_def check_fragment_def Let_def
      intro!: wp_mono [OF wp_trivial] split: sum.splits option.splits if_splits)

lemma tasks_update_outcome:
  "wp (tasks_update env t) (\<lambda>_ _. True) (\<lambda>e _. lifecycle_error e) s"
  unfolding tasks_update_def wp_simps
  by (auto simp: update_task_def Let_def split: sum.splits option.splits if_splits)

lemma dispatch_context_error:
  "wp (dispatch_context env ds t fb p) (\<lambda>_ _. True) (\<lambda>e _. is_value_error e \<or> lifecycle_error e) s"
  unfolding dispatch_context_def wp_simps
  by (auto simp: wp_simps intro!: wp_mono [OF build_context_error] wp_mono [OF transition_outcome]
      wp_mono [OF tasks_update_outcome])

lemma claim_outcome:
  "wp (claim env t) (\<lambda>c s'. task_id c = task_id t \<and> task_status c = Task_CLAIMED)
     (\<lambda>e _. \<forall>t rid. e \<noteq> AgentDispatchError t rid) s"
  unfolding claim_def wp_simps
  by (rule wp_mono [OF transition_outcome]) (auto simp: wp_simps split: py_error.splits)

lemma prepare_workspace_error:
  "wp (prepare_workspace env ds t) (\<lambda>_ _. True) (\<lambda>e _. \<forall>t rid. e \<noteq> AgentDispatchError t rid) s"
  unfolding prepare_workspace_def wp_simps
  by (auto simp: wp_simps new_operational_workspace_def new_workspace_def check_workspace_def
      split: sum.splits prod.splits py_error.splits if_splits)

lemma started_task_running:
  "wp (andthen (start_run env ds ad c w pack) (\<lambda>run.
         andthen (advance_to_running env c) (\<lambda>_. ret run)))
     (\<lambda>run s'. run_task_id run = task_id c \<and> has_run s' (run_id run) (task_id c) \<and>
        status_of s' (task_id c) = Some Task_RUNNING)
     (blocked_after (task_id c)) s"
  unfolding advance_to_running_def wp_simps
  by (rule wp_mono [OF start_run_outcome])
    (auto simp: wp_simps intro!: wp_mono [OF transition_keeps_run] lifecycle_error_other)

lemma dispatch_outcome:
  "wp (dispatch env ds ad tid)
     (\<lambda>run s'. run_task_id run = tid \<and> has_run s' (run_id run) tid \<and>
        status_of s' tid = Some Task_RUNNING)
     (blocked_after tid) s"
proof -
  note skip = blocked_after_other value_error_other lifecycle_error_other
  have prep: "wp (andthen (prepare_workspace env ds c) (\<lambda>w.
      andthen (start_run env ds ad c w pack) (\<lambda>run.
      andthen (advance_to_running env c) (\<lambda>_. ret run))))
     (\<lambda>run s'. run_task_id run = tid \<and> has_run s' (run_id run) tid \<and>
        status_of s' tid = Some Task_RUNNING) (blocked_after tid) u"
    if "task_id c = tid" for c pack u
    unfolding wp_andthen [of "prepare_workspace env ds c"]
    by (rule wp_mono [OF prepare_workspace_error])
      (use started_task_running that in \<open>auto intro: skip\<close>)
  have main: "wp (andthen (claim env t) (\<lambda>c. andthen (prepare_workspace env ds c) (\<lambda>w.
      andthen (start_run env ds ad c w pack) (\<lambda>run.
      andthen (advance_to_running env c) (\<lambda>_. ret run)))))
     (\<lambda>run s'. run_task_id run = tid \<and> has_run s' (run_id run) tid \<and>
        status_of s' tid = Some Task_RUNNING) (blocked_after tid) u"
    if "task_id t = tid" for t pack u
    unfolding wp_andthen [of "claim env t"]
    by (rule wp_mono [OF claim_outcome]) (use prep that in \<open>auto intro: skip\<close>)
  have ctx: "wp (andthen (dispatch_context env ds t None None) (\<lambda>pack.
      andthen (claim env t) (\<lambda>c. andthen (prepare_workspace env ds c) (\<lambda>w.
      andthen (start_run env ds ad c w pack) (\<lambda>run.
      andthen (advance_to_running env c) (\<lambda>_. ret run))))))
     (\<lambda>run s'. run_task_id run = tid \<and> has_run s' (run_id run) tid \<and>
        status_of s' tid = Some Task_RUNNING) (blocked_after tid) u"
    if "task_id t = tid" for t u
    unfolding wp_andthen [of "dispatch_context env ds t None None"]
    by (rule wp_mono [OF dispatch_context_error]) (use main that in \<open>auto intro: skip\<close>)
  show ?thesis
    unfolding dispatch_def require_task_def wp_simps
    using ctx [unfolded wp_simps]
    by (auto simp: blocked_after_def dest: get_taskD split: option.splits)
qed

section \<open>What a raising dispatch has not done\<close>

text \<open>
  A relation of stores that every commit of a dispatch keeps up to the move to RUNNING: moves of a task to
  another status, the note on a blocked task and the record of a run.
\<close>

locale unstarted = preorder_relation R for R :: "store \<Rightarrow> store \<Rightarrow> bool" +
  assumes moved: "apply_transition m now uid x a b d = Inr (t, d') \<Longrightarrow> b \<noteq> Task_RUNNING \<Longrightarrow> R d d'"
    and noted: "update_task t d = Inr (t', d') \<Longrightarrow> task_status t \<noteq> Task_RUNNING \<Longrightarrow> R d d'"
    and recorded: "save_run c r d = Inr (r', d') \<Longrightarrow> R d d'"
begin

lemma db_preorder: "preorder_relation (on_db R :: 'w sys \<Rightarrow> 'w sys \<Rightarrow> bool)"
  by unfold_locales (auto simp: on_db_def intro: R_refl R_trans)

lemmas steps = preorder_relation.keeps_basic [OF db_preorder] preorder_relation.keeps_lifecycle [OF db_preorder]

lemma world: "keeps (on_db R) (clock env)" "keeps (on_db R) (fresh_id env)" "keeps (on_db R) (external p)"
  using keeps_world [where R = R] R_refl by blast+

lemma keeps_commit:
  "others_respect R env \<Longrightarrow> (\<And>now ids d a d'. f now ids d = Inr (a, d') \<Longrightarrow> R d d') \<Longrightarrow> keeps (on_db R) (db_write env f)"
  by (rule keeps_db_write [OF _ R_trans])

lemma keeps_transition: "others_respect R env \<Longrightarrow> b \<noteq> Task_RUNNING \<Longrightarrow> keeps (on_db R) (transition env x b e)"
  unfolding transition_def lifecycle_transition_def Let_def tasks_apply_def
  by (intro steps keeps_tasks_get keeps_commit) (auto intro: moved)

lemma keeps_persist: "others_respect R env \<Longrightarrow> keeps (on_db R) (persist_run env r)"
  unfolding persist_run_def
  by (intro steps keeps_commit) (auto intro: recorded steps split: py_error.splits)

lemma keeps_start: "others_respect R env \<Longrightarrow> keeps (on_db R) (start_run env ds ad t w p)"
  unfolding start_run_def record_failure_def
  by (intro steps keeps_attempt keeps_case_sum world keeps_persist keeps_transition) simp_all

lemma wp_kept: "keeps (on_db R) m \<Longrightarrow> on_db R s0 s \<Longrightarrow> wp m (\<lambda>_. on_db R s0) (\<lambda>_. on_db R s0) s"
  by (rule wpI) (auto simp: on_db_def dest!: keepsD intro: R_trans)

text \<open>A move that raises commits nothing, also a move to RUNNING.\<close>

lemma transition_raises:
  assumes "others_respect R env" "on_db R s0 s"
  shows "wp (transition env x b e) (\<lambda>_ _. True) (\<lambda>_. on_db R s0) s"
proof -
  have "on_db R s0 (advance (db_view env u) u)" if "on_db R s0 u" for u
    using that assms(1) by (auto simp: on_db_def others_respect_def db_view_def intro: R_trans)
  then show ?thesis
    using assms(2) unfolding transition_def lifecycle_transition_def Let_def tasks_apply_def tasks_get_def wp_simps
    by (auto simp: wp_simps split: option.splits sum.splits)
qed

lemma context_kept:
  assumes "others_respect R env" "on_db R s0 s"
  shows "wp (dispatch_context env ds t fb p) (\<lambda>_. on_db R s0) (\<lambda>_. on_db R s0) s"
proof -
  have fragments: "keeps (on_db R) (supplied_fragments srcs t)" for srcs :: "('a context_source) list"
    by (induction srcs) (simp_all add: steps world)
  have build: "keeps (on_db R) (build_context b t fb p)" for b :: "'a context_builder" and fb p
    unfolding build_context_def by (intro steps keeps_attempt keeps_case_sum fragments)
  have comment: "wp (tasks_update env (blocked\<lparr>task_blocked_reason := reason\<rparr>)) (\<lambda>_. on_db R s0) (\<lambda>_. on_db R s0) u"
    if "task_status blocked = Task_BLOCKED" "on_db R s0 u" for blocked reason u
    by (rule wp_kept [OF _ that(2)], unfold tasks_update_def, rule keeps_commit [OF assms(1)])
      (use that(1) in \<open>auto intro: noted\<close>)
  have block: "wp (transition env (task_id t) Task_BLOCKED (Some Task_READY))
      (\<lambda>c u. task_status c = Task_BLOCKED \<and> on_db R s0 u) (\<lambda>_. on_db R s0) u" if "on_db R s0 u" for u
    by (rule wpI)
      (use wpD_Inr [OF transition_outcome] wpD_Inr [OF wp_kept [OF keeps_transition [OF assms(1)] that]]
        wpD_Inl [OF wp_kept [OF keeps_transition [OF assms(1)] that]] in blast)+
  show ?thesis
    unfolding dispatch_context_def wp_simps
    by (auto intro!: wp_kept [OF build assms(2)] wp_mono [OF wp_kept [OF build assms(2)]] wp_mono [OF block] wp_mono [OF comment])
qed

lemma dispatch_raised:
  assumes E: "others_respect R env" and D: "dispatch env ds ad x s = (Inl e, s')"
  shows "R (sys_db s) (sys_db s')"
proof -
  have claimed: "keeps (on_db R) (claim env t)" for t
    unfolding claim_def by (intro steps keeps_transition E) (auto intro: steps split: py_error.splits)
  have prepared: "keeps (on_db R) (prepare_workspace env ds t)" for t
    unfolding prepare_workspace_def by (intro steps world) (auto intro: steps split: py_error.splits)
  have started: "wp (andthen (start_run env ds ad c w p) (\<lambda>run. andthen (advance_to_running env c) (\<lambda>_. ret run)))
      (\<lambda>_ _. True) (\<lambda>_. on_db R s) u" if "on_db R s u" for c w p u
    unfolding wp_andthen advance_to_running_def wp_ret
    by (rule wp_mono [OF wp_kept [OF keeps_start [OF E] that]]) (auto intro: wp_mono [OF transition_raises [OF E]])
  have main: "wp (andthen (dispatch_context env ds t None None) (\<lambda>pack. andthen (claim env t) (\<lambda>c.
      andthen (prepare_workspace env ds c) (\<lambda>w. andthen (start_run env ds ad c w pack) (\<lambda>run.
      andthen (advance_to_running env c) (\<lambda>_. ret run)))))) (\<lambda>_ _. True) (\<lambda>_. on_db R s) u"
    if "on_db R s u" for t u
    unfolding wp_andthen [of "dispatch_context env ds t None None"] wp_andthen [of "claim env _"]
      wp_andthen [of "prepare_workspace env ds _"]
    by (rule wp_mono [OF context_kept [OF E that]], rule wp_mono [OF wp_kept [OF claimed]], assumption,
        rule wp_mono [OF wp_kept [OF prepared]], assumption, rule started)
  have view: "on_db R s (advance (db_view env u) u)" if "on_db R s u" for u :: "'a sys"
    using that E by (auto simp: on_db_def others_respect_def db_view_def intro: R_trans)
  have "on_db R s s" by (simp add: on_db_def R_refl)
  then have "wp (dispatch env ds ad x) (\<lambda>_ _. True) (\<lambda>_. on_db R s) s"
    unfolding dispatch_def require_task_def tasks_get_def wp_andthen [of "andthen _ _"] wp_andthen [of "db_read _ _"]
      wp_andthen [of "check _ _"] wp_or_raise wp_check wp_db_read
    by (auto intro!: main view split: option.split)
  from wpD_Inl [OF this D] show ?thesis by (simp add: on_db_def)
qed

end

text \<open>The task is RUNNING afterwards only if it was before; it has a run when it is RUNNING, if it had before.\<close>

definition status_in_store :: "store \<Rightarrow> string \<Rightarrow> task_status option" where
  "status_in_store d tid = map_option task_status (get_task d tid)"

definition not_started :: "string \<Rightarrow> store \<Rightarrow> store \<Rightarrow> bool" where
  "not_started tid d d' \<longleftrightarrow> (status_in_store d' tid = Some Task_RUNNING \<longrightarrow> status_in_store d tid = Some Task_RUNNING)"

definition backed :: "string \<Rightarrow> store \<Rightarrow> bool" where
  "backed tid d \<longleftrightarrow> (status_in_store d tid = Some Task_RUNNING \<longrightarrow> (\<exists>r \<in> set (db_runs d). run_task_id (rrow_run r) = tid))"

definition backed_step :: "string \<Rightarrow> store \<Rightarrow> store \<Rightarrow> bool" where
  "backed_step tid d d' \<longleftrightarrow> (backed tid d \<longrightarrow> backed tid d')"

lemma moved_status:
  assumes "apply_transition m now uid x a b d = Inr (t, d')"
  shows "status_in_store d' y = (if y = x then Some b else status_in_store d y)" "db_runs d' = db_runs d"
  using apply_transition_frame [OF assms] by (auto simp: status_in_store_def)

lemma noted_status:
  assumes "update_task t d = Inr (t', d')"
  shows "status_in_store d' y = (if y = task_id t then Some (task_status t) else status_in_store d y)" "db_runs d' = db_runs d"
proof -
  obtain old where o: "get_task d (task_id t) = Some old"
    "d' = put_task (task_id t) (\<lambda>old. t\<lparr>task_created_at := task_created_at old\<rparr>) d"
    using update_task_effect [OF assms] by metis
  then show "db_runs d' = db_runs d" by (simp add: put_task_def)
  show "status_in_store d' y = (if y = task_id t then Some (task_status t) else status_in_store d y)"
    using o by (auto simp: status_in_store_def get_task_def task_row_of_def put_task_def find_set_rows option.map_comp
        comp_def dest: find_SomeD intro!: option.map_cong0)
qed

lemma recorded_status:
  assumes "save_run c r d = Inr (r', d')"
  shows "status_in_store d' y = status_in_store d y" "set (db_runs d) \<subseteq> set (db_runs d')"
proof -
  have o: "only_audit ((ensure_workspace (run_workspace r) d)\<lparr>db_runs := db_runs d @ [run_row_for c r]\<rparr>) d'"
    using save_run_effect [OF assms] by metis
  show "set (db_runs d) \<subseteq> set (db_runs d')" using only_auditD(5) [OF o] by auto
  show "status_in_store d' y = status_in_store d y"
    using only_auditD(1) [OF o] by (simp add: status_in_store_def get_task_def task_row_of_def ensure_workspace_def split: option.split)
qed

interpretation not_started: unstarted "not_started tid" for tid
  by unfold_locales (auto simp: not_started_def moved_status noted_status recorded_status split: if_splits)

interpretation backed: unstarted "backed_step tid" for tid
  by unfold_locales
    (auto simp: backed_step_def backed_def moved_status noted_status recorded_status(1) split: if_splits dest!: recorded_status(2))

end
