(* ===== verification/Tracking_Service.thy ===== *)
theory Tracking_Service
  imports Dispatch_Facts
begin

text \<open>
  \<^verbatim>\<open>RunTrackingService\<close> (\<^verbatim>\<open>tracking.py\<close>): collect an active run, validate the exact revision of a
  successful one, persist it and drive the task.  The engine, the workspace inspector, the gate
  runner, the operational validator and the provider are external ports; optional collaborators
  are options.
\<close>

section \<open>Ports\<close>

type_synonym 'w find_pr_port = "repository \<Rightarrow> string \<Rightarrow> string \<Rightarrow> ('w, pull_request option) port"

record 'w tracker =
  tr_gate_specs :: "gate_spec list"
  tr_task_gate_specs :: "(string \<times> gate_spec list) list"
  tr_gate_runner :: "(gate_spec \<Rightarrow> workspace \<Rightarrow> ('w, quality_gate) port) option"
  tr_inspector :: "(workspace \<Rightarrow> ('w, string) port) option"
  tr_provisioner :: "'w provisioner option"
  tr_pull_requests :: bool
  tr_sink :: "'w find_pr_port option"
  tr_base_branch :: string
  tr_registry :: "project_registry option"
  tr_acceptance :: "(factory_task \<Rightarrow> agent_run \<Rightarrow> ('w, quality_gate list) port) option"
  tr_heartbeat_interval :: int

record run_refresh =
  ref_run :: agent_run
  ref_task_status :: task_status
  ref_outcome :: validation_outcome

definition WORKSPACE_INTEGRITY_GATE :: string where
  "WORKSPACE_INTEGRITY_GATE = ''workspace_integrity''"

definition workspace_mutated_detail :: string where
  "workspace_mutated_detail = ''workspace changed during validation''"

definition target_repository :: "string \<Rightarrow> (py_error, repository) outcome" where
  "target_repository slug = (case validate_slug slug of Inl e \<Rightarrow> Inl e
     | Inr _ \<Rightarrow> Inr \<lparr>repo_slug = slug, repo_role = TARGET, repo_default_branch = ''main'',
         repo_fork_slug = None\<rparr>)"

definition failed_gate :: "string \<Rightarrow> string \<Rightarrow> bool \<Rightarrow> quality_gate" where
  "failed_gate name detail req = \<lparr>gate_name = name, gate_status = Gate_FAILED,
     gate_detail = Some detail, gate_required = req\<rparr>"

definition integrity_failure :: "string \<Rightarrow> quality_gate list" where
  "integrity_failure detail = [failed_gate WORKSPACE_INTEGRITY_GATE detail True]"

section \<open>Gates\<close>

definition specs_for :: "env \<Rightarrow> 'w tracker \<Rightarrow> agent_run \<Rightarrow> ('w, gate_spec list) call" where
  "specs_for env tr run = andthen (tasks_get env (run_task_id run)) (\<lambda>task.
     let ref = Option.bind task task_external_ref;
         specific = (case Option.bind ref (map_of (tr_task_gate_specs tr)) of
                       None \<Rightarrow> [] | Some gs \<Rightarrow> gs)
     in case tr_registry tr of
          None \<Rightarrow> ret (tr_gate_specs tr @ specific)
        | Some reg \<Rightarrow> (case task of
            None \<Rightarrow> raise (ValueError ''run project identity mismatch'')
          | Some t \<Rightarrow> if run_project run \<noteq> task_project t
              then raise (ValueError ''run project identity mismatch'')
              else andthen (from_outcome (resolve_project reg (task_project t) (Some (task_repository t))))
                (\<lambda>p. ret (prof_gates p @ specific))))"

text \<open>\<^verbatim>\<open>exit_code=-?\d{1,3}|timeout|spawn_error\<close>, full match.\<close>

definition safe_gate_detail :: "string \<Rightarrow> bool" where
  "safe_gate_detail s \<longleftrightarrow> s = ''timeout'' \<or> s = ''spawn_error'' \<or>
     starts_with ''exit_code='' s \<and>
       (let r = drop 10 s; ds = (if starts_with ''-'' r then drop 1 r else r)
        in 1 \<le> length ds \<and> length ds \<le> 3 \<and> list_all is_digit ds)"

definition gate_result :: "gate_spec \<Rightarrow> quality_gate \<Rightarrow> quality_gate" where
  "gate_result spec g =
     (if gate_name g \<noteq> spec_name spec \<or> gate_required g \<noteq> spec_required spec
      then failed_gate (spec_name spec) ''runner_mismatch'' (spec_required spec)
      else let detail = (case gate_detail g of None \<Rightarrow> [] | Some d \<Rightarrow> d) in
        \<lparr>gate_name = spec_name spec, gate_status = gate_status g,
         gate_detail = Some (if safe_gate_detail detail then detail else ''redacted''),
         gate_required = spec_required spec\<rparr>)"

definition run_gate :: "(gate_spec \<Rightarrow> workspace \<Rightarrow> ('w, quality_gate) port) \<Rightarrow> gate_spec \<Rightarrow> workspace \<Rightarrow>
    ('w, quality_gate) call" where
  "run_gate runner spec w =
     andthen (attempt (external (runner spec w))) (\<lambda>r. case r of
       Inr g \<Rightarrow> ret (gate_result spec g)
     | Inl e \<Rightarrow> if is_factory_error e then raise e
         else ret (failed_gate (spec_name spec) ''runner_error'' (spec_required spec)))"

fun run_gates_in :: "(gate_spec \<Rightarrow> workspace \<Rightarrow> ('w, quality_gate) port) \<Rightarrow> gate_spec list \<Rightarrow>
    workspace \<Rightarrow> ('w, quality_gate list) call" where
  "run_gates_in runner [] w = ret []"
| "run_gates_in runner (spec # specs) w =
     andthen (run_gate runner spec w) (\<lambda>g.
     andthen (run_gates_in runner specs w) (\<lambda>gs. ret (g # gs)))"

definition evaluate_gates :: "env \<Rightarrow> 'w tracker \<Rightarrow> agent_run \<Rightarrow> ('w, quality_gate list) call" where
  "evaluate_gates env tr run = andthen (specs_for env tr run) (\<lambda>specs.
     if specs = [] then ret []
     else case (run_workspace run, tr_gate_runner tr) of
       (Some w, Some runner) \<Rightarrow> run_gates_in runner specs w
     | _ \<Rightarrow> ret (map (\<lambda>s. failed_gate (spec_name s) ''no_workspace'' (spec_required s)) specs))"

section \<open>Validation\<close>

definition fingerprint :: "'w tracker \<Rightarrow> workspace \<Rightarrow> ('w, string option) call" where
  "fingerprint tr w = (case tr_inspector tr of None \<Rightarrow> ret None
     | Some inspect \<Rightarrow> andthen (attempt (external (inspect w))) (\<lambda>r.
         ret (case r of Inl _ \<Rightarrow> None | Inr fp \<Rightarrow> Some fp)))"

definition validate_operational :: "'w tracker \<Rightarrow> factory_task \<Rightarrow> agent_run \<Rightarrow> ('w, quality_gate list) call" where
  "validate_operational tr t run = (case tr_acceptance tr of
       None \<Rightarrow> ret [failed_gate ''operational_capability'' ''missing'' True]
     | Some validate \<Rightarrow> andthen (attempt (external (validate t run))) (\<lambda>r.
         ret (case r of
             Inr gates \<Rightarrow> if list_ex gate_required gates then gates
               else [failed_gate ''operational_acceptance'' ''unavailable'' True]
           | Inl _ \<Rightarrow> [failed_gate ''operational_acceptance'' ''unavailable'' True])))"

text \<open>The revision is bound only when the fingerprints before and after the gates agree and every
  required gate is green.\<close>

definition bind_revision :: "quality_gate list \<Rightarrow> string \<Rightarrow> string option \<Rightarrow>
    quality_gate list \<times> string option" where
  "bind_revision gates before after = (case after of
       None \<Rightarrow> (gates @ integrity_failure ''workspace inspection failed'', None)
     | Some a \<Rightarrow>
       if before \<noteq> a then (gates @ integrity_failure workspace_mutated_detail, None)
       else if \<not> list_all is_green (filter gate_required gates) then (gates, None)
       else (gates, Some a))"

definition validate_revision :: "env \<Rightarrow> 'w tracker \<Rightarrow> agent_run \<Rightarrow>
    ('w, quality_gate list \<times> string option) call" where
  "validate_revision env tr run = andthen (tasks_get env (run_task_id run)) (\<lambda>task.
     case (run_workspace run, task, tr_provisioner tr) of
       (Some w, Some t, Some pv) \<Rightarrow>
         andthen (attempt (external (pv_repair pv t w))) (\<lambda>repaired. case repaired of
           Inl _ \<Rightarrow> ret (integrity_failure ''workspace repair failed'', None)
         | Inr w' \<Rightarrow>
           if w' \<noteq> w \<or> ws_repository w \<noteq> task_repository t
           then ret (integrity_failure ''workspace identity mismatch'', None)
           else andthen (fingerprint tr w) (\<lambda>before. case before of
               None \<Rightarrow> ret (integrity_failure ''workspace inspection failed'', None)
             | Some b \<Rightarrow>
               andthen (evaluate_gates env tr run) (\<lambda>gates.
               andthen (fingerprint tr w) (\<lambda>after. ret (bind_revision gates b after)))))
     | _ \<Rightarrow> ret (integrity_failure ''workspace repair unavailable'', None))"

text \<open>The gates and the revision of a successful run, by the kind of its task.\<close>

definition validated :: "env \<Rightarrow> 'w tracker \<Rightarrow> agent_run \<Rightarrow> ('w, agent_run) call" where
  "validated env tr run = andthen (tasks_get env (run_task_id run)) (\<lambda>task.
     case task of
       Some t \<Rightarrow> if task_kind t = OPERATIONAL
         then andthen (validate_operational tr t run) (\<lambda>gates. ret (run\<lparr>run_gates := gates\<rparr>))
         else andthen (validate_revision env tr run) (\<lambda>(gates, bound).
           ret (run\<lparr>run_gates := gates, run_validated_revision := bound\<rparr>))
     | None \<Rightarrow> andthen (validate_revision env tr run) (\<lambda>(gates, bound).
           ret (run\<lparr>run_gates := gates, run_validated_revision := bound\<rparr>)))"

definition runs_update :: "env \<Rightarrow> agent_run \<Rightarrow> ('w, agent_run) call" where
  "runs_update env run = db_write env (\<lambda>now ids. update_run now run)"

section \<open>Driving the task\<close>

fun terminal_target :: "run_status \<Rightarrow> task_status option" where
  "terminal_target Run_SUCCEEDED = Some Task_VALIDATING"
| "terminal_target Run_FAILED = Some Task_FAILED"
| "terminal_target Run_CANCELLED = Some Task_CANCELLED"
| "terminal_target _ = None"

definition follows_failed_gates :: "agent_run list \<Rightarrow> agent_run \<Rightarrow> bool" where
  "follows_failed_gates runs run \<longleftrightarrow> 2 \<le> length runs \<and> run_id (last runs) = run_id run \<and>
     (let previous = runs ! (length runs - 2)
      in validation_outcome previous = GATES_FAILED \<and> run_workspace previous = run_workspace run)"

definition drive_target :: "env \<Rightarrow> agent_run \<Rightarrow> task_status \<Rightarrow> ('w, task_status) call" where
  "drive_target env run target =
     (if run_status run \<noteq> Run_FAILED then ret target
      else andthen (db_read env (\<lambda>d. latest_rework_feedback d (run_task_id run))) (\<lambda>fb.
        if fb \<noteq> None then ret Task_BLOCKED
        else andthen (db_read env (\<lambda>d. list_runs d (Some (run_task_id run)))) (\<lambda>runs.
          ret (if follows_failed_gates runs run then Task_BLOCKED else target))))"

definition drive_task :: "env \<Rightarrow> agent_run \<Rightarrow> ('w, unit) call" where
  "drive_task env run = (case terminal_target (run_status run) of None \<Rightarrow> ret ()
     | Some target0 \<Rightarrow>
       andthen (drive_target env run target0) (\<lambda>target.
       andthen (tasks_get env (run_task_id run)) (\<lambda>task. case task of None \<Rightarrow> ret ()
       | Some t \<Rightarrow> if task_status t = target then ret ()
         else on_error (andthen (transition env (run_task_id run) target None) (\<lambda>_. ret ()))
                (\<lambda>e. case e of InvalidTransitionError _ _ \<Rightarrow> ret () | _ \<Rightarrow> raise e))))"

definition is_latest_run :: "env \<Rightarrow> agent_run \<Rightarrow> ('w, bool) call" where
  "is_latest_run env run = db_read env (\<lambda>d. case list_runs d (Some (run_task_id run)) of [] \<Rightarrow> False
     | r # rs \<Rightarrow> run_id (last (r # rs)) = run_id run)"

definition can_revalidate :: "env \<Rightarrow> 'w tracker \<Rightarrow> agent_run \<Rightarrow> ('w, bool) call" where
  "can_revalidate env tr run = andthen (tasks_get env (run_task_id run)) (\<lambda>task.
     case (task, run_workspace run, tr_sink tr) of
       (Some t, Some w, Some sink) \<Rightarrow>
         if task_status t \<noteq> Task_VALIDATING \<or> run_validated_revision run \<noteq> None \<or>
            run_gates run = [] \<or> \<not> required_gates_passed run \<or> \<not> tr_pull_requests tr
         then ret False
         else andthen (db_read env (\<lambda>d. get_for_run d (run_id run))) (\<lambda>stored.
           if stored \<noteq> None then ret False
           else andthen (db_read env (\<lambda>d. find_by_branch d (ws_repository w) (ws_branch w))) (\<lambda>branch.
             if branch \<noteq> None then ret False
             else andthen (from_outcome (target_repository (task_repository t))) (\<lambda>repo.
               andthen (case tr_registry tr of None \<Rightarrow> ret (tr_base_branch tr)
                  | Some reg \<Rightarrow> andthen (from_outcome
                       (resolve_project reg (task_project t) (Some (task_repository t))))
                       (\<lambda>p. ret (prof_base_ref p))) (\<lambda>base.
               andthen (external (sink repo (ws_branch w) base)) (\<lambda>found. ret (found = None))))))
     | _ \<Rightarrow> ret False)"

definition revalidation_due :: "env \<Rightarrow> 'w tracker \<Rightarrow> agent_run \<Rightarrow> ('w, bool) call" where
  "revalidation_due env tr run =
     (if run_status run \<noteq> Run_SUCCEEDED then ret False
      else andthen (if run_gates run = []
                    then andthen (specs_for env tr run)
                      (\<lambda>specs. ret (specs \<noteq> [] \<and> run_validated_revision run = None))
                    else ret False)
        (\<lambda>unvalidated. if unvalidated then ret True else can_revalidate env tr run))"

text \<open>\<open>_reconcile_terminal\<close> returns the run object, which a revalidation rewrites in place.\<close>

definition reconcile_terminal :: "env \<Rightarrow> 'w tracker \<Rightarrow> agent_run \<Rightarrow> ('w, agent_run) call" where
  "reconcile_terminal env tr run =
     andthen (is_latest_run env run) (\<lambda>latest. if \<not> latest then ret run
     else andthen (revalidation_due env tr run) (\<lambda>due.
       andthen (if due then andthen (validated env tr run) (runs_update env) else ret run) (\<lambda>run'.
       andthen (drive_task env run') (\<lambda>_. ret run'))))"

definition refresh_result :: "env \<Rightarrow> agent_run \<Rightarrow> ('w, run_refresh) call" where
  "refresh_result env run = andthen (tasks_get env (run_task_id run)) (\<lambda>task.
     ret \<lparr>ref_run = run,
          ref_task_status = (case task of None \<Rightarrow> Task_DISCOVERED | Some t \<Rightarrow> task_status t),
          ref_outcome = validation_outcome run\<rparr>)"

definition heartbeat_due :: "'w tracker \<Rightarrow> int \<Rightarrow> int option \<Rightarrow> bool" where
  "heartbeat_due tr now beat = (case beat of None \<Rightarrow> True
     | Some b \<Rightarrow> tr_heartbeat_interval tr \<le> now - b)"

definition observe_heartbeat :: "env \<Rightarrow> 'w tracker \<Rightarrow> 'w adapter \<Rightarrow> agent_run \<Rightarrow> ('w, agent_run) call" where
  "observe_heartbeat env tr ad run =
     (if run_status run \<notin> {Run_PENDING, Run_RUNNING} then ret run
      else andthen (clock env) (\<lambda>now.
        let run1 = (if heartbeat_due tr now (run_last_heartbeat run)
                    then run\<lparr>run_last_heartbeat := Some now\<rparr> else run)
        in case ad_heartbeat ad of None \<Rightarrow> ret run1
           | Some beat \<Rightarrow> if heartbeat_due tr now (run_agent_heartbeat run1)
               then andthen (external (beat run1)) (\<lambda>b. ret (run1\<lparr>run_agent_heartbeat := b\<rparr>))
               else ret run1))"

definition refresh :: "env \<Rightarrow> 'w tracker \<Rightarrow> string \<Rightarrow> 'w adapter \<Rightarrow> ('w, run_refresh) call" where
  "refresh env tr rid ad =
     andthen (db_read env (\<lambda>d. get_run d rid)) (\<lambda>found. case found of
       None \<Rightarrow> raise (KeyError rid)
     | Some run \<Rightarrow>
       andthen (check (run_adapter run = ad_kind ad) (AgentCollectError (run_id run) (run_task_id run))) (\<lambda>_.
       if is_terminal run
       then andthen (reconcile_terminal env tr run) (refresh_result env)
       else
         andthen (attempt (external (ad_collect ad run))) (\<lambda>collected. case collected of
           Inl _ \<Rightarrow> raise (AgentCollectError (run_id run) (run_task_id run))
         | Inr run1 \<Rightarrow>
           andthen (observe_heartbeat env tr ad run1) (\<lambda>run2.
           andthen (if run_status run2 = Run_SUCCEEDED then validated env tr run2 else ret run2) (\<lambda>run3.
           andthen (runs_update env run3) (\<lambda>_.
           andthen (drive_task env run3) (\<lambda>_. refresh_result env run3)))))))"

end
