(* ===== verification/Tracking_Facts.thy ===== *)
theory Tracking_Facts
  imports Tracking_Service
begin

text \<open>
  What tracking guarantees: every refresh is a historical step, a revision is bound only when every
  configured required gate is green and the workspace did not change, a failed collection
  persists nothing, and driving a task from a terminal run is idempotent.
\<close>

section \<open>Soundness\<close>

lemma external_historical:
  "keeps (on_db historical_step) (external p)" "keeps (on_db historical_step) (clock env)"
  "keeps (on_db historical_step) (fresh_id env)"
  using keeps_world [where R = historical_step] historical.R_refl by blast+

lemma read_historical:
  "others_recorded env \<Longrightarrow> keeps (on_db historical_step) (db_read env f)"
  "others_recorded env \<Longrightarrow> keeps (on_db historical_step) (tasks_get env tid)"
  by (simp_all add: tasks_get_def keeps_db_read others_historical)

lemmas historical_intros = sys_historical.keeps_basic external_historical read_historical
  keeps_attempt keeps_case_sum

lemma specs_for_historical: "others_recorded env \<Longrightarrow> keeps (on_db historical_step) (specs_for env tr run)"
  unfolding specs_for_def Let_def by (intro historical_intros)

lemma run_gates_in_historical: "keeps (on_db historical_step) (run_gates_in runner specs w)"
  by (induction specs)
    (simp_all add: run_gate_def historical_intros sys_historical.keeps_andthen)

lemma fingerprint_historical: "keeps (on_db historical_step) (fingerprint tr w)"
  unfolding fingerprint_def by (intro historical_intros)

lemma evaluate_gates_historical:
  "others_recorded env \<Longrightarrow> keeps (on_db historical_step) (evaluate_gates env tr run)"
  unfolding evaluate_gates_def
  by (intro historical_intros specs_for_historical run_gates_in_historical)

lemma validated_historical:
  assumes "others_recorded env" shows "keeps (on_db historical_step) (validated env tr run)"
  unfolding validated_def validate_revision_def validate_operational_def
  by (intro historical_intros evaluate_gates_historical fingerprint_historical assms)

lemma runs_update_historical:
  assumes "others_recorded env" shows "keeps (on_db historical_step) (runs_update env run)"
  unfolding runs_update_def by (rule historical_write [OF assms]) (rule update_run_historical)

lemma drive_task_historical:
  assumes "others_recorded env" shows "keeps (on_db historical_step) (drive_task env run)"
  unfolding drive_task_def drive_target_def
  by (intro historical_intros transition_historical assms)
    (auto intro: historical_intros split: py_error.splits)

lemma reconcile_terminal_historical:
  assumes "others_recorded env" shows "keeps (on_db historical_step) (reconcile_terminal env tr run)"
  unfolding reconcile_terminal_def is_latest_run_def revalidation_due_def can_revalidate_def
  by (intro historical_intros specs_for_historical validated_historical runs_update_historical
      drive_task_historical assms)

lemma refresh_historical:
  assumes "others_recorded env" shows "keeps (on_db historical_step) (refresh env tr rid ad)"
  unfolding refresh_def refresh_result_def observe_heartbeat_def Let_def
  by (intro historical_intros reconcile_terminal_historical validated_historical
      runs_update_historical drive_task_historical assms)

section \<open>Binding a revision\<close>

lemma gate_result_identity:
  "gate_name (gate_result spec g) = spec_name spec \<and> gate_required (gate_result spec g) = spec_required spec"
  by (simp add: gate_result_def failed_gate_def Let_def)

lemma run_gates_in_names:
  "wp (run_gates_in runner specs w) (\<lambda>gs _. map (\<lambda>g. (gate_name g, gate_required g)) gs =
     map (\<lambda>s. (spec_name s, spec_required s)) specs) (\<lambda>_ _. True) s"
proof (induction specs arbitrary: s)
  case (Cons spec specs)
  have "wp (run_gate runner spec w) (\<lambda>g _. gate_name g = spec_name spec \<and>
      gate_required g = spec_required spec) (\<lambda>_ _. True) s"
    unfolding run_gate_def wp_simps
    by (auto simp: gate_result_identity failed_gate_def split: prod.splits sum.splits)
  then show ?case
    unfolding run_gates_in.simps wp_simps
    by (rule wp_mono) (auto intro: wp_mono [OF Cons.IH])
qed (simp add: wp_simps)

lemma evaluate_gates_names:
  assumes "evaluate_gates env tr run s = (Inr gates, s')"
  obtains specs u where "specs_for env tr run s = (Inr specs, u)"
    "map (\<lambda>g. (gate_name g, gate_required g)) gates = map (\<lambda>s. (spec_name s, spec_required s)) specs"
proof -
  obtain specs u where sp: "specs_for env tr run s = (Inr specs, u)"
    and rest: "(if specs = [] then ret []
      else case (run_workspace run, tr_gate_runner tr) of
       (Some w, Some runner) \<Rightarrow> run_gates_in runner specs w
     | _ \<Rightarrow> ret (map (\<lambda>s. failed_gate (spec_name s) ''no_workspace'' (spec_required s)) specs)) u = (Inr gates, s')"
    using assms by (auto simp: evaluate_gates_def andthen_def split: prod.splits sum.splits)
  have "wp (if specs = [] then ret []
      else case (run_workspace run, tr_gate_runner tr) of
       (Some w, Some runner) \<Rightarrow> run_gates_in runner specs w
     | _ \<Rightarrow> ret (map (\<lambda>s. failed_gate (spec_name s) ''no_workspace'' (spec_required s)) specs))
     (\<lambda>gs _. map (\<lambda>g. (gate_name g, gate_required g)) gs =
        map (\<lambda>s. (spec_name s, spec_required s)) specs) (\<lambda>_ _. True) u"
    by (auto simp: wp_simps failed_gate_def run_gates_in_names split: option.splits)
  from wpD_Inr [OF this rest] sp show thesis by (rule that [rotated])
qed

text \<open>The gates of the configuration are among those asked for, without a project registry.\<close>

lemma specs_configured:
  "specs_for env tr run s = (Inr specs, u) \<Longrightarrow> tr_registry tr = None \<Longrightarrow> set (tr_gate_specs tr) \<subseteq> set specs"
  by (auto simp: specs_for_def Let_def andthen_def ret_def split: prod.splits sum.splits)

lemma bind_revision_bound:
  assumes "bind_revision gates before after = (gates', Some v)"
  shows "gates' = gates \<and> after = Some v \<and> before = v \<and> list_all is_green (filter gate_required gates)"
  using assms by (auto simp: bind_revision_def split: option.splits if_splits)

lemma validate_revision_binds:
  assumes "validate_revision env tr run s = (Inr (gates, Some revision), s')"
  obtains w s0 s1 s2 where "run_workspace run = Some w" "fingerprint tr w s0 = (Inr (Some revision), s1)"
    "evaluate_gates env tr run s1 = (Inr gates, s2)" "fingerprint tr w s2 = (Inr (Some revision), s')"
    "list_all is_green (filter gate_required gates)"
proof -
  obtain w s0 s1 s2 b gs after where *: "run_workspace run = Some w" "fingerprint tr w s0 = (Inr (Some b), s1)"
    "evaluate_gates env tr run s1 = (Inr gs, s2)" "fingerprint tr w s2 = (Inr after, s')"
    "bind_revision gs b after = (gates, Some revision)"
    using assms
    by (auto simp: validate_revision_def andthen_def ret_def integrity_failure_def
        split: prod.splits sum.splits option.splits if_splits)
  show thesis using * bind_revision_bound [OF *(5)] by (intro that) auto
qed

section \<open>Driving the task\<close>

definition drive_goal :: "store \<Rightarrow> agent_run \<Rightarrow> task_status \<Rightarrow> task_status" where
  "drive_goal d run target =
     (if run_status run = Run_FAILED \<and> (latest_rework_feedback d (run_task_id run) \<noteq> None \<or>
         follows_failed_gates (list_runs d (Some (run_task_id run))) run)
      then Task_BLOCKED else target)"

text \<open>Nothing is left to do: no terminal status, no task, the goal reached, or not reachable.\<close>

definition settled :: "store \<Rightarrow> agent_run \<Rightarrow> bool" where
  "settled d run \<longleftrightarrow> (case terminal_target (run_status run) of None \<Rightarrow> True
     | Some target \<Rightarrow> (case get_task d (run_task_id run) of None \<Rightarrow> True
       | Some t \<Rightarrow> task_status t = drive_goal d run target \<or>
           \<not> can_transition (task_status t) (drive_goal d run target)))"

lemma drive_goal_cong:
  assumes "db_runs d' = db_runs d" "db_workspaces d' = db_workspaces d" "db_rework d' = db_rework d"
  shows "drive_goal d' run target = drive_goal d run target"
proof -
  have w: "workspace_row d' = workspace_row d"
    using assms by (simp add: workspace_row_def fun_eq_iff)
  have "list_runs d' = list_runs d"
    by (intro ext) (simp add: list_runs_def run_rows_for_def row_to_run_def w assms)
  then show ?thesis using assms by (simp add: drive_goal_def latest_rework_feedback_def)
qed

lemma drive_target_wp:
  assumes "quiet env" "\<And>s'. sys_db s' = sys_db s \<Longrightarrow> Q (drive_goal (sys_db s) run target) s'"
  shows "wp (drive_target env run target) Q E s"
  unfolding drive_target_def wp_simps
  using assms by (auto simp: drive_goal_def wp_simps)

text \<open>What a drive leaves behind: a settled task, unchanged or in a status a run may drive it to.\<close>

definition driven :: "store \<Rightarrow> agent_run \<Rightarrow> store \<Rightarrow> bool" where
  "driven d run d' \<longleftrightarrow> settled d' run \<and>
     (d' = d \<or> map_option task_status (get_task d' (run_task_id run)) \<in>
        Some ` {Task_VALIDATING, Task_FAILED, Task_CANCELLED, Task_BLOCKED})"

lemma driven_unchanged: "settled d run \<Longrightarrow> driven d run d"
  by (simp add: driven_def)

lemma settled_no_task: "get_task d (run_task_id run) = None \<Longrightarrow> settled d run"
  by (simp add: settled_def split: option.splits)

lemma settled_at_goal:
  "terminal_target (run_status run) = Some target \<Longrightarrow> get_task d (run_task_id run) = Some t \<Longrightarrow>
    task_status t = drive_goal d run target \<or> \<not> can_transition (task_status t) (drive_goal d run target) \<Longrightarrow>
    settled d run"
  by (auto simp: settled_def)

lemma drive_task_settles:
  fixes s :: "'w sys"
  assumes "quiet env"
  shows "wp (drive_task env run) (\<lambda>_ s'. driven (sys_db s) run (sys_db s'))
     (\<lambda>_ s'. sys_db s' = sys_db s) s"
proof (cases "terminal_target (run_status run)")
  case None
  then show ?thesis by (simp add: drive_task_def wp_simps driven_def settled_def)
next
  case (Some target)
  let ?tid = "run_task_id run" and ?goal = "drive_goal (sys_db s) run target"
  have goal: "?goal \<in> {Task_VALIDATING, Task_FAILED, Task_CANCELLED, Task_BLOCKED}"
    using Some by (cases "run_status run") (auto simp: drive_goal_def)
  have tr: "wp (transition env ?tid ?goal None) (\<lambda>_ s'. driven (sys_db s) run (sys_db s'))
      (\<lambda>e. wp (case e of InvalidTransitionError _ _ \<Rightarrow> ret () | _ \<Rightarrow> raise e)
         (\<lambda>_ s'. driven (sys_db s) run (sys_db s')) (\<lambda>_ s'. sys_db s' = sys_db s)) u"
    if u: "sys_db u = sys_db s" and t: "get_task (sys_db s) ?tid = Some t" "task_status t \<noteq> ?goal"
    for u :: "'w sys" and t
  proof (rule wp_mono [OF transition_quiet_from [OF assms, of u ?tid t ?goal]])
    show "get_task (sys_db u) ?tid = Some t" "task_status t \<noteq> ?goal" using u t by simp_all
    fix t' and s' :: "'w sys"
    assume "can_transition (task_status t) ?goal \<and> (\<exists>now uid. apply_transition (env_max_claims env)
            now uid ?tid (task_status t) ?goal (sys_db u) = Inr (t', sys_db s'))"
    then obtain now uid where a: "apply_transition (env_max_claims env) now uid ?tid (task_status t)
        ?goal (sys_db s) = Inr (t', sys_db s')"
      using u by auto
    note f = apply_transition_frame [OF a]
    have "settled (sys_db s') run"
      using f drive_goal_cong [OF f(1,2,4)] by (intro settled_at_goal [OF Some f(5)]) simp
    then show "driven (sys_db s) run (sys_db s')" using f goal by (auto simp: driven_def)
  next
    fix x and s' :: "'w sys"
    assume "sys_db s' = sys_db u \<and>
        (\<forall>a b. x = InvalidTransitionError a b \<longrightarrow> \<not> can_transition (task_status t) ?goal)"
    then show "wp (case x of InvalidTransitionError _ _ \<Rightarrow> ret () | _ \<Rightarrow> raise x)
         (\<lambda>_ s'. driven (sys_db s) run (sys_db s')) (\<lambda>_ s'. sys_db s' = sys_db s) s'"
      using u settled_at_goal [OF Some t(1)]
      by (auto simp: wp_simps driven_unchanged split: py_error.splits)
  qed
  show ?thesis
    unfolding drive_task_def Some option.case wp_andthen
    by (rule drive_target_wp [OF assms])
      (use assms in \<open>auto simp: wp_simps driven_unchanged settled_no_task settled_at_goal [OF Some]
         split: option.splits intro!: tr\<close>)
qed

lemma drive_task_done:
  assumes "quiet env" "settled (sys_db s) run"
  shows "wp (drive_task env run) (\<lambda>_ s'. sys_db s' = sys_db s) (\<lambda>_ _. False) s"
proof (cases "terminal_target (run_status run)")
  case None
  then show ?thesis by (simp add: drive_task_def wp_simps)
next
  case (Some target)
  let ?tid = "run_task_id run" and ?goal = "drive_goal (sys_db s) run target"
  have tr: "wp (transition env ?tid ?goal None) (\<lambda>_ s'. sys_db s' = sys_db s)
      (\<lambda>e. wp (case e of InvalidTransitionError _ _ \<Rightarrow> ret () | _ \<Rightarrow> raise e)
         (\<lambda>_ s'. sys_db s' = sys_db s) (\<lambda>_ _. False)) u"
    if "sys_db u = sys_db s" "get_task (sys_db s) ?tid = Some t" "task_status t \<noteq> ?goal" for u t
  proof -
    have "\<not> can_transition (task_status t) ?goal"
      using assms(2) that Some by (simp add: settled_def)
    then show ?thesis
      unfolding transition_def lifecycle_transition_def Let_def wp_simps
      using that assms(1) by (simp add: can_apply_def wp_simps)
  qed
  show ?thesis
    unfolding drive_task_def Some option.case wp_andthen
    by (rule drive_target_wp [OF assms(1)])
      (use assms Some in \<open>auto simp: wp_simps settled_def split: option.splits intro!: tr\<close>)
qed

section \<open>Calls that write nothing\<close>

interpretation sys_same: preorder_relation "on_db (=)"
  by unfold_locales (simp_all add: on_db_def)

lemma others_same: "quiet env \<Longrightarrow> others_respect (=) env"
  by (simp add: others_respect_def quiet_def run_ops_def)

lemma external_same: "keeps (on_db (=)) (external p)" "keeps (on_db (=)) (clock env)"
  using keeps_world [where R = "(=)"] by blast+

lemma read_same:
  "quiet env \<Longrightarrow> keeps (on_db (=)) (db_read env f)"
  "quiet env \<Longrightarrow> keeps (on_db (=)) (tasks_get env tid)"
  by (simp_all add: tasks_get_def keeps_db_read others_same)

lemmas same_intros = sys_same.keeps_basic external_same read_same keeps_attempt keeps_case_sum

lemma run_gates_in_same: "keeps (on_db (=)) (run_gates_in runner specs w)"
  by (induction specs) (simp_all add: run_gate_def same_intros sys_same.keeps_andthen)

lemma specs_for_same: "quiet env \<Longrightarrow> keeps (on_db (=)) (specs_for env tr run)"
  unfolding specs_for_def Let_def by (intro same_intros)

lemma validated_same:
  assumes "quiet env" shows "keeps (on_db (=)) (validated env tr run)"
  unfolding validated_def validate_revision_def validate_operational_def evaluate_gates_def fingerprint_def
  by (intro same_intros run_gates_in_same specs_for_same assms)

lemma revalidation_due_same:
  assumes "quiet env" shows "keeps (on_db (=)) (revalidation_due env tr run)"
  unfolding revalidation_due_def can_revalidate_def
  by (intro same_intros specs_for_same assms)

lemma observe_heartbeat_same: "keeps (on_db (=)) (observe_heartbeat env tr ad run)"
  unfolding observe_heartbeat_def Let_def by (intro same_intros)

lemma wp_same: "keeps (on_db (=)) m \<Longrightarrow> wp m (\<lambda>_ s'. sys_db s' = sys_db s) (\<lambda>_ s'. sys_db s' = sys_db s) s"
  by (rule wpI) (auto dest: keepsD simp: on_db_def)

lemma drive_task_error: "wp (drive_task env run) (\<lambda>_ _. True) (\<lambda>e _. lifecycle_error e) s"
proof -
  have tgt: "(\<And>a v. Q a v) \<Longrightarrow> wp (drive_target env run target) Q E u" for target Q E u
    by (simp add: drive_target_def wp_simps)
  show ?thesis
    unfolding drive_task_def
    by (auto simp: wp_simps intro!: tgt wp_mono [OF transition_outcome]
        split: option.splits py_error.splits)
qed

text \<open>A collection that fails persists nothing.\<close>

lemma update_run_error: "update_run now run d = Inl e \<Longrightarrow> e \<noteq> AgentCollectError a b"
  by (auto simp: update_run_def Let_def audit_run_finish_def tx_step_eq_Inl
      split: option.splits if_splits dest: audit_insert_error)

lemma wp_conj:
  "wp m Q E s \<Longrightarrow> wp m Q' E' s \<Longrightarrow> wp m (\<lambda>a s. Q a s \<and> Q' a s) (\<lambda>e s. E e s \<and> E' e s) s"
  by (simp add: wp_def split: prod.splits sum.splits)

text \<open>\<open>unwritten x s0\<close>: when the exception \<open>x\<close> ends the call, the store is still that of \<open>s0\<close>.\<close>

definition unwritten :: "py_error \<Rightarrow> store \<Rightarrow> py_error \<Rightarrow> 'w sys \<Rightarrow> bool" where
  "unwritten x d e s \<longleftrightarrow> (e = x \<longrightarrow> sys_db s = d)"

lemma refresh_collect_failure:
  assumes "quiet env"
  shows "wp (refresh env tr rid ad) (\<lambda>_ _. True) (unwritten (AgentCollectError a b) (sys_db s)) s"
proof -
  let ?E = "unwritten (AgentCollectError a b) (sys_db s)"
  have res: "wp (refresh_result env r) (\<lambda>_ _. True) ?E u" for r u
    by (simp add: refresh_result_def wp_simps)
  have drive: "wp (andthen (drive_task env r) (\<lambda>_. k)) (\<lambda>_ _. True) ?E u"
    if "\<And>u. wp k (\<lambda>_ _. True) ?E u" for r k u
    unfolding wp_andthen
    by (rule wp_mono [OF drive_task_error]) (use that in \<open>auto simp: unwritten_def\<close>)
  have upd: "wp (andthen (runs_update env r) k) (\<lambda>_ _. True) ?E u"
    if "\<And>x u. wp (k x) (\<lambda>_ _. True) ?E u" for r k u
    unfolding runs_update_def wp_simps using that
    by (auto simp: unwritten_def split: sum.splits prod.splits dest: update_run_error)
  have here: "wp m Q ?E u"
    if "keeps (on_db (=)) m" "sys_db u = sys_db s" "\<And>x u. sys_db u = sys_db s \<Longrightarrow> Q x u"
    for m :: "('w, 'r) call" and Q u
    by (rule wp_mono [OF wp_same [OF that(1)]]) (use that(2,3) in \<open>auto simp: unwritten_def\<close>)
  have same: "wp (andthen m k) (\<lambda>_ _. True) ?E u"
    if "keeps (on_db (=)) m" "sys_db u = sys_db s" "\<And>x u. sys_db u = sys_db s \<Longrightarrow> wp (k x) (\<lambda>_ _. True) ?E u"
    for m :: "('w, 'r) call" and k :: "'r \<Rightarrow> ('w, run_refresh) call" and u
    unfolding wp_andthen by (rule here [OF that])
  have latest: "keeps (on_db (=)) (is_latest_run env r :: ('w, bool) call)" for r
    unfolding is_latest_run_def by (intro read_same [OF assms])
  have fin: "wp (andthen (reconcile_terminal env tr r) (refresh_result env)) (\<lambda>_ _. True) ?E u"
    if "sys_db u = sys_db s" for r u
  proof -
    have d: "wp (andthen (drive_task env r') (\<lambda>_. ret r')) (\<lambda>a. wp (refresh_result env a) (\<lambda>_ _. True) ?E) ?E u"
      for r' u
      unfolding wp_andthen wp_ret
      by (rule wp_mono [OF drive_task_error]) (use res in \<open>auto simp: unwritten_def\<close>)
    have w: "wp (runs_update env x) (\<lambda>r'. wp (andthen (drive_task env r') (\<lambda>_. ret r'))
        (\<lambda>a. wp (refresh_result env a) (\<lambda>_ _. True) ?E) ?E) ?E u" for x u
      unfolding runs_update_def
      using d by (auto simp: wp_db_write unwritten_def split: sum.splits dest: update_run_error)
    show ?thesis
      unfolding wp_andthen reconcile_terminal_def
      apply (rule here [OF latest that])
      apply (simp only: wp_if wp_andthen wp_ret split: if_split)
      apply (intro conjI impI)
       apply (rule res)
      apply (rule here [OF revalidation_due_same [OF assms]], assumption)
      apply (simp only: wp_if wp_andthen split: if_split)
      apply (intro conjI impI)
       apply (rule here [OF validated_same [OF assms]], assumption)
       apply (rule w)
      apply (subst wp_ret)
      by (rule d)
  qed
  show ?thesis
    unfolding refresh_def
    apply (rule same [OF read_same(1) [OF assms] refl])
    subgoal for found u
      apply (cases found)
       apply (simp add: wp_simps unwritten_def)
      apply (simp only: option.case)
      apply (rule same [OF sys_same.keeps_check], assumption)
      subgoal for run _ v
        apply (simp only: wp_if split: if_split)
        apply (intro conjI impI)
        subgoal by (rule fin)
        apply (rule same [OF keeps_attempt [OF external_same(1)]], assumption)
        subgoal for r w
          apply (cases r)
           apply (simp add: wp_simps unwritten_def)
          apply (simp only: sum.case)
          apply (rule same [OF observe_heartbeat_same], assumption)
          apply (rule same [OF sys_same.keeps_if [OF validated_same [OF assms] sys_same.keeps_ret]], assumption)
          apply (rule upd)
          apply (rule drive)
          by (rule res)
        done
      done
    done
qed

end
