(* ===== verification/Sample_Data.thy ===== *)
theory Sample_Data
  imports Recovery_Service Tracking_Facts
begin

text \<open>
  Concrete tasks, runs, pull requests, stores and environments, at which the properties are
  instantiated.  The stores are built by running the operations of the repositories, so every
  fact about reachable stores applies to them.
\<close>

definition sample_task :: "string \<Rightarrow> task_status \<Rightarrow> factory_task" where
  "sample_task tid st = \<lparr>task_title = ''t'', task_repository = ''o/r'', task_source = None,
     task_id = tid, task_body = [], task_status = st, task_labels = [], task_kind = CODE,
     task_blocked_reason = None, task_created_at = 1, task_updated_at = 1, task_project = ''p''\<rparr>"

definition sample_workspace :: workspace where
  "sample_workspace = \<lparr>ws_id = ''w'', ws_repository = ''o/r'', ws_branch = ''b'', ws_path = ''/w'',
     ws_kind = CODE, ws_created_at = 1\<rparr>"

definition sample_run :: "string \<Rightarrow> run_status \<Rightarrow> agent_run" where
  "sample_run rid st = \<lparr>run_task_id = ''a'', run_adapter = CODEX, run_id = rid, run_status = st,
     run_workspace = Some sample_workspace, run_summary = None, run_started_at = Some 2,
     run_last_heartbeat = None, run_agent_heartbeat = None, run_finished_at = None, run_gates = [],
     run_validated_revision = None, run_context_pack = None, run_project = ''p'',
     run_worker_id = None, run_session_id = None\<rparr>"

definition sample_pr :: pull_request where
  "sample_pr = \<lparr>pr_repository = ''o/r'', pr_head_branch = ''b'', pr_base_branch = ''main'',
     pr_title = ''t'', pr_body = [], pr_number = Some 7, pr_url = Some ''u'',
     pr_task_id = Some ''a'', pr_run_id = Some ''r'', pr_opened_at = 3, pr_merged = False,
     pr_commit_sha = Some ''c''\<rparr>"

definition sample_item :: work_item where
  "sample_item = \<lparr>item_provider = ''trello'', item_external_id = ''x'', item_title = ''t'',
     item_body = [], item_repository = ''o/r'', item_eligible = True,
     item_dependencies_satisfied = True, item_project = ''p''\<rparr>"

definition sample_manifest :: sprint_manifest where
  "sample_manifest = \<lparr>man_sprint_id = ''s'', man_steps = [\<lparr>step_item = sample_item,
     step_dependencies = []\<rparr>], man_wip_limit = 1, man_stop_conditions = STOP_CONDITIONS,
     man_pipeline = PIPELINE\<rparr>"

text \<open>One task, claimed and running, with one active run.\<close>

definition task_ops :: "store_op list" where
  "task_ops = [Save_task (sample_task ''a'' Task_READY)]"

definition claim_ops :: "store_op list" where
  "claim_ops = task_ops @ [Apply_transition 1 2 ''t1'' ''a'' Task_READY Task_CLAIMED]"

definition run_created_ops :: "store_op list" where
  "run_created_ops = claim_ops @ [Save_run 3 (sample_run ''r'' Run_RUNNING)]"

definition plan_ops :: "store_op list" where
  "plan_ops = [Reserve sample_item, Begin_write sample_item, Authorize_sprint 1 sample_manifest]"

lemma reachable_run_ops: "reachable (run_ops ops empty_store)"
proof (induction ops rule: rev_induct)
  case Nil
  then show ?case by (simp add: run_ops_def reachable_empty)
next
  case (snoc x xs)
  then show ?case using reachable_op by (simp add: run_ops_def)
qed

lemma recorded_run_ops:
  "list_all (\<lambda>oper. \<not> status_blind oper) ops \<Longrightarrow> recorded_reachable (run_ops ops empty_store)"
proof (induction ops rule: rev_induct)
  case Nil
  then show ?case by (simp add: run_ops_def recorded_empty)
next
  case (snoc x xs)
  then show ?case using recorded_op by (simp add: run_ops_def)
qed

text \<open>A process that runs alone, with a constant clock and numbered identifiers.\<close>

definition sample_env :: env where
  "sample_env = \<lparr>env_now = (\<lambda>_. 10), env_uuid = (\<lambda>n k. ''u'' @ decimal n @ ''-'' @ decimal k),
     env_other = (\<lambda>_. []), env_max_claims = 1\<rparr>"

definition sample_sys :: "store \<Rightarrow> unit sys" where
  "sample_sys d = \<lparr>sys_db = d, sys_world = (), sys_tick = 0\<rparr>"

lemma quiet_sample [simp]: "quiet sample_env"
  by (simp add: quiet_def sample_env_def)

lemma sys_db_sample [simp]: "sys_db (sample_sys d) = d"
  by (simp add: sample_sys_def)

text \<open>An engine that starts run \<open>r\<close> and reports it succeeded on collection, and one that fails.\<close>

definition sample_adapter :: "unit adapter" where
  "sample_adapter = \<lparr>ad_kind = CODEX,
     ad_dispatch = (\<lambda>t w pack u. (Inr (sample_run ''r'' Run_RUNNING), u)),
     ad_collect = (\<lambda>run u. (Inr (run\<lparr>run_status := Run_SUCCEEDED\<rparr>), u)), ad_heartbeat = None\<rparr>"

definition broken_adapter :: "unit adapter" where
  "broken_adapter = \<lparr>ad_kind = CODEX, ad_dispatch = (\<lambda>t w pack u. (Inl (OtherError ''x''), u)),
     ad_collect = (\<lambda>run u. (Inl (OtherError ''x''), u)), ad_heartbeat = None\<rparr>"

definition sample_provisioner :: "unit provisioner" where
  "sample_provisioner = \<lparr>pv_prepare = (\<lambda>t w u. (Inr w, u)), pv_repair = (\<lambda>t w u. (Inr w, u))\<rparr>"

definition sample_dispatcher :: "unit dispatcher" where
  "sample_dispatcher = \<lparr>ds_provisioner = sample_provisioner, ds_root = ''/w'',
     ds_builder = \<lparr>cb_sources = [], cb_budget = 48000, cb_digest = (\<lambda>s. ''d'')\<rparr>,
     ds_worker = None, ds_session = None\<rparr>"

definition sample_gate :: gate_spec where
  "sample_gate = \<lparr>spec_name = ''tests'', spec_argv = [''t''], spec_required = True\<rparr>"

definition sample_tracker :: "unit tracker" where
  "sample_tracker = \<lparr>tr_gate_specs = [sample_gate], tr_task_gate_specs = [],
     tr_gate_runner = Some (\<lambda>g w u. (Inr \<lparr>gate_name = ''tests'', gate_status = Gate_PASSED,
       gate_detail = Some ''exit_code=0'', gate_required = True\<rparr>, u)),
     tr_inspector = Some (\<lambda>w u. (Inr ''sha'', u)), tr_provisioner = Some sample_provisioner,
     tr_pull_requests = False, tr_sink = None, tr_base_branch = ''main'', tr_registry = None,
     tr_acceptance = None, tr_heartbeat_interval = 1\<rparr>"

end
