(* ===== verification/Store_Properties.thy ===== *)
theory Store_Properties
  imports Sample_Data
begin

text \<open>
  The guarantees of the durable store: the invariants of every reachable store, the recorded
  lifecycle, the compare-and-swap write and its admission limit, and the round trips and
  refusals of the run, pull request, backlog link and sprint tables.
\<close>

section \<open>Reachable stores\<close>

lemma sample_running_rows:
  "db_runs (run_ops run_created_ops empty_store) = [run_row_for 3 (sample_run ''r'' Run_RUNNING)]"
  "active_row (run_row_for 3 (sample_run ''r'' Run_RUNNING))"
  by (code_simp, code_simp)

text \<open>C1. In every store that the operations of the repositories can produce, two active runs of
  one task, or in one workspace, are the same run.\<close>

theorem one_active_run:
  assumes "reachable d" and "r \<in> set (db_runs d)" "active_row r" and "q \<in> set (db_runs d)" "active_row q"
    and "run_task_id (rrow_run r) = run_task_id (rrow_run q) \<or> rrow_ws r \<noteq> None \<and> rrow_ws r = rrow_ws q"
  shows "r = q"
proof -
  have ok: "runs_unique d" "runs_exclusive d"
    using reachable_factory_inv [OF assms(1)] by (simp_all add: factory_inv_def store_inv_def runs_ok_def)
  then have "rid_of r = rid_of q" using assms(2-) unfolding runs_exclusive_def by blast
  then show ?thesis
    using ok(1) assms(2,4) by (auto simp: runs_unique_def distinct_map dest: inj_onD)
qed

theorem one_active_run_witness:
  "\<exists>r. db_runs (run_ops run_created_ops empty_store) = [r] \<and> active_row r \<and>
     r = last (db_runs (run_ops run_created_ops empty_store))"
  using one_active_run [OF reachable_run_ops [of run_created_ops],
    of "hd (db_runs (run_ops run_created_ops empty_store))"
       "last (db_runs (run_ops run_created_ops empty_store))"]
  by (simp add: sample_running_rows)

text \<open>A workspace belongs to one task: two runs, finished or not, that share a workspace are
  runs of the same task, and every run refers to a stored task of its own project.\<close>

theorem workspace_owner:
  assumes "reachable d" "r \<in> set (db_runs d)" "q \<in> set (db_runs d)" "rrow_ws r = Some w" "rrow_ws q = Some w"
  shows "run_task_id (rrow_run r) = run_task_id (rrow_run q) \<and>
    (\<exists>t. get_task d (run_task_id (rrow_run r)) = Some t \<and> task_project t = run_project (rrow_run r)) \<and>
    w \<in> ws_id ` set (db_workspaces d)"
proof -
  have ok: "runs_owner d" "runs_refer d" "tasks_ok d"
    using reachable_factory_inv [OF assms(1)] by (simp_all add: factory_inv_def store_inv_def runs_ok_def)
  obtain t where t: "t \<in> set (db_tasks d)" "tid_of t = run_task_id (rrow_run r)"
    "task_project (trow_task t) = run_project (rrow_run r)"
    using ok(2) assms(2) by (auto simp: runs_refer_def task_identity_def)
  then have "task_row_of d (run_task_id (rrow_run r)) = Some t"
    using ok(3) find_distinct [of tid_of "db_tasks d" t] by (simp add: task_row_of_def tasks_ok_def)
  moreover have "run_task_id (rrow_run r) = run_task_id (rrow_run q)"
    using ok(1) assms(2-) unfolding runs_owner_def by (metis option.distinct(1))
  moreover have "w \<in> ws_id ` set (db_workspaces d)"
    using ok(2) assms(2,4) by (auto simp: runs_refer_def)
  ultimately show ?thesis using t(3) by (simp add: get_task_def)
qed

theorem workspace_owner_witness:
  "\<exists>t. get_task (run_ops run_created_ops empty_store) ''a'' = Some t \<and> task_project t = ''p''"
  using workspace_owner [OF reachable_run_ops [of run_created_ops],
    of "hd (db_runs (run_ops run_created_ops empty_store))"
       "hd (db_runs (run_ops run_created_ops empty_store))" "''w''"]
  by (simp add: sample_running_rows run_row_for_def sample_run_def sample_workspace_def)

lemma past_ext: "store_grows d (run_ops ops d)"
  using run_ops_sound by (simp add: sound_step_def)

text \<open>C29. No interleaving of operations rewrites the past: the audit trace, the transition history and
  the rework requests are only appended to, and no task, run, workspace or pull request row
  disappears or changes its identity.\<close>

theorem past_is_kept: "store_grows d (run_ops ops d)"
  by (rule past_ext)

text \<open>C28. The audit trace has no gaps: in every reachable store the events of one correlation are
  numbered 1, 2, 3 and so on in the order of their insertion, and no event key occurs twice.\<close>

theorem audit_gap_free:
  assumes "reachable d"
  shows "map ev_seq (filter (\<lambda>e. ev_correlation e = c) (db_audit d)) =
      [1..<Suc (length (filter (\<lambda>e. ev_correlation e = c) (db_audit d)))] \<and>
    distinct (map ev_key (db_audit d))"
  using reachable_factory_inv [OF assms]
  by (simp add: factory_inv_def store_inv_def audit_ok_def count_rows_def)

theorem audit_gap_free_witness:
  "map ev_seq (filter (\<lambda>e. ev_correlation e = ''a'') (db_audit (run_ops run_created_ops empty_store))) =
     [1, 2, 3, 4]"
  (is "map ev_seq (filter ?p (db_audit ?d)) = _")
proof -
  have "length (filter ?p (db_audit ?d)) = 4" by code_simp
  then show ?thesis using audit_gap_free [OF reachable_run_ops [of run_created_ops], of "''a''"]
    by (simp add: upt_rec)
qed

text \<open>C2. The recorded history explains the status.  When no writer uses the status-blind update, the
  transitions of a task form one chain of permitted edges that ends in its stored status, so the
  status can be recomputed from the history.\<close>

theorem history_explains_status:
  assumes "recorded_reachable d" "get_task d tid = Some t"
  shows "\<exists>a. chain a (filter (\<lambda>x. tt_task_id x = tid) (db_transitions d)) (task_status t)"
proof -
  obtain r where r: "task_row_of d tid = Some r" "trow_task r = t"
    using assms(2) by (auto simp: get_task_def)
  then have "r \<in> set (db_tasks d)" "tid_of r = tid"
    by (auto simp: task_row_of_def dest: find_SomeD)
  then show ?thesis
    using recorded_reachable_inv [OF assms(1)] r(2) by (auto simp: history_ok_def task_history_def)
qed

theorem history_explains_status_witness:
  "\<exists>a. chain a (filter (\<lambda>x. tt_task_id x = ''a'') (db_transitions (run_ops claim_ops empty_store)))
     Task_CLAIMED"
proof -
  have r: "recorded_reachable (run_ops claim_ops empty_store)"
    by (rule recorded_run_ops) code_simp
  have t: "get_task (run_ops claim_ops empty_store) ''a'' =
      Some ((sample_task ''a'' Task_CLAIMED)\<lparr>task_updated_at := 2\<rparr>)"
    by code_simp
  show ?thesis using history_explains_status [OF r t] by (simp add: sample_task_def)
qed

section \<open>The lifecycle graph and its write\<close>

definition lifecycle_edges :: "(task_status \<times> task_status) set" where
  "lifecycle_edges = {(a, b). can_transition a b}"

lemma edge_path: "b \<in> TRANSITIONS a \<Longrightarrow> (b, c) \<in> lifecycle_edges\<^sup>* \<Longrightarrow> (a, c) \<in> lifecycle_edges\<^sup>*"
  by (auto simp: lifecycle_edges_def can_transition_def intro: converse_rtrancl_into_rtrancl)

lemma to_done: "s \<notin> {Task_FAILED, Task_CANCELLED} \<Longrightarrow> (s, Task_DONE) \<in> lifecycle_edges\<^sup>*"
proof -
  have d: "(Task_DONE, Task_DONE) \<in> lifecycle_edges\<^sup>*" by simp
  have v: "(Task_VALIDATING, Task_DONE) \<in> lifecycle_edges\<^sup>*" by (rule edge_path [OF _ d]) simp
  have h: "(Task_WAITING_HUMAN, Task_DONE) \<in> lifecycle_edges\<^sup>*" by (rule edge_path [OF _ d]) simp
  have p: "(Task_PR_OPEN, Task_DONE) \<in> lifecycle_edges\<^sup>*" by (rule edge_path [OF _ h]) simp
  have u: "(Task_RUNNING, Task_DONE) \<in> lifecycle_edges\<^sup>*" by (rule edge_path [OF _ v]) simp
  have c: "(Task_CLAIMED, Task_DONE) \<in> lifecycle_edges\<^sup>*" by (rule edge_path [OF _ u]) simp
  have r: "(Task_READY, Task_DONE) \<in> lifecycle_edges\<^sup>*" by (rule edge_path [OF _ c]) simp
  have "(Task_DISCOVERED, Task_DONE) \<in> lifecycle_edges\<^sup>*" "(Task_BLOCKED, Task_DONE) \<in> lifecycle_edges\<^sup>*"
    "(Task_CHANGES_REQUESTED, Task_DONE) \<in> lifecycle_edges\<^sup>*"
    by (rule edge_path [OF _ r]; simp)+
  then show "s \<notin> {Task_FAILED, Task_CANCELLED} \<Longrightarrow> ?thesis"
    using d v h p u c r by (cases s) auto
qed

lemma dead_end: "(s, t) \<in> lifecycle_edges\<^sup>* \<Longrightarrow> TRANSITIONS s = {} \<Longrightarrow> t = s"
  by (induction rule: converse_rtrancl_induct) (auto simp: lifecycle_edges_def can_transition_def)

lemma reaches_done: "(s, Task_DONE) \<in> lifecycle_edges\<^sup>* \<longleftrightarrow> s \<notin> {Task_FAILED, Task_CANCELLED}"
  using to_done [of s] dead_end [of s Task_DONE] by (cases "s \<in> {Task_FAILED, Task_CANCELLED}") auto

text \<open>The terminal states are the ones without successor, every other state can be cancelled, a
  task is completed only from validation or human review, and only tasks in a dead-end state can
  never be completed: from every other state a path of the graph leads to DONE.\<close>

theorem lifecycle_graph:
  "(TRANSITIONS s = {} \<longleftrightarrow> s \<in> TERMINAL_STATES) \<and>
   (Task_CANCELLED \<in> TRANSITIONS s \<longleftrightarrow> s \<notin> TERMINAL_STATES) \<and>
   (Task_DONE \<in> TRANSITIONS s \<longleftrightarrow> s \<in> {Task_VALIDATING, Task_WAITING_HUMAN}) \<and>
   ((s, Task_DONE) \<in> lifecycle_edges\<^sup>* \<longleftrightarrow> s \<notin> {Task_FAILED, Task_CANCELLED})"
  by (cases s) (simp_all add: TERMINAL_STATES_def reaches_done)

lemma apply_transition_moved:
  assumes "apply_transition m now uid tid a b d = Inr (t', d')"
  shows "task_moved tid a b (\<lambda>t. t\<lparr>task_status := b, task_updated_at := now\<rparr>)
     \<lparr>tt_task_id = tid, tt_from = a, tt_to = b, tt_id = uid, tt_occurred_at = now\<rparr> d d'"
    and "can_persist_transition a b"
  using assms
  by (auto simp: apply_transition_def apply_transition_with_eq_Inr transition_allowed_def
      dest: transition_write_moved(1))

lemma sample_claimed:
  "apply_transition 1 2 ''t1'' ''a'' Task_READY Task_CLAIMED (run_ops task_ops empty_store) =
    Inr ((sample_task ''a'' Task_CLAIMED)\<lparr>task_updated_at := 2\<rparr>, run_ops claim_ops empty_store)"
  by code_simp

text \<open>C19. What a successful transition write does: the edge was permitted and the task stood at its
  source; afterwards exactly that task has the new status and time, one history row is appended,
  and no run, workspace or pull request has changed.\<close>

theorem apply_transition_effect:
  assumes "apply_transition m now uid tid a b d = Inr (t', d')"
  shows "can_persist_transition a b \<and>
    (\<exists>t. get_task d tid = Some t \<and> task_status t = a \<and>
       t' = t\<lparr>task_status := b, task_updated_at := now\<rparr>) \<and>
    (\<forall>x. get_task d' x = (if x = tid then Some t' else get_task d x)) \<and>
    db_transitions d' = db_transitions d @
      [\<lparr>tt_task_id = tid, tt_from = a, tt_to = b, tt_id = uid, tt_occurred_at = now\<rparr>] \<and>
    db_runs d' = db_runs d \<and> db_workspaces d' = db_workspaces d \<and> db_prs d' = db_prs d"
proof -
  note moved = apply_transition_moved [OF assms]
  obtain t where t: "get_task d tid = Some t" "task_status t = a"
    using moved(1) by (auto simp: task_moved_def)
  have "get_task d' tid = Some t'" using apply_transition_frame(5) [OF assms] .
  then have "t' = t\<lparr>task_status := b, task_updated_at := now\<rparr>"
    using moved_get_task [OF moved(1), of tid] t by simp
  then show ?thesis
    using moved t moved_get_task [OF moved(1)] apply_transition_frame(1-3) [OF assms]
    by (auto simp: task_moved_def)
qed

theorem apply_transition_effect_witness:
  "db_transitions (run_ops claim_ops empty_store) = db_transitions (run_ops task_ops empty_store) @
     [\<lparr>tt_task_id = ''a'', tt_from = Task_READY, tt_to = Task_CLAIMED, tt_id = ''t1'', tt_occurred_at = 2\<rparr>]"
  using apply_transition_effect [OF sample_claimed] by simp

text \<open>Compare-and-swap: of two writers that read the same status, the second is refused with the
  status it lost to, whatever target it wanted and whatever limit applies to it.\<close>

theorem transition_race:
  assumes "apply_transition m now uid tid a b d = Inr (t', d')"
  shows "apply_transition m' now' uid' tid a c d' = Inl (TaskStateChangedError tid a b)"
proof -
  have "a \<noteq> b" using apply_transition_moved(2) [OF assms]
    by (cases a) (auto simp: can_persist_transition_def can_transition_def)
  then show ?thesis
    using apply_transition_frame(5,6) [OF assms]
    by (simp add: apply_transition_def apply_transition_with_def)
qed

theorem transition_race_witness:
  "apply_transition 5 9 ''t2'' ''a'' Task_READY Task_CLAIMED (run_ops claim_ops empty_store) =
     Inl (TaskStateChangedError ''a'' Task_READY Task_CLAIMED)"
  by (rule transition_race [OF sample_claimed])

text \<open>The tasks that hold a coding slot.\<close>

definition coding_tasks :: "store \<Rightarrow> string set" where
  "coding_tasks d = set (map tid_of (filter (\<lambda>r. task_status (trow_task r) \<in>
       {Task_CLAIMED, Task_RUNNING, Task_VALIDATING, Task_PR_OPEN}) (db_tasks d))) \<union>
     (\<lambda>r. run_task_id (rrow_run r)) ` set (filter active_row (db_runs d))"

lemma busy_others_card: "busy_others d tid = card (coding_tasks d - {tid})"
  unfolding busy_others_def length_remdups_card_conv
  by (rule arg_cong [where f = card]) (auto simp: coding_tasks_def)

lemma moved_coding_tasks:
  assumes "db_tasks d' = db_tasks (put_task tid f d)" "db_runs d' = db_runs d"
    and "\<And>t. task_id (f t) = task_id t"
  shows "coding_tasks d' \<subseteq> insert tid (coding_tasks d)"
  using assms by (auto simp: coding_tasks_def put_task_def in_set_rows split: if_splits)

text \<open>The admission limit: right after a successful claim at most \<open>m\<close> tasks hold a coding slot,
  orphaned active runs included.\<close>

theorem claim_limit:
  assumes "apply_transition m now uid tid Task_READY Task_CLAIMED d = Inr (t', d')"
  shows "card (coding_tasks d') \<le> m"
proof -
  have "coding_tasks d' \<subseteq> insert tid (coding_tasks d)"
    using apply_transition_moved(1) [OF assms] apply_transition_frame(1) [OF assms]
    unfolding task_moved_def by (elim conjE) (rule moved_coding_tasks, assumption+, simp)
  then have sub: "coding_tasks d' \<subseteq> insert tid (coding_tasks d - {tid})" by auto
  have fin: "finite (coding_tasks d - {tid})" by (simp add: coding_tasks_def)
  have "card (coding_tasks d') \<le> card (insert tid (coding_tasks d - {tid}))"
    using sub fin by (intro card_mono) simp_all
  also have "\<dots> \<le> Suc (busy_others d tid)" unfolding busy_others_card using card.insert [OF fin, of tid] by simp
  finally show ?thesis using apply_transition_frame(8) [OF assms] by simp
qed

theorem claim_limit_witness: "card (coding_tasks (run_ops claim_ops empty_store)) \<le> 1"
  by (rule claim_limit [OF sample_claimed])

section \<open>Runs and pull requests\<close>

text \<open>Insert and lookup of runs: a saved run is found under its id, with the workspace its id
  names and its context pack reduced to metadata, it was not stored before, no other run is
  touched, and its task existed with the same project.\<close>

theorem save_run_get_run:
  assumes "save_run created run d = Inr (run', d')"
  shows "run' = run \<and> get_run d (run_id run) = None \<and>
    (\<exists>w. get_run d' (run_id run) = Some (run\<lparr>run_workspace := w,
        run_context_pack := map_option pack_metadata (run_context_pack run)\<rparr>) \<and>
      map_option ws_id w = map_option ws_id (run_workspace run)) \<and>
    (\<forall>rid. rid \<noteq> run_id run \<longrightarrow> run_row_of d' rid = run_row_of d rid) \<and>
    (\<exists>t. get_task d (run_task_id run) = Some t \<and> task_project t = run_project run)"
proof -
  let ?w = "run_workspace run" let ?row = "run_row_for created run"
  from assms obtain owner where e: "run' = run" "get_task d (run_task_id run) = Some owner"
    "task_project owner = run_project run" "run_id run \<notin> rid_of ` set (db_runs d)"
    "only_audit ((ensure_workspace ?w d)\<lparr>db_runs := db_runs d @ [?row]\<rparr>) d'"
    by (rule save_run_effect) blast
  have runs: "db_runs d' = db_runs d @ [?row]" "db_workspaces d' = db_workspaces (ensure_workspace ?w d)"
    using only_auditD [OF e(5)] by simp_all
  have new: "rid_of ?row = run_id run" by (simp add: run_row_for_def)
  have fresh: "run_row_of d (run_id run) = None"
    using e(4) unfolding run_row_of_def find_None_iff' by (auto simp: image_iff)
  have row: "run_row_of d' (run_id run) = Some ?row"
    using fresh new by (simp add: run_row_of_def runs find_append)
  have ws: "map_option ws_id (Option.bind (rrow_ws ?row) (workspace_row d')) = map_option ws_id ?w"
  proof (cases ?w)
    case (Some w)
    obtain v where v: "workspace_row d' (ws_id w) = Some v"
      using ensure_workspace_rows(3) [OF Some, of d] unfolding workspace_row_def runs(2)
      by (cases "find (\<lambda>x. ws_id x = ws_id w) (db_workspaces (ensure_workspace ?w d))")
        (auto simp: find_None_iff' image_iff)
    then have "ws_id v = ws_id w" by (auto simp: workspace_row_def dest: find_SomeD)
    then show ?thesis using v Some by (simp add: run_row_for_def)
  qed (simp add: run_row_for_def)
  have "get_run d' (run_id run) = Some (run\<lparr>run_workspace := Option.bind (rrow_ws ?row) (workspace_row d'),
      run_context_pack := map_option pack_metadata (run_context_pack run)\<rparr>)"
    by (simp add: get_run_def row row_to_run_def run_row_for_def)
  moreover have "run_row_of d' rid = run_row_of d rid" if "rid \<noteq> run_id run" for rid
    using that new by (simp add: run_row_of_def runs find_append split: option.splits)
  ultimately show ?thesis using e fresh ws by (auto simp: get_run_def)
qed

lemma sample_saved:
  "save_run 3 (sample_run ''r'' Run_RUNNING) (run_ops claim_ops empty_store) =
    Inr (sample_run ''r'' Run_RUNNING, run_ops run_created_ops empty_store)"
  by code_simp

theorem save_run_get_run_witness:
  "\<exists>w. get_run (run_ops run_created_ops empty_store) ''r'' =
     Some ((sample_run ''r'' Run_RUNNING)\<lparr>run_workspace := w\<rparr>) \<and> map_option ws_id w = Some ''w''"
  using save_run_get_run [OF sample_saved] by (simp add: sample_run_def sample_workspace_def)

text \<open>A stored run keeps its identity: after any operations its task, project, workspace and
  creation time are the ones it was saved with, and an update that names another task, project,
  worker, session, workspace or context pack is refused.\<close>

theorem run_identity_fixed:
  assumes "run_row_of d rid = Some r"
  shows "(\<exists>q \<in> set (db_runs (run_ops ops d)). rid_of q = rid \<and>
      run_task_id (rrow_run q) = run_task_id (rrow_run r) \<and>
      run_project (rrow_run q) = run_project (rrow_run r) \<and>
      rrow_ws q = rrow_ws r \<and> rrow_created q = rrow_created r) \<and>
    (run_id run = rid \<longrightarrow> update_run now run d = Inr (run', d') \<longrightarrow>
      run_task_id run = run_task_id (rrow_run r) \<and> run_project run = run_project (rrow_run r) \<and>
      run_worker_id run = run_worker_id (rrow_run r) \<and>
      run_session_id run = run_session_id (rrow_run r) \<and>
      map_option ws_id (run_workspace run) = rrow_ws r \<and>
      map_option pack_metadata (run_context_pack run) = run_context_pack (rrow_run r))"
proof
  let ?k = "\<lambda>r. (rid_of r, run_task_id (rrow_run r), run_project (rrow_run r), rrow_ws r, rrow_created r)"
  have "set (map ?k (db_runs d)) \<subseteq> set (map ?k (db_runs (run_ops ops d)))"
    by (rule set_mono_prefix) (use past_ext [of d ops] in \<open>simp add: store_grows_def\<close>)
  moreover have "r \<in> set (db_runs d)" "rid_of r = rid"
    using assms by (auto simp: run_row_of_def dest: find_SomeD)
  ultimately have "?k r \<in> ?k ` set (db_runs (run_ops ops d))" by (auto simp: image_iff)
  then show "\<exists>q \<in> set (db_runs (run_ops ops d)). rid_of q = rid \<and>
      run_task_id (rrow_run q) = run_task_id (rrow_run r) \<and>
      run_project (rrow_run q) = run_project (rrow_run r) \<and>
      rrow_ws q = rrow_ws r \<and> rrow_created q = rrow_created r"
    using \<open>rid_of r = rid\<close> by auto
qed (use assms in \<open>auto simp: update_run_def Let_def split: if_splits\<close>)

theorem run_identity_fixed_witness:
  "\<exists>q \<in> set (db_runs (run_ops [Update_run 9 (sample_run ''r'' Run_FAILED)]
       (run_ops run_created_ops empty_store))). rid_of q = ''r'' \<and> run_task_id (rrow_run q) = ''a''"
proof -
  have "run_row_of (run_ops run_created_ops empty_store) ''r'' =
      Some (run_row_for 3 (sample_run ''r'' Run_RUNNING))"
    by code_simp
  then show ?thesis
    using run_identity_fixed [of "run_ops run_created_ops empty_store" "''r''" _
        "[Update_run 9 (sample_run ''r'' Run_FAILED)]"]
    by (fastforce simp: run_row_for_def sample_run_def)
qed

lemma prs_distinct:
  assumes "prs_ok d" "p \<in> set (db_prs d)" "q \<in> set (db_prs d)" "pr_run_id (prow_pr p) = pr_run_id (prow_pr q)"
  shows "p = q"
  using assms by (auto simp: prs_ok_def distinct_map dest: inj_onD)

lemma find_pr_of_run:
  assumes "prs_ok d" "p \<in> set (db_prs d)" "pr_run_id (prow_pr p) = Some rid"
  shows "pr_row_for_run d rid = Some p"
  using find_distinct [of "\<lambda>p. pr_run_id (prow_pr p)" "db_prs d" p] assms
  by (simp add: prs_ok_def pr_row_for_run_def)

lemma put_pr_row_for_run:
  assumes "\<And>q. pr_run_id (f q) = pr_run_id q"
  shows "pr_row_for_run (put_pr p f d) rid =
    map_option (\<lambda>r. if p r then r\<lparr>prow_pr := f (prow_pr r)\<rparr> else r) (pr_row_for_run d rid)"
  using assms unfolding pr_row_for_run_def put_pr_def by (simp add: find_set_rows)

text \<open>The two ways \<open>record_merged\<close> succeeds.\<close>

lemma record_merged_effect:
  assumes "record_merged now pr d = Inr (pr', d')" "store_inv d"
  obtains row rid where "pr_run_id pr = Some rid" "pr_row_for_run d' rid = Some row" "prs_ok d'"
    "pr_identity_match pr (prow_pr row)" "pr_commit_sha (prow_pr row) = pr_commit_sha pr"
    "pr_commit_sha pr \<noteq> None" "pr_commit_sha pr \<noteq> Some []"
    "pr_merged (prow_pr row)" "pr' = row_to_pull_request row"
proof -
  obtain rid tid n sha where ids: "pr_run_id pr = Some rid" "pr_task_id pr = Some tid"
    "pr_number pr = Some n" "pr_commit_sha pr = Some sha" "sha \<noteq> []"
    using assms(1) by (auto simp: record_merged_def split: option.splits if_splits)
  let ?p = "\<lambda>p. pr_identity_match pr (prow_pr p) \<and> pr_commit_sha (prow_pr p) = Some sha \<and>
    \<not> pr_merged (prow_pr p)"
  have ok: "prs_ok d" "prs_ok d'"
    using record_merged_historical [OF assms(1)] assms(2)
    by (auto simp: historical_step_def sound_step_def store_inv_def)
  show thesis
  proof (cases "find ?p (db_prs d)")
    case None
    then show ?thesis
      using assms(1) ids ok that
      by (auto simp: record_merged_def split: option.splits if_splits)
  next
    case (Some row)
    let ?f = "\<lambda>q. q\<lparr>pr_merged := True\<rparr>"
    have row: "row \<in> set (db_prs d)" "?p row" using Some by (auto dest: find_SomeD)
    then have run: "pr_run_id (prow_pr row) = Some rid" using ids by (simp add: pr_identity_match_def)
    have "tx_step (audit_pr_update now row (row\<lparr>prow_pr := ?f (prow_pr row)\<rparr>)
          (put_pr (\<lambda>p. prow_id p = prow_id row) ?f d))
        (\<lambda>d'. Inr (row_to_pull_request (row\<lparr>prow_pr := ?f (prow_pr row)\<rparr>), d')) = Inr (pr', d')"
      using assms(1) ids Some by (simp add: record_merged_def Let_def)
    from tx_step_audit_effect [OF this] have res: "pr' = row_to_pull_request (row\<lparr>prow_pr := ?f (prow_pr row)\<rparr>)"
      and prs: "db_prs d' = db_prs (put_pr (\<lambda>p. prow_id p = prow_id row) ?f d)"
      by (simp_all add: only_auditD)
    have "pr_row_for_run d' rid = pr_row_for_run (put_pr (\<lambda>p. prow_id p = prow_id row) ?f d) rid"
      by (simp add: pr_row_for_run_def prs)
    also have "\<dots> = Some (row\<lparr>prow_pr := ?f (prow_pr row)\<rparr>)"
      using find_pr_of_run [OF ok(1) row(1) run] by (simp add: put_pr_row_for_run)
    finally show ?thesis
      using row ids ok res by (intro that) (simp_all add: pr_identity_match_def)
  qed
qed

lemma pr_sample_ops:
  "record_merged 5 sample_pr (run_ops (run_created_ops @ [Save_pr ''k'' sample_pr]) empty_store) =
     Inr (sample_pr\<lparr>pr_merged := True\<rparr>,
       run_ops (run_created_ops @ [Save_pr ''k'' sample_pr, Record_merged 5 sample_pr]) empty_store)"
  by code_simp

text \<open>Recording a merge is idempotent: once it has succeeded for a pull request, recording it
  again, at any time, returns the same row, reads it as merged and writes nothing, not even an
  audit event.\<close>

theorem record_merged_idempotent:
  assumes "reachable d" "record_merged now pr d = Inr (pr', d')"
  shows "record_merged now' pr d' = Inr (pr', d') \<and> pr_merged pr'"
proof -
  have "store_inv d" using reachable_factory_inv [OF assms(1)] by (simp add: factory_inv_def)
  from record_merged_effect [OF assms(2) this] obtain row rid where e:
    "pr_run_id pr = Some rid" "pr_row_for_run d' rid = Some row" "prs_ok d'"
    "pr_identity_match pr (prow_pr row)" "pr_commit_sha (prow_pr row) = pr_commit_sha pr"
    "pr_commit_sha pr \<noteq> None" "pr_commit_sha pr \<noteq> Some []"
    "pr_merged (prow_pr row)" "pr' = row_to_pull_request row" by metis
  have row: "row \<in> set (db_prs d')" using e(2) by (auto simp: pr_row_for_run_def dest: find_SomeD)
  have "find (\<lambda>p. pr_identity_match pr (prow_pr p) \<and> pr_commit_sha (prow_pr p) = pr_commit_sha pr \<and>
      \<not> pr_merged (prow_pr p)) (db_prs d') = None"
    unfolding find_None_iff'
    using prs_distinct [OF e(3) row] e(4,8) by (auto simp: pr_identity_match_def)
  then show ?thesis
    using e by (auto simp: record_merged_def pr_identity_match_def row_to_pull_request_def)
qed

theorem record_merged_idempotent_witness:
  "record_merged 9 sample_pr
     (run_ops (run_created_ops @ [Save_pr ''k'' sample_pr, Record_merged 5 sample_pr]) empty_store) =
   Inr (sample_pr\<lparr>pr_merged := True\<rparr>,
     run_ops (run_created_ops @ [Save_pr ''k'' sample_pr, Record_merged 5 sample_pr]) empty_store)"
  using record_merged_idempotent [OF reachable_run_ops pr_sample_ops] by simp

section \<open>Backlog links and sprints\<close>

text \<open>The remote write of a work item has been granted: its link exists and has left \<open>RESERVED\<close>.\<close>

definition written :: "string \<times> string \<Rightarrow> store \<Rightarrow> bool" where
  "written k d \<longleftrightarrow> k \<in> link_key ` set (db_links d) \<and>
     (\<forall>l \<in> set (db_links d). link_key l = k \<longrightarrow> lk_state l \<noteq> RESERVED)"

lemma written_cong: "db_links d' = db_links d \<Longrightarrow> written k d \<Longrightarrow> written k d'"
  by (simp add: written_def)

lemma written_set_rows:
  assumes "written k d" "db_links d' = set_rows p f (db_links d)"
    and "\<And>l. link_key (f l) = link_key l \<and> lk_state (f l) \<noteq> RESERVED"
  shows "written k d'"
proof -
  have "map link_key (set_rows p f (db_links d)) = map link_key (db_links d)"
    using assms(3) by (intro link_keys_set_rows) simp
  then have "link_key ` set (set_rows p f (db_links d)) = link_key ` set (db_links d)"
    by (metis list.set_map)
  then show ?thesis using assms by (auto simp: written_def in_set_rows split: if_splits)
qed

lemma reserve_written:
  assumes "reserve item d = Inr (b, d')" "written k d" shows "written k d'"
proof (cases "link_row_of d (item_provider item) (item_external_id item)")
  case None
  then have "k \<noteq> (item_provider item, item_external_id item)"
    using assms(2) unfolding written_def link_row_of_None by metis
  then show ?thesis using assms None by (auto simp: reserve_def Let_def written_def)
next
  case (Some l)
  then show ?thesis using assms by (auto simp: reserve_def Let_def split: if_splits)
qed

lemma begin_write_links:
  "begin_write item d = Inr (b, d') \<Longrightarrow> db_links d' =
    set_rows (\<lambda>l. link_matches item l \<and> lk_state l = RESERVED) (\<lambda>l. l\<lparr>lk_state := POSTING\<rparr>) (db_links d)"
  by (auto simp: begin_write_def Let_def)

lemma begin_write_written: "begin_write item d = Inr (b, d') \<Longrightarrow> written k d \<Longrightarrow> written k d'"
  by (rule written_set_rows [OF _ begin_write_links]) simp_all

lemma complete_written: "complete_link item issue d = Inr (u, d') \<Longrightarrow> written k d \<Longrightarrow> written k d'"
  by (drule complete_effect) (auto simp: links_of_update intro: written_set_rows)

lemma sprint_links:
  "authorize_sprint now m d = Inr (u, d') \<Longrightarrow> db_links d' = db_links d"
  "move_sprint now sid st pos ev d = Inr (u, d') \<Longrightarrow> db_links d' = db_links d"
  "record_rejection item reason d = Inr (u, d') \<Longrightarrow> db_links d' = db_links d"
  by (auto simp: authorize_sprint_def record_rejection_def Let_def only_auditD [OF sprint_event_only_audit]
      split: option.splits if_splits elim!: move_sprint_effect)

lemma run_op_written:
  assumes "written k d" shows "written k (run_op oper d)"
proof (cases "planning_op oper")
  case True
  then show ?thesis
    using assms
    by (cases oper) (auto intro!: commit_rel [where R = "\<lambda>_. written k"]
        intro: written_cong reserve_written begin_write_written complete_written dest: sprint_links)
next
  case False
  then show ?thesis
    using run_op_same_planning [OF False, of d] assms by (auto simp: same_planning_def intro: written_cong)
qed

lemma run_ops_written: "written k d \<Longrightarrow> written k (run_ops ops d)"
  unfolding run_ops_def by (induction ops arbitrary: d) (simp_all add: run_op_written)

lemma begin_write_granted:
  assumes "begin_write item d = Inr (True, d')" "links_ok d"
  shows "written (item_provider item, item_external_id item) d'"
proof -
  let ?p = "\<lambda>l. link_matches item l \<and> lk_state l = RESERVED" let ?k = "(item_provider item, item_external_id item)"
  have "filter ?p (db_links d) \<noteq> []"
    using assms(1) by (auto simp: begin_write_def Let_def count_rows_def)
  then obtain l where l: "l \<in> set (db_links d)" "?p l" by (auto simp: filter_empty_conv)
  then have k: "link_key l = ?k" by (simp add: link_matches_def link_for_def)
  have uniq: "m = l" if "m \<in> set (db_links d)" "link_key m = ?k" for m
    using assms(2) l(1) k that inj_onD [of link_key "set (db_links d)" m l]
    by (simp add: links_ok_def distinct_map)
  show ?thesis
    unfolding written_def begin_write_links [OF assms(1)]
  proof (intro conjI ballI impI)
    show "?k \<in> link_key ` set (set_rows ?p (\<lambda>l. l\<lparr>lk_state := POSTING\<rparr>) (db_links d))"
      using l k unfolding image_iff by (intro bexI [of _ "l\<lparr>lk_state := POSTING\<rparr>"]) (auto simp: in_set_rows)
    fix x assume x: "x \<in> set (set_rows ?p (\<lambda>l. l\<lparr>lk_state := POSTING\<rparr>) (db_links d))" "link_key x = ?k"
    then obtain m where m: "m \<in> set (db_links d)" "x = (if ?p m then m\<lparr>lk_state := POSTING\<rparr> else m)"
      unfolding in_set_rows by blast
    then have "link_key m = ?k" using x(2) by (auto split: if_splits)
    then show "lk_state x \<noteq> RESERVED" using uniq [OF m(1)] l(2) m(2) by simp
  qed
qed

lemma sample_write_granted:
  "begin_write sample_item (run_ops [Reserve sample_item] empty_store) =
     Inr (True, run_ops [Reserve sample_item, Begin_write sample_item] empty_store)"
  by code_simp

text \<open>C4. At most one remote write per work item: once \<open>begin_write\<close> has granted the write of an
  item, it never grants it again, whatever operations any process commits in between.\<close>

theorem one_remote_write:
  assumes "reachable d" "begin_write item d = Inr (True, d1)"
  shows "\<exists>d2. begin_write item (run_ops ops d1) = Inr (False, d2)"
proof -
  have "written (item_provider item, item_external_id item) (run_ops ops d1)"
    using reachable_factory_inv [OF assms(1)] assms(2)
    by (intro run_ops_written begin_write_granted [OF assms(2)]) (simp_all add: factory_inv_def)
  then have "filter (\<lambda>l. link_matches item l \<and> lk_state l = RESERVED) (db_links (run_ops ops d1)) = []"
    by (auto simp: written_def filter_empty_conv link_matches_def link_for_def)
  then show ?thesis by (simp add: begin_write_def Let_def count_rows_def)
qed

theorem one_remote_write_witness:
  "\<exists>d2. begin_write sample_item (run_ops [Reserve sample_item]
     (run_ops [Reserve sample_item, Begin_write sample_item] empty_store)) = Inr (False, d2)"
  by (rule one_remote_write [OF reachable_run_ops sample_write_granted])

text \<open>A materialized link is final: the issue of a work item stays the one that was recorded
  first, for every later sequence of operations, and in a reachable store no two work items share
  an issue of a repository.\<close>

theorem materialized_link_final:
  assumes "reachable d" "l \<in> set (db_links d)" "lk_state l = MATERIALIZED"
  shows "l \<in> set (db_links (run_ops ops d)) \<and>
    (\<exists>n > 0. lk_number l = Some n) \<and>
    (\<forall>m \<in> set (db_links (run_ops ops d)). lk_repository m = lk_repository l \<longrightarrow>
       lk_number m = lk_number l \<longrightarrow> m = l)"
proof -
  have kept: "l \<in> set (db_links (run_ops ops d))"
    using run_ops_planning [of d ops] assms(2,3) by (auto simp: planning_step_def)
  have ok: "links_ok d" "links_ok (run_ops ops d)"
    using reachable_factory_inv [OF assms(1)] run_ops_planning [of d ops]
    by (auto simp: factory_inv_def planning_step_def)
  obtain n where n: "n > 0" "lk_number l = Some n"
    using ok(1) assms(2,3) by (auto simp: links_ok_def link_state_ok_def split: if_splits)
  have "m = l" if "m \<in> set (db_links (run_ops ops d))" "lk_repository m = lk_repository l"
    "lk_number m = lk_number l" for m
  proof -
    have "link_key m = link_key l"
      using ok(2) kept that n unfolding links_ok_def by (metis option.distinct(1))
    then show ?thesis
      using ok(2) kept that(1) inj_onD [of link_key "set (db_links (run_ops ops d))" m l]
      by (simp add: links_ok_def distinct_map)
  qed
  then show ?thesis using kept n by blast
qed

definition sample_issue :: materialized_issue where
  "sample_issue = \<lparr>iss_repository = ''o/r'', iss_number = 4, iss_url = ''u''\<rparr>"

definition sample_link :: link_row where
  "sample_link = \<lparr>lk_provider = ''trello'', lk_external = ''x'', lk_repository = ''o/r'',
     lk_project = ''p'', lk_state = MATERIALIZED, lk_number = Some 4, lk_url = Some ''u''\<rparr>"

lemma sample_linked:
  "db_links (run_ops [Reserve sample_item, Complete sample_item sample_issue] empty_store) = [sample_link]"
  "lk_state sample_link = MATERIALIZED"
  by (code_simp, code_simp)

theorem materialized_link_final_witness:
  "sample_link \<in> set (db_links (run_ops [Begin_write sample_item]
     (run_ops [Reserve sample_item, Complete sample_item sample_issue] empty_store)))"
  using materialized_link_final [OF reachable_run_ops _ sample_linked(2),
      of "[Reserve sample_item, Complete sample_item sample_issue]" "[Begin_write sample_item]"]
  by (simp add: sample_linked)

text \<open>One live sprint per project: in a reachable store two sprints that are both active or
  paused and share a project are the same sprint, and the manifest of an authorized sprint never
  changes.\<close>

theorem one_live_sprint:
  assumes "reachable d" and "r \<in> set (db_sprints d)" "live_state (sp_state r)"
    and "q \<in> set (db_sprints d)" "live_state (sp_state q)"
    and "p \<in> set (manifest_projects (sp_manifest r))" "p \<in> set (manifest_projects (sp_manifest q))"
  shows "r = q \<and> sp_manifest r \<in> set (map sp_manifest (db_sprints (run_ops ops d)))"
proof -
  let ?k = "\<lambda>r. man_sprint_id (sp_manifest r)"
  have ok: "sprints_ok d" using reachable_factory_inv [OF assms(1)] by (simp add: factory_inv_def)
  then have "?k r = ?k q" using assms(2-) unfolding sprints_ok_def by blast
  then have "r = q"
    using ok assms(2,4) inj_onD [of ?k "set (db_sprints d)" r q] by (simp add: sprints_ok_def distinct_map)
  moreover have "set (map sp_manifest (db_sprints d)) \<subseteq> set (map sp_manifest (db_sprints (run_ops ops d)))"
    by (rule set_mono_prefix) (use run_ops_planning [of d ops] in \<open>simp add: planning_step_def\<close>)
  ultimately show ?thesis using assms(2) by auto
qed

lemma sample_sprints:
  "db_sprints (run_ops plan_ops empty_store) =
     [\<lparr>sp_manifest = sample_manifest, sp_state = Sprint_ACTIVE, sp_position = 0\<rparr>]"
  "manifest_projects sample_manifest = [''p'']"
  by (code_simp, code_simp)

theorem one_live_sprint_witness:
  "sample_manifest \<in> set (map sp_manifest (db_sprints (run_ops
     [Move_sprint 5 ''s'' Sprint_PAUSED 0 ''SprintPaused''] (run_ops plan_ops empty_store))))"
  using one_live_sprint [OF reachable_run_ops [of plan_ops],
      of "hd (db_sprints (run_ops plan_ops empty_store))" "hd (db_sprints (run_ops plan_ops empty_store))" "''p''"
         "[Move_sprint 5 ''s'' Sprint_PAUSED 0 ''SprintPaused'']"]
  by (simp add: sample_sprints live_state_def)

text \<open>The sprint machine: a move is accepted exactly from a live sprint along one of the six
  events, it changes the position by at most one, and a cancelled or completed sprint accepts no
  move any more.\<close>

theorem sprint_machine:
  assumes "move_sprint now sid state position event d = Inr (u, d')"
  shows "\<exists>r. sprint_row_of d sid = Some r \<and> live_state (sp_state r) \<and>
    (position = sp_position r \<or> position = Suc (sp_position r)) \<and>
    (\<exists>q. sprint_row_of d' sid = Some q \<and> sp_manifest q = sp_manifest r \<and> sp_state q = state \<and>
       sp_position q = position) \<and>
    (\<not> live_state state \<longrightarrow> (\<forall>now' state' position' event'. event' \<in> sprint_events \<longrightarrow>
       move_sprint now' sid state' position' event' d' = Inl (ValueError ''invalid sprint transition'')))"
proof -
  from assms(1) obtain r where r: "sprint_row_of d sid = Some r"
    "valid_sprint_move event (sp_state r) (sp_position r) state position"
    "d' = sprint_event now sid event (sprint_event_key sid event position d) (d\<lparr>db_sprints :=
       set_rows (\<lambda>r. man_sprint_id (sp_manifest r) = sid)
         (\<lambda>r. r\<lparr>sp_state := state, sp_position := position\<rparr>) (db_sprints d)\<rparr>)"
    by (rule move_sprint_effect)
  let ?q = "r\<lparr>sp_state := state, sp_position := position\<rparr>"
  have q: "sprint_row_of d' sid = Some ?q"
    using r(1) sprint_row_ofD [OF r(1)] unfolding sprint_row_of_def r(3)
    by (simp add: only_auditD [OF sprint_event_only_audit] find_set_rows)
  have "move_sprint now' sid state' position' event' d' = Inl (ValueError ''invalid sprint transition'')"
    if "\<not> live_state state" "event' \<in> sprint_events" for now' state' position' event'
    using that q valid_sprint_move_live [of event' state position state' position']
    by (auto simp: move_sprint_def)
  then show ?thesis
    using r(1,2) q valid_sprint_move_live [OF r(2)]
    by (auto simp: valid_sprint_move_def split: if_splits)
qed

theorem sprint_machine_witness:
  "\<exists>q. sprint_row_of (run_ops (plan_ops @ [Move_sprint 5 ''s'' Sprint_PAUSED 0 ''SprintPaused'']) empty_store)
     ''s'' = Some q \<and> sp_state q = Sprint_PAUSED"
proof -
  have "move_sprint 5 ''s'' Sprint_PAUSED 0 ''SprintPaused'' (run_ops plan_ops empty_store) =
      Inr ((), run_ops (plan_ops @ [Move_sprint 5 ''s'' Sprint_PAUSED 0 ''SprintPaused'']) empty_store)"
    by code_simp
  from sprint_machine [OF this] show ?thesis by blast
qed

end
