(* ===== verification/Service_Properties.thy ===== *)
theory Service_Properties
  imports Sample_Data
begin

text \<open>
  The guarantees of the services above the store.  Where a service is run among other processes,
  the statement holds for every schedule of their operations; \<open>quiet\<close> marks a process that runs
  alone, for which a statement can also say what was left unwritten.
\<close>

section \<open>Lifecycle service\<close>

lemma sample_transition_run:
  "transition sample_env ''a'' Task_BLOCKED (Some Task_CLAIMED) (sample_sys (run_ops claim_ops empty_store)) =
    (Inr ((sample_task ''a'' Task_BLOCKED)\<lparr>task_updated_at := 10\<rparr>),
     (sample_sys (run_ops (claim_ops @ [Apply_transition 1 10 ''u1-0'' ''a'' Task_CLAIMED Task_BLOCKED]) empty_store))
       \<lparr>sys_tick := 2\<rparr>)"
  by code_simp

text \<open>A transition that returns has reached its target, under any interference: the returned
  task and the stored one have the target status, and when the caller named the status it expected,
  the step was an edge of the lifecycle graph.\<close>

theorem transition_arrives:
  assumes "transition env tid target expected s = (Inr t, s')"
  shows "task_id t = tid \<and> task_status t = target \<and> status_of s' tid = Some target \<and>
    (\<forall>a. expected = Some a \<longrightarrow> can_transition a target)"
  using wpD_Inr [OF transition_outcome assms] .

theorem transition_arrives_witness:
  "status_of ((sample_sys (run_ops (claim_ops @ [Apply_transition 1 10 ''u1-0'' ''a'' Task_CLAIMED Task_BLOCKED])
     empty_store))\<lparr>sys_tick := 2\<rparr>) ''a'' = Some Task_BLOCKED"
  using transition_arrives [OF sample_transition_run] by simp

text \<open>A lost claim race is not noticed.  When another dispatcher has claimed the task between
  this one's READY check and its claim, \<open>_claim\<close> returns the task as its own and writes nothing,
  because the lifecycle service answers a request for the status the task already has.\<close>

lemma lost_claim_unnoticed:
  assumes "get_task (db_view env s) (task_id t) = Some c" "task_status c = Task_CLAIMED"
  shows "claim env t s = (Inr c, advance (db_view env s) s)"
  using transition_same_status [OF assms] by (simp add: claim_def on_error_def)

lemma lost_claim_sample:
  "fst (claim sample_env (sample_task ''a'' Task_READY) (sample_sys (run_ops claim_ops empty_store))) =
     Inr ((sample_task ''a'' Task_CLAIMED)\<lparr>task_updated_at := 2\<rparr>)"
proof -
  have "get_task (run_ops claim_ops empty_store) ''a'' =
      Some ((sample_task ''a'' Task_CLAIMED)\<lparr>task_updated_at := 2\<rparr>)"
    by code_simp
  then show ?thesis
    using lost_claim_unnoticed [of sample_env "sample_sys (run_ops claim_ops empty_store)"
        "sample_task ''a'' Task_READY"]
    by (simp add: sample_task_def)
qed

section \<open>Dispatch\<close>

lemma sample_dispatch_run:
  "case dispatch sample_env sample_dispatcher sample_adapter ''a'' (sample_sys (run_ops task_ops empty_store)) of
     (Inr run, s') \<Rightarrow> run_id run = ''r'' | (Inl e, s') \<Rightarrow> False"
  by code_simp

text \<open>C6. What a dispatch leaves behind, under any interference: when it returns, the run is durable
  and the task is RUNNING; when it reports that the engine failed, the failed attempt is durable
  and the task is BLOCKED.  When it raises anything, it has not moved the task to RUNNING: while no other process
  moves the task there, it is RUNNING afterwards only if it was before.  However it ends, a task is
  never left RUNNING without a run behind it, if the task was not before and no other process leaves it so.\<close>

theorem dispatch_result:
  assumes "dispatch env ds ad tid s = (r, s')"
  shows "(case r of
      Inr run \<Rightarrow> run_task_id run = tid \<and> has_run s' (run_id run) tid \<and> status_of s' tid = Some Task_RUNNING
    | Inl (AgentDispatchError t rid) \<Rightarrow> t = tid \<and> has_run s' rid tid \<and> status_of s' tid = Some Task_BLOCKED
    | Inl _ \<Rightarrow> True) \<and>
    (\<forall>e. r = Inl e \<longrightarrow> others_respect (not_started tid) env \<longrightarrow> not_started tid (sys_db s) (sys_db s')) \<and>
    (others_respect (backed_step tid) env \<longrightarrow> backed tid (sys_db s) \<longrightarrow> backed tid (sys_db s'))"
proof (cases r)
  case (Inr run)
  have run: "run_task_id run = tid \<and> has_run s' (run_id run) tid \<and> status_of s' tid = Some Task_RUNNING"
    using wpD_Inr [OF dispatch_outcome assms [unfolded Inr]] by simp
  then have "backed tid (sys_db s')" by (auto simp: backed_def has_run_def)
  with run show ?thesis by (simp add: Inr)
next
  case (Inl e)
  then show ?thesis
    using wpD_Inl [OF dispatch_outcome assms [unfolded Inl]] not_started.dispatch_raised [OF _ assms [unfolded Inl]]
      backed.dispatch_raised [OF _ assms [unfolded Inl]]
    by (auto simp: blocked_after_def backed_step_def Inl split: py_error.splits)
qed

text \<open>A dispatch that succeeds, and one whose engine answers with a run id that is taken.\<close>

definition taken_ops :: "store_op list" where
  "taken_ops = task_ops @ [Save_task (sample_task ''b'' Task_RUNNING), Save_run 3 ((sample_run ''r'' Run_SUCCEEDED)\<lparr>run_task_id := ''b''\<rparr>)]"

lemma taken_dispatch:
  "case dispatch sample_env sample_dispatcher sample_adapter ''a'' (sample_sys (run_ops taken_ops empty_store)) of
     (Inr run, s') \<Rightarrow> False | (Inl e, s') \<Rightarrow> True"
  "status_in_store (run_ops taken_ops empty_store) ''a'' = Some Task_READY"
  by code_simp+

theorem dispatch_result_witness:
  "(\<exists>s' :: unit sys. has_run s' ''r'' ''a'' \<and> status_of s' ''a'' = Some Task_RUNNING) \<and>
   status_of (snd (dispatch sample_env sample_dispatcher sample_adapter ''a'' (sample_sys (run_ops taken_ops empty_store)))) ''a'' \<noteq>
     Some Task_RUNNING"
proof
  obtain run s' where
    "dispatch sample_env sample_dispatcher sample_adapter ''a'' (sample_sys (run_ops task_ops empty_store)) =
       (Inr run, s')" "run_id run = ''r''"
    using sample_dispatch_run by (auto split: prod.splits sum.splits)
  then show "\<exists>s' :: unit sys. has_run s' ''r'' ''a'' \<and> status_of s' ''a'' = Some Task_RUNNING"
    using dispatch_result [of _ _ _ "''a''"] by fastforce
next
  let ?s = "sample_sys (run_ops taken_ops empty_store)"
  obtain e s' where D: "dispatch sample_env sample_dispatcher sample_adapter ''a'' ?s = (Inl e, s')"
    using taken_dispatch(1) by (auto split: prod.splits sum.splits)
  have "others_respect (not_started ''a'') sample_env"
    using quiet_sample by (simp add: others_respect_def not_started_def quiet_def run_ops_def)
  then have "not_started ''a'' (sys_db ?s) (sys_db s')" using dispatch_result [OF D] by blast
  then show "status_of (snd (dispatch sample_env sample_dispatcher sample_adapter ''a'' ?s)) ''a'' \<noteq> Some Task_RUNNING"
    using taken_dispatch(2) unfolding D by (auto simp: not_started_def status_of_def status_in_store_def)
qed

text \<open>Every service keeps the store sound whatever other processes do meanwhile and however the
  engine, the workspace provisioner and the context sources behave: the store invariant is
  preserved and nothing that was recorded is lost, also when the call raises half-way.\<close>

theorem dispatch_keeps_store:
  "on_db sound_step s (snd (dispatch env ds ad tid s)) \<and>
   on_db sound_step s (snd (dispatch_rework env ds ad tid feedback s))"
  by (intro conjI keepsD [OF dispatch_sound surjective_pairing] keepsD [OF dispatch_rework_sound surjective_pairing])

section \<open>Recovery\<close>

text \<open>C22. What a retry has checked.  Alone, when it returns, the task was BLOCKED, or CLAIMED with a
  recoverable latest run; it had no active run; the latest run was recoverable; the limit of
  retryable runs was not reached and the backoff of the latest failure had elapsed when this retry read
  the clock, right after its four reads of the store.  The task then
  stands at VALIDATING for a failed publication and at READY otherwise.\<close>

theorem retry_guards:
  assumes "quiet env" "retry env p tid s = (Inr t, s')"
  shows "\<exists>task. let runs = list_runs (sys_db s) (Some tid);
        rework = (latest_rework_feedback (sys_db s) tid \<noteq> None) in
      get_task (sys_db s) tid = Some task \<and> task_status task \<in> {Task_BLOCKED, Task_CLAIMED} \<and>
      find_active_run (sys_db s) tid = None \<and>
      classify_retry task (latest_of runs) rework \<noteq> NON_RECOVERABLE \<and>
      int (length (filter retryable runs)) < run_retry_limit p \<and>
      (task_status task = Task_CLAIMED \<longrightarrow> claim_recoverable runs rework) \<and>
      \<not> backoff_pending p (env_now env (sys_tick s + 4)) runs \<and>
      status_of s' tid = Some (if is_publication_retry task (latest_of runs) then Task_VALIDATING
                               else Task_READY)"
proof -
  obtain task where task: "retry_allowed p (sys_db s) tid task"
    "task_status t = retry_target task (latest_of (list_runs (sys_db s) (Some tid)))"
    "status_of s' tid = Some (task_status t)"
    using wpD_Inr [OF retry_wp [OF assms(1)] assms(2)] by blast
  then show ?thesis
    using retry_backoff [OF assms] unfolding retry_allowed_def retry_target_def Let_def
    by (intro exI [of _ task]) simp
qed

lemma sample_retry_run:
  "case retry sample_env default_policy ''a'' (sample_sys (run_ops (claim_ops @
      [Apply_transition 1 5 ''t2'' ''a'' Task_CLAIMED Task_BLOCKED]) empty_store)) of
     (Inr t, s') \<Rightarrow> True | (Inl e, s') \<Rightarrow> False"
  by code_simp

theorem retry_guards_witness:
  "\<exists>s' :: unit sys. status_of s' ''a'' \<in> {Some Task_VALIDATING, Some Task_READY}"
proof -
  obtain t s' where "retry sample_env default_policy ''a'' (sample_sys (run_ops (claim_ops @
      [Apply_transition 1 5 ''t2'' ''a'' Task_CLAIMED Task_BLOCKED]) empty_store)) = (Inr t, s')"
    using sample_retry_run by (auto split: prod.splits sum.splits)
  from retry_guards [OF quiet_sample this] obtain b where
    "status_of s' ''a'' = Some (if b then Task_VALIDATING else Task_READY)"
    unfolding Let_def by blast
  then show ?thesis by (intro exI [of _ s']) (simp split: if_splits)
qed

text \<open>The backoff of a valid policy is bounded by its two limits, never shrinks from one failure
  to the next, and does not change any more from the 31st failure on.\<close>

theorem backoff_delays:
  assumes "check_policy p = Inr p" "1 \<le> n" "n \<le> m"
  shows "\<exists>x y. delay_for p n = Inr x \<and> delay_for p m = Inr y \<and>
    base_backoff_seconds p \<le> x \<and> x \<le> y \<and> y \<le> max_backoff_seconds p \<and>
    (31 \<le> n \<longrightarrow> x = y)"
proof -
  have "0 \<le> base_backoff_seconds p" using assms(1) by (auto simp: check_policy_def split: if_splits)
  then obtain x y where xy: "delay_for p n = Inr x" "delay_for p m = Inr y" "x \<le> y"
    using delay_for_mono assms(2,3) by blast
  moreover have "x = y" if "31 \<le> n"
    using xy that assms(3) delay_for_saturates [of n p] delay_for_saturates [of m p] by simp
  ultimately show ?thesis
    using delay_for_bounds [OF assms(1) xy(1)] delay_for_bounds [OF assms(1) xy(2)] assms(2) by auto
qed

theorem backoff_delays_witness:
  "\<exists>x y. delay_for default_policy 1 = Inr x \<and> delay_for default_policy 3 = Inr y \<and> x \<le> y"
  using backoff_delays [of default_policy 1 3]
  by (auto simp: check_policy_def default_policy_def)

text \<open>What passes the feedback filter is short, non-empty, printable text without a credential,
  already trimmed, and the filter accepts it again unchanged.\<close>

theorem sanitized_feedback:
  assumes "sanitize_feedback raw = Inr s"
  shows "s \<noteq> [] \<and> length s \<le> 4000 \<and> list_all feedback_char s \<and> \<not> sensitive s \<and> strip s = s \<and>
    sanitize_feedback s = Inr s"
  using assms sanitize_feedback_idem [OF assms]
  by (auto simp: sanitize_feedback_def Let_def split: if_splits)

theorem sanitized_feedback_witness: "\<not> sensitive ''fix it'' \<and> sanitize_feedback ''fix it'' = Inr ''fix it''"
proof -
  have "sanitize_feedback ''  fix it '' = Inr ''fix it''" by code_simp
  from sanitized_feedback [OF this] show ?thesis by blast
qed

text \<open>A QA rework request that returns was made for a code task awaiting review whose latest run
  succeeded; it records exactly one request, with the reviewed run and the sanitized feedback, and
  moves the task to CHANGES_REQUESTED.  A request that is refused writes nothing.\<close>

theorem rework_request:
  assumes "quiet env" "request_rework_review env src tid fb s = (r, s')"
  shows "(case r of Inl _ \<Rightarrow> sys_db s' = sys_db s
    | Inr t \<Rightarrow> \<exists>task run clean rq now. get_task (sys_db s) tid = Some task \<and>
        task_status task = Task_WAITING_HUMAN \<and> task_kind task = CODE \<and>
        sanitize_feedback fb = Inr clean \<and> latest_of (list_runs (sys_db s) (Some tid)) = Some run \<and>
        run_status run = Run_SUCCEEDED \<and> status_of s' tid = Some Task_CHANGES_REQUESTED \<and>
        db_rework (sys_db s') = db_rework (sys_db s) @ [\<lparr>rw_id = rq, rw_task = tid,
          rw_run = run_id run, rw_feedback = clean, rw_requested_at = now\<rparr>])"
proof (cases r)
  case (Inl e)
  then show ?thesis using wpD_Inl [OF rework_wp [OF assms(1)] assms(2) [unfolded Inl]] by simp
next
  case (Inr t)
  show ?thesis using wpD_Inr [OF rework_wp [OF assms(1)] assms(2) [unfolded Inr]] Inr by auto
qed

lemma sample_rework_refused:
  "request_rework_review sample_env (\<lambda>pr u. (Inr PR_OPEN, u)) ''a'' ''fix it''
     (sample_sys (run_ops claim_ops empty_store)) =
   (Inl (ReworkNotAllowedError ''task is not awaiting code review''),
    (sample_sys (run_ops claim_ops empty_store))\<lparr>sys_tick := 1\<rparr>)"
  by code_simp

theorem rework_request_witness:
  "sys_db ((sample_sys (run_ops claim_ops empty_store))\<lparr>sys_tick := 1\<rparr>) = run_ops claim_ops empty_store"
  using rework_request [OF quiet_sample sample_rework_refused] by simp

section \<open>Context packs\<close>

definition sample_fragments :: "context_fragment list" where
  "sample_fragments = map (\<lambda>i. \<lparr>frag_source = ''s'', frag_type = ''t'', frag_id = i,
     frag_version = ''1'', frag_content_ref = ''d'', frag_content = ''c''\<rparr>) [''b'', ''a'']"

definition sample_pack :: context_pack where
  "sample_pack = \<lparr>pack_version = 1, pack_budget = 9, pack_fragments = rev sample_fragments,
     pack_sha256 = ''d'', pack_base_sha256 = None\<rparr>"

lemma sample_pack_built: "build_pack (\<lambda>_. ''d'') sample_fragments 9 None = Inr sample_pack"
  by code_simp

text \<open>A context pack is well formed: its fragments are some of the supplied ones, sorted by source,
  type and id without repetition, each with the content its digest names, and together within the
  budget; the pack digest is the digest of its canonical text.\<close>

theorem pack_well_formed:
  assumes "build_pack digest fs budget base = Inr p"
  shows "sorted (map frag_key (pack_fragments p)) \<and> distinct (map frag_key (pack_fragments p)) \<and>
    pack_fragments p \<noteq> [] \<and> set (pack_fragments p) \<subseteq> set fs \<and>
    (\<forall>f \<in> set (pack_fragments p). digest (frag_content f) = frag_content_ref f) \<and>
    int (sum_list (map (\<lambda>f. length (frag_content f)) (pack_fragments p))) \<le> budget \<and>
    pack_sha256 p = digest (canonical_pack budget (pack_fragments p) base)"
  using build_pack_sound [OF assms] build_pack_parts [OF assms] by metis

theorem pack_well_formed_witness:
  "int (sum_list (map (\<lambda>f. length (frag_content f)) (pack_fragments sample_pack))) \<le> 9"
  using pack_well_formed [OF sample_pack_built] by blast

text \<open>The pack does not depend on the order in which the sources supply their fragments.\<close>

theorem pack_order_irrelevant:
  assumes "distinct (map frag_key fs)" "mset gs = mset fs"
  shows "build_pack digest gs budget base = build_pack digest fs budget base"
  by (rule build_pack_order [OF assms])

theorem pack_order_irrelevant_witness:
  "build_pack (\<lambda>_. ''d'') (rev sample_fragments) 9 None = build_pack (\<lambda>_. ''d'') sample_fragments 9 None"
  by (rule pack_order_irrelevant) (simp_all add: sample_fragments_def frag_key_def)

text \<open>Round trip: the metadata stored with a run reads back as the pack without its contents, and
  passes the digest check.\<close>

theorem pack_metadata_read_back:
  assumes "build_pack digest fs budget base = Inr p" "list_all (\<lambda>f. check_fragment f = Inr f) fs"
  shows "pack_from_metadata digest (pack_metadata p) = Inr (pack_metadata p)"
  by (rule pack_metadata_roundtrip [OF assms])

theorem pack_metadata_read_back_witness:
  "pack_from_metadata (\<lambda>_. ''d'') (pack_metadata sample_pack) = Inr (pack_metadata sample_pack)"
proof -
  have "list_all (\<lambda>f. check_fragment f = Inr f) sample_fragments"
    by (simp add: sample_fragments_def check_fragment_def)
  then show ?thesis by (rule pack_metadata_read_back [OF sample_pack_built])
qed

section \<open>Tracking\<close>

definition tracked_ops :: "store_op list" where
  "tracked_ops = run_created_ops @ [Apply_transition 1 5 ''t2'' ''a'' Task_CLAIMED Task_RUNNING]"

text \<open>C7. Only the revision that passed the gates is bound: when \<open>_validate_revision\<close> returns a revision,
  the workspace of the run had that revision when it was inspected right before the gates were
  evaluated, and again right after; the gates returned are the ones of that evaluation, every required one
  is green, and every required gate asked for (with no project registry those of the configuration and those of the
  task, with a registry those of the project) is among them as green, whatever the gate runner
  returned or raised and whatever other processes do.\<close>

theorem validated_revision_gates:
  assumes "validate_revision env tr run s = (Inr (gates, Some revision), s')"
  shows "\<exists>w s0 s1 s2 specs u. run_workspace run = Some w \<and>
    fingerprint tr w s0 = (Inr (Some revision), s1) \<and>
    evaluate_gates env tr run s1 = (Inr gates, s2) \<and> specs_for env tr run s1 = (Inr specs, u) \<and>
    fingerprint tr w s2 = (Inr (Some revision), s') \<and>
    list_all is_green (filter gate_required gates) \<and>
    (\<forall>spec \<in> set specs. spec_required spec \<longrightarrow> (\<exists>g \<in> set gates. gate_name g = spec_name spec \<and> is_green g)) \<and>
    (tr_registry tr = None \<longrightarrow> set (tr_gate_specs tr) \<subseteq> set specs)"
proof -
  obtain w s0 s1 s2 where *: "run_workspace run = Some w" "fingerprint tr w s0 = (Inr (Some revision), s1)"
    "evaluate_gates env tr run s1 = (Inr gates, s2)" "fingerprint tr w s2 = (Inr (Some revision), s')"
    "list_all is_green (filter gate_required gates)"
    using validate_revision_binds [OF assms] .
  obtain specs u where specs: "specs_for env tr run s1 = (Inr specs, u)"
    and names: "map (\<lambda>g. (gate_name g, gate_required g)) gates = map (\<lambda>s. (spec_name s, spec_required s)) specs"
    using evaluate_gates_names [OF *(3)] .
  have "\<exists>g \<in> set gates. gate_name g = spec_name spec \<and> is_green g" if "spec \<in> set specs" "spec_required spec" for spec
  proof -
    have "(spec_name spec, True) \<in> set (map (\<lambda>g. (gate_name g, gate_required g)) gates)"
      unfolding names using that by force
    then show ?thesis using *(5) by (auto simp: list_all_iff)
  qed
  with * specs specs_configured [OF specs] show ?thesis
    by (intro exI [of _ w] exI [of _ s0] exI [of _ s1] exI [of _ s2] exI [of _ specs] exI [of _ u]) auto
qed

lemma sample_validated:
  "\<exists>s' gates. validate_revision sample_env sample_tracker (sample_run ''r'' Run_SUCCEEDED)
     (sample_sys (run_ops tracked_ops empty_store)) = (Inr (gates, Some ''sha''), s')"
proof -
  have "case validate_revision sample_env sample_tracker (sample_run ''r'' Run_SUCCEEDED)
      (sample_sys (run_ops tracked_ops empty_store)) of
      (Inr (gates, bound), s') \<Rightarrow> bound = Some ''sha'' | (Inl e, s') \<Rightarrow> False"
    by code_simp
  then show ?thesis by (auto split: prod.splits sum.splits)
qed

theorem validated_revision_gates_witness: "\<exists>g. gate_name g = ''tests'' \<and> is_green g"
proof -
  obtain s' gates where v: "validate_revision sample_env sample_tracker (sample_run ''r'' Run_SUCCEEDED)
     (sample_sys (run_ops tracked_ops empty_store)) = (Inr (gates, Some ''sha''), s')"
    using sample_validated by blast
  have gate: "tr_registry sample_tracker = None" "sample_gate \<in> set (tr_gate_specs sample_tracker)"
    "spec_required sample_gate" "spec_name sample_gate = ''tests''"
    by (simp_all add: sample_tracker_def sample_gate_def)
  obtain specs where "set (tr_gate_specs sample_tracker) \<subseteq> set specs"
    "\<forall>spec \<in> set specs. spec_required spec \<longrightarrow> (\<exists>g \<in> set gates. gate_name g = spec_name spec \<and> is_green g)"
    using validated_revision_gates [OF v] gate(1) by auto
  with gate show ?thesis by (metis subsetD)
qed

text \<open>C21. A failed collection persists nothing: when a refresh, with no other process writing meanwhile, ends with
  the collection error, the store is the one it started from, so a later refresh collects the same run again.\<close>

theorem collect_failure_unwritten:
  assumes "quiet env" "refresh env tr rid ad s = (Inl (AgentCollectError a b), s')"
  shows "sys_db s' = sys_db s"
  using wpD_Inl [OF refresh_collect_failure [OF assms(1)] assms(2)] by (simp add: unwritten_def)

theorem collect_failure_unwritten_witness:
  "\<exists>s' :: unit sys. sys_db s' = run_ops tracked_ops empty_store"
proof -
  have "case refresh sample_env sample_tracker ''r'' broken_adapter
      (sample_sys (run_ops tracked_ops empty_store)) of
      (Inl e, s') \<Rightarrow> e = AgentCollectError ''r'' ''a'' | (Inr _, s') \<Rightarrow> False"
    by code_simp
  then obtain s' where "refresh sample_env sample_tracker ''r'' broken_adapter
      (sample_sys (run_ops tracked_ops empty_store)) = (Inl (AgentCollectError ''r'' ''a''), s')"
    by (auto split: prod.splits sum.splits)
  from collect_failure_unwritten [OF quiet_sample this] show ?thesis by auto
qed

text \<open>C23. Driving a task from a run is idempotent.  With no other process writing meanwhile, and when a first
  pass returns, that pass either changed nothing or left the task in VALIDATING, FAILED, CANCELLED or
  BLOCKED, and a second pass over the same run returns and changes nothing.\<close>

theorem drive_task_idempotent:
  assumes "quiet env" "drive_task env run s = (Inr u, s1)"
  shows "(sys_db s1 = sys_db s \<or> status_of s1 (run_task_id run) \<in>
      Some ` {Task_VALIDATING, Task_FAILED, Task_CANCELLED, Task_BLOCKED}) \<and>
    sys_db (snd (drive_task env run s1)) = sys_db s1 \<and> (\<exists>v. fst (drive_task env run s1) = Inr v)"
proof -
  have d: "driven (sys_db s) run (sys_db s1)"
    using wpD_Inr [OF drive_task_settles [OF assms(1)] assms(2)] by simp
  then have "wp (drive_task env run) (\<lambda>_ s'. sys_db s' = sys_db s1) (\<lambda>_ _. False) s1"
    by (intro drive_task_done assms(1)) (simp add: driven_def)
  then show ?thesis
    using d by (auto simp: driven_def status_of_def wp_def split: prod.splits sum.splits)
qed

theorem drive_task_idempotent_witness:
  "\<exists>s1 :: unit sys. sys_db (snd (drive_task sample_env (sample_run ''r'' Run_SUCCEEDED) s1)) = sys_db s1"
proof -
  have "case drive_task sample_env (sample_run ''r'' Run_SUCCEEDED)
      (sample_sys (run_ops tracked_ops empty_store)) of
      (Inr u, s') \<Rightarrow> True | (Inl e, s') \<Rightarrow> False"
    by code_simp
  then obtain u s1 where "drive_task sample_env (sample_run ''r'' Run_SUCCEEDED)
      (sample_sys (run_ops tracked_ops empty_store)) = (Inr u, s1)"
    by (auto split: prod.splits sum.splits)
  from drive_task_idempotent [OF quiet_sample this] show ?thesis by blast
qed

end
