(* ===== verification/Publication_Service.thy ===== *)
theory Publication_Service
  imports Tracking_Facts
begin

text \<open>
  \<^verbatim>\<open>PublicationService\<close> (\<^verbatim>\<open>publication.py\<close>) and the security review gate in front of it
  (\<^verbatim>\<open>persistence/security.py\<close>): guard a run, review its revision, push it, open or recover its pull
  request, persist it and hand the task to a human.  The publisher, the pull request provider and
  the security inspector are external ports.
\<close>

section \<open>Ports\<close>

record 'w publication =
  pub_publish :: "factory_task \<Rightarrow> agent_run \<Rightarrow> ('w, published_revision) port"
  pub_find :: "'w find_pr_port"
  pub_open :: "pull_request \<Rightarrow> ('w, pull_request) port"
  pub_inspect :: "factory_task \<Rightarrow> agent_run \<Rightarrow> ('w, security_review) port"
  pub_base_branch :: string
  pub_registry :: "project_registry option"

record publication_result =
  pub_pull_request :: pull_request
  pub_task_status :: task_status
  pub_opened_now :: bool

section \<open>The security review gate\<close>

definition append_fact :: "env \<Rightarrow> factory_task \<Rightarrow> agent_run \<Rightarrow> security_review \<Rightarrow> string \<Rightarrow>
    (string \<times> json) list \<Rightarrow> ('w, unit) call" where
  "append_fact env t run r name evidence =
     db_write env (\<lambda>now ids. append_security now t run r name evidence)"

definition review :: "env \<Rightarrow> 'w publication \<Rightarrow> factory_task \<Rightarrow> agent_run \<Rightarrow> ('w, security_review) call" where
  "review env p t run =
     andthen (on_error (external (pub_inspect p t run)) (\<lambda>e.
       let r = unavailable_review run in
       andthen (append_fact env t run r ''SecurityReviewUnavailable'' (unavailable_evidence r))
         (\<lambda>_. raise e))) (\<lambda>r.
     andthen (append_fact env t run r
         (if critical r then ''SecurityReviewBlocked'' else ''SecurityReviewPassed'')
         (review_evidence t r)) (\<lambda>_. ret r))"

definition record_override :: "env \<Rightarrow> (string \<Rightarrow> string) \<Rightarrow> factory_task \<Rightarrow> agent_run \<Rightarrow>
    security_review \<Rightarrow> string \<Rightarrow> string \<Rightarrow> ('w, unit) call" where
  "record_override env digest t run r actor reason =
     andthen (check (critical r \<and> strip actor \<noteq> [] \<and> strip reason \<noteq> [])
       (ValueError ''critical review, actor and reason required'')) (\<lambda>_.
     andthen (db_read env (review_recorded t run r)) (\<lambda>recorded.
     andthen (check recorded (ValueError ''review evidence not recorded'')) (\<lambda>_.
     append_fact env t run r ''SecurityReviewOverridden''
       (override_evidence digest r actor reason))))"

section \<open>Pure parts\<close>

definition protected_branches :: "string set" where
  "protected_branches = {''main'', ''master''}"

definition newline :: string where
  "newline = [CHR 0x0A]"

definition gate_line :: "quality_gate \<Rightarrow> string" where
  "gate_line g = ''- `'' @ gate_name g @ ''`: '' @ gate_status_value (gate_status g) @ '' ('' @
     (if gate_required g then ''required'' else ''optional'') @ '')''"

definition build_pull_request_body :: "factory_task \<Rightarrow> agent_run \<Rightarrow> string" where
  "build_pull_request_body t run = join newline
     ([''Automated publication by AI Factory Lab.'', [],
       ''This pull request awaits a mandatory human review. The factory never merges.'', [],
       ''- task id: `'' @ task_id t @ ''`'', ''- run id: `'' @ run_id run @ ''`''] @
      (case task_source t of None \<Rightarrow> []
         | Some s \<Rightarrow> [''- source issue: `'' @ source_external_ref s @ ''`'']) @
      [''- validation: `'' @ validation_outcome_value (validation_outcome run) @ ''`'', []] @
      (if run_gates run = [] then [''Quality gates: none configured.'']
       else ''Quality gates:'' # map gate_line (run_gates run)))"

definition validated_revision :: "agent_run \<Rightarrow> string" where
  "validated_revision run = (case run_validated_revision run of None \<Rightarrow> [] | Some v \<Rightarrow> strip v)"

definition MAX_TITLE_LENGTH :: nat where
  "MAX_TITLE_LENGTH = 200"

definition bounded_title :: "string \<Rightarrow> string" where
  "bounded_title title = (let cleaned = strip (filter is_printable title)
     in if cleaned = [] then ''factory change'' else take MAX_TITLE_LENGTH cleaned)"

definition with_factory_metadata :: "pull_request \<Rightarrow> factory_task \<Rightarrow> agent_run \<Rightarrow> string \<Rightarrow>
    string \<Rightarrow> pull_request" where
  "with_factory_metadata pr t run base sha =
     \<lparr>pr_repository = pr_repository pr, pr_head_branch = pr_head_branch pr,
      pr_base_branch = (if pr_base_branch pr = [] then base else pr_base_branch pr),
      pr_title = bounded_title (if pr_title pr = [] then task_title t else pr_title pr),
      pr_body = build_pull_request_body t run, pr_number = pr_number pr, pr_url = pr_url pr,
      pr_task_id = Some (task_id t), pr_run_id = Some (run_id run),
      pr_opened_at = pr_opened_at pr, pr_merged = pr_merged pr, pr_commit_sha = Some sha\<rparr>"

section \<open>Guards\<close>

definition base_for :: "'w publication \<Rightarrow> factory_task \<Rightarrow> (py_error, string) outcome" where
  "base_for p t = (case pub_registry p of None \<Rightarrow> Inr (pub_base_branch p)
     | Some reg \<Rightarrow> (case resolve_project reg (task_project t) (Some (task_repository t)) of
         Inl e \<Rightarrow> Inl e | Inr prof \<Rightarrow> Inr (prof_base_ref prof)))"

definition require_run :: "env \<Rightarrow> string \<Rightarrow> string \<Rightarrow> ('w, agent_run) call" where
  "require_run env rid tid = andthen (db_read env (\<lambda>d. get_run d rid)) (\<lambda>r. case r of
       None \<Rightarrow> raise (KeyError rid)
     | Some run \<Rightarrow> if run_task_id run \<noteq> tid
         then raise (TaskNotPublishableError tid rid ''run does not belong to the task'')
         else ret run)"

text \<open>The part of \<open>_require_publishable\<close> that needs no further read.\<close>

definition run_publishable :: "'w publication \<Rightarrow> factory_task \<Rightarrow> agent_run \<Rightarrow> (py_error, unit) outcome" where
  "run_publishable p t run =
     (let refuse = (\<lambda>m. Inl (TaskNotPublishableError (task_id t) (run_id run) m)) in
      if run_status run \<noteq> Run_SUCCEEDED
        then refuse (''run status is '' @ run_status_value (run_status run))
      else if validation_outcome run \<noteq> READY_FOR_NEXT_PHASE
        then refuse ''required quality gates did not pass''
      else case run_workspace run of None \<Rightarrow> refuse ''run has no workspace''
      | Some w \<Rightarrow>
        if run_project run \<noteq> task_project t \<or> ws_repository w \<noteq> task_repository t
        then refuse ''project identity mismatch''
        else case base_for p t of Inl _ \<Rightarrow> refuse ''project identity mismatch''
        | Inr base \<Rightarrow> if ws_branch w \<in> protected_branches \<or> ws_branch w = base
            then refuse ''workspace is on a default branch'' else Inr ())"

definition require_publishable :: "env \<Rightarrow> 'w publication \<Rightarrow> factory_task \<Rightarrow> agent_run \<Rightarrow> ('w, unit) call" where
  "require_publishable env p t run =
     andthen (is_latest_run env run) (\<lambda>latest. if \<not> latest
       then raise (TaskNotPublishableError (task_id t) (run_id run) ''run is superseded'')
       else from_outcome (run_publishable p t run))"

definition security_gate :: "env \<Rightarrow> 'w publication \<Rightarrow> factory_task \<Rightarrow> agent_run \<Rightarrow> ('w, unit) call" where
  "security_gate env p t run =
     (if task_status t = Task_WAITING_HUMAN then ret ()
      else on_error
        (andthen (review env p t run) (\<lambda>r.
          if \<not> critical r then ret ()
          else andthen (db_read env (is_overridden t run r)) (\<lambda>ok.
            check ok (SecurityReviewBlocked ''critical security review finding''))))
        (\<lambda>e. case e of SecurityReviewBlocked m \<Rightarrow> raise (SecurityReviewBlocked m)
           | _ \<Rightarrow> raise (SecurityReviewBlocked ''security review unavailable'')))"

section \<open>Identity checks\<close>

definition provider_identity :: "'w publication \<Rightarrow> factory_task \<Rightarrow> workspace \<Rightarrow> pull_request \<Rightarrow>
    string \<Rightarrow> bool" where
  "provider_identity p t w pr head \<longleftrightarrow> pr_repository pr = ws_repository w \<and>
     pr_head_branch pr = head \<and> base_for p t = Inr (pr_base_branch pr)"

definition persisted_identity :: "'w publication \<Rightarrow> factory_task \<Rightarrow> agent_run \<Rightarrow> workspace \<Rightarrow>
    pull_request \<Rightarrow> bool" where
  "persisted_identity p t run w pr \<longleftrightarrow> pr_repository pr = ws_repository w \<and>
     pr_head_branch pr = ws_branch w \<and> base_for p t = Inr (pr_base_branch pr) \<and>
     (pr_run_id pr = None \<or> pr_run_id pr = Some (run_id run)) \<and>
     (pr_task_id pr = None \<or> pr_task_id pr = Some (task_id t))"

definition stored_matches :: "pull_request \<Rightarrow> pull_request \<Rightarrow> bool" where
  "stored_matches stored intended \<longleftrightarrow> pr_repository stored = pr_repository intended \<and>
     pr_head_branch stored = pr_head_branch intended \<and>
     pr_base_branch stored = pr_base_branch intended \<and>
     (pr_run_id stored = None \<or> pr_run_id stored = pr_run_id intended)"

definition identity_error :: "factory_task \<Rightarrow> agent_run \<Rightarrow> py_error" where
  "identity_error t run = PullRequestIdentityError (task_id t) (run_id run)"

definition existing_pull_request :: "env \<Rightarrow> 'w publication \<Rightarrow> factory_task \<Rightarrow> agent_run \<Rightarrow>
    ('w, pull_request option) call" where
  "existing_pull_request env p t run =
     andthen (db_read env (\<lambda>d. get_for_run d (run_id run))) (\<lambda>own.
     andthen (case (own, run_workspace run) of
         (None, Some w) \<Rightarrow> db_read env (\<lambda>d. find_by_branch d (ws_repository w) (ws_branch w))
       | _ \<Rightarrow> ret own) (\<lambda>persisted.
     case persisted of None \<Rightarrow> ret None
     | Some pr \<Rightarrow> andthen (or_raise (run_workspace run) AssertionError) (\<lambda>w.
         andthen (check (persisted_identity p t run w pr) (identity_error t run)) (\<lambda>_.
         ret (Some pr)))))"

definition rework_pull_request :: "env \<Rightarrow> 'w publication \<Rightarrow> factory_task \<Rightarrow> agent_run \<Rightarrow>
    ('w, pull_request option) call" where
  "rework_pull_request env p t run = (case run_workspace run of None \<Rightarrow> ret None
     | Some w \<Rightarrow>
       andthen (db_read env (\<lambda>d. get_for_run d (run_id run))) (\<lambda>own. if own \<noteq> None then ret None
       else andthen (db_read env (\<lambda>d. find_by_branch d (ws_repository w) (ws_branch w))) (\<lambda>prior.
       case prior of None \<Rightarrow> ret None
       | Some pr \<Rightarrow>
         andthen (check (pr_task_id pr = Some (task_id t) \<and> pr_repository pr = task_repository t \<and>
             pr_head_branch pr = ws_branch w \<and> base_for p t = Inr (pr_base_branch pr) \<and>
             pr_number pr \<noteq> None \<and> pr_run_id pr \<noteq> None) (identity_error t run)) (\<lambda>_.
         andthen (db_read env (\<lambda>d. list_runs d (Some (task_id t)))) (\<lambda>runs.
         andthen (check (list_ex (\<lambda>q. Some (run_id q) = pr_run_id pr) (butlast runs))
             (identity_error t run)) (\<lambda>_.
         ret (Some pr)))))))"

section \<open>Publication steps\<close>

definition resolve_pull_request :: "env \<Rightarrow> 'w publication \<Rightarrow> factory_task \<Rightarrow> agent_run \<Rightarrow> string \<Rightarrow>
    string \<Rightarrow> ('w, pull_request) call" where
  "resolve_pull_request env p t run head sha =
     andthen (or_raise (run_workspace run) AssertionError) (\<lambda>w.
     andthen (from_outcome (target_repository (ws_repository w))) (\<lambda>repo.
     andthen (from_outcome (base_for p t)) (\<lambda>base.
     andthen (external (pub_find p repo head base)) (\<lambda>found. case found of
       Some pr \<Rightarrow> andthen (check (provider_identity p t w pr head) (identity_error t run)) (\<lambda>_.
         ret (with_factory_metadata pr t run base sha))
     | None \<Rightarrow>
       andthen (clock env) (\<lambda>now.
       let requested = \<lparr>pr_repository = ws_repository w, pr_head_branch = head,
             pr_base_branch = base, pr_title = bounded_title (task_title t),
             pr_body = build_pull_request_body t run, pr_number = None, pr_url = None,
             pr_task_id = Some (task_id t), pr_run_id = Some (run_id run), pr_opened_at = now,
             pr_merged = False, pr_commit_sha = None\<rparr>
       in andthen (external (pub_open p requested)) (\<lambda>opened.
          andthen (check (provider_identity p t w opened head) (identity_error t run)) (\<lambda>_.
          ret (with_factory_metadata opened t run base sha))))))))"

definition persist :: "env \<Rightarrow> pull_request \<Rightarrow> ('w, pull_request) call" where
  "persist env pr = on_error (db_write env (\<lambda>now ids. save_pr (ids 0) pr)) (\<lambda>e. case e of
       DuplicatePullRequestError _ _ _ \<Rightarrow>
         andthen (case pr_run_id pr of None \<Rightarrow> ret None
           | Some rid \<Rightarrow> db_read env (\<lambda>d. get_for_run d rid)) (\<lambda>own.
         andthen (if own \<noteq> None then ret own
           else db_read env (\<lambda>d. find_by_branch d (pr_repository pr) (pr_head_branch pr))) (\<lambda>stored.
         case stored of None \<Rightarrow> raise e
         | Some q \<Rightarrow> andthen (check (stored_matches q pr) (PullRequestIdentityError
               (case pr_task_id pr of None \<Rightarrow> [] | Some x \<Rightarrow> x)
               (case pr_run_id pr of None \<Rightarrow> [] | Some x \<Rightarrow> x))) (\<lambda>_. ret q)))
     | _ \<Rightarrow> raise e)"

definition publication_apply :: "env \<Rightarrow> string \<Rightarrow> task_status \<Rightarrow> ('w, unit) call" where
  "publication_apply env tid target =
     on_error (andthen (transition env tid target None) (\<lambda>_. ret ())) (\<lambda>e. case e of
         InvalidTransitionError _ _ \<Rightarrow> ret ()
       | TaskStateChangedError _ _ _ \<Rightarrow> ret ()
       | _ \<Rightarrow> raise e)"

definition reconcile_publication :: "env \<Rightarrow> string \<Rightarrow> ('w, task_status \<times> bool) call" where
  "reconcile_publication env tid =
     andthen (require_task env tid) (\<lambda>t.
     andthen (if task_status t = Task_VALIDATING
              then andthen (publication_apply env tid Task_PR_OPEN) (\<lambda>_. ret True)
              else ret False) (\<lambda>first.
     andthen (tasks_get env tid) (\<lambda>t2.
     andthen (if map_option task_status t2 = Some Task_PR_OPEN
              then andthen (publication_apply env tid Task_WAITING_HUMAN) (\<lambda>_. ret True)
              else ret first) (\<lambda>opened.
     andthen (tasks_get env tid) (\<lambda>t3.
     ret (case t3 of None \<Rightarrow> Task_VALIDATING | Some x \<Rightarrow> task_status x, opened))))))"

definition finish_publication :: "env \<Rightarrow> string \<Rightarrow> pull_request \<Rightarrow> ('w, publication_result) call" where
  "finish_publication env tid pr =
     andthen (reconcile_publication env tid) (\<lambda>(status, opened).
     ret \<lparr>pub_pull_request = pr, pub_task_status = status, pub_opened_now = opened\<rparr>)"

text \<open>A rework run pushes a new revision of the pull request that is under review.\<close>

definition publish_rework :: "env \<Rightarrow> 'w publication \<Rightarrow> factory_task \<Rightarrow> agent_run \<Rightarrow> pull_request \<Rightarrow>
    ('w, pull_request) call" where
  "publish_rework env p t run prior =
     andthen (check (validated_revision run \<noteq> [])
       (ValidatedRevisionMissingError (task_id t) (run_id run))) (\<lambda>_.
     andthen (or_raise (run_workspace run) AssertionError) (\<lambda>w.
     andthen (from_outcome (target_repository (ws_repository w))) (\<lambda>repo.
     andthen (from_outcome (base_for p t)) (\<lambda>base.
     andthen (external (pub_find p repo (ws_branch w) base)) (\<lambda>found. case found of
       None \<Rightarrow> raise (identity_error t run)
     | Some pr \<Rightarrow>
       andthen (check (pr_number pr = pr_number prior \<and> pr_url pr = pr_url prior)
         (identity_error t run)) (\<lambda>_.
       andthen (check (provider_identity p t w pr (ws_branch w)) (identity_error t run)) (\<lambda>_.
       andthen (external (pub_publish p t run)) (\<lambda>revision.
       andthen (check (rev_branch revision = pr_head_branch prior) (identity_error t run)) (\<lambda>_.
       db_write env (\<lambda>now ids.
         record_revision now prior (run_id run) (rev_commit_sha revision)))))))))))"

definition publish_new :: "env \<Rightarrow> 'w publication \<Rightarrow> factory_task \<Rightarrow> agent_run \<Rightarrow>
    ('w, publication_result) call" where
  "publish_new env p t run =
     andthen (check (task_status t = Task_VALIDATING) (TaskNotPublishableError (task_id t) (run_id run)
       (''task is '' @ task_status_value (task_status t) @ '', not VALIDATING''))) (\<lambda>_.
     andthen (check (validated_revision run \<noteq> [])
       (ValidatedRevisionMissingError (task_id t) (run_id run))) (\<lambda>_.
     andthen (external (pub_publish p t run)) (\<lambda>revision.
     andthen (resolve_pull_request env p t run (rev_branch revision) (rev_commit_sha revision)) (\<lambda>pr.
     andthen (persist env pr) (\<lambda>persisted.
     finish_publication env (task_id t) persisted)))))"

text \<open>What \<open>publish\<close> does with a run that passed the guards.\<close>

definition publish_run :: "env \<Rightarrow> 'w publication \<Rightarrow> factory_task \<Rightarrow> agent_run \<Rightarrow>
    ('w, publication_result) call" where
  "publish_run env p t run =
     andthen (security_gate env p t run) (\<lambda>_.
     andthen (rework_pull_request env p t run) (\<lambda>rework. case rework of
       Some prior \<Rightarrow>
         andthen (if task_status t = Task_VALIDATING then publish_rework env p t run prior
                  else ret prior) (finish_publication env (task_id t))
     | None \<Rightarrow>
         andthen (existing_pull_request env p t run) (\<lambda>existing. case existing of
           Some pr \<Rightarrow> finish_publication env (task_id t) pr
         | None \<Rightarrow> publish_new env p t run)))"

definition publish :: "env \<Rightarrow> 'w publication \<Rightarrow> string \<Rightarrow> string \<Rightarrow> ('w, publication_result) call" where
  "publish env p tid rid =
     andthen (require_task env tid) (\<lambda>t.
     andthen (require_run env rid tid) (\<lambda>run.
     andthen (require_publishable env p t run) (\<lambda>_. publish_run env p t run)))"

end
