(* ===== verification/Publication_Facts.thy ===== *)
theory Publication_Facts
  imports Publication_Service
begin

text \<open>
  What publication guarantees: it is a historical step, the pull request it returns carries the
  identity of a green, isolated run of the task, the handover ends at \<open>WAITING_HUMAN\<close>, a task that
  is already there is left alone, and nothing is pushed or opened for a run that fails a guard.
\<close>

section \<open>Soundness\<close>

lemma publication_writes:
  assumes "others_recorded env"
  shows "keeps (on_db historical_step) (append_fact env t run r name evidence)"
    "keeps (on_db historical_step) (db_write env (\<lambda>now ids. save_pr (ids 0) pr))"
    "keeps (on_db historical_step) (db_write env (\<lambda>now ids. record_revision now pr rid sha))"
  unfolding append_fact_def
  by (auto intro!: historical_write [OF assms] dest: append_security_events only_events_steps(2)
      intro: save_pr_historical record_revision_historical)

lemma security_gate_historical:
  assumes "others_recorded env" shows "keeps (on_db historical_step) (security_gate env p t run)"
  unfolding security_gate_def review_def Let_def
  by (intro historical_intros publication_writes assms)
    (auto intro: historical_intros split: py_error.splits)

lemma persist_historical:
  assumes "others_recorded env" shows "keeps (on_db historical_step) (persist env pr)"
proof -
  have dup: "keeps (on_db historical_step) (case e of DuplicatePullRequestError _ _ _ \<Rightarrow> m | _ \<Rightarrow> raise e)"
    if "keeps (on_db historical_step) m" for e and m :: "('w, pull_request) call"
    using that by (cases e) (simp_all add: historical_intros)
  show ?thesis
    unfolding persist_def by (intro historical_intros dup publication_writes assms)
qed

lemma publication_apply_historical:
  assumes "others_recorded env" shows "keeps (on_db historical_step) (publication_apply env tid b)"
  unfolding publication_apply_def
  by (intro historical_intros transition_historical assms)
    (auto intro: historical_intros split: py_error.splits)

lemma finish_publication_historical:
  assumes "others_recorded env" shows "keeps (on_db historical_step) (finish_publication env tid pr)"
  unfolding finish_publication_def reconcile_publication_def require_task_def
  by (intro historical_intros publication_apply_historical assms)

lemma publish_historical:
  fixes s :: "'w sys"
  assumes "others_recorded env" shows "keeps (on_db historical_step) (publish env p tid rid)"
proof -
  have own: "keeps (on_db historical_step) (case (own, w) of (None, Some w) \<Rightarrow> db_read env (f w) | _ \<Rightarrow> ret own)"
    for own :: "'b option" and w :: "'c option" and f
    by (auto intro: historical_intros assms split: option.splits)
  show ?thesis
    unfolding publish_def publish_run_def require_task_def require_run_def require_publishable_def
      is_latest_run_def rework_pull_request_def publish_rework_def existing_pull_request_def publish_new_def
      resolve_pull_request_def Let_def
    by (intro historical_intros security_gate_historical publication_writes persist_historical
        finish_publication_historical own assms)
qed

section \<open>Identity of the published pull request\<close>

text \<open>Where a pull request lives: repository, head branch, base branch.\<close>

definition pr_place :: "pull_request \<Rightarrow> string \<times> string \<times> string" where
  "pr_place pr = (pr_repository pr, pr_head_branch pr, pr_base_branch pr)"

definition placed :: "'w publication \<Rightarrow> factory_task \<Rightarrow> agent_run \<Rightarrow> string \<Rightarrow> pull_request \<Rightarrow> bool" where
  "placed p t run head pr \<longleftrightarrow> (\<exists>w base. run_workspace run = Some w \<and> base_for p t = Inr base \<and>
     pr_place pr = (ws_repository w, head, base))"

lemma placed_cong: "placed p t run head q \<Longrightarrow> pr_place a = pr_place q \<Longrightarrow> placed p t run head a"
  by (simp add: placed_def)

lemma find_place:
  "find (\<lambda>p. pr_identity_match pr (prow_pr p)) ps = Some row \<Longrightarrow> pr_place (prow_pr row) = pr_place pr"
  by (drule find_SomeD) (auto simp: pr_identity_match_def pr_place_def)

lemma record_revision_place:
  "record_revision now pr rid sha d = Inr (pr', d') \<Longrightarrow> pr_place pr' = pr_place pr"
  by (auto simp: record_revision_def Let_def tx_step_eq_Inr row_to_pull_request_def
      split: option.splits if_splits prod.splits dest!: find_place)
    (simp_all add: pr_place_def)

lemma resolve_place:
  "wp (resolve_pull_request env p t run head sha) (\<lambda>pr _. placed p t run head pr) (\<lambda>_ _. True) s"
  unfolding resolve_pull_request_def Let_def wp_simps
  by (auto simp: wp_simps provider_identity_def placed_def pr_place_def with_factory_metadata_def
      split: option.splits sum.splits prod.splits)

lemma save_pr_returns: "save_pr uid pr d = Inr (q, d') \<Longrightarrow> q = pr"
  by (auto simp: save_pr_def Let_def split: option.splits if_splits sum.splits)

lemma persist_place:
  "wp (persist env pr) (\<lambda>q _. pr_place q = pr_place pr) (\<lambda>_ _. True) s"
  unfolding persist_def wp_simps
  by (auto simp: wp_simps stored_matches_def pr_place_def
      split: option.splits sum.splits prod.splits py_error.splits dest: save_pr_returns)

lemma existing_place:
  "wp (existing_pull_request env p t run) (\<lambda>x _. \<forall>pr w. x = Some pr \<longrightarrow> run_workspace run = Some w \<longrightarrow>
     placed p t run (ws_branch w) pr) (\<lambda>_ _. True) s"
  unfolding existing_pull_request_def wp_simps
  by (auto simp: wp_simps persisted_identity_def placed_def pr_place_def split: option.splits)

lemma rework_place:
  "wp (rework_pull_request env p t run) (\<lambda>x _. \<forall>pr w. x = Some pr \<longrightarrow> run_workspace run = Some w \<longrightarrow>
     ws_repository w = task_repository t \<longrightarrow> placed p t run (ws_branch w) pr) (\<lambda>_ _. True) s"
  unfolding rework_pull_request_def
  by (auto simp: wp_simps placed_def pr_place_def split: option.splits)

lemma publish_rework_place:
  "wp (publish_rework env p t run prior) (\<lambda>pr _. pr_place pr = pr_place prior) (\<lambda>_ _. True) s"
  unfolding publish_rework_def wp_simps
  by (auto simp: wp_simps split: option.splits sum.splits prod.splits dest: record_revision_place)

lemma finish_returns:
  "wp (finish_publication env tid pr) (\<lambda>res _. pub_pull_request res = pr) (\<lambda>_ _. True) s"
proof -
  have "wp (reconcile_publication env tid) (\<lambda>_ _. True) (\<lambda>_ _. True) s"
    by (simp add: wp_def split: prod.splits sum.splits)
  then show ?thesis
    unfolding finish_publication_def wp_andthen by (rule wp_mono) (auto simp: wp_simps)
qed

text \<open>Whatever way \<open>publish\<close> takes, the pull request is where the run's branch belongs.\<close>

definition published_ok :: "'w publication \<Rightarrow> factory_task \<Rightarrow> agent_run \<Rightarrow> publication_result \<Rightarrow> bool" where
  "published_ok p t run res \<longleftrightarrow> run_publishable p t run = Inr () \<and>
     (\<exists>w. run_workspace run = Some w \<and> placed p t run (ws_branch w) (pub_pull_request res))"

definition is_latest :: "store \<Rightarrow> agent_run \<Rightarrow> bool" where
  "is_latest d run \<longleftrightarrow> (case list_runs d (Some (run_task_id run)) of [] \<Rightarrow> False
     | r # rs \<Rightarrow> run_id (last (r # rs)) = run_id run)"

text \<open>The system after one more look at the store.\<close>

definition looked :: "env \<Rightarrow> 'w sys \<Rightarrow> 'w sys" where
  "looked env s = advance (db_view env s) s"

definition publisher_contract :: "'w publication \<Rightarrow> bool" where
  "publisher_contract p \<longleftrightarrow> (\<forall>t run x revision x'. pub_publish p t run x = (Inr revision, x') \<longrightarrow>
     Some (rev_branch revision) = map_option ws_branch (run_workspace run))"

lemma run_publishable_workspace:
  assumes "run_publishable p t run = Inr u"
  obtains w where "run_workspace run = Some w" "ws_repository w = task_repository t"
  using assms by (auto simp: run_publishable_def Let_def split: if_splits option.splits)

lemma publish_new_place:
  assumes "publisher_contract p" "run_workspace run = Some w"
  shows "wp (publish_new env p t run) (\<lambda>res _. placed p t run (ws_branch w) (pub_pull_request res))
     (\<lambda>_ _. True) s"
proof -
  have fin: "wp (finish_publication env x q) (\<lambda>res _. placed p t run (ws_branch w) (pub_pull_request res))
     (\<lambda>_ _. True) u" if "placed p t run (ws_branch w) q" for x q u
    by (rule wp_mono [OF finish_returns]) (use that in auto)
  have per: "wp (andthen (persist env q) (\<lambda>r. finish_publication env x r))
     (\<lambda>res _. placed p t run (ws_branch w) (pub_pull_request res)) (\<lambda>_ _. True) u"
    if "placed p t run (ws_branch w) q" for x q u
    unfolding wp_andthen
    by (rule wp_mono [OF persist_place]) (auto intro!: fin [OF placed_cong [OF that]])
  have res: "wp (andthen (resolve_pull_request env p t run (ws_branch w) sha) (\<lambda>pr.
      andthen (persist env pr) (\<lambda>r. finish_publication env (task_id t) r)))
     (\<lambda>res _. placed p t run (ws_branch w) (pub_pull_request res)) (\<lambda>_ _. True) u" for sha u
    unfolding wp_andthen [of "resolve_pull_request env p t run (ws_branch w) sha"]
    by (rule wp_mono [OF resolve_place]) (auto intro!: per)
  have branch: "rev_branch r = ws_branch w" if "pub_publish p t run x = (Inr r, x')" for x r x'
    using assms that unfolding publisher_contract_def by fastforce
  show ?thesis
    unfolding publish_new_def wp_andthen [of "check b e" for b e] wp_check
      wp_andthen [of "external q" for q] wp_external
    using res by (auto split: prod.splits sum.splits dest!: branch)
qed

lemma publish_run_place:
  assumes "publisher_contract p" "run_publishable p t run = Inr ()"
  shows "wp (publish_run env p t run) (\<lambda>res _. published_ok p t run res) (\<lambda>_ _. True) s"
proof -
  obtain w where w: "run_workspace run = Some w" "ws_repository w = task_repository t"
    using assms(2) by (rule run_publishable_workspace)
  let ?Q = "\<lambda>res _. published_ok p t run res"
  have good: "published_ok p t run res" if "placed p t run (ws_branch w) (pub_pull_request res)" for res
    using assms(2) w that unfolding published_ok_def by blast
  have fin: "wp (finish_publication env x q) ?Q (\<lambda>_ _. True) v"
    if "placed p t run (ws_branch w) q" for x q v
    by (rule wp_mono [OF finish_returns]) (use good that in auto)
  have new: "wp (publish_new env p t run) ?Q (\<lambda>_ _. True) v" for v
    by (rule wp_mono [OF publish_new_place [OF assms(1) w(1)]]) (use good in auto)
  have old: "wp (existing_pull_request env p t run) (\<lambda>x. wp (case x of
         Some pr \<Rightarrow> finish_publication env (task_id t) pr
       | None \<Rightarrow> publish_new env p t run) ?Q (\<lambda>_ _. True)) (\<lambda>_ _. True) v" for v
    by (rule wp_mono [OF existing_place]) (use w in \<open>auto intro!: fin new split: option.splits\<close>)
  have again: "wp (publish_rework env p t run prior) (\<lambda>x. wp (finish_publication env (task_id t) x)
      ?Q (\<lambda>_ _. True)) (\<lambda>_ _. True) v" if "placed p t run (ws_branch w) prior" for prior v
    by (rule wp_mono [OF publish_rework_place]) (auto intro!: fin [OF placed_cong [OF that]])
  have rework: "wp (rework_pull_request env p t run) (\<lambda>x. wp (case x of
       Some prior \<Rightarrow> andthen (if task_status t = Task_VALIDATING then publish_rework env p t run prior
                  else ret prior) (finish_publication env (task_id t))
     | None \<Rightarrow> andthen (existing_pull_request env p t run) (\<lambda>existing. case existing of
           Some pr \<Rightarrow> finish_publication env (task_id t) pr
         | None \<Rightarrow> publish_new env p t run)) ?Q (\<lambda>_ _. True)) (\<lambda>_ _. True) v" for v
    by (rule wp_mono [OF rework_place])
      (use w in \<open>auto simp: wp_andthen wp_ret intro!: again fin old split: option.splits\<close>)
  show ?thesis
    unfolding publish_run_def wp_andthen [of "security_gate env p t run"]
      wp_andthen [of "rework_pull_request env p t run"]
    by (rule wpI) (auto intro: rework)
qed

lemma publish_place:
  assumes "publisher_contract p" "publish env p tid rid s = (Inr res, s')"
  obtains t run where "get_task (db_view env s) tid = Some t" "get_run (db_view env (looked env s)) rid = Some run"
    "is_latest (db_view env (looked env (looked env s))) run" "run_task_id run = tid" "published_ok p t run res"
proof -
  have "wp (publish env p tid rid) (\<lambda>res _. \<exists>t run. get_task (db_view env s) tid = Some t \<and>
      get_run (db_view env (looked env s)) rid = Some run \<and> is_latest (db_view env (looked env (looked env s))) run \<and>
      run_task_id run = tid \<and> published_ok p t run res) (\<lambda>_ _. True) s"
    unfolding publish_def require_task_def require_run_def require_publishable_def is_latest_run_def tasks_get_def
      looked_def wp_simps
    by (auto simp: wp_simps is_latest_def intro!: wp_mono [OF publish_run_place [OF assms(1)]] split: option.splits sum.splits)
  from wpD_Inr [OF this assms(2)] show thesis using that by blast
qed

section \<open>The handover\<close>

text \<open>Every step before the handover leaves the tasks alone.\<close>

definition same_tasks :: "store \<Rightarrow> store \<Rightarrow> bool" where
  "same_tasks d d' \<longleftrightarrow> db_tasks d' = db_tasks d"

interpretation sys_tasks: preorder_relation "on_db same_tasks"
  by unfold_locales (auto simp: on_db_def same_tasks_def)

lemma wp_keeps: "keeps R m \<Longrightarrow> wp m (\<lambda>_ s'. R s s') (\<lambda>_ s'. R s s') s"
  by (rule wpI) (auto dest: keepsD)

lemma tasks_alone:
  assumes "quiet env"
  shows "keeps (on_db same_tasks) (db_read env f)" "keeps (on_db same_tasks) (external q)"
    "keeps (on_db same_tasks) (clock env)"
    "(\<And>now ids d a d'. g now ids d = Inr (a, d') \<Longrightarrow> same_tasks d d') \<Longrightarrow>
       keeps (on_db same_tasks) (db_write env g)"
  using assms keeps_world [where R = same_tasks] keeps_db_read [of same_tasks env f]
    keeps_db_write [of same_tasks env g]
  by (auto simp: others_respect_def quiet_def run_ops_def same_tasks_def)

lemma only_audit_same_tasks: "only_audit d d' \<Longrightarrow> same_tasks d d'"
  using only_auditD [of d d'] by (simp add: same_tasks_def)

lemma append_security_same_tasks: "append_security now t run r name ev d = Inr (u, d') \<Longrightarrow> same_tasks d d'"
  by (drule append_security_events) (simp add: only_events_def only_planning_def same_tasks_def)

lemma save_pr_same_tasks: "save_pr uid pr d = Inr (pr', d') \<Longrightarrow> same_tasks d d'"
  by (auto simp: save_pr_def Let_def same_tasks_def split: option.splits if_splits sum.splits
      dest!: only_audit_pr_insert only_audit_same_tasks)

lemma record_revision_same_tasks:
  assumes "record_revision now pr rid sha d = Inr (pr', d')" shows "same_tasks d d'"
proof (rule record_revision_effect [OF assms])
  fix row f
  assume "only_audit (put_pr (\<lambda>p. prow_id p = prow_id row) f d) d'"
  then show ?thesis by (auto simp: same_tasks_def put_pr_def dest: only_audit_same_tasks)
qed

lemmas tasks_alone_intros = sys_tasks.keeps_basic keeps_attempt keeps_case_sum

lemma security_gate_alone: "quiet env \<Longrightarrow> keeps (on_db same_tasks) (security_gate env p t run)"
  unfolding security_gate_def review_def append_fact_def Let_def
  by (intro tasks_alone_intros tasks_alone)
    (auto intro: append_security_same_tasks tasks_alone_intros split: py_error.splits)

lemma rework_alone: "quiet env \<Longrightarrow> keeps (on_db same_tasks) (rework_pull_request env p t run)"
  unfolding rework_pull_request_def by (intro tasks_alone_intros tasks_alone)

lemma existing_alone: "quiet env \<Longrightarrow> keeps (on_db same_tasks) (existing_pull_request env p t run)"
  unfolding existing_pull_request_def
  by (intro tasks_alone_intros tasks_alone)
    (auto intro: tasks_alone_intros tasks_alone split: option.splits)

lemma publish_rework_alone: "quiet env \<Longrightarrow> keeps (on_db same_tasks) (publish_rework env p t run prior)"
  unfolding publish_rework_def
  by (intro tasks_alone_intros tasks_alone) (auto intro: record_revision_same_tasks)

lemma resolve_alone: "quiet env \<Longrightarrow> keeps (on_db same_tasks) (resolve_pull_request env p t run head sha)"
  unfolding resolve_pull_request_def Let_def by (intro tasks_alone_intros tasks_alone)

lemma persist_alone:
  assumes "quiet env" shows "keeps (on_db same_tasks) (persist env pr)"
proof -
  have dup: "keeps (on_db same_tasks) (case e of DuplicatePullRequestError _ _ _ \<Rightarrow> m | _ \<Rightarrow> raise e)"
    if "keeps (on_db same_tasks) m" for e and m :: "('w, pull_request) call"
    using that by (cases e) (simp_all add: tasks_alone_intros)
  show ?thesis
    unfolding persist_def
    by (intro tasks_alone_intros dup tasks_alone assms) (auto intro: save_pr_same_tasks)
qed

text \<open>Alone, an edge of the graph is taken; only a clash of generated ids can refuse it.\<close>

lemma publication_apply_quiet:
  assumes "quiet env" "get_task (sys_db s) tid = Some t" "can_transition (task_status t) b"
    "b \<noteq> Task_CLAIMED" "b \<noteq> task_status t"
  shows "wp (publication_apply env tid b) (\<lambda>_ s'. status_of s' tid = Some b \<and>
      (\<exists>t'. get_task (sys_db s') tid = Some t' \<and> task_status t' = b)) (\<lambda>_ _. True) s"
proof -
  have no: "apply_transition m now uid tid (task_status t) b (sys_db s) \<noteq> Inl (InvalidTransitionError u v)"
      "apply_transition m now uid tid (task_status t) b (sys_db s) \<noteq> Inl (TaskStateChangedError x u v)"
    for m now uid x u v
    using assms(2-4)
    by (auto simp: apply_transition_def apply_transition_with_def transition_write_def tx_step_eq_Inl
        transition_allowed_def can_persist_transition_def dest: insert_transition_error)
  show ?thesis
    unfolding publication_apply_def transition_def lifecycle_transition_def tasks_apply_def Let_def wp_simps
    using assms no
    by (auto simp: can_apply_def wp_simps status_of_def split: sum.splits py_error.splits
        dest: apply_transition_result)
qed

text \<open>The task status a publication ends with, and whether it moved the task.\<close>

definition handed_over :: "task_status \<Rightarrow> task_status \<times> bool \<Rightarrow> bool" where
  "handed_over st r \<longleftrightarrow> (if st \<in> {Task_VALIDATING, Task_PR_OPEN} then r = (Task_WAITING_HUMAN, True)
     else r = (st, False))"

lemma reconcile_publication_quiet:
  assumes q: "quiet env" and t: "get_task (sys_db s) tid = Some t"
  shows "wp (reconcile_publication env tid) (\<lambda>r s'. handed_over (task_status t) r \<and>
      status_of s' tid = Some (fst r)) (\<lambda>_ _. True) s"
  unfolding reconcile_publication_def require_task_def
  using q t
  by (auto simp: wp_simps handed_over_def can_transition_def status_of_def
      intro!: wp_mono [OF publication_apply_quiet])

lemma finish_publication_quiet:
  assumes "quiet env" "get_task (sys_db s) tid = Some t"
  shows "wp (finish_publication env tid pr) (\<lambda>res s'. handed_over (task_status t)
      (pub_task_status res, pub_opened_now res) \<and> status_of s' tid = Some (pub_task_status res)) (\<lambda>_ _. True) s"
  unfolding finish_publication_def wp_andthen
  by (rule wp_mono [OF reconcile_publication_quiet [OF assms]]) (auto simp: wp_simps)

lemma same_tasks_get: "same_tasks d d' \<Longrightarrow> get_task d' tid = get_task d tid"
  by (simp add: same_tasks_def get_task_def task_row_of_def)

lemma publish_run_hands_over:
  fixes s :: "'w sys"
  assumes q: "quiet env" and t: "get_task (sys_db s) (task_id t) = Some t"
  shows "wp (publish_run env p t run) (\<lambda>res s'. handed_over (task_status t)
      (pub_task_status res, pub_opened_now res) \<and> status_of s' (task_id t) = Some (pub_task_status res))
      (\<lambda>_ _. True) s"
proof -
  let ?Q = "\<lambda>res s'. handed_over (task_status t) (pub_task_status res, pub_opened_now res) \<and>
    status_of s' (task_id t) = Some (pub_task_status res)"
  have fin: "wp (finish_publication env (task_id t) pr) ?Q (\<lambda>_ _. True) u"
    if "get_task (sys_db u) (task_id t) = Some t" for pr u
    by (rule finish_publication_quiet [OF q that])
  have alone: "wp m R (\<lambda>_ _. True) u"
    if "keeps (on_db same_tasks) m" "get_task (sys_db u) (task_id t) = Some t"
      "\<And>a v. get_task (sys_db v) (task_id t) = Some t \<Longrightarrow> R a v" for m :: "('w, 'b) call" and R u
    by (rule wp_mono [OF wp_keeps [OF that(1)]])
      (use that(2,3) same_tasks_get in \<open>auto simp: on_db_def\<close>)
  have new: "wp (publish_new env p t run) ?Q (\<lambda>_ _. True) u"
    if "get_task (sys_db u) (task_id t) = Some t" for u
    unfolding publish_new_def wp_andthen
    by (intro alone [OF sys_tasks.keeps_check] alone [OF tasks_alone(2) [OF q]] alone [OF resolve_alone [OF q]]
        alone [OF persist_alone [OF q]] fin that)
  show ?thesis
    unfolding publish_run_def wp_andthen
    apply (rule alone [OF security_gate_alone [OF q] t])
    apply (rule alone [OF rework_alone [OF q]], assumption)
    subgoal for _ _ rework v
      apply (cases rework)
       apply (simp only: option.case wp_andthen)
       apply (rule alone [OF existing_alone [OF q]], assumption)
       apply (auto intro: fin new split: option.splits)[1]
      apply (simp only: option.case wp_andthen)
      apply (rule alone [OF sys_tasks.keeps_if [OF publish_rework_alone [OF q] sys_tasks.keeps_ret]], assumption)
      by (rule fin)
    done
qed

section \<open>A published task is left alone\<close>

definition untouched :: "'w sys \<Rightarrow> 'w sys \<Rightarrow> bool" where
  "untouched s s' \<longleftrightarrow> sys_db s' = sys_db s \<and> sys_world s' = sys_world s"

interpretation sys_untouched: preorder_relation untouched
  by unfold_locales (auto simp: untouched_def)

lemma untouched_intros:
  assumes "quiet env"
  shows "keeps untouched (db_read env f)" "keeps untouched (tasks_get env tid)"
  using assms by (auto simp: keeps_def untouched_def db_read_def tasks_get_def)

lemma publish_waiting:
  fixes s :: "'w sys"
  assumes q: "quiet env" and t: "get_task (sys_db s) tid = Some t" "task_status t = Task_WAITING_HUMAN"
  shows "wp (publish env p tid rid) (\<lambda>res s'. untouched s s' \<and> pub_task_status res = Task_WAITING_HUMAN \<and>
      \<not> pub_opened_now res) (\<lambda>_ s'. untouched s s') s"
proof -
  let ?Q = "\<lambda>res s'. untouched s s' \<and> pub_task_status res = Task_WAITING_HUMAN \<and> \<not> pub_opened_now res"
  let ?E = "\<lambda>_ s'. untouched s s'"
  have tid: "task_id t = tid" using get_taskD [OF t(1)] by simp
  have fin: "wp (finish_publication env tid pr) ?Q ?E u" if "untouched s u" for pr u
    unfolding finish_publication_def reconcile_publication_def require_task_def
    using q t that by (auto simp: wp_simps untouched_def)
  have here: "wp m R ?E u" if "keeps untouched m" "untouched s u" "\<And>a v. untouched s v \<Longrightarrow> R a v"
    for m :: "('w, 'b) call" and R u
    by (rule wp_mono [OF wp_keeps [OF that(1)]]) (use that(2,3) in \<open>auto intro: sys_untouched.R_trans\<close>)
  have ex: "keeps untouched (existing_pull_request env p t run)" for run
    unfolding existing_pull_request_def
    by (intro sys_untouched.keeps_basic untouched_intros q)
  have adv: "untouched s u \<Longrightarrow> untouched s (advance (sys_db s) u)" "untouched s s" for u
    by (simp_all add: untouched_def)
  have rw: "keeps untouched (rework_pull_request env p t run)" for run
    unfolding rework_pull_request_def by (intro sys_untouched.keeps_basic untouched_intros q)
  have new: "wp (publish_new env p t run) ?Q ?E u" if "untouched s u" for run u
    unfolding publish_new_def using t(2) that by (simp add: wp_simps)
  have run: "wp (publish_run env p t run) ?Q ?E u" if "untouched s u" for run u
    unfolding publish_run_def security_gate_def wp_andthen
    using t(2) that
    by (auto simp: wp_simps split: option.splits intro!: here [OF rw] here [OF ex] fin [folded tid] new)
  show ?thesis
    unfolding publish_def require_task_def require_run_def require_publishable_def is_latest_run_def wp_simps
    using q t by (auto simp: wp_simps adv intro!: run split: option.splits sum.splits)
qed

section \<open>What is never pushed\<close>

lemma base_for_ports [simp]:
  "base_for (p\<lparr>pub_publish := f\<rparr>) = base_for p" "base_for (p\<lparr>pub_open := g\<rparr>) = base_for p"
  by (simp_all add: base_for_def fun_eq_iff split: option.split)

text \<open>The steps before the push do not depend on the publisher.\<close>

lemma persisted_identity_ports [simp]:
  "persisted_identity (p\<lparr>pub_publish := f\<rparr>) = persisted_identity p"
  "persisted_identity (p\<lparr>pub_open := g\<rparr>) = persisted_identity p"
  by (simp_all add: persisted_identity_def fun_eq_iff)

lemma security_gate_ports [simp]:
  "security_gate env (p\<lparr>pub_publish := f\<rparr>) = security_gate env p"
  "security_gate env (p\<lparr>pub_open := g\<rparr>) = security_gate env p"
  by (simp_all add: security_gate_def review_def fun_eq_iff)

lemma lookup_ports [simp]:
  "rework_pull_request env (p\<lparr>pub_publish := f\<rparr>) = rework_pull_request env p"
  "rework_pull_request env (p\<lparr>pub_open := g\<rparr>) = rework_pull_request env p"
  "existing_pull_request env (p\<lparr>pub_publish := f\<rparr>) = existing_pull_request env p"
  "existing_pull_request env (p\<lparr>pub_open := g\<rparr>) = existing_pull_request env p"
  "run_publishable (p\<lparr>pub_publish := f\<rparr>) = run_publishable p"
  "run_publishable (p\<lparr>pub_open := g\<rparr>) = run_publishable p"
  unfolding rework_pull_request_def existing_pull_request_def run_publishable_def fun_eq_iff
    base_for_ports persisted_identity_ports
  by (rule allI refl)+

lemma andthen_raise [simp]: "andthen (raise e) f = raise e"
  by (simp add: andthen_def raise_def fun_eq_iff)

lemma check_False [simp]: "check False e = raise e"
  by (simp add: check_def)

lemma publish_run_unvalidated:
  assumes "validated_revision run = []"
  shows "publish_run env (p\<lparr>pub_publish := f, pub_open := g\<rparr>) t run = publish_run env p t run"
proof -
  have "publish_rework env (p\<lparr>pub_publish := f, pub_open := g\<rparr>) t run = publish_rework env p t run"
    "publish_new env (p\<lparr>pub_publish := f, pub_open := g\<rparr>) t run = publish_new env p t run"
    using assms by (simp_all add: publish_rework_def publish_new_def fun_eq_iff)
  then show ?thesis
    unfolding publish_run_def by (simp only: security_gate_ports lookup_ports)
qed

section \<open>The security gate\<close>

lemma audit_fresh_seq:
  assumes "audit_ok d"
  shows "\<not> list_ex (\<lambda>e. ev_correlation e = c \<and> ev_seq e = count_rows (\<lambda>e. ev_correlation e = c) (db_audit d) + 1)
    (db_audit d)"
proof
  assume "list_ex (\<lambda>e. ev_correlation e = c \<and> ev_seq e = count_rows (\<lambda>e. ev_correlation e = c) (db_audit d) + 1)
    (db_audit d)"
  then obtain e where "e \<in> set (db_audit d)" "ev_correlation e = c"
    "ev_seq e = count_rows (\<lambda>e. ev_correlation e = c) (db_audit d) + 1"
    by (auto simp: list_ex_iff)
  then have "count_rows (\<lambda>e. ev_correlation e = c) (db_audit d) + 1 \<in>
      set (map ev_seq (filter (\<lambda>e. ev_correlation e = c) (db_audit d)))"
    by (force simp: image_iff)
  then show False using assms unfolding audit_ok_def by auto
qed

text \<open>In a sound store a fact about a stored task is always recorded.\<close>

lemma append_security_records:
  assumes "store_inv d" "get_task d (task_id t) = Some t"
  obtains d' where "append_security now t run r name evidence d = Inr ((), d')"
    "list_ex (\<lambda>e. ev_key e = security_key name run r) (db_audit d')" "only_events d d'"
proof -
  obtain row where row: "find (\<lambda>x. tid_of x = task_id t) (db_tasks d) = Some row" "trow_task row = t"
    using assms(2) by (auto simp: get_task_def task_row_of_def)
  have f: "find (\<lambda>x. tid_of x = task_id t \<and> task_project (trow_task x) = task_project t \<and>
      task_repository (trow_task x) = task_repository t) (db_tasks d) = Some row"
    using row by (induction "db_tasks d" rule: rev_induct) (auto simp: find_Some_iff)
  show thesis
  proof (cases "list_ex (\<lambda>e. ev_key e = security_key name run r) (db_audit d)")
    case True
    then show thesis using that [of d] f by (simp add: append_security_def)
  next
    case False
    let ?e = "security_event now row run r name evidence d"
    have "\<not> event_clash ?e d"
      using False audit_fresh_seq [of d "tid_of row"] assms(1)
      by (auto simp: event_clash_def security_event_def store_inv_def list_ex_iff)
    then have a: "append_security now t run r name evidence d = Inr ((), d\<lparr>db_audit := db_audit d @ [?e]\<rparr>)"
      using False f by (simp add: append_security_def Let_def)
    show thesis
      by (rule that [OF a _ append_security_events [OF a]]) (simp add: security_event_def)
  qed
qed

lemma has_event_only: "only_events d d' \<Longrightarrow> db_tasks d' = db_tasks d"
  by (simp add: only_events_def only_planning_def)

lemma security_gate_blocks:
  assumes q: "quiet env" and inv: "store_inv (sys_db s)" and t: "get_task (sys_db s) (task_id t) = Some t"
    "task_status t \<noteq> Task_WAITING_HUMAN"
    and r: "pub_inspect p t run (sys_world s) = (Inr r, x)" "critical r"
    and over: "\<not> list_ex (\<lambda>e. ev_key e = security_key ''SecurityReviewOverridden'' run r) (db_audit (sys_db s))"
  shows "wp (security_gate env p t run) (\<lambda>_ _. False) (\<lambda>e s'.
     e = SecurityReviewBlocked ''critical security review finding'' \<and>
     list_ex (\<lambda>a. ev_key a = security_key ''SecurityReviewBlocked'' run r) (db_audit (sys_db s')) \<and>
     only_events (sys_db s) (sys_db s') \<and> sys_world s' = x) s"
proof -
  let ?now = "env_now env (sys_tick s)"
  obtain d' where d': "append_security ?now t run r ''SecurityReviewBlocked'' (review_evidence t r) (sys_db s) =
      Inr ((), d')" "list_ex (\<lambda>e. ev_key e = security_key ''SecurityReviewBlocked'' run r) (db_audit d')"
      "only_events (sys_db s) d'"
    using append_security_records [OF inv t(1)] .
  have key: "security_key ''SecurityReviewBlocked'' run r \<noteq> security_key ''SecurityReviewOverridden'' run r"
    by (simp add: security_key_def)
  have no: "\<not> is_overridden t run r d'"
  proof -
    have "list_ex (\<lambda>e. ev_key e = security_key ''SecurityReviewOverridden'' run r) (db_audit (sys_db s))"
      if "is_overridden t run r d'"
      using d'(1) that key
      by (auto simp: append_security_def is_overridden_def has_event_def Let_def security_event_def list_ex_iff
          split: option.splits if_splits)
    then show ?thesis using over by blast
  qed
  show ?thesis
    unfolding security_gate_def review_def append_fact_def
    using q t r d' no by (simp add: wp_simps)
qed

lemma publish_blocks:
  assumes q: "quiet env" and inv: "store_inv (sys_db s)" and t: "get_task (sys_db s) tid = Some t"
    "task_status t \<noteq> Task_WAITING_HUMAN"
    and run: "get_run (sys_db s) rid = Some run" "run_task_id run = tid" "is_latest (sys_db s) run"
      "run_publishable p t run = Inr ()"
    and r: "pub_inspect p t run (sys_world s) = (Inr r, x)" "critical r"
    and over: "\<not> list_ex (\<lambda>e. ev_key e = security_key ''SecurityReviewOverridden'' run r) (db_audit (sys_db s))"
  shows "wp (publish env p tid rid) (\<lambda>_ _. False) (\<lambda>e s'.
     e = SecurityReviewBlocked ''critical security review finding'' \<and>
     list_ex (\<lambda>a. ev_key a = security_key ''SecurityReviewBlocked'' run r) (db_audit (sys_db s')) \<and>
     only_events (sys_db s) (sys_db s') \<and> sys_world s' = x) s"
proof -
  have tid: "task_id t = tid" using get_taskD [OF t(1)] by simp
  have gate: "wp (publish_run env p t run) (\<lambda>_ _. False) (\<lambda>e s'.
     e = SecurityReviewBlocked ''critical security review finding'' \<and>
     list_ex (\<lambda>a. ev_key a = security_key ''SecurityReviewBlocked'' run r) (db_audit (sys_db s')) \<and>
     only_events (sys_db s) (sys_db s') \<and> sys_world s' = x) u"
    if u: "sys_db u = sys_db s" "sys_world u = sys_world s" for u
    unfolding publish_run_def wp_andthen [of "security_gate env p t run"]
    by (rule wp_mono [OF security_gate_blocks [OF q, of u t p run r x, unfolded u]])
      (use inv t r over tid in simp_all)
  show ?thesis
    unfolding publish_def require_task_def require_run_def require_publishable_def is_latest_run_def wp_simps
    using q t run by (simp add: wp_simps is_latest_def gate)
qed

lemma publish_unvalidated:
  assumes q: "quiet env" and t: "get_task (sys_db s) tid = Some t"
    and run: "get_run (sys_db s) rid = Some run"
    and bad: "\<not> is_latest (sys_db s) run \<or> run_publishable p t run \<noteq> Inr () \<or> validated_revision run = []"
  shows "publish env (p\<lparr>pub_publish := f, pub_open := g\<rparr>) tid rid s = publish env p tid rid s"
  using bad publish_run_unvalidated [where run = run and t = t and p = p and f = f and g = g and env = env] q t run
  by (auto simp: publish_def require_task_def require_run_def require_publishable_def is_latest_run_def
      andthen_def tasks_get_def db_read_def or_raise_def ret_def raise_def from_outcome_def is_latest_def
      split: sum.splits)

end
