(* ===== verification/Publication_Properties.thy ===== *)
theory Publication_Properties
  imports Sample_Data Publication_Facts
begin

text \<open>The guarantees of publication, with a store in which a validated run is ready to be published.\<close>

section \<open>A validated run\<close>

definition green_run :: agent_run where
  "green_run = (sample_run ''r'' Run_SUCCEEDED)\<lparr>run_gates := [\<lparr>gate_name = ''tests'',
     gate_status = Gate_PASSED, gate_detail = None, gate_required = True\<rparr>],
     run_validated_revision := Some ''sha''\<rparr>"

definition green_ops :: "store_op list" where
  "green_ops = run_created_ops @ [Apply_transition 1 4 ''t2'' ''a'' Task_CLAIMED Task_RUNNING,
     Update_run 5 green_run, Apply_transition 1 6 ''t3'' ''a'' Task_RUNNING Task_VALIDATING]"

definition green_store :: store where
  "green_store = run_ops green_ops empty_store"

definition green_task :: factory_task where
  "green_task = (sample_task ''a'' Task_VALIDATING)\<lparr>task_updated_at := 6\<rparr>"

text \<open>A publisher that pushes the branch of the workspace, a provider without open pull requests,
  and a security inspector with the given findings.\<close>

definition sample_publication :: "security_finding list \<Rightarrow> unit publication" where
  "sample_publication findings = \<lparr>
     pub_publish = (\<lambda>t run u. (case run_workspace run of None \<Rightarrow> Inl (OtherError ''x'')
        | Some w \<Rightarrow> Inr \<lparr>rev_commit_sha = ''c'', rev_branch = ws_branch w\<rparr>, u)),
     pub_find = (\<lambda>repo head base u. (Inr None, u)),
     pub_open = (\<lambda>pr u. (Inr (pr\<lparr>pr_number := Some 7, pr_url := Some ''u''\<rparr>), u)),
     pub_inspect = (\<lambda>t run u. (Inr \<lparr>rvw_rule_version = SECURITY_RULE_VERSION, rvw_revision = ''sha'',
        rvw_findings = findings\<rparr>, u)),
     pub_base_branch = ''main'', pub_registry = None\<rparr>"

definition sample_finding :: security_finding where
  "sample_finding = \<lparr>fnd_rule = ''credential'', fnd_path_digest = ''d'', fnd_line = 1\<rparr>"

lemma sample_publisher_contract: "publisher_contract (sample_publication fs)"
  by (auto simp: publisher_contract_def sample_publication_def split: option.splits)

lemma green_task_run:
  "get_task green_store ''a'' = Some green_task \<and> get_run green_store ''r'' = Some green_run"
  by code_simp

lemma sample_publish:
  "case publish sample_env (sample_publication []) ''a'' ''r'' (sample_sys green_store) of
     (Inl _, _) \<Rightarrow> False | (Inr res, s') \<Rightarrow> pr_number (pub_pull_request res) = Some 7"
  by code_simp

section \<open>Identity\<close>

text \<open>C30. Publication only ever returns a pull request of the right place.  For a publisher that
  pushes the branch of the run's workspace and nothing else, whatever the provider answers and
  whatever other processes do, the task and the run that were asked for are in the store as the call found it at
  its first and second look, the run belongs to that task and was its latest at the third look, and
  the pull request returned is on the task's own repository, from the isolated branch of that
  run, which succeeded with green required gates, into the base branch configured for the project; the head is
  neither the base nor \<open>main\<close> or \<open>master\<close>.\<close>

theorem published_identity:
  assumes "publisher_contract p" "publish env p tid rid s = (Inr res, s')"
  shows "\<exists>t run w base. get_task (db_view env s) tid = Some t \<and>
    get_run (db_view env (looked env s)) rid = Some run \<and> run_task_id run = tid \<and>
    is_latest (db_view env (looked env (looked env s))) run \<and> run_workspace run = Some w \<and>
    run_status run = Run_SUCCEEDED \<and> validation_outcome run = READY_FOR_NEXT_PHASE \<and>
    run_project run = task_project t \<and> ws_repository w = task_repository t \<and>
    base_for p t = Inr base \<and> ws_branch w \<notin> {base, ''main'', ''master''} \<and>
    pr_repository (pub_pull_request res) = task_repository t \<and>
    pr_head_branch (pub_pull_request res) = ws_branch w \<and>
    pr_base_branch (pub_pull_request res) = base"
proof -
  obtain t run where st: "get_task (db_view env s) tid = Some t" "get_run (db_view env (looked env s)) rid = Some run"
    "is_latest (db_view env (looked env (looked env s))) run" "run_task_id run = tid" and ok: "published_ok p t run res"
    using publish_place [OF assms] .
  obtain w base where *: "run_workspace run = Some w" "run_publishable p t run = Inr ()" "base_for p t = Inr base"
    "pr_place (pub_pull_request res) = (ws_repository w, ws_branch w, base)"
    using ok by (auto simp: published_ok_def placed_def)
  have "run_status run = Run_SUCCEEDED \<and> validation_outcome run = READY_FOR_NEXT_PHASE \<and> run_project run = task_project t \<and>
      ws_branch w \<notin> {base, ''main'', ''master''} \<and> ws_repository w = task_repository t"
    using *(1-3) by (auto simp: run_publishable_def Let_def protected_branches_def split: if_splits)
  then show ?thesis
    using * st by (intro exI [of _ t] exI [of _ run] exI [of _ w] exI [of _ base]) (simp add: pr_place_def)
qed

theorem published_identity_witness:
  "\<exists>res. fst (publish sample_env (sample_publication []) ''a'' ''r'' (sample_sys green_store)) = Inr res \<and>
     pr_head_branch (pub_pull_request res) = ''b'' \<and> pr_base_branch (pub_pull_request res) = ''main''"
proof -
  obtain res s' where r: "publish sample_env (sample_publication []) ''a'' ''r'' (sample_sys green_store) = (Inr res, s')"
    using sample_publish by (auto split: prod.splits sum.splits)
  have "db_view sample_env (looked sample_env (sample_sys green_store)) = green_store"
    using quiet_sample by (simp add: looked_def)
  moreover have "run_workspace green_run = Some sample_workspace" "ws_branch sample_workspace = ''b''"
    by (simp_all add: green_run_def sample_run_def sample_workspace_def)
  moreover have "base_for (sample_publication []) t = Inr ''main''" for t by (simp add: base_for_def sample_publication_def)
  ultimately show ?thesis
    using published_identity [OF sample_publisher_contract r] r green_task_run by fastforce
qed

text \<open>C31. An unvalidated run is never pushed.  With no other process writing meanwhile, and for a task and a
  run that are stored: when the run is superseded, did not succeed, has a
  required gate that is not green, is not isolated, or carries no validated revision, publication
  gives the same result, leaves the same store and makes the same calls whatever publisher and
  whatever pull request creation it is given: neither of them is ever called.\<close>

theorem unvalidated_never_pushed:
  assumes "quiet env" "get_task (sys_db s) tid = Some t" "get_run (sys_db s) rid = Some run"
    and "\<not> is_latest (sys_db s) run \<or> run_publishable p t run \<noteq> Inr () \<or> validated_revision run = []"
  shows "publish env (p\<lparr>pub_publish := f, pub_open := g\<rparr>) tid rid s = publish env p tid rid s"
  by (rule publish_unvalidated [OF assms])

lemma sample_running:
  "case (get_task (run_ops run_created_ops empty_store) ''a'', get_run (run_ops run_created_ops empty_store) ''r'') of
     (Some _, Some run) \<Rightarrow> run_status run = Run_RUNNING | _ \<Rightarrow> False"
  by code_simp

theorem unvalidated_never_pushed_witness:
  "publish sample_env ((sample_publication [])\<lparr>pub_publish := \<lambda>t run u. (Inl AssertionError, u),
     pub_open := \<lambda>pr u. (Inl AssertionError, u)\<rparr>) ''a'' ''r'' (sample_sys (run_ops run_created_ops empty_store)) =
   publish sample_env (sample_publication []) ''a'' ''r'' (sample_sys (run_ops run_created_ops empty_store))"
proof -
  obtain t run where "get_task (run_ops run_created_ops empty_store) ''a'' = Some t"
    "get_run (run_ops run_created_ops empty_store) ''r'' = Some run" "run_status run = Run_RUNNING"
    using sample_running by (auto split: option.splits)
  then show ?thesis
    by (intro unvalidated_never_pushed [of _ _ _ t _ run]) (simp_all add: run_publishable_def)
qed

section \<open>Handover\<close>

text \<open>Publication hands the task to a human and goes no further.  Run alone, a publication that
  returns leaves a task that was \<open>VALIDATING\<close> or \<open>PR_OPEN\<close> in \<open>WAITING_HUMAN\<close> and says it moved it;
  a task in any other status is reported as it was and not moved.  It never merges and never
  completes a task.\<close>

theorem publication_hands_over:
  assumes "quiet env" "get_task (sys_db s) tid = Some t" "publish env p tid rid s = (Inr res, s')"
  shows "status_of s' tid = Some (pub_task_status res) \<and>
    (if task_status t \<in> {Task_VALIDATING, Task_PR_OPEN}
     then pub_task_status res = Task_WAITING_HUMAN \<and> pub_opened_now res
     else pub_task_status res = task_status t \<and> \<not> pub_opened_now res)"
proof -
  have tid: "task_id t = tid" using get_taskD [OF assms(2)] by simp
  have "wp (publish env p tid rid) (\<lambda>res s'. handed_over (task_status t)
      (pub_task_status res, pub_opened_now res) \<and> status_of s' tid = Some (pub_task_status res)) (\<lambda>_ _. True) s"
    unfolding publish_def require_task_def require_run_def require_publishable_def is_latest_run_def wp_simps
    using assms(1,2) publish_run_hands_over [of env _ t p, unfolded tid]
    by (auto simp: wp_simps split: option.splits sum.splits)
  from wpD_Inr [OF this assms(3)] show ?thesis
    by (auto simp: handed_over_def split: if_splits)
qed

theorem publication_hands_over_witness:
  "\<exists>s' :: unit sys. status_of s' ''a'' = Some Task_WAITING_HUMAN"
proof -
  obtain res s' where r: "publish sample_env (sample_publication []) ''a'' ''r'' (sample_sys green_store) = (Inr res, s')"
    using sample_publish by (auto split: prod.splits sum.splits)
  have "get_task (sys_db (sample_sys green_store)) ''a'' = Some green_task"
    using green_task_run by simp
  from publication_hands_over [OF quiet_sample this r] show ?thesis
    by (intro exI [of _ s']) (simp add: green_task_def sample_task_def)
qed

text \<open>A published task is left alone.  For a task that already waits for a human, publishing again
  is a no-op: alone, it writes nothing, calls no external port and reports that it opened nothing,
  and this also when it raises.\<close>

theorem published_task_untouched:
  assumes "quiet env" "get_task (sys_db s) tid = Some t" "task_status t = Task_WAITING_HUMAN"
    and "publish env p tid rid s = (r, s')"
  shows "sys_db s' = sys_db s \<and> sys_world s' = sys_world s \<and>
    (case r of Inl _ \<Rightarrow> True | Inr res \<Rightarrow> pub_task_status res = Task_WAITING_HUMAN \<and> \<not> pub_opened_now res)"
  using publish_waiting [OF assms(1-3), of p rid] assms(4)
  by (auto simp: wp_def untouched_def split: sum.splits)

text \<open>The store that the publication of the validated run leaves behind.\<close>

definition published_store :: store where
  "published_store = sys_db (snd (publish sample_env (sample_publication []) ''a'' ''r'' (sample_sys green_store)))"

lemma published_store_status:
  "map_option task_status (get_task published_store ''a'') = Some Task_WAITING_HUMAN"
  by code_simp

theorem published_task_untouched_witness:
  "sys_db (snd (publish sample_env (sample_publication []) ''a'' ''r'' (sample_sys published_store))) = published_store"
proof -
  obtain t where t: "get_task (sys_db (sample_sys published_store)) ''a'' = Some t" "task_status t = Task_WAITING_HUMAN"
    using published_store_status by auto
  obtain r s' where "publish sample_env (sample_publication []) ''a'' ''r'' (sample_sys published_store) = (r, s')"
    by (cases "publish sample_env (sample_publication []) ''a'' ''r'' (sample_sys published_store)")
  from published_task_untouched [OF quiet_sample t this] this show ?thesis by simp
qed

section \<open>The security gate\<close>

text \<open>C32. A critical review stops publication.  With no other process writing meanwhile, when the inspector reports a finding for a publishable
  run of a task that is not under review yet, and no override of this exact review is recorded,
  publication raises \<open>SecurityReviewBlocked\<close>: the only external call was the inspection, the store
  differs only in its event tables, and the review is on the audit trace.\<close>

theorem critical_review_blocks:
  assumes "quiet env" "reachable (sys_db s)" "get_task (sys_db s) tid = Some t"
    "task_status t \<noteq> Task_WAITING_HUMAN" "get_run (sys_db s) rid = Some run" "run_task_id run = tid"
    "is_latest (sys_db s) run" "run_publishable p t run = Inr ()"
    "pub_inspect p t run (sys_world s) = (Inr r, x)" "critical r"
    "\<not> list_ex (\<lambda>e. ev_key e = security_key ''SecurityReviewOverridden'' run r) (db_audit (sys_db s))"
    "publish env p tid rid s = (res, s')"
  shows "res = Inl (SecurityReviewBlocked ''critical security review finding'') \<and> sys_world s' = x \<and>
    only_events (sys_db s) (sys_db s') \<and>
    list_ex (\<lambda>e. ev_key e = security_key ''SecurityReviewBlocked'' run r) (db_audit (sys_db s'))"
proof -
  have "store_inv (sys_db s)"
    using reachable_factory_inv [OF assms(2)] by (simp add: factory_inv_def)
  from publish_blocks [OF assms(1) this assms(3-11)] assms(12) show ?thesis
    by (auto simp: wp_def split: sum.splits)
qed

theorem critical_review_blocks_witness:
  "\<exists>s' :: unit sys. only_events green_store (sys_db s') \<and> list_ex (\<lambda>e. ev_key e =
     ''security:SecurityReviewBlocked:r:factory-security-v1:sha'') (db_audit (sys_db s'))"
proof -
  let ?r = "\<lparr>rvw_rule_version = SECURITY_RULE_VERSION, rvw_revision = ''sha'', rvw_findings = [sample_finding]\<rparr>"
  have reach: "reachable (sys_db (sample_sys green_store))"
    using reachable_run_ops by (simp add: green_store_def)
  have st: "get_task (sys_db (sample_sys green_store)) ''a'' = Some green_task"
    "get_run (sys_db (sample_sys green_store)) ''r'' = Some green_run"
    using green_task_run by simp_all
  have run: "task_status green_task \<noteq> Task_WAITING_HUMAN" "run_task_id green_run = ''a''"
    "run_publishable (sample_publication [sample_finding]) green_task green_run = Inr ()"
    "pub_inspect (sample_publication [sample_finding]) green_task green_run (sys_world (sample_sys green_store)) =
       (Inr ?r, ())" "critical ?r"
    "security_key ''SecurityReviewBlocked'' green_run ?r = ''security:SecurityReviewBlocked:r:factory-security-v1:sha''"
    by code_simp+
  have latest: "is_latest (sys_db (sample_sys green_store)) green_run"
    "\<not> list_ex (\<lambda>e. ev_key e = security_key ''SecurityReviewOverridden'' green_run ?r)
       (db_audit (sys_db (sample_sys green_store)))"
    by code_simp+
  obtain res s' where r: "publish sample_env (sample_publication [sample_finding]) ''a'' ''r'' (sample_sys green_store) =
      (res, s')" by (cases "publish sample_env (sample_publication [sample_finding]) ''a'' ''r'' (sample_sys green_store)")
  show ?thesis
    using critical_review_blocks [OF quiet_sample reach st(1) run(1) st(2) run(2) latest(1) run(3-5) latest(2) r] run(6)
    by (intro exI [of _ s']) simp
qed

end
