(* ===== verification/Planning_Service.thy ===== *)
theory Planning_Service
  imports Tracking_Facts
begin

text \<open>
  What decides which work enters the factory: \<^verbatim>\<open>IssueIntakeService\<close> (\<^verbatim>\<open>intake.py\<close>),
  \<^verbatim>\<open>BacklogMaterializationService\<close> (\<^verbatim>\<open>backlog.py\<close>) and the sprint services of \<^verbatim>\<open>sprint.py\<close>.  The
  issue source, the backlog source and the issue sink are external ports.
\<close>

section \<open>Intake\<close>

record 'w issue_source =
  iso_list :: "repository \<Rightarrow> ('w, factory_task list) port"
  iso_eligible :: "repository \<Rightarrow> task_source \<Rightarrow> ('w, bool) port"
  iso_get :: "repository \<Rightarrow> task_source \<Rightarrow> ('w, factory_task) port"

record intake_summary =
  ins_discovered :: nat
  ins_created :: nat
  ins_existing :: nat
  ins_errors :: nat

definition no_intake :: intake_summary where
  "no_intake = \<lparr>ins_discovered = 0, ins_created = 0, ins_existing = 0, ins_errors = 0\<rparr>"

definition tasks_save :: "env \<Rightarrow> factory_task \<Rightarrow> ('w, factory_task) call" where
  "tasks_save env t = db_write env (\<lambda>now ids. save_task t)"

definition intake_one :: "env \<Rightarrow> factory_task \<Rightarrow> intake_summary \<Rightarrow> ('w, intake_summary) call" where
  "intake_one env t sm = (case task_source t of
       None \<Rightarrow> ret (sm\<lparr>ins_errors := ins_errors sm + 1\<rparr>)
     | Some src \<Rightarrow>
       andthen (db_read env (\<lambda>d. find_by_source d src)) (\<lambda>found.
       if found \<noteq> None then ret (sm\<lparr>ins_existing := ins_existing sm + 1\<rparr>)
       else andthen (attempt (tasks_save env t)) (\<lambda>r. case r of
           Inl _ \<Rightarrow> ret (sm\<lparr>ins_errors := ins_errors sm + 1\<rparr>)
         | Inr _ \<Rightarrow> ret (sm\<lparr>ins_created := ins_created sm + 1\<rparr>))))"

definition intake :: "env \<Rightarrow> 'w issue_source \<Rightarrow> repository \<Rightarrow> ('w, intake_summary) call" where
  "intake env src repo =
     andthen (external (iso_list src repo)) (\<lambda>discovered.
     each (intake_one env) discovered (no_intake\<lparr>ins_discovered := length discovered\<rparr>))"

text \<open>The two questions that the service only forwards.\<close>

definition intake_is_eligible :: "'w issue_source \<Rightarrow> repository \<Rightarrow> task_source \<Rightarrow> ('w, bool) call" where
  "intake_is_eligible src repo i = external (iso_eligible src repo i)"

definition intake_get_task :: "'w issue_source \<Rightarrow> repository \<Rightarrow> task_source \<Rightarrow> ('w, factory_task) call" where
  "intake_get_task src repo i = external (iso_get src repo i)"

section \<open>Backlog materialization\<close>

text \<open>A backlog source as its client sees it; the provider is one, the authorized source of a
  sprint another.\<close>

record 'w item_source =
  its_list :: "('w, work_item list) call"
  its_get :: "string \<Rightarrow> ('w, work_item) call"

record 'w backlog_sink =
  bsk_find :: "work_item \<Rightarrow> ('w, materialized_issue option) port"
  bsk_create :: "work_item \<Rightarrow> ('w, materialized_issue) port"

record 'w materializer =
  mat_source :: "'w item_source"
  mat_sink :: "'w backlog_sink"
  mat_registry :: "project_registry option"

record backlog_summary =
  bls_examined :: nat
  bls_created :: nat
  bls_existing :: nat
  bls_ineligible :: nat
  bls_uncertain :: nat

definition routed :: "project_registry option \<Rightarrow> work_item \<Rightarrow> bool" where
  "routed reg item = (case reg of None \<Rightarrow> True
     | Some r \<Rightarrow> (case resolve_project r (item_project item) (Some (item_repository item)) of
         Inl _ \<Rightarrow> False | Inr _ \<Rightarrow> True))"

definition still_eligible :: "work_item \<Rightarrow> work_item \<Rightarrow> bool" where
  "still_eligible candidate current \<longleftrightarrow> item_provider current = item_provider candidate \<and>
     item_external_id current = item_external_id candidate \<and>
     item_repository current = item_repository candidate \<and>
     item_project current = item_project candidate \<and>
     item_eligible current \<and> item_dependencies_satisfied current"

definition reject :: "env \<Rightarrow> work_item \<Rightarrow> ('w, unit) call" where
  "reject env item = db_write env (\<lambda>now ids. record_rejection item ''PROJECT_ROUTING_REJECTED'')"

definition links_complete :: "env \<Rightarrow> work_item \<Rightarrow> materialized_issue \<Rightarrow> ('w, unit) call" where
  "links_complete env item issue = db_write env (\<lambda>now ids. complete_link item issue)"

definition more_ineligible :: "backlog_summary \<Rightarrow> backlog_summary" where
  "more_ineligible sm = sm\<lparr>bls_ineligible := bls_ineligible sm + 1\<rparr>"

definition more_existing :: "backlog_summary \<Rightarrow> backlog_summary" where
  "more_existing sm = sm\<lparr>bls_existing := bls_existing sm + 1\<rparr>"

text \<open>The creation of an issue: once begun, a failure leaves the link \<open>POSTING\<close>.\<close>

definition materialize_new :: "env \<Rightarrow> 'w materializer \<Rightarrow> work_item \<Rightarrow> backlog_summary \<Rightarrow>
    ('w, backlog_summary) call" where
  "materialize_new env m candidate sm =
     andthen (its_get (mat_source m) (item_external_id candidate)) (\<lambda>current.
     if \<not> routed (mat_registry m) current
     then andthen (reject env current) (\<lambda>_. ret (more_ineligible sm))
     else if \<not> still_eligible candidate current then ret (more_ineligible sm)
     else andthen (db_write env (\<lambda>now ids. begin_write candidate)) (\<lambda>won.
       if \<not> won then ret (sm\<lparr>bls_uncertain := bls_uncertain sm + 1\<rparr>)
       else andthen (external (bsk_create (mat_sink m) current)) (\<lambda>issue.
         andthen (links_complete env candidate issue) (\<lambda>_.
         ret (sm\<lparr>bls_created := bls_created sm + 1\<rparr>)))))"

definition materialize_one :: "env \<Rightarrow> 'w materializer \<Rightarrow> work_item \<Rightarrow> backlog_summary \<Rightarrow>
    ('w, backlog_summary) call" where
  "materialize_one env m candidate sm =
     (if \<not> routed (mat_registry m) candidate
      then andthen (reject env candidate) (\<lambda>_. ret (more_ineligible sm))
      else if \<not> item_eligible candidate \<or> \<not> item_dependencies_satisfied candidate
      then ret (more_ineligible sm)
      else andthen (db_write env (\<lambda>now ids. reserve candidate)) (\<lambda>_.
        andthen (db_read env (\<lambda>d. get_issue d (item_provider candidate) (item_external_id candidate))) (\<lambda>linked.
        if linked \<noteq> None then ret (more_existing sm)
        else andthen (external (bsk_find (mat_sink m) candidate)) (\<lambda>found. case found of
            Some issue \<Rightarrow> andthen (links_complete env candidate issue) (\<lambda>_. ret (more_existing sm))
          | None \<Rightarrow> materialize_new env m candidate sm))))"

definition materialize :: "env \<Rightarrow> 'w materializer \<Rightarrow> string option \<Rightarrow> ('w, backlog_summary) call" where
  "materialize env m external_id =
     andthen (case external_id of None \<Rightarrow> its_list (mat_source m)
       | Some x \<Rightarrow> andthen (its_get (mat_source m) x) (\<lambda>item. ret [item])) (\<lambda>items.
     each (materialize_one env m) items
       \<lparr>bls_examined = length items, bls_created = 0, bls_existing = 0, bls_ineligible = 0,
        bls_uncertain = 0\<rparr>)"

section \<open>The authorized source of a sprint\<close>

definition provider_source :: "('w, work_item list) port \<Rightarrow> (string \<Rightarrow> ('w, work_item) port) \<Rightarrow> 'w item_source" where
  "provider_source listing get = \<lparr>its_list = external listing, its_get = (\<lambda>x. external (get x))\<rparr>"

text \<open>The step a view of an active sprint points at.\<close>

definition active_step :: "sprint_view option \<Rightarrow> sprint_step option" where
  "active_step v = (case v of None \<Rightarrow> None
     | Some (m, st, pos) \<Rightarrow> if st = Sprint_ACTIVE \<and> pos < length (man_steps m)
         then Some (man_steps m ! pos) else None)"

definition authorized_list :: "env \<Rightarrow> 'w item_source \<Rightarrow> ('w, work_item list) call" where
  "authorized_list env src =
     andthen (db_read env live_projects) (\<lambda>projects.
     each (\<lambda>project items.
       andthen (db_read env (\<lambda>d. current_for_project d project)) (\<lambda>current.
       case active_step current of None \<Rightarrow> ret items
       | Some step \<Rightarrow>
         andthen (its_get src (item_external_id (step_item step))) (\<lambda>actual.
         ret (if actual = step_item step then items @ [actual] else items)))) projects [])"

definition authorized_get :: "env \<Rightarrow> 'w item_source \<Rightarrow> string \<Rightarrow> ('w, work_item) call" where
  "authorized_get env src external_id =
     andthen (db_read env live_projects) (\<lambda>projects.
     andthen (each (\<lambda>project matches.
       andthen (db_read env (\<lambda>d. current_for_project d project)) (\<lambda>current.
       ret (case active_step current of None \<Rightarrow> matches
         | Some step \<Rightarrow> if item_external_id (step_item step) = external_id
             then matches @ [step] else matches))) projects []) (\<lambda>matches.
     case matches of [step] \<Rightarrow>
         andthen (its_get src external_id) (\<lambda>actual.
         if actual \<noteq> step_item step
         then raise (ValueError ''authorized work item snapshot changed'') else ret actual)
     | _ \<Rightarrow> raise (ValueError ''sprint is not active'')))"

definition authorized_source :: "env \<Rightarrow> 'w item_source \<Rightarrow> 'w item_source" where
  "authorized_source env src = \<lparr>its_list = authorized_list env src, its_get = authorized_get env src\<rparr>"

section \<open>Dependencies\<close>

definition step_key :: "sprint_step \<Rightarrow> string" where
  "step_key s = item_provider (step_item s) @ '':'' @ item_external_id (step_item s)"

definition github_source :: "materialized_issue \<Rightarrow> (py_error, task_source) outcome" where
  "github_source i = check_task_source \<lparr>src_provider = ''github'', src_repository = iss_repository i,
     src_issue_number = iss_number i\<rparr>"

text \<open>\<open>_task_for\<close>: the task of the issue an item was materialized as.\<close>

definition task_for :: "env \<Rightarrow> work_item \<Rightarrow> ('w, factory_task option) call" where
  "task_for env item =
     andthen (db_read env (\<lambda>d. get_issue d (item_provider item) (item_external_id item))) (\<lambda>issue.
     case issue of None \<Rightarrow> ret None
     | Some i \<Rightarrow> andthen (from_outcome (github_source i)) (\<lambda>src.
         db_read env (\<lambda>d. find_by_source d src)))"

definition task_done :: "factory_task option \<Rightarrow> bool" where
  "task_done t \<longleftrightarrow> map_option task_status t = Some Task_DONE"

fun dependencies_done :: "env \<Rightarrow> sprint_step list \<Rightarrow> string list \<Rightarrow> ('w, bool) call" where
  "dependencies_done env preceding [] = ret True"
| "dependencies_done env preceding (dep # deps) =
     (case find (\<lambda>s. step_key s = dep) (rev preceding) of None \<Rightarrow> ret False
      | Some s \<Rightarrow> andthen (task_for env (step_item s)) (\<lambda>task.
          if \<not> task_done task then ret False else dependencies_done env preceding deps))"

definition dependencies_complete :: "env \<Rightarrow> sprint_manifest \<Rightarrow> nat \<Rightarrow> ('w, bool) call" where
  "dependencies_complete env m pos =
     (let step = man_steps m ! pos in
      if \<not> item_dependencies_satisfied (step_item step) then ret False
      else dependencies_done env (take pos (man_steps m)) (step_dependencies step))"

section \<open>Planning and authorizing a sprint\<close>

record 'w sprint_service =
  spv_source :: "'w item_source"
  spv_materializer :: "'w materializer"
  spv_registry :: "project_registry option"
  spv_feedback :: bool

definition draft :: "'w sprint_service \<Rightarrow> string \<Rightarrow> (string \<times> string list) list \<Rightarrow> ('w, sprint_manifest) call" where
  "draft sv sprint_id entries =
     andthen (each (\<lambda>(external_id, deps) steps. andthen (its_get (spv_source sv) external_id) (\<lambda>item.
       ret (steps @ [\<lparr>step_item = item, step_dependencies = deps\<rparr>]))) entries []) (\<lambda>steps.
     from_outcome (check_sprint_manifest \<lparr>man_sprint_id = sprint_id, man_steps = steps,
       man_wip_limit = 1, man_stop_conditions = STOP_CONDITIONS, man_pipeline = PIPELINE\<rparr>))"

record plan_row =
  plr_position :: nat
  plr_external_id :: string
  plr_eligible :: bool
  plr_blockers :: "string list"

record plan_facts =
  pf_scope :: "string \<times> string \<times> string"
  pf_live_other :: bool
  pf_pending_human :: bool
  pf_busy :: bool

definition item_scope :: "work_item \<Rightarrow> string \<times> string \<times> string" where
  "item_scope i = (item_project i, item_provider i, item_repository i)"

text \<open>The blockers of one step that need no further read.\<close>

definition step_blockers :: "'w sprint_service \<Rightarrow> plan_facts \<Rightarrow> string list \<Rightarrow> sprint_step \<Rightarrow> bool \<Rightarrow>
    nat \<Rightarrow> string list" where
  "step_blockers sv pf seen step changed pos =
     (if step_key step \<in> set seen then [''duplicate_work_item''] else []) @
     (if spv_registry sv = None \<and> item_scope (step_item step) \<noteq> pf_scope pf then [''outside_scope''] else []) @
     (if routed (spv_registry sv) (step_item step) then [] else [''project_routing_rejected'']) @
     (if list_ex (\<lambda>d. d \<notin> set seen) (step_dependencies step) then [''dependency_not_preceding''] else []) @
     (if pf_live_other pf then [''another_sprint_active''] else []) @
     (if pf_pending_human pf then [''pending_human_gate''] else []) @
     (if pf_busy pf then [''wip_busy''] else []) @
     (if \<not> item_eligible (step_item step) \<or> \<not> item_dependencies_satisfied (step_item step)
      then [''source_ineligible''] else []) @
     (if changed then [''snapshot_changed''] else []) @
     (if 0 < pos then [''ordered_predecessor_waiting''] else [])"

fun plan_rows :: "'w sprint_service \<Rightarrow> plan_facts \<Rightarrow> string list \<Rightarrow> nat \<Rightarrow> sprint_step list \<Rightarrow>
    ('w, plan_row list) call" where
  "plan_rows sv pf seen pos [] = ret []"
| "plan_rows sv pf seen pos (step # steps) =
     andthen (its_get (spv_source sv) (item_external_id (step_item step))) (\<lambda>actual.
     let bs = step_blockers sv pf seen step (actual \<noteq> step_item step) pos in
     andthen (plan_rows sv pf (step_key step # seen) (pos + 1) steps) (\<lambda>rows.
     ret (\<lparr>plr_position = pos, plr_external_id = item_external_id (step_item step),
       plr_eligible = (bs = []), plr_blockers = bs\<rparr> # rows)))"

definition project_has :: "env \<Rightarrow> string \<Rightarrow> task_status \<Rightarrow> ('w, unit option) call" where
  "project_has env project st = db_read env (\<lambda>d.
     if list_ex (\<lambda>t. task_project t = project) (list_tasks d (Some st)) then Some () else None)"

definition first_project :: "sprint_manifest \<Rightarrow> string" where
  "first_project m = item_project (step_item (hd (man_steps m)))"

definition plan :: "env \<Rightarrow> 'w sprint_service \<Rightarrow> sprint_manifest \<Rightarrow> ('w, plan_row list) call" where
  "plan env sv m =
     andthen (db_read env (\<lambda>d. current_for_project d (first_project m))) (\<lambda>current.
     andthen (project_has env (first_project m) Task_WAITING_HUMAN) (\<lambda>human.
     andthen (first_result (project_has env (first_project m))
       [Task_CLAIMED, Task_RUNNING, Task_VALIDATING, Task_PR_OPEN]) (\<lambda>busy.
     plan_rows sv \<lparr>pf_scope = item_scope (step_item (hd (man_steps m))),
       pf_live_other = (case current of None \<Rightarrow> False
         | Some (c, st, pos) \<Rightarrow> live_state st \<and> man_sprint_id c \<noteq> man_sprint_id m),
       pf_pending_human = (human \<noteq> None), pf_busy = (busy \<noteq> None)\<rparr> [] 0 (man_steps m))))"

definition sprints_authorize :: "env \<Rightarrow> sprint_manifest \<Rightarrow> ('w, unit) call" where
  "sprints_authorize env m = db_write env (\<lambda>now ids. authorize_sprint now m)"

definition authorize :: "env \<Rightarrow> 'w sprint_service \<Rightarrow> sprint_manifest \<Rightarrow> ('w, unit) call" where
  "authorize env sv m =
     andthen (check (length (remdups (manifest_projects m)) = 1)
       (ValueError ''sprint manifest must be scoped to one project'')) (\<lambda>_.
     andthen (db_read env (\<lambda>d. current_for_project d (first_project m))) (\<lambda>current.
     if (case current of None \<Rightarrow> False | Some (c, _) \<Rightarrow> man_sprint_id c = man_sprint_id m)
     then sprints_authorize env m
     else andthen (plan env sv m) (\<lambda>rows.
       andthen (each (\<lambda>(step, row) _. if ''project_routing_rejected'' \<in> set (plr_blockers row)
           then reject env (step_item step) else ret ()) (zip (man_steps m) rows) ()) (\<lambda>_.
       andthen (check (list_all (\<lambda>row. list_all (\<lambda>b. b = ''ordered_predecessor_waiting'') (plr_blockers row)) rows)
         (ValueError ''sprint plan has blockers'')) (\<lambda>_.
       sprints_authorize env m)))))"

section \<open>Running a sprint\<close>

definition gate_statuses :: "task_status set" where
  "gate_statuses = {Task_WAITING_HUMAN, Task_BLOCKED, Task_FAILED, Task_CANCELLED}"

definition sprint_move :: "env \<Rightarrow> string \<Rightarrow> sprint_state \<Rightarrow> nat \<Rightarrow> string \<Rightarrow> ('w, unit) call" where
  "sprint_move env sid st pos event = db_write env (\<lambda>now ids. move_sprint now sid st pos event)"

definition pause_at :: "env \<Rightarrow> sprint_manifest \<Rightarrow> nat \<Rightarrow> ('w, bool) call" where
  "pause_at env m pos =
     andthen (sprint_move env (man_sprint_id m) Sprint_PAUSED pos ''SprintPaused'') (\<lambda>_. ret False)"

definition delivery_recorded :: "env \<Rightarrow> 'w sprint_service \<Rightarrow> factory_task \<Rightarrow> ('w, bool) call" where
  "delivery_recorded env sv t =
     (if spv_feedback sv then db_read env (\<lambda>d. is_completed d (task_id t)) else ret True)"

text \<open>The step the sprint stands at is selected, or the sprint pauses.\<close>

definition select_step :: "env \<Rightarrow> 'w sprint_service \<Rightarrow> sprint_manifest \<Rightarrow> nat \<Rightarrow> work_item \<Rightarrow>
    materialized_issue option \<Rightarrow> factory_task option \<Rightarrow> ('w, bool) call" where
  "select_step env sv m pos item issue task =
     (if (case task of None \<Rightarrow> False | Some t \<Rightarrow> task_status t \<in> gate_statuses) then pause_at env m pos
      else andthen (its_get (spv_source sv) (item_external_id item)) (\<lambda>actual.
        if actual \<noteq> item then pause_at env m pos
        else andthen (dependencies_complete env m pos) (\<lambda>ok.
          if \<not> ok then pause_at env m pos
          else andthen (case issue of Some i \<Rightarrow> ret (Some i)
            | None \<Rightarrow> andthen (materialize env (spv_materializer sv) (Some (item_external_id item))) (\<lambda>_.
                db_read env (\<lambda>d. get_issue d (item_provider item) (item_external_id item)))) (\<lambda>issue'.
            andthen (if issue' = None then ret ()
              else sprint_move env (man_sprint_id m) Sprint_ACTIVE pos ''WorkItemSelected'') (\<lambda>_.
            ret (issue' \<noteq> None))))))"

text \<open>The \<open>while\<close> loop over the steps from the current position; each turn consumes one step.\<close>

fun prepare_steps :: "env \<Rightarrow> 'w sprint_service \<Rightarrow> sprint_manifest \<Rightarrow> nat \<Rightarrow> sprint_step list \<Rightarrow>
    ('w, bool) call" where
  "prepare_steps env sv m pos [] = ret False"
| "prepare_steps env sv m pos (step # steps) =
     (let item = step_item step in
      andthen (db_read env (\<lambda>d. get_issue d (item_provider item) (item_external_id item))) (\<lambda>issue.
      andthen (if issue = None then ret None else task_for env item) (\<lambda>task.
      case task of
        Some t \<Rightarrow>
          if task_status t = Task_DONE
          then andthen (delivery_recorded env sv t) (\<lambda>delivered.
            if \<not> delivered then pause_at env m pos
            else andthen (sprint_move env (man_sprint_id m)
                (if pos + 1 = length (man_steps m) then Sprint_COMPLETE else Sprint_ACTIVE) (pos + 1)
                (if pos + 1 = length (man_steps m) then ''SprintCompleted'' else ''SprintAdvanced'')) (\<lambda>_.
              prepare_steps env sv m (pos + 1) steps))
          else select_step env sv m pos item issue task
      | None \<Rightarrow> select_step env sv m pos item issue task)))"

definition prepare_for_project :: "env \<Rightarrow> 'w sprint_service \<Rightarrow> string \<Rightarrow> ('w, bool) call" where
  "prepare_for_project env sv project =
     andthen (db_read env (\<lambda>d. current_for_project d project)) (\<lambda>current. case current of
       None \<Rightarrow> ret False
     | Some (m, st, pos) \<Rightarrow> if st \<noteq> Sprint_ACTIVE then ret False
         else prepare_steps env sv m pos (drop pos (man_steps m)))"

definition prepare :: "env \<Rightarrow> 'w sprint_service \<Rightarrow> ('w, bool) call" where
  "prepare env sv = andthen (db_read env current_sprint) (\<lambda>current. case current of
       None \<Rightarrow> ret False
     | Some (m, _) \<Rightarrow> prepare_for_project env sv (first_project m))"

definition matches_current :: "env \<Rightarrow> factory_task \<Rightarrow> sprint_view \<Rightarrow> ('w, bool) call" where
  "matches_current env t v = (case v of (m, st, pos) \<Rightarrow>
     case task_source t of None \<Rightarrow> ret False
     | Some src \<Rightarrow> if length (man_steps m) \<le> pos then ret False
       else let item = step_item (man_steps m ! pos) in
         andthen (db_read env (\<lambda>d. get_issue d (item_provider item) (item_external_id item))) (\<lambda>issue.
         ret (case issue of None \<Rightarrow> False
           | Some i \<Rightarrow> item_project item = task_project t \<and> src_provider src = ''github'' \<and>
               src_repository src = iss_repository i \<and> src_issue_number src = iss_number i)))"

definition allows_in :: "sprint_state set \<Rightarrow> env \<Rightarrow> factory_task \<Rightarrow> ('w, bool) call" where
  "allows_in states env t =
     andthen (db_read env (\<lambda>d. current_for_project d (task_project t))) (\<lambda>current. case current of
       None \<Rightarrow> ret False
     | Some v \<Rightarrow> if fst (snd v) \<notin> states then ret False else matches_current env t v)"

definition allows :: "env \<Rightarrow> factory_task \<Rightarrow> ('w, bool) call" where
  "allows = allows_in {Sprint_ACTIVE}"

definition allows_review :: "env \<Rightarrow> factory_task \<Rightarrow> ('w, bool) call" where
  "allows_review = allows_in {Sprint_ACTIVE, Sprint_PAUSED}"

definition has_live_sprint :: "env \<Rightarrow> ('w, bool) call" where
  "has_live_sprint env = db_read env (\<lambda>d. live_projects d \<noteq> [])"

definition has_live_sprint_for :: "env \<Rightarrow> string \<Rightarrow> ('w, bool) call" where
  "has_live_sprint_for env project = db_read env (\<lambda>d. case current_for_project d project of
     None \<Rightarrow> False | Some (m, st, pos) \<Rightarrow> live_state st)"

definition is_paused_for :: "env \<Rightarrow> string \<Rightarrow> ('w, bool) call" where
  "is_paused_for env project = db_read env (\<lambda>d. case current_for_project d project of
     None \<Rightarrow> False | Some (m, st, pos) \<Rightarrow> st = Sprint_PAUSED)"

definition is_paused :: "env \<Rightarrow> ('w, bool) call" where
  "is_paused env = andthen (db_read env live_projects) (\<lambda>projects.
     andthen (first_result (\<lambda>p. andthen (is_paused_for env p) (\<lambda>b. ret (if b then Some () else None))) projects)
       (\<lambda>r. ret (r \<noteq> None)))"

definition observe_sprint :: "env \<Rightarrow> factory_task option \<Rightarrow> ('w, unit) call" where
  "observe_sprint env task = (case task of None \<Rightarrow> ret ()
     | Some t \<Rightarrow> andthen (allows env t) (\<lambda>ok. if \<not> ok then ret ()
       else andthen (db_read env (\<lambda>d. current_for_project d (task_project t))) (\<lambda>current.
         case current of None \<Rightarrow> raise AssertionError
         | Some (m, st, pos) \<Rightarrow> if task_status t \<in> gate_statuses
             then sprint_move env (man_sprint_id m) Sprint_PAUSED pos ''SprintPaused'' else ret ())))"

definition current_by_id :: "env \<Rightarrow> string \<Rightarrow> ('w, sprint_view option) call" where
  "current_by_id env sid = andthen (db_read env live_projects) (\<lambda>projects.
     first_result (\<lambda>p. db_read env (\<lambda>d. case current_for_project d p of None \<Rightarrow> None
       | Some v \<Rightarrow> if man_sprint_id (fst v) = sid then Some v else None)) projects)"

text \<open>\<open>manifest.steps[position]\<close> of a paused sprint that is past its end raises \<open>IndexError\<close>.\<close>

definition resume :: "env \<Rightarrow> 'w sprint_service \<Rightarrow> string \<Rightarrow> ('w, unit) call" where
  "resume env sv sid = andthen (current_by_id env sid) (\<lambda>current. case current of
       None \<Rightarrow> raise (ValueError ''sprint is not paused'')
     | Some (m, st, pos) \<Rightarrow>
       if st \<noteq> Sprint_PAUSED then raise (ValueError ''sprint is not paused'')
       else if length (man_steps m) \<le> pos then raise (OtherError ''IndexError'')
       else let item = step_item (man_steps m ! pos) in
         andthen (task_for env item) (\<lambda>task.
         if (case task of None \<Rightarrow> False | Some t \<Rightarrow> task_status t \<in> gate_statuses)
         then raise (ValueError ''human gate remains unresolved'')
         else andthen (its_get (spv_source sv) (item_external_id item)) (\<lambda>actual.
           andthen (if actual \<noteq> item then ret False else dependencies_complete env m pos) (\<lambda>ok.
           if \<not> ok then raise (ValueError ''sprint dependencies remain unresolved'')
           else sprint_move env sid Sprint_ACTIVE pos ''SprintResumed''))))"

definition resume_completed_for :: "env \<Rightarrow> 'w sprint_service \<Rightarrow> string \<Rightarrow> ('w, unit) call" where
  "resume_completed_for env sv project =
     andthen (db_read env (\<lambda>d. current_for_project d project)) (\<lambda>current. case current of
       None \<Rightarrow> ret ()
     | Some (m, st, pos) \<Rightarrow>
       if st \<noteq> Sprint_PAUSED \<or> length (man_steps m) \<le> pos then ret ()
       else andthen (task_for env (step_item (man_steps m ! pos))) (\<lambda>task. case task of
           None \<Rightarrow> ret ()
         | Some t \<Rightarrow> if task_status t \<noteq> Task_DONE then ret ()
           else andthen (delivery_recorded env sv t) (\<lambda>delivered.
             if delivered then sprint_move env (man_sprint_id m) Sprint_ACTIVE pos ''SprintResumed''
             else ret ())))"

definition resume_completed :: "env \<Rightarrow> 'w sprint_service \<Rightarrow> ('w, unit) call" where
  "resume_completed env sv = andthen (db_read env live_projects) (\<lambda>projects.
     each (\<lambda>p _. resume_completed_for env sv p) projects ())"

definition end_sprint :: "sprint_state set \<Rightarrow> string \<Rightarrow> sprint_state \<Rightarrow> string \<Rightarrow> env \<Rightarrow> string \<Rightarrow>
    ('w, unit) call" where
  "end_sprint from refusal target event env sid =
     andthen (current_by_id env sid) (\<lambda>current. case current of
       None \<Rightarrow> raise (ValueError refusal)
     | Some (m, st, pos) \<Rightarrow> if st \<notin> from then raise (ValueError refusal)
         else sprint_move env sid target pos event)"

definition cancel :: "env \<Rightarrow> string \<Rightarrow> ('w, unit) call" where
  "cancel = end_sprint {Sprint_ACTIVE, Sprint_PAUSED} ''sprint is not live'' Sprint_CANCELLED ''SprintCancelled''"

definition pause :: "env \<Rightarrow> string \<Rightarrow> ('w, unit) call" where
  "pause = end_sprint {Sprint_ACTIVE} ''sprint is not active'' Sprint_PAUSED ''SprintPaused''"

end
