(* ===== verification/Sprint_Facts.thy ===== *)
theory Sprint_Facts
  imports Planning_Service
begin

text \<open>
  What intake, materialization and the sprint service guarantee: an issue is created at most once
  per work item, a second intake of the same issues creates nothing, and a sprint moves past a step
  only when its task is done and its delivery recorded.
\<close>

section \<open>Soundness\<close>

lemma planning_write:
  assumes "\<And>now ids d a d'. f now ids d = Inr (a, d') \<Longrightarrow> planning_step d d'"
  shows "keeps (on_db planning_step) (db_write env f)"
  by (rule keeps_db_write [OF others_planning planning.R_trans assms])

text \<open>The writes of the planning services.\<close>

lemma link_writes_historical:
  assumes "others_recorded env"
  shows "keeps (on_db historical_step) (reject env item)"
    "keeps (on_db historical_step) (links_complete env item issue)"
    "keeps (on_db historical_step) (db_write env (\<lambda>now ids. reserve item))"
    "keeps (on_db historical_step) (db_write env (\<lambda>now ids. begin_write item))"
    "keeps (on_db historical_step) (sprint_move env sid st pos event)"
    "keeps (on_db historical_step) (sprints_authorize env m)"
    "keeps (on_db historical_step) (tasks_save env t)"
  unfolding reject_def links_complete_def sprint_move_def sprints_authorize_def tasks_save_def
  by (auto intro!: historical_write [OF assms] intro: save_task_historical only_planning_historical
      dest: operation_planning)

definition historical_source :: "'w item_source \<Rightarrow> bool" where
  "historical_source src \<longleftrightarrow> keeps (on_db historical_step) (its_list src) \<and>
     (\<forall>x. keeps (on_db historical_step) (its_get src x))"

lemma provider_source_historical: "historical_source (provider_source l g)"
  by (simp add: historical_source_def provider_source_def external_historical)

lemma authorized_source_historical:
  assumes "others_recorded env" "historical_source src"
  shows "historical_source (authorized_source env src)"
  using assms unfolding historical_source_def authorized_source_def authorized_list_def authorized_get_def
  by (auto intro!: historical_intros sys_historical.keeps_each split: option.splits list.splits)

lemma materialize_historical:
  assumes "others_recorded env" "historical_source (mat_source m)"
  shows "keeps (on_db historical_step) (materialize env m x)"
  using assms(2) unfolding materialize_def materialize_one_def materialize_new_def historical_source_def
  by (auto intro!: historical_intros sys_historical.keeps_each link_writes_historical assms(1)
      split: option.splits)

lemma intake_historical:
  assumes "others_recorded env" shows "keeps (on_db historical_step) (intake env src repo)"
  unfolding intake_def intake_one_def
  by (intro historical_intros sys_historical.keeps_each link_writes_historical assms)

lemma task_for_historical:
  assumes "others_recorded env" shows "keeps (on_db historical_step) (task_for env item)"
  unfolding task_for_def by (intro historical_intros assms)

lemma dependencies_historical:
  assumes "others_recorded env" shows "keeps (on_db historical_step) (dependencies_complete env m pos)"
proof -
  have "keeps (on_db historical_step) (dependencies_done env preceding deps)" for preceding deps
    by (induction deps) (auto intro!: historical_intros task_for_historical assms split: option.split)
  then show ?thesis unfolding dependencies_complete_def Let_def by (intro historical_intros)
qed

lemma prepare_historical:
  assumes "others_recorded env" "historical_source (spv_source sv)"
    "historical_source (mat_source (spv_materializer sv))"
  shows "keeps (on_db historical_step) (prepare_for_project env sv project)"
proof -
  note intros = historical_intros link_writes_historical materialize_historical task_for_historical
    dependencies_historical assms(1,3)
  have sel: "keeps (on_db historical_step) (select_step env sv m pos item issue task)" for m pos item issue task
    unfolding select_step_def pause_at_def
    by (intro intros) (use assms(2) in \<open>auto simp: historical_source_def\<close>)
  have "keeps (on_db historical_step) (prepare_steps env sv m pos steps)" for m pos steps
    by (induction steps arbitrary: pos)
      (auto simp: Let_def delivery_recorded_def pause_at_def intro!: intros sel split: option.split)
  then show ?thesis
    unfolding prepare_for_project_def by (intro historical_intros assms(1))
qed

section \<open>Intake is idempotent\<close>

definition known :: "store \<Rightarrow> factory_task \<Rightarrow> bool" where
  "known d t \<longleftrightarrow> (\<exists>src. task_source t = Some src \<and> find_by_source d src \<noteq> None)"

lemma find_by_source_None:
  "find_by_source d src = None \<longleftrightarrow> (\<forall>r \<in> set (db_tasks d). task_source (trow_task r) \<noteq> Some src)"
  by (auto simp: find_by_source_def find_None_iff')

lemma save_task_known:
  assumes "save_task t d = Inr (t', d')"
  shows "task_source t = Some src \<Longrightarrow> find_by_source d' src \<noteq> None"
    "find_by_source d src \<noteq> None \<Longrightarrow> find_by_source d' src \<noteq> None"
proof -
  obtain o2 i2 where d: "db_tasks d' = db_tasks d @ [\<lparr>trow_task = t, trow_origin = o2, trow_item = i2\<rparr>]"
    using assms
    by (auto simp: save_task_def Let_def split: if_splits sum.splits dest!: only_audit_task dest: only_auditD)
  show "task_source t = Some src \<Longrightarrow> find_by_source d' src \<noteq> None"
    "find_by_source d src \<noteq> None \<Longrightarrow> find_by_source d' src \<noteq> None"
    using d by (auto simp: find_by_source_None)
qed

text \<open>Issues that are all stored already: nothing is written.\<close>

lemma intake_known:
  assumes "quiet env" "\<forall>t \<in> set ts. known (sys_db s) t"
  shows "wp (each (intake_one env) ts sm) (\<lambda>sm' s'. sys_db s' = sys_db s \<and>
     sm' = sm\<lparr>ins_existing := ins_existing sm + length ts\<rparr>) (\<lambda>_ _. False) s"
  using assms
proof (induction ts arbitrary: sm s)
  case (Cons t ts)
  have one: "wp (intake_one env t sm) (\<lambda>sm' s'. sys_db s' = sys_db s \<and>
      sm' = sm\<lparr>ins_existing := ins_existing sm + 1\<rparr>) (\<lambda>_ _. False) s"
    using Cons.prems by (auto simp: intake_one_def wp_simps known_def)
  show ?case
    unfolding each.simps wp_andthen
    by (rule wp_mono [OF one], rule wp_mono [OF Cons.IH]) (use Cons.prems in auto)
qed (simp add: wp_simps)

text \<open>A pass without errors leaves every issue stored.\<close>

lemma intake_one_stores:
  assumes "quiet env"
  shows "wp (intake_one env t sm) (\<lambda>sm' s'. ins_errors sm \<le> ins_errors sm' \<and>
     (ins_errors sm' = ins_errors sm \<longrightarrow> known (sys_db s') t) \<and>
     (\<forall>x. find_by_source (sys_db s) x \<noteq> None \<longrightarrow> find_by_source (sys_db s') x \<noteq> None)) (\<lambda>_ _. False) s"
  using assms
  unfolding intake_one_def tasks_save_def
  by (auto simp: wp_simps known_def simp del: not_None_eq split: option.splits sum.splits
      dest: save_task_known)

lemma intake_stores:
  assumes "quiet env"
  shows "wp (each (intake_one env) ts sm) (\<lambda>sm' s'. ins_errors sm \<le> ins_errors sm' \<and>
     (ins_errors sm' = ins_errors sm \<longrightarrow> (\<forall>t \<in> set ts. known (sys_db s') t)) \<and>
     (\<forall>x. find_by_source (sys_db s) x \<noteq> None \<longrightarrow> find_by_source (sys_db s') x \<noteq> None)) (\<lambda>_ _. False) s"
proof (induction ts arbitrary: sm s)
  case (Cons t ts)
  show ?case
    unfolding each.simps wp_andthen
    by (rule wp_mono [OF intake_one_stores [OF assms]], rule wp_mono [OF Cons.IH])
      (auto simp: known_def simp del: not_None_eq)
qed (simp add: wp_simps)

section \<open>An issue is created at most once\<close>

definition same_links :: "store \<Rightarrow> store \<Rightarrow> bool" where
  "same_links d d' \<longleftrightarrow> db_links d' = db_links d"

definition link_settled :: "store \<Rightarrow> work_item \<Rightarrow> bool" where
  "link_settled d item \<longleftrightarrow> (\<forall>l \<in> set (db_links d).
     link_for (item_provider item) (item_external_id item) l \<longrightarrow> lk_state l \<noteq> RESERVED) \<and>
     link_row_of d (item_provider item) (item_external_id item) \<noteq> None"

lemma begin_write_settled:
  assumes "link_settled d item" shows "begin_write item d = Inr (False, d)"
proof -
  have no: "\<not> (link_matches item l \<and> lk_state l = RESERVED)" if "l \<in> set (db_links d)" for l
    using assms that by (auto simp: link_settled_def link_matches_def)
  then have "count_rows (\<lambda>l. link_matches item l \<and> lk_state l = RESERVED) (db_links d) = 0"
    "set_rows (\<lambda>l. link_matches item l \<and> lk_state l = RESERVED) (\<lambda>l. l\<lparr>lk_state := POSTING\<rparr>) (db_links d) = db_links d"
    by (auto simp: count_rows_def filter_empty_conv set_rows_def intro: map_idI)
  then show ?thesis by (simp add: begin_write_def Let_def)
qed

lemma reserve_settled: "link_settled d item \<Longrightarrow> reserve item d = Inr (b, d') \<Longrightarrow> d' = d"
  by (auto simp: reserve_def link_settled_def Let_def split: option.splits if_splits)

text \<open>A source whose reads write nothing.\<close>

definition reading_source :: "'w item_source \<Rightarrow> bool" where
  "reading_source src \<longleftrightarrow> keeps (on_db (=)) (its_list src) \<and> (\<forall>x. keeps (on_db (=)) (its_get src x))"

lemma provider_source_reading: "reading_source (provider_source l g)"
  by (simp add: reading_source_def provider_source_def external_same)

lemma authorized_source_reading:
  assumes "quiet env" "reading_source src" shows "reading_source (authorized_source env src)"
  using assms unfolding reading_source_def authorized_source_def authorized_list_def authorized_get_def
  by (auto intro!: same_intros sys_same.keeps_each split: option.splits list.splits)

lemma andthen_cong_reading:
  assumes "keeps (on_db (=)) m" "\<And>a u. sys_db u = sys_db s \<Longrightarrow> f a u = g a u"
  shows "andthen m f s = andthen m g s"
proof -
  obtain r u where m: "m s = (r, u)" by (cases "m s")
  have "sys_db u = sys_db s" using keepsD [OF assms(1) m] by (simp add: on_db_def)
  then show ?thesis using m assms(2) by (simp add: andthen_def split: sum.splits)
qed

text \<open>Two materializers that differ only in how they create issues.\<close>

definition same_but_create :: "'w materializer \<Rightarrow> 'w materializer \<Rightarrow> bool" where
  "same_but_create m n \<longleftrightarrow> mat_source n = mat_source m \<and> mat_registry n = mat_registry m \<and>
     bsk_find (mat_sink n) = bsk_find (mat_sink m)"

lemma materialize_new_settled:
  assumes "quiet env" "reading_source (mat_source m)" "link_settled (sys_db s) c" "same_but_create m n"
  shows "materialize_new env n c sm s = materialize_new env m c sm s"
proof -
  have k: "keeps (on_db (=)) (its_get (mat_source m) x)" for x
    using assms(2) by (simp add: reading_source_def)
  have n: "mat_source n = mat_source m" "mat_registry n = mat_registry m"
    using assms(4) by (simp_all add: same_but_create_def)
  show ?thesis
    unfolding materialize_new_def n
    by (rule andthen_cong_reading [OF k])
      (use assms in \<open>simp add: andthen_def db_write_def begin_write_settled\<close>)
qed

lemma materialize_settled:
  fixes s :: "'w sys"
  assumes "quiet env" "reading_source (mat_source m)" "link_settled (sys_db s) c" "same_but_create m n"
  shows "materialize_one env n c sm s = materialize_one env m c sm s"
proof -
  have n: "mat_registry n = mat_registry m" "bsk_find (mat_sink n) = bsk_find (mat_sink m)"
    using assms(4) by (simp_all add: same_but_create_def)
  have res: "sys_db u = sys_db s" if "db_write env (\<lambda>now ids. reserve c) s = (r, u)" for r u
    using that assms(1) reserve_settled [OF assms(3)]
    by (auto simp: db_write_def split: sum.splits)
  have new: "materialize_new env n c sm u = materialize_new env m c sm u"
    if "sys_db u = sys_db s" for u
    using materialize_new_settled [OF assms(1,2) _ assms(4)] assms(3) that by simp
  have rest: "andthen (db_write env (\<lambda>now ids. reserve c)) (\<lambda>_. h) s =
      andthen (db_write env (\<lambda>now ids. reserve c)) (\<lambda>_. g) s"
    if "\<And>u. sys_db u = sys_db s \<Longrightarrow> h u = g u" for g h :: "('w, backlog_summary) call"
    using that by (auto simp: andthen_def split: sum.split prod.split dest: res)
  show ?thesis
    unfolding materialize_one_def n
    by (auto intro!: rest andthen_cong_reading read_same(1) external_same assms(1) new
        split: option.split)
qed

lemma link_settled_unique:
  assumes "links_ok d" "link_row_of d (item_provider c) (item_external_id c) = Some l" "lk_state l \<noteq> RESERVED"
  shows "link_settled d c"
  unfolding link_settled_def
proof (intro conjI ballI impI)
  fix k assume k: "k \<in> set (db_links d)" "link_for (item_provider c) (item_external_id c) k"
  have "distinct (map link_key (db_links d))" using assms(1) by (simp add: links_ok_def)
  then have "k = l"
    by (rule distinct_map_unique) (use k link_row_ofD [OF assms(2)] in \<open>auto simp: link_for_def\<close>)
  then show "lk_state k \<noteq> RESERVED" using assms(3) by simp
qed (use assms(2) in simp)

section \<open>A sprint advances only over delivered steps\<close>

definition step_done :: "bool \<Rightarrow> store \<Rightarrow> sprint_step \<Rightarrow> bool" where
  "step_done fb d step = (case get_issue d (item_provider (step_item step)) (item_external_id (step_item step)) of
     None \<Rightarrow> False
   | Some i \<Rightarrow> (case github_source i of Inl _ \<Rightarrow> False
     | Inr src \<Rightarrow> (case find_by_source d src of None \<Rightarrow> False
       | Some t \<Rightarrow> task_status t = Task_DONE \<and> (fb \<longrightarrow> is_completed d (task_id t)))))"

text \<open>The sprint of manifest \<open>m\<close> stands at a position in a state.\<close>

definition stands :: "store \<Rightarrow> sprint_manifest \<Rightarrow> nat \<Rightarrow> sprint_state \<Rightarrow> bool" where
  "stands d m pos st \<longleftrightarrow> (\<exists>r. sprint_row_of d (man_sprint_id m) = Some r \<and> sp_manifest r = m \<and>
     sp_position r = pos \<and> sp_state r = st)"

text \<open>What planning never takes back: tasks stay, the trace grows, issues stay linked.\<close>

definition planned :: "store \<Rightarrow> store \<Rightarrow> bool" where
  "planned d d' \<longleftrightarrow> db_tasks d' = db_tasks d \<and> prefix (db_audit d) (db_audit d') \<and>
     (\<forall>p x i. get_issue d p x = Some i \<longrightarrow> get_issue d' p x = Some i)"

definition planned_only :: "store \<Rightarrow> store \<Rightarrow> bool" where
  "planned_only d d' \<longleftrightarrow> planned d d' \<and> db_sprints d' = db_sprints d"

lemma planned_refl [simp]: "planned d d" "planned_only d d"
  by (simp_all add: planned_def planned_only_def)

lemma planned_trans: "planned d e \<Longrightarrow> planned e f \<Longrightarrow> planned d f"
  by (auto simp: planned_def intro: prefix_order.trans)

lemma planned_only_trans: "planned_only d e \<Longrightarrow> planned_only e f \<Longrightarrow> planned_only d f"
  by (auto simp: planned_only_def dest: planned_trans)

interpretation sys_planned: preorder_relation "on_db planned_only"
  by unfold_locales (auto simp: on_db_def dest: planned_only_trans)

lemma planned_done:
  assumes "planned d d'" "step_done fb d step" shows "step_done fb d' step"
proof -
  have "set (db_audit d) \<subseteq> set (db_audit d')" using assms(1) by (auto simp: planned_def prefix_def)
  then have "is_completed d tid \<Longrightarrow> is_completed d' tid" for tid
    by (auto simp: is_completed_def list_ex_iff)
  moreover have "find_by_source d' src = find_by_source d src" for src
    using assms(1) by (simp add: planned_def find_by_source_def)
  ultimately show ?thesis
    using assms by (auto simp: planned_def step_done_def split: option.splits sum.splits)
qed

text \<open>A materialized link row is never rewritten.\<close>

lemma get_issue_set_rows:
  assumes "\<And>l. p l \<Longrightarrow> lk_state l \<noteq> MATERIALIZED" "\<And>l. link_key (f l) = link_key l"
    and "get_issue d pr x = Some i"
  shows "get_issue (d\<lparr>db_links := set_rows p f (db_links d)\<rparr>) pr x = Some i"
proof -
  have "find (link_for pr x) (set_rows p f (db_links d)) =
      map_option (\<lambda>l. if p l then f l else l) (find (link_for pr x) (db_links d))"
    by (rule find_set_rows) (use assms(2) in \<open>auto simp: link_for_def\<close>)
  then show ?thesis
    using assms(1,3) by (auto simp: get_issue_def link_row_of_def split: option.splits if_splits)
qed

lemma links_planned:
  "reserve item d = Inr (b, d') \<Longrightarrow> planned_only d d'"
  "begin_write item d = Inr (b, d') \<Longrightarrow> planned_only d d'"
  "complete_link item issue d = Inr (u, d') \<Longrightarrow> planned_only d d'"
  "record_rejection item reason d = Inr (u, d') \<Longrightarrow> planned_only d d'"
proof -
  show "planned_only d d'" if "reserve item d = Inr (b, d')"
    using that by (auto simp: reserve_def planned_only_def planned_def Let_def get_issue_def link_row_of_def
        find_append split: option.splits if_splits)
  show "planned_only d d'" if "begin_write item d = Inr (b, d')"
    using that by (auto simp: begin_write_def Let_def planned_only_def planned_def intro!: get_issue_set_rows)
  show "planned_only d d'" if "record_rejection item reason d = Inr (u, d')"
    using that by (auto simp: record_rejection_def Let_def planned_only_def planned_def get_issue_def
        link_row_of_def split: if_splits)
  show "planned_only d d'" if "complete_link item issue d = Inr (u, d')"
    using complete_effect [OF that]
    by (auto simp: planned_only_def planned_def intro!: get_issue_set_rows)
qed

lemma move_sprint_stands:
  assumes "move_sprint now (man_sprint_id m) st pos ev d = Inr (u, d')" "stands d m p0 s0"
  shows "stands d' m pos st" "planned d d'" "valid_sprint_move ev s0 p0 st pos"
proof -
  let ?rows = "set_rows (\<lambda>r. man_sprint_id (sp_manifest r) = man_sprint_id m)
    (\<lambda>r. r\<lparr>sp_state := st, sp_position := pos\<rparr>) (db_sprints d)"
  obtain r where r: "sprint_row_of d (man_sprint_id m) = Some r" "sp_manifest r = m" "sp_position r = p0" "sp_state r = s0"
    using assms(2) by (auto simp: stands_def)
  have v: "valid_sprint_move ev s0 p0 st pos"
    and d': "d' = sprint_event now (man_sprint_id m) ev (sprint_event_key (man_sprint_id m) ev pos d) (d\<lparr>db_sprints := ?rows\<rparr>)"
    using assms(1) r by (auto simp: move_sprint_def split: if_splits)
  show "valid_sprint_move ev s0 p0 st pos" by (rule v)
  have "find (\<lambda>r. man_sprint_id (sp_manifest r) = man_sprint_id m) ?rows =
      map_option (\<lambda>r. if man_sprint_id (sp_manifest r) = man_sprint_id m
        then r\<lparr>sp_state := st, sp_position := pos\<rparr> else r)
       (find (\<lambda>r. man_sprint_id (sp_manifest r) = man_sprint_id m) (db_sprints d))"
    by (rule find_set_rows) simp
  then show "stands d' m pos st"
    using r by (simp add: d' stands_def sprint_row_of_def sprint_event_def Let_def)
  show "planned d d'"
    by (simp add: d' planned_def sprint_event_def Let_def get_issue_def link_row_of_def)
qed

lemma planned_calls:
  assumes "quiet env"
  shows "keeps (on_db planned_only) (db_read env f)" "keeps (on_db planned_only) (external q)"
    "(\<And>now ids d a d'. g now ids d = Inr (a, d') \<Longrightarrow> planned_only d d') \<Longrightarrow>
       keeps (on_db planned_only) (db_write env g)"
proof -
  have o: "others_respect planned_only env"
    using assms by (simp add: others_respect_def quiet_def run_ops_def)
  show "keeps (on_db planned_only) (db_read env f)" by (rule keeps_db_read [OF o])
  show "keeps (on_db planned_only) (external q)" by (rule keeps_world) simp
  show "keeps (on_db planned_only) (db_write env g)"
    if "\<And>now ids d a d'. g now ids d = Inr (a, d') \<Longrightarrow> planned_only d d'"
    by (rule keeps_db_write [OF o _ that]) (auto dest: planned_only_trans)
qed

lemma reading_planned: "reading_source src \<Longrightarrow> keeps (on_db planned_only) (its_get src x)"
  by (auto simp: reading_source_def keeps_def on_db_def)

lemma materialize_planned:
  assumes "quiet env" "reading_source (mat_source m)"
  shows "keeps (on_db planned_only) (materialize env m (Some x))"
  unfolding materialize_def materialize_one_def materialize_new_def reject_def links_complete_def
  by (auto intro!: sys_planned.keeps_basic sys_planned.keeps_each planned_calls reading_planned assms
      intro: links_planned split: option.splits)

text \<open>Where a preparation may leave the sprint: everything it moved past is delivered, and \<open>True\<close>
  is answered at a linked step of an active sprint.\<close>

definition progressed :: "bool \<Rightarrow> sprint_manifest \<Rightarrow> nat \<Rightarrow> bool \<Rightarrow> store \<Rightarrow> store \<Rightarrow> bool" where
  "progressed fb m pos r d d' \<longleftrightarrow> planned d d' \<and> (\<exists>pos' st. pos \<le> pos' \<and> stands d' m pos' st \<and>
     (\<forall>k. pos \<le> k \<and> k < pos' \<longrightarrow> k < length (man_steps m) \<and> step_done fb d' (man_steps m ! k)) \<and>
     (r \<longrightarrow> st = Sprint_ACTIVE \<and> pos' < length (man_steps m) \<and>
        get_issue d' (item_provider (step_item (man_steps m ! pos')))
          (item_external_id (step_item (man_steps m ! pos'))) \<noteq> None))"

lemma progressed_here:
  "planned d d' \<Longrightarrow> stands d' m pos st \<Longrightarrow> progressed fb m pos False d d'"
  unfolding progressed_def by auto

lemma progressed_active:
  "planned d d' \<Longrightarrow> stands d' m pos Sprint_ACTIVE \<Longrightarrow> pos < length (man_steps m) \<Longrightarrow>
   get_issue d' (item_provider (step_item (man_steps m ! pos)))
     (item_external_id (step_item (man_steps m ! pos))) \<noteq> None \<Longrightarrow> progressed fb m pos r d d'"
  unfolding progressed_def by (auto intro!: exI [of _ pos])

lemma progressed_step:
  assumes "step_done fb d (man_steps m ! pos)" "pos < length (man_steps m)" "planned d e"
    and "progressed fb m (pos + 1) r e d'"
  shows "progressed fb m pos r d d'"
proof -
  have p: "planned e d'" using assms(4) by (simp add: progressed_def)
  then have "step_done fb d' (man_steps m ! pos)"
    using planned_done planned_trans assms(1,3) by blast
  then have "k < length (man_steps m) \<and> step_done fb d' (man_steps m ! k)"
    if "pos \<le> k" "k < pos'" "\<forall>k. pos + 1 \<le> k \<and> k < pos' \<longrightarrow> k < length (man_steps m) \<and>
      step_done fb d' (man_steps m ! k)" for k pos'
    using that assms(2) by (cases "k = pos") auto
  moreover obtain pos' st where "pos + 1 \<le> pos'" "stands d' m pos' st"
    "\<forall>k. pos + 1 \<le> k \<and> k < pos' \<longrightarrow> k < length (man_steps m) \<and> step_done fb d' (man_steps m ! k)"
    "r \<longrightarrow> st = Sprint_ACTIVE \<and> pos' < length (man_steps m) \<and>
      get_issue d' (item_provider (step_item (man_steps m ! pos')))
        (item_external_id (step_item (man_steps m ! pos'))) \<noteq> None"
    using assms(4) unfolding progressed_def by blast
  ultimately show ?thesis
    unfolding progressed_def using planned_trans [OF assms(3) p]
    by (intro conjI exI [of _ pos'] exI [of _ st]) auto
qed

lemma wp_reading:
  assumes "keeps (on_db (=)) m" "\<And>a u. sys_db u = sys_db s \<Longrightarrow> wp (f a) Q E u"
    "\<And>e u. sys_db u = sys_db s \<Longrightarrow> E e u"
  shows "wp (andthen m f) Q E s"
  unfolding wp_andthen by (rule wp_mono [OF wp_same [OF assms(1)]]) (use assms(2,3) in auto)

lemma wp_sprint_move:
  assumes "quiet env" "stands (sys_db s) m p0 s0"
    and "\<And>u. stands (sys_db u) m pos st \<Longrightarrow> planned (sys_db s) (sys_db u) \<Longrightarrow> Q () u"
    and "\<And>e u. sys_db u = sys_db s \<Longrightarrow> E e u"
  shows "wp (sprint_move env (man_sprint_id m) st pos event) Q E s"
  using assms move_sprint_stands [OF _ assms(2)]
  by (auto simp: sprint_move_def wp_simps split: sum.split)

lemma task_for_reading: "quiet env \<Longrightarrow> keeps (on_db (=)) (task_for env item)"
  unfolding task_for_def by (intro same_intros)

lemma dependencies_reading:
  assumes "quiet env" shows "keeps (on_db (=)) (dependencies_complete env m pos)"
proof -
  have "keeps (on_db (=)) (dependencies_done env preceding deps)" for preceding deps
    by (induction deps) (auto intro!: same_intros task_for_reading assms split: option.split)
  then show ?thesis unfolding dependencies_complete_def Let_def by (intro same_intros)
qed

lemma stands_planned_only: "planned_only d d' \<Longrightarrow> stands d' m pos st = stands d m pos st"
  by (simp add: planned_only_def stands_def sprint_row_of_def)

lemma pause_at_progress:
  assumes "quiet env" "stands (sys_db s) m pos Sprint_ACTIVE" "planned d (sys_db s)"
  shows "wp (pause_at env m pos) (\<lambda>r s'. progressed fb m pos r d (sys_db s'))
    (\<lambda>_ s'. progressed fb m pos False d (sys_db s')) s"
  unfolding pause_at_def wp_andthen
  by (rule wp_sprint_move [OF assms(1,2)])
    (auto simp: wp_simps intro: progressed_here planned_trans [OF assms(3)] assms(2,3))

lemma select_step_progress:
  assumes "quiet env" "reading_source (spv_source sv)" "reading_source (mat_source (spv_materializer sv))"
    and "stands (sys_db s) m pos Sprint_ACTIVE" "pos < length (man_steps m)" "planned d (sys_db s)"
    and "issue \<noteq> None \<Longrightarrow> get_issue (sys_db s) (item_provider (step_item (man_steps m ! pos)))
      (item_external_id (step_item (man_steps m ! pos))) = issue"
  shows "wp (select_step env sv m pos (step_item (man_steps m ! pos)) issue task)
    (\<lambda>r s'. progressed (spv_feedback sv) m pos r d (sys_db s'))
    (\<lambda>_ s'. progressed (spv_feedback sv) m pos False d (sys_db s')) s"
proof -
  let ?item = "step_item (man_steps m ! pos)"
  let ?Q = "\<lambda>r s'. progressed (spv_feedback sv) m pos r d (sys_db s')"
  let ?E = "\<lambda>(_ :: py_error) s'. progressed (spv_feedback sv) m pos False d (sys_db s')"
  have pz: "wp (pause_at env m pos) ?Q ?E u" if "sys_db u = sys_db s" for u :: "'a sys"
    by (rule pause_at_progress) (use assms that in auto)
  have bad: "?E e u" if "sys_db u = sys_db s" for e and u :: "'a sys"
    using progressed_here [OF assms(6,4)] that by simp
  have move: "wp (sprint_move env (man_sprint_id m) Sprint_ACTIVE pos ev) (\<lambda>_. ?Q True) ?E u"
    if "stands (sys_db u) m pos Sprint_ACTIVE" "planned d (sys_db u)"
      "get_issue (sys_db u) (item_provider ?item) (item_external_id ?item) \<noteq> None" for ev and u :: "'a sys"
    by (rule wp_sprint_move [OF assms(1) that(1)])
      (use that assms(5) in \<open>auto simp: planned_def intro!: progressed_active progressed_here
        intro: planned_trans [OF that(2)]\<close>)
  have pick: "wp (andthen (if x = None then ret ()
        else sprint_move env (man_sprint_id m) Sprint_ACTIVE pos ''WorkItemSelected'') (\<lambda>_. ret (x \<noteq> None))) ?Q ?E u"
    if "stands (sys_db u) m pos Sprint_ACTIVE" "planned d (sys_db u)"
      "get_issue (sys_db u) (item_provider ?item) (item_external_id ?item) = x" for x and u :: "'a sys"
    using that move [OF that(1,2)]
    by (cases x) (auto simp: wp_simps intro!: progressed_here)
  have mat: "wp (andthen (case issue of Some i \<Rightarrow> ret (Some i)
        | None \<Rightarrow> andthen (materialize env (spv_materializer sv) (Some (item_external_id ?item))) (\<lambda>_.
            db_read env (\<lambda>d. get_issue d (item_provider ?item) (item_external_id ?item)))) (\<lambda>x.
        andthen (if x = None then ret ()
          else sprint_move env (man_sprint_id m) Sprint_ACTIVE pos ''WorkItemSelected'') (\<lambda>_. ret (x \<noteq> None))))
      ?Q ?E u" if "sys_db u = sys_db s" for u :: "'a sys"
  proof (cases issue)
    case (Some i)
    then show ?thesis
      using pick [of u issue] assms(4,6,7) that by (simp add: wp_andthen [of "ret (Some i)"] wp_ret)
  next
    case None
    have kept: "stands (sys_db v) m pos Sprint_ACTIVE" "planned d (sys_db v)"
      if "planned_only (sys_db u) (sys_db v)" for v :: "'a sys"
      using that assms(4,6) \<open>sys_db u = sys_db s\<close> stands_planned_only [OF that]
      by (auto simp: planned_only_def intro: planned_trans)
    have po: "wp (materialize env (spv_materializer sv) (Some (item_external_id ?item)))
        (\<lambda>_ v. planned_only (sys_db u) (sys_db v)) (\<lambda>_ v. planned_only (sys_db u) (sys_db v)) u"
      by (rule wpI) (auto dest: keepsD [OF materialize_planned [OF assms(1,3)]] simp: on_db_def)
    show ?thesis
      unfolding None option.case wp_andthen
      by (rule wp_mono [OF po])
        (use kept pick assms(1) in \<open>auto simp: wp_db_read wp_andthen intro: progressed_here\<close>)
  qed
  have get: "keeps (on_db (=)) (its_get (spv_source sv) x)" for x
    using assms(2) by (simp add: reading_source_def)
  have ready: "wp (andthen (dependencies_complete env m pos) (\<lambda>ok. if \<not> ok then pause_at env m pos else c)) ?Q ?E u"
    if "sys_db u = sys_db s" "\<And>v. sys_db v = sys_db s \<Longrightarrow> wp c ?Q ?E v" for c and u :: "'a sys"
    by (rule wp_reading [OF dependencies_reading [OF assms(1)]]) (use that pz bad in auto)
  show ?thesis
  proof (cases "case task of None \<Rightarrow> False | Some t \<Rightarrow> task_status t \<in> gate_statuses")
    case True
    show ?thesis unfolding select_step_def if_P [OF True] by (rule pz [OF refl])
  next
    case False
    show ?thesis
      unfolding select_step_def if_not_P [OF False] wp_andthen [of "its_get _ _"]
    proof (rule wp_mono [OF wp_same [OF get]])
      fix actual and u :: "'a sys"
      assume u: "sys_db u = sys_db s"
      show "wp (if actual \<noteq> ?item then pause_at env m pos
          else andthen (dependencies_complete env m pos) (\<lambda>ok. if \<not> ok then pause_at env m pos
            else andthen (case issue of Some i \<Rightarrow> ret (Some i)
              | None \<Rightarrow> andthen (materialize env (spv_materializer sv) (Some (item_external_id ?item))) (\<lambda>_.
                  db_read env (\<lambda>d. get_issue d (item_provider ?item) (item_external_id ?item)))) (\<lambda>issue'.
              andthen (if issue' = None then ret ()
                else sprint_move env (man_sprint_id m) Sprint_ACTIVE pos ''WorkItemSelected'') (\<lambda>_.
              ret (issue' \<noteq> None))))) ?Q ?E u"
        using pz [OF u] ready [OF u mat] by (cases "actual = ?item") (simp_all only: simp_thms if_True if_False)
    qed (use bad in auto)
  qed
qed

lemma task_for_eq:
  assumes "quiet env"
  shows "wp (task_for env item) Q E s = (case get_issue (sys_db s) (item_provider item) (item_external_id item) of
     None \<Rightarrow> Q None (advance (sys_db s) s)
   | Some i \<Rightarrow> (case github_source i of Inl e \<Rightarrow> E e (advance (sys_db s) s)
     | Inr src \<Rightarrow> Q (find_by_source (sys_db s) src) (advance (sys_db s) (advance (sys_db s) s))))"
  using assms by (simp add: task_for_def wp_simps split: option.split sum.split)

lemma prepare_steps_progress:
  assumes "quiet env" "reading_source (spv_source sv)" "reading_source (mat_source (spv_materializer sv))"
    and "stands (sys_db s) m pos st" "steps = drop pos (man_steps m)" "steps \<noteq> [] \<Longrightarrow> st = Sprint_ACTIVE"
  shows "wp (prepare_steps env sv m pos steps)
    (\<lambda>r s'. progressed (spv_feedback sv) m pos r (sys_db s) (sys_db s'))
    (\<lambda>_ s'. progressed (spv_feedback sv) m pos False (sys_db s) (sys_db s')) s"
  using assms(4-6)
proof (induction steps arbitrary: pos s st)
  case Nil
  then show ?case by (auto simp: wp_simps intro: progressed_here)
next
  case (Cons step steps)
  let ?item = "step_item (man_steps m ! pos)"
  let ?fb = "spv_feedback sv"
  let ?Q = "\<lambda>r s'. progressed ?fb m pos r (sys_db s) (sys_db s')"
  let ?E = "\<lambda>(_ :: py_error) s'. progressed ?fb m pos False (sys_db s) (sys_db s')"
  have pos: "pos < length (man_steps m)"
    using Cons.prems(2) by (metis drop_all leI list.distinct(1))
  have "man_steps m ! pos # drop (Suc pos) (man_steps m) = step # steps"
    by (simp only: Cons_nth_drop_Suc [OF pos] Cons.prems(2))
  then have step: "man_steps m ! pos = step" and rest: "steps = drop (pos + 1) (man_steps m)"
    by simp_all
  have act: "stands (sys_db s) m pos Sprint_ACTIVE" using Cons.prems(1,3) pos by simp
  have bad: "?E e u" if "sys_db u = sys_db s" for e and u :: "'a sys"
    using progressed_here [OF _ act] that by simp
  have pz: "wp (pause_at env m pos) ?Q ?E u" if "sys_db u = sys_db s" for u :: "'a sys"
    by (rule pause_at_progress) (use assms(1) act that in auto)
  have sel: "wp (select_step env sv m pos ?item issue task) ?Q ?E u"
    if "sys_db u = sys_db s"
      "get_issue (sys_db s) (item_provider ?item) (item_external_id ?item) = issue" for issue task and u :: "'a sys"
    by (rule select_step_progress) (use assms(1-3) act pos that in auto)
  have moved: "wp (andthen (sprint_move env (man_sprint_id m) x (pos + 1) ev) (\<lambda>_.
      prepare_steps env sv m (pos + 1) steps)) ?Q ?E u"
    if "sys_db u = sys_db s" "step_done ?fb (sys_db s) (man_steps m ! pos)"
      "x = (if pos + 1 = length (man_steps m) then Sprint_COMPLETE else Sprint_ACTIVE)" for x ev and u :: "'a sys"
    unfolding wp_andthen
  proof (rule wp_sprint_move [OF assms(1)])
    fix v :: "'a sys"
    assume v: "stands (sys_db v) m (pos + 1) x" "planned (sys_db u) (sys_db v)"
    have "wp (prepare_steps env sv m (pos + 1) steps)
        (\<lambda>r s'. progressed ?fb m (pos + 1) r (sys_db v) (sys_db s'))
        (\<lambda>_ s'. progressed ?fb m (pos + 1) False (sys_db v) (sys_db s')) v"
      by (rule Cons.IH [OF v(1) rest]) (use that(3) rest in auto)
    then show "wp (prepare_steps env sv m (pos + 1) steps) ?Q ?E v"
      by (rule wp_mono) (use that(1,2) v(2) pos in \<open>auto intro: progressed_step\<close>)
  qed (use act that bad in auto)
  have deliver: "wp (andthen (delivery_recorded env sv t) (\<lambda>delivered.
      if \<not> delivered then pause_at env m pos
      else andthen (sprint_move env (man_sprint_id m)
          (if pos + 1 = length (man_steps m) then Sprint_COMPLETE else Sprint_ACTIVE) (pos + 1)
          (if pos + 1 = length (man_steps m) then ''SprintCompleted'' else ''SprintAdvanced'')) (\<lambda>_.
        prepare_steps env sv m (pos + 1) steps))) ?Q ?E u"
    if "sys_db u = sys_db s" "step_done False (sys_db s) (man_steps m ! pos)"
      "?fb \<Longrightarrow> is_completed (sys_db s) (task_id t) \<Longrightarrow> step_done True (sys_db s) (man_steps m ! pos)" for t and u :: "'a sys"
    unfolding wp_andthen [of "delivery_recorded env sv t"]
    using pz moved that assms(1)
    by (auto simp: delivery_recorded_def wp_if wp_db_read wp_ret)
  show ?case
  proof (cases "get_issue (sys_db s) (item_provider ?item) (item_external_id ?item)")
    case None
    then show ?thesis
      using sel [of "advance (sys_db s) s"] assms(1)
      by (simp add: step [symmetric] Let_def wp_andthen [of "db_read _ _"] wp_andthen [of "ret None"] wp_db_read wp_ret)
  next
    case (Some i)
    show ?thesis
    proof (cases "github_source i")
      case (Inl e)
      then show ?thesis
        using Some assms(1) bad
        by (simp add: step [symmetric] Let_def wp_andthen [of "db_read _ _"] wp_andthen [of "task_for _ _"]
            wp_db_read task_for_eq)
    next
      case (Inr src)
      have task: "wp (prepare_steps env sv m pos (step # steps)) ?Q ?E s =
          wp (case find_by_source (sys_db s) src of
              Some t \<Rightarrow> if task_status t = Task_DONE
                then andthen (delivery_recorded env sv t) (\<lambda>delivered.
                  if \<not> delivered then pause_at env m pos
                  else andthen (sprint_move env (man_sprint_id m)
                      (if pos + 1 = length (man_steps m) then Sprint_COMPLETE else Sprint_ACTIVE) (pos + 1)
                      (if pos + 1 = length (man_steps m) then ''SprintCompleted'' else ''SprintAdvanced'')) (\<lambda>_.
                    prepare_steps env sv m (pos + 1) steps))
                else select_step env sv m pos ?item (Some i) (Some t)
            | None \<Rightarrow> select_step env sv m pos ?item (Some i) None) ?Q ?E
           (advance (sys_db s) (advance (sys_db s) (advance (sys_db s) s)))"
        using Some Inr assms(1)
        by (simp add: step [symmetric] Let_def wp_andthen [of "db_read _ _"] wp_andthen [of "task_for _ _"]
            wp_db_read task_for_eq split: option.split)
      show ?thesis
      proof (cases "find_by_source (sys_db s) src")
        case None
        then show ?thesis unfolding task using sel [OF _ Some] by simp
      next
        case (Some t)
        have "step_done False (sys_db s) (man_steps m ! pos)"
          "is_completed (sys_db s) (task_id t) \<Longrightarrow> step_done True (sys_db s) (man_steps m ! pos)"
          if "task_status t = Task_DONE"
          using that Some Inr \<open>get_issue _ _ _ = Some i\<close> by (simp_all add: step_done_def)
        note fin = this
        show ?thesis
        proof (cases "task_status t = Task_DONE")
          case True
          show ?thesis
            unfolding task Some option.case if_P [OF True] by (rule deliver [OF _ fin(1) [OF True] fin(2) [OF True]]) simp_all
        next
          case False
          show ?thesis
            unfolding task Some option.case if_not_P [OF False] by (rule sel [OF _ \<open>get_issue _ _ _ = Some i\<close>]) simp
        qed
      qed
    qed
  qed
qed

text \<open>The whole preparation, from the sprint of the project.\<close>

lemma stands_current:
  assumes "sprints_ok d" "current_for_project d project = Some (m, st, pos)" shows "stands d m pos st"
proof -
  obtain r where r: "r \<in> set (db_sprints d)" "sprint_decode r = (m, st, pos)"
    using assms(2) find_SomeD by (fastforce simp: current_for_project_def)
  have "distinct (map (\<lambda>r. man_sprint_id (sp_manifest r)) (db_sprints d))"
    using assms(1) by (simp add: sprints_ok_def)
  from find_distinct [OF this r(1)] r(2) show ?thesis
    by (auto simp: stands_def sprint_row_of_def sprint_decode_def)
qed

lemma prepare_progress:
  assumes "quiet env" "reading_source (spv_source sv)" "reading_source (mat_source (spv_materializer sv))"
    and "sprints_ok (sys_db s)" "current_for_project (sys_db s) project = Some (m, Sprint_ACTIVE, pos)"
  shows "wp (prepare_for_project env sv project)
    (\<lambda>r s'. progressed (spv_feedback sv) m pos r (sys_db s) (sys_db s'))
    (\<lambda>_ s'. progressed (spv_feedback sv) m pos False (sys_db s) (sys_db s')) s"
proof -
  have "wp (prepare_steps env sv m pos (drop pos (man_steps m)))
    (\<lambda>r s'. progressed (spv_feedback sv) m pos r (sys_db s) (sys_db s'))
    (\<lambda>_ s'. progressed (spv_feedback sv) m pos False (sys_db s) (sys_db s')) (advance (sys_db s) s)"
    using prepare_steps_progress [OF assms(1-3), of "advance (sys_db s) s" m pos Sprint_ACTIVE]
      stands_current [OF assms(4,5)] by simp
  then show ?thesis
    using assms(1,5) by (simp add: prepare_for_project_def wp_andthen [of "db_read _ _"] wp_db_read)
qed

end
