(* ===== verification/Planning_Properties.thy ===== *)
theory Planning_Properties
  imports Sample_Data Sprint_Facts
begin

text \<open>The guarantees of intake, materialization and sprints, with a store in which a sprint of two
  steps has its first step delivered.\<close>

section \<open>Samples\<close>

definition sample_source :: "nat \<Rightarrow> task_source" where
  "sample_source n = \<lparr>src_provider = ''github'', src_repository = ''o/r'', src_issue_number = int n\<rparr>"

definition issue_task :: "nat \<Rightarrow> factory_task" where
  "issue_task n = (sample_task (''i'' @ decimal n) Task_READY)\<lparr>task_source := Some (sample_source n)\<rparr>"

definition sample_issues :: "unit issue_source" where
  "sample_issues = \<lparr>iso_list = (\<lambda>repo u. (Inr [issue_task 1, issue_task 2], u)),
     iso_eligible = (\<lambda>repo src u. (Inr True, u)), iso_get = (\<lambda>repo src u. (Inr (issue_task 1), u))\<rparr>"

definition sample_repository :: repository where
  "sample_repository = \<lparr>repo_slug = ''o/r'', repo_role = TARGET, repo_default_branch = ''main'', repo_fork_slug = None\<rparr>"

definition second_item :: work_item where
  "second_item = sample_item\<lparr>item_external_id := ''y''\<rparr>"

definition two_steps :: sprint_manifest where
  "two_steps = sample_manifest\<lparr>man_steps := [\<lparr>step_item = sample_item, step_dependencies = []\<rparr>,
     \<lparr>step_item = second_item, step_dependencies = [''trello:x'']\<rparr>]\<rparr>"

definition sample_issue :: "nat \<Rightarrow> materialized_issue" where
  "sample_issue n = \<lparr>iss_repository = ''o/r'', iss_number = int n, iss_url = ''u''\<rparr>"

text \<open>The board shows both items; the sink creates issue 2.\<close>

definition sample_board :: "unit item_source" where
  "sample_board = provider_source (\<lambda>u. (Inr [sample_item, second_item], u))
     (\<lambda>x u. (Inr (if x = ''x'' then sample_item else second_item), u))"

definition sample_materializer :: "unit materializer" where
  "sample_materializer = \<lparr>mat_source = sample_board, mat_sink = \<lparr>bsk_find = (\<lambda>item u. (Inr None, u)),
     bsk_create = (\<lambda>item u. (Inr (sample_issue 2), u))\<rparr>, mat_registry = None\<rparr>"

definition sample_sprints :: "unit sprint_service" where
  "sample_sprints = \<lparr>spv_source = sample_board, spv_materializer = sample_materializer,
     spv_registry = None, spv_feedback = False\<rparr>"

text \<open>The first item is linked to issue 1, whose task is done.\<close>

definition sprint_ops :: "store_op list" where
  "sprint_ops = [Reserve sample_item, Begin_write sample_item, Complete sample_item (sample_issue 1),
     Authorize_sprint 1 two_steps, Save_task ((issue_task 1)\<lparr>task_status := Task_DONE\<rparr>)]"

definition sprint_store :: store where
  "sprint_store = run_ops sprint_ops empty_store"

lemma reading_board: "reading_source sample_board"
  by (simp add: sample_board_def provider_source_reading)

section \<open>Intake\<close>

text \<open>Intake is idempotent.  When a pass over the open issues of a repository ends without errors
  and the same issues are still open, a second pass, alone, creates no task: it reports every issue
  as existing, none as created and no error, and leaves the store as it is.\<close>

theorem intake_twice:
  assumes "quiet env" "\<And>w. fst (iso_list src repo w) = Inr ts"
    and "intake env src repo s = (Inr sm, s1)" "ins_errors sm = 0"
  shows "\<exists>s2. intake env src repo s1 = (Inr (no_intake\<lparr>ins_discovered := length ts,
    ins_existing := length ts\<rparr>), s2) \<and> sys_db s2 = sys_db s1"
proof -
  have first: "wp (intake env src repo) (\<lambda>sm' s'. ins_errors sm' = 0 \<longrightarrow> (\<forall>t \<in> set ts. known (sys_db s') t))
      (\<lambda>_ _. True) s"
    unfolding intake_def wp_andthen wp_external
    using assms(2) [of "sys_world s"]
    by (auto split: prod.splits intro!: wp_mono [OF intake_stores [OF assms(1)]] simp: no_intake_def)
  have known: "\<forall>t \<in> set ts. known (sys_db s1) t" using wpD_Inr [OF first assms(3)] assms(4) by simp
  have "wp (intake env src repo) (\<lambda>sm' s'. sys_db s' = sys_db s1 \<and>
      sm' = no_intake\<lparr>ins_discovered := length ts, ins_existing := length ts\<rparr>) (\<lambda>_ _. False) s1"
    unfolding intake_def wp_andthen wp_external
    using assms(2) [of "sys_world s1"] known
    by (auto split: prod.splits intro!: wp_mono [OF intake_known [OF assms(1)]] simp: no_intake_def)
  then show ?thesis by (cases "intake env src repo s1") (auto simp: wp_def split: sum.splits)
qed

lemma sample_intake:
  "case intake sample_env sample_issues sample_repository (sample_sys empty_store) of
     (Inl _, _) \<Rightarrow> False | (Inr sm, _) \<Rightarrow> ins_errors sm = 0 \<and> ins_created sm = 2"
  by code_simp

theorem intake_twice_witness:
  "\<exists>(s1 :: unit sys) s2. intake sample_env sample_issues sample_repository s1 =
     (Inr \<lparr>ins_discovered = 2, ins_created = 0, ins_existing = 2, ins_errors = 0\<rparr>, s2) \<and> sys_db s2 = sys_db s1"
proof -
  obtain sm s1 where r: "intake sample_env sample_issues sample_repository (sample_sys empty_store) = (Inr sm, s1)"
      "ins_errors sm = 0"
    using sample_intake by (auto split: prod.splits sum.splits)
  have l: "\<And>w. fst (iso_list sample_issues sample_repository w) = Inr [issue_task 1, issue_task 2]"
    by (simp add: sample_issues_def)
  from intake_twice [OF quiet_sample l r] show ?thesis
    by (auto simp: no_intake_def numeral_2_eq_2)
qed

section \<open>Materialization\<close>

text \<open>C33. No issue is ever posted a second time.  In a store the factory can reach, once the link of a work
  item has left the state \<open>RESERVED\<close>, so also when the process died while it was posting, materializing the
  item, with no other process writing meanwhile and from a source of items that only reads the
  store, does not depend on the call that creates issues: whatever that call would do, the outcome,
  the store and the external world are the same, so it is never reached.\<close>

theorem never_posted_again:
  assumes "quiet env" "reading_source (mat_source m)" "reachable (sys_db s)"
    and "link_row_of (sys_db s) (item_provider item) (item_external_id item) = Some l" "lk_state l \<noteq> RESERVED"
  shows "materialize_one env (m\<lparr>mat_sink := (mat_sink m)\<lparr>bsk_create := create\<rparr>\<rparr>) item sm s =
    materialize_one env m item sm s"
proof -
  have "links_ok (sys_db s)" using reachable_factory_inv [OF assms(3)] by (simp add: factory_inv_def)
  from link_settled_unique [OF this assms(4,5)] show ?thesis
    by (rule materialize_settled [OF assms(1,2)]) (simp add: same_but_create_def)
qed

theorem never_posted_again_witness:
  "\<forall>sm. materialize_one sample_env (sample_materializer\<lparr>mat_sink := (mat_sink sample_materializer)\<lparr>bsk_create :=
     (\<lambda>item u. (Inl AssertionError, u))\<rparr>\<rparr>) sample_item sm (sample_sys (run_ops plan_ops empty_store)) =
   materialize_one sample_env sample_materializer sample_item sm (sample_sys (run_ops plan_ops empty_store))"
proof -
  have "map_option lk_state (link_row_of (run_ops plan_ops empty_store) ''trello'' ''x'') = Some POSTING"
    by code_simp
  then obtain l where l: "link_row_of (sys_db (sample_sys (run_ops plan_ops empty_store)))
      (item_provider sample_item) (item_external_id sample_item) = Some l" "lk_state l = POSTING"
    by (auto simp: sample_item_def)
  have "reading_source (mat_source sample_materializer)" by (simp add: sample_materializer_def reading_board)
  from never_posted_again [OF quiet_sample this _ l(1)] l(2) reachable_run_ops show ?thesis by simp
qed

section \<open>Sprints\<close>

text \<open>C34. A sprint advances only over delivered work.  Preparing the active sprint of a project, alone,
  never moves it back; every step it moves past has a linked issue whose task is \<open>DONE\<close> and, when
  feedback is recorded, a recorded delivery; tasks are left alone, and the audit trace and the links
  only grow.  When it answers that work is ready, the sprint is active at a step with a linked issue.
  This also holds when a port raises on the way.\<close>

theorem sprint_advances:
  assumes "quiet env" "reading_source (spv_source sv)" "reading_source (mat_source (spv_materializer sv))"
    and "reachable (sys_db s)" "current_for_project (sys_db s) project = Some (m, Sprint_ACTIVE, pos)"
    and "prepare_for_project env sv project s = (r, s')"
  shows "progressed (spv_feedback sv) m pos (r = Inr True) (sys_db s) (sys_db s')"
proof -
  have "sprints_ok (sys_db s)" using reachable_factory_inv [OF assms(4)] by (simp add: factory_inv_def)
  from prepare_progress [OF assms(1-3) this assms(5)] assms(6) show ?thesis
    by (auto simp: wp_def split: sum.splits)
qed

lemma sample_prepare:
  "case prepare_for_project sample_env sample_sprints ''p'' (sample_sys sprint_store) of
     (Inr True, s') \<Rightarrow> current_for_project (sys_db s') ''p'' = Some (two_steps, Sprint_ACTIVE, 1) | _ \<Rightarrow> False"
  by code_simp

theorem sprint_advances_witness:
  "\<exists>d'. progressed False two_steps 0 True sprint_store d' \<and>
     current_for_project d' ''p'' = Some (two_steps, Sprint_ACTIVE, 1)"
proof -
  obtain s' where r: "prepare_for_project sample_env sample_sprints ''p'' (sample_sys sprint_store) = (Inr True, s')"
      "current_for_project (sys_db s') ''p'' = Some (two_steps, Sprint_ACTIVE, 1)"
    using sample_prepare by (auto split: prod.splits sum.splits if_splits bool.splits)
  have c: "current_for_project (sys_db (sample_sys sprint_store)) ''p'' = Some (two_steps, Sprint_ACTIVE, 0)"
    by code_simp
  have reach: "reachable (sys_db (sample_sys sprint_store))"
    by (simp add: sprint_store_def reachable_run_ops)
  have "reading_source (spv_source sample_sprints)" "reading_source (mat_source (spv_materializer sample_sprints))"
    by (simp_all add: sample_sprints_def sample_materializer_def reading_board)
  from sprint_advances [OF quiet_sample this reach c r(1)] r(2) show ?thesis
    by (auto simp: sample_sprints_def)
qed

end
