(* ===== verification/Feedback_Service.thy ===== *)
theory Feedback_Service
  imports Tracking_Facts Recovery_Service
begin

text \<open>
  \<^verbatim>\<open>FeedbackReconciliationService\<close> (\<^verbatim>\<open>feedback.py\<close>), which carries a reviewed delivery to \<open>DONE\<close> and
  back to the issue and the card, and \<^verbatim>\<open>ReconciliationService\<close> (\<^verbatim>\<open>reconciliation.py\<close>), which
  repairs tasks whose newest run has ended.  The evidence source, the issues and the cards are
  external ports.
\<close>

section \<open>The superseded marker\<close>

text \<open>The line starts of a text: \<open>^\<close> in multi-line mode.\<close>

fun line_starts :: "string \<Rightarrow> string list" where
  "line_starts [] = []"
| "line_starts (c # cs) = (if c = CHR 0x0A then [cs] else []) @ line_starts cs"

text \<open>\<open>\s*$\<close>: white space up to a line end or the end of the text.\<close>

definition blank_to_eol :: "string \<Rightarrow> bool" where
  "blank_to_eol s \<longleftrightarrow> dropWhile is_space s = [] \<or> CHR 0x0A \<in> set (takeWhile is_space s)"

text \<open>A literal, ignoring case, followed by something.\<close>

definition then_literal :: "string \<Rightarrow> (string \<Rightarrow> bool) \<Rightarrow> string \<Rightarrow> bool" where
  "then_literal w p s \<longleftrightarrow> map lower_char (take (length w) s) = w \<and> p (drop (length w) s)"

definition marker_tail :: "string \<Rightarrow> bool" where
  "marker_tail s \<longleftrightarrow> blank_to_eol s \<or> then_literal ''-->'' blank_to_eol (lstrip s)"

definition marker_body :: "string \<Rightarrow> bool" where
  "marker_body = then_literal ''factory-resolution:'' (\<lambda>s. then_literal ''superseded'' marker_tail (lstrip s))"

definition marker_at :: "string \<Rightarrow> bool" where
  "marker_at s = (let t = lstrip s in
     marker_body t \<or> then_literal ''<!--'' (\<lambda>u. marker_body (lstrip u)) t)"

definition has_superseded_marker :: "string \<Rightarrow> bool" where
  "has_superseded_marker s \<longleftrightarrow> list_ex marker_at (s # line_starts s)"

section \<open>The service\<close>

record 'w feedback =
  fbk_evidence :: "feedback_identity \<Rightarrow> ('w, delivery_evidence) port"
  fbk_revision :: "(pull_request \<Rightarrow> ('w, string) port) option"
  fbk_complete :: "feedback_identity \<Rightarrow> ('w, unit) port"
  fbk_state :: "string \<Rightarrow> int \<Rightarrow> ('w, string \<times> string option) port"
  fbk_close :: "feedback_identity \<Rightarrow> string \<Rightarrow> ('w, unit) port"
  fbk_cards :: "(feedback_identity \<Rightarrow> string \<Rightarrow> ('w, unit) port) option"
  fbk_registry :: project_registry
  fbk_sprints :: bool

text \<open>\<open>except (ValueError, TypeError, RuntimeError)\<close>: no error of the factory is a \<open>RuntimeError\<close>;
  external errors are named by their class.\<close>

definition revision_error :: "py_error \<Rightarrow> bool" where
  "revision_error e \<longleftrightarrow> is_value_error e \<or> (\<exists>m \<in> {''ValueError'', ''TypeError'', ''RuntimeError''}. e = OtherError m)"

definition matches_pr :: "factory_task \<Rightarrow> agent_run \<Rightarrow> string \<Rightarrow> string \<Rightarrow> pull_request \<Rightarrow> bool" where
  "matches_pr t run branch base pr \<longleftrightarrow> pr_task_id pr = Some (task_id t) \<and>
     pr_repository pr = task_repository t \<and> pr_base_branch pr = base \<and> pr_head_branch pr = branch \<and>
     pr_number pr \<noteq> None \<and> pr_commit_sha pr \<noteq> None \<and> pr_commit_sha pr \<noteq> Some [] \<and>
     pr_run_id pr = Some (run_id run)"

text \<open>The first guard of \<open>_identity\<close>, up to the latest-run check.\<close>

definition delivers :: "factory_task \<Rightarrow> agent_run \<Rightarrow> agent_run option \<Rightarrow> bool" where
  "delivers t run stored \<longleftrightarrow> task_kind t = CODE \<and>
     (case task_source t of None \<Rightarrow> False
        | Some src \<Rightarrow> src_provider src = ''github'' \<and> src_repository src = task_repository t) \<and>
     run_task_id run = task_id t \<and> run_project run = task_project t \<and>
     (case run_workspace run of None \<Rightarrow> False | Some w \<Rightarrow> ws_repository w = task_repository t) \<and>
     (case stored of None \<Rightarrow> False
        | Some r \<Rightarrow> run_task_id r = task_id t \<and> run_project r = task_project t \<and>
            run_workspace r = run_workspace run \<and> run_status r = Run_SUCCEEDED)"

text \<open>The pull request at the revision the provider reports, or nothing when that cannot be told.\<close>

definition current_pr :: "env \<Rightarrow> 'w feedback \<Rightarrow> pull_request \<Rightarrow> ('w, pull_request option) call" where
  "current_pr env f pr = (case fbk_revision f of None \<Rightarrow> ret (Some pr)
     | Some revision \<Rightarrow> on_error
         (andthen (external (revision pr)) (\<lambda>sha.
          if Some sha = pr_commit_sha pr then ret (Some pr)
          else andthen (db_write env (\<lambda>now ids. record_provider_revision now pr sha)) (\<lambda>pr'. ret (Some pr'))))
         (\<lambda>e. if revision_error e then ret None else raise e))"

definition link_agrees :: "string \<times> string option \<Rightarrow> (string \<times> string) option \<Rightarrow> bool" where
  "link_agrees origin link \<longleftrightarrow>
     (fst origin = ''trello'' \<longrightarrow> map_option (\<lambda>(p, x). (p, Some x)) link = Some origin) \<and>
     (fst origin = ''github-direct'' \<longrightarrow> link = None)"

definition delivery_identity :: "factory_task \<Rightarrow> task_source \<Rightarrow> agent_run \<Rightarrow> workspace \<Rightarrow> pull_request \<Rightarrow>
    string option \<Rightarrow> (string \<times> string) option \<Rightarrow> feedback_identity" where
  "delivery_identity t src run w pr sid link =
     \<lparr>fid_project = task_project t, fid_repository = task_repository t,
      fid_issue_number = src_issue_number src, fid_task = task_id t, fid_run = run_id run,
      fid_workspace = ws_id w, fid_commit_sha = the (pr_commit_sha pr), fid_pr_number = the (pr_number pr),
      fid_branch = ws_branch w, fid_sprint = sid, fid_provider = map_option fst link,
      fid_item = map_option snd link\<rparr>"

text \<open>\<open>_identity\<close> after the first guard.\<close>

definition linked_identity :: "env \<Rightarrow> 'w feedback \<Rightarrow> factory_task \<Rightarrow> task_source \<Rightarrow> agent_run \<Rightarrow> workspace \<Rightarrow>
    pull_request \<Rightarrow> ('w, (feedback_identity \<times> pull_request) option) call" where
  "linked_identity env f t src run w pr =
     andthen (check (pr_number pr \<noteq> None \<and> pr_commit_sha pr \<noteq> None) AssertionError) (\<lambda>_.
     andthen (db_read env (\<lambda>d. reconciliation_origin d (task_id t))) (\<lambda>origin. case origin of
       None \<Rightarrow> ret None
     | Some origin \<Rightarrow>
       if fst origin = ''trello'' \<and> fbk_cards f = None then ret None
       else andthen (db_read env (\<lambda>d. find_work_item d (task_project t) (src_repository src)
              (src_issue_number src))) (\<lambda>link.
         if \<not> link_agrees origin link then ret None
         else andthen (case link of
               Some (p, x) \<Rightarrow> if fbk_sprints f
                 then andthen (db_read env (\<lambda>d. find_for_work_item d (task_project t) p x)) from_outcome
                 else ret None
             | None \<Rightarrow> ret None) (\<lambda>sid.
           ret (Some (delivery_identity t src run w pr sid link, pr))))))"

definition identity :: "env \<Rightarrow> 'w feedback \<Rightarrow> factory_task \<Rightarrow> agent_run \<Rightarrow>
    ('w, (feedback_identity \<times> pull_request) option) call" where
  "identity env f t run =
     andthen (db_read env (\<lambda>d. get_run d (run_id run))) (\<lambda>stored.
     if \<not> delivers t run stored then ret None
     else andthen (db_read env (\<lambda>d. list_runs d (Some (task_id t)))) (\<lambda>runs.
       if runs = [] \<or> run_id (last runs) \<noteq> run_id run then ret None
       else case (task_source t, run_workspace run,
           resolve_project (fbk_registry f) (task_project t) (Some (task_repository t))) of
         (Some src, Some w, Inr prof) \<Rightarrow>
           andthen (db_read env (\<lambda>d. find_by_branch d (task_repository t) (ws_branch w))) (\<lambda>found.
           case found of None \<Rightarrow> ret None
           | Some pr \<Rightarrow>
             if \<not> matches_pr t run (ws_branch w) (prof_base_ref prof) pr then ret None
             else andthen (current_pr env f pr) (\<lambda>cur. case cur of None \<Rightarrow> ret None
               | Some pr' \<Rightarrow> linked_identity env f t src run w pr'))
       | _ \<Rightarrow> ret None))"

definition merged_now :: "env \<Rightarrow> pull_request \<Rightarrow> ('w, unit) call" where
  "merged_now env pr = andthen (db_write env (\<lambda>now ids. record_merged now pr)) (\<lambda>_. ret ())"

text \<open>The card is only told for an item of the board.\<close>

definition sync_card :: "'w feedback \<Rightarrow> feedback_identity \<Rightarrow> string \<Rightarrow> ('w, unit) call" where
  "sync_card f i phase = (case fbk_cards f of
       Some cards \<Rightarrow> if fid_provider i = Some ''trello'' then external (cards i phase) else ret ()
     | None \<Rightarrow> ret ())"

definition sync :: "env \<Rightarrow> 'w feedback \<Rightarrow> factory_task \<Rightarrow> agent_run \<Rightarrow> string \<Rightarrow> ('w, unit) call" where
  "sync env f t run phase = andthen (identity env f t run) (\<lambda>found. case found of
       None \<Rightarrow> ret () | Some (i, _) \<Rightarrow> sync_card f i phase)"

definition current_task :: "env \<Rightarrow> factory_task \<Rightarrow> ('w, factory_task) call" where
  "current_task env t = andthen (tasks_get env (task_id t)) (\<lambda>r. ret (case r of None \<Rightarrow> t | Some u \<Rightarrow> u))"

section \<open>Delivery\<close>

definition deliver :: "env \<Rightarrow> 'w feedback \<Rightarrow> factory_task \<Rightarrow> feedback_identity \<Rightarrow> ('w, bool) call" where
  "deliver env f t i =
     andthen (if task_status t \<in> {Task_WAITING_HUMAN, Task_VALIDATING}
         then transition env (task_id t) Task_DONE None else ret t) (\<lambda>t.
     if task_status t \<noteq> Task_DONE then ret False
     else andthen (external (fbk_complete f i)) (\<lambda>_.
       andthen (sync_card f i ''DONE'') (\<lambda>_.
       andthen (db_write env (\<lambda>now ids. record_completed now i)) (\<lambda>_. ret True))))"

definition reconcile :: "env \<Rightarrow> 'w feedback \<Rightarrow> factory_task \<Rightarrow> agent_run \<Rightarrow> ('w, bool) call" where
  "reconcile env f t run =
     andthen (current_task env t) (\<lambda>t.
     andthen (identity env f t run) (\<lambda>found. case found of
       None \<Rightarrow> ret False
     | Some (i, pr) \<Rightarrow>
       if run_status run \<noteq> Run_SUCCEEDED then ret False
       else andthen (external (fbk_evidence f i)) (\<lambda>facts.
         andthen (if dlv_merged facts then merged_now env pr else ret ()) (\<lambda>_.
         if delivery_complete facts then deliver env f t i
         else if task_status t = Task_DONE then ret False
         else andthen (sync_card f i (if dlv_merged facts then ''MERGED''
             else task_status_value (task_status t))) (\<lambda>_. ret False)))))"

section \<open>Closures from outside\<close>

definition open_statuses :: "task_status set" where
  "open_statuses = {Task_DISCOVERED, Task_READY, Task_CLAIMED, Task_RUNNING, Task_PR_OPEN,
     Task_CHANGES_REQUESTED, Task_BLOCKED}"

definition closing_reasons :: "string option set" where
  "closing_reasons = {Some ''completed'', Some ''not_planned'', Some ''duplicate''}"

definition resolve_done :: "env \<Rightarrow> factory_task \<Rightarrow> ('w, factory_task) call" where
  "resolve_done env t =
     (if task_status t \<in> {Task_FAILED, Task_CANCELLED}
        then reconcile_terminal_resolution env (task_id t) (task_status t)
      else if task_status t = Task_DONE then ret t
      else transition env (task_id t) Task_DONE None)"

definition clear_blocked :: "env \<Rightarrow> factory_task \<Rightarrow> ('w, factory_task) call" where
  "clear_blocked env t = (if task_blocked_reason t = None then ret t
     else tasks_update env (t\<lparr>task_blocked_reason := None\<rparr>))"

text \<open>The task reaches \<open>DONE\<close>, or the closure does not apply to its status.\<close>

definition settle :: "env \<Rightarrow> factory_task \<Rightarrow> ('w, factory_task option) call" where
  "settle env t =
     (if task_status t \<notin> {Task_DONE, Task_WAITING_HUMAN, Task_VALIDATING, Task_FAILED, Task_CANCELLED}
      then ret None
      else andthen (if task_status t = Task_DONE then ret t else resolve_done env t) (\<lambda>t.
        andthen (current_task env t) (\<lambda>t.
        andthen (clear_blocked env t) (\<lambda>t. ret (Some t)))))"

definition issue_state :: "'w feedback \<Rightarrow> feedback_identity \<Rightarrow> ('w, string \<times> string option) call" where
  "issue_state f i = on_error (external (fbk_state f (fid_repository i) (fid_issue_number i)))
     (\<lambda>e. ret (''unknown'', None))"

definition superseded :: "factory_task \<Rightarrow> bool" where
  "superseded t \<longleftrightarrow> has_superseded_marker (task_body t) \<or> has_superseded_marker (task_title t)"

definition closed_issue :: "string \<Rightarrow> string option \<Rightarrow> bool" where
  "closed_issue state reason \<longleftrightarrow> state = ''closed'' \<and> reason \<in> closing_reasons"

text \<open>The closure is known: settle the task, then the issue, the card and the event.\<close>

definition finish_external :: "env \<Rightarrow> 'w feedback \<Rightarrow> factory_task \<Rightarrow> feedback_identity \<Rightarrow> delivery_evidence \<Rightarrow>
    string \<Rightarrow> string option \<Rightarrow> ('w, bool) call" where
  "finish_external env f t i facts state reason =
     andthen (settle env t) (\<lambda>settled. case settled of
       None \<Rightarrow> ret False
     | Some t' \<Rightarrow>
       andthen (if delivery_complete facts \<and> state \<noteq> ''closed'' then external (fbk_complete f i)
         else if superseded t \<and> state \<noteq> ''closed'' then external (fbk_close f i ''not_planned'')
         else ret ()) (\<lambda>_.
       andthen (sync_card f i ''DONE'') (\<lambda>_.
       andthen (db_write env (\<lambda>now ids. record_resolution now i
         (if closed_issue state reason then the reason
          else if superseded t then ''not_planned'' else ''completed''))) (\<lambda>_.
       ret True))))"

definition close_external :: "env \<Rightarrow> 'w feedback \<Rightarrow> factory_task \<Rightarrow> feedback_identity \<Rightarrow> pull_request \<Rightarrow>
    ('w, bool) call" where
  "close_external env f t i pr =
     andthen (issue_state f i) (\<lambda>(state, reason).
     andthen (external (fbk_evidence f i)) (\<lambda>facts.
     let delivered = dlv_merged facts \<and> delivery_complete facts in
     andthen (if dlv_merged facts \<and> task_status t = Task_WAITING_HUMAN then merged_now env pr else ret ()) (\<lambda>_.
     if \<not> delivered \<and> \<not> closed_issue state reason \<and> \<not> superseded t then ret False
     else andthen (if delivered then merged_now env pr else ret ()) (\<lambda>_.
       finish_external env f t i facts state reason))))"

definition reconcile_external :: "env \<Rightarrow> 'w feedback \<Rightarrow> factory_task \<Rightarrow> agent_run \<Rightarrow> ('w, bool) call" where
  "reconcile_external env f t run =
     andthen (current_task env t) (\<lambda>t.
     if run_status run \<noteq> Run_SUCCEEDED then ret False
     else andthen (identity env f t run) (\<lambda>found. case found of
       None \<Rightarrow> ret False
     | Some (i, pr) \<Rightarrow> if task_status t \<in> open_statuses then ret False
         else close_external env f t i pr))"

definition close_from_provider :: "env \<Rightarrow> 'w feedback \<Rightarrow> factory_task \<Rightarrow> feedback_identity \<Rightarrow> ('w, bool) call" where
  "close_from_provider env f t i =
     andthen (issue_state f i) (\<lambda>(state, reason).
     if \<not> closed_issue state reason then ret False
     else andthen (settle env t) (\<lambda>settled. case settled of
       None \<Rightarrow> ret False
     | Some _ \<Rightarrow>
       andthen (sync_card f i ''DONE'') (\<lambda>_.
       andthen (db_write env (\<lambda>now ids. record_resolution now i (the reason))) (\<lambda>_.
       ret True))))"

definition reconcile_provider_closure :: "env \<Rightarrow> 'w feedback \<Rightarrow> factory_task \<Rightarrow> agent_run \<Rightarrow> ('w, bool) call" where
  "reconcile_provider_closure env f t run =
     andthen (current_task env t) (\<lambda>t.
     if run_status run \<noteq> Run_SUCCEEDED then ret False
     else andthen (db_read env (\<lambda>d. get_run d (run_id run))) (\<lambda>stored.
       if map_option run_status stored \<noteq> Some Run_SUCCEEDED then ret False
       else andthen (identity env f t run) (\<lambda>found. case found of
         None \<Rightarrow> ret False
       | Some (i, _) \<Rightarrow> if task_status t \<in> open_statuses then ret False
           else close_from_provider env f t i)))"

definition is_github_direct :: "env \<Rightarrow> factory_task \<Rightarrow> ('w, bool) call" where
  "is_github_direct env t = db_read env (\<lambda>d. reconciliation_origin d (task_id t) = Some (''github-direct'', None))"

section \<open>Repair of interrupted tasks\<close>

record repair_report =
  rep_repaired :: nat
  rep_missing_run :: nat
  rep_active_mismatch :: nat

definition more_mismatch :: "repair_report \<Rightarrow> repair_report" where
  "more_mismatch r = r\<lparr>rep_active_mismatch := rep_active_mismatch r + 1\<rparr>"

record 'w reconciliation =
  rcn_tracker :: "'w tracker"
  rcn_adapter :: "'w adapter"
  rcn_allows :: "(factory_task \<Rightarrow> ('w, bool) call) option"
  rcn_registry :: "project_registry option"

definition misrouted :: "project_registry option \<Rightarrow> factory_task \<Rightarrow> bool" where
  "misrouted reg t = (case reg of None \<Rightarrow> False
     | Some r \<Rightarrow> (case resolve_project r (task_project t) (Some (task_repository t)) of
         Inl _ \<Rightarrow> True | Inr _ \<Rightarrow> False))"

text \<open>The newest run of an interrupted task.\<close>

definition repair_run :: "env \<Rightarrow> 'w reconciliation \<Rightarrow> factory_task \<Rightarrow> agent_run \<Rightarrow> repair_report \<Rightarrow>
    ('w, repair_report) call" where
  "repair_run env c t run rep =
     (if run_project run \<noteq> task_project t \<or>
         (case run_workspace run of None \<Rightarrow> False | Some w \<Rightarrow> ws_repository w \<noteq> task_repository t)
      then ret (more_mismatch rep)
      else if \<not> is_terminal run
      then ret (if task_status t \<noteq> Task_RUNNING then more_mismatch rep else rep)
      else if run_adapter run \<noteq> ad_kind (rcn_adapter c) then ret (more_mismatch rep)
      else andthen (refresh env (rcn_tracker c) (run_id run) (rcn_adapter c)) (\<lambda>_.
        andthen (tasks_get env (task_id t)) (\<lambda>after.
        ret (case after of None \<Rightarrow> rep
          | Some a \<Rightarrow> if task_status a \<noteq> task_status t
              then rep\<lparr>rep_repaired := rep_repaired rep + 1\<rparr> else rep))))"

definition repair_task :: "env \<Rightarrow> 'w reconciliation \<Rightarrow> factory_task \<Rightarrow> repair_report \<Rightarrow>
    ('w, repair_report) call" where
  "repair_task env c t rep =
     andthen (case rcn_allows c of None \<Rightarrow> ret True | Some allowed \<Rightarrow> allowed t) (\<lambda>ok.
     if \<not> ok then ret rep
     else if misrouted (rcn_registry c) t then ret (more_mismatch rep)
     else if task_status t = Task_READY
     then andthen (db_read env (\<lambda>d. find_active_run d (task_id t))) (\<lambda>active.
       ret (if active \<noteq> None then more_mismatch rep else rep))
     else if task_status t \<notin> {Task_CLAIMED, Task_RUNNING, Task_VALIDATING, Task_PR_OPEN} then ret rep
     else andthen (db_read env (\<lambda>d. list_runs d (Some (task_id t)))) (\<lambda>runs.
       if runs = [] then ret (rep\<lparr>rep_missing_run := rep_missing_run rep + 1\<rparr>)
       else repair_run env c t (last runs) rep))"

definition repair :: "env \<Rightarrow> 'w reconciliation \<Rightarrow> ('w, repair_report) call" where
  "repair env c = andthen (db_read env (\<lambda>d. list_tasks d None)) (\<lambda>tasks.
     each (repair_task env c) tasks \<lparr>rep_repaired = 0, rep_missing_run = 0, rep_active_mismatch = 0\<rparr>)"

end
