(* ===== verification/Feedback_Facts.thy ===== *)
theory Feedback_Facts
  imports Feedback_Service Publication_Facts
begin

text \<open>
  What moves a task to DONE in \<open>Feedback_Service\<close>: the evidence of the provider, or a closure from
  outside.  Up to that decision no step of the service changes a task.
\<close>

section \<open>Steps that leave the tasks alone\<close>

lemma tx_step_Inr: "tx_step r f = Inr x \<Longrightarrow> \<exists>d. r = Inr d \<and> f d = Inr x"
  by (cases r) (simp_all add: tx_step_def)

lemma put_pr_audited_same_tasks:
  "audit_pr_update now row new (put_pr p f d) = Inr d' \<Longrightarrow> same_tasks d d'"
  by (drule only_audit_pr_update [THEN only_audit_same_tasks]) (simp add: same_tasks_def put_pr_def)

lemma record_provider_revision_same_tasks:
  "record_provider_revision now pr sha d = Inr (pr', d') \<Longrightarrow> same_tasks d d'"
  by (auto simp: record_provider_revision_def Let_def same_tasks_def split: option.splits if_splits
      dest!: tx_step_Inr put_pr_audited_same_tasks)

lemma record_merged_same_tasks: "record_merged now pr d = Inr (pr', d') \<Longrightarrow> same_tasks d d'"
  by (auto simp: record_merged_def Let_def same_tasks_def split: option.splits if_splits
      dest!: tx_step_Inr put_pr_audited_same_tasks)

lemma identity_alone:
  assumes Q: "quiet env" shows "keeps (on_db same_tasks) (identity env f t run)"
proof -
  have "keeps (on_db same_tasks) (current_pr env f pr)" for pr
    unfolding current_pr_def
    by (intro tasks_alone_intros tasks_alone [OF Q]) (rule record_provider_revision_same_tasks)
  moreover have "keeps (on_db same_tasks) (linked_identity env f t src run w pr)" for src w pr
    unfolding linked_identity_def by (intro tasks_alone_intros tasks_alone [OF Q])
  ultimately show ?thesis
    unfolding identity_def by (intro tasks_alone_intros tasks_alone [OF Q])
qed

lemma merged_now_alone: "quiet env \<Longrightarrow> keeps (on_db same_tasks) (merged_now env pr)"
  unfolding merged_now_def by (intro tasks_alone_intros tasks_alone) (auto intro: record_merged_same_tasks)

lemma cards_alone:
  assumes Q: "quiet env"
  shows "keeps (on_db same_tasks) (sync_card f i phase)" "keeps (on_db same_tasks) (issue_state f i)"
  unfolding sync_card_def issue_state_def by (intro tasks_alone_intros tasks_alone [OF Q])+

section \<open>The identity of a delivery\<close>

lemma linked_identity_result:
  "wp (linked_identity env f t src run w pr)
    (\<lambda>found _. \<forall>i q. found = Some (i, q) \<longrightarrow> fid_task i = task_id t \<and> fid_run i = run_id run \<and> q = pr)
    (\<lambda>_ _. True) s"
  unfolding linked_identity_def wp_simps
  by (auto simp: wp_simps delivery_identity_def split: option.splits prod.splits sum.splits)

text \<open>An identity is found for the latest stored run of a CODE task only.\<close>

lemma identity_result:
  assumes "quiet env"
  shows "wp (identity env f t run)
    (\<lambda>found _. \<forall>i q. found = Some (i, q) \<longrightarrow> fid_task i = task_id t \<and> fid_run i = run_id run \<and>
       delivers t run (get_run (sys_db s) (run_id run)) \<and>
       (\<exists>r. latest_of (list_runs (sys_db s) (Some (task_id t))) = Some r \<and> run_id r = run_id run))
    (\<lambda>_ _. True) s"
proof -
  have linked: "wp (current_pr env f pr) (\<lambda>cur. wp (case cur of None \<Rightarrow> ret None
        | Some pr' \<Rightarrow> linked_identity env f t src run w pr')
      (\<lambda>found _. \<forall>i q. found = Some (i, q) \<longrightarrow> fid_task i = task_id t \<and> fid_run i = run_id run) (\<lambda>_ _. True))
    (\<lambda>_ _. True) u" for pr src w u
    by (rule wp_mono [OF wp_trivial])
      (auto simp: wp_ret intro!: wp_mono [OF linked_identity_result] split: option.split)
  show ?thesis
    unfolding identity_def wp_simps
    using assms
    by (auto simp: wp_simps latest_of_def split: option.splits sum.splits if_splits
        intro!: wp_mono [OF linked])
qed

section \<open>What moves a task to DONE\<close>

definition newly_done :: "'w sys \<Rightarrow> string \<Rightarrow> 'w sys \<Rightarrow> bool" where
  "newly_done s tid s' \<longleftrightarrow> status_of s tid \<noteq> Some Task_DONE \<and> status_of s' tid = Some Task_DONE"

lemma not_newly_done: "on_db same_tasks s s' \<Longrightarrow> \<not> newly_done s tid s'"
  by (auto simp: on_db_def same_tasks_def newly_done_def status_of_def get_task_def task_row_of_def)

lemma wp_alone_then:
  assumes "keeps (on_db same_tasks) m" "on_db same_tasks s0 s"
    and "\<And>a u. on_db same_tasks s0 u \<Longrightarrow> wp (n a) (\<lambda>_ u'. newly_done s0 tid u' \<longrightarrow> G)
      (\<lambda>_ u'. newly_done s0 tid u' \<longrightarrow> G) u"
  shows "wp (andthen m n) (\<lambda>_ u'. newly_done s0 tid u' \<longrightarrow> G) (\<lambda>_ u'. newly_done s0 tid u' \<longrightarrow> G) s"
  unfolding wp_andthen
  by (rule wp_mono [OF wp_keeps [OF assms(1)]])
    (auto intro!: assms(3) dest: sys_tasks.R_trans [OF assms(2)] not_newly_done)

text \<open>Evidence that a delivery is complete, as the provider answered it.\<close>

definition evidence_given :: "'w feedback \<Rightarrow> string \<Rightarrow> string \<Rightarrow> bool" where
  "evidence_given f tid rid \<longleftrightarrow> (\<exists>i w facts. fst (fbk_evidence f i w) = Inr facts \<and>
     delivery_complete facts \<and> fid_task i = tid \<and> fid_run i = rid)"

lemma same_db_not_done: "sys_db s' = sys_db s \<Longrightarrow> \<not> newly_done s tid s'"
  by (auto simp: newly_done_def status_of_def)

text \<open>The task as the call reads it first.\<close>

definition task_now :: "'w sys \<Rightarrow> factory_task \<Rightarrow> factory_task" where
  "task_now s t = (case get_task (sys_db s) (task_id t) of None \<Rightarrow> t | Some u \<Rightarrow> u)"

lemma task_id_now [simp]: "task_id (task_now s t) = task_id t"
  by (auto simp: task_now_def split: option.split dest: get_taskD)

lemma current_task_result:
  fixes s :: "'w sys"
  shows "quiet env \<Longrightarrow> wp (current_task env t) (\<lambda>t' s'. t' = task_now s t \<and> sys_db s' = sys_db s)
    (\<lambda>_ s'. sys_db s' = sys_db s) s"
  unfolding current_task_def wp_simps by (simp add: wp_simps task_now_def split: option.splits)

text \<open>The first two steps of every closing operation.\<close>

lemma wp_identified:
  fixes s :: "'w sys"
  assumes Q: "quiet env"
    and none: "\<And>u. on_db same_tasks s u \<Longrightarrow> wp (n (task_now s t) None)
      (\<lambda>_ u'. newly_done s (task_id t) u' \<longrightarrow> G) (\<lambda>_ u'. newly_done s (task_id t) u' \<longrightarrow> G) u"
    and some: "\<And>i pr u. on_db same_tasks s u \<Longrightarrow> fid_task i = task_id t \<Longrightarrow> fid_run i = run_id run \<Longrightarrow>
      delivers (task_now s t) run (get_run (sys_db s) (run_id run)) \<Longrightarrow>
      wp (n (task_now s t) (Some (i, pr)))
        (\<lambda>_ u'. newly_done s (task_id t) u' \<longrightarrow> G) (\<lambda>_ u'. newly_done s (task_id t) u' \<longrightarrow> G) u"
  shows "wp (andthen (current_task env t) (\<lambda>t'. andthen (identity env f t' run) (n t')))
    (\<lambda>_ u'. newly_done s (task_id t) u' \<longrightarrow> G) (\<lambda>_ u'. newly_done s (task_id t) u' \<longrightarrow> G) s"
  unfolding wp_andthen
proof (rule wp_mono [OF current_task_result [OF Q]])
  fix t' :: factory_task and u :: "'w sys" assume u: "t' = task_now s t \<and> sys_db u = sys_db s"
  then have su: "on_db same_tasks s v" if "on_db same_tasks u v" for v
    using that by (simp add: on_db_def)
  show "wp (identity env f t' run) (\<lambda>found. wp (n t' found) (\<lambda>_ u'. newly_done s (task_id t) u' \<longrightarrow> G)
      (\<lambda>_ u'. newly_done s (task_id t) u' \<longrightarrow> G)) (\<lambda>_ u'. newly_done s (task_id t) u' \<longrightarrow> G) u"
  proof (rule wp_mono [OF wp_conj [OF identity_result [OF Q] wp_keeps [OF identity_alone [OF Q]]]])
    fix found :: "(feedback_identity \<times> pull_request) option" and v :: "'w sys"
    assume v: "(\<forall>i q. found = Some (i, q) \<longrightarrow> fid_task i = task_id t' \<and> fid_run i = run_id run \<and>
        delivers t' run (get_run (sys_db u) (run_id run)) \<and>
        (\<exists>r. latest_of (list_runs (sys_db u) (Some (task_id t'))) = Some r \<and> run_id r = run_id run)) \<and>
      on_db same_tasks u v"
    show "wp (n t' found) (\<lambda>_ u'. newly_done s (task_id t) u' \<longrightarrow> G)
        (\<lambda>_ u'. newly_done s (task_id t) u' \<longrightarrow> G) v"
    proof (cases found)
      case None
      then show ?thesis using none [of v] u su v by simp
    next
      case (Some x)
      then show ?thesis using some [of v "fst x" "snd x"] u su v by (cases x) simp
    qed
  qed (use su in \<open>auto dest: not_newly_done\<close>)
qed (auto dest: same_db_not_done)

lemma deliver_done:
  fixes s :: "'w sys"
  assumes Q: "quiet env" and G: "delivery_complete facts \<Longrightarrow> G" and "on_db same_tasks s0 s"
  shows "wp (if delivery_complete facts then deliver env f t i
      else if task_status t = Task_DONE then ret False
      else andthen (sync_card f i phase) (\<lambda>_. ret False))
    (\<lambda>_ u. newly_done s0 tid u \<longrightarrow> G) (\<lambda>_ u. newly_done s0 tid u \<longrightarrow> G) s"
proof (cases "delivery_complete facts")
  case True
  then show ?thesis using G by (simp add: wp_def split: prod.splits sum.splits)
next
  case False
  then show ?thesis
    using assms(3)
    by (auto simp: wp_ret dest: not_newly_done intro!: wp_alone_then [OF cards_alone(1) [OF Q]])
qed

lemma reconcile_done:
  fixes s :: "'w sys" and f :: "'w feedback" and t :: factory_task and run :: agent_run
  assumes Q: "quiet env"
  defines "G \<equiv> run_status run = Run_SUCCEEDED \<and> evidence_given f (task_id t) (run_id run) \<and>
    delivers (task_now s t) run (get_run (sys_db s) (run_id run))"
  shows "wp (reconcile env f t run) (\<lambda>_ s'. newly_done s (task_id t) s' \<longrightarrow> G)
    (\<lambda>_ s'. newly_done s (task_id t) s' \<longrightarrow> G) s" (is "wp _ (\<lambda>_ s'. ?N s' \<longrightarrow> _) _ s")
  unfolding reconcile_def
proof (rule wp_identified [OF Q])
  fix i :: feedback_identity and pr :: pull_request and u :: "'w sys"
  let ?t = "task_now s t"
  assume i: "on_db same_tasks s u" "fid_task i = task_id t" "fid_run i = run_id run"
    "delivers ?t run (get_run (sys_db s) (run_id run))"
  show "wp (case Some (i, pr) of None \<Rightarrow> ret False
      | Some (i, pr) \<Rightarrow>
        if run_status run \<noteq> Run_SUCCEEDED then ret False
        else andthen (external (fbk_evidence f i)) (\<lambda>facts.
          andthen (if dlv_merged facts then merged_now env pr else ret ()) (\<lambda>_.
          if delivery_complete facts then deliver env f ?t i
          else if task_status ?t = Task_DONE then ret False
          else andthen (sync_card f i (if dlv_merged facts then ''MERGED''
              else task_status_value (task_status ?t))) (\<lambda>_. ret False))))
      (\<lambda>_ s'. ?N s' \<longrightarrow> G) (\<lambda>_ s'. ?N s' \<longrightarrow> G) u"
  proof (cases "run_status run = Run_SUCCEEDED")
    case True
    have pull: "wp (external (fbk_evidence f i)) (\<lambda>facts v. fst (fbk_evidence f i (sys_world u)) = Inr facts \<and>
        on_db same_tasks s v) (\<lambda>_ v. on_db same_tasks s v) u"
      using i(1) by (auto simp: wp_external on_db_def split: prod.splits sum.splits)
    let ?decide = "\<lambda>facts. if delivery_complete facts then deliver env f ?t i
          else if task_status ?t = Task_DONE then ret False
          else andthen (sync_card f i (if dlv_merged facts then ''MERGED''
              else task_status_value (task_status ?t))) (\<lambda>_. ret False)"
    let ?rest = "\<lambda>facts. andthen (if dlv_merged facts then merged_now env pr else ret ()) (\<lambda>_. ?decide facts)"
    have rest: "wp (?rest facts) (\<lambda>_ s'. ?N s' \<longrightarrow> G) (\<lambda>_ s'. ?N s' \<longrightarrow> G) v"
      if "fst (fbk_evidence f i (sys_world u)) = Inr facts" "on_db same_tasks s v" for facts v
    proof (rule wp_alone_then)
      show "keeps (on_db same_tasks) (if dlv_merged facts then merged_now env pr else ret ())"
        by (intro tasks_alone_intros merged_now_alone [OF Q])
      have given: "delivery_complete facts \<Longrightarrow> G"
        using True that(1) i(2-4) by (auto simp: evidence_given_def G_def)
      show "wp (?decide facts) (\<lambda>_ s'. ?N s' \<longrightarrow> G) (\<lambda>_ s'. ?N s' \<longrightarrow> G) x"
        if "on_db same_tasks s x" for x
        by (rule deliver_done [OF Q given that])
    qed (rule that(2))
    have "wp (andthen (external (fbk_evidence f i)) ?rest) (\<lambda>_ s'. ?N s' \<longrightarrow> G) (\<lambda>_ s'. ?N s' \<longrightarrow> G) u"
      unfolding wp_andthen [of "external _"]
      by (rule wp_mono [OF pull]) (blast intro: rest dest: not_newly_done)+
    with True show ?thesis by simp
  qed (use i(1) in \<open>auto simp: wp_ret dest: not_newly_done\<close>)
qed (auto simp: wp_ret dest: not_newly_done)

text \<open>A closure of the issue, as the provider answered it.\<close>

definition closure_given :: "'w feedback \<Rightarrow> string \<Rightarrow> string \<Rightarrow> bool" where
  "closure_given f tid rid \<longleftrightarrow> (\<exists>(i :: feedback_identity) w state reason. closed_issue state reason \<and> fid_task i = tid \<and>
     fid_run i = rid \<and> fst (fbk_state f (fid_repository i) (fid_issue_number i) w) = Inr (state, reason))"

lemma issue_state_result:
  fixes s :: "'w sys"
  assumes "on_db same_tasks s0 s"
  shows "wp (issue_state f i) (\<lambda>(state, reason) u. on_db same_tasks s0 u \<and>
      (closed_issue state reason \<longrightarrow>
        fst (fbk_state f (fid_repository i) (fid_issue_number i) (sys_world s)) = Inr (state, reason)))
    (\<lambda>_ _. False) s"
  using assms
  by (auto simp: issue_state_def wp_simps closed_issue_def on_db_def split: prod.splits sum.splits)

lemma evidence_result:
  fixes s :: "'w sys"
  assumes "on_db same_tasks s0 s"
  shows "wp (external (fbk_evidence f i)) (\<lambda>facts u. on_db same_tasks s0 u \<and>
      fst (fbk_evidence f i (sys_world s)) = Inr facts) (\<lambda>_ u. on_db same_tasks s0 u) s"
  using assms by (auto simp: wp_external on_db_def split: prod.splits sum.splits)

lemma wp_known: "G \<Longrightarrow> wp m (\<lambda>_ u. N u \<longrightarrow> G) (\<lambda>_ u. N u \<longrightarrow> G) s"
  by (simp add: wp_def split: prod.splits sum.splits)

lemma close_external_done:
  fixes s :: "'w sys" and f :: "'w feedback" and t :: factory_task and tid rid :: string
  assumes Q: "quiet env" and "on_db same_tasks s0 s" "fid_task i = tid" "fid_run i = rid"
  defines "G \<equiv> evidence_given f tid rid \<or> closure_given f tid rid \<or> superseded t"
  shows "wp (close_external env f t i pr) (\<lambda>_ u. newly_done s0 tid u \<longrightarrow> G) (\<lambda>_ u. newly_done s0 tid u \<longrightarrow> G) s"
  unfolding close_external_def wp_andthen [of "issue_state f i"]
proof (rule wp_mono [OF issue_state_result [OF assms(2)]], clarify)
  fix state reason and u :: "'w sys"
  assume u: "on_db same_tasks s0 u" and closed: "closed_issue state reason \<longrightarrow>
    fst (fbk_state f (fid_repository i) (fid_issue_number i) (sys_world s)) = Inr (state, reason)"
  have given: G if "fst (fbk_evidence f i (sys_world u)) = Inr facts"
    "dlv_merged facts \<and> delivery_complete facts \<or> closed_issue state reason \<or> superseded t" for facts
    using that closed assms(3,4) unfolding G_def evidence_given_def closure_given_def by blast
  show "wp (andthen (external (fbk_evidence f i)) (\<lambda>facts.
      let delivered = dlv_merged facts \<and> delivery_complete facts in
      andthen (if dlv_merged facts \<and> task_status t = Task_WAITING_HUMAN then merged_now env pr else ret ()) (\<lambda>_.
      if \<not> delivered \<and> \<not> closed_issue state reason \<and> \<not> superseded t then ret False
      else andthen (if delivered then merged_now env pr else ret ()) (\<lambda>_.
        finish_external env f t i facts state reason))))
      (\<lambda>_ u. newly_done s0 tid u \<longrightarrow> G) (\<lambda>_ u. newly_done s0 tid u \<longrightarrow> G) u"
    unfolding wp_andthen [of "external (fbk_evidence f i)"] Let_def
  proof (rule wp_mono [OF evidence_result [OF u]])
    fix facts and v :: "'w sys"
    assume v: "on_db same_tasks s0 v \<and> fst (fbk_evidence f i (sys_world u)) = Inr facts"
    show "wp (andthen (if dlv_merged facts \<and> task_status t = Task_WAITING_HUMAN then merged_now env pr else ret ()) (\<lambda>_.
        if \<not> (dlv_merged facts \<and> delivery_complete facts) \<and> \<not> closed_issue state reason \<and> \<not> superseded t
        then ret False
        else andthen (if dlv_merged facts \<and> delivery_complete facts then merged_now env pr else ret ()) (\<lambda>_.
          finish_external env f t i facts state reason)))
        (\<lambda>_ u. newly_done s0 tid u \<longrightarrow> G) (\<lambda>_ u. newly_done s0 tid u \<longrightarrow> G) v"
      by (rule wp_alone_then [OF sys_tasks.keeps_if [OF merged_now_alone [OF Q] sys_tasks.keeps_ret]])
        (use v given in \<open>auto simp: wp_ret dest: not_newly_done intro: wp_known wp_trivial\<close>)
  qed (auto dest: not_newly_done)
qed simp

lemma reconcile_external_done:
  fixes s :: "'w sys" and f :: "'w feedback" and t :: factory_task and run :: agent_run
  assumes Q: "quiet env"
  defines "G \<equiv> run_status run = Run_SUCCEEDED \<and>
    (evidence_given f (task_id t) (run_id run) \<or> closure_given f (task_id t) (run_id run) \<or>
     superseded (task_now s t)) \<and> delivers (task_now s t) run (get_run (sys_db s) (run_id run))"
  shows "wp (reconcile_external env f t run) (\<lambda>_ s'. newly_done s (task_id t) s' \<longrightarrow> G)
    (\<lambda>_ s'. newly_done s (task_id t) s' \<longrightarrow> G) s"
proof (cases "run_status run = Run_SUCCEEDED")
  case False
  then show ?thesis
    unfolding reconcile_external_def wp_andthen [of "current_task env t"]
    by (intro wp_mono [OF current_task_result [OF Q]]) (auto simp: wp_ret dest: same_db_not_done)
next
  case True
  show ?thesis
    unfolding reconcile_external_def if_not_P [OF iffD2 [OF not_not True]]
  proof (rule wp_identified [OF Q])
    fix i :: feedback_identity and pr :: pull_request and u :: "'w sys"
    assume i: "on_db same_tasks s u" "fid_task i = task_id t" "fid_run i = run_id run"
      "delivers (task_now s t) run (get_run (sys_db s) (run_id run))"
    show "wp (case Some (i, pr) of None \<Rightarrow> ret False
        | Some (i, pr) \<Rightarrow> if task_status (task_now s t) \<in> open_statuses then ret False
            else close_external env f (task_now s t) i pr)
        (\<lambda>_ s'. newly_done s (task_id t) s' \<longrightarrow> G) (\<lambda>_ s'. newly_done s (task_id t) s' \<longrightarrow> G) u"
      using i True
      by (auto simp: wp_ret G_def dest: not_newly_done intro!: wp_mono [OF close_external_done [OF Q i(1-3)]])
  qed (auto simp: wp_ret dest: not_newly_done)
qed

end
