(* ===== verification/Json_Text.thy ===== *)
theory Json_Text
  imports Context_Pack
begin

text \<open>
  \<^verbatim>\<open>json.loads\<close> of the Python standard library, as the factory uses it on declarations and probe
  results: text to values, with the escapes, numbers and whitespace it accepts.  String values are
  lists of code points, since an escape may name any of them.  The depth limit of the interpreter
  is not modelled.
\<close>

section \<open>Values\<close>

datatype jvalue = JV_null | JV_bool bool | JV_number string | JV_string "nat list"
  | JV_array "jvalue list" | JV_object "(nat list \<times> jvalue) list"

definition points :: "string \<Rightarrow> nat list" where
  "points = map code_point"

definition json_space :: "char \<Rightarrow> bool" where
  "json_space c \<longleftrightarrow> c \<in> {CHR 0x20, CHR 0x09, CHR 0x0A, CHR 0x0D}"

definition skip :: "string \<Rightarrow> string" where
  "skip = dropWhile json_space"

section \<open>Strings\<close>

definition hex_point :: "nat \<Rightarrow> nat option" where
  "hex_point n = (if 48 \<le> n \<and> n \<le> 57 then Some (n - 48)
     else if 97 \<le> n \<and> n \<le> 102 then Some (n - 87)
     else if 65 \<le> n \<and> n \<le> 70 then Some (n - 55) else None)"

definition hex4 :: "char \<Rightarrow> char \<Rightarrow> char \<Rightarrow> char \<Rightarrow> nat option" where
  "hex4 a b c d = (case (hex_point (code_point a), hex_point (code_point b),
       hex_point (code_point c), hex_point (code_point d)) of
     (Some i, Some j, Some k, Some l) \<Rightarrow> Some (((i * 16 + j) * 16 + k) * 16 + l) | _ \<Rightarrow> None)"

definition escape_point :: "char \<Rightarrow> nat option" where
  "escape_point c = (if c \<in> {CHR 0x22, CHR 0x5C, CHR ''/''} then Some (code_point c)
     else if c = CHR ''n'' then Some 10 else if c = CHR ''r'' then Some 13
     else if c = CHR ''t'' then Some 9 else if c = CHR ''b'' then Some 8
     else if c = CHR ''f'' then Some 12 else None)"

definition cons_point :: "nat \<Rightarrow> (nat list \<times> string) option \<Rightarrow> (nat list \<times> string) option" where
  "cons_point n r = map_option (\<lambda>(ns, rest). (n # ns, rest)) r"

text \<open>The characters of a string up to its closing quote.\<close>

fun parse_chars :: "string \<Rightarrow> (nat list \<times> string) option" where
  "parse_chars [] = None"
| "parse_chars (c # cs) =
     (if c = CHR 0x22 then Some ([], cs)
      else if c = CHR 0x5C
      then (case cs of [] \<Rightarrow> None
        | e # es \<Rightarrow> if e = CHR ''u''
          then (case es of h # i # j # k # rest \<Rightarrow>
                 (case hex4 h i j k of None \<Rightarrow> None | Some n \<Rightarrow> cons_point n (parse_chars rest))
               | _ \<Rightarrow> None)
          else (case escape_point e of None \<Rightarrow> None | Some n \<Rightarrow> cons_point n (parse_chars es)))
      else if code_point c < 32 then None
      else cons_point (code_point c) (parse_chars cs))"

text \<open>Two escapes that are a surrogate pair are one code point.\<close>

fun join_surrogates :: "nat list \<Rightarrow> nat list" where
  "join_surrogates (h # l # ns) =
     (if 0xD800 \<le> h \<and> h \<le> 0xDBFF \<and> 0xDC00 \<le> l \<and> l \<le> 0xDFFF
      then (0x10000 + (h - 0xD800) * 0x400 + (l - 0xDC00)) # join_surrogates ns
      else h # join_surrogates (l # ns))"
| "join_surrogates ns = ns"

definition parse_string :: "string \<Rightarrow> (nat list \<times> string) option" where
  "parse_string s = map_option (\<lambda>(ns, rest). (join_surrogates ns, rest)) (parse_chars s)"

section \<open>Numbers\<close>

definition digits :: "string \<Rightarrow> string" where
  "digits = takeWhile is_digit"

text \<open>The limit on the digits of an integer, and the optional fraction and exponent.\<close>

definition MAX_INT_DIGITS :: nat where
  "MAX_INT_DIGITS = 4300"

definition fraction :: "string \<Rightarrow> string" where
  "fraction s = (case s of c # r \<Rightarrow> if c = CHR ''.'' \<and> digits r \<noteq> [] then c # digits r else [] | [] \<Rightarrow> [])"

definition exponent :: "string \<Rightarrow> string" where
  "exponent s = (case s of [] \<Rightarrow> []
     | e # r \<Rightarrow> if e \<notin> {CHR ''e'', CHR ''E''} then []
       else let sign = (case r of c # _ \<Rightarrow> if c \<in> {CHR ''+'', CHR ''-''} then [c] else [] | [] \<Rightarrow> []);
              ds = digits (drop (length sign) r)
            in if ds = [] then [] else e # sign @ ds)"

definition parse_number :: "string \<Rightarrow> (string \<times> string) option" where
  "parse_number s =
     (let sign = (if starts_with ''-'' s then ''-'' else []); t = drop (length sign) s;
          int = (case t of [] \<Rightarrow> [] | c # _ \<Rightarrow> if c = CHR ''0'' then [c] else digits t);
          u = drop (length int) t; frac = fraction u; expo = exponent (drop (length frac) u)
      in if int = [] \<or> frac = [] \<and> expo = [] \<and> MAX_INT_DIGITS < length int then None
         else Some (sign @ int @ frac @ expo, drop (length expo) (drop (length frac) u)))"

section \<open>Values\<close>

definition literals :: "(string \<times> jvalue) list" where
  "literals = [(''null'', JV_null), (''true'', JV_bool True), (''false'', JV_bool False),
     (''NaN'', JV_number ''NaN''), (''Infinity'', JV_number ''Infinity''),
     (''-Infinity'', JV_number ''-Infinity'')]"

definition parse_scalar :: "string \<Rightarrow> (jvalue \<times> string) option" where
  "parse_scalar s = (case find (\<lambda>(w, v). starts_with w s) literals of
       Some (w, v) \<Rightarrow> Some (v, drop (length w) s)
     | None \<Rightarrow> map_option (\<lambda>(t, rest). (JV_number t, rest)) (parse_number s))"

text \<open>Objects and arrays, with fuel for the nesting and the number of entries; every second call
  consumes a character, so twice the length of the text is enough (\<open>parse_fuel\<close>).\<close>

fun parse_value :: "nat \<Rightarrow> string \<Rightarrow> (jvalue \<times> string) option"
and parse_members :: "nat \<Rightarrow> string \<Rightarrow> ((nat list \<times> jvalue) list \<times> string) option"
and parse_elements :: "nat \<Rightarrow> string \<Rightarrow> (jvalue list \<times> string) option" where
  "parse_value 0 s = None"
| "parse_value (Suc n) s = (case s of [] \<Rightarrow> None
     | c # cs \<Rightarrow>
       if c = CHR 0x22 then map_option (\<lambda>(ns, rest). (JV_string ns, rest)) (parse_string cs)
       else if c = CHR ''{''
       then (if starts_with ''}'' (skip cs) then Some (JV_object [], drop 1 (skip cs))
         else map_option (\<lambda>(kvs, rest). (JV_object kvs, rest)) (parse_members n (skip cs)))
       else if c = CHR ''[''
       then (if starts_with '']'' (skip cs) then Some (JV_array [], drop 1 (skip cs))
         else map_option (\<lambda>(vs, rest). (JV_array vs, rest)) (parse_elements n (skip cs)))
       else parse_scalar s)"
| "parse_members 0 s = None"
| "parse_members (Suc n) s = (case s of [] \<Rightarrow> None
     | c # cs \<Rightarrow>
       if c \<noteq> CHR 0x22 then None
       else case parse_string cs of None \<Rightarrow> None
       | Some (k, r1) \<Rightarrow>
         if \<not> starts_with '':'' (skip r1) then None
         else case parse_value n (skip (drop 1 (skip r1))) of None \<Rightarrow> None
         | Some (v, r2) \<Rightarrow>
           if starts_with ''}'' (skip r2) then Some ([(k, v)], drop 1 (skip r2))
           else if starts_with '','' (skip r2)
           then map_option (\<lambda>(kvs, rest). ((k, v) # kvs, rest)) (parse_members n (skip (drop 1 (skip r2))))
           else None)"
| "parse_elements 0 s = None"
| "parse_elements (Suc n) s = (case parse_value n s of None \<Rightarrow> None
     | Some (v, r) \<Rightarrow>
       if starts_with '']'' (skip r) then Some ([v], drop 1 (skip r))
       else if starts_with '','' (skip r)
       then map_option (\<lambda>(vs, rest). (v # vs, rest)) (parse_elements n (skip (drop 1 (skip r))))
       else None)"

definition loads :: "string \<Rightarrow> jvalue option" where
  "loads s = (case parse_value (2 * length s + 1) (skip s) of None \<Rightarrow> None
     | Some (v, rest) \<Rightarrow> if skip rest = [] then Some v else None)"

text \<open>The entry of a dictionary: the last one wins.\<close>

definition entry :: "string \<Rightarrow> (nat list \<times> jvalue) list \<Rightarrow> jvalue option" where
  "entry k kvs = map_of (rev kvs) (points k)"

section \<open>Every parser consumes its text\<close>

lemma length_skip: "length (skip s) \<le> length s"
  by (simp add: skip_def length_dropWhile_le)

lemma parse_chars_shorter: "parse_chars s = Some (ns, r) \<Longrightarrow> length r < length s"
proof (induction s arbitrary: ns r rule: parse_chars.induct)
  case (2 c cs)
  show ?case
    using 2 by (fastforce simp: cons_point_def split: if_splits list.splits option.splits)
qed simp

lemma parse_string_shorter: "parse_string s = Some (ns, r) \<Longrightarrow> length r < length s"
  by (auto simp: parse_string_def dest: parse_chars_shorter)

lemma number_prefix:
  "length (if starts_with ''-'' s then ''-'' else []) \<le> length s"
  by (cases s) (auto simp: starts_with_def)

lemma parse_number_shorter: "parse_number s = Some (t, r) \<Longrightarrow> length r < length s"
  by (cases s) (auto simp: parse_number_def Let_def starts_with_def digits_def split: if_splits list.splits)

lemma parse_scalar_shorter: "parse_scalar s = Some (v, r) \<Longrightarrow> length r < length s"
  by (cases s) (auto simp: parse_scalar_def literals_def starts_with_def dest: parse_number_shorter split: if_splits)

lemma parse_shorter:
  "parse_value n s = Some (v, r) \<Longrightarrow> length r < length s"
  "parse_members n s = Some (kvs, r) \<Longrightarrow> length r < length s"
  "parse_elements n s = Some (vs, r) \<Longrightarrow> length r < length s"
proof (induction n s and n s and n s arbitrary: v r and kvs r and vs r
    rule: parse_value_parse_members_parse_elements.induct)
  case (2 n s)
  show ?case
  proof (cases s)
    case (Cons c cs)
    then show ?thesis
      using 2 length_skip [of cs]
      by (auto dest!: parse_scalar_shorter parse_string_shorter split: if_splits) fastforce+
  qed (use 2 in simp)
next
  case (4 n s)
  show ?case
  proof (cases s)
    case (Cons c cs)
    from 4(3) Cons obtain k r1 v r2 where p: "parse_string cs = Some (k, r1)" "c = CHR 0x22"
        "starts_with '':'' (skip r1)" "parse_value n (skip (drop 1 (skip r1))) = Some (v, r2)"
      by (auto split: if_splits option.splits)
    have l: "length r1 < length s" "length r2 < length s"
      using parse_string_shorter [OF p(1)] 4(1) [OF Cons _ p(1) _ _ p(4)] p(2,3) Cons
        length_skip [of "drop 1 (skip r1)"] length_skip [of r1] by auto
    show ?thesis
      using 4(3) p Cons l length_skip [of r2] length_skip [of "drop 1 (skip r2)"]
        4(2) [OF Cons _ p(1) _ _ p(4)]
      by (auto split: if_splits) fastforce
  qed (use 4 in simp)
next
  case (6 n s)
  from 6(3) obtain v r1 where p: "parse_value n s = Some (v, r1)" by (auto split: option.splits)
  show ?case
    using 6(3) p 6(1) [OF p] length_skip [of r1] length_skip [of "drop 1 (skip r1)"] 6(2) [OF p]
    by (auto split: if_splits) fastforce
qed simp_all

text \<open>More fuel than the text needs changes nothing.\<close>

lemma members_step:
  assumes v: "\<And>t. length t \<le> length s \<Longrightarrow> parse_value n t = parse_value m t"
    and k: "\<And>t. length t < length s \<Longrightarrow> parse_members n t = parse_members m t"
  shows "parse_members (Suc n) s = parse_members (Suc m) s"
proof (cases s)
  case (Cons c cs)
  have "parse_value n (skip (drop 1 (skip r1))) = parse_value m (skip (drop 1 (skip r1)))"
    if "parse_string cs = Some (k', r1)" for k' r1
    by (rule v) (use parse_string_shorter [OF that] Cons length_skip [of "drop 1 (skip r1)"] length_skip [of r1] in simp)
  moreover have "parse_members n (skip (drop 1 (skip r2))) = parse_members m (skip (drop 1 (skip r2)))"
    if "parse_string cs = Some (k', r1)" "parse_value m (skip (drop 1 (skip r1))) = Some (v', r2)" for k' r1 v' r2
    by (rule k) (use parse_string_shorter [OF that(1)] parse_shorter(1) [OF that(2)] Cons
        length_skip [of "drop 1 (skip r1)"] length_skip [of r1] length_skip [of "drop 1 (skip r2)"] length_skip [of r2] in simp)
  ultimately show ?thesis using Cons by (simp split: option.split)
qed simp

lemma elements_step:
  assumes v: "\<And>t. length t \<le> length s \<Longrightarrow> parse_value n t = parse_value m t"
    and k: "\<And>t. length t < length s \<Longrightarrow> parse_elements n t = parse_elements m t"
  shows "parse_elements (Suc n) s = parse_elements (Suc m) s"
proof -
  have "parse_elements n (skip (drop 1 (skip r))) = parse_elements m (skip (drop 1 (skip r)))"
    if "parse_value m s = Some (v', r)" for v' r
    by (rule k) (use parse_shorter(1) [OF that] length_skip [of "drop 1 (skip r)"] length_skip [of r] in simp)
  then show ?thesis using v [of s] by (simp split: option.split)
qed

lemma parse_fuel_eq:
  "(2 * length s + 1 \<le> n \<longrightarrow> 2 * length s + 1 \<le> m \<longrightarrow> parse_value n s = parse_value m s) \<and>
   (2 * length s + 2 \<le> n \<longrightarrow> 2 * length s + 2 \<le> m \<longrightarrow> parse_members n s = parse_members m s) \<and>
   (2 * length s + 2 \<le> n \<longrightarrow> 2 * length s + 2 \<le> m \<longrightarrow> parse_elements n s = parse_elements m s)"
proof (induction n arbitrary: m s)
  case (Suc n)
  show ?case
  proof (cases m)
    case (Suc k)
    have val: "parse_value (Suc n) s = parse_value (Suc k) s" if "2 * length s + 1 \<le> Suc n" "2 * length s + 1 \<le> Suc k"
    proof (cases s)
      case (Cons c cs)
      have "2 * length (skip cs) + 2 \<le> n" "2 * length (skip cs) + 2 \<le> k"
        using that Cons length_skip [of cs] by simp_all
      then have "parse_members n (skip cs) = parse_members k (skip cs)"
        "parse_elements n (skip cs) = parse_elements k (skip cs)"
        using Suc.IH [of "skip cs" k] by blast+
      then show ?thesis by (simp add: Cons)
    qed simp
    have members: "parse_members (Suc n) s = parse_members (Suc k) s"
      if "2 * length s + 2 \<le> Suc n" "2 * length s + 2 \<le> Suc k"
      by (rule members_step) (use Suc.IH that in auto)
    have elements: "parse_elements (Suc n) s = parse_elements (Suc k) s"
      if "2 * length s + 2 \<le> Suc n" "2 * length s + 2 \<le> Suc k"
      by (rule elements_step) (use Suc.IH that in auto)
    show ?thesis using val members elements Suc by blast
  qed simp
qed simp

lemma parse_fuel: "2 * length s + 1 \<le> n \<Longrightarrow> parse_value n s = parse_value (2 * length s + 1) s"
  by (rule parse_fuel_eq [THEN conjunct1, rule_format]) (assumption, rule order_refl)

section \<open>What \<^verbatim>\<open>json.dumps\<close> writes is read back\<close>

lemma code_point_less [simp]: "code_point c < 256"
  by (simp add: code_point_def)

lemma code_point_char [simp]: "n < 256 \<Longrightarrow> code_point (char_of n) = n"
  by (simp add: code_point_def)

lemma hex_point_digit: "n < 16 \<Longrightarrow> hex_point (code_point (hex_digit n)) = Some n"
  by (auto simp: hex_digit_def hex_point_def)

lemma inj_code_point: "inj code_point"
  by (simp add: inj_def code_point_def)

text \<open>The characters with an escape of their own.\<close>

lemma short_escapes:
  assumes "code_point c \<in> {34, 92, 10, 13, 9, 8, 12}"
  shows "c \<in> {CHR 0x22, CHR 0x5C, CHR 0x0A, CHR 0x0D, CHR 0x09, CHR 0x08, CHR 0x0C}"
proof -
  have pts: "code_point (CHR 0x22) = 34" "code_point (CHR 0x5C) = 92" "code_point (CHR 0x0A) = 10"
    "code_point (CHR 0x0D) = 13" "code_point (CHR 0x09) = 9" "code_point (CHR 0x08) = 8" "code_point (CHR 0x0C) = 12"
    by (simp_all add: code_point_def)
  show ?thesis
    using assms unfolding pts [symmetric] insert_iff inj_eq [OF inj_code_point] by blast
qed

lemma parse_json_char:
  "parse_chars (json_char c @ s) = cons_point (code_point c) (parse_chars s)"
proof -
  consider "code_point c \<in> {34, 92, 10, 13, 9, 8, 12}" | "32 \<le> code_point c" "code_point c \<le> 126" "code_point c \<notin> {34, 92}"
    | "code_point c \<notin> {34, 92, 10, 13, 9, 8, 12}" "\<not> (32 \<le> code_point c \<and> code_point c \<le> 126)"
    by auto
  then show ?thesis
  proof cases
    case 1
    from short_escapes [OF this] show ?thesis
      by (auto simp: json_char_def Let_def escape_point_def code_point_def)
  next
    case 2
    then have "c \<noteq> CHR 0x22" "c \<noteq> CHR 0x5C" by (auto simp: code_point_def)
    then show ?thesis using 2 by (simp add: json_char_def Let_def)
  next
    case 3
    let ?n = "code_point c"
    have "hex4 (CHR ''0'') (CHR ''0'') (hex_digit (?n div 16)) (hex_digit (?n mod 16)) = Some ?n"
    proof -
      have "hex_point (code_point (CHR ''0'')) = Some 0" by (simp add: hex_point_def code_point_def)
      moreover have "?n div 16 < 16" by (rule less_mult_imp_div_less) simp
      ultimately show ?thesis by (simp add: hex4_def hex_point_digit)
    qed
    moreover have "(32 \<le> ?n \<and> ?n \<le> 126) = False" using 3 by blast
    then have "json_char c = [CHR 0x5C, CHR ''u'', CHR ''0'', CHR ''0'', hex_digit (?n div 16), hex_digit (?n mod 16)]"
      using 3 by (simp add: json_char_def Let_def)
    ultimately show ?thesis by simp
  qed
qed

lemma parse_json_chars: "parse_chars (concat (map json_char t) @ CHR 0x22 # s) = Some (points t, s)"
  by (induction t) (simp_all add: parse_json_char cons_point_def points_def)

lemma join_surrogates_bmp: "list_all (\<lambda>n. n < 0xD800) ns \<Longrightarrow> join_surrogates ns = ns"
  by (induction ns rule: join_surrogates.induct) auto

lemma parse_string_json: "parse_string (concat (map json_char t) @ CHR 0x22 # s) = Some (points t, s)"
proof -
  have "code_point c < 0xD800" for c by (rule order.strict_trans [OF code_point_less]) simp
  then have "list_all (\<lambda>n. n < 0xD800) (points t)" by (simp add: points_def list_all_iff)
  then show ?thesis by (simp add: parse_string_def parse_json_chars join_surrogates_bmp)
qed

lemma parse_value_json:
  assumes "0 < n" shows "parse_value n (json_string t @ s) = Some (JV_string (points t), s)"
proof -
  obtain k where "n = Suc k" using assms by (cases n) auto
  then show ?thesis using parse_string_json [of t s] by (simp add: json_string_def)
qed

lemma skip_json_string [simp]: "skip (json_string t @ s) = json_string t @ s"
  by (simp add: skip_def json_string_def json_space_def)

lemma points_inj [simp]: "points s = points t \<longleftrightarrow> s = t"
  by (simp add: points_def inj_map_eq_map [OF inj_code_point])

end
