(* ===== verification/Operational_Policy.thy ===== *)
theory Operational_Policy
  imports Json_Text
begin

text \<open>
  \<^verbatim>\<open>domain/operational.py\<close>: the capabilities an operator grants, and the declaration of an operational
  issue.  A declaration is the one fenced block of the text, in JSON; it can only name a target or
  the fixed proof artifact.  The SHA-256 of the proof is a parameter.
\<close>

section \<open>Capabilities\<close>

datatype capability = Cap_SCRATCH | Cap_DATABASE_READONLY | Cap_DOCKER_INSPECT | Cap_SERVICE_HEALTH
  | Cap_BACKUP

record operational_policy =
  opp_enabled :: "capability set"
  opp_hosts :: "string set"
  opp_paths :: "string set"
  opp_commands :: "string set"
  opp_targets :: "string set"
  opp_docker_targets :: "string set"

definition default_operational_policy :: operational_policy where
  "default_operational_policy = \<lparr>opp_enabled = {Cap_SCRATCH}, opp_hosts = {}, opp_paths = {},
     opp_commands = {}, opp_targets = {}, opp_docker_targets = {}\<rparr>"

fun permits :: "operational_policy \<Rightarrow> capability \<Rightarrow> string \<Rightarrow> string \<Rightarrow> string \<Rightarrow> string \<Rightarrow> bool" where
  "permits p Cap_SCRATCH host path command target \<longleftrightarrow> Cap_SCRATCH \<in> opp_enabled p \<and>
     host = [] \<and> path = [] \<and> command = [] \<and> target = []"
| "permits p Cap_BACKUP host path command target \<longleftrightarrow> False"
| "permits p Cap_DATABASE_READONLY host path command target \<longleftrightarrow>
     Cap_DATABASE_READONLY \<in> opp_enabled p \<and> host \<noteq> [] \<and> path \<noteq> [] \<and> command \<noteq> [] \<and> target \<noteq> [] \<and>
     host = ''local'' \<and> command \<in> {''inspect'', ''read''} \<and> host \<in> opp_hosts p \<and>
     path \<in> opp_paths p \<and> command \<in> opp_commands p \<and> target \<in> opp_targets p"
| "permits p Cap_DOCKER_INSPECT host path command target \<longleftrightarrow>
     Cap_DOCKER_INSPECT \<in> opp_enabled p \<and> host \<noteq> [] \<and> path \<noteq> [] \<and> command \<noteq> [] \<and> target \<noteq> [] \<and>
     host = ''local'' \<and> path = ''docker-engine-api'' \<and> command = ''inspect'' \<and> host \<in> opp_hosts p \<and>
     path \<in> opp_paths p \<and> command \<in> opp_commands p \<and> target \<in> opp_docker_targets p"
| "permits p Cap_SERVICE_HEALTH host path command target \<longleftrightarrow>
     Cap_SERVICE_HEALTH \<in> opp_enabled p \<and> host \<noteq> [] \<and> path \<noteq> [] \<and> command \<noteq> [] \<and> target \<noteq> [] \<and>
     host = ''https'' \<and> command = ''get'' \<and> host \<in> opp_hosts p \<and> path \<in> opp_paths p \<and>
     command \<in> opp_commands p \<and> target \<in> opp_targets p"

section \<open>The fenced block\<close>

definition fence_open :: string where
  "fence_open = ''```factory-operational''"

definition fence_close :: string where
  "fence_close = CHR 0x0A # ''```''"

text \<open>\<open>(.*?)\n```\<close>: the text up to the first closing fence, and what follows it.\<close>

fun close_fence :: "string \<Rightarrow> (string \<times> string) option" where
  "close_fence [] = None"
| "close_fence (c # cs) =
     (if starts_with fence_close (c # cs) then Some ([], drop (length fence_close) (c # cs))
      else map_option (\<lambda>(b, rest). (c # b, rest)) (close_fence cs))"

text \<open>\<open>\s*\n\<close>, greedy: the last line end of the white space from which a closing fence is found.\<close>

fun open_fence :: "string \<Rightarrow> (string \<times> string) option" where
  "open_fence [] = None"
| "open_fence (c # cs) =
     (if \<not> is_space c then None
      else case open_fence cs of Some r \<Rightarrow> Some r
      | None \<Rightarrow> if c = CHR 0x0A then close_fence cs else None)"

definition block_at :: "string \<Rightarrow> (string \<times> string) option" where
  "block_at s = (if starts_with fence_open s then open_fence (drop (length fence_open) s) else None)"

lemma close_fence_shorter: "close_fence s = Some (b, r) \<Longrightarrow> length r < length s"
  by (induction s arbitrary: b) (fastforce simp: fence_close_def split: if_splits)+

lemma open_fence_shorter: "open_fence s = Some (b, r) \<Longrightarrow> length r < length s"
  by (induction s arbitrary: b) (fastforce split: if_splits option.splits dest: close_fence_shorter)+

lemma block_at_shorter: "block_at s = Some (b, r) \<Longrightarrow> length r < length s"
  by (auto simp: block_at_def split: if_splits dest!: open_fence_shorter)

text \<open>\<open>findall\<close>: the blocks from left to right, without overlap.\<close>

function blocks :: "string \<Rightarrow> string list" where
  "blocks s = (case s of [] \<Rightarrow> []
     | _ # cs \<Rightarrow> (case block_at s of Some (b, rest) \<Rightarrow> b # blocks rest | None \<Rightarrow> blocks cs))"
  by pat_completeness auto
termination
  by (relation "measure length") (auto dest: block_at_shorter)

declare blocks.simps [simp del]

section \<open>Declarations\<close>

text \<open>\<^verbatim>\<open>[A-Za-z0-9][A-Za-z0-9._-]{0,127}\<close>, full match, and neither \<open>.\<close> nor \<open>..\<close>, on a string value.\<close>

definition alnum_point :: "nat \<Rightarrow> bool" where
  "alnum_point n \<longleftrightarrow> 48 \<le> n \<and> n \<le> 57 \<or> 65 \<le> n \<and> n \<le> 90 \<or> 97 \<le> n \<and> n \<le> 122"

definition name_point :: "nat \<Rightarrow> bool" where
  "name_point n \<longleftrightarrow> alnum_point n \<or> n \<in> {45, 46, 95}"

definition safe_name :: "nat list \<Rightarrow> bool" where
  "safe_name ns \<longleftrightarrow> (case ns of [] \<Rightarrow> False
     | n # rest \<Rightarrow> alnum_point n \<and> length rest \<le> 127 \<and> list_all name_point rest) \<and>
     ns \<noteq> points ''.'' \<and> ns \<noteq> points ''..''"

definition text_of :: "nat list \<Rightarrow> string" where
  "text_of = map char_of"

text \<open>The value of the one block.\<close>

definition declared_value :: "string \<Rightarrow> (py_error, jvalue) outcome" where
  "declared_value body = (case blocks body of
       [b] \<Rightarrow> (case loads b of None \<Rightarrow> Inl (ValueError ''invalid operational declaration'') | Some v \<Rightarrow> Inr v)
     | _ \<Rightarrow> Inl (ValueError ''exactly one factory-operational block is required''))"

definition has_keys :: "string set \<Rightarrow> (nat list \<times> jvalue) list \<Rightarrow> bool" where
  "has_keys ks kvs \<longleftrightarrow> fst ` set kvs = points ` ks"

definition target_of :: "string \<Rightarrow> jvalue \<Rightarrow> string option" where
  "target_of mode v = (case v of
       JV_object kvs \<Rightarrow>
         if has_keys {''mode'', ''target_id''} kvs \<and> entry ''mode'' kvs = Some (JV_string (points mode))
         then (case entry ''target_id'' kvs of
             Some (JV_string ns) \<Rightarrow> if safe_name ns then Some (text_of ns) else None
           | _ \<Rightarrow> None)
         else None
     | _ \<Rightarrow> None)"

definition parse_target :: "string \<Rightarrow> string \<Rightarrow> (py_error, string) outcome" where
  "parse_target mode body = (case declared_value body of Inl e \<Rightarrow> Inl e
     | Inr v \<Rightarrow> (case target_of mode v of
         None \<Rightarrow> Inl (ValueError ''unsupported operational declaration'') | Some t \<Rightarrow> Inr t))"

definition parse_database_readonly :: "string \<Rightarrow> (py_error, string) outcome" where
  "parse_database_readonly = parse_target ''database_readonly''"

definition parse_service_health :: "string \<Rightarrow> (py_error, string) outcome" where
  "parse_service_health = parse_target ''service_health''"

definition parse_docker_inspect :: "string \<Rightarrow> (py_error, string) outcome" where
  "parse_docker_inspect = parse_target ''docker_inspect''"

section \<open>The scratch artifact\<close>

record scratch_artifact =
  art_name :: string
  art_payload_hex :: string
  art_sha256 :: string

definition artifact_size :: "scratch_artifact \<Rightarrow> nat" where
  "artifact_size a = length (art_payload_hex a) div 2"

definition PROOF_BYTES :: "nat list" where
  "PROOF_BYTES = points (''factory-operational-proof'' @ [CHR 0x0A])"

definition fromhex_space :: "nat \<Rightarrow> bool" where
  "fromhex_space n \<longleftrightarrow> n = 32 \<or> 9 \<le> n \<and> n \<le> 13"

text \<open>\<^verbatim>\<open>bytes.fromhex\<close> skips white space between bytes.\<close>

fun fromhex :: "nat list \<Rightarrow> nat list option" where
  "fromhex [] = Some []"
| "fromhex (a # ns) = (if fromhex_space a then fromhex ns
     else case ns of [] \<Rightarrow> None
     | b # rest \<Rightarrow> (case (hex_point a, hex_point b) of
         (Some i, Some j) \<Rightarrow> map_option ((#) (i * 16 + j)) (fromhex rest) | _ \<Rightarrow> None))"

definition lower_point :: "nat \<Rightarrow> nat" where
  "lower_point n = (if 65 \<le> n \<and> n \<le> 90 then n + 32 else n)"

definition sha_pattern :: "nat list \<Rightarrow> bool" where
  "sha_pattern ns \<longleftrightarrow> length ns = 64 \<and> list_all (\<lambda>n. 48 \<le> n \<and> n \<le> 57 \<or> 97 \<le> n \<and> n \<le> 102) ns"

definition scratch_keys :: "string set" where
  "scratch_keys = {''artifact'', ''mode'', ''payload_hex'', ''risk'', ''sha256''}"

definition string_value :: "jvalue option \<Rightarrow> nat list option" where
  "string_value v = (case v of Some (JV_string ns) \<Rightarrow> Some ns | _ \<Rightarrow> None)"

definition artifact_of :: "string \<Rightarrow> nat list option \<Rightarrow> nat list option \<Rightarrow> nat list option \<Rightarrow>
    (py_error, scratch_artifact) outcome" where
  "artifact_of sha nm payload digest =
     (case nm of None \<Rightarrow> Inl (ValueError ''artifact name is unsafe'')
      | Some name \<Rightarrow> if \<not> safe_name name then Inl (ValueError ''artifact name is unsafe'')
      else case payload of None \<Rightarrow> Inl (ValueError ''artifact payload must contain 1-4096 bytes'')
      | Some hex \<Rightarrow> if length hex < 2 \<or> 8192 < length hex
        then Inl (ValueError ''artifact payload must contain 1-4096 bytes'')
      else case fromhex hex of None \<Rightarrow> Inl (ValueError ''artifact payload must be hexadecimal'')
      | Some data \<Rightarrow> if data = [] \<or> length data * 2 \<noteq> length hex
        then Inl (ValueError ''artifact payload must be canonical hex'')
      else if data \<noteq> PROOF_BYTES
        then Inl (ValueError ''only the fixed non-secret proof payload is authorized'')
      else case digest of None \<Rightarrow> Inl (ValueError ''artifact SHA-256 is invalid'')
      | Some d \<Rightarrow> if \<not> sha_pattern d then Inl (ValueError ''artifact SHA-256 is invalid'')
      else if points sha \<noteq> d
        then Inl (ValueError ''artifact SHA-256 does not match the declared payload'')
      else Inr \<lparr>art_name = text_of name, art_payload_hex = text_of (map lower_point hex),
             art_sha256 = text_of d\<rparr>)"

text \<open>\<open>_parse_body\<close>; \<open>sha\<close> is the SHA-256 of the proof bytes.\<close>

definition parse_body :: "string \<Rightarrow> string \<Rightarrow> (py_error, scratch_artifact) outcome" where
  "parse_body sha body = (case declared_value body of Inl e \<Rightarrow> Inl e
     | Inr v \<Rightarrow> (case v of
         JV_object kvs \<Rightarrow>
           if \<not> has_keys scratch_keys kvs then Inl (ValueError ''unsupported operational declaration'')
           else if entry ''mode'' kvs \<noteq> Some (JV_string (points ''scratch_artifact'')) \<or>
               entry ''risk'' kvs \<noteq> Some (JV_string (points ''low''))
           then Inl (ValueError ''operational risk or mode is not authorized'')
           else artifact_of sha (string_value (entry ''artifact'' kvs))
             (string_value (entry ''payload_hex'' kvs)) (string_value (entry ''sha256'' kvs))
       | _ \<Rightarrow> Inl (ValueError ''unsupported operational declaration'')))"

definition parse_scratch_artifact :: "string \<Rightarrow> factory_task \<Rightarrow> (py_error, scratch_artifact) outcome" where
  "parse_scratch_artifact sha t = parse_body sha (task_body t)"

section \<open>Canonical text\<close>

text \<open>\<^verbatim>\<open>json.dumps(value, sort_keys=True)\<close> of string entries, the keys in order.\<close>

definition dumps :: "(string \<times> string) list \<Rightarrow> string" where
  "dumps kvs = ''{'' @ join '', '' (map (\<lambda>(k, v). json_string k @ '': '' @ json_string v) kvs) @ ''}''"

definition fenced :: "string \<Rightarrow> string" where
  "fenced s = fence_open @ [CHR 0x0A] @ s @ fence_close"

definition canonical_scratch_body :: "string \<Rightarrow> string \<Rightarrow> (py_error, string) outcome" where
  "canonical_scratch_body sha body = (case parse_body sha body of Inl e \<Rightarrow> Inl e
     | Inr a \<Rightarrow> Inr (fenced (dumps [(''artifact'', art_name a), (''mode'', ''scratch_artifact''),
         (''payload_hex'', art_payload_hex a), (''risk'', ''low''), (''sha256'', art_sha256 a)])))"

definition canonical_target :: "string \<Rightarrow> string \<Rightarrow> string" where
  "canonical_target mode target = fenced (dumps [(''mode'', mode), (''target_id'', target)])"

definition canonical_operational_body :: "string \<Rightarrow> string \<Rightarrow> (py_error, string) outcome" where
  "canonical_operational_body sha body =
     (case canonical_scratch_body sha body of Inr s \<Rightarrow> Inr s
      | Inl _ \<Rightarrow> (case parse_database_readonly body of Inr t \<Rightarrow> Inr (canonical_target ''database_readonly'' t)
      | Inl _ \<Rightarrow> (case parse_service_health body of Inr t \<Rightarrow> Inr (canonical_target ''service_health'' t)
      | Inl _ \<Rightarrow> (case parse_docker_inspect body of Inr t \<Rightarrow> Inr (canonical_target ''docker_inspect'' t)
      | Inl e \<Rightarrow> Inl e))))"

section \<open>Canonical text is read back\<close>

lemma scratch_target_keys: "scratch_keys \<noteq> {''mode'', ''target_id''}"
proof -
  have "''risk'' \<in> scratch_keys" "''risk'' \<notin> {''mode'', ''target_id''}" by (simp_all add: scratch_keys_def)
  then show ?thesis by metis
qed

subsection \<open>The fence\<close>

lemma close_fence_line: "CHR 0x0A \<notin> set s \<Longrightarrow> close_fence (s @ fence_close) = Some (s, [])"
  by (induction s) (auto simp: fence_close_def starts_with_def)

lemma blocks_fenced:
  assumes "s = CHR ''{'' # t" "CHR 0x0A \<notin> set s" shows "blocks (fenced s) = [s]"
proof -
  have brace: "\<not> is_space (CHR ''{'')" and nl: "is_space (CHR 0x0A)"
    by (simp_all add: is_space_def code_point_def)
  have "block_at (fenced s) = open_fence (CHR 0x0A # s @ fence_close)"
    by (simp add: block_at_def fenced_def starts_with_def)
  also have "\<dots> = Some (s, [])"
    using close_fence_line [OF assms(2)] assms(1) brace nl by simp
  finally have b: "block_at (fenced s) = Some (s, [])" .
  obtain x xs where "fenced s = x # xs" by (simp add: fenced_def fence_open_def)
  then show ?thesis using b blocks.simps [of "fenced s"] blocks.simps [of "[]"] by simp
qed

subsection \<open>The object\<close>

abbreviation member :: "string \<times> string \<Rightarrow> string" where
  "member \<equiv> \<lambda>(k, v). json_string k @ '': '' @ json_string v"

abbreviation member_value :: "string \<times> string \<Rightarrow> nat list \<times> jvalue" where
  "member_value \<equiv> \<lambda>(k, v). (points k, JV_string (points v))"

lemma json_char_line: "CHR 0x0A \<notin> set (json_char c)"
proof -
  have "hex_point (code_point (CHR 0x0A)) = None" by (simp add: hex_point_def code_point_def)
  then have digit: "CHR 0x0A \<noteq> hex_digit n" if "n < 16" for n
    using hex_point_digit [OF that] by auto
  have "code_point c div 16 < 16" by (rule less_mult_imp_div_less) simp
  then have "CHR 0x0A \<noteq> hex_digit (code_point c div 16)" "CHR 0x0A \<noteq> hex_digit (code_point c mod 16)"
    by (rule digit, intro digit) simp
  moreover have "c \<noteq> CHR 0x0A" if "32 \<le> code_point c" using that by (auto simp: code_point_def)
  ultimately show ?thesis by (auto simp: json_char_def Let_def)
qed

lemma json_string_line: "CHR 0x0A \<notin> set (json_string t)"
  using json_char_line by (auto simp: json_string_def)

lemma dumps_line: "CHR 0x0A \<notin> set (dumps kvs)"
proof -
  have "CHR 0x0A \<notin> set (join '', '' (map member kvs))"
    by (induction kvs rule: induct_list012) (auto simp: json_string_line)
  then show ?thesis by (simp add: dumps_def)
qed

lemma skip_space [simp]: "skip (CHR '' '' # s) = skip s"
  by (simp add: skip_def json_space_def)

lemma skip_stop [simp]:
  "skip (CHR '':'' # s) = CHR '':'' # s" "skip (CHR '','' # s) = CHR '','' # s"
  "skip (CHR ''}'' # s) = CHR ''}'' # s" "skip (CHR ''{'' # s) = CHR ''{'' # s" "skip [] = []"
  by (simp_all add: skip_def json_space_def)

lemma starts_with_char [simp]: "starts_with [c] (d # s) \<longleftrightarrow> d = c" "\<not> starts_with (c # p) []"
  by (simp_all add: starts_with_def)

lemma member_parsed:
  "parse_members (Suc n) (json_string k @ CHR '':'' # CHR '' '' # json_string v @ s) =
    (case parse_value n (json_string v @ s) of None \<Rightarrow> None
     | Some (x, r) \<Rightarrow>
       if starts_with ''}'' (skip r) then Some ([(points k, x)], drop 1 (skip r))
       else if starts_with '','' (skip r)
       then map_option (\<lambda>(kvs, rest). ((points k, x) # kvs, rest)) (parse_members n (skip (drop 1 (skip r))))
       else None)"
  using parse_string_json [of k "'': '' @ json_string v @ s"]
  by (simp add: json_string_def [of k])

lemma parse_members_dumps:
  "kvs \<noteq> [] \<Longrightarrow> length kvs < n \<Longrightarrow>
    parse_members n (join '', '' (map member kvs) @ CHR ''}'' # rest) = Some (map member_value kvs, rest)"
proof (induction kvs arbitrary: n rule: induct_list012)
  case (2 kv)
  then obtain k v m where "kv = (k, v)" "n = Suc m" "0 < m" by (cases kv; cases n) auto
  then show ?case by (simp add: member_parsed parse_value_json del: parse_members.simps parse_value.simps)
next
  case (3 kv kv' kvs)
  then obtain k v m where kv: "kv = (k, v)" and n: "n = Suc m" "0 < m" by (cases kv; cases n) auto
  have skip: "skip (join '', '' (map member (kv' # kvs)) @ CHR ''}'' # rest) =
      join '', '' (map member (kv' # kvs)) @ CHR ''}'' # rest"
    by (cases kv'; cases kvs) simp_all
  have "parse_members m (join '', '' (map member (kv' # kvs)) @ CHR ''}'' # rest) =
      Some (map member_value (kv' # kvs), rest)"
    by (rule "3.IH"(2)) (use "3.prems" n in auto)
  then show ?case using skip n(2) by (simp add: kv n(1) member_parsed parse_value_json del: parse_members.simps parse_value.simps)
qed simp

lemma length_join: "length kvs \<le> Suc (length (join '', '' (map member kvs)))"
  by (induction kvs rule: induct_list012) auto

lemma parse_object:
  "skip t = t \<Longrightarrow> \<not> starts_with ''}'' t \<Longrightarrow> parse_members m t = Some (kvs, r) \<Longrightarrow>
    parse_value (Suc m) (CHR ''{'' # t) = Some (JV_object kvs, r)"
  by simp

lemma loads_dumps: "kvs \<noteq> [] \<Longrightarrow> loads (dumps kvs) = Some (JV_object (map member_value kvs))"
proof -
  assume kvs: "kvs \<noteq> []"
  let ?m = "2 * length (dumps kvs)"
  have m: "length kvs < ?m" using length_join [of kvs] by (simp add: dumps_def)
  have first: "skip (join '', '' (map member kvs) @ ''}'') = join '', '' (map member kvs) @ ''}''"
    "\<not> starts_with ''}'' (join '', '' (map member kvs) @ ''}'')"
  proof -
    obtain k v rest where "kvs = (k, v) # rest" using kvs by (cases kvs) auto
    then obtain u where "join '', '' (map member kvs) @ ''}'' = json_string k @ u"
      by (cases rest) auto
    then show "skip (join '', '' (map member kvs) @ ''}'') = join '', '' (map member kvs) @ ''}''"
      "\<not> starts_with ''}'' (join '', '' (map member kvs) @ ''}'')"
      by (simp, simp add: json_string_def)
  qed
  have "parse_value (Suc ?m) (dumps kvs) = Some (JV_object (map member_value kvs), [])"
    using parse_object [OF first parse_members_dumps [OF kvs m]] unfolding dumps_def by (simp del: parse_value.simps parse_members.simps)
  moreover have "skip (dumps kvs) = dumps kvs" by (simp add: dumps_def)
  ultimately show ?thesis by (simp add: loads_def del: parse_value.simps)
qed

lemma declared_dumps:
  assumes "kvs \<noteq> []" shows "declared_value (fenced (dumps kvs)) = Inr (JV_object (map member_value kvs))"
proof -
  have "blocks (fenced (dumps kvs)) = [dumps kvs]"
    by (rule blocks_fenced [OF _ dumps_line]) (simp add: dumps_def)
  then show ?thesis by (simp add: declared_value_def loads_dumps [OF assms])
qed

subsection \<open>Values\<close>

lemma points_text: "list_all (\<lambda>n. n < 256) ns \<Longrightarrow> points (text_of ns) = ns"
  by (induction ns) (simp_all add: points_def text_of_def)

lemma name_bytes: "safe_name ns \<Longrightarrow> list_all (\<lambda>n. n < 256) ns"
  by (auto simp: safe_name_def alnum_point_def name_point_def list_all_iff split: list.splits)

lemma sha_bytes: "sha_pattern ns \<Longrightarrow> list_all (\<lambda>n. n < 256) ns"
  by (auto simp: sha_pattern_def list_all_iff)

lemma hex_point_small: "hex_point n = Some i \<Longrightarrow> n < 128"
  by (simp add: hex_point_def split: if_splits)

lemma fromhex_small: "fromhex ns = Some data \<Longrightarrow> list_all (\<lambda>n. n < 128) ns"
proof (induction ns arbitrary: data rule: fromhex.induct)
  case (2 a ns)
  have "a < 128" if "fromhex_space a" using that by (auto simp: fromhex_space_def)
  then show ?case using 2 by (auto split: if_splits list.splits option.splits dest: hex_point_small)
qed simp

lemma fromhex_bytes: "fromhex ns = Some data \<Longrightarrow> list_all (\<lambda>n. n < 256) (map lower_point ns)"
  by (drule fromhex_small) (auto simp: list_all_iff lower_point_def)

lemma fromhex_lower: "fromhex (map lower_point ns) = fromhex ns"
proof -
  have sp: "fromhex_space (lower_point n) = fromhex_space n" for n
    by (simp add: fromhex_space_def lower_point_def)
  have hx: "hex_point (lower_point n) = hex_point n" for n
    by (simp add: hex_point_def lower_point_def)
  show ?thesis
    by (induction ns rule: fromhex.induct) (auto simp: sp hx split: list.splits option.splits)
qed

lemma lower_lower: "map lower_point (map lower_point ns) = map lower_point ns"
  by (simp add: lower_point_def)

lemma text_points [simp]: "text_of (points s) = s"
  by (simp add: text_of_def points_def code_point_def o_def)

lemma has_keys_values: "has_keys ks (map member_value kvs) \<longleftrightarrow> fst ` set kvs = ks"
proof -
  have "fst ` set (map member_value kvs) = points ` (fst ` set kvs)" by force
  then show ?thesis
    unfolding has_keys_def using inj_image_eq_iff [of points] by (metis injI points_inj)
qed

lemma entry_values: "entry k (map member_value kvs) = map_option (\<lambda>v. JV_string (points v)) (map_of (rev kvs) k)"
proof -
  have "map_of (map member_value l) (points k) = map_option (\<lambda>v. JV_string (points v)) (map_of l k)" for l
    by (induction l) auto
  then show ?thesis by (simp only: entry_def rev_map)
qed

text \<open>A canonical target declaration, read by any of the parsers.\<close>

lemma parse_canonical_target:
  assumes "safe_name (points t)"
  shows "parse_target mode (canonical_target m t) = (if mode = m then Inr t
      else Inl (ValueError ''unsupported operational declaration''))"
    "parse_body sha (canonical_target m t) = Inl (ValueError ''unsupported operational declaration'')"
proof -
  have v: "declared_value (canonical_target m t) = Inr (JV_object (map member_value [(''mode'', m), (''target_id'', t)]))"
    unfolding canonical_target_def by (rule declared_dumps) simp
  have keys: "fst ` set [(''mode'', m), (''target_id'', t)] = {''mode'', ''target_id''}"
    "{''mode'', ''target_id''} \<noteq> scratch_keys"
    using scratch_target_keys by simp_all
  show "parse_target mode (canonical_target m t) = (if mode = m then Inr t
      else Inl (ValueError ''unsupported operational declaration''))"
    unfolding parse_target_def v target_of_def using assms
    by (simp add: has_keys_values entry_values del: list.map)
  show "parse_body sha (canonical_target m t) = Inl (ValueError ''unsupported operational declaration'')"
    unfolding parse_body_def v using keys(2) by (simp add: has_keys_values del: list.map)
qed

lemma parse_canonical_scratch:
  assumes "artifact_of sha (Some name) (Some hex) (Some d) = Inr a"
  shows "parse_body sha (fenced (dumps [(''artifact'', art_name a), (''mode'', ''scratch_artifact''),
         (''payload_hex'', art_payload_hex a), (''risk'', ''low''), (''sha256'', art_sha256 a)])) = Inr a"
    "parse_target mode (fenced (dumps [(''artifact'', art_name a), (''mode'', ''scratch_artifact''),
         (''payload_hex'', art_payload_hex a), (''risk'', ''low''), (''sha256'', art_sha256 a)])) =
       Inl (ValueError ''unsupported operational declaration'')"
proof -
  let ?kvs = "[(''artifact'', art_name a), (''mode'', ''scratch_artifact''),
         (''payload_hex'', art_payload_hex a), (''risk'', ''low''), (''sha256'', art_sha256 a)]"
  obtain data where f: "safe_name name" "fromhex hex = Some data" "sha_pattern d" "points sha = d"
      "2 \<le> length hex" "length hex \<le> 8192" "data = PROOF_BYTES" "length data * 2 = length hex"
    and a: "a = \<lparr>art_name = text_of name, art_payload_hex = text_of (map lower_point hex), art_sha256 = text_of d\<rparr>"
    using assms by (auto simp: artifact_of_def not_less split: option.splits if_splits)
  have bytes: "points (art_name a) = name" "points (art_payload_hex a) = map lower_point hex" "points (art_sha256 a) = d"
    using a points_text [OF name_bytes [OF f(1)]] points_text [OF fromhex_bytes [OF f(2)]]
      points_text [OF sha_bytes [OF f(3)]] by simp_all
  have "set (map fst ?kvs) = set [''artifact'', ''mode'', ''payload_hex'', ''risk'', ''sha256'']" by simp
  also have "\<dots> = scratch_keys" unfolding scratch_keys_def by (simp only: list.set)
  finally have keys: "fst ` set ?kvs = scratch_keys" "scratch_keys \<noteq> {''mode'', ''target_id''}"
    using scratch_target_keys by (simp_all only: set_map simp_thms)
  have v: "declared_value (fenced (dumps ?kvs)) = Inr (JV_object (map member_value ?kvs))"
    by (rule declared_dumps) simp
  have "artifact_of sha (Some name) (Some (map lower_point hex)) (Some d) = Inr a"
  proof -
    have "PROOF_BYTES \<noteq> []" by (simp add: PROOF_BYTES_def points_def)
    then show ?thesis using f by (simp add: artifact_of_def fromhex_lower lower_lower a del: map_map)
  qed
  then show "parse_body sha (fenced (dumps ?kvs)) = Inr a"
    unfolding parse_body_def v using keys(1)
    by (simp add: has_keys_values entry_values string_value_def bytes del: list.map)
  show "parse_target mode (fenced (dumps ?kvs)) = Inl (ValueError ''unsupported operational declaration'')"
    unfolding parse_target_def v target_of_def using keys by (simp add: has_keys_values del: list.map)
qed

section \<open>Canonical declarations\<close>

text \<open>What the four parsers make of a declaration.\<close>

definition readings :: "string \<Rightarrow> string \<Rightarrow> scratch_artifact option \<times> string option \<times> string option \<times> string option" where
  "readings sha body = (case parse_body sha body of Inl _ \<Rightarrow> None | Inr a \<Rightarrow> Some a,
     case parse_database_readonly body of Inl _ \<Rightarrow> None | Inr t \<Rightarrow> Some t,
     case parse_service_health body of Inl _ \<Rightarrow> None | Inr t \<Rightarrow> Some t,
     case parse_docker_inspect body of Inl _ \<Rightarrow> None | Inr t \<Rightarrow> Some t)"

lemmas target_parsers = parse_database_readonly_def parse_service_health_def parse_docker_inspect_def

lemma parse_target_Inr:
  assumes "parse_target mode body = Inr t"
  shows "safe_name (points t)" "mode' \<noteq> mode \<Longrightarrow> \<exists>e. parse_target mode' body = Inl e" "\<exists>e. parse_body sha body = Inl e"
proof -
  obtain kvs ns where v: "declared_value body = Inr (JV_object kvs)" "has_keys {''mode'', ''target_id''} kvs"
      "entry ''mode'' kvs = Some (JV_string (points mode))" and t: "safe_name ns" "t = text_of ns"
    using assms by (auto simp: parse_target_def target_of_def split: sum.splits option.splits jvalue.splits if_splits)
  show "safe_name (points t)" using t points_text [OF name_bytes [OF t(1)]] by simp
  show "mode' \<noteq> mode \<Longrightarrow> \<exists>e. parse_target mode' body = Inl e"
    using v by (auto simp: parse_target_def target_of_def)
  have "\<not> has_keys scratch_keys kvs"
    using v(2) scratch_target_keys inj_image_eq_iff [of points] unfolding has_keys_def
    by (metis injI points_inj)
  then show "\<exists>e. parse_body sha body = Inl e" using v(1) by (simp add: parse_body_def)
qed

lemma parse_body_Inr:
  assumes "parse_body sha body = Inr a"
  shows "\<exists>name hex d. artifact_of sha (Some name) (Some hex) (Some d) = Inr a"
    "\<exists>e. parse_target mode body = Inl e"
proof -
  obtain kvs where v: "declared_value body = Inr (JV_object kvs)" "has_keys scratch_keys kvs"
    and a: "artifact_of sha (string_value (entry ''artifact'' kvs))
       (string_value (entry ''payload_hex'' kvs)) (string_value (entry ''sha256'' kvs)) = Inr a"
    using assms by (auto simp: parse_body_def split: sum.splits jvalue.splits if_splits)
  show "\<exists>name hex d. artifact_of sha (Some name) (Some hex) (Some d) = Inr a"
  proof -
    have "nm \<noteq> None \<and> hex \<noteq> None \<and> d \<noteq> None" if "artifact_of sha nm hex d = Inr a" for nm hex d
      using that by (auto simp: artifact_of_def split: option.splits if_splits)
    from this [OF a] show ?thesis using a by (metis not_None_eq)
  qed
  have "\<not> has_keys {''mode'', ''target_id''} kvs"
    using v(2) scratch_target_keys inj_image_eq_iff [of points] unfolding has_keys_def
    by (metis injI points_inj)
  then show "\<exists>e. parse_target mode body = Inl e" using v(1) by (simp add: parse_target_def target_of_def)
qed

lemma mode_names: "''database_readonly'' \<noteq> ''service_health''" "''database_readonly'' \<noteq> ''docker_inspect''"
  "''service_health'' \<noteq> ''docker_inspect''"
  by simp_all

lemma canonical_cases:
  assumes "canonical_operational_body sha body = Inr c"
  obtains a where "parse_body sha body = Inr a" "c = fenced (dumps [(''artifact'', art_name a),
      (''mode'', ''scratch_artifact''), (''payload_hex'', art_payload_hex a), (''risk'', ''low''), (''sha256'', art_sha256 a)])"
  | mode t where "mode \<in> {''database_readonly'', ''service_health'', ''docker_inspect''}"
      "parse_target mode body = Inr t" "c = canonical_target mode t"
  using assms that
  by (auto simp: canonical_operational_body_def canonical_scratch_body_def target_parsers split: sum.splits)

lemma canonical_readings:
  assumes "canonical_operational_body sha body = Inr c"
  shows "readings sha c = readings sha body" "canonical_operational_body sha c = Inr c"
proof -
  have "readings sha c = readings sha body \<and> canonical_operational_body sha c = Inr c"
    using assms
  proof (cases rule: canonical_cases)
    case (1 a)
    from parse_body_Inr(1) [OF 1(1)] obtain name hex d where
      a: "artifact_of sha (Some name) (Some hex) (Some d) = Inr a" by blast
    obtain e where e: "\<And>mode. parse_target mode body = Inl (e mode)" using parse_body_Inr(2) [OF 1(1)] by metis
    show ?thesis
      using parse_canonical_scratch [OF a] 1 e
      by (simp add: readings_def target_parsers canonical_operational_body_def canonical_scratch_body_def)
  next
    case (2 mode t)
    note p = parse_canonical_target [OF parse_target_Inr(1) [OF 2(2)]]
    obtain e f where e: "\<And>mode'. mode' \<noteq> mode \<Longrightarrow> parse_target mode' body = Inl (e mode')" "parse_body sha body = Inl f"
      using parse_target_Inr(2,3) [OF 2(2)] by metis
    show ?thesis
      using 2(1) p e 2(2,3)
      by (auto simp: readings_def target_parsers canonical_operational_body_def canonical_scratch_body_def)
  qed
  then show "readings sha c = readings sha body" "canonical_operational_body sha c = Inr c" by simp_all
qed

end
