(* ===== verification/Status_Service.thy ===== *)
theory Status_Service
  imports Operational_Policy Tracking_Facts
begin

text \<open>
  \<^verbatim>\<open>StatusService\<close> (\<^verbatim>\<open>status.py\<close>), the operator's view of a task, and \<^verbatim>\<open>StatusEventPublisher\<close>
  (\<^verbatim>\<open>status_events.py\<close>), which delivers the queued transitions.  The view shows digests, allowlisted
  labels and fixed sentences only; SHA-256 is a parameter, the channels are ports.
\<close>

section \<open>Texts\<close>

subsection \<open>\<^verbatim>\<open>datetime.isoformat\<close> in UTC\<close>

text \<open>Year, month and day of a day number counted from 1970-01-01.\<close>

definition civil :: "int \<Rightarrow> int \<times> int \<times> int" where
  "civil days = (let z = days + 719468; era = z div 146097; doe = z mod 146097;
     yoe = (doe - doe div 1460 + doe div 36524 - doe div 146096) div 365;
     doy = doe - (365 * yoe + yoe div 4 - yoe div 100); mp = (5 * doy + 2) div 153;
     m = (if mp < 10 then mp + 3 else mp - 9)
   in (yoe + era * 400 + (if m \<le> 2 then 1 else 0), m, doy - (153 * mp + 2) div 5 + 1))"

definition padded :: "nat \<Rightarrow> int \<Rightarrow> string" where
  "padded width n = (let s = decimal_int n in replicate (width - length s) (CHR ''0'') @ s)"

definition iso :: "int \<Rightarrow> string" where
  "iso t = (let secs = t div 1000000; micros = t mod 1000000; s = secs mod 86400 in
     case civil (secs div 86400) of (y, m, d) \<Rightarrow>
       padded 4 y @ ''-'' @ padded 2 m @ ''-'' @ padded 2 d @ ''T'' @ padded 2 (s div 3600) @ '':'' @
       padded 2 (s div 60 mod 60) @ '':'' @ padded 2 (s mod 60) @
       (if micros = 0 then [] else ''.'' @ padded 6 micros) @ ''+00:00'')"

subsection \<open>\<^verbatim>\<open>urllib.parse.quote\<close> with \<open>/\<close> safe\<close>

definition upper_hex :: "nat \<Rightarrow> char" where
  "upper_hex n = char_of (if n < 10 then 48 + n else 55 + n)"

definition percent :: "nat \<Rightarrow> string" where
  "percent b = [CHR ''%'', upper_hex (b div 16), upper_hex (b mod 16)]"

definition quote_char :: "char \<Rightarrow> string" where
  "quote_char c = (let n = code_point c in
     if is_lower c \<or> is_upper c \<or> is_digit c \<or> c \<in> set ''_.-~/'' then [c]
     else if n < 128 then percent n else percent (192 + n div 64) @ percent (128 + n mod 64))"

definition quote :: "string \<Rightarrow> string" where
  "quote s = concat (map quote_char s)"

subsection \<open>Labels\<close>

definition label_char :: "char \<Rightarrow> bool" where
  "label_char c \<longleftrightarrow> is_lower c \<or> is_upper c \<or> is_digit c \<or> c \<in> set ''_.-''"

text \<open>\<^verbatim>\<open>[A-Za-z0-9_.-]{1,64}\<close>, full match.\<close>

definition safe_label :: "string \<Rightarrow> bool" where
  "safe_label s \<longleftrightarrow> 1 \<le> length s \<and> length s \<le> 64 \<and> list_all label_char s"

definition gate_details :: "string set" where
  "gate_details = {''timeout'', ''spawn_error'', ''redacted'', ''runner_error'', ''runner_mismatch'',
     ''no_workspace'', ''workspace repair unavailable'', ''workspace identity mismatch'',
     ''workspace repair failed'', ''workspace inspection failed'', ''workspace changed during validation''}"

definition gate_text :: "quality_gate \<Rightarrow> string" where
  "gate_text g = (let name = (if safe_label (gate_name g) then gate_name g else ''check'');
       detail = (case gate_detail g of None \<Rightarrow> [] | Some d \<Rightarrow> d);
       shown = (if safe_gate_detail detail \<or> detail \<in> gate_details then detail else [])
     in name @ '': '' @ gate_status_value (gate_status g) @ '' ('' @
        (if gate_required g then ''required'' else ''optional'') @ '')'' @
        (if shown = [] then [] else '' ('' @ shown @ '')''))"

definition gate_texts :: "agent_run option \<Rightarrow> string list" where
  "gate_texts run = (case run of None \<Rightarrow> [] | Some r \<Rightarrow> map gate_text (take 40 (run_gates r)))"

text \<open>\<^verbatim>\<open>[A-Za-z0-9 _.-]{1,80}\<close>, full match.\<close>

definition safe_reason :: "string \<Rightarrow> bool" where
  "safe_reason s \<longleftrightarrow> 1 \<le> length s \<and> length s \<le> 80 \<and> list_all (\<lambda>c. label_char c \<or> c = CHR '' '') s"

definition safe_blocked_reason :: "string option \<Rightarrow> string option" where
  "safe_blocked_reason reason = (case reason of None \<Rightarrow> None
     | Some s \<Rightarrow>
       if s = ''security review blocked publication'' then Some ''Security review requires operator attention''
       else if s = ''pull request closed without merge; human review required''
         then Some ''Pull request closed without merge''
       else if s = ''security review unavailable'' then Some ''Security review could not be completed''
       else if safe_reason s then Some s
       else if s = [] then None else Some ''Blocked; inspect the task record'')"

definition action_for :: "string \<Rightarrow> string option \<Rightarrow> bool \<Rightarrow> string option" where
  "action_for phase reason failed_gates =
     (if phase = ''WAITING_HUMAN'' then Some ''Review the pull request''
      else if phase = ''STALLED'' then Some ''Check worker liveness''
      else if reason \<noteq> None \<and> reason \<noteq> Some [] then Some ''Review the blocking reason''
      else if phase = ''READY'' \<and> failed_gates then Some ''QA rework queued''
      else if phase = ''FAILED'' then Some ''Review the failed run'' else None)"

text \<open>The exit code in the summary of a scratch artifact: the text and the rest.\<close>

definition exit_code :: "string \<Rightarrow> (string \<times> string) option" where
  "exit_code s =
     (if starts_with ''None'' s then Some (''None'', drop 4 s)
      else let sign = (if starts_with ''-'' s then ''-'' else []); ds = digits (drop (length sign) s) in
        if 1 \<le> length ds \<and> length ds \<le> 3
        then Some (sign @ ds, drop (length sign + length ds) s) else None)"

definition byte_count :: "string \<Rightarrow> string \<Rightarrow> string option" where
  "byte_count key s = (if \<not> starts_with key s then None
     else let ds = digits (drop (length key) s) in
       if 1 \<le> length ds \<and> length ds \<le> 7 then Some (drop (length key + length ds) s) else None)"

definition scratch_exit :: "string \<Rightarrow> string option" where
  "scratch_exit s = (let key = ''action=scratch_artifact; exit_code='' in
     if \<not> starts_with key s then None
     else case exit_code (drop (length key) s) of None \<Rightarrow> None
     | Some (code, r) \<Rightarrow> (case byte_count ''; stdout_bytes='' r of None \<Rightarrow> None
       | Some r2 \<Rightarrow> if byte_count ''; stderr_bytes='' r2 = Some [] then Some code else None))"

definition evidence_for :: "factory_task \<Rightarrow> agent_run option \<Rightarrow> string \<Rightarrow> string option" where
  "evidence_for t run phase =
     (if phase = ''STALLED'' then Some ''No verified heartbeat within the configured threshold''
      else if phase = ''FAILED''
      then (case run of None \<Rightarrow> Some ''Task failed''
        | Some r \<Rightarrow> if run_status r \<noteq> Run_FAILED then Some ''Task failed''
          else if run_summary r = Some ''action=scratch_artifact; dispatch_failed''
          then Some ''Operational agent dispatch failed''
          else (case run_summary r of None \<Rightarrow> Some ''Agent reported failure''
            | Some s \<Rightarrow> (case scratch_exit s of None \<Rightarrow> Some ''Agent reported failure''
              | Some code \<Rightarrow> Some (''Operational agent exit code: '' @ code))))
      else let failed = (case run of None \<Rightarrow> 0 | Some r \<Rightarrow> length (filter is_blocking (run_gates r))) in
        if phase \<in> {''BLOCKED'', ''VALIDATING'', ''READY''} \<and> 0 < failed
        then Some (decimal failed @ '' required check(s) did not pass'')
        else if phase = ''DONE''
        then Some (if task_kind t = CODE then ''Human-confirmed PR merge'' else ''Accepted outcome'')
        else None)"

section \<open>The view of a task\<close>

record snapshot =
  snp_phase :: string
  snp_task :: "string option"
  snp_project :: "string option"
  snp_repository :: "string option"
  snp_issue_url :: "string option"
  snp_run :: "string option"
  snp_agent :: "string option"
  snp_workspace :: "string option"
  snp_branch :: "string option"
  snp_started :: "string option"
  snp_heartbeat :: "string option"
  snp_agent_heartbeat :: "string option"
  snp_liveness :: "string option"
  snp_transition :: "string option"
  snp_finished :: "string option"
  snp_pr_url :: "string option"
  snp_commit :: "string option"
  snp_blocked :: "string option"
  snp_action :: "string option"
  snp_evidence :: "string option"
  snp_gates :: "string list"
  snp_previous :: "string list"
  snp_history :: "string list"

definition idle :: snapshot where
  "idle = \<lparr>snp_phase = ''IDLE'', snp_task = None, snp_project = None, snp_repository = None,
     snp_issue_url = None, snp_run = None, snp_agent = None, snp_workspace = None, snp_branch = None,
     snp_started = None, snp_heartbeat = None, snp_agent_heartbeat = None, snp_liveness = None,
     snp_transition = None, snp_finished = None, snp_pr_url = None, snp_commit = None,
     snp_blocked = None, snp_action = None, snp_evidence = None, snp_gates = [], snp_previous = [],
     snp_history = []\<rparr>"

record status_view =
  stv_stale_after :: int
  stv_sha :: "string \<Rightarrow> string"

definition make_status_view :: "(string \<Rightarrow> string) \<Rightarrow> int \<Rightarrow> int \<Rightarrow> (py_error, status_view) outcome" where
  "make_status_view sha interval missed =
     (if interval \<le> 0 \<or> missed < 1
      then Inl (ValueError ''heartbeat interval and missed threshold must be positive'')
      else Inr \<lparr>stv_stale_after = interval * missed, stv_sha = sha\<rparr>)"

definition short_id :: "status_view \<Rightarrow> string \<Rightarrow> string" where
  "short_id sv rid = take 12 (stv_sha sv rid)"

definition agent_liveness :: "status_view \<Rightarrow> int \<Rightarrow> agent_run option \<Rightarrow> string option" where
  "agent_liveness sv now run = (case run of None \<Rightarrow> None
     | Some r \<Rightarrow> if run_adapter r \<noteq> CODEX then None
       else if is_terminal r then Some ''stopped''
       else (case run_agent_heartbeat r of None \<Rightarrow> Some ''unknown''
         | Some b \<Rightarrow> Some (if stv_stale_after sv < now - b then ''stalled'' else ''alive'')))"

definition phase_of :: "status_view \<Rightarrow> int \<Rightarrow> factory_task \<Rightarrow> agent_run option \<Rightarrow> string" where
  "phase_of sv now t run =
     (if task_status t = Task_RUNNING \<and>
         (case run of None \<Rightarrow> False | Some r \<Rightarrow> \<not> is_terminal r \<and>
           (case (case run_last_heartbeat r of None \<Rightarrow> run_started_at r | Some b \<Rightarrow> Some b) of
              None \<Rightarrow> False | Some b \<Rightarrow> stv_stale_after sv < now - b))
      then ''STALLED'' else task_status_value (task_status t))"

definition failed_gates_of :: "agent_run list \<Rightarrow> bool" where
  "failed_gates_of runs \<longleftrightarrow> runs \<noteq> [] \<and> validation_outcome (last runs) = GATES_FAILED"

definition latest_failed_gates :: "env \<Rightarrow> string \<Rightarrow> ('w, bool) call" where
  "latest_failed_gates env tid = db_read env (\<lambda>d. failed_gates_of (list_runs d (Some tid)))"

text \<open>The pull request of a run, looked up by run and then by branch.\<close>

definition run_pull_request :: "env \<Rightarrow> agent_run \<Rightarrow> ('w, pull_request option) call" where
  "run_pull_request env run =
     andthen (db_read env (\<lambda>d. get_for_run d (run_id run))) (\<lambda>pr.
     case (pr, run_workspace run) of
       (None, Some w) \<Rightarrow> db_read env (\<lambda>d. find_by_branch d (ws_repository w) (ws_branch w))
     | _ \<Rightarrow> ret pr)"

definition pr_link :: "agent_run \<Rightarrow> pull_request option \<Rightarrow> string option" where
  "pr_link run pr = (case pr of None \<Rightarrow> None
     | Some p \<Rightarrow> if pr_task_id p \<noteq> Some (run_task_id run) then None
       else (case pr_number p of None \<Rightarrow> None
         | Some n \<Rightarrow> if n \<le> 0 then None
           else Some (''https://github.com/'' @ quote (pr_repository p) @ ''/pull/'' @ decimal_int n)))"

definition hex_char :: "char \<Rightarrow> bool" where
  "hex_char c \<longleftrightarrow> is_digit c \<or> c \<in> set ''abcdefABCDEF''"

definition safe_commit :: "agent_run \<Rightarrow> pull_request option \<Rightarrow> string option" where
  "safe_commit run pr = (case pr of None \<Rightarrow> None
     | Some p \<Rightarrow> if pr_task_id p \<noteq> Some (run_task_id run) then None
       else (case pr_commit_sha p of None \<Rightarrow> None
         | Some s \<Rightarrow> if 40 \<le> length s \<and> length s \<le> 64 \<and> list_all hex_char s then Some s else None))"

definition issue_link :: "factory_task \<Rightarrow> string option" where
  "issue_link t = (case task_source t of None \<Rightarrow> None
     | Some s \<Rightarrow> if src_provider s \<noteq> ''github'' then None
       else Some (''https://github.com/'' @ quote (src_repository s) @ ''/issues/'' @ decimal_int (src_issue_number s)))"

fun agent_kind_value :: "agent_kind \<Rightarrow> string" where
  "agent_kind_value CODEX = ''CODEX''"
| "agent_kind_value OPENHANDS = ''OPENHANDS''"
| "agent_kind_value OTHER = ''OTHER''"

text \<open>The runs before the last one, at most five.\<close>

definition earlier_runs :: "agent_run list \<Rightarrow> agent_run list" where
  "earlier_runs runs = drop (length runs - 6) (butlast runs)"

definition view_of :: "status_view \<Rightarrow> int \<Rightarrow> factory_task \<Rightarrow> agent_run list \<Rightarrow> task_transition list \<Rightarrow>
    string option \<Rightarrow> bool \<Rightarrow> string option \<Rightarrow> snapshot" where
  "view_of sv now t runs trs url failed sha =
     (let run = (if runs = [] then None else Some (last runs));
          changed = (if trs = [] then None else Some (tt_occurred_at (last trs)));
          phase = phase_of sv now t run; blocked = safe_blocked_reason (task_blocked_reason t) in
      \<lparr>snp_phase = phase, snp_task = Some (task_id t), snp_project = Some (task_project t),
       snp_repository = Some (task_repository t), snp_issue_url = issue_link t,
       snp_run = map_option (\<lambda>r. short_id sv (run_id r)) run,
       snp_agent = map_option (\<lambda>r. agent_kind_value (run_adapter r)) run,
       snp_workspace = map_option ws_id (Option.bind run run_workspace),
       snp_branch = map_option ws_branch (Option.bind run run_workspace),
       snp_started = map_option iso (Option.bind run run_started_at),
       snp_heartbeat = map_option iso (Option.bind run run_last_heartbeat),
       snp_agent_heartbeat = map_option iso (Option.bind run run_agent_heartbeat),
       snp_liveness = agent_liveness sv now run, snp_transition = map_option iso changed,
       snp_finished = map_option iso
         (if task_status t \<in> {Task_DONE, Task_FAILED, Task_CANCELLED} \<and> changed \<noteq> None then changed
          else Option.bind run run_finished_at),
       snp_pr_url = url, snp_commit = sha, snp_blocked = blocked,
       snp_action = action_for phase blocked failed, snp_evidence = evidence_for t run phase,
       snp_gates = gate_texts run,
       snp_previous = concat (map (\<lambda>r. map (\<lambda>g. ''Run '' @ short_id sv (run_id r) @ '': '' @ g)
         (gate_texts (Some r))) (earlier_runs runs)),
       snp_history = map (\<lambda>x. iso (tt_occurred_at x) @ '' '' @ task_status_value (tt_to x)) trs\<rparr>)"

definition for_task :: "env \<Rightarrow> status_view \<Rightarrow> string \<Rightarrow> ('w, snapshot) call" where
  "for_task env sv tid =
     andthen (tasks_get env tid) (\<lambda>found. case found of None \<Rightarrow> raise (KeyError tid)
     | Some t \<Rightarrow>
       andthen (db_read env (\<lambda>d. list_runs d (Some tid))) (\<lambda>runs.
       andthen (db_read env (\<lambda>d. let h = history d tid in drop (length h - 6) h)) (\<lambda>trs.
       andthen (clock env) (\<lambda>now.
       andthen (if runs = [] then ret None
         else andthen (run_pull_request env (last runs)) (\<lambda>pr. ret (pr_link (last runs) pr))) (\<lambda>url.
       andthen (latest_failed_gates env (task_id t)) (\<lambda>failed.
       andthen (if runs = [] then ret None
         else andthen (run_pull_request env (last runs)) (\<lambda>pr. ret (safe_commit (last runs) pr))) (\<lambda>sha.
       ret (view_of sv now t runs trs url failed sha))))))))"

section \<open>The current task\<close>

definition active_priority :: "task_status \<Rightarrow> nat option" where
  "active_priority st = (if st = Task_RUNNING then Some 0 else if st = Task_VALIDATING then Some 1
     else if st = Task_PR_OPEN then Some 2 else if st = Task_WAITING_HUMAN then Some 3
     else if st = Task_CLAIMED then Some 4 else None)"

definition rank :: "factory_task \<Rightarrow> nat \<times> int" where
  "rank t = ((case active_priority (task_status t) of None \<Rightarrow> 4 | Some p \<Rightarrow> p), - task_updated_at t)"

text \<open>\<open>min\<close> with a key: the first of the least.\<close>

fun first_min :: "('a \<Rightarrow> 'b :: linorder) \<Rightarrow> 'a \<Rightarrow> 'a list \<Rightarrow> 'a" where
  "first_min key best [] = best"
| "first_min key best (x # xs) = first_min key (if key x < key best then x else best) xs"

definition active_tasks :: "env \<Rightarrow> factory_task list \<Rightarrow> ('w, factory_task list) call" where
  "active_tasks env tasks = each (\<lambda>t acc.
     if active_priority (task_status t) \<noteq> None then ret (acc @ [t])
     else if task_status t = Task_READY
     then andthen (latest_failed_gates env (task_id t)) (\<lambda>failed. ret (if failed then acc @ [t] else acc))
     else ret acc) tasks []"

definition current :: "env \<Rightarrow> status_view \<Rightarrow> ('w, snapshot) call" where
  "current env sv =
     andthen (db_read env (\<lambda>d. list_tasks d None)) (\<lambda>tasks.
     if tasks = [] then ret idle
     else andthen (active_tasks env tasks) (\<lambda>active.
       if active \<noteq> [] then for_task env sv (task_id (first_min rank (hd active) (tl active)))
       else let t = first_min (\<lambda>t. - task_updated_at t) (hd tasks) (tl tasks) in
         if task_status t \<in> {Task_READY, Task_DISCOVERED} then ret idle else for_task env sv (task_id t)))"

section \<open>Delivery of events\<close>

definition alert_phases :: "string set" where
  "alert_phases = {''WAITING_HUMAN'', ''FAILED'', ''STALLED'', ''DONE''}"

record 'w publisher =
  spb_view :: status_view
  spb_sync :: "snapshot \<Rightarrow> ('w, unit) port"
  spb_alert :: "(snapshot \<Rightarrow> ('w, unit) port) option"

definition observe_snapshot :: "env \<Rightarrow> snapshot \<Rightarrow> ('w, unit) call" where
  "observe_snapshot env snp = (case (snp_task snp, snp_run snp) of
       (Some tid, Some rid) \<Rightarrow>
         if snp_phase snp = ''STALLED''
         then db_write env (\<lambda>now ids. queue_observation now
           (stall_event rid (snp_heartbeat snp) (snp_started snp)) tid (snp_phase snp))
         else (case snp_heartbeat snp of
             Some beat \<Rightarrow> if snp_phase snp \<noteq> ''RUNNING'' then ret ()
               else andthen (db_read env (was_stalled tid rid)) (\<lambda>stalled.
                 if \<not> stalled then ret ()
                 else db_write env (\<lambda>now ids. queue_observation now
                   (''recovered:'' @ rid @ '':'' @ beat) tid (snp_phase snp)))
           | None \<Rightarrow> ret ())
     | _ \<Rightarrow> ret ())"

definition mark_all :: "env \<Rightarrow> string \<Rightarrow> (string \<times> string) list \<Rightarrow> ('w, unit) call" where
  "mark_all env tid queue = each (\<lambda>(event, queued) _.
     if queued = tid then db_write env (\<lambda>now ids. mark_delivered now event) else ret ()) queue ()"

definition flush_task :: "env \<Rightarrow> 'w publisher \<Rightarrow> (string \<times> string) list \<Rightarrow> string \<Rightarrow> ('w, unit) call" where
  "flush_task env p queue tid =
     andthen (attempt (for_task env (spb_view p) tid)) (\<lambda>r. case r of
       Inl (KeyError _) \<Rightarrow> mark_all env tid queue
     | Inl e \<Rightarrow> raise e
     | Inr snp \<Rightarrow>
       andthen (external (spb_sync p snp)) (\<lambda>_.
       andthen (case spb_alert p of
           Some alert \<Rightarrow> if snp_phase snp \<in> alert_phases then external (alert snp) else ret ()
         | None \<Rightarrow> ret ()) (\<lambda>_.
       mark_all env tid queue)))"

text \<open>The tasks of the queue, each once, in the order of their first event.\<close>

definition queued_tasks :: "(string \<times> string) list \<Rightarrow> string list" where
  "queued_tasks queue = rev (remdups (rev (map snd queue)))"

definition flush :: "env \<Rightarrow> 'w publisher \<Rightarrow> ('w, unit) call" where
  "flush env p =
     andthen (current env (spb_view p)) (\<lambda>snp.
     andthen (observe_snapshot env snp) (\<lambda>_.
     andthen (db_read env pending) (\<lambda>queue.
     each (\<lambda>tid _. flush_task env p queue tid) (queued_tasks queue) ())))"

end
