(* ===== verification/Runtime_Service.thy ===== *)
theory Runtime_Service
  imports Status_Service Feedback_Service Publication_Service Planning_Service
begin

text \<open>
  \<^verbatim>\<open>FactoryRuntime\<close> (\<^verbatim>\<open>runtime.py\<close>): one bounded invocation takes at most one task through intake,
  execution and acceptance.  The record holds the collaborators of the constructor; the services it
  builds from them are functions of the record.  Times are microseconds.
\<close>

section \<open>Collaborators\<close>

record 'w database_inspector =
  dbi_path :: "string \<Rightarrow> ('w, string) port"
  dbi_inspect :: "string \<Rightarrow> ('w, string) port"

record 'w health_checker =
  hck_url :: "string \<Rightarrow> ('w, string) port"
  hck_check :: "string \<Rightarrow> ('w, string) port"

record 'w docker_inspector =
  dki_registered :: "string \<Rightarrow> ('w, string) port"
  dki_inspect :: "string \<Rightarrow> ('w, string) port"

record 'w runtime =
  rtm_source :: "'w issue_source"
  rtm_repository :: repository
  rtm_adapter :: "'w adapter"
  rtm_provisioner :: "'w provisioner"
  rtm_root :: string
  rtm_gate_specs :: "gate_spec list"
  rtm_task_gate_specs :: "(string \<times> gate_spec list) list"
  rtm_gate_runner :: "gate_spec \<Rightarrow> workspace \<Rightarrow> ('w, quality_gate) port"
  rtm_revision_inspector :: "workspace \<Rightarrow> ('w, string) port"
  rtm_publisher :: "factory_task \<Rightarrow> agent_run \<Rightarrow> ('w, published_revision) port"
  rtm_find_pr :: "'w find_pr_port"
  rtm_open_pr :: "pull_request \<Rightarrow> ('w, pull_request) port"
  rtm_base_branch :: string
  rtm_security :: "factory_task \<Rightarrow> agent_run \<Rightarrow> ('w, security_review) port"
  rtm_pr_state :: "(pull_request \<Rightarrow> ('w, pull_request_state) port) option"
  rtm_policy :: operational_policy
  rtm_operational :: "('w provisioner \<times> string) option"
  rtm_acceptance :: "(factory_task \<Rightarrow> agent_run \<Rightarrow> ('w, quality_gate list) port) option"
  rtm_database :: "'w database_inspector option"
  rtm_health :: "'w health_checker option"
  rtm_docker :: "'w docker_inspector option"
  rtm_code_capable :: bool
  rtm_poll_interval :: int
  rtm_timeout :: int
  rtm_heartbeat_interval :: int
  rtm_sleep :: "int \<Rightarrow> ('w, unit) port"
  rtm_monotonic :: "('w, int) port"
  rtm_pulse :: "('w, unit) call option"
  rtm_backlog :: "('w, unit) call option"
  rtm_sprint :: "'w sprint_service option"
  rtm_recovery :: recovery_policy
  rtm_builder :: "'w context_builder"
  rtm_registry :: "project_registry option"
  rtm_feedback :: "'w feedback option"
  rtm_pool_mode :: bool
  rtm_pool_links :: bool
  rtm_owner_report :: "(string \<Rightarrow> ('w, unit) port) option"
  rtm_owner :: "(string \<times> string) option"
  rtm_proof_sha :: string
  rtm_fuel :: nat

text \<open>The services of the constructor.\<close>

definition code_dispatcher :: "'w runtime \<Rightarrow> 'w dispatcher" where
  "code_dispatcher rt = \<lparr>ds_provisioner = rtm_provisioner rt, ds_root = rtm_root rt,
     ds_builder = rtm_builder rt, ds_worker = map_option fst (rtm_owner rt),
     ds_session = map_option snd (rtm_owner rt)\<rparr>"

text \<open>The operational dispatcher has the default context builder.\<close>

definition operational_dispatcher :: "'w runtime \<Rightarrow> 'w dispatcher option" where
  "operational_dispatcher rt = map_option (\<lambda>(pv, root). \<lparr>ds_provisioner = pv, ds_root = root,
     ds_builder = \<lparr>cb_sources = [], cb_budget = 48000, cb_digest = cb_digest (rtm_builder rt)\<rparr>,
     ds_worker = map_option fst (rtm_owner rt), ds_session = map_option snd (rtm_owner rt)\<rparr>)
     (rtm_operational rt)"

definition tracking :: "'w runtime \<Rightarrow> 'w tracker" where
  "tracking rt = \<lparr>tr_gate_specs = rtm_gate_specs rt, tr_task_gate_specs = rtm_task_gate_specs rt,
     tr_gate_runner = Some (rtm_gate_runner rt), tr_inspector = Some (rtm_revision_inspector rt),
     tr_provisioner = Some (rtm_provisioner rt), tr_pull_requests = True,
     tr_sink = Some (rtm_find_pr rt), tr_base_branch = rtm_base_branch rt,
     tr_registry = rtm_registry rt, tr_acceptance = rtm_acceptance rt,
     tr_heartbeat_interval = rtm_heartbeat_interval rt\<rparr>"

definition publishing :: "'w runtime \<Rightarrow> 'w publication" where
  "publishing rt = \<lparr>pub_publish = rtm_publisher rt, pub_find = rtm_find_pr rt,
     pub_open = rtm_open_pr rt, pub_inspect = rtm_security rt,
     pub_base_branch = rtm_base_branch rt, pub_registry = rtm_registry rt\<rparr>"

definition set_runtime_owner :: "string \<Rightarrow> string \<Rightarrow> 'w runtime \<Rightarrow> (py_error, 'w runtime) outcome" where
  "set_runtime_owner worker session rt =
     (case set_worker_owner worker session (code_dispatcher rt) of Inl e \<Rightarrow> Inl e
      | Inr _ \<Rightarrow> Inr (rt\<lparr>rtm_owner := Some (worker, session)\<rparr>))"

section \<open>Results\<close>

record runtime_result =
  rsl_task :: "string option"
  rsl_run :: "string option"
  rsl_status :: "task_status option"
  rsl_branch :: "string option"
  rsl_validation :: "validation_outcome option"
  rsl_pr_number :: "int option"
  rsl_pr_url :: "string option"
  rsl_outcome :: string
  rsl_intake :: intake_summary

definition nothing_done :: "string \<Rightarrow> intake_summary \<Rightarrow> runtime_result" where
  "nothing_done outcome summary = \<lparr>rsl_task = None, rsl_run = None, rsl_status = None,
     rsl_branch = None, rsl_validation = None, rsl_pr_number = None, rsl_pr_url = None,
     rsl_outcome = outcome, rsl_intake = summary\<rparr>"

definition run_result :: "factory_task \<Rightarrow> agent_run option \<Rightarrow> run_refresh option \<Rightarrow> string \<Rightarrow>
    intake_summary \<Rightarrow> runtime_result" where
  "run_result t run ref outcome summary =
     \<lparr>rsl_task = Some (task_id t), rsl_run = map_option run_id run,
      rsl_status = Some (task_status t),
      rsl_branch = (case Option.bind run run_workspace of None \<Rightarrow> None
        | Some w \<Rightarrow> if ws_branch w = [] then None else Some (ws_branch w)),
      rsl_validation = (case ref of Some r \<Rightarrow> Some (ref_outcome r)
        | None \<Rightarrow> map_option validation_outcome run),
      rsl_pr_number = None, rsl_pr_url = None, rsl_outcome = outcome, rsl_intake = summary\<rparr>"

definition result_from_publication :: "publication_result \<Rightarrow> agent_run \<Rightarrow> intake_summary \<Rightarrow> runtime_result" where
  "result_from_publication p run summary =
     \<lparr>rsl_task = Some (run_task_id run), rsl_run = Some (run_id run),
      rsl_status = Some (pub_task_status p), rsl_branch = Some (pr_head_branch (pub_pull_request p)),
      rsl_validation = Some (validation_outcome run),
      rsl_pr_number = pr_number (pub_pull_request p), rsl_pr_url = pr_url (pub_pull_request p),
      rsl_outcome = ''WAITING_HUMAN'', rsl_intake = summary\<rparr>"

section \<open>Small steps\<close>

definition pulse_status :: "'w runtime \<Rightarrow> ('w, unit) call" where
  "pulse_status rt = (case rtm_pulse rt of None \<Rightarrow> ret () | Some p \<Rightarrow> on_error p (\<lambda>_. ret ()))"

text \<open>\<open>try: body finally: pulse\<close>.\<close>

definition then_pulse :: "'w runtime \<Rightarrow> ('w, 'a) call \<Rightarrow> ('w, 'a) call" where
  "then_pulse rt body = andthen (attempt body) (\<lambda>r. andthen (pulse_status rt) (\<lambda>_. from_outcome r))"

definition owner_report :: "'w runtime \<Rightarrow> string \<Rightarrow> ('w, unit) call" where
  "owner_report rt tid = (case rtm_owner_report rt of None \<Rightarrow> ret ()
     | Some report \<Rightarrow> on_error (external (report tid)) (\<lambda>_. ret ()))"

definition latest_run :: "env \<Rightarrow> string \<Rightarrow> ('w, agent_run option) call" where
  "latest_run env tid = db_read env (\<lambda>d. latest_of (list_runs d (Some tid)))"

definition block :: "env \<Rightarrow> string \<Rightarrow> string \<Rightarrow> ('w, factory_task) call" where
  "block env tid reason = andthen (transition env tid Task_BLOCKED None) (\<lambda>blocked.
     tasks_update env (blocked\<lparr>task_blocked_reason := Some reason\<rparr>))"

definition block_result :: "env \<Rightarrow> factory_task \<Rightarrow> string \<Rightarrow> string \<Rightarrow> intake_summary \<Rightarrow>
    ('w, runtime_result) call" where
  "block_result env t reason outcome summary = andthen (block env (task_id t) reason) (\<lambda>blocked.
     ret (run_result blocked None None outcome summary))"

definition context_blocked_result :: "env \<Rightarrow> factory_task \<Rightarrow> agent_run option \<Rightarrow> intake_summary \<Rightarrow>
    ('w, runtime_result) call" where
  "context_blocked_result env t previous summary =
     andthen (tasks_get env (task_id t)) (\<lambda>found. andthen (or_raise found AssertionError) (\<lambda>blocked.
     ret (run_result blocked previous None ''REQUIRED_CONTEXT_BLOCKED'' summary)))"

fun failing_prefix :: "agent_run list \<Rightarrow> nat" where
  "failing_prefix [] = 0"
| "failing_prefix (r # rs) = (if validation_outcome r = GATES_FAILED then Suc (failing_prefix rs) else 0)"

definition gate_failure_streak :: "env \<Rightarrow> string \<Rightarrow> ('w, nat) call" where
  "gate_failure_streak env tid = db_read env (\<lambda>d. failing_prefix (rev (list_runs d (Some tid))))"

definition gate_feedback :: "agent_run \<Rightarrow> string" where
  "gate_feedback run = ''Factory quality gates failed: '' @
     join '', '' (take 20 (map (\<lambda>g. if safe_label (gate_name g) then gate_name g else ''check'')
       (filter is_blocking (run_gates run)))) @
     ''. Fix the failures and rerun validation.''"

definition is_unstarted :: "env \<Rightarrow> factory_task \<Rightarrow> ('w, bool) call" where
  "is_unstarted env t =
     (if task_status t \<notin> {Task_DISCOVERED, Task_READY} then ret False
      else andthen (db_read env (\<lambda>d. list_runs d (Some (task_id t)))) (\<lambda>runs.
        if runs \<noteq> [] then ret False
        else db_read env (\<lambda>d. list_all (\<lambda>x. tt_to x = Task_READY) (history d (task_id t)))))"

definition source_repository :: "'w runtime \<Rightarrow> task_source \<Rightarrow> (py_error, repository) outcome" where
  "source_repository rt src = (case validate_slug (src_repository src) of Inl e \<Rightarrow> Inl e
     | Inr _ \<Rightarrow> Inr \<lparr>repo_slug = src_repository src, repo_role = repo_role (rtm_repository rt),
         repo_default_branch = ''main'', repo_fork_slug = None\<rparr>)"

definition project_for_repository :: "env \<Rightarrow> 'w runtime \<Rightarrow> ('w, string) call" where
  "project_for_repository env rt = (let slug = repo_slug (rtm_repository rt) in
     case rtm_registry rt of
       Some reg \<Rightarrow> ret (case for_repository reg slug of Inr p \<Rightarrow> prof_project_id p | Inl _ \<Rightarrow> ''ai-factory-lab'')
     | None \<Rightarrow> andthen (db_read env (\<lambda>d. list_tasks d None)) (\<lambda>tasks.
         ret (case remdups (map task_project (filter (\<lambda>t. task_repository t = slug) tasks)) of
             [p] \<Rightarrow> p | _ \<Rightarrow> ''ai-factory-lab'')))"

definition project_ids :: "env \<Rightarrow> 'w runtime \<Rightarrow> ('w, string list) call" where
  "project_ids env rt =
     andthen (db_read env (\<lambda>d. map task_project (list_tasks d None))) (\<lambda>own.
     andthen (if rtm_sprint rt = None then ret [] else db_read env live_projects) (\<lambda>live.
     andthen (project_for_repository env rt) (\<lambda>home.
     ret (sort (remdups (own @ live @
       (case rtm_registry rt of None \<Rightarrow> [] | Some reg \<Rightarrow> map prof_project_id reg) @ [home]))))))"

section \<open>Selection\<close>

definition is_github :: "factory_task \<Rightarrow> bool" where
  "is_github t \<longleftrightarrow> (case task_source t of None \<Rightarrow> False | Some s \<Rightarrow> src_provider s = ''github'')"

definition pool_allows :: "env \<Rightarrow> 'w runtime \<Rightarrow> factory_task \<Rightarrow> ('w, bool) call" where
  "pool_allows env rt t = (case rtm_sprint rt of None \<Rightarrow> ret True
     | Some _ \<Rightarrow>
       andthen (if rtm_pool_links rt then db_read env (\<lambda>d. reconciliation_origin d (task_id t)) else ret None) (\<lambda>origin.
       andthen (allows env t) (\<lambda>allowed.
       if allowed then ret True
       else andthen (has_live_sprint_for env (task_project t)) (\<lambda>live.
         ret (\<not> live \<and> is_github t \<and> map_option fst origin = Some ''trello'' \<or>
           is_github t \<and> map_option src_repository (task_source t) = Some (task_repository t) \<and>
           origin = Some (''github-direct'', None))))))"

definition selection_allows :: "env \<Rightarrow> 'w runtime \<Rightarrow> bool \<Rightarrow> factory_task \<Rightarrow> ('w, bool) call" where
  "selection_allows env rt pool t = (if pool then pool_allows env rt t
     else if rtm_sprint rt = None then ret True else allows env t)"

definition selectable :: "env \<Rightarrow> 'w runtime \<Rightarrow> bool \<Rightarrow> task_status \<Rightarrow> ('w, factory_task list) call" where
  "selectable env rt pool st =
     andthen (db_read env (\<lambda>d. list_tasks d (Some st))) (\<lambda>tasks.
     each (\<lambda>t acc. andthen (selection_allows env rt pool t) (\<lambda>ok.
       ret (if ok then acc @ [t] else acc))) tasks [])"

definition truthy :: "string option \<Rightarrow> bool" where
  "truthy s \<longleftrightarrow> s \<noteq> None \<and> s \<noteq> Some []"

definition has_feedback :: "env \<Rightarrow> string \<Rightarrow> ('w, bool) call" where
  "has_feedback env tid = db_read env (\<lambda>d. truthy (latest_rework_feedback d tid))"

text \<open>The latest run, or the one before a failed run in the same workspace, failed its gates.\<close>

definition gate_rework :: "agent_run list \<Rightarrow> bool" where
  "gate_rework runs \<longleftrightarrow> runs \<noteq> [] \<and>
     (validation_outcome (last runs) = GATES_FAILED \<or>
      run_status (last runs) = Run_FAILED \<and> 1 < length runs \<and>
      run_workspace (runs ! (length runs - 2)) = run_workspace (last runs) \<and>
      validation_outcome (runs ! (length runs - 2)) = GATES_FAILED)"

definition ready_rework :: "env \<Rightarrow> factory_task \<Rightarrow> ('w, factory_task option) call" where
  "ready_rework env t =
     andthen (db_read env (\<lambda>d. list_runs d (Some (task_id t)))) (\<lambda>runs.
     if runs = [] then ret None
     else andthen (has_feedback env (task_id t)) (\<lambda>fb. ret (if fb \<or> gate_rework runs then Some t else None)))"

definition first_selectable :: "env \<Rightarrow> 'w runtime \<Rightarrow> (factory_task \<Rightarrow> bool) \<Rightarrow> task_status list \<Rightarrow>
    ('w, factory_task option) call" where
  "first_selectable env rt ok sts = first_result (\<lambda>st.
     andthen (selectable env rt False st) (\<lambda>tasks. ret (find ok tasks))) sts"

definition select_task :: "env \<Rightarrow> 'w runtime \<Rightarrow> ('w, factory_task option) call" where
  "select_task env rt =
     andthen (selectable env rt False Task_CHANGES_REQUESTED) (\<lambda>requested.
     if requested \<noteq> [] then ret (Some (hd requested))
     else andthen (selectable env rt False Task_READY) (\<lambda>ready.
     andthen (first_result (ready_rework env) ready) (\<lambda>rework.
     if rework \<noteq> None then ret rework
     else andthen (first_result (\<lambda>st. andthen (selectable env rt False st) (\<lambda>tasks.
         first_result (\<lambda>t. andthen (has_feedback env (task_id t)) (\<lambda>fb. ret (if fb then Some t else None))) tasks))
         [Task_CLAIMED, Task_RUNNING, Task_VALIDATING, Task_PR_OPEN]) (\<lambda>started.
     if started \<noteq> None then ret started
     else andthen (selectable env rt False Task_WAITING_HUMAN) (\<lambda>waiting.
     if waiting \<noteq> []
     then andthen (first_selectable env rt (\<lambda>t. task_kind t = OPERATIONAL)
         [Task_VALIDATING, Task_RUNNING, Task_CLAIMED, Task_READY, Task_DISCOVERED]) (\<lambda>operational.
       ret (if operational \<noteq> None then operational else Some (hd waiting)))
     else first_selectable env rt (\<lambda>_. True)
       [Task_PR_OPEN, Task_VALIDATING, Task_RUNNING, Task_CLAIMED, Task_READY, Task_DISCOVERED])))))"

definition pool_candidates :: "env \<Rightarrow> 'w runtime \<Rightarrow> ('w, string list) call" where
  "pool_candidates env rt = each (\<lambda>st acc. andthen (selectable env rt True st) (\<lambda>tasks.
     ret (acc @ map task_id tasks)))
     [Task_PR_OPEN, Task_VALIDATING, Task_RUNNING, Task_CLAIMED, Task_CHANGES_REQUESTED, Task_READY,
      Task_DISCOVERED] []"

definition should_reconcile_backlog :: "env \<Rightarrow> 'w runtime \<Rightarrow> ('w, bool) call" where
  "should_reconcile_backlog env rt =
     (if rtm_backlog rt = None then ret False
      else if rtm_sprint rt = None then ret True
      else andthen (project_for_repository env rt) (\<lambda>p.
        andthen (has_live_sprint_for env p) (\<lambda>live. ret (\<not> live))))"

end
