(* ===== verification/Runtime_Steps.thy ===== *)
theory Runtime_Steps
  imports Runtime_Service
begin

text \<open>
  The steps of \<^verbatim>\<open>FactoryRuntime\<close>: fixed observations, the outcome of human reviews, polling of a
  run, and their composition \<^verbatim>\<open>_run_once\<close>, \<^verbatim>\<open>run_once\<close>, \<^verbatim>\<open>prepare_pool\<close> and \<^verbatim>\<open>run_task\<close>.  A step
  that may end the invocation returns \<open>Inl\<close> of the result.
\<close>

section \<open>Fixed observations\<close>

text \<open>The task is claimed and moved to RUNNING with a run of its own.\<close>

definition observed_run :: "factory_task \<Rightarrow> string \<Rightarrow> int \<Rightarrow> agent_run" where
  "observed_run t rid started =
     \<lparr>run_task_id = task_id t, run_adapter = OTHER, run_id = rid, run_status = Run_RUNNING,
      run_workspace = None, run_summary = None, run_started_at = Some started,
      run_last_heartbeat = None, run_agent_heartbeat = None, run_finished_at = None, run_gates = [],
      run_validated_revision = None, run_context_pack = None, run_project = task_project t,
      run_worker_id = None, run_session_id = None\<rparr>"

definition start_observation :: "env \<Rightarrow> factory_task \<Rightarrow> ('w, agent_run) call" where
  "start_observation env t =
     andthen (transition env (task_id t) Task_CLAIMED None) (\<lambda>_.
     andthen (transition env (task_id t) Task_RUNNING None) (\<lambda>_.
     andthen (clock env) (\<lambda>started.
     andthen (fresh_id env) (\<lambda>rid.
     db_write env (\<lambda>now ids. save_run now (observed_run t rid started))))))"

definition observation_gate :: "string \<Rightarrow> bool \<Rightarrow> quality_gate" where
  "observation_gate name ok = \<lparr>gate_name = name, gate_status = (if ok then Gate_PASSED else Gate_FAILED),
     gate_detail = None, gate_required = True\<rparr>"

definition observed :: "agent_run \<Rightarrow> string \<Rightarrow> bool \<Rightarrow> string \<Rightarrow> agent_run" where
  "observed run name ok summary = run\<lparr>run_status := (if ok then Run_SUCCEEDED else Run_FAILED),
     run_summary := Some summary, run_gates := [observation_gate name ok]\<rparr>"

text \<open>\<open>_finish_operational_observation\<close>.\<close>

definition finish_observation :: "env \<Rightarrow> factory_task \<Rightarrow> agent_run \<Rightarrow> intake_summary \<Rightarrow> bool \<Rightarrow> string \<Rightarrow>
    string \<Rightarrow> ('w, runtime_result) call" where
  "finish_observation env t run summary ok failure reason =
     andthen (clock env) (\<lambda>finished.
     let run' = run\<lparr>run_finished_at := Some finished\<rparr> in
     andthen (runs_update env run') (\<lambda>_.
     andthen (transition env (task_id t) Task_VALIDATING None) (\<lambda>_.
     andthen (if ok then transition env (task_id t) Task_DONE None else block env (task_id t) reason) (\<lambda>cur.
     ret (run_result cur (Some run') None (if ok then ''OPERATIONAL_DONE'' else failure) summary)))))"

definition policy_blocked :: "env \<Rightarrow> factory_task \<Rightarrow> intake_summary \<Rightarrow> ('w, runtime_result) call" where
  "policy_blocked env t summary =
     block_result env t ''operational capability denied'' ''OPERATIONAL_POLICY_BLOCKED'' summary"

text \<open>An inspection whose \<open>ValueError\<close> fails the run.\<close>

definition inspected :: "env \<Rightarrow> factory_task \<Rightarrow> ('w, string) port \<Rightarrow> string \<Rightarrow> string \<Rightarrow> string \<Rightarrow>
    intake_summary \<Rightarrow> ('w, runtime_result) call" where
  "inspected env t inspect name failure reason summary =
     andthen (start_observation env t) (\<lambda>run.
     andthen (attempt (external inspect)) (\<lambda>r. case r of
       Inr evidence \<Rightarrow> finish_observation env t (observed run name True evidence) summary True failure reason
     | Inl e \<Rightarrow> if is_value_error e
         then finish_observation env t (observed run name False reason) summary False failure reason
         else raise e))"

definition run_database :: "env \<Rightarrow> 'w runtime \<Rightarrow> factory_task \<Rightarrow> string \<Rightarrow> intake_summary \<Rightarrow>
    ('w, runtime_result) call" where
  "run_database env rt t target summary = (case rtm_database rt of
       None \<Rightarrow> policy_blocked env t summary
     | Some db \<Rightarrow> andthen (external (dbi_path db target)) (\<lambda>path.
         if \<not> permits (rtm_policy rt) Cap_DATABASE_READONLY ''local'' path ''inspect'' target
         then policy_blocked env t summary
         else inspected env t (dbi_inspect db target) ''database_readonly'' ''OPERATIONAL_DATABASE_BLOCKED''
           ''database inspection rejected'' summary))"

definition healthy :: "string \<Rightarrow> string \<Rightarrow> bool" where
  "healthy target evidence \<longleftrightarrow> (case loads evidence of
       Some (JV_object kvs) \<Rightarrow>
         entry ''target_id'' kvs = Some (JV_string (points target)) \<and>
         entry ''status'' kvs \<in> (\<lambda>s. Some (JV_string (points s))) ` {''HEALTHY'', ''WARNING'', ''CRITICAL'', ''UNKNOWN''} \<and>
         string_value (entry ''observed_at'' kvs) \<noteq> None \<and> string_value (entry ''evidence'' kvs) \<noteq> None
     | _ \<Rightarrow> False)"

definition invalid_probe :: string where
  "invalid_probe = ''{'' @ join '','' [json_string ''status'' @ '':'' @ json_string ''UNKNOWN'',
     json_string ''evidence'' @ '':'' @ json_string ''invalid_result''] @ ''}''"

definition run_service_health :: "env \<Rightarrow> 'w runtime \<Rightarrow> factory_task \<Rightarrow> string \<Rightarrow> intake_summary \<Rightarrow>
    ('w, runtime_result) call" where
  "run_service_health env rt t target summary = (case rtm_health rt of
       None \<Rightarrow> policy_blocked env t summary
     | Some ck \<Rightarrow> andthen (external (hck_url ck target)) (\<lambda>url.
         if \<not> permits (rtm_policy rt) Cap_SERVICE_HEALTH ''https'' url ''get'' target
         then policy_blocked env t summary
         else andthen (start_observation env t) (\<lambda>run.
           andthen (external (hck_check ck target)) (\<lambda>evidence.
           let ok = healthy target evidence in
           finish_observation env t (observed run ''service_health'' ok (if ok then evidence else invalid_probe))
             summary ok ''OPERATIONAL_SERVICE_BLOCKED'' ''service health observation failed''))))"

definition run_docker :: "env \<Rightarrow> 'w runtime \<Rightarrow> factory_task \<Rightarrow> string \<Rightarrow> intake_summary \<Rightarrow>
    ('w, runtime_result) call" where
  "run_docker env rt t target summary = (case rtm_docker rt of
       None \<Rightarrow> policy_blocked env t summary
     | Some dk \<Rightarrow>
       if \<not> permits (rtm_policy rt) Cap_DOCKER_INSPECT ''local'' ''docker-engine-api'' ''inspect'' target
       then policy_blocked env t summary
       else andthen (external (dki_registered dk target)) (\<lambda>container.
         if container = [] then policy_blocked env t summary
         else inspected env t (dki_inspect dk target) ''docker_inspect'' ''OPERATIONAL_DOCKER_BLOCKED''
           ''Docker inspection rejected'' summary))"

section \<open>Human reviews\<close>

definition provider_closure :: "env \<Rightarrow> 'w runtime \<Rightarrow> factory_task \<Rightarrow> agent_run \<Rightarrow> ('w, unit) call" where
  "provider_closure env rt t run = (case rtm_feedback rt of None \<Rightarrow> ret ()
     | Some f \<Rightarrow> andthen (reconcile_provider_closure env f t run) (\<lambda>_. ret ()))"

definition feedback_sync :: "env \<Rightarrow> 'w runtime \<Rightarrow> factory_task \<Rightarrow> agent_run \<Rightarrow> string \<Rightarrow> ('w, unit) call" where
  "feedback_sync env rt t run phase = (case rtm_feedback rt of None \<Rightarrow> ret ()
     | Some f \<Rightarrow> sync env f t run phase)"

text \<open>What follows from the state of the pull request.\<close>

definition apply_review :: "env \<Rightarrow> 'w runtime \<Rightarrow> factory_task \<Rightarrow> agent_run \<Rightarrow> pull_request_state \<Rightarrow>
    ('w, unit) call" where
  "apply_review env rt t run state =
     (if state = PR_MERGED
      then (case rtm_feedback rt of
          Some f \<Rightarrow> andthen (reconcile_external env f t run) (\<lambda>_. ret ())
        | None \<Rightarrow> if task_status t \<in> {Task_WAITING_HUMAN, Task_VALIDATING}
            then andthen (transition env (task_id t) Task_DONE None) (\<lambda>_. ret ()) else ret ())
      else if state = PR_CLOSED \<and> task_status t \<in> {Task_WAITING_HUMAN, Task_VALIDATING}
      then andthen (transition env (task_id t) Task_CANCELLED None) (\<lambda>cancelled.
        andthen (tasks_update env (cancelled\<lparr>task_blocked_reason :=
          Some ''pull request closed without merge; human review required''\<rparr>)) (\<lambda>_.
        feedback_sync env rt t run ''CLOSED''))
      else if task_status t \<in> {Task_WAITING_HUMAN, Task_FAILED, Task_CANCELLED}
      then feedback_sync env rt t run (task_status_value (task_status t))
      else ret ())"

definition review_pull_request :: "env \<Rightarrow> 'w runtime \<Rightarrow> factory_task \<Rightarrow> agent_run \<Rightarrow> pull_request \<Rightarrow>
    ('w, unit) call" where
  "review_pull_request env rt t run pr =
     (if task_status t = Task_CANCELLED then provider_closure env rt t run
      else case rtm_pr_state rt of None \<Rightarrow> ret ()
      | Some state_of \<Rightarrow> andthen (attempt (external (state_of pr))) (\<lambda>r. case r of
          Inl e \<Rightarrow> if rtm_feedback rt \<noteq> None then provider_closure env rt t run else raise e
        | Inr state \<Rightarrow> andthen (apply_review env rt t run state) (\<lambda>_. provider_closure env rt t run)))"

definition reconcile_review :: "env \<Rightarrow> 'w runtime \<Rightarrow> factory_task \<Rightarrow> ('w, unit) call" where
  "reconcile_review env rt t =
     (if misrouted (rtm_registry rt) t \<or> task_kind t \<noteq> CODE then ret ()
      else andthen (latest_run env (task_id t)) (\<lambda>latest. case latest of None \<Rightarrow> ret ()
        | Some run \<Rightarrow> if run_project run \<noteq> task_project t then ret ()
          else andthen (run_pull_request env run) (\<lambda>found. case found of None \<Rightarrow> ret ()
            | Some pr \<Rightarrow>
              if pr_task_id pr \<noteq> Some (task_id t) \<or> pr_repository pr \<noteq> task_repository t then ret ()
              else review_pull_request env rt t run pr)))"

definition reconcile_human_reviews :: "env \<Rightarrow> 'w runtime \<Rightarrow> ('w, unit) call" where
  "reconcile_human_reviews env rt = (if rtm_pr_state rt = None then ret ()
     else andthen (each (\<lambda>st acc. andthen (db_read env (\<lambda>d. list_tasks d (Some st))) (\<lambda>ts. ret (acc @ ts)))
         [Task_WAITING_HUMAN, Task_VALIDATING, Task_DONE, Task_FAILED, Task_CANCELLED] []) (\<lambda>tasks.
       each (\<lambda>t _. on_error (reconcile_review env rt t) (\<lambda>_. ret ())) tasks ()))"

section \<open>Polling\<close>

text \<open>One turn refreshes the run; the loop ends when the run is terminal, when the engine cannot
  be asked, or after the deadline.  \<open>None\<close> is the loop out of fuel.\<close>

fun poll_loop :: "nat \<Rightarrow> env \<Rightarrow> 'w runtime \<Rightarrow> string \<Rightarrow> int \<Rightarrow> ('w, run_refresh option option) call" where
  "poll_loop 0 env rt rid deadline = ret None"
| "poll_loop (Suc n) env rt rid deadline =
     andthen (pulse_status rt) (\<lambda>_.
     andthen (attempt (refresh env (tracking rt) rid (rtm_adapter rt))) (\<lambda>r. case r of
       Inl (AgentCollectError _ _) \<Rightarrow> ret (Some None)
     | Inl e \<Rightarrow> raise e
     | Inr ref \<Rightarrow>
       andthen (pulse_status rt) (\<lambda>_.
       if is_terminal (ref_run ref) then ret (Some (Some ref))
       else andthen (external (rtm_monotonic rt)) (\<lambda>now.
         if deadline \<le> now then ret (Some None)
         else andthen (external (rtm_monotonic rt)) (\<lambda>again.
           andthen (external (rtm_sleep rt (min (max 0 (rtm_poll_interval rt)) (max 0 (deadline - again))))) (\<lambda>_.
           poll_loop n env rt rid deadline))))))"

definition poll_until_terminal :: "env \<Rightarrow> 'w runtime \<Rightarrow> string \<Rightarrow> ('w, run_refresh option) call" where
  "poll_until_terminal env rt rid =
     andthen (external (rtm_monotonic rt)) (\<lambda>start.
     andthen (poll_loop (rtm_fuel rt) env rt rid (start + max 0 (rtm_timeout rt))) (\<lambda>r.
     or_raise r (OtherError ''poll fuel'')))"

section \<open>One task\<close>

definition or_result :: "('w, runtime_result + 'a) call \<Rightarrow> ('a \<Rightarrow> ('w, runtime_result) call) \<Rightarrow>
    ('w, runtime_result) call" where
  "or_result m f = andthen m (\<lambda>r. case r of Inl res \<Rightarrow> ret res | Inr a \<Rightarrow> f a)"

definition ends_with :: "('w, runtime_result) call \<Rightarrow> ('w, runtime_result + 'a) call" where
  "ends_with m = andthen m (\<lambda>res. ret (Inl res))"

text \<open>The intake of an invocation, with the reports of the new tasks.\<close>

definition backlog_pass :: "env \<Rightarrow> 'w runtime \<Rightarrow> ('w, unit) call" where
  "backlog_pass env rt = andthen (should_reconcile_backlog env rt) (\<lambda>due.
     if due then (case rtm_backlog rt of None \<Rightarrow> raise AssertionError | Some m \<Rightarrow> m) else ret ())"

definition intake_pass :: "env \<Rightarrow> 'w runtime \<Rightarrow> ('w, intake_summary) call" where
  "intake_pass env rt =
     andthen (if rtm_owner_report rt = None then ret []
       else db_read env (\<lambda>d. map task_id (list_tasks d None))) (\<lambda>before.
     andthen (intake env (rtm_source rt) (rtm_repository rt)) (\<lambda>summary.
     andthen (if rtm_owner_report rt = None \<or> ins_created summary = 0 then ret ()
       else andthen (db_read env (\<lambda>d. list_tasks d None)) (\<lambda>tasks.
         each (\<lambda>t _. if task_id t \<notin> set before \<and> is_github t then owner_report rt (task_id t) else ret ())
           tasks ())) (\<lambda>_. ret summary)))"

text \<open>A CODE task of an unknown project is blocked where its status allows it.\<close>

definition routing_guard :: "env \<Rightarrow> 'w runtime \<Rightarrow> factory_task \<Rightarrow> intake_summary \<Rightarrow>
    ('w, runtime_result option) call" where
  "routing_guard env rt t summary =
     (if task_kind t \<noteq> CODE \<or> \<not> misrouted (rtm_registry rt) t then ret None
      else andthen (if task_status t \<in> {Task_READY, Task_CLAIMED, Task_RUNNING, Task_VALIDATING}
          then block env (task_id t) ''project routing rejected'' else ret t) (\<lambda>blocked.
        andthen (latest_run env (task_id t)) (\<lambda>run.
        ret (Some (run_result blocked run None ''PROJECT_ROUTING_REJECTED'' summary)))))"

definition another_busy :: "env \<Rightarrow> factory_task \<Rightarrow> ('w, bool) call" where
  "another_busy env t =
     andthen (first_result (\<lambda>st. db_read env (\<lambda>d.
         find (\<lambda>u. task_id u \<noteq> task_id t) (list_tasks d (Some st))))
       [Task_CLAIMED, Task_RUNNING, Task_VALIDATING, Task_PR_OPEN]) (\<lambda>other.
     if other \<noteq> None then ret True
     else db_read env (\<lambda>d. list_ex (\<lambda>r. run_task_id r \<noteq> task_id t \<and> \<not> is_terminal r) (list_runs d None)))"

definition capacity_guard :: "env \<Rightarrow> 'w runtime \<Rightarrow> bool \<Rightarrow> factory_task \<Rightarrow> intake_summary \<Rightarrow>
    ('w, runtime_result option) call" where
  "capacity_guard env rt do_intake t summary =
     (if task_status t \<notin> {Task_DISCOVERED, Task_READY, Task_CHANGES_REQUESTED} then ret None
      else andthen (db_read env (\<lambda>d. find_active_run d (task_id t))) (\<lambda>active.
        if active \<noteq> None then ret (Some (run_result t active None ''ACTIVE_RUN_STATE_MISMATCH'' summary))
        else andthen (if do_intake \<and> \<not> rtm_pool_mode rt then another_busy env t else ret False) (\<lambda>busy.
          if \<not> busy then ret None
          else andthen (latest_run env (task_id t)) (\<lambda>run.
            ret (Some (run_result t run None ''WIP_BUSY'' summary))))))"

definition publish_waiting :: "env \<Rightarrow> 'w runtime \<Rightarrow> factory_task \<Rightarrow> intake_summary \<Rightarrow>
    ('w, runtime_result) call" where
  "publish_waiting env rt t summary =
     andthen (latest_run env (task_id t)) (\<lambda>run.
     if \<not> rtm_code_capable rt then ret (run_result t run None ''CODE_CAPABILITY_MISSING'' summary)
     else case run of None \<Rightarrow> ret (run_result t None None ''WAITING_HUMAN'' summary)
     | Some r \<Rightarrow> andthen (publish env (publishing rt) (task_id t) (run_id r)) (\<lambda>p.
         ret (result_from_publication p r summary)))"

definition capability_guard :: "env \<Rightarrow> 'w runtime \<Rightarrow> factory_task \<Rightarrow> intake_summary \<Rightarrow>
    ('w, runtime_result option) call" where
  "capability_guard env rt t summary =
     (if task_kind t = CODE \<and> \<not> rtm_code_capable rt \<and> task_status t \<notin> {Task_DISCOVERED, Task_READY}
      then andthen (latest_run env (task_id t)) (\<lambda>run.
        ret (Some (run_result t run None ''CODE_CAPABILITY_MISSING'' summary)))
      else ret None)"

definition cancel_result :: "env \<Rightarrow> factory_task \<Rightarrow> string \<Rightarrow> intake_summary \<Rightarrow>
    ('w, runtime_result option) call" where
  "cancel_result env t outcome summary =
     andthen (transition env (task_id t) Task_CANCELLED None) (\<lambda>cancelled.
     ret (Some (run_result cancelled None None outcome summary)))"

text \<open>An unstarted task whose issue lost its label, or whose declaration changed, is cancelled.\<close>

definition eligibility_guard :: "env \<Rightarrow> 'w runtime \<Rightarrow> factory_task \<Rightarrow> intake_summary \<Rightarrow>
    ('w, runtime_result option) call" where
  "eligibility_guard env rt t summary =
     andthen (is_unstarted env t) (\<lambda>fresh. case task_source t of None \<Rightarrow> ret None
     | Some src \<Rightarrow> if \<not> fresh then ret None
       else andthen (from_outcome (source_repository rt src)) (\<lambda>repo.
         andthen (external (iso_eligible (rtm_source rt) repo src)) (\<lambda>eligible.
         if eligible then ret None else cancel_result env t ''SOURCE_INELIGIBLE'' summary)))"

definition declaration_guard :: "env \<Rightarrow> 'w runtime \<Rightarrow> factory_task \<Rightarrow> intake_summary \<Rightarrow>
    ('w, runtime_result option) call" where
  "declaration_guard env rt t summary =
     (if task_kind t \<noteq> OPERATIONAL then ret None
      else andthen (is_unstarted env t) (\<lambda>fresh. case task_source t of None \<Rightarrow> ret None
      | Some src \<Rightarrow> if \<not> fresh then ret None
        else andthen (from_outcome (source_repository rt src)) (\<lambda>repo.
          andthen (external (iso_get (rtm_source rt) repo src)) (\<lambda>now.
          if task_kind now = OPERATIONAL \<and> task_body now = task_body t then ret None
          else cancel_result env t ''SOURCE_DECLARATION_CHANGED'' summary))))"

text \<open>The guards run in order; the first result ends the invocation.\<close>

definition guarded :: "('w, runtime_result option) call \<Rightarrow> ('w, runtime_result) call \<Rightarrow>
    ('w, runtime_result) call" where
  "guarded g m = andthen g (\<lambda>r. case r of Some res \<Rightarrow> ret res | None \<Rightarrow> m)"

subsection \<open>Starting\<close>

definition start_operational :: "env \<Rightarrow> 'w runtime \<Rightarrow> factory_task \<Rightarrow> intake_summary \<Rightarrow>
    ('w, runtime_result + agent_run) call" where
  "start_operational env rt t summary =
     (case parse_database_readonly (task_body t) of
        Inr target \<Rightarrow> ends_with (run_database env rt t target summary)
      | Inl _ \<Rightarrow> (case parse_service_health (task_body t) of
        Inr target \<Rightarrow> ends_with (run_service_health env rt t target summary)
      | Inl _ \<Rightarrow> (case parse_docker_inspect (task_body t) of
        Inr target \<Rightarrow> ends_with (run_docker env rt t target summary)
      | Inl _ \<Rightarrow>
        if \<not> permits (rtm_policy rt) Cap_SCRATCH [] [] [] []
        then ends_with (policy_blocked env t summary)
        else (case operational_dispatcher rt of
            Some ds \<Rightarrow> if ad_kind (rtm_adapter rt) \<noteq> CODEX
              then ends_with (block_result env t ''operational capability missing''
                ''OPERATIONAL_CAPABILITY_MISSING'' summary)
              else (case parse_scratch_artifact (rtm_proof_sha rt) t of
                  Inl _ \<Rightarrow> ends_with (block_result env t ''operational policy rejected declaration''
                    ''OPERATIONAL_POLICY_BLOCKED'' summary)
                | Inr _ \<Rightarrow> andthen (dispatch env ds (rtm_adapter rt) (task_id t)) (\<lambda>run. ret (Inr run)))
          | None \<Rightarrow> ends_with (block_result env t ''operational capability missing''
              ''OPERATIONAL_CAPABILITY_MISSING'' summary)))))"

text \<open>The run whose gates decide on a correction.\<close>

definition gate_source :: "agent_run list \<Rightarrow> agent_run option" where
  "gate_source runs = (if runs = [] then None
     else let prev = last runs; before = runs ! (length runs - 2) in
       if run_status prev = Run_FAILED \<and> 1 < length runs \<and> run_workspace before = run_workspace prev
       then Some before else Some prev)"

definition pending_gate_feedback :: "agent_run list \<Rightarrow> string option" where
  "pending_gate_feedback runs = (case gate_source runs of None \<Rightarrow> None
     | Some r \<Rightarrow> if validation_outcome r = GATES_FAILED then Some (gate_feedback r) else None)"

text \<open>Whether the backoff after failed gates has not elapsed.\<close>

definition correction_pending :: "env \<Rightarrow> 'w runtime \<Rightarrow> factory_task \<Rightarrow> agent_run \<Rightarrow> ('w, bool) call" where
  "correction_pending env rt t prev = (case last_attempt prev of None \<Rightarrow> ret True
     | Some since \<Rightarrow> andthen (clock env) (\<lambda>now.
         andthen (gate_failure_streak env (task_id t)) (\<lambda>streak.
         andthen (from_outcome (delay_for (rtm_recovery rt) (max 1 (int streak)))) (\<lambda>delay.
         ret (of_int (now - since) / 1000000 < delay)))))"

definition timeout_recovery_text :: string where
  "timeout_recovery_text = ''Operator-authorized timeout recovery: resume the original '' @
     ''workspace without erasing existing changes. Complete the '' @
     ''original task and required tests; stop at human PR review.''"

definition timeout_recovery :: "factory_task \<Rightarrow> agent_run \<Rightarrow> bool" where
  "timeout_recovery t prev \<longleftrightarrow> run_status prev = Run_FAILED \<and>
     task_blocked_reason t = Some (''terminal-timeout-recovery:'' @ run_id prev)"

text \<open>A dispatch whose context was blocked ends the invocation.\<close>

definition started :: "env \<Rightarrow> factory_task \<Rightarrow> agent_run option \<Rightarrow> intake_summary \<Rightarrow> ('w, agent_run) call \<Rightarrow>
    ('w, runtime_result + agent_run) call" where
  "started env t prev summary m = andthen (attempt m) (\<lambda>r. case r of
       Inr run \<Rightarrow> ret (Inr run)
     | Inl (ContextBuildError _) \<Rightarrow> ends_with (context_blocked_result env t prev summary)
     | Inl e \<Rightarrow> raise e)"

definition dispatch_code :: "env \<Rightarrow> 'w runtime \<Rightarrow> factory_task \<Rightarrow> string option \<Rightarrow> string option \<Rightarrow>
    agent_run option \<Rightarrow> intake_summary \<Rightarrow> ('w, runtime_result + agent_run) call" where
  "dispatch_code env rt t feedback gates previous summary =
     (let ds = code_dispatcher rt; ad = rtm_adapter rt in case previous of
        None \<Rightarrow> started env t previous summary (dispatch env ds ad (task_id t))
      | Some prev \<Rightarrow>
        if timeout_recovery t prev
        then (if ad_kind ad \<noteq> CODEX then ret (Inl (run_result t previous None ''ENGINE_MISMATCH'' summary))
          else started env t previous summary (dispatch_rework env ds ad (task_id t) timeout_recovery_text))
        else if feedback \<noteq> None \<or> gates \<noteq> None
        then (if feedback \<noteq> None \<and> ad_kind ad \<noteq> CODEX
          then ret (Inl (run_result t previous None ''ENGINE_MISMATCH'' summary))
          else started env t previous summary (dispatch_rework env ds ad (task_id t)
            (join [CHR 0x0A] (map the (filter truthy [feedback, gates])))))
        else started env t previous summary (dispatch env ds ad (task_id t)))"

definition start_code :: "env \<Rightarrow> 'w runtime \<Rightarrow> factory_task \<Rightarrow> intake_summary \<Rightarrow>
    ('w, runtime_result + agent_run) call" where
  "start_code env rt t summary =
     (if \<not> rtm_code_capable rt
      then ends_with (block_result env t ''code capability missing'' ''CODE_CAPABILITY_MISSING'' summary)
      else andthen (db_read env (\<lambda>d. latest_rework_feedback d (task_id t))) (\<lambda>feedback.
        andthen (db_read env (\<lambda>d. list_runs d (Some (task_id t)))) (\<lambda>runs.
        let previous = latest_of runs; gates = pending_gate_feedback runs in
        andthen (case previous of
            Some prev \<Rightarrow> if gates \<noteq> None then correction_pending env rt t prev else ret False
          | None \<Rightarrow> ret False) (\<lambda>pending.
        if pending then ret (Inl (run_result t previous None ''BACKOFF_PENDING'' summary))
        else dispatch_code env rt t feedback gates previous summary))))"

text \<open>A task that has already been started.\<close>

definition resume_run :: "env \<Rightarrow> factory_task \<Rightarrow> intake_summary \<Rightarrow> ('w, runtime_result + agent_run) call" where
  "resume_run env t summary =
     andthen (db_read env (\<lambda>d. find_active_run d (task_id t))) (\<lambda>active. case active of
       Some run \<Rightarrow> ret (Inr run)
     | None \<Rightarrow>
       andthen (if task_status t = Task_CLAIMED
         then db_read env (\<lambda>d. latest_rework_feedback d (task_id t) \<noteq> None) else ret False) (\<lambda>rework.
       let missing = Inl (run_result t None None ''RESUMABLE_STATE_MISSING_RUN'' summary) in
       if rework then ret missing
       else andthen (latest_run env (task_id t)) (\<lambda>latest.
         ret (case latest of None \<Rightarrow> missing | Some run \<Rightarrow> Inr run))))"

definition start_or_resume :: "env \<Rightarrow> 'w runtime \<Rightarrow> factory_task \<Rightarrow> intake_summary \<Rightarrow>
    ('w, runtime_result + agent_run) call" where
  "start_or_resume env rt t summary =
     (if task_status t \<noteq> Task_READY then resume_run env t summary
      else if task_kind t = OPERATIONAL then start_operational env rt t summary
      else start_code env rt t summary)"

subsection \<open>Acceptance\<close>

definition block_failed_publication :: "env \<Rightarrow> string \<Rightarrow> agent_run \<Rightarrow> ('w, unit) call" where
  "block_failed_publication env tid run =
     andthen (tasks_get env tid) (\<lambda>task.
     andthen (latest_run env tid) (\<lambda>latest.
     case (task, run_workspace run, latest) of
       (Some t, Some w, Some l) \<Rightarrow>
         if task_status t \<noteq> Task_VALIDATING \<or> run_id l \<noteq> run_id run \<or> run_status l \<noteq> Run_SUCCEEDED \<or>
            validation_outcome l \<noteq> READY_FOR_NEXT_PHASE \<or>
            map_option ws_id (run_workspace l) \<noteq> Some (ws_id w)
         then ret ()
         else andthen (db_read env (\<lambda>d. get_for_run d (run_id run))) (\<lambda>pr.
           if pr \<noteq> None then ret ()
           else andthen (block env tid (''publication failed: run '' @ run_id run @ '', workspace '' @ ws_id w))
             (\<lambda>_. ret ()))
     | _ \<Rightarrow> ret ()))"

definition publish_accepted :: "env \<Rightarrow> 'w runtime \<Rightarrow> factory_task \<Rightarrow> run_refresh \<Rightarrow> intake_summary \<Rightarrow>
    ('w, runtime_result) call" where
  "publish_accepted env rt t ref summary =
     andthen (attempt (publish env (publishing rt) (task_id t) (run_id (ref_run ref)))) (\<lambda>r. case r of
       Inr p \<Rightarrow> ret (result_from_publication p (ref_run ref) summary)
     | Inl (SecurityReviewBlocked _) \<Rightarrow>
         andthen (block env (task_id t) ''security review blocked publication'') (\<lambda>cur.
         ret (run_result cur (Some (ref_run ref)) (Some ref) ''SECURITY_REVIEW_BLOCKED'' summary))
     | Inl e \<Rightarrow>
         andthen (if rtm_pool_mode rt then block_failed_publication env (task_id t) (ref_run ref) else ret ()) (\<lambda>_.
         raise e))"

definition run_unsuccessful :: "env \<Rightarrow> factory_task \<Rightarrow> factory_task \<Rightarrow> ('w, factory_task) call" where
  "run_unsuccessful env t cur =
     (if task_kind t = OPERATIONAL \<and> task_status cur = Task_FAILED
      then tasks_update env (cur\<lparr>task_blocked_reason := Some ''operational agent execution failed''\<rparr>)
      else ret cur)"

text \<open>Failed gates: block an operational task; return code to READY until the limit is reached.\<close>

definition gates_unsuccessful :: "env \<Rightarrow> 'w runtime \<Rightarrow> factory_task \<Rightarrow> factory_task \<Rightarrow> agent_run \<Rightarrow>
    ('w, factory_task) call" where
  "gates_unsuccessful env rt t cur run =
     (if task_status cur \<noteq> Task_VALIDATING then ret cur
      else if task_kind t = OPERATIONAL then block env (task_id t) ''operational acceptance gates failed''
      else andthen (if classify run = CORRECTABLE
          then andthen (gate_failure_streak env (task_id t)) (\<lambda>n.
            ret (correction_limit (rtm_recovery rt) < int n))
          else ret False) (\<lambda>limit.
        if limit then block env (task_id t) ''quality correction limit reached''
        else transition env (task_id t) Task_READY None))"

definition accept :: "env \<Rightarrow> 'w runtime \<Rightarrow> factory_task \<Rightarrow> run_refresh \<Rightarrow> intake_summary \<Rightarrow>
    ('w, runtime_result) call" where
  "accept env rt t ref summary =
     (let run = ref_run ref in
      andthen (current_task env t) (\<lambda>cur.
      if run_status run \<noteq> Run_SUCCEEDED
      then andthen (run_unsuccessful env t cur) (\<lambda>cur.
        ret (run_result cur (Some run) (Some ref) ''AGENT_NOT_SUCCESSFUL'' summary))
      else if ref_outcome ref \<noteq> READY_FOR_NEXT_PHASE
      then andthen (gates_unsuccessful env rt t cur run) (\<lambda>cur.
        ret (run_result cur (Some run) (Some ref) ''QUALITY_GATES_FAILED'' summary))
      else if task_kind t = OPERATIONAL
      then (if task_status cur \<noteq> Task_VALIDATING
        then ret (run_result cur (Some run) (Some ref) ''OPERATIONAL_STATE_INVALID'' summary)
        else andthen (transition env (task_id t) Task_DONE None) (\<lambda>cur.
          ret (run_result cur (Some run) (Some ref) ''OPERATIONAL_DONE'' summary)))
      else publish_accepted env rt t ref summary))"

definition follow_run :: "env \<Rightarrow> 'w runtime \<Rightarrow> factory_task \<Rightarrow> agent_run \<Rightarrow> intake_summary \<Rightarrow>
    ('w, runtime_result) call" where
  "follow_run env rt t run summary =
     (if run_project run \<noteq> task_project t \<or>
         (case run_workspace run of None \<Rightarrow> False | Some w \<Rightarrow> ws_repository w \<noteq> task_repository t)
      then ret (run_result t (Some run) None ''PROJECT_ROUTING_REJECTED'' summary)
      else if run_adapter run \<noteq> ad_kind (rtm_adapter rt)
      then ret (run_result t (Some run) None ''ENGINE_MISMATCH'' summary)
      else andthen (poll_until_terminal env rt (run_id run)) (\<lambda>r. case r of
        None \<Rightarrow> andthen (current_task env t) (\<lambda>cur.
          ret (run_result cur (Some run) None ''TIMEOUT_RESUMABLE'' summary))
      | Some ref \<Rightarrow> accept env rt t ref summary))"

section \<open>Invocations\<close>

definition drive_selected :: "env \<Rightarrow> 'w runtime \<Rightarrow> bool \<Rightarrow> factory_task \<Rightarrow> intake_summary \<Rightarrow>
    ('w, runtime_result) call" where
  "drive_selected env rt do_intake t summary =
     guarded (routing_guard env rt t summary) (
     guarded (capacity_guard env rt do_intake t summary) (
     if task_status t = Task_WAITING_HUMAN then publish_waiting env rt t summary
     else guarded (capability_guard env rt t summary) (
       guarded (eligibility_guard env rt t summary) (
       guarded (declaration_guard env rt t summary) (
       andthen (if task_status t \<in> {Task_DISCOVERED, Task_CHANGES_REQUESTED}
           then transition env (task_id t) Task_READY None else ret t) (\<lambda>t.
       or_result (start_or_resume env rt t summary) (\<lambda>run. follow_run env rt t run summary)))))))"

text \<open>\<open>_run_once\<close>.\<close>

definition run_one :: "env \<Rightarrow> 'w runtime \<Rightarrow> factory_task option \<Rightarrow> bool \<Rightarrow> ('w, runtime_result) call" where
  "run_one env rt selected do_intake =
     andthen (if do_intake then backlog_pass env rt else ret ()) (\<lambda>_.
     andthen (if do_intake then intake_pass env rt else ret no_intake) (\<lambda>summary.
     andthen (if do_intake then reconcile_human_reviews env rt else ret ()) (\<lambda>_.
     andthen (case selected of Some t \<Rightarrow> ret (Some t) | None \<Rightarrow> select_task env rt) (\<lambda>chosen. case chosen of
       None \<Rightarrow> ret (nothing_done ''NO_ELIGIBLE_TASK'' summary)
     | Some t \<Rightarrow> drive_selected env rt do_intake t summary))))"

definition reconciler :: "env \<Rightarrow> 'w runtime \<Rightarrow> 'w reconciliation" where
  "reconciler env rt = \<lparr>rcn_tracker = tracking rt, rcn_adapter = rtm_adapter rt,
     rcn_allows = (if rtm_sprint rt = None then None
       else Some (if rtm_pool_mode rt then pool_allows env rt else allows env)),
     rcn_registry = rtm_registry rt\<rparr>"

definition paused_here :: "env \<Rightarrow> 'w runtime \<Rightarrow> ('w, bool) call" where
  "paused_here env rt = andthen (project_for_repository env rt) (\<lambda>p. is_paused_for env p)"

text \<open>Whether the sprint of the repository lets the invocation go on, or the outcome when not.\<close>

definition sprint_guard :: "env \<Rightarrow> 'w runtime \<Rightarrow> 'w sprint_service \<Rightarrow> ('w, runtime_result option) call" where
  "sprint_guard env rt sv =
     (let stop = (\<lambda>outcome. Some (nothing_done outcome no_intake)) in
      andthen (paused_here env rt) (\<lambda>paused.
      andthen (if paused
          then andthen (project_for_repository env rt) (\<lambda>p.
            andthen (resume_completed_for env sv p) (\<lambda>_. paused_here env rt))
          else ret False) (\<lambda>still.
      if still then ret (stop ''SPRINT_PAUSED'')
      else andthen (project_for_repository env rt) (\<lambda>p.
        andthen (prepare_for_project env sv p) (\<lambda>ready.
        if ready then ret None
        else andthen (paused_here env rt) (\<lambda>now.
          ret (stop (if now then ''SPRINT_PAUSED'' else ''NO_ELIGIBLE_TASK''))))))))"

definition observe_result :: "env \<Rightarrow> 'w runtime \<Rightarrow> runtime_result \<Rightarrow> ('w, runtime_result) call" where
  "observe_result env rt res = (case rsl_task res of None \<Rightarrow> ret res
     | Some tid \<Rightarrow>
       andthen (if rtm_sprint rt = None then ret ()
         else andthen (tasks_get env tid) (observe_sprint env)) (\<lambda>_.
       andthen (owner_report rt tid) (\<lambda>_. ret res)))"

definition run_once :: "env \<Rightarrow> 'w runtime \<Rightarrow> ('w, runtime_result) call" where
  "run_once env rt = then_pulse rt (
     andthen (repair env (reconciler env rt)) (\<lambda>_.
     andthen (reconcile_human_reviews env rt) (\<lambda>_.
     guarded (case rtm_sprint rt of None \<Rightarrow> ret None | Some sv \<Rightarrow> sprint_guard env rt sv)
       (andthen (run_one env rt None True) (observe_result env rt)))))"

definition prepare_pool :: "env \<Rightarrow> 'w runtime \<Rightarrow> ('w, intake_summary) call" where
  "prepare_pool env rt =
     andthen (repair env (reconciler env rt)) (\<lambda>_.
     andthen (reconcile_human_reviews env rt) (\<lambda>_.
     andthen (case rtm_sprint rt of None \<Rightarrow> ret ()
       | Some sv \<Rightarrow> andthen (project_ids env rt) (\<lambda>ps.
           each (\<lambda>p _. andthen (resume_completed_for env sv p) (\<lambda>_.
             andthen (prepare_for_project env sv p) (\<lambda>_. ret ()))) ps ())) (\<lambda>_.
     andthen (backlog_pass env rt) (\<lambda>_. intake_pass env rt))))"

definition run_task :: "env \<Rightarrow> 'w runtime \<Rightarrow> string \<Rightarrow> ('w, runtime_result) call" where
  "run_task env rt tid =
     andthen (tasks_get env tid) (\<lambda>found.
     andthen (or_raise found (KeyError tid)) (\<lambda>t.
     andthen (pool_allows env rt t) (\<lambda>ok.
     andthen (check ok (ValueError ''task is not authorized for pool execution'')) (\<lambda>_.
     then_pulse rt (andthen (run_one env rt (Some t) False) (\<lambda>res.
       andthen (owner_report rt tid) (\<lambda>_. ret res)))))))"

end
