(* ===== verification/Factory_Refinement.thy ===== *)
theory Factory_Refinement
  imports Runtime_Steps
begin

text \<open>
  The abstract machine of the factory is its store: states are stores, steps are committed
  operations.  Every call of every service, whatever its ports answer, refines this machine: its
  effect on the store is a sequence of operations, none of which is reserved to an operator unless
  another process commits one.  A call built by the combinators refines it when its parts do, so
  each service needs one line per definition.
\<close>

section \<open>The machine\<close>

text \<open>Operations that only an operator command commits.\<close>

fun operator_op :: "store_op \<Rightarrow> bool" where
  "operator_op (Recover_timeout _ _ _ _) = True"
| "operator_op (Recover_worker _ _ _ _) = True"
| "operator_op (Recover_orphan _ _ _ _) = True"
| "operator_op (Request_rework _ _ _ _ _ _) = True"
| "operator_op (Authorize_sprint _ _) = True"
| "operator_op (Save_workspace _) = True"
| "operator_op _ = False"

definition performs :: "(store_op \<Rightarrow> bool) \<Rightarrow> store \<Rightarrow> store \<Rightarrow> bool" where
  "performs P d d' \<longleftrightarrow> (\<exists>ops. list_all P ops \<and> d' = run_ops ops d)"

text \<open>\<open>P\<close> holds of what other processes commit and of everything but operator commands.\<close>

definition confined :: "(store_op \<Rightarrow> bool) \<Rightarrow> env \<Rightarrow> bool" where
  "confined P env \<longleftrightarrow> (\<forall>n. list_all P (env_other env n)) \<and> (\<forall>oper. \<not> operator_op oper \<longrightarrow> P oper)"

lemma performs_refl: "performs P d d"
  by (auto simp: performs_def run_ops_def intro: exI [of _ "[]"])

lemma performs_trans: "performs P d e \<Longrightarrow> performs P e f \<Longrightarrow> performs P d f"
proof (unfold performs_def, elim exE conjE)
  fix as bs assume "list_all P as" "e = run_ops as d" "list_all P bs" "f = run_ops bs e"
  then have "list_all P (as @ bs) \<and> f = run_ops (as @ bs) d" by (simp add: run_ops_def)
  then show "\<exists>ops. list_all P ops \<and> f = run_ops ops d" by blast
qed

interpretation sys_performs: preorder_relation "on_db (performs P)" for P
  by unfold_locales (auto simp: on_db_def intro: performs_refl performs_trans)

lemma performs_others: "confined P env \<Longrightarrow> others_respect (performs P) env"
  by (auto simp: confined_def others_respect_def performs_def)

lemma performs_reachable: "performs P d d' \<Longrightarrow> reachable d \<Longrightarrow> reachable d'"
proof -
  have "reachable d \<Longrightarrow> reachable (run_ops ops d)" for ops
    by (induction ops arbitrary: d) (simp_all add: run_ops_def reachable_op)
  then show "performs P d d' \<Longrightarrow> reachable d \<Longrightarrow> reachable d'" by (auto simp: performs_def)
qed

abbreviation safe :: "(store_op \<Rightarrow> bool) \<Rightarrow> ('w, 'a) call \<Rightarrow> bool" where
  "safe P \<equiv> keeps (on_db (performs P))"

section \<open>Primitive calls\<close>

named_theorems safe_rules "calls that refine the machine"

lemma safe_case_prod_arg:
  "(\<And>a b. safe P (f a b y)) \<Longrightarrow> safe P ((case x of (a, b) \<Rightarrow> f a b) y)"
  by (simp split: prod.splits)

lemmas safe_basic = sys_performs.keeps_basic safe_case_prod_arg keeps_attempt keeps_case_sum keeps_case_list
  sys_performs.keeps_each sys_performs.keeps_first

lemma safe_read [safe_rules]: "confined P env \<Longrightarrow> safe P (db_read env f)"
  by (rule keeps_db_read [OF performs_others])

lemma safe_world [safe_rules]: "confined P env \<Longrightarrow> safe P (clock env)" "confined P env \<Longrightarrow> safe P (fresh_id env)"
  by (rule keeps_world, rule performs_refl)+

lemma safe_external: "safe P (external p)"
  by (rule keeps_world) (rule performs_refl)

lemma safe_write:
  assumes "confined P env" "\<And>now ids. \<not> operator_op (oper now ids)"
    and "\<And>now ids d. run_op (oper now ids) d = commit d (f now ids d)"
  shows "safe P (db_write env f)"
proof (rule keeps_db_write [OF performs_others [OF assms(1)] performs_trans])
  fix now ids d a d' assume "f now ids d = Inr (a, d')"
  then have "run_op (oper now ids) d = d'" by (simp add: assms(3) commit_def)
  then have "list_all P [oper now ids] \<and> d' = run_ops [oper now ids] d"
    using assms(1,2) by (auto simp: confined_def run_ops_def)
  then show "performs P d d'" unfolding performs_def by (rule exI)
qed

lemma safe_task_writes [safe_rules]:
  assumes W: "confined P env"
  shows "safe P (tasks_apply env tid a b)" "safe P (tasks_update env t)" "safe P (tasks_save env t)"
    "safe P (db_write env (\<lambda>now ids. apply_terminal_resolution (env_max_claims env) now (ids 0) tid a))"
  unfolding tasks_apply_def tasks_update_def tasks_save_def
  by (rule safe_write [OF W, where oper = "\<lambda>now ids. Apply_transition (env_max_claims env) now (ids 0) tid a b"], simp, simp,
      rule safe_write [OF W, where oper = "\<lambda>now ids. Update_task t"], simp, simp,
      rule safe_write [OF W, where oper = "\<lambda>now ids. Save_task t"], simp, simp,
      rule safe_write [OF W, where oper = "\<lambda>now ids. Resolve_terminal (env_max_claims env) now (ids 0) tid a"], simp, simp)

lemma safe_run_writes [safe_rules]:
  assumes W: "confined P env"
  shows "safe P (runs_update env r)" "safe P (db_write env (\<lambda>now ids. save_run now r))"
    "safe P (append_fact env t r rv name evidence)"
  unfolding runs_update_def append_fact_def
  by (rule safe_write [OF W, where oper = "\<lambda>now ids. Update_run now r"], simp, simp,
      rule safe_write [OF W, where oper = "\<lambda>now ids. Save_run now r"], simp, simp,
      rule safe_write [OF W, where oper = "\<lambda>now ids. Append_security now t r rv name evidence"], simp, simp)

lemma safe_pr_writes [safe_rules]:
  assumes W: "confined P env"
  shows "safe P (db_write env (\<lambda>now ids. save_pr (ids 0) pr))"
    "safe P (db_write env (\<lambda>now ids. record_revision now pr rid sha))"
    "safe P (db_write env (\<lambda>now ids. record_provider_revision now pr sha))"
    "safe P (db_write env (\<lambda>now ids. record_merged now pr))"
  by (rule safe_write [OF W, where oper = "\<lambda>now ids. Save_pr (ids 0) pr"], simp, simp,
      rule safe_write [OF W, where oper = "\<lambda>now ids. Record_revision now pr rid sha"], simp, simp,
      rule safe_write [OF W, where oper = "\<lambda>now ids. Record_provider_revision now pr sha"], simp, simp,
      rule safe_write [OF W, where oper = "\<lambda>now ids. Record_merged now pr"], simp, simp)

lemma safe_planning_writes [safe_rules]:
  assumes W: "confined P env"
  shows "safe P (reject env item)" "safe P (links_complete env item issue)"
    "safe P (sprint_move env sid st pos ev)" "safe P (db_write env (\<lambda>now ids. begin_write item))"
    "safe P (db_write env (\<lambda>now ids. reserve item))"
  unfolding reject_def links_complete_def sprint_move_def
  by (rule safe_write [OF W, where oper = "\<lambda>now ids. Record_rejection item ''PROJECT_ROUTING_REJECTED''"], simp, simp,
      rule safe_write [OF W, where oper = "\<lambda>now ids. Complete item issue"], simp, simp,
      rule safe_write [OF W, where oper = "\<lambda>now ids. Move_sprint now sid st pos ev"], simp, simp,
      rule safe_write [OF W, where oper = "\<lambda>now ids. Begin_write item"], simp, simp,
      rule safe_write [OF W, where oper = "\<lambda>now ids. Reserve item"], simp, simp)

lemma safe_event_writes [safe_rules]:
  assumes W: "confined P env"
  shows "safe P (db_write env (\<lambda>now ids. record_completed now i))"
    "safe P (db_write env (\<lambda>now ids. record_resolution now i reason))"
    "safe P (db_write env (\<lambda>now ids. mark_delivered now event))"
    "safe P (db_write env (\<lambda>now ids. queue_observation now event tid phase))"
  by (rule safe_write [OF W, where oper = "\<lambda>now ids. Record_completed now i"], simp, simp,
      rule safe_write [OF W, where oper = "\<lambda>now ids. Record_resolution now i reason"], simp, simp,
      rule safe_write [OF W, where oper = "\<lambda>now ids. Mark_delivered now event"], simp, simp,
      rule safe_write [OF W, where oper = "\<lambda>now ids. Queue_observation now event tid phase"], simp, simp)

section \<open>Lifecycle and dispatch\<close>

lemma safe_error: "(\<And>m. safe P (f m)) \<Longrightarrow> safe P (f e)"
  by simp

lemma safe_lifecycle [safe_rules]:
  assumes W: "confined P env"
  shows "safe P (tasks_get env tid)" "safe P (transition env tid b x)"
    "safe P (reconcile_terminal_resolution env tid a)" "safe P (require_task env tid)"
  unfolding transition_def reconcile_terminal_resolution_def require_task_def tasks_get_def
  by (intro safe_basic sys_performs.keeps_lifecycle safe_rules [OF W])+

lemma safe_context:
  shows "safe P (supplied_fragments srcs t)" "safe P (build_context b t fb p)"
proof -
  show fragments: "safe P (supplied_fragments srcs t)" for srcs
    by (induction srcs) (simp_all add: sys_performs.keeps_basic safe_external)
  show "safe P (build_context b t fb p)"
    unfolding build_context_def by (intro safe_basic fragments)
qed

lemma safe_dispatch_steps [safe_rules]:
  assumes W: "confined P env"
  shows "safe P (dispatch_context env ds t fb p)" "safe P (claim env t)"
    "safe P (prepare_workspace env ds t)" "safe P (persist_run env r)"
  unfolding dispatch_context_def claim_def prepare_workspace_def persist_run_def
  by (intro safe_basic safe_context safe_external safe_rules [OF W];
      auto intro: sys_performs.keeps_raise split: py_error.splits)+

lemma safe_start [safe_rules]:
  assumes W: "confined P env"
  shows "safe P (start_run env ds ad t w p)" "safe P (advance_to_running env t)"
  unfolding start_run_def record_failure_def advance_to_running_def
  by (intro safe_basic safe_external safe_rules [OF W])+

lemma safe_dispatch [safe_rules]:
  assumes W: "confined P env"
  shows "safe P (dispatch env ds ad tid)" "safe P (dispatch_rework env ds ad tid fb)"
  unfolding dispatch_def dispatch_rework_def Let_def
  by (intro safe_basic safe_external safe_rules [OF W])+

section \<open>Tracking\<close>

lemma safe_gates [safe_rules]:
  assumes W: "confined P env"
  shows "safe P (specs_for env tr run)" "safe P (evaluate_gates env tr run)"
proof -
  have gates: "safe P (run_gates_in runner specs w)" for runner specs w
    by (induction specs) (simp_all add: run_gate_def sys_performs.keeps_basic keeps_attempt
        keeps_case_sum safe_external)
  show specs: "safe P (specs_for env tr run)"
    unfolding specs_for_def Let_def by (intro safe_basic safe_rules [OF W])
  show "safe P (evaluate_gates env tr run)"
    unfolding evaluate_gates_def by (intro safe_basic specs gates)
qed

lemma safe_fingerprint: "safe P (fingerprint tr w)" "safe P (validate_operational tr t run)"
  unfolding fingerprint_def validate_operational_def by (intro safe_basic safe_external)+

lemma safe_validated [safe_rules]:
  assumes W: "confined P env"
  shows "safe P (validate_revision env tr run)" "safe P (validated env tr run)"
proof -
  show revision: "safe P (validate_revision env tr run)"
    unfolding validate_revision_def by (intro safe_basic safe_external safe_fingerprint safe_rules [OF W])
  show "safe P (validated env tr run)"
    unfolding validated_def by (intro safe_basic safe_fingerprint revision safe_rules [OF W])
qed

lemma safe_drive [safe_rules]:
  assumes W: "confined P env"
  shows "safe P (drive_task env run)" "safe P (is_latest_run env run)" "safe P (can_revalidate env tr run)"
  unfolding drive_task_def drive_target_def is_latest_run_def can_revalidate_def Let_def
  by (intro safe_basic safe_external safe_rules [OF W];
      auto intro: sys_performs.keeps_basic split: py_error.splits)+

lemma safe_reconcile_terminal [safe_rules]:
  assumes W: "confined P env"
  shows "safe P (reconcile_terminal env tr run)" "safe P (refresh_result env run)"
    "safe P (observe_heartbeat env tr ad run)"
  unfolding reconcile_terminal_def revalidation_due_def refresh_result_def observe_heartbeat_def Let_def
  by (intro safe_basic safe_external safe_rules [OF W])+

lemma safe_refresh [safe_rules]:
  assumes W: "confined P env" shows "safe P (refresh env tr rid ad)"
  unfolding refresh_def by (intro safe_basic safe_external safe_rules [OF W])

section \<open>Publication\<close>

lemma safe_review [safe_rules]:
  assumes W: "confined P env" shows "safe P (security_gate env p t run)"
  unfolding security_gate_def review_def Let_def
  by (intro safe_basic safe_external safe_rules [OF W];
      auto intro: sys_performs.keeps_raise split: py_error.splits)

lemma safe_resolution [safe_rules]:
  assumes W: "confined P env"
  shows "safe P (existing_pull_request env p t run)" "safe P (rework_pull_request env p t run)"
    "safe P (resolve_pull_request env p t run head sha)" "safe P (publication_apply env tid target)"
    "safe P (require_run env rid tid)" "safe P (require_publishable env p t run)"
  unfolding existing_pull_request_def rework_pull_request_def resolve_pull_request_def
    publication_apply_def require_run_def require_publishable_def Let_def
  by (intro safe_basic safe_external safe_rules [OF W];
      auto intro: sys_performs.keeps_basic split: py_error.splits)+

lemma safe_persist [safe_rules]:
  assumes W: "confined P env" shows "safe P (persist env pr)"
proof -
  have other: "safe P (case e of DuplicatePullRequestError _ _ _ \<Rightarrow> m | _ \<Rightarrow> raise e)"
    if "safe P m" for m :: "('a, pull_request) call" and e
    using that by (auto intro: sys_performs.keeps_raise split: py_error.splits)
  show ?thesis
    unfolding persist_def by (intro safe_basic other safe_rules [OF W])
qed

lemma safe_finish [safe_rules]:
  assumes W: "confined P env" shows "safe P (finish_publication env tid pr)"
  unfolding finish_publication_def reconcile_publication_def by (intro safe_basic safe_rules [OF W])

lemma safe_publish [safe_rules]:
  assumes W: "confined P env" shows "safe P (publish env p tid rid)"
proof -
  have "safe P (publish_rework env p t run prior)" for t run prior
    unfolding publish_rework_def by (intro safe_basic safe_external safe_rules [OF W])
  moreover have "safe P (publish_new env p t run)" for t run
    unfolding publish_new_def by (intro safe_basic safe_external safe_rules [OF W])
  ultimately show ?thesis
    unfolding publish_def publish_run_def by (intro safe_basic safe_rules [OF W])
qed

section \<open>Planning\<close>

definition safe_source :: "(store_op \<Rightarrow> bool) \<Rightarrow> 'w item_source \<Rightarrow> bool" where
  "safe_source P src \<longleftrightarrow> safe P (its_list src) \<and> (\<forall>x. safe P (its_get src x))"

lemma safe_provider_source: "safe_source P (provider_source listing get)"
  by (simp add: safe_source_def provider_source_def safe_external)

lemma safe_authorized_source:
  assumes W: "confined P env" and S: "safe_source P src"
  shows "safe_source P (authorized_source env src)"
proof -
  have get: "safe P (its_get src x)" for x using S by (simp add: safe_source_def)
  show ?thesis
    unfolding safe_source_def authorized_source_def item_source.simps authorized_list_def authorized_get_def
    by (intro conjI allI safe_basic get safe_rules [OF W])
qed

lemma safe_intake [safe_rules]:
  assumes W: "confined P env" shows "safe P (intake env src repo)"
  unfolding intake_def intake_one_def by (intro safe_basic safe_external safe_rules [OF W])

lemma safe_materialize:
  assumes W: "confined P env" and S: "safe_source P (mat_source m)"
  shows "safe P (materialize env m external_id)"
proof -
  have src: "safe P (its_list (mat_source m))" "safe P (its_get (mat_source m) x)" for x
    using S by (simp_all add: safe_source_def)
  show ?thesis
    unfolding materialize_def materialize_one_def materialize_new_def
    by (intro safe_basic safe_external src safe_rules [OF W])
qed

definition safe_sprint :: "(store_op \<Rightarrow> bool) \<Rightarrow> 'w sprint_service \<Rightarrow> bool" where
  "safe_sprint P sv \<longleftrightarrow> safe_source P (spv_source sv) \<and> safe_source P (mat_source (spv_materializer sv))"

lemma safe_task_for [safe_rules]:
  assumes W: "confined P env"
  shows "safe P (task_for env item)" "safe P (dependencies_complete env m pos)"
    "safe P (delivery_recorded env sv t)" "safe P (pause_at env m pos)"
proof -
  show task: "safe P (task_for env item)" for item
    unfolding task_for_def by (intro safe_basic safe_rules [OF W])
  have "safe P (dependencies_done env before deps)" for before deps
    by (induction deps) (simp_all add: sys_performs.keeps_basic task split: option.split)
  then show "safe P (dependencies_complete env m pos)"
    unfolding dependencies_complete_def Let_def by (intro safe_basic)
  show "safe P (delivery_recorded env sv t)" "safe P (pause_at env m pos)"
    unfolding delivery_recorded_def pause_at_def by (intro safe_basic safe_rules [OF W])+
qed

lemma safe_prepare:
  assumes W: "confined P env" and S: "safe_sprint P sv"
  shows "safe P (prepare_for_project env sv project)"
proof -
  have get: "safe P (its_get (spv_source sv) x)" for x using S by (simp add: safe_sprint_def safe_source_def)
  have mat: "safe P (materialize env (spv_materializer sv) x)" for x
    using S by (intro safe_materialize [OF W]) (simp add: safe_sprint_def)
  have select: "safe P (select_step env sv m pos item issue task)" for m pos item issue task
    unfolding select_step_def by (intro safe_basic get mat safe_rules [OF W])
  have "safe P (prepare_steps env sv m pos steps)" for m pos steps
  proof (induction steps arbitrary: pos)
    case (Cons step steps)
    show ?case
      unfolding prepare_steps.simps Let_def by (intro safe_basic select Cons safe_rules [OF W])
  qed (simp add: sys_performs.keeps_ret)
  then show ?thesis
    unfolding prepare_for_project_def by (intro safe_basic safe_rules [OF W])
qed

lemma safe_sprint_reads [safe_rules]:
  assumes W: "confined P env"
  shows "safe P (allows env t)" "safe P (has_live_sprint_for env project)"
    "safe P (is_paused_for env project)" "safe P (observe_sprint env task)"
    "safe P (resume_completed_for env sv project)"
proof -
  show a: "safe P (allows env t)" for t
    unfolding allows_def allows_in_def matches_current_def Let_def
    by (intro safe_basic safe_rules [OF W])
  show "safe P (has_live_sprint_for env project)" "safe P (is_paused_for env project)"
    unfolding has_live_sprint_for_def is_paused_for_def by (intro safe_rules [OF W])+
  show "safe P (observe_sprint env task)" "safe P (resume_completed_for env sv project)"
    unfolding observe_sprint_def resume_completed_for_def by (intro safe_basic a safe_rules [OF W])+
qed

section \<open>Feedback and status\<close>

lemma safe_identity [safe_rules]:
  assumes W: "confined P env" shows "safe P (identity env f t run)"
proof -
  have "safe P (current_pr env f pr)" for pr
    unfolding current_pr_def by (intro safe_basic safe_external safe_rules [OF W])
  moreover have "safe P (linked_identity env f t src run w pr)" for src w pr
    unfolding linked_identity_def by (intro safe_basic safe_rules [OF W])
  ultimately show ?thesis
    unfolding identity_def by (intro safe_basic safe_rules [OF W])
qed

lemma safe_feedback_steps [safe_rules]:
  assumes W: "confined P env"
  shows "safe P (current_task env t)" "safe P (merged_now env pr)" "safe P (settle env t)"
  unfolding current_task_def merged_now_def settle_def resolve_done_def clear_blocked_def
  by (intro safe_basic safe_rules [OF W])+

lemma safe_card: "safe P (sync_card f i phase)" "safe P (issue_state f i)"
  unfolding sync_card_def issue_state_def by (intro safe_basic safe_external)+

lemma safe_feedback [safe_rules]:
  assumes W: "confined P env"
  shows "safe P (sync env f t run phase)" "safe P (reconcile env f t run)"
    "safe P (reconcile_external env f t run)" "safe P (reconcile_provider_closure env f t run)"
  unfolding sync_def reconcile_def deliver_def reconcile_external_def close_external_def
    finish_external_def reconcile_provider_closure_def close_from_provider_def Let_def
  by (intro safe_basic safe_external safe_card safe_rules [OF W])+

lemma safe_status [safe_rules]:
  assumes W: "confined P env"
  shows "safe P (run_pull_request env run)" "safe P (for_task env sv tid)" "safe P (current env sv)"
proof -
  show pr: "safe P (run_pull_request env run)" for run
    unfolding run_pull_request_def by (intro safe_basic safe_rules [OF W])
  show task: "safe P (for_task env sv tid)" for tid
    unfolding for_task_def latest_failed_gates_def by (intro safe_basic pr safe_rules [OF W])
  show "safe P (current env sv)"
    unfolding current_def active_tasks_def latest_failed_gates_def Let_def
    by (intro safe_basic task safe_rules [OF W])
qed

lemma safe_flush [safe_rules]:
  assumes W: "confined P env" shows "safe P (flush env p)"
proof -
  have observe: "safe P (observe_snapshot env snp)" for snp
    unfolding observe_snapshot_def by (intro safe_basic safe_rules [OF W])
  have mark: "safe P (mark_all env tid queue)" for tid queue
    unfolding mark_all_def by (intro safe_basic safe_rules [OF W])
  have "safe P (flush_task env p queue tid)" for queue tid
    unfolding flush_task_def
    by (intro safe_basic safe_external mark safe_rules [OF W];
        auto intro: mark sys_performs.keeps_raise split: py_error.splits)
  then show ?thesis
    unfolding flush_def by (intro safe_basic observe safe_rules [OF W])
qed

lemma safe_repair:
  assumes W: "confined P env"
    and allows: "\<And>allowed t. rcn_allows c = Some allowed \<Longrightarrow> safe P (allowed t)"
  shows "safe P (repair env c)"
  unfolding repair_def repair_task_def repair_run_def
  by (cases "rcn_allows c"; simp only: option.case; intro safe_basic allows safe_rules [OF W]; assumption)

section \<open>The runtime\<close>

text \<open>The calls a runtime is configured with refine the machine.\<close>

definition safe_runtime :: "(store_op \<Rightarrow> bool) \<Rightarrow> 'w runtime \<Rightarrow> bool" where
  "safe_runtime P rt \<longleftrightarrow> (\<forall>p. rtm_pulse rt = Some p \<longrightarrow> safe P p) \<and>
     (\<forall>m. rtm_backlog rt = Some m \<longrightarrow> safe P m) \<and> (\<forall>sv. rtm_sprint rt = Some sv \<longrightarrow> safe_sprint P sv)"

lemma safe_runtime_steps [safe_rules]:
  assumes W: "confined P env"
  shows "safe P (latest_run env tid)" "safe P (block env tid reason)"
    "safe P (block_result env t reason outcome summary)"
    "safe P (context_blocked_result env t previous summary)" "safe P (gate_failure_streak env tid)"
    "safe P (is_unstarted env t)" "safe P (project_for_repository env rt)" "safe P (project_ids env rt)"
    "safe P (has_feedback env tid)"
  unfolding latest_run_def block_def block_result_def context_blocked_result_def gate_failure_streak_def
    is_unstarted_def project_for_repository_def project_ids_def has_feedback_def Let_def
  by (intro safe_basic safe_rules [OF W])+

lemma safe_selectable [safe_rules]:
  assumes W: "confined P env"
  shows "safe P (pool_allows env rt t)" "safe P (selectable env rt pool st)"
    "safe P (ready_rework env t)" "safe P (should_reconcile_backlog env rt)"
  unfolding pool_allows_def selectable_def selection_allows_def ready_rework_def should_reconcile_backlog_def
  by (intro safe_basic safe_rules [OF W])+

lemma safe_select [safe_rules]:
  assumes W: "confined P env"
  shows "safe P (select_task env rt)" "safe P (pool_candidates env rt)"
  unfolding select_task_def first_selectable_def pool_candidates_def
  by (intro safe_basic safe_rules [OF W])+

lemma safe_reports: "safe P (owner_report rt tid)"
  unfolding owner_report_def by (intro safe_basic safe_external)

lemma safe_observation [safe_rules]:
  assumes W: "confined P env"
  shows "safe P (start_observation env t)"
    "safe P (finish_observation env t run summary ok failure reason)" "safe P (policy_blocked env t summary)"
  unfolding start_observation_def finish_observation_def policy_blocked_def Let_def
  by (intro safe_basic safe_rules [OF W])+

lemma safe_operational [safe_rules]:
  assumes W: "confined P env"
  shows "safe P (run_database env rt t target summary)" "safe P (run_service_health env rt t target summary)"
    "safe P (run_docker env rt t target summary)"
  unfolding run_database_def run_service_health_def run_docker_def inspected_def Let_def
  by (intro safe_basic safe_external safe_rules [OF W])+

lemma safe_reviews [safe_rules]:
  assumes W: "confined P env" shows "safe P (reconcile_human_reviews env rt)"
proof -
  have "safe P (reconcile_review env rt t)" for t
    unfolding reconcile_review_def review_pull_request_def apply_review_def provider_closure_def
      feedback_sync_def by (intro safe_basic safe_external safe_rules [OF W])
  then show ?thesis
    unfolding reconcile_human_reviews_def by (intro safe_basic safe_rules [OF W])
qed

lemma safe_pulse: "safe_runtime P rt \<Longrightarrow> safe P (pulse_status rt)"
  by (auto simp: safe_runtime_def pulse_status_def intro: sys_performs.keeps_basic split: option.split)

lemma safe_poll:
  assumes W: "confined P env" and S: "safe_runtime P rt"
  shows "safe P (poll_until_terminal env rt rid)"
proof -
  have turn: "safe P (poll_loop n env rt rid deadline)" for n deadline
  proof (induction n)
    case (Suc n)
    show ?case
      unfolding poll_loop.simps
      by (intro safe_basic safe_pulse [OF S] safe_external Suc safe_rules [OF W];
          auto intro: sys_performs.keeps_basic split: py_error.splits)
  qed (simp add: sys_performs.keeps_ret)
  then show ?thesis
    unfolding poll_until_terminal_def by (intro safe_basic safe_external turn)
qed

lemma safe_guards [safe_rules]:
  assumes W: "confined P env"
  shows "safe P (routing_guard env rt t summary)" "safe P (capacity_guard env rt di t summary)"
    "safe P (publish_waiting env rt t summary)" "safe P (capability_guard env rt t summary)"
    "safe P (eligibility_guard env rt t summary)" "safe P (declaration_guard env rt t summary)"
  unfolding routing_guard_def capacity_guard_def another_busy_def publish_waiting_def
    capability_guard_def eligibility_guard_def declaration_guard_def cancel_result_def
  by (intro safe_basic safe_external safe_rules [OF W])+

lemma safe_starting [safe_rules]:
  assumes W: "confined P env" shows "safe P (start_or_resume env rt t summary)"
proof -
  have ctx: "safe P (started env t prev summary m)" if "safe P m" for prev m
    unfolding started_def ends_with_def using that
    by (intro safe_basic safe_rules [OF W];
        auto intro: sys_performs.keeps_basic safe_rules [OF W] split: py_error.splits)
  have "safe P (dispatch_code env rt t feedback gates previous summary)" for feedback gates previous
    unfolding dispatch_code_def Let_def by (intro safe_basic ctx safe_rules [OF W])
  then have "safe P (start_code env rt t summary)"
    unfolding start_code_def ends_with_def correction_pending_def Let_def
    by (intro safe_basic safe_rules [OF W])
  moreover have "safe P (start_operational env rt t summary)"
    unfolding start_operational_def ends_with_def by (intro safe_basic safe_rules [OF W])
  moreover have "safe P (resume_run env t summary)"
    unfolding resume_run_def Let_def by (intro safe_basic safe_rules [OF W])
  ultimately show ?thesis
    unfolding start_or_resume_def by (intro safe_basic)
qed

lemma safe_accept [safe_rules]:
  assumes W: "confined P env" shows "safe P (accept env rt t ref summary)"
proof -
  have "safe P (block_failed_publication env tid run)" for tid run
    unfolding block_failed_publication_def by (intro safe_basic safe_rules [OF W])
  then have "safe P (publish_accepted env rt t ref summary)"
    unfolding publish_accepted_def
    by (intro safe_basic safe_rules [OF W];
        auto intro: sys_performs.keeps_basic safe_rules [OF W] split: py_error.splits)
  then show ?thesis
    unfolding accept_def run_unsuccessful_def gates_unsuccessful_def Let_def
    by (intro safe_basic safe_rules [OF W])
qed

lemma safe_drive_selected:
  assumes W: "confined P env" and S: "safe_runtime P rt"
  shows "safe P (drive_selected env rt di t summary)"
  unfolding drive_selected_def guarded_def or_result_def follow_run_def
  by (intro safe_basic safe_poll [OF W S] safe_rules [OF W])

lemma safe_intake_pass [safe_rules]:
  assumes W: "confined P env" shows "safe P (intake_pass env rt)"
  unfolding intake_pass_def by (intro safe_basic safe_reports safe_rules [OF W])

lemma safe_backlog:
  assumes W: "confined P env" and S: "safe_runtime P rt" shows "safe P (backlog_pass env rt)"
  using S unfolding backlog_pass_def safe_runtime_def
  by (cases "rtm_backlog rt"; simp only: option.case; intro safe_basic safe_rules [OF W]; blast)

lemma safe_run_one:
  assumes W: "confined P env" and S: "safe_runtime P rt" shows "safe P (run_one env rt selected di)"
  unfolding run_one_def
  by (intro safe_basic safe_backlog [OF W S] safe_drive_selected [OF W S] safe_rules [OF W])

lemma safe_reconciler:
  assumes W: "confined P env" shows "safe P (repair env (reconciler env rt))"
  by (rule safe_repair [OF W])
    (auto simp: reconciler_def intro: safe_rules [OF W] split: if_splits)

lemma safe_run_once:
  assumes W: "confined P env" and S: "safe_runtime P rt" shows "safe P (run_once env rt)"
proof -
  have "safe P (sprint_guard env rt sv)" if "rtm_sprint rt = Some sv" for sv
    unfolding sprint_guard_def paused_here_def Let_def using S that
    by (intro safe_basic safe_prepare [OF W] safe_rules [OF W]) (simp add: safe_runtime_def)
  then have guard: "safe P (case rtm_sprint rt of None \<Rightarrow> ret None | Some sv \<Rightarrow> sprint_guard env rt sv)"
    by (auto intro: sys_performs.keeps_ret split: option.split)
  show ?thesis
    unfolding run_once_def then_pulse_def guarded_def observe_result_def
    by (intro safe_basic guard safe_reconciler [OF W] safe_run_one [OF W S] safe_reports safe_pulse [OF S]
        safe_rules [OF W])
qed

lemma safe_run_task:
  assumes W: "confined P env" and S: "safe_runtime P rt" shows "safe P (run_task env rt tid)"
  unfolding run_task_def then_pulse_def
  by (intro safe_basic safe_run_one [OF W S] safe_reports safe_pulse [OF S] safe_rules [OF W])

lemma safe_prepare_pool:
  assumes W: "confined P env" and S: "safe_runtime P rt" shows "safe P (prepare_pool env rt)"
proof -
  have sprint: "safe P (prepare_for_project env sv p)" if "rtm_sprint rt = Some sv" for sv p
    using S that by (intro safe_prepare [OF W]) (simp add: safe_runtime_def)
  show ?thesis
    unfolding prepare_pool_def
    by (cases "rtm_sprint rt"; simp only: option.case;
        intro safe_basic sprint safe_reconciler [OF W] safe_backlog [OF W S] safe_rules [OF W]; assumption)
qed

end
