(* ===== verification/Runtime_Facts.thy ===== *)
theory Runtime_Facts
  imports Factory_Refinement
begin

text \<open>
  Facts about the runtime: the polling loop ends, a refused observation calls no inspector, and an
  invocation selects only what it may run.
\<close>

section \<open>Polling ends\<close>

text \<open>A monotonic clock never goes back, whatever the process does.\<close>

definition forward :: "('w \<Rightarrow> int) \<Rightarrow> 'w sys \<Rightarrow> 'w sys \<Rightarrow> bool" where
  "forward m s s' \<longleftrightarrow> m (sys_world s) \<le> m (sys_world s')"

interpretation sys_forward: preorder_relation "forward m" for m
  by unfold_locales (auto simp: forward_def)

definition port_forward :: "('w \<Rightarrow> int) \<Rightarrow> ('w, 'a) port \<Rightarrow> bool" where
  "port_forward m p \<longleftrightarrow> (\<forall>w. m w \<le> m (snd (p w)))"

text \<open>The ports that a refresh calls.\<close>

definition adapter_forward :: "('w \<Rightarrow> int) \<Rightarrow> 'w adapter \<Rightarrow> bool" where
  "adapter_forward m ad \<longleftrightarrow> (\<forall>run. port_forward m (ad_collect ad run)) \<and>
     (\<forall>beat run. ad_heartbeat ad = Some beat \<longrightarrow> port_forward m (beat run))"

definition tracker_forward :: "('w \<Rightarrow> int) \<Rightarrow> 'w tracker \<Rightarrow> bool" where
  "tracker_forward m tr \<longleftrightarrow>
     (\<forall>runner g w. tr_gate_runner tr = Some runner \<longrightarrow> port_forward m (runner g w)) \<and>
     (\<forall>inspect w. tr_inspector tr = Some inspect \<longrightarrow> port_forward m (inspect w)) \<and>
     (\<forall>pv t w. tr_provisioner tr = Some pv \<longrightarrow> port_forward m (pv_repair pv t w)) \<and>
     (\<forall>sink repo head base. tr_sink tr = Some sink \<longrightarrow> port_forward m (sink repo head base)) \<and>
     (\<forall>validate t run. tr_acceptance tr = Some validate \<longrightarrow> port_forward m (validate t run))"

text \<open>
  What \<open>time.monotonic\<close> and \<open>time.sleep\<close> promise, with \<open>m\<close> the time in a world: a reading is a time
  between its start and its end, so two readings may be equal; a sleep that returns lasted
  at least as long as it was asked to.  Nothing turns the time back.
\<close>

definition ticking :: "('w \<Rightarrow> int) \<Rightarrow> 'w runtime \<Rightarrow> bool" where
  "ticking m rt \<longleftrightarrow>
     (\<forall>w. \<exists>v. fst (rtm_monotonic rt w) = Inr v \<and> m w \<le> v \<and> v \<le> m (snd (rtm_monotonic rt w))) \<and>
     (\<forall>d. port_forward m (rtm_sleep rt d)) \<and>
     (\<forall>d w w'. rtm_sleep rt d w = (Inr (), w') \<longrightarrow> m w + d \<le> m w') \<and>
     (\<forall>p. rtm_pulse rt = Some p \<longrightarrow> keeps (forward m) p) \<and>
     tracker_forward m (tracking rt) \<and> adapter_forward m (rtm_adapter rt)"

lemma forward_external: "port_forward m p \<Longrightarrow> keeps (forward m) (external p)"
  by (auto simp: keeps_def forward_def port_forward_def external_def split: prod.splits)
    (metis snd_conv)

lemma forward_store:
  "keeps (forward m) (db_read env f)" "keeps (forward m) (db_write env g)" "keeps (forward m) (clock env)"
  "keeps (forward m) (tasks_get env tid)" "keeps (forward m) (transition env tid b x)"
  "keeps (forward m) (runs_update env run)"
proof -
  show base: "keeps (forward m) (db_read env f)" "keeps (forward m) (db_write env g)"
    "keeps (forward m) (clock env)" for f :: "store \<Rightarrow> 'x" and g :: "_ \<Rightarrow> _ \<Rightarrow> (store, py_error, 'y) tx"
    by (auto simp: keeps_def forward_def db_read_def db_write_def clock_def split: sum.splits)
  show "keeps (forward m) (tasks_get env tid)" "keeps (forward m) (runs_update env run)"
    "keeps (forward m) (transition env tid b x)"
    unfolding tasks_get_def runs_update_def transition_def tasks_apply_def
    by (intro base sys_forward.keeps_lifecycle)+
qed

lemmas forward_basic = sys_forward.keeps_basic keeps_attempt keeps_case_sum keeps_case_list
  sys_forward.keeps_each sys_forward.keeps_first forward_store

lemma gates_forward:
  assumes "\<And>g. port_forward m (runner g w)" shows "keeps (forward m) (run_gates_in runner specs w)"
  by (induction specs)
    (simp_all add: run_gate_def forward_basic forward_external assms)

lemma evaluate_gates_forward:
  assumes T: "tracker_forward m tr" shows "keeps (forward m) (evaluate_gates env tr run)"
  using T unfolding evaluate_gates_def specs_for_def Let_def
  by (cases "tr_gate_runner tr"; simp only: option.case prod.case; intro forward_basic gates_forward;
      simp add: tracker_forward_def)

lemma validated_forward:
  assumes T: "tracker_forward m tr" shows "keeps (forward m) (validated env tr run)"
proof -
  have fp: "keeps (forward m) (fingerprint tr w)" for w
    using T unfolding fingerprint_def
    by (cases "tr_inspector tr") (auto simp: tracker_forward_def intro!: forward_basic forward_external)
  have op: "keeps (forward m) (validate_operational tr t run)" for t
    using T unfolding validate_operational_def
    by (cases "tr_acceptance tr") (auto simp: tracker_forward_def intro!: forward_basic forward_external)
  have "keeps (forward m) (validate_revision env tr run)"
    using T unfolding validate_revision_def
    by (cases "tr_provisioner tr"; simp only: option.case prod.case;
        intro forward_basic fp evaluate_gates_forward forward_external; simp add: tracker_forward_def)
  then show ?thesis
    unfolding validated_def by (intro forward_basic op)
qed

lemma refresh_forward:
  assumes T: "tracker_forward m tr" and A: "adapter_forward m ad"
  shows "keeps (forward m) (refresh env tr rid ad)"
proof -
  have drive: "keeps (forward m) (drive_task env run)" for run
    unfolding drive_task_def drive_target_def
    by (intro forward_basic; auto intro: forward_basic split: py_error.splits)
  have can: "keeps (forward m) (can_revalidate env tr run)" for run
    using T unfolding can_revalidate_def
    by (cases "tr_sink tr"; simp only: option.case prod.case;
        intro forward_basic forward_external; simp add: tracker_forward_def)
  have terminal: "keeps (forward m) (reconcile_terminal env tr run)" for run
    unfolding reconcile_terminal_def is_latest_run_def revalidation_due_def specs_for_def Let_def
    by (intro forward_basic can drive validated_forward [OF T])
  have beat: "keeps (forward m) (observe_heartbeat env tr ad run)" for run
    using A unfolding observe_heartbeat_def Let_def
    by (cases "ad_heartbeat ad"; simp only: option.case; intro forward_basic forward_external;
        simp add: adapter_forward_def)
  have collect: "keeps (forward m) (external (ad_collect ad run))" for run
    using A by (intro forward_external) (simp add: adapter_forward_def)
  show ?thesis
    unfolding refresh_def refresh_result_def
    by (intro forward_basic collect terminal beat drive validated_forward [OF T])
qed

lemma forward_wp:
  "keeps (forward m) c \<Longrightarrow>
    wp c (\<lambda>_ u. m (sys_world s) \<le> m (sys_world u)) (\<lambda>_ u. m (sys_world s) \<le> m (sys_world u)) s"
  by (rule wpI) (auto simp: forward_def dest: keepsD)

text \<open>A turn that does not end the loop sleeps for the poll interval or up to the deadline: as many turns as
  intervals in the time left are enough, and one more finds the deadline passed.\<close>

lemma poll_loop_ends:
  fixes s :: "'w sys"
  assumes T: "ticking m rt"
  shows "deadline - m (sys_world s) \<le> max 0 (rtm_poll_interval rt) * int k \<Longrightarrow> k < n \<Longrightarrow>
    wp (poll_loop n env rt rid deadline)
      (\<lambda>r _. r \<noteq> None \<and> (\<forall>ref. r = Some (Some ref) \<longrightarrow> is_terminal (ref_run ref))) (\<lambda>_ _. True) s"
proof (induction n arbitrary: s k)
  case (Suc n)
  let ?Q = "\<lambda>r _. r \<noteq> None \<and> (\<forall>ref. r = Some (Some ref) \<longrightarrow> is_terminal (ref_run ref))"
  let ?p = "max 0 (rtm_poll_interval rt)"
  have pulse: "keeps (forward m) (pulse_status rt)"
    and refresh: "keeps (forward m) (refresh env (tracking rt) rid (rtm_adapter rt))"
    using T by (auto simp: ticking_def pulse_status_def intro: refresh_forward forward_basic split: option.split)
  have read: "\<exists>v w'. rtm_monotonic rt w = (Inr v, w') \<and> m w \<le> v \<and> v \<le> m w'" for w
    using T by (cases "rtm_monotonic rt w") (auto simp: ticking_def dest!: spec [of _ w])
  let ?wait = "andthen (external (rtm_monotonic rt)) (\<lambda>now.
        if deadline \<le> now then ret (Some None)
        else andthen (external (rtm_monotonic rt)) (\<lambda>again.
          andthen (external (rtm_sleep rt (min ?p (max 0 (deadline - again))))) (\<lambda>_.
          poll_loop n env rt rid deadline)))"
  have wait: "wp ?wait ?Q (\<lambda>_ _. True) u"
    if u: "m (sys_world s) \<le> m (sys_world u)" for u
  proof -
    obtain now w1 where w1: "rtm_monotonic rt (sys_world u) = (Inr now, w1)" "m (sys_world u) \<le> now" "now \<le> m w1"
      using read by blast
    obtain again w2 where w2: "rtm_monotonic rt w1 = (Inr again, w2)" "m w1 \<le> again" "again \<le> m w2" using read by blast
    let ?d = "min ?p (max 0 (deadline - again))"
    obtain r w3 where w3: "rtm_sleep rt ?d w2 = (r, w3)" by (cases "rtm_sleep rt ?d w2")
    have next_turn: "wp (poll_loop n env rt rid deadline) ?Q (\<lambda>_ _. True) (u\<lparr>sys_world := w3\<rparr>)"
      if "now < deadline" "r = Inr ()"
    proof -
      have slept: "m w2 + ?d \<le> m w3" using T w3 that(2) unfolding ticking_def by blast
      have "0 < ?p * int k" using Suc.prems(1) u w1(2) that(1) by linarith
      then obtain j where j: "k = Suc j" by (cases k) auto
      have rest: "?p * int k = ?p * int j + ?p" "0 \<le> ?p * int j" unfolding j by (simp_all add: distrib_left)
      consider "?d = ?p" | "deadline - again \<le> ?d" by (cases "?p \<le> max 0 (deadline - again)") simp_all
      then have "deadline - m w3 \<le> ?p * int j"
        using rest slept Suc.prems(1) u w1(2,3) w2(2,3) by cases linarith+
      then show ?thesis using Suc.prems(2) j by (intro Suc.IH) simp_all
    qed
    show ?thesis
      using w1 w2 w3 next_turn by (cases "deadline \<le> now"; cases r) (simp_all add: wp_simps)
  qed
  have collected: "wp (case r of
         Inl (AgentCollectError _ _) \<Rightarrow> ret (Some None)
       | Inl e \<Rightarrow> raise e
       | Inr ref \<Rightarrow> andthen (pulse_status rt) (\<lambda>_.
           if is_terminal (ref_run ref) then ret (Some (Some ref)) else ?wait)) ?Q (\<lambda>_ _. True) u"
    if "m (sys_world s) \<le> m (sys_world u)" for r u
  proof (cases r)
    case (Inl e)
    then show ?thesis by (cases e) (simp_all add: wp_ret wp_raise)
  next
    case (Inr ref)
    have "wp (andthen (pulse_status rt) (\<lambda>_. if is_terminal (ref_run ref) then ret (Some (Some ref)) else ?wait))
        ?Q (\<lambda>_ _. True) u"
      unfolding wp_andthen [of "pulse_status rt"]
    proof (rule wp_mono [OF forward_wp [OF pulse]])
      fix v :: "'w sys" assume "m (sys_world u) \<le> m (sys_world v)"
      then have "wp ?wait ?Q (\<lambda>_ _. True) v" using that by (intro wait) simp
      then show "wp (if is_terminal (ref_run ref) then ret (Some (Some ref)) else ?wait) ?Q (\<lambda>_ _. True) v"
        by (cases "is_terminal (ref_run ref)") (simp_all only: if_True if_False wp_ret option.inject, simp)
    qed simp
    then show ?thesis using Inr by simp
  qed
  show ?case
    unfolding poll_loop.simps wp_andthen [of "pulse_status rt"] wp_andthen [of "attempt _"] wp_attempt
    by (rule wp_mono [OF forward_wp [OF pulse]], rule wp_mono [OF forward_wp [OF refresh]])
      (simp_all only: collected order_trans TrueI)
qed simp

text \<open>More fuel does not change a turn that did not run out.\<close>

definition extends :: "('w, 'a option) call \<Rightarrow> ('w, 'a option) call \<Rightarrow> bool" where
  "extends c c' \<longleftrightarrow> (\<forall>s. fst (c s) \<noteq> Inr None \<longrightarrow> c' s = c s)"

lemma extends_refl: "extends c c"
  by (simp add: extends_def)

lemma extends_andthen: "(\<And>a. extends (f a) (g a)) \<Longrightarrow> extends (andthen m f) (andthen m g)"
  by (auto simp: extends_def andthen_def split: prod.splits sum.splits)

lemma extends_if: "extends c c' \<Longrightarrow> extends d d' \<Longrightarrow> extends (if b then c else d) (if b then c' else d')"
  by simp

lemma poll_loop_extends: "n \<le> k \<Longrightarrow> extends (poll_loop n env rt rid deadline) (poll_loop k env rt rid deadline)"
proof (induction n arbitrary: k)
  case 0
  then show ?case by (simp add: extends_def ret_def)
next
  case (Suc n)
  then obtain j where j: "k = Suc j" "n \<le> j" by (cases k) auto
  have step: "extends (case r of
         Inl (AgentCollectError a b) \<Rightarrow> ret (Some None)
       | Inl e \<Rightarrow> raise e
       | Inr ref \<Rightarrow> f ref) (case r of
         Inl (AgentCollectError a b) \<Rightarrow> ret (Some None)
       | Inl e \<Rightarrow> raise e
       | Inr ref \<Rightarrow> g ref)" if "\<And>ref. extends (f ref) (g ref)"
    for r :: "py_error + run_refresh" and f g :: "run_refresh \<Rightarrow> ('a, run_refresh option option) call"
    using that by (auto simp: extends_refl split: sum.split py_error.split)
  show ?case
    unfolding j(1) poll_loop.simps
    by (intro extends_andthen step extends_if extends_refl Suc.IH j(2))
qed

lemma poll_loop_fuel: "poll_loop n env (rt\<lparr>rtm_fuel := k\<rparr>) rid deadline = poll_loop n env rt rid deadline"
proof (induction n)
  case (Suc n)
  have part: "pulse_status (rt\<lparr>rtm_fuel := k\<rparr>) = pulse_status rt" "tracking (rt\<lparr>rtm_fuel := k\<rparr>) = tracking rt"
    "rtm_adapter (rt\<lparr>rtm_fuel := k\<rparr>) = rtm_adapter rt" "rtm_monotonic (rt\<lparr>rtm_fuel := k\<rparr>) = rtm_monotonic rt"
    "rtm_sleep (rt\<lparr>rtm_fuel := k\<rparr>) = rtm_sleep rt"
    "rtm_poll_interval (rt\<lparr>rtm_fuel := k\<rparr>) = rtm_poll_interval rt"
    by (simp_all add: pulse_status_def tracking_def)
  show ?case unfolding poll_loop.simps part Suc.IH ..
qed simp

section \<open>Selection\<close>

text \<open>The order of preference as one list; the invocation takes its first element.\<close>

definition preference :: "store \<Rightarrow> factory_task list" where
  "preference d = (let tasks = (\<lambda>st. list_tasks d (Some st));
       asked = (\<lambda>t. truthy (latest_rework_feedback d (task_id t)));
       again = (\<lambda>t. let runs = list_runs d (Some (task_id t)) in runs \<noteq> [] \<and> (asked t \<or> gate_rework runs));
       waiting = tasks Task_WAITING_HUMAN in
     tasks Task_CHANGES_REQUESTED @ filter again (tasks Task_READY) @
     filter asked (concat (map tasks [Task_CLAIMED, Task_RUNNING, Task_VALIDATING, Task_PR_OPEN])) @
     (if waiting = []
      then concat (map tasks [Task_PR_OPEN, Task_VALIDATING, Task_RUNNING, Task_CLAIMED, Task_READY, Task_DISCOVERED])
      else filter (\<lambda>t. task_kind t = OPERATIONAL)
          (concat (map tasks [Task_VALIDATING, Task_RUNNING, Task_CLAIMED, Task_READY, Task_DISCOVERED])) @ waiting))"

definition first_of :: "'a list \<Rightarrow> 'a option" where
  "first_of xs = (case xs of [] \<Rightarrow> None | x # _ \<Rightarrow> Some x)"

lemma first_of_append: "first_of (xs @ ys) = (case first_of xs of None \<Rightarrow> first_of ys | Some x \<Rightarrow> Some x)"
  by (cases xs) (simp_all add: first_of_def)

lemma first_of_find: "find p xs = first_of (filter p xs)"
  by (induction xs) (simp_all add: first_of_def)

text \<open>A call that only reads: what it returns is a function of the store.\<close>

definition reads_as :: "store \<Rightarrow> ('w, 'a) call \<Rightarrow> 'a \<Rightarrow> bool" where
  "reads_as d c a \<longleftrightarrow> (\<forall>s. sys_db s = d \<longrightarrow> wp c (\<lambda>r u. r = a \<and> sys_db u = d) (\<lambda>_ _. False) s)"

lemma reads_as_ret: "reads_as d (ret a) a"
  by (simp add: reads_as_def wp_ret)

lemma reads_as_read: "quiet env \<Longrightarrow> reads_as d (db_read env f) (f d)"
  by (simp add: reads_as_def wp_simps)

lemma reads_as_andthen:
  assumes "reads_as d m a" "reads_as d (f a) b" shows "reads_as d (andthen m f) b"
  unfolding reads_as_def wp_andthen
proof (intro allI impI)
  fix s :: "'a sys" assume "sys_db s = d"
  then show "wp m (\<lambda>x. wp (f x) (\<lambda>r u. r = b \<and> sys_db u = d) (\<lambda>_ _. False)) (\<lambda>_ _. False) s"
    using assms by (auto simp: reads_as_def intro: wp_mono [of m])
qed

lemma reads_as_first:
  assumes "\<And>x. x \<in> set xs \<Longrightarrow> reads_as d (f x) (first_of (h x))"
  shows "reads_as d (first_result f xs) (first_of (concat (map h xs)))"
  using assms
proof (induction xs)
  case (Cons x xs)
  show ?case
    unfolding first_result.simps
    by (rule reads_as_andthen [where a = "first_of (h x)"])
      (use Cons in \<open>auto simp: first_of_append intro: reads_as_ret split: option.split\<close>)
qed (simp add: first_of_def reads_as_ret)

lemma reads_as_filter:
  assumes "\<And>x. x \<in> set xs \<Longrightarrow> reads_as d (f x) (if p x then Some x else None)"
  shows "reads_as d (first_result f xs) (first_of (filter p xs))"
proof -
  have "reads_as d (first_result f xs) (first_of (concat (map (\<lambda>x. filter p [x]) xs)))"
  proof (intro reads_as_first)
    fix x assume "x \<in> set xs"
    then show "reads_as d (f x) (first_of (filter p [x]))"
      using assms [of x] by (cases "p x") (simp_all add: first_of_def)
  qed
  moreover have "concat (map (\<lambda>x. filter p [x]) xs) = filter p xs" by (induction xs) simp_all
  ultimately show ?thesis by simp
qed

text \<open>\<open>if found: return found\<close>, then the rest.\<close>

lemma reads_as_or:
  assumes "reads_as d m (first_of xs)" "reads_as d n (first_of ys)"
  shows "reads_as d (andthen m (\<lambda>r. if r \<noteq> None then ret r else n)) (first_of (xs @ ys))"
  by (rule reads_as_andthen [OF assms(1)])
    (use assms(2) in \<open>auto simp: first_of_append intro: reads_as_ret split: option.split\<close>)

lemma reads_as_or_head:
  assumes "reads_as d m xs" "reads_as d n (first_of ys)"
  shows "reads_as d (andthen m (\<lambda>l. if l \<noteq> [] then ret (Some (hd l)) else n)) (first_of (xs @ ys))"
  by (rule reads_as_andthen [OF assms(1)])
    (use assms(2) in \<open>cases xs; simp add: first_of_def reads_as_ret\<close>)

lemma reads_as_each_all:
  "reads_as d (each (\<lambda>t acc. andthen (ret True) (\<lambda>ok. ret (if ok then acc @ [t] else acc))) xs acc) (acc @ xs)"
proof (induction xs arbitrary: acc)
  case (Cons x xs)
  show ?case
    unfolding each.simps
    by (rule reads_as_andthen [where a = "acc @ [x]"], rule reads_as_andthen [where a = True])
      (use Cons [of "acc @ [x]"] in \<open>simp_all add: reads_as_ret\<close>)
qed (simp add: reads_as_ret)

lemma selectable_reads:
  assumes "quiet env" "rtm_sprint rt = None"
  shows "reads_as d (selectable env rt False st) (list_tasks d (Some st))"
  unfolding selectable_def selection_allows_def using assms(2)
  by (intro reads_as_andthen [OF reads_as_read [OF assms(1)]])
    (use reads_as_each_all [of d _ "[]"] in simp)

lemma select_task_reads:
  assumes Q: "quiet env" and none: "rtm_sprint rt = None"
  shows "reads_as d (select_task env rt) (first_of (preference d))"
proof -
  let ?asked = "\<lambda>t. truthy (latest_rework_feedback d (task_id t))"
  let ?again = "\<lambda>t. list_runs d (Some (task_id t)) \<noteq> [] \<and>
    (?asked t \<or> gate_rework (list_runs d (Some (task_id t))))"
  note sel = selectable_reads [OF Q none]
  have fb: "reads_as d (has_feedback env tid) (truthy (latest_rework_feedback d tid))" for tid
    unfolding has_feedback_def by (rule reads_as_read [OF Q])
  have ready: "reads_as d (ready_rework env t) (if ?again t then Some t else None)" for t
  proof (cases "list_runs d (Some (task_id t)) = []")
    case False
    have "reads_as d (andthen (has_feedback env (task_id t)) (\<lambda>fb.
        ret (if fb \<or> gate_rework (list_runs d (Some (task_id t))) then Some t else None)))
      (if ?asked t \<or> gate_rework (list_runs d (Some (task_id t))) then Some t else None)"
      by (rule reads_as_andthen [OF fb]) (rule reads_as_ret)
    then show ?thesis
      unfolding ready_rework_def Let_def using False
      by (intro reads_as_andthen [OF reads_as_read [OF Q]]) (simp only: if_False simp_thms)
  qed (simp add: ready_rework_def Let_def reads_as_andthen [OF reads_as_read [OF Q]] reads_as_ret)
  have feedback: "reads_as d (first_result (\<lambda>st. andthen (selectable env rt False st) (\<lambda>tasks.
      first_result (\<lambda>t. andthen (has_feedback env (task_id t)) (\<lambda>fb. ret (if fb then Some t else None))) tasks)) sts)
    (first_of (filter ?asked (concat (map (\<lambda>st. list_tasks d (Some st)) sts))))" for sts
    unfolding filter_concat map_map o_def
    by (intro reads_as_first reads_as_andthen [OF sel] reads_as_filter reads_as_andthen [OF fb] reads_as_ret)
  have some: "reads_as d (first_selectable env rt p sts)
    (first_of (filter p (concat (map (\<lambda>st. list_tasks d (Some st)) sts))))" for p sts
    unfolding first_selectable_def filter_concat map_map o_def
    by (intro reads_as_first reads_as_andthen [OF sel]) (simp add: first_of_find reads_as_ret)
  have waiting: "reads_as d (andthen (selectable env rt False Task_WAITING_HUMAN) (\<lambda>waiting.
      if waiting \<noteq> []
      then andthen (first_selectable env rt p sts) (\<lambda>operational.
        ret (if operational \<noteq> None then operational else Some (hd waiting)))
      else first_selectable env rt (\<lambda>_. True) sts'))
    (first_of (if list_tasks d (Some Task_WAITING_HUMAN) = []
       then concat (map (\<lambda>st. list_tasks d (Some st)) sts')
       else filter p (concat (map (\<lambda>st. list_tasks d (Some st)) sts)) @ list_tasks d (Some Task_WAITING_HUMAN)))"
    for p sts sts'
  proof (rule reads_as_andthen [OF sel], cases "list_tasks d (Some Task_WAITING_HUMAN)")
    case Nil
    then show "reads_as d (if list_tasks d (Some Task_WAITING_HUMAN) \<noteq> []
        then andthen (first_selectable env rt p sts) (\<lambda>operational.
          ret (if operational \<noteq> None then operational else Some (hd (list_tasks d (Some Task_WAITING_HUMAN)))))
        else first_selectable env rt (\<lambda>_. True) sts')
      (first_of (if list_tasks d (Some Task_WAITING_HUMAN) = []
         then concat (map (\<lambda>st. list_tasks d (Some st)) sts')
         else filter p (concat (map (\<lambda>st. list_tasks d (Some st)) sts)) @ list_tasks d (Some Task_WAITING_HUMAN)))"
      using some [of "\<lambda>_. True" sts'] by simp
  next
    case (Cons w ws)
    have "reads_as d (andthen (first_selectable env rt p sts) (\<lambda>operational.
          ret (if operational \<noteq> None then operational else Some w)))
        (first_of (filter p (concat (map (\<lambda>st. list_tasks d (Some st)) sts)) @ w # ws))"
      by (rule reads_as_andthen [OF some])
        (auto simp: first_of_append intro: reads_as_ret split: option.split, simp add: first_of_def reads_as_ret)
    then show "reads_as d (if list_tasks d (Some Task_WAITING_HUMAN) \<noteq> []
        then andthen (first_selectable env rt p sts) (\<lambda>operational.
          ret (if operational \<noteq> None then operational else Some (hd (list_tasks d (Some Task_WAITING_HUMAN)))))
        else first_selectable env rt (\<lambda>_. True) sts')
      (first_of (if list_tasks d (Some Task_WAITING_HUMAN) = []
         then concat (map (\<lambda>st. list_tasks d (Some st)) sts')
         else filter p (concat (map (\<lambda>st. list_tasks d (Some st)) sts)) @ list_tasks d (Some Task_WAITING_HUMAN)))"
      unfolding Cons by (simp cong: if_cong)
  qed
  show ?thesis
    unfolding select_task_def preference_def Let_def
    by (intro reads_as_or_head [OF sel] reads_as_andthen [OF sel] reads_as_or [OF reads_as_filter [OF ready]]
        reads_as_or [OF feedback] waiting)
qed

section \<open>What an operational issue can start\<close>

lemma noted_task:
  assumes "update_task t d = Inr (t', d')"
  shows "t' = t \<and> map_option task_status (get_task d' (task_id t)) = Some (task_status t)"
proof -
  have "t' = t" using assms by (rule update_task_effect)
  then show ?thesis using noted_status(1) [OF assms, of "task_id t"] by (simp add: status_in_store_def)
qed

lemma block_outcome:
  "wp (block env tid reason) (\<lambda>t u. task_id t = tid \<and> task_status t = Task_BLOCKED \<and>
     task_blocked_reason t = Some reason \<and> status_of u tid = Some Task_BLOCKED) (\<lambda>_ _. True) s"
proof -
  have commented: "wp (tasks_update env (c\<lparr>task_blocked_reason := Some reason\<rparr>)) (\<lambda>t u. task_id t = tid \<and> task_status t = Task_BLOCKED \<and>
     task_blocked_reason t = Some reason \<and> status_of u tid = Some Task_BLOCKED) (\<lambda>_ _. True) u"
    if "task_id c = tid" "task_status c = Task_BLOCKED" for c u
    using that noted_task by (fastforce simp: tasks_update_def wp_simps status_of_def split: sum.splits)
  show ?thesis
    unfolding block_def wp_andthen
    by (rule wp_mono [OF transition_outcome], rule commented) simp_all
qed

definition blocked_result :: "factory_task \<Rightarrow> runtime_result \<Rightarrow> 'w sys \<Rightarrow> bool" where
  "blocked_result t res s \<longleftrightarrow> rsl_task res = Some (task_id t) \<and> rsl_status res = Some Task_BLOCKED \<and>
     rsl_run res = None \<and> status_of s (task_id t) = Some Task_BLOCKED"

lemma block_result_outcome:
  "wp (ends_with (block_result env t reason outcome summary))
     (\<lambda>r u. case r of Inl res \<Rightarrow> blocked_result t res u | Inr run \<Rightarrow> G run u) (\<lambda>_ _. True) s"
  unfolding ends_with_def block_result_def wp_andthen
  by (rule wp_mono [OF block_outcome]) (simp_all add: wp_ret blocked_result_def run_result_def)

text \<open>The artifact of an accepted declaration has the proof bytes.\<close>

lemma scratch_artifact_proof:
  assumes "parse_scratch_artifact sha t = Inr a"
  shows "fromhex (points (art_payload_hex a)) = Some PROOF_BYTES \<and> art_sha256 a = sha"
proof -
  obtain name hex d where "artifact_of sha (Some name) (Some hex) (Some d) = Inr a"
    using parse_body_Inr(1) [of sha "task_body t" a] assms unfolding parse_scratch_artifact_def by blast
  then have f: "fromhex hex = Some PROOF_BYTES" "sha_pattern d" "points sha = d"
    and a: "art_payload_hex a = text_of (map lower_point hex)" "art_sha256 a = text_of d"
    by (auto simp: artifact_of_def split: option.splits if_splits)
  have "points (text_of d) = points sha" using points_text [OF sha_bytes [OF f(2)]] f(3) by simp
  then have "text_of d = sha" using points_inj by (auto dest: injD)
  then show ?thesis
    using f a points_text [OF fromhex_bytes [OF f(1)]] by (simp add: fromhex_lower del: map_map)
qed

definition started_or_blocked :: "'w runtime \<Rightarrow> factory_task \<Rightarrow> runtime_result + agent_run \<Rightarrow> 'w sys \<Rightarrow> bool" where
  "started_or_blocked rt t r u \<longleftrightarrow> (case r of Inl res \<Rightarrow> blocked_result t res u
     | Inr run \<Rightarrow> (\<exists>a. parse_scratch_artifact (rtm_proof_sha rt) t = Inr a) \<and> run_task_id run = task_id t \<and>
         has_run u (run_id run) (task_id t) \<and> status_of u (task_id t) = Some Task_RUNNING)"

lemma start_operational_scratch:
  assumes "opp_enabled (rtm_policy rt) \<subseteq> {Cap_SCRATCH, Cap_BACKUP}"
  shows "wp (start_operational env rt t summary)
    (started_or_blocked rt t) (\<lambda>_ _. True) s"
proof -
  let ?Q = "started_or_blocked rt t :: _ \<Rightarrow> 'a sys \<Rightarrow> bool"
  have deny: "\<not> permits (rtm_policy rt) c host path command target"
    if "c \<noteq> Cap_SCRATCH" for c host path command target
    using assms that by (cases c) auto
  have blk: "wp (ends_with (block_result env t reason outcome summary)) ?Q (\<lambda>_ _. True) u" for reason outcome u
    by (rule wp_mono [OF block_result_outcome [where G = "\<lambda>_ _. False"]]) (auto simp: started_or_blocked_def split: sum.splits)
  have pol: "wp (ends_with (policy_blocked env t summary)) ?Q (\<lambda>_ _. True) u" for u
    unfolding policy_blocked_def by (rule blk)
  have ask: "wp (ends_with (andthen (external p) (\<lambda>_. policy_blocked env t summary))) ?Q (\<lambda>_ _. True) u"
    for p :: "('a, string) port" and u
    using pol unfolding ends_with_def by (simp add: wp_simps split: prod.splits sum.splits)
  have db: "wp (ends_with (run_database env rt t target summary)) ?Q (\<lambda>_ _. True) u" for target u
    unfolding run_database_def by (simp add: deny pol ask del: permits.simps split: option.split)
  have svc: "wp (ends_with (run_service_health env rt t target summary)) ?Q (\<lambda>_ _. True) u" for target u
    unfolding run_service_health_def by (simp add: deny pol ask del: permits.simps split: option.split)
  have dk: "wp (ends_with (run_docker env rt t target summary)) ?Q (\<lambda>_ _. True) u" for target u
    unfolding run_docker_def by (simp add: deny pol del: permits.simps split: option.split)
  have go: "wp (andthen (dispatch env ds ad (task_id t)) (\<lambda>run. ret (Inr run))) ?Q (\<lambda>_ _. True) u"
    if "parse_scratch_artifact (rtm_proof_sha rt) t = Inr a" for ds ad a u
    unfolding wp_andthen by (rule wp_mono [OF dispatch_outcome]) (use that in \<open>auto simp: wp_ret started_or_blocked_def\<close>)
  show ?thesis
    unfolding start_operational_def
    by (auto simp: db svc dk pol blk intro: go split: sum.split option.split)
qed

text \<open>Another engine, and another way to prepare a workspace for it.\<close>

definition with_engine :: "(factory_task \<Rightarrow> workspace \<Rightarrow> context_pack \<Rightarrow> ('w, agent_run) port) \<Rightarrow>
    (factory_task \<Rightarrow> workspace \<Rightarrow> ('w, workspace) port) \<Rightarrow> 'w runtime \<Rightarrow> 'w runtime" where
  "with_engine f g rt = rt\<lparr>rtm_adapter := (rtm_adapter rt)\<lparr>ad_dispatch := f\<rparr>,
     rtm_operational := map_option (\<lambda>(pv, root). (pv\<lparr>pv_prepare := g\<rparr>, root)) (rtm_operational rt)\<rparr>"

lemma with_engine_same:
  "run_database env (with_engine f g rt) = run_database env rt"
  "run_service_health env (with_engine f g rt) = run_service_health env rt"
  "run_docker env (with_engine f g rt) = run_docker env rt"
  "rtm_policy (with_engine f g rt) = rtm_policy rt" "rtm_proof_sha (with_engine f g rt) = rtm_proof_sha rt"
  "ad_kind (rtm_adapter (with_engine f g rt)) = ad_kind (rtm_adapter rt)"
  "operational_dispatcher (with_engine f g rt) = None \<longleftrightarrow> operational_dispatcher rt = None"
  by (simp_all add: with_engine_def fun_eq_iff run_database_def run_service_health_def run_docker_def operational_dispatcher_def
      cong: option.case_cong)

lemma start_without_artifact:
  assumes "\<And>a. parse_scratch_artifact (rtm_proof_sha rt) t \<noteq> Inr a"
  shows "start_operational env (with_engine f g rt) t summary = start_operational env rt t summary"
proof -
  obtain e where e: "parse_scratch_artifact (rtm_proof_sha rt) t = Inl e"
    using assms by (cases "parse_scratch_artifact (rtm_proof_sha rt) t") auto
  show ?thesis
  proof (cases "operational_dispatcher rt")
    case None
    then have n: "operational_dispatcher (with_engine f g rt) = None" by (simp add: with_engine_same(7))
    show ?thesis unfolding start_operational_def with_engine_same(1-6) None n option.case ..
  next
    case (Some ds)
    then obtain ds' where ds': "operational_dispatcher (with_engine f g rt) = Some ds'" using with_engine_same(7) [of f g rt] by auto
    show ?thesis unfolding start_operational_def with_engine_same(1-6) Some ds' e option.case sum.case ..
  qed
qed

end
