(* ===== verification/Status_Facts.thy ===== *)
theory Status_Facts
  imports Status_Service Publication_Facts Sprint_Facts
begin

text \<open>
  Delivery of status events: an event leaves the queue only after the channel accepted a snapshot of
  its task, or when the task no longer exists.
\<close>

section \<open>The view of a task only reads\<close>

lemma for_task_view:
  assumes "quiet env"
  shows "wp (for_task env sv tid) (\<lambda>snp u. snp_task snp = Some tid \<and> sys_db u = sys_db s)
    (\<lambda>e u. get_task (sys_db s) tid = None \<and> sys_db u = sys_db s) s"
  unfolding for_task_def latest_failed_gates_def run_pull_request_def wp_simps
  using assms
  by (auto simp: wp_simps view_of_def Let_def split: option.splits dest: get_taskD)

lemma current_same:
  assumes Q: "quiet env" shows "keeps (on_db (=)) (current env sv)"
proof -
  have failed: "keeps (on_db (=)) (latest_failed_gates env tid)" for tid
    unfolding latest_failed_gates_def by (intro same_intros Q)
  have task: "keeps (on_db (=)) (for_task env sv tid)" for tid
    unfolding for_task_def run_pull_request_def by (intro same_intros failed Q)
  show ?thesis
    unfolding current_def active_tasks_def Let_def
    by (intro same_intros sys_same.keeps_each failed task Q)
qed

section \<open>What a delivery may mark\<close>

definition accepted :: "'w publisher \<Rightarrow> string \<Rightarrow> bool" where
  "accepted p tid \<longleftrightarrow> (\<exists>snp w. snp_task snp = Some tid \<and> fst (spb_sync p snp w) = Inr ())"

text \<open>Undelivered events stay in the queue unless \<open>G\<close> holds of their task; tasks are unchanged.\<close>

definition retains :: "(string \<Rightarrow> bool) \<Rightarrow> store \<Rightarrow> store \<Rightarrow> bool" where
  "retains G d d' \<longleftrightarrow> db_tasks d' = db_tasks d \<and>
     (\<forall>e \<in> set (db_status_events d). se_delivered_at e = None \<longrightarrow>
       e \<in> set (db_status_events d') \<or> G (se_task e))"

text \<open>The queue names the events of the store.\<close>

definition queue_of :: "(string \<times> string) list \<Rightarrow> store \<Rightarrow> bool" where
  "queue_of queue d \<longleftrightarrow> (\<forall>e \<in> set (db_status_events d). \<forall>tid.
     (se_transition e, tid) \<in> set queue \<longrightarrow> se_task e = tid)"

lemma pending_queue:
  assumes "distinct (map se_transition (db_status_events d))" shows "queue_of (pending d) d"
proof -
  have "\<exists>e \<in> set (db_status_events d). x = (se_transition e, se_task e)" if "x \<in> set (pending d)" for x
    using that by (auto simp: pending_def undelivered_def dest!: in_set_takeD)
  then show ?thesis
    using assms by (fastforce simp: queue_of_def distinct_map dest: inj_onD)
qed

lemma mark_delivered_retains:
  assumes "mark_delivered now event d = Inr (u, d')" "retains G d0 d" "queue_of queue d"
    "(event, tid) \<in> set queue" "G tid"
  shows "retains G d0 d' \<and> queue_of queue d'"
proof -
  let ?p = "\<lambda>e. se_transition e = event \<and> se_delivered_at e = None"
  have d': "db_tasks d' = db_tasks d" "db_status_events d' =
      set_rows ?p (\<lambda>e. e\<lparr>se_delivered_at := Some now\<rparr>) (db_status_events d)"
    using assms(1) by (auto simp: mark_delivered_def)
  have task: "se_task e = tid" if "e \<in> set (db_status_events d)" "?p e" for e
    using assms(3,4) that by (auto simp: queue_of_def)
  have "e \<in> set (db_status_events d') \<or> G (se_task e)" if "e \<in> set (db_status_events d)" for e
  proof (cases "?p e")
    case True
    then show ?thesis using task [OF that] assms(5) by simp
  next
    case False
    then have "e \<in> set (db_status_events d')"
      using that unfolding d'(2) set_rows_def by (auto intro!: image_eqI [of e _ e])
    then show ?thesis ..
  qed
  moreover have "queue_of queue d'"
    using assms(3) unfolding queue_of_def d'(2) set_rows_def by (auto split: if_splits)
  ultimately show ?thesis using assms(2) d'(1) unfolding retains_def by metis
qed

lemma mark_all_retains:
  fixes s :: "'w sys"
  assumes "quiet env" "retains G d0 (sys_db s)" "queue_of queue (sys_db s)" "G tid"
  shows "wp (mark_all env tid queue) (\<lambda>_ u. retains G d0 (sys_db u) \<and> queue_of queue (sys_db u))
    (\<lambda>_ u. retains G d0 (sys_db u)) s"
  unfolding mark_all_def
proof (rule wp_mono [OF wp_each [where I = "\<lambda>_ u. retains G d0 (sys_db u) \<and> queue_of queue (sys_db u)"
      and E = "\<lambda>_ u. retains G d0 (sys_db u)"]])
  fix x a and u :: "'w sys"
  assume x: "x \<in> set queue" and I: "retains G d0 (sys_db u) \<and> queue_of queue (sys_db u)"
  obtain event queued where q: "x = (event, queued)" by (cases x)
  have "(event, tid) \<in> set queue" if "queued = tid" using x q that by simp
  then show "wp ((case x of (event, queued) \<Rightarrow> \<lambda>_. if queued = tid
        then db_write env (\<lambda>now ids. mark_delivered now event) else ret ()) a)
      (\<lambda>_ u. retains G d0 (sys_db u) \<and> queue_of queue (sys_db u)) (\<lambda>_ u. retains G d0 (sys_db u)) u"
    using assms(1,4) I
    by (auto simp: q wp_simps split: sum.splits dest!: mark_delivered_retains [where queue = queue and tid = tid])
qed (use assms in auto)

lemma flush_task_retains:
  fixes s :: "'w sys"
  assumes Q: "quiet env" and R: "retains G d0 (sys_db s)" "queue_of queue (sys_db s)"
    and G: "\<And>tid. accepted p tid \<or> get_task d0 tid = None \<Longrightarrow> G tid"
  shows "wp (flush_task env p queue tid) (\<lambda>_ u. retains G d0 (sys_db u) \<and> queue_of queue (sys_db u))
    (\<lambda>_ u. retains G d0 (sys_db u)) s"
proof -
  have tasks: "get_task (sys_db s) tid = get_task d0 tid" 
    using R(1) by (simp add: retains_def get_task_def task_row_of_def)
  have mark: "wp (mark_all env tid queue) (\<lambda>_ u. retains G d0 (sys_db u) \<and> queue_of queue (sys_db u))
      (\<lambda>_ u. retains G d0 (sys_db u)) u" if "sys_db u = sys_db s" "G tid" for u :: "'w sys"
    using that R by (intro mark_all_retains [OF Q]) simp_all
  have told: "wp (andthen (external (spb_sync p snp)) (\<lambda>_.
       andthen (case spb_alert p of
           Some alert \<Rightarrow> if snp_phase snp \<in> alert_phases then external (alert snp) else ret ()
         | None \<Rightarrow> ret ()) (\<lambda>_. mark_all env tid queue)))
      (\<lambda>_ u. retains G d0 (sys_db u) \<and> queue_of queue (sys_db u)) (\<lambda>_ u. retains G d0 (sys_db u)) u"
    if "sys_db u = sys_db s" "snp_task snp = Some tid" for u :: "'w sys" and snp
  proof -
    have "G tid" if "spb_sync p snp (sys_world u) = (Inr (), w)" for w
      using G [of tid] \<open>snp_task snp = Some tid\<close> that unfolding accepted_def by (metis fst_conv)
    then show ?thesis
      using that R by (auto simp: wp_simps intro!: mark split: sum.splits prod.splits option.splits)
  qed
  show ?thesis
    unfolding flush_task_def wp_andthen [of "attempt _"] wp_attempt
  proof (rule wp_mono [OF for_task_view [OF Q]], goal_cases)
    case (1 snp u)
    then show ?case by (simp only: sum.case) (blast intro: told)
  next
    case (2 e u)
    then have "G tid" using G [of tid] tasks by simp
    then show ?case using 2 R by (auto simp: wp_simps intro!: mark split: py_error.splits)
  qed
qed

section \<open>A flush\<close>

lemma queue_observation_keeps:
  assumes "queue_observation now event tid phase d = Inr (u, d')"
  shows "db_tasks d' = db_tasks d" "set (db_status_events d) \<subseteq> set (db_status_events d')"
    "distinct (map se_transition (db_status_events d)) \<Longrightarrow>
     distinct (map se_transition (db_status_events d'))"
  using assms by (auto simp: queue_observation_def list_ex_iff split: if_splits)

lemma observe_snapshot_retains:
  assumes Q: "quiet env" and D: "distinct (map se_transition (db_status_events (sys_db s)))"
  shows "wp (observe_snapshot env snp)
    (\<lambda>_ u. retains G (sys_db s) (sys_db u) \<and> distinct (map se_transition (db_status_events (sys_db u))))
    (\<lambda>_ u. retains G (sys_db s) (sys_db u)) s"
  using assms queue_observation_keeps
  by (auto simp: observe_snapshot_def retains_def wp_simps subset_iff split: option.splits sum.splits)

lemma flush_retains:
  fixes s :: "'w sys"
  assumes Q: "quiet env" and D: "distinct (map se_transition (db_status_events (sys_db s)))"
    and G: "\<And>tid. accepted p tid \<or> get_task (sys_db s) tid = None \<Longrightarrow> G tid"
  shows "wp (flush env p) (\<lambda>_ u. retains G (sys_db s) (sys_db u)) (\<lambda>_ u. retains G (sys_db s) (sys_db u)) s"
proof -
  have told: "wp (each (\<lambda>tid _. flush_task env p queue tid) tids ())
      (\<lambda>_ u. retains G (sys_db s) (sys_db u)) (\<lambda>_ u. retains G (sys_db s) (sys_db u)) u"
    if "retains G (sys_db s) (sys_db u)" "queue_of queue (sys_db u)" for queue tids and u :: "'w sys"
    by (rule wp_mono [OF wp_each [where
        I = "\<lambda>_ u. retains G (sys_db s) (sys_db u) \<and> queue_of queue (sys_db u)"
        and E = "\<lambda>_ u. retains G (sys_db s) (sys_db u)"]])
      (use that G in \<open>auto intro: flush_task_retains [OF Q]\<close>)
  show ?thesis
    unfolding flush_def wp_andthen [of "current _ _"]
  proof (rule wp_mono [OF wp_keeps [OF current_same [OF Q]]], goal_cases)
    case (1 snp u)
    then have u: "sys_db u = sys_db s" by (simp add: on_db_def)
    show ?case
      unfolding wp_andthen [of "observe_snapshot _ _"]
      by (rule wp_mono [OF observe_snapshot_retains [OF Q, of u]])
        (use u D Q in \<open>auto simp: wp_simps intro!: told pending_queue\<close>)
  next
    case (2 e u)
    then show ?case by (simp add: on_db_def retains_def)
  qed
qed

end
