(* ===== verification/Runtime_Properties.thy ===== *)
theory Runtime_Properties
  imports Sample_Data Feedback_Facts Runtime_Facts Status_Facts
begin

text \<open>The guarantees of the runtime, of feedback and of the status queue, with a runtime whose clock
  is its external world: every reading takes one microsecond.\<close>

section \<open>Samples\<close>

definition timed_adapter :: "int adapter" where
  "timed_adapter = \<lparr>ad_kind = CODEX, ad_dispatch = (\<lambda>t w pack u. (Inr (sample_run ''r'' Run_RUNNING), u)),
     ad_collect = (\<lambda>run u. (Inr (if u < 15 then run else run\<lparr>run_status := Run_SUCCEEDED\<rparr>), u)),
     ad_heartbeat = None\<rparr>"

definition timed_provisioner :: "int provisioner" where
  "timed_provisioner = \<lparr>pv_prepare = (\<lambda>t w u. (Inr w, u)), pv_repair = (\<lambda>t w u. (Inr w, u))\<rparr>"

definition sample_view :: status_view where
  "sample_view = \<lparr>stv_stale_after = 600000000, stv_sha = (\<lambda>x. ''d'')\<rparr>"

definition timed_publisher :: "int publisher" where
  "timed_publisher = \<lparr>spb_view = sample_view, spb_sync = (\<lambda>snp u. (Inr (), u)), spb_alert = None\<rparr>"

definition timed_runtime :: "env \<Rightarrow> int runtime" where
  "timed_runtime env = \<lparr>rtm_source = \<lparr>iso_list = (\<lambda>repo u. (Inr [], u)),
       iso_eligible = (\<lambda>repo src u. (Inr True, u)), iso_get = (\<lambda>repo src u. (Inl (OtherError ''x''), u))\<rparr>,
     rtm_repository = \<lparr>repo_slug = ''o/r'', repo_role = TARGET, repo_default_branch = ''main'',
       repo_fork_slug = None\<rparr>,
     rtm_adapter = timed_adapter, rtm_provisioner = timed_provisioner, rtm_root = ''/w'',
     rtm_gate_specs = [sample_gate], rtm_task_gate_specs = [],
     rtm_gate_runner = (\<lambda>g w u. (Inr \<lparr>gate_name = ''tests'', gate_status = Gate_PASSED,
       gate_detail = Some ''exit_code=0'', gate_required = True\<rparr>, u)),
     rtm_revision_inspector = (\<lambda>w u. (Inr ''sha'', u)),
     rtm_publisher = (\<lambda>t run u. (Inr \<lparr>rev_commit_sha = ''sha'', rev_branch = ''b''\<rparr>, u)),
     rtm_find_pr = (\<lambda>repo head base u. (Inr None, u)), rtm_open_pr = (\<lambda>pr u. (Inr pr, u)),
     rtm_base_branch = ''main'',
     rtm_security = (\<lambda>t run u. (Inr \<lparr>rvw_rule_version = ''1'', rvw_revision = ''sha'', rvw_findings = []\<rparr>, u)),
     rtm_pr_state = None, rtm_policy = default_operational_policy,
     rtm_operational = Some (timed_provisioner, ''/ops''), rtm_acceptance = None, rtm_database = None,
     rtm_health = None, rtm_docker = None, rtm_code_capable = True, rtm_poll_interval = 2, rtm_timeout = 30,
     rtm_heartbeat_interval = 1, rtm_sleep = (\<lambda>d u. (Inr (), u + max 0 d)), rtm_monotonic = (\<lambda>u. (Inr u, u + 1)),
     rtm_pulse = Some (flush env timed_publisher), rtm_backlog = None, rtm_sprint = None,
     rtm_recovery = default_policy, rtm_builder = \<lparr>cb_sources = [], cb_budget = 48000, cb_digest = (\<lambda>s. ''d'')\<rparr>,
     rtm_registry = None, rtm_feedback = None, rtm_pool_mode = False, rtm_pool_links = False,
     rtm_owner_report = None, rtm_owner = None, rtm_proof_sha = ''sha'', rtm_fuel = 31\<rparr>"

definition timed_sys :: "store \<Rightarrow> int sys" where
  "timed_sys d = \<lparr>sys_db = d, sys_world = 0, sys_tick = 0\<rparr>"

text \<open>The runs that the polling witnesses follow.\<close>

definition running_ops :: "store_op list" where
  "running_ops = [Save_task (sample_task ''a'' Task_RUNNING), Save_run 3 (sample_run ''r'' Run_RUNNING)]"

lemma answered: "(case fst p of Inr (Inl _) \<Rightarrow> True | _ \<Rightarrow> False) \<Longrightarrow> \<exists>res s'. p = (Inr (Inl res), s')"
  by (cases p) (auto split: sum.splits)

section \<open>The runtime refines the store\<close>

text \<open>C3. The runtime refines the store.  Whatever its ports answer and however it ends, an invocation, a
  pool worker's invocation and the preparation of a pool change the database only by committed
  operations of the repositories, and by none that is reserved to an operator (terminal
  recoveries, rework requests, the authorization of a sprint, a workspace on its own).  Callbacks
  are taken to do so too, and other processes to commit what they like of the same operations.\<close>

theorem runtime_refines_store:
  assumes "safe_runtime (\<lambda>oper. \<not> operator_op oper) rt" "\<forall>n. list_all (\<lambda>oper. \<not> operator_op oper) (env_other env n)"
  shows "performs (\<lambda>oper. \<not> operator_op oper) (sys_db s) (sys_db (snd (run_once env rt s))) \<and>
    performs (\<lambda>oper. \<not> operator_op oper) (sys_db s) (sys_db (snd (run_task env rt tid s))) \<and>
    performs (\<lambda>oper. \<not> operator_op oper) (sys_db s) (sys_db (snd (prepare_pool env rt s)))"
proof -
  have W: "confined (\<lambda>oper. \<not> operator_op oper) env" using assms(2) by (simp add: confined_def)
  show ?thesis
    using safe_run_once [OF W assms(1)] safe_run_task [OF W assms(1)] safe_prepare_pool [OF W assms(1)]
    by (simp add: keeps_def on_db_def)
qed

lemma timed_runtime_safe:
  "safe_runtime (\<lambda>oper. \<not> operator_op oper) (timed_runtime sample_env)"
  by (auto simp: safe_runtime_def timed_runtime_def confined_def sample_env_def intro!: safe_flush)

text \<open>At a store with a running task: the run ends, is validated and published.\<close>

theorem runtime_refines_store_witness:
  "performs (\<lambda>oper. \<not> operator_op oper) (run_ops running_ops empty_store)
     (sys_db (snd (run_once sample_env (timed_runtime sample_env) (timed_sys (run_ops running_ops empty_store)))))"
  using runtime_refines_store [OF timed_runtime_safe, of sample_env "timed_sys (run_ops running_ops empty_store)"]
  by (simp add: sample_env_def timed_sys_def)

section \<open>Polling\<close>

text \<open>C16. Polling terminates.  With a clock that never goes back, whose readings may repeat, and a sleep that lasts
  at least as long as it was asked to, waiting for a run never runs out of fuel when the fuel exceeds the
  number of poll intervals in the timeout: more fuel does not change what it returns or raises,
  and a refresh that it returns is of a run in a terminal status.\<close>

theorem poll_terminates:
  assumes "ticking m rt" "max 0 (rtm_timeout rt) \<le> max 0 (rtm_poll_interval rt) * int k" "k < rtm_fuel rt"
  shows "(\<forall>n \<ge> rtm_fuel rt. poll_until_terminal env (rt\<lparr>rtm_fuel := n\<rparr>) rid s = poll_until_terminal env rt rid s) \<and>
    (\<forall>ref. fst (poll_until_terminal env rt rid s) = Inr (Some ref) \<longrightarrow> is_terminal (ref_run ref))"
proof -
  obtain v w where w: "rtm_monotonic rt (sys_world s) = (Inr v, w)" "v \<le> m w"
    using assms(1) by (cases "rtm_monotonic rt (sys_world s)") (auto simp: ticking_def dest!: spec [of _ "sys_world s"])
  let ?d = "v + max 0 (rtm_timeout rt)" and ?u = "s\<lparr>sys_world := w\<rparr>"
  let ?r = "\<lambda>k. poll_loop k env rt rid ?d ?u"
  have "?d - m w \<le> max 0 (rtm_poll_interval rt) * int k" using assms(2) w(2) by linarith
  then have due: "?d - m (sys_world ?u) \<le> max 0 (rtm_poll_interval rt) * int k" by (cases s) (simp only: sys.select_convs sys.update_convs)
  have ends: "wp (poll_loop (rtm_fuel rt) env rt rid ?d)
      (\<lambda>r _. r \<noteq> None \<and> (\<forall>ref. r = Some (Some ref) \<longrightarrow> is_terminal (ref_run ref))) (\<lambda>_ _. True) ?u"
    by (rule poll_loop_ends [OF assms(1) due assms(3)])
  have poll: "poll_until_terminal env (rt\<lparr>rtm_fuel := k\<rparr>) rid s =
      andthen (poll_loop k env rt rid ?d) (\<lambda>r. or_raise r (OtherError ''poll fuel'')) ?u" for k
    using w(1) by (simp add: poll_until_terminal_def andthen_def external_def poll_loop_fuel)
  have self: "rt\<lparr>rtm_fuel := rtm_fuel rt\<rparr> = rt" by simp
  have "fst (?r (rtm_fuel rt)) \<noteq> Inr None" using ends by (auto simp: wp_def split: prod.splits sum.splits)
  then have same: "?r k = ?r (rtm_fuel rt)" if "rtm_fuel rt \<le> k" for k
    using poll_loop_extends [OF that] unfolding extends_def by blast
  have "poll_until_terminal env (rt\<lparr>rtm_fuel := k\<rparr>) rid s = poll_until_terminal env (rt\<lparr>rtm_fuel := rtm_fuel rt\<rparr>) rid s"
    if "rtm_fuel rt \<le> k" for k
    unfolding poll andthen_def same [OF that] ..
  moreover have "is_terminal (ref_run ref)" if "fst (poll_until_terminal env rt rid s) = Inr (Some ref)" for ref
    using that ends poll [of "rtm_fuel rt"] unfolding self
    by (auto simp: andthen_def wp_def or_raise_def ret_def raise_def split: prod.splits sum.splits option.splits)
  ultimately show ?thesis unfolding self by blast
qed

definition silent_runtime :: "int runtime" where
  "silent_runtime = (timed_runtime sample_env)\<lparr>rtm_pulse := None\<rparr>"

lemma silent_ticking: "ticking (\<lambda>w. w) silent_runtime"
  by (auto simp: ticking_def silent_runtime_def timed_runtime_def port_forward_def tracker_forward_def
      adapter_forward_def tracking_def timed_provisioner_def timed_adapter_def) 

lemma silent_polls:
  "case fst (poll_until_terminal sample_env silent_runtime ''r'' (timed_sys (run_ops running_ops empty_store))) of
     Inr (Some ref) \<Rightarrow> True | _ \<Rightarrow> False"
  by code_simp

theorem poll_terminates_witness:
  "\<exists>ref. fst (poll_until_terminal sample_env silent_runtime ''r'' (timed_sys (run_ops running_ops empty_store))) =
     Inr (Some ref) \<and> is_terminal (ref_run ref)"
proof -
  have fuel: "max 0 (rtm_timeout silent_runtime) \<le> max 0 (rtm_poll_interval silent_runtime) * int 15"
    "15 < rtm_fuel silent_runtime"
    by (simp_all add: silent_runtime_def timed_runtime_def)
  obtain ref where "fst (poll_until_terminal sample_env silent_runtime ''r''
      (timed_sys (run_ops running_ops empty_store))) = Inr (Some ref)"
    using silent_polls by (auto split: sum.splits option.splits)
  then show ?thesis using poll_terminates [OF silent_ticking fuel] by blast
qed

section \<open>What an invocation selects and starts\<close>

text \<open>C25. Selection is a preference order.  Without a sprint, alone, the runtime selects the first task of one
  list: tasks with requested changes, ready tasks with a run and rework to do, tasks in flight with
  feedback, and then either the tasks in flight from the latest phase to the earliest or, while
  something waits for a human, operational tasks only and the waiting task.  Nothing is changed.\<close>

theorem select_task_preference:
  assumes "quiet env" "rtm_sprint rt = None"
  shows "\<exists>s'. select_task env rt s = (Inr (first_of (preference (sys_db s))), s') \<and> sys_db s' = sys_db s"
proof -
  have "wp (select_task env rt) (\<lambda>r u. r = first_of (preference (sys_db s)) \<and> sys_db u = sys_db s) (\<lambda>_ _. False) s"
    using select_task_reads [OF assms, of "sys_db s"] unfolding reads_as_def by blast
  then show ?thesis by (cases "select_task env rt s") (auto simp: wp_def split: sum.splits)
qed

definition waiting_ops :: "store_op list" where
  "waiting_ops = [Save_task (sample_task ''w'' Task_WAITING_HUMAN), Save_task (sample_task ''x'' Task_READY),
     Save_task ((sample_task ''y'' Task_READY)\<lparr>task_kind := OPERATIONAL\<rparr>)]"

theorem select_task_preference_witness:
  "\<exists>s'. select_task sample_env silent_runtime (timed_sys (run_ops waiting_ops empty_store)) =
     (Inr (Some ((sample_task ''y'' Task_READY)\<lparr>task_kind := OPERATIONAL\<rparr>)), s')"
proof -
  have "first_of (preference (run_ops waiting_ops empty_store)) =
      Some ((sample_task ''y'' Task_READY)\<lparr>task_kind := OPERATIONAL\<rparr>)" by code_simp
  moreover have "rtm_sprint silent_runtime = None" by (simp add: silent_runtime_def timed_runtime_def)
  ultimately show ?thesis
    using select_task_preference [OF quiet_sample, of silent_runtime "timed_sys (run_ops waiting_ops empty_store)"]
    by (auto simp: timed_sys_def)
qed

text \<open>C20. An operational issue starts at most the fixed proof.  When the policy enables no observation, the
  start of an operational task hands it to an engine only for a declaration of the scratch artifact whose bytes and
  digest are the fixed ones; if it returns a run then, that run is stored and the task is RUNNING.  For every other
  declaration, whatever the outcome, it does the same to the store and the world whatever engine and whatever
  preparation of a workspace it is given: neither is ever called; and when it returns, the task is
  \<open>BLOCKED\<close> in the store and in the result, which names no run.\<close>

theorem operational_start:
  assumes "opp_enabled (rtm_policy rt) \<subseteq> {Cap_SCRATCH, Cap_BACKUP}"
  shows "(case start_operational env rt t summary s of
      (Inr (Inl res), s') \<Rightarrow> rsl_task res = Some (task_id t) \<and> rsl_status res = Some Task_BLOCKED \<and>
        rsl_run res = None \<and> status_of s' (task_id t) = Some Task_BLOCKED
    | (Inr (Inr run), s') \<Rightarrow> (\<exists>a. parse_scratch_artifact (rtm_proof_sha rt) t = Inr a \<and>
          fromhex (points (art_payload_hex a)) = Some PROOF_BYTES \<and> art_sha256 a = rtm_proof_sha rt) \<and>
        run_task_id run = task_id t \<and> has_run s' (run_id run) (task_id t) \<and>
        status_of s' (task_id t) = Some Task_RUNNING
    | (Inl e, s') \<Rightarrow> True) \<and>
    ((\<nexists>a. parse_scratch_artifact (rtm_proof_sha rt) t = Inr a \<and>
        fromhex (points (art_payload_hex a)) = Some PROOF_BYTES \<and> art_sha256 a = rtm_proof_sha rt) \<longrightarrow>
      start_operational env (with_engine f g rt) t summary s = start_operational env rt t summary s)"
proof -
  have "start_operational env (with_engine f g rt) t summary s = start_operational env rt t summary s"
    if "\<nexists>a. parse_scratch_artifact (rtm_proof_sha rt) t = Inr a \<and>
        fromhex (points (art_payload_hex a)) = Some PROOF_BYTES \<and> art_sha256 a = rtm_proof_sha rt"
    using that scratch_artifact_proof [of "rtm_proof_sha rt" t] by (metis start_without_artifact)
  then show ?thesis
    using start_operational_scratch [OF assms, of env t summary s] scratch_artifact_proof [of "rtm_proof_sha rt" t]
    by (auto simp: wp_def started_or_blocked_def blocked_result_def split: prod.splits sum.splits)
qed

definition refused_task :: factory_task where
  "refused_task = (sample_task ''a'' Task_READY)\<lparr>task_kind := OPERATIONAL, task_body := ''please''\<rparr>"

lemma refused_start:
  "case fst (start_operational sample_env silent_runtime refused_task no_intake
       (timed_sys (run_ops [Save_task refused_task] empty_store))) of Inr (Inl _) \<Rightarrow> True | _ \<Rightarrow> False"
  by code_simp

lemma refused_artifact: "parse_scratch_artifact (rtm_proof_sha silent_runtime) refused_task \<noteq> Inr a"
proof -
  have "case parse_scratch_artifact (rtm_proof_sha silent_runtime) refused_task of Inr _ \<Rightarrow> False | Inl _ \<Rightarrow> True" by code_simp
  then show ?thesis by auto
qed

theorem operational_start_witness:
  "\<exists>res s'. start_operational sample_env
       (with_engine (\<lambda>t w p u. (Inl AssertionError, u)) (\<lambda>t w u. (Inl AssertionError, u)) silent_runtime) refused_task no_intake
       (timed_sys (run_ops [Save_task refused_task] empty_store)) = (Inr (Inl res), s') \<and>
     rsl_status res = Some Task_BLOCKED \<and> rsl_run res = None \<and> status_of s' ''a'' = Some Task_BLOCKED"
proof -
  obtain res s' where r: "start_operational sample_env silent_runtime refused_task no_intake
       (timed_sys (run_ops [Save_task refused_task] empty_store)) = (Inr (Inl res), s')"
    using answered [OF refused_start] by blast
  have "opp_enabled (rtm_policy silent_runtime) \<subseteq> {Cap_SCRATCH, Cap_BACKUP}"
    by (simp add: silent_runtime_def timed_runtime_def default_operational_policy_def)
  from operational_start [OF this, where env = sample_env and t = refused_task and summary = no_intake and
      s = "timed_sys (run_ops [Save_task refused_task] empty_store)" and
      f = "\<lambda>t w p u. (Inl AssertionError, u)" and g = "\<lambda>t w u. (Inl AssertionError, u)"] r refused_artifact
  show ?thesis by (simp add: refused_task_def sample_task_def)
qed

text \<open>C24. The canonical form of a declaration says the same.  When a body has a canonical form, all four
  parsers read from it exactly what they read from the body, and it is its own canonical form.\<close>

theorem canonical_declaration:
  assumes "canonical_operational_body sha body = Inr c"
  shows "readings sha c = readings sha body \<and> canonical_operational_body sha c = Inr c"
  using canonical_readings [OF assms] by simp

definition loose_body :: string where
  "loose_body = ''Hi. '' @ canonical_target ''docker_inspect'' ''db''"

lemma loose_canonical: "canonical_operational_body sha loose_body = Inr (canonical_target ''docker_inspect'' ''db'')"
proof -
  have "safe_name (points ''db'')" by code_simp
  note p = parse_canonical_target [OF this]
  have "blocks loose_body = blocks (canonical_target ''docker_inspect'' ''db'')"
    unfolding loose_body_def
    by (simp add: blocks.simps [of "_ # _"] block_at_def fence_open_def starts_with_def)
  then have "declared_value loose_body = declared_value (canonical_target ''docker_inspect'' ''db'')"
    by (simp add: declared_value_def)
  then have "parse_target mode loose_body = parse_target mode (canonical_target ''docker_inspect'' ''db'')"
    "parse_body sha loose_body = parse_body sha (canonical_target ''docker_inspect'' ''db'')" for mode sha
    by (simp_all add: parse_target_def parse_body_def)
  then show ?thesis
    using p by (auto simp: canonical_operational_body_def canonical_scratch_body_def target_parsers)
qed

theorem canonical_declaration_witness:
  "canonical_target ''docker_inspect'' ''db'' \<noteq> loose_body \<and>
   readings ''sha'' (canonical_target ''docker_inspect'' ''db'') = readings ''sha'' loose_body"
  using canonical_declaration [OF loose_canonical] by (simp add: loose_body_def)

section \<open>Delivery\<close>

text \<open>C5. Feedback makes a task \<open>DONE\<close> only on evidence.  Alone, when reconciling a task and a run makes the
  task \<open>DONE\<close> that was not, the run has succeeded and is the stored successful run of this task and
  its workspace, and the provider gave complete evidence for this delivery (merged, integrated, checks
  and deployment passed, nothing blocking).  Reconciling closures from outside also accepts a closed
  issue or a task marked as superseded instead of the evidence.  This holds also when the
  reconciliation raises after the transition.\<close>

theorem done_needs_evidence:
  assumes "quiet env" "status_of s (task_id t) \<noteq> Some Task_DONE"
  shows "(status_of (snd (reconcile env f t run s)) (task_id t) = Some Task_DONE \<longrightarrow>
      run_status run = Run_SUCCEEDED \<and> delivers (task_now s t) run (get_run (sys_db s) (run_id run)) \<and>
      evidence_given f (task_id t) (run_id run)) \<and>
    (status_of (snd (reconcile_external env f t run s)) (task_id t) = Some Task_DONE \<longrightarrow>
      run_status run = Run_SUCCEEDED \<and> delivers (task_now s t) run (get_run (sys_db s) (run_id run)) \<and>
      (evidence_given f (task_id t) (run_id run) \<or> closure_given f (task_id t) (run_id run) \<or>
       superseded (task_now s t)))"
  using reconcile_done [OF assms(1), of f t run s] reconcile_external_done [OF assms(1), of f t run s] assms(2)
  by (auto simp: wp_def newly_done_def split: prod.splits sum.splits)

definition delivered_task :: factory_task where
  "delivered_task = (sample_task ''a'' Task_WAITING_HUMAN)\<lparr>task_source := Some \<lparr>src_provider = ''github'',
     src_repository = ''o/r'', src_issue_number = 1\<rparr>\<rparr>"

definition delivered_ops :: "store_op list" where
  "delivered_ops = [Save_task delivered_task, Save_run 3 (sample_run ''r'' Run_SUCCEEDED), Save_pr ''p1'' sample_pr]"

definition sample_feedback :: "unit feedback" where
  "sample_feedback = \<lparr>fbk_evidence = (\<lambda>i u. (Inr \<lparr>dlv_merged = True, dlv_integration_verified = True,
       dlv_required_ci_passed = True, dlv_deploy_validated = True, dlv_blockers = False\<rparr>, u)),
     fbk_revision = None, fbk_complete = (\<lambda>i u. (Inr (), u)),
     fbk_state = (\<lambda>repo n u. (Inr (''closed'', Some ''completed''), u)), fbk_close = (\<lambda>i r u. (Inr (), u)),
     fbk_cards = None, fbk_registry = [\<lparr>prof_project_id = ''p'', prof_repository = ''o/r'', prof_checkout = ''/c'',
       prof_base_ref = ''main'', prof_gates = [], prof_context_profile = ''d'', prof_deploy_policy = ''none'',
       prof_git_host = ''github'', prof_deploy_required = False, prof_provider_ci_required = False,
       prof_required_ci_checks = []\<rparr>], fbk_sprints = False\<rparr>"

lemma delivered_reconcile:
  "status_of (snd (reconcile sample_env sample_feedback delivered_task (sample_run ''r'' Run_SUCCEEDED)
     (sample_sys (run_ops delivered_ops empty_store)))) ''a'' = Some Task_DONE"
  by code_simp

theorem done_needs_evidence_witness:
  "status_of (snd (reconcile sample_env sample_feedback delivered_task (sample_run ''r'' Run_SUCCEEDED)
     (sample_sys (run_ops delivered_ops empty_store)))) ''a'' = Some Task_DONE \<and>
   evidence_given sample_feedback ''a'' ''r''"
proof -
  have tid: "task_id delivered_task = ''a''" "run_id (sample_run ''r'' Run_SUCCEEDED) = ''r''"
    by (simp_all add: delivered_task_def sample_task_def sample_run_def)
  have "status_of (sample_sys (run_ops delivered_ops empty_store)) (task_id delivered_task) \<noteq> Some Task_DONE"
    unfolding tid by code_simp
  note given = done_needs_evidence [OF quiet_sample this, of sample_feedback "sample_run ''r'' Run_SUCCEEDED",
      THEN conjunct1, unfolded tid]
  show ?thesis
    by (rule conjI [OF delivered_reconcile mp [OF given delivered_reconcile, THEN conjunct2, THEN conjunct2]])
qed

section \<open>Status events\<close>

text \<open>No status event is lost.  Alone, whatever a flush does and even when it raises on the way, an event
  that was not delivered is still stored and not delivered, unless the channel can accept a snapshot
  of its task or the task does not exist any more; and tasks are left alone.\<close>

theorem status_event_retained:
  assumes "quiet env" "distinct (map se_transition (db_status_events (sys_db s)))"
    and "e \<in> set (db_status_events (sys_db s))" "se_delivered_at e = None"
  shows "(e \<in> set (db_status_events (sys_db (snd (flush env p s)))) \<or> accepted p (se_task e) \<or>
      get_task (sys_db s) (se_task e) = None) \<and>
    db_tasks (sys_db (snd (flush env p s))) = db_tasks (sys_db s)"
proof -
  let ?G = "\<lambda>tid. accepted p tid \<or> get_task (sys_db s) tid = None"
  have "retains ?G (sys_db s) (sys_db (snd (flush env p s)))"
    using flush_retains [OF assms(1,2), of p ?G] by (simp add: wp_def split: prod.splits sum.splits)
  then show ?thesis using assms(3,4) by (simp add: retains_def)
qed

text \<open>A channel that is down keeps the two events of a task that was claimed.\<close>

definition down_publisher :: "unit publisher" where
  "down_publisher = \<lparr>spb_view = sample_view, spb_sync = (\<lambda>snp u. (Inl (OtherError ''down''), u)), spb_alert = None\<rparr>"

definition claimed_event :: status_event where
  "claimed_event = \<lparr>se_transition = ''t1'', se_task = ''a'', se_phase = ''CLAIMED'', se_occurred_at = 2,
     se_delivered_at = None\<rparr>"

theorem status_event_retained_witness:
  "claimed_event \<in> set (db_status_events (sys_db (snd (flush sample_env down_publisher
     (sample_sys (run_ops claim_ops empty_store))))))"
proof -
  have "distinct (map se_transition (db_status_events (run_ops claim_ops empty_store)))"
    "db_status_events (run_ops claim_ops empty_store) = [claimed_event]"
    "get_task (run_ops claim_ops empty_store) ''a'' \<noteq> None" by code_simp+
  moreover have "\<not> accepted down_publisher tid" for tid by (simp add: accepted_def down_publisher_def)
  moreover have "se_task claimed_event = ''a''" "se_delivered_at claimed_event = None"
    by (simp_all add: claimed_event_def)
  ultimately show ?thesis
    using status_event_retained [OF quiet_sample, of "sample_sys (run_ops claim_ops empty_store)" claimed_event
        down_publisher]
    by auto
qed

end
