(* ===== verification/Terminal_Recovery.thy ===== *)
theory Terminal_Recovery
  imports Recovery_Service Sprint_Facts Publication_Facts Json_Text
begin

text \<open>
  \<^verbatim>\<open>TerminalRecoveryService\<close> (\<^verbatim>\<open>terminal_recovery.py\<close>): the three operator commands that move a task out
  of a terminal failure.  What the service reads from the file system and the process table are
  ports: the resolved root, whether a workspace directory lies in it, the worker's files, and the
  signal 0.
\<close>

section \<open>What the service reads\<close>

text \<open>A file of the worker: its text is missing when reading fails.\<close>

record file_view =
  fvw_symlink :: bool
  fvw_exists :: bool
  fvw_regular :: bool
  fvw_owned :: bool
  fvw_size :: nat
  fvw_text :: "string option"

datatype process = Process_missing | Process_denied | Process_alive

record 'w recovery =
  rcy_policy :: recovery_policy
  rcy_base :: string
  rcy_registry :: "project_registry option"
  rcy_sprint :: bool
  rcy_root :: "('w, string) port"
  rcy_inside :: "string \<Rightarrow> string \<Rightarrow> ('w, bool) port"
  rcy_file :: "string \<Rightarrow> string \<Rightarrow> ('w, file_view) port"
  rcy_probe :: "string \<Rightarrow> ('w, process) port"
  rcy_eligible :: "factory_task \<Rightarrow> ('w, bool) port"
  rcy_sink :: "'w find_pr_port"
  rcy_provisioner :: "'w provisioner"
  rcy_clean :: "(workspace \<Rightarrow> string \<Rightarrow> ('w, bool) port) option"

section \<open>Evidence of the worker\<close>

definition ascii :: "string \<Rightarrow> bool" where
  "ascii = list_all (\<lambda>c. of_char c < (128 :: nat))"

text \<open>At most 512 bytes of ASCII that hold a JSON object.\<close>

definition evidence_object :: "file_view \<Rightarrow> (nat list \<times> jvalue) list option" where
  "evidence_object f = (if 512 < fvw_size f then None
     else case fvw_text f of None \<Rightarrow> None
     | Some s \<Rightarrow> if \<not> ascii s then None
       else (case loads s of Some (JV_object kvs) \<Rightarrow> Some kvs | _ \<Rightarrow> None))"

text \<open>\<open>type(value) is int\<close>: the literal of a number without fraction and exponent.\<close>

definition int_literal :: "string \<Rightarrow> bool" where
  "int_literal s \<longleftrightarrow> s \<notin> {''NaN'', ''Infinity'', ''-Infinity''} \<and>
     list_all (\<lambda>c. c \<notin> {CHR ''.'', CHR ''e'', CHR ''E''}) s"

definition int_entry :: "string \<Rightarrow> (nat list \<times> jvalue) list \<Rightarrow> string option" where
  "int_entry k kvs = (case entry k kvs of
       Some (JV_number s) \<Rightarrow> if int_literal s then Some s else None | _ \<Rightarrow> None)"

definition failed_process :: "(nat list \<times> jvalue) list \<Rightarrow> bool" where
  "failed_process kvs \<longleftrightarrow> entry ''status'' kvs = Some (JV_string (points ''FAILED'')) \<and>
     int_entry ''exit_code'' kvs \<noteq> None"

definition deadline_evidence :: "(nat list \<times> jvalue) list \<Rightarrow> bool" where
  "deadline_evidence kvs \<longleftrightarrow> int_entry ''exit_code'' kvs = Some ''-9'' \<and>
     entry ''timed_out'' kvs = Some (JV_bool True)"

definition clean_exit_evidence :: "(nat list \<times> jvalue) list \<Rightarrow> bool" where
  "clean_exit_evidence kvs \<longleftrightarrow> failed_process kvs \<and>
     int_entry ''exit_code'' kvs \<notin> {Some ''0'', Some ''-0''} \<and>
     entry ''timed_out'' kvs = Some (JV_bool False)"

text \<open>A process identifier is a positive integer.\<close>

definition pid_entry :: "string \<Rightarrow> (nat list \<times> jvalue) list \<Rightarrow> string option" where
  "pid_entry k kvs = (case int_entry k kvs of
       Some s \<Rightarrow> if starts_with ''-'' s \<or> s = ''0'' then None else Some s | None \<Rightarrow> None)"

definition worker_pids :: "file_view \<Rightarrow> (string \<times> string) option" where
  "worker_pids f = (case evidence_object f of None \<Rightarrow> None
     | Some kvs \<Rightarrow> (case (pid_entry ''worker_pid'' kvs, pid_entry ''codex_pid'' kvs) of
         (Some p, Some q) \<Rightarrow> Some (p, q) | _ \<Rightarrow> None))"

section \<open>Steps that the commands share\<close>

definition refused :: "string \<Rightarrow> py_error" where
  "refused = TerminalRecoveryRefused"

text \<open>The base branch of the task's project.\<close>

definition recovery_base :: "'w recovery \<Rightarrow> factory_task \<Rightarrow> ('w, string) call" where
  "recovery_base v t = (case rcy_registry v of None \<Rightarrow> ret (rcy_base v)
     | Some reg \<Rightarrow> (case resolve_project reg (task_project t) (Some (task_repository t)) of
         Inl _ \<Rightarrow> raise (refused ''project identity mismatch'') | Inr prof \<Rightarrow> ret (prof_base_ref prof)))"

definition codex_workspace :: "run_status \<Rightarrow> factory_task \<Rightarrow> agent_run \<Rightarrow> workspace option" where
  "codex_workspace st t run = (if run_status run = st \<and> run_project run = task_project t \<and> run_adapter run = CODEX
     then case run_workspace run of None \<Rightarrow> None
       | Some w \<Rightarrow> if ws_kind w = CODE \<and> ws_repository w = task_repository t then Some w else None
     else None)"

text \<open>Acknowledgement, task, base branch, status, latest attempt, failure limit and workspace.\<close>

definition failed_attempt :: "env \<Rightarrow> 'w recovery \<Rightarrow> string \<Rightarrow> string \<Rightarrow>
    ('w, factory_task \<times> workspace \<times> string) call" where
  "failed_attempt env v tid rid =
     andthen (tasks_get env tid) (\<lambda>found. andthen (or_raise found (KeyError tid)) (\<lambda>t.
     andthen (recovery_base v t) (\<lambda>base.
     andthen (check (task_status t = Task_FAILED \<and> task_kind t = CODE)
       (refused ''task must be terminal FAILED CODE'')) (\<lambda>_.
     andthen (db_read env (\<lambda>d. list_runs d (Some tid))) (\<lambda>past.
     andthen (or_raise (case latest_of past of None \<Rightarrow> None
         | Some r \<Rightarrow> if run_id r = rid then Some r else None)
       (refused ''expected run is not the latest attempt'')) (\<lambda>last.
     andthen (check (int (length (filter (\<lambda>r. run_status r = Run_FAILED) past)) < run_retry_limit (rcy_policy v))
       (refused ''bounded failure limit reached'')) (\<lambda>_.
     andthen (or_raise (codex_workspace Run_FAILED t last)
       (refused ''latest failed CODEX run/workspace required'')) (\<lambda>w.
     ret (t, w, base)))))))))"

text \<open>The workspace is a directory right below the root, on the branch of the task.\<close>

definition factory_branch :: "factory_task \<Rightarrow> workspace \<Rightarrow> string" where
  "factory_branch t w = ''factory/'' @ task_id t @ ''/'' @ ws_id w"

definition valid_workspace :: "'w recovery \<Rightarrow> factory_task \<Rightarrow> workspace \<Rightarrow> string \<Rightarrow> ('w, string) call" where
  "valid_workspace v t w base =
     andthen (external (rcy_root v)) (\<lambda>base_dir.
     andthen (external (rcy_inside v base_dir (ws_path w))) (\<lambda>inside.
     andthen (check (inside \<and> ws_branch w = factory_branch t w \<and> ws_branch w \<noteq> base)
       (refused ''factory workspace identity is not valid'')) (\<lambda>_. ret base_dir)))"

definition trusted_file :: "file_view \<Rightarrow> bool" where
  "trusted_file f \<longleftrightarrow> \<not> fvw_symlink f \<and> fvw_regular f \<and> fvw_owned f"

definition worker_result :: "'w recovery \<Rightarrow> string \<Rightarrow> string \<Rightarrow> ('w, (nat list \<times> jvalue) list) call" where
  "worker_result v base_dir rid =
     andthen (external (rcy_file v base_dir (rid @ ''.result''))) (\<lambda>f.
     andthen (check (trusted_file f) (refused ''trusted worker result evidence is missing'')) (\<lambda>_.
     or_raise (evidence_object f) (refused ''invalid worker result evidence'')))"

definition source_eligible :: "'w recovery \<Rightarrow> factory_task \<Rightarrow> string \<Rightarrow> ('w, unit) call" where
  "source_eligible v t msg =
     andthen (if task_source t = None then ret False else external (rcy_eligible v t)) (\<lambda>ok.
     check ok (refused msg))"

text \<open>No pull request of the branch is known here or to the provider.\<close>

definition unpublished :: "env \<Rightarrow> 'w recovery \<Rightarrow> factory_task \<Rightarrow> workspace \<Rightarrow> string \<Rightarrow> ('w, unit) call" where
  "unpublished env v t w base =
     andthen (db_read env (\<lambda>d. find_by_branch d (task_repository t) (ws_branch w))) (\<lambda>known.
     andthen (check (known = None) (refused ''existing local PR requires human review'')) (\<lambda>_.
     andthen (from_outcome (target_repository (task_repository t))) (\<lambda>repo.
     andthen (external (rcy_sink v repo (ws_branch w) base)) (\<lambda>remote.
     check (remote = None) (refused ''existing provider PR requires human review'')))))"

definition no_active_run :: "env \<Rightarrow> string \<Rightarrow> ('w, unit) call" where
  "no_active_run env tid = andthen (db_read env (\<lambda>d. find_active_run d tid)) (\<lambda>active.
     check (active = None) (refused ''task has an active run''))"

section \<open>The commands\<close>

definition authorize_timeout :: "env \<Rightarrow> 'w recovery \<Rightarrow> string \<Rightarrow> string \<Rightarrow> bool \<Rightarrow> ('w, factory_task) call" where
  "authorize_timeout env v tid rid acknowledged =
     andthen (check acknowledged (refused ''explicit timeout acknowledgement is required'')) (\<lambda>_.
     andthen (failed_attempt env v tid rid) (\<lambda>(t, w, base).
     andthen (valid_workspace v t w base) (\<lambda>base_dir.
     andthen (worker_result v base_dir rid) (\<lambda>kvs.
     andthen (check (failed_process kvs) (refused ''worker did not record a failed process'')) (\<lambda>_.
     andthen (check (deadline_evidence kvs) (refused ''trusted worker deadline evidence is missing'')) (\<lambda>_.
     andthen (no_active_run env tid) (\<lambda>_.
     andthen (if rcy_sprint v then allows_review env t else ret False) (\<lambda>allowed.
     andthen (check allowed (refused ''an authorized Sprint is required for recovery'')) (\<lambda>_.
     andthen (source_eligible v t ''source Issue is not currently eligible'') (\<lambda>_.
     andthen (unpublished env v t w base) (\<lambda>_.
     andthen (external (pv_repair (rcy_provisioner v) t w)) (\<lambda>_.
     db_write env (\<lambda>now ids. authorize_terminal_timeout_recovery now (ids 0) tid rid)))))))))))))"

definition authorize_worker_failure :: "env \<Rightarrow> 'w recovery \<Rightarrow> string \<Rightarrow> string \<Rightarrow> bool \<Rightarrow> ('w, factory_task) call" where
  "authorize_worker_failure env v tid rid acknowledged =
     andthen (check acknowledged (refused ''explicit worker failure acknowledgement is required'')) (\<lambda>_.
     andthen (failed_attempt env v tid rid) (\<lambda>(t, w, base).
     andthen (valid_workspace v t w base) (\<lambda>base_dir.
     andthen (worker_result v base_dir rid) (\<lambda>kvs.
     andthen (check (clean_exit_evidence kvs) (refused ''trusted clean worker failure evidence is missing'')) (\<lambda>_.
     andthen (no_active_run env tid) (\<lambda>_.
     andthen (source_eligible v t ''source Issue is not currently eligible'') (\<lambda>_.
     andthen (unpublished env v t w base) (\<lambda>_.
     andthen (external (pv_repair (rcy_provisioner v) t w)) (\<lambda>_.
     andthen (or_raise (rcy_clean v) (refused ''workspace cleanliness verifier is unavailable'')) (\<lambda>clean.
     andthen (on_error (external (clean w base)) (\<lambda>e. ret False)) (\<lambda>ok.
     andthen (check ok (refused ''workspace contains unpublished changes'')) (\<lambda>_.
     db_write env (\<lambda>now ids. authorize_terminal_worker_recovery now (ids 0) tid rid)))))))))))))"

text \<open>The worker is gone: both processes are missing.\<close>

definition worker_gone :: "'w recovery \<Rightarrow> string \<Rightarrow> string \<Rightarrow> ('w, unit) call" where
  "worker_gone v base_dir rid =
     andthen (external (rcy_file v base_dir (rid @ ''.alive''))) (\<lambda>f.
     andthen (check (trusted_file f \<and> fvw_size f \<le> 512)
       (refused ''trusted worker liveness evidence is missing'')) (\<lambda>_.
     andthen (or_raise (worker_pids f) (refused ''worker liveness evidence is ambiguous'')) (\<lambda>(p, q).
     each (\<lambda>pid _. andthen (external (rcy_probe v pid)) (\<lambda>found. case found of
         Process_missing \<Rightarrow> ret ()
       | Process_denied \<Rightarrow> raise (refused ''worker liveness is ambiguous'')
       | Process_alive \<Rightarrow> raise (refused ''Codex worker is still alive''))) [p, q] ())))"

text \<open>The running attempt of a running task.\<close>

definition running_attempt :: "env \<Rightarrow> 'w recovery \<Rightarrow> string \<Rightarrow> string \<Rightarrow>
    ('w, factory_task \<times> agent_run \<times> workspace \<times> string) call" where
  "running_attempt env v tid rid =
     andthen (tasks_get env tid) (\<lambda>found. andthen (or_raise found (KeyError tid)) (\<lambda>t.
     andthen (recovery_base v t) (\<lambda>base.
     andthen (db_read env (\<lambda>d. list_runs d (Some tid))) (\<lambda>past.
     andthen (check (task_status t = Task_RUNNING \<and> task_kind t = CODE)
       (refused ''task must be RUNNING CODE'')) (\<lambda>_.
     andthen (or_raise (case latest_of past of None \<Rightarrow> None
         | Some r \<Rightarrow> if run_id r = rid then Some r else None)
       (refused ''expected run is not the latest attempt'')) (\<lambda>run.
     andthen (or_raise (codex_workspace Run_RUNNING t run)
       (refused ''latest RUNNING CODEX run/workspace required'')) (\<lambda>w.
     ret (t, run, w, base))))))))"

definition still_active :: "env \<Rightarrow> string \<Rightarrow> agent_run \<Rightarrow> ('w, unit) call" where
  "still_active env tid run =
     andthen (db_read env (\<lambda>d. find_active_run d tid)) (\<lambda>active.
     andthen (check (active \<noteq> None) (refused ''active Codex run is missing'')) (\<lambda>_.
     andthen (db_read env (\<lambda>d. find_active_run d tid)) (\<lambda>again.
     check (again = Some run) (refused ''active run identity is ambiguous''))))"

text \<open>Cleanliness, then repair; any other error is a refusal.\<close>

definition clean_and_repaired :: "'w recovery \<Rightarrow> factory_task \<Rightarrow> workspace \<Rightarrow> string \<Rightarrow> ('w, unit) call" where
  "clean_and_repaired v t w base =
     andthen (or_raise (rcy_clean v) (refused ''workspace cleanliness verifier is unavailable'')) (\<lambda>clean.
     on_error (andthen (external (clean w base)) (\<lambda>ok.
         andthen (check ok (refused ''workspace contains unpublished changes'')) (\<lambda>_.
         andthen (external (pv_repair (rcy_provisioner v) t w)) (\<lambda>_. ret ()))))
       (\<lambda>e. case e of TerminalRecoveryRefused m \<Rightarrow> raise e
          | _ \<Rightarrow> raise (refused ''workspace evidence is ambiguous'')))"

definition authorize_orphan :: "env \<Rightarrow> 'w recovery \<Rightarrow> string \<Rightarrow> string \<Rightarrow> bool \<Rightarrow> ('w, factory_task) call" where
  "authorize_orphan env v tid rid acknowledged =
     andthen (check acknowledged (refused ''explicit orphan acknowledgement is required'')) (\<lambda>_.
     andthen (running_attempt env v tid rid) (\<lambda>(t, run, w, base).
     andthen (valid_workspace v t w base) (\<lambda>base_dir.
     andthen (worker_gone v base_dir rid) (\<lambda>_.
     andthen (external (rcy_file v base_dir (rid @ ''.result''))) (\<lambda>f.
     andthen (check (\<not> fvw_exists f \<and> \<not> fvw_symlink f)
       (refused ''terminal worker result exists or is ambiguous'')) (\<lambda>_.
     andthen (still_active env tid run) (\<lambda>_.
     andthen (source_eligible v t ''source Issue is not eligible'') (\<lambda>_.
     andthen (unpublished env v t w base) (\<lambda>_.
     andthen (clean_and_repaired v t w base) (\<lambda>_.
     db_write env (\<lambda>now ids. authorize_orphaned_codex_recovery now (ids 0) tid rid)))))))))))"

end
