(* ===== verification/Recovery_Facts.thy ===== *)
theory Recovery_Facts
  imports Terminal_Recovery
begin

text \<open>
  What the commands of \<open>Terminal_Recovery\<close> have established when they write, and that nothing is
  written before.
\<close>

section \<open>Steps that only read\<close>

lemma wp_step:
  assumes "wp m P E s" "\<And>a u. P a u \<Longrightarrow> wp (f a) Q E u"
  shows "wp (andthen m f) Q E s"
  unfolding wp_andthen by (rule wp_mono [OF assms(1)]) (use assms(2) in auto)

text \<open>\<open>learns d m P\<close>: the call leaves the store \<open>d\<close> alone; its result has \<open>P\<close>.\<close>

definition learns :: "store \<Rightarrow> ('w, 'a) call \<Rightarrow> ('a \<Rightarrow> bool) \<Rightarrow> bool" where
  "learns d m P \<longleftrightarrow> (\<forall>s. sys_db s = d \<longrightarrow> wp m (\<lambda>a u. sys_db u = d \<and> P a) (\<lambda>_ u. sys_db u = d) s)"

lemma learns_andthen:
  assumes "learns d m P" "\<And>a. P a \<Longrightarrow> learns d (f a) Q" shows "learns d (andthen m f) Q"
  unfolding learns_def
proof (intro allI impI)
  fix s :: "'a sys" assume "sys_db s = d"
  then show "wp (andthen m f) (\<lambda>a u. sys_db u = d \<and> Q a) (\<lambda>_ u. sys_db u = d) s"
    using assms by (intro wp_step [where P = "\<lambda>a u. sys_db u = d \<and> P a"]) (auto simp: learns_def)
qed

lemma learns_basic:
  "Q a \<Longrightarrow> learns d (ret a) Q" "learns d (raise e) Q"
  "(\<And>a. x = Some a \<Longrightarrow> Q a) \<Longrightarrow> learns d (or_raise x e) Q"
  "(\<And>a. r = Inr a \<Longrightarrow> Q a) \<Longrightarrow> learns d (from_outcome r) Q"
  "(\<And>a w. fst (p w) = Inr a \<Longrightarrow> Q a) \<Longrightarrow> learns d (external p) Q"
  by (auto simp: learns_def wp_simps split: option.splits sum.splits prod.splits) (metis fst_conv)

lemma learns_check: "learns d (check b e) (\<lambda>_. b)"
  by (simp add: learns_def wp_simps)

lemma learns_external: "learns d (external p) (\<lambda>_. True)"
  by (rule learns_basic) simp

lemma learns_read: "quiet env \<Longrightarrow> Q (f d) \<Longrightarrow> learns d (db_read env f) Q"
  by (simp add: learns_def wp_simps)

lemma learns_weaken: "learns d m P \<Longrightarrow> (\<And>a. P a \<Longrightarrow> Q a) \<Longrightarrow> learns d m Q"
  unfolding learns_def by (blast intro: wp_mono)

lemma learns_keeps: "keeps (on_db (=)) m \<Longrightarrow> learns d m (\<lambda>_. True)"
  unfolding learns_def using wp_keeps [of "on_db (=)" m] by (fastforce simp: on_db_def wp_def split: sum.splits prod.splits)

text \<open>\<open>writes d m W\<close>: an error leaves the store alone, a result and its store have \<open>W\<close>.\<close>

definition writes :: "store \<Rightarrow> ('w, 'a) call \<Rightarrow> ('a \<Rightarrow> store \<Rightarrow> bool) \<Rightarrow> bool" where
  "writes d m W \<longleftrightarrow> (\<forall>s. sys_db s = d \<longrightarrow> wp m (\<lambda>a u. W a (sys_db u)) (\<lambda>_ u. sys_db u = d) s)"

lemma writes_andthen:
  assumes "learns d m P" "\<And>a. P a \<Longrightarrow> writes d (f a) W" shows "writes d (andthen m f) W"
  unfolding writes_def
proof (intro allI impI)
  fix s :: "'a sys" assume "sys_db s = d"
  then show "wp (andthen m f) (\<lambda>a u. W a (sys_db u)) (\<lambda>_ u. sys_db u = d) s"
    using assms by (intro wp_step [where P = "\<lambda>a u. sys_db u = d \<and> P a"]) (auto simp: learns_def writes_def)
qed

lemma writes_case_prod: "(\<And>a b. p = (a, b) \<Longrightarrow> writes d (f a b) W) \<Longrightarrow> writes d (case p of (a, b) \<Rightarrow> f a b) W"
  by (cases p) simp

lemma writes_write:
  "quiet env \<Longrightarrow> (\<And>now ids b d'. g now ids d = Inr (b, d') \<Longrightarrow> W b d') \<Longrightarrow> writes d (db_write env g) W"
  by (auto simp: writes_def wp_simps split: sum.splits)

section \<open>Evidence\<close>

text \<open>The latest attempt of the task, and what limits its recovery.\<close>

definition latest_attempt :: "store \<Rightarrow> run_status \<Rightarrow> task_status \<Rightarrow> string \<Rightarrow> string \<Rightarrow> factory_task \<Rightarrow>
    agent_run \<Rightarrow> workspace \<Rightarrow> bool" where
  "latest_attempt d rst tst tid rid t run w \<longleftrightarrow> get_task d tid = Some t \<and> task_status t = tst \<and>
     task_kind t = CODE \<and> latest_of (list_runs d (Some tid)) = Some run \<and> run_id run = rid \<and>
     codex_workspace rst t run = Some w"

text \<open>What a port answered, in some world.\<close>

definition answered_by :: "('w, 'a) port \<Rightarrow> 'a \<Rightarrow> bool" where
  "answered_by p a \<longleftrightarrow> (\<exists>w. fst (p w) = Inr a)"

text \<open>The base branch that is configured for the task, and the directory of the workspaces.\<close>

definition configured_base :: "'w recovery \<Rightarrow> factory_task \<Rightarrow> string \<Rightarrow> bool" where
  "configured_base v t base \<longleftrightarrow> (case rcy_registry v of None \<Rightarrow> base = rcy_base v
     | Some reg \<Rightarrow> \<exists>prof. resolve_project reg (task_project t) (Some (task_repository t)) = Inr prof \<and>
         base = prof_base_ref prof)"

definition workspace_root :: "'w recovery \<Rightarrow> workspace \<Rightarrow> string \<Rightarrow> bool" where
  "workspace_root v w dir \<longleftrightarrow> answered_by (rcy_root v) dir \<and> answered_by (rcy_inside v dir (ws_path w)) True"

text \<open>What the worker's file in that directory says of a run.\<close>

definition worker_said :: "'w recovery \<Rightarrow> string \<Rightarrow> string \<Rightarrow> ((nat list \<times> jvalue) list \<Rightarrow> bool) \<Rightarrow> bool" where
  "worker_said v dir rid P \<longleftrightarrow> (\<exists>f kvs. answered_by (rcy_file v dir (rid @ ''.result'')) f \<and> trusted_file f \<and>
     evidence_object f = Some kvs \<and> P kvs)"

text \<open>No pull request of the branch of the workspace is known here, nor to the provider for the repository of the task.\<close>

definition nothing_published :: "store \<Rightarrow> 'w recovery \<Rightarrow> factory_task \<Rightarrow> workspace \<Rightarrow> string \<Rightarrow> bool" where
  "nothing_published d v t w base \<longleftrightarrow> find_by_branch d (task_repository t) (ws_branch w) = None \<and>
     ws_branch w = factory_branch t w \<and> ws_branch w \<noteq> base \<and>
     (\<exists>repo. target_repository (task_repository t) = Inr repo \<and>
        answered_by (rcy_sink v repo (ws_branch w) base) None)"

lemma failed_attempt_learns:
  assumes "quiet env"
  shows "learns d (failed_attempt env v tid rid) (\<lambda>(t, w, base). configured_base v t base \<and>
    (\<exists>run. latest_attempt d Run_FAILED Task_FAILED tid rid t run w) \<and>
    int (length (filter (\<lambda>r. run_status r = Run_FAILED) (list_runs d (Some tid)))) < run_retry_limit (rcy_policy v))"
  using assms
  by (auto simp: learns_def failed_attempt_def recovery_base_def configured_base_def tasks_get_def latest_attempt_def wp_simps
      split: option.splits sum.splits if_splits)

lemma running_attempt_learns:
  assumes "quiet env"
  shows "learns d (running_attempt env v tid rid) (\<lambda>(t, run, w, base). configured_base v t base \<and>
    latest_attempt d Run_RUNNING Task_RUNNING tid rid t run w)"
  using assms
  by (auto simp: learns_def running_attempt_def recovery_base_def configured_base_def tasks_get_def latest_attempt_def wp_simps
      split: option.splits sum.splits if_splits)

lemma valid_workspace_learns:
  "learns d (valid_workspace v t w base) (\<lambda>dir. ws_branch w = factory_branch t w \<and> ws_branch w \<noteq> base \<and>
     workspace_root v w dir)"
  by (auto simp: learns_def valid_workspace_def workspace_root_def answered_by_def wp_simps split: sum.splits prod.splits)
    (metis fst_conv)+

lemma worker_result_learns:
  "learns d (worker_result v dir rid) (\<lambda>kvs. \<exists>f. answered_by (rcy_file v dir (rid @ ''.result'')) f \<and>
     trusted_file f \<and> evidence_object f = Some kvs)"
  by (auto simp: learns_def worker_result_def answered_by_def wp_simps split: sum.splits prod.splits option.splits)
    (metis fst_conv)

lemma no_active_learns: "quiet env \<Longrightarrow> learns d (no_active_run env tid) (\<lambda>_. find_active_run d tid = None)"
  by (auto simp: learns_def no_active_run_def wp_simps)

lemma still_active_learns:
  "quiet env \<Longrightarrow> learns d (still_active env tid run) (\<lambda>_. find_active_run d tid = Some run)"
  by (auto simp: learns_def still_active_def wp_simps)

lemma source_eligible_learns:
  "learns d (source_eligible v t msg) (\<lambda>_. task_source t \<noteq> None \<and> answered_by (rcy_eligible v t) True)"
  by (auto simp: learns_def source_eligible_def answered_by_def wp_simps split: sum.splits prod.splits) (metis fst_conv)

lemma unpublished_learns:
  "quiet env \<Longrightarrow> learns d (unpublished env v t w base) (\<lambda>_. find_by_branch d (task_repository t) (ws_branch w) = None \<and>
     (\<exists>repo. target_repository (task_repository t) = Inr repo \<and>
        answered_by (rcy_sink v repo (ws_branch w) base) None))"
  by (auto simp: learns_def unpublished_def answered_by_def wp_simps split: sum.splits prod.splits option.splits)
    (metis fst_conv)

lemma worker_gone_learns:
  "learns d (worker_gone v dir rid) (\<lambda>_. \<exists>f p q. answered_by (rcy_file v dir (rid @ ''.alive'')) f \<and> trusted_file f \<and>
     worker_pids f = Some (p, q) \<and> answered_by (rcy_probe v p) Process_missing \<and>
     answered_by (rcy_probe v q) Process_missing)"
  unfolding worker_gone_def answered_by_def
  by (auto simp: learns_def wp_simps split: sum.splits prod.splits option.splits process.splits) (metis fst_conv)

lemma learns_on_error: "learns d m P \<Longrightarrow> (\<And>e. learns d (h e) P) \<Longrightarrow> learns d (on_error m h) P"
  unfolding learns_def wp_on_error by (blast intro: wp_mono)

lemma clean_learns:
  "learns d (clean_and_repaired v t w base) (\<lambda>_. \<exists>clean. rcy_clean v = Some clean \<and> answered_by (clean w base) True)"
proof -
  have "learns d (case e of TerminalRecoveryRefused m \<Rightarrow> raise e
      | _ \<Rightarrow> raise (refused ''workspace evidence is ambiguous'')) P" for e :: py_error and P :: "unit \<Rightarrow> bool"
    by (cases e) (simp_all add: learns_basic)
  moreover have "learns d (andthen (external (clean w base)) (\<lambda>ok.
      andthen (check ok (refused m)) (\<lambda>_. andthen (external (pv_repair p t w)) (\<lambda>_. ret ()))))
    (\<lambda>_. answered_by (clean w base) True)" for clean m p
    by (auto simp: learns_def answered_by_def wp_simps split: sum.splits prod.splits) (metis fst_conv)
  ultimately have "learns d (on_error (andthen (external (clean w base)) (\<lambda>ok.
      andthen (check ok (refused m)) (\<lambda>_. andthen (external (pv_repair p t w)) (\<lambda>_. ret ()))))
      (\<lambda>e. case e of TerminalRecoveryRefused m \<Rightarrow> raise e
        | _ \<Rightarrow> raise (refused ''workspace evidence is ambiguous'')))
    (\<lambda>_. answered_by (clean w base) True)" for clean m p
    by (intro learns_on_error)
  then show ?thesis
    unfolding clean_and_repaired_def
    by (intro learns_andthen [OF learns_basic(3) [of "rcy_clean v" "\<lambda>c. rcy_clean v = Some c"]])
      (auto intro: learns_weaken simp del: py_error.case)
qed

section \<open>The commands\<close>

text \<open>What the two commands for a failed attempt share: \<open>t\<close>, its workspace \<open>w\<close>, its base and the worker's directory.\<close>

definition recovery_ground :: "store \<Rightarrow> 'w recovery \<Rightarrow> string \<Rightarrow> string \<Rightarrow> factory_task \<Rightarrow> workspace \<Rightarrow> string \<Rightarrow> string \<Rightarrow> bool" where
  "recovery_ground d v tid rid t w base dir \<longleftrightarrow>
     (\<exists>run. latest_attempt d Run_FAILED Task_FAILED tid rid t run w) \<and> configured_base v t base \<and> workspace_root v w dir \<and>
     int (length (filter (\<lambda>r. run_status r = Run_FAILED) (list_runs d (Some tid)))) < run_retry_limit (rcy_policy v) \<and>
     find_active_run d tid = None \<and> task_source t \<noteq> None \<and> answered_by (rcy_eligible v t) True \<and>
     nothing_published d v t w base"

lemma recovery_groundI:
  assumes "latest_attempt d Run_FAILED Task_FAILED tid rid t run w" "configured_base v t base" "workspace_root v w dir"
    "int (length (filter (\<lambda>r. run_status r = Run_FAILED) (list_runs d (Some tid)))) < run_retry_limit (rcy_policy v)"
    "find_active_run d tid = None" "task_source t \<noteq> None" "answered_by (rcy_eligible v t) True"
    "nothing_published d v t w base"
  shows "recovery_ground d v tid rid t w base dir"
  using assms unfolding recovery_ground_def by blast

lemma nothing_publishedI:
  assumes "ws_branch w = factory_branch t w" "factory_branch t w \<noteq> base"
    "find_by_branch d (task_repository t) (factory_branch t w) = None" "target_repository (task_repository t) = Inr repo"
    "answered_by (rcy_sink v repo (factory_branch t w) base) None"
  shows "nothing_published d v t w base"
  using assms unfolding nothing_published_def by auto

lemma allows_in_same:
  assumes Q: "quiet env" shows "keeps (on_db (=)) (allows_in sts env t)"
  unfolding allows_in_def matches_current_def Let_def by (intro same_intros Q)

lemma authorize_timeout_writes:
  assumes Q: "quiet env"
  shows "writes d (authorize_timeout env v tid rid ack) (\<lambda>t' d'. ack \<and> rcy_sprint v \<and>
    (\<exists>t w base dir. recovery_ground d v tid rid t w base dir \<and> worker_said v dir rid deadline_evidence) \<and>
    (\<exists>now uid. authorize_terminal_timeout_recovery now uid tid rid d = Inr (t', d')))"
proof -
  have sprint: "learns d (if rcy_sprint v then allows_review env t else ret False) (\<lambda>b. b \<longrightarrow> rcy_sprint v)" for t
    by (cases "rcy_sprint v")
      (auto simp: learns_basic allows_review_def intro: learns_weaken [OF learns_keeps [OF allows_in_same [OF Q]]])
  show ?thesis
    unfolding authorize_timeout_def
    by (intro writes_andthen [OF learns_check] writes_andthen [OF failed_attempt_learns [OF Q]] writes_case_prod
        writes_andthen [OF valid_workspace_learns] writes_andthen [OF worker_result_learns]
        writes_andthen [OF no_active_learns [OF Q]] writes_andthen [OF sprint]
        writes_andthen [OF source_eligible_learns] writes_andthen [OF unpublished_learns [OF Q]]
        writes_andthen [OF learns_external] writes_write [OF Q])
      (auto simp: worker_said_def, blast intro: recovery_groundI nothing_publishedI)
qed

lemma authorize_worker_failure_writes:
  assumes Q: "quiet env"
  shows "writes d (authorize_worker_failure env v tid rid ack) (\<lambda>t' d'. ack \<and>
    (\<exists>t w base dir clean. recovery_ground d v tid rid t w base dir \<and> worker_said v dir rid clean_exit_evidence \<and>
       rcy_clean v = Some clean \<and> answered_by (clean w base) True) \<and>
    (\<exists>now uid. authorize_terminal_worker_recovery now uid tid rid d = Inr (t', d')))"
proof -
  have clean: "learns d (on_error (external p) (\<lambda>e. ret False)) (\<lambda>b. b \<longrightarrow> answered_by p True)"
    for p :: "('b, bool) port"
    by (rule learns_on_error [OF learns_basic(5) learns_basic(1)]) (auto simp: answered_by_def)
  show ?thesis
    unfolding authorize_worker_failure_def
    by (intro writes_andthen [OF learns_check] writes_andthen [OF failed_attempt_learns [OF Q]] writes_case_prod
        writes_andthen [OF valid_workspace_learns] writes_andthen [OF worker_result_learns]
        writes_andthen [OF no_active_learns [OF Q]] writes_andthen [OF clean]
        writes_andthen [OF learns_basic(3) [of _ "\<lambda>c. rcy_clean v = Some c"]]
        writes_andthen [OF source_eligible_learns] writes_andthen [OF unpublished_learns [OF Q]]
        writes_andthen [OF learns_external] writes_write [OF Q])
      (auto simp: worker_said_def, blast intro: recovery_groundI nothing_publishedI)
qed

lemma authorize_orphan_writes:
  assumes Q: "quiet env"
  shows "writes d (authorize_orphan env v tid rid ack) (\<lambda>t' d'. ack \<and>
    (\<exists>t run w base dir f p q clean. latest_attempt d Run_RUNNING Task_RUNNING tid rid t run w \<and>
       find_active_run d tid = Some run \<and> configured_base v t base \<and> workspace_root v w dir \<and>
       task_source t \<noteq> None \<and> answered_by (rcy_eligible v t) True \<and> nothing_published d v t w base \<and>
       rcy_clean v = Some clean \<and> answered_by (clean w base) True \<and>
       answered_by (rcy_file v dir (rid @ ''.alive'')) f \<and> trusted_file f \<and>
       worker_pids f = Some (p, q) \<and> answered_by (rcy_probe v p) Process_missing \<and>
       answered_by (rcy_probe v q) Process_missing) \<and>
    (\<exists>now uid. authorize_orphaned_codex_recovery now uid tid rid d = Inr (t', d')))"
  unfolding authorize_orphan_def
  by (intro writes_andthen [OF learns_check] writes_andthen [OF running_attempt_learns [OF Q]] writes_case_prod
      writes_andthen [OF valid_workspace_learns] writes_andthen [OF worker_gone_learns]
      writes_andthen [OF still_active_learns [OF Q]] writes_andthen [OF clean_learns]
      writes_andthen [OF source_eligible_learns] writes_andthen [OF unpublished_learns [OF Q]]
      writes_andthen [OF learns_external] writes_write [OF Q])
    (auto, blast intro: nothing_publishedI)

end
