(* ===== verification/Worker_Pool.thy ===== *)
theory Worker_Pool
  imports Runtime_Steps
begin

text \<open>
  The loops above the runtime: \<^verbatim>\<open>FactoryWatcher\<close> (\<^verbatim>\<open>watch.py\<close>), one invocation at a time, and
  \<^verbatim>\<open>WorkerPool\<close> (\<^verbatim>\<open>worker_pool.py\<close>), which runs independent tasks on at most two threads.  The stop
  request, the sleep and the pool of threads are ports; a thread runs \<^verbatim>\<open>run_task\<close> of its own
  runtime, so what it commits reaches the coordinator as the work of another process, and the
  pool of threads answers which of the submitted threads have ended and how.
\<close>

section \<open>The watcher\<close>

definition IDLE_OUTCOMES :: "string set" where
  "IDLE_OUTCOMES = {''NO_ELIGIBLE_TASK'', ''WIP_BUSY'', ''BACKOFF_PENDING''}"

record watch_outcome =
  wto_iterations :: nat
  wto_processed :: nat
  wto_idle_waits :: nat
  wto_stopped :: bool
  wto_last :: "runtime_result option"

record 'w watcher =
  wtc_invoke :: "('w, runtime_result) call"
  wtc_idle_interval :: int
  wtc_max :: "int option"
  wtc_sleep :: "int \<Rightarrow> ('w, unit) port"
  wtc_should_stop :: "('w, bool) port"

definition make_watcher :: "env \<Rightarrow> 'w runtime \<Rightarrow> int \<Rightarrow> int option \<Rightarrow> (int \<Rightarrow> ('w, unit) port) \<Rightarrow> ('w, bool) port \<Rightarrow>
    'w watcher" where
  "make_watcher env rt interval limit sleep stop = \<lparr>wtc_invoke = run_once env rt, wtc_idle_interval = max 0 interval,
     wtc_max = limit, wtc_sleep = sleep, wtc_should_stop = stop\<rparr>"

definition watch_start :: watch_outcome where
  "watch_start = \<lparr>wto_iterations = 0, wto_processed = 0, wto_idle_waits = 0, wto_stopped = False, wto_last = None\<rparr>"

definition human_gate :: "runtime_result \<Rightarrow> bool" where
  "human_gate r \<longleftrightarrow> rsl_outcome r \<in> {''WAITING_HUMAN'', ''SPRINT_PAUSED''} \<or> rsl_status r = Some Task_WAITING_HUMAN"

text \<open>The counters after an invocation.\<close>

definition counted :: "runtime_result \<Rightarrow> watch_outcome \<Rightarrow> watch_outcome" where
  "counted r acc = (let n = acc\<lparr>wto_last := Some r, wto_iterations := wto_iterations acc + 1\<rparr> in
     if rsl_outcome r \<in> IDLE_OUTCOMES then n\<lparr>wto_idle_waits := wto_idle_waits acc + 1\<rparr>
     else n\<lparr>wto_processed := wto_processed acc + 1\<rparr>)"

text \<open>The loop, with fuel for its turns; without a limit it may run forever.\<close>

fun watch_loop :: "nat \<Rightarrow> 'w watcher \<Rightarrow> watch_outcome \<Rightarrow> ('w, watch_outcome option) call" where
  "watch_loop 0 wt acc = ret None"
| "watch_loop (Suc n) wt acc =
     (if (case wtc_max wt of None \<Rightarrow> False | Some m \<Rightarrow> m \<le> int (wto_iterations acc)) then ret (Some acc)
      else andthen (external (wtc_should_stop wt)) (\<lambda>stop.
        if stop then ret (Some (acc\<lparr>wto_stopped := True\<rparr>))
        else andthen (wtc_invoke wt) (\<lambda>r.
          if human_gate r then ret (Some ((counted r acc)\<lparr>wto_stopped := True\<rparr>))
          else andthen (if rsl_outcome r \<in> IDLE_OUTCOMES \<union> {''TIMEOUT_RESUMABLE''}
              then external (wtc_sleep wt (wtc_idle_interval wt)) else ret ()) (\<lambda>_.
            watch_loop n wt (counted r acc)))))"

definition watch :: "nat \<Rightarrow> 'w watcher \<Rightarrow> ('w, watch_outcome option) call" where
  "watch n wt = watch_loop n wt watch_start"

section \<open>The pool\<close>

record worker_session =
  wss_task :: string
  wss_result :: "runtime_result option"
  wss_error :: "string option"

text \<open>A submitted thread: its future, its task and its own runtime.\<close>

type_synonym 'w worker = "nat \<times> string \<times> 'w runtime"

record 'w worker_pool =
  wpl_factory :: "('w, 'w runtime) port"
  wpl_concurrency :: nat
  wpl_idle_interval :: int
  wpl_wait_interval :: int
  wpl_should_stop :: "('w, bool) port"
  wpl_sleep :: "int \<Rightarrow> ('w, unit) port"
  wpl_on_session :: "(worker_session \<Rightarrow> ('w, unit) port) option"
  wpl_wait :: "'w worker list \<Rightarrow> int \<Rightarrow> ('w, (nat \<times> (py_error, runtime_result) outcome) list) port"
  wpl_cancel :: "'w runtime \<Rightarrow> agent_run \<Rightarrow> ('w, unit) port"

text \<open>The constructor, with intervals in microseconds.\<close>

definition make_pool :: "'w worker_pool \<Rightarrow> (py_error, 'w worker_pool) outcome" where
  "make_pool pl = (if wpl_concurrency pl < 1 \<or> 2 < wpl_concurrency pl
     then Inl (ValueError ''max_concurrency must be 1 or 2'')
     else Inr (pl\<lparr>wpl_idle_interval := max 0 (wpl_idle_interval pl),
       wpl_wait_interval := max 10000 (wpl_wait_interval pl)\<rparr>))"

record 'w pool_state =
  pls_pending :: "string list"
  pls_active :: "'w worker list"
  pls_sessions :: "worker_session list"
  pls_cancelled :: bool
  pls_next :: nat

definition pool_start :: "string list \<Rightarrow> 'w pool_state" where
  "pool_start candidates = \<lparr>pls_pending = candidates, pls_active = [], pls_sessions = [], pls_cancelled = False,
     pls_next = 0\<rparr>"

text \<open>Threads are submitted while a slot is free and nothing requests a stop.\<close>

definition submitted :: "'w runtime \<Rightarrow> string \<Rightarrow> string list \<Rightarrow> 'w pool_state \<Rightarrow> 'w pool_state" where
  "submitted rt t ts st = st\<lparr>pls_pending := ts, pls_active := pls_active st @ [(pls_next st, t, rt)],
     pls_next := pls_next st + 1\<rparr>"

fun fill :: "env \<Rightarrow> 'w worker_pool \<Rightarrow> string list \<Rightarrow> 'w pool_state \<Rightarrow> ('w, 'w pool_state) call" where
  "fill env pl ts st =
     (if \<not> length (pls_active st) < wpl_concurrency pl then ret st
      else andthen (external (wpl_should_stop pl)) (\<lambda>stop.
        if stop then ret st
        else case ts of [] \<Rightarrow> ret st
        | t # rest \<Rightarrow>
          andthen (external (wpl_factory pl)) (\<lambda>rt.
          andthen (fresh_id env) (\<lambda>session.
          andthen (from_outcome (set_runtime_owner (''worker-'' @ take 8 session) session rt)) (\<lambda>rt.
          fill env pl rest (submitted rt t rest st))))))"

text \<open>Cancellation is best effort.\<close>

definition cancel_worker :: "env \<Rightarrow> 'w worker_pool \<Rightarrow> 'w worker \<Rightarrow> unit \<Rightarrow> ('w, unit) call" where
  "cancel_worker env pl x _ = (case x of (k, t, rt) \<Rightarrow> on_error
     (andthen (db_read env (\<lambda>d. find_active_run d t)) (\<lambda>r. case r of
        None \<Rightarrow> ret () | Some run \<Rightarrow> external (wpl_cancel pl rt run)))
     (\<lambda>e. ret ()))"

definition cancel_active :: "env \<Rightarrow> 'w worker_pool \<Rightarrow> 'w pool_state \<Rightarrow> ('w, 'w pool_state) call" where
  "cancel_active env pl st = andthen (each (cancel_worker env pl) (pls_active st) ())
     (\<lambda>_. ret (st\<lparr>pls_cancelled := True\<rparr>))"

text \<open>\<open>type(exc).__name__\<close>; an external error is named by its class.\<close>

fun type_name :: "py_error \<Rightarrow> string" where
  "type_name (KeyError _) = ''KeyError''"
| "type_name (ValueError _) = ''ValueError''"
| "type_name AssertionError = ''AssertionError''"
| "type_name IntegrityError = ''IntegrityError''"
| "type_name ProviderRequestError = ''ProviderRequestError''"
| "type_name (PersistenceError _) = ''PersistenceError''"
| "type_name (TaskSourceError _) = ''TaskSourceError''"
| "type_name (DuplicateTaskError _) = ''DuplicateTaskError''"
| "type_name (InvalidTransitionError _ _) = ''InvalidTransitionError''"
| "type_name (TaskStateChangedError _ _ _) = ''TaskStateChangedError''"
| "type_name (DuplicateRunError _ _ _) = ''DuplicateRunError''"
| "type_name (TaskNotReadyError _ _) = ''TaskNotReadyError''"
| "type_name (DispatchConflictError _) = ''DispatchConflictError''"
| "type_name (AgentDispatchError _ _) = ''AgentDispatchError''"
| "type_name (AgentCollectError _ _) = ''AgentCollectError''"
| "type_name (WorkspaceProvisioningError _) = ''WorkspaceProvisioningError''"
| "type_name (TaskNotPublishableError _ _ _) = ''TaskNotPublishableError''"
| "type_name (RevisionNotPublishableError _) = ''RevisionNotPublishableError''"
| "type_name (ValidatedRevisionMissingError _ _) = ''ValidatedRevisionMissingError''"
| "type_name (ValidatedRevisionMismatchError _) = ''ValidatedRevisionMismatchError''"
| "type_name (WorkspaceRevisionError _) = ''WorkspaceRevisionError''"
| "type_name (PullRequestIdentityError _ _) = ''PullRequestIdentityError''"
| "type_name (UnsafeRemoteError _) = ''UnsafeRemoteError''"
| "type_name (DuplicatePullRequestError _ _ _) = ''DuplicatePullRequestError''"
| "type_name (RetryNotAllowedError _) = ''RetryNotAllowedError''"
| "type_name (ReworkNotAllowedError _) = ''ReworkNotAllowedError''"
| "type_name (ContextBuildError _) = ''ContextBuildError''"
| "type_name (ProjectRoutingError _) = ''ProjectRoutingError''"
| "type_name (TerminalRecoveryRefused _) = ''TerminalRecoveryRefused''"
| "type_name (SecurityReviewBlocked _) = ''SecurityReviewBlocked''"
| "type_name (OtherError c) = c"

definition session_of :: "string \<Rightarrow> (py_error, runtime_result) outcome \<Rightarrow> worker_session" where
  "session_of t r = (case r of
       Inl e \<Rightarrow> \<lparr>wss_task = t, wss_result = None, wss_error = Some (type_name e)\<rparr>
     | Inr res \<Rightarrow> \<lparr>wss_task = t, wss_result = Some res, wss_error = None\<rparr>)"

text \<open>A thread that ended leaves the active ones; its session is reported.\<close>

definition ended :: "nat \<Rightarrow> worker_session \<Rightarrow> 'w pool_state \<Rightarrow> 'w pool_state" where
  "ended k session st = st\<lparr>pls_active := filter (\<lambda>x. fst x \<noteq> k) (pls_active st),
     pls_sessions := pls_sessions st @ [session]\<rparr>"

definition finish_worker :: "'w worker_pool \<Rightarrow> nat \<times> (py_error, runtime_result) outcome \<Rightarrow> 'w pool_state \<Rightarrow>
    ('w, 'w pool_state) call" where
  "finish_worker pl x st = (case x of (k, r) \<Rightarrow>
     andthen (or_raise (find (\<lambda>a. fst a = k) (pls_active st)) (KeyError (decimal k))) (\<lambda>(k, t, rt).
     andthen (case wpl_on_session pl of None \<Rightarrow> ret () | Some told \<Rightarrow> external (told (session_of t r))) (\<lambda>_.
     ret (ended k (session_of t r) st))))"

text \<open>After a wait: the threads that ended, then a look at the stop request.\<close>

definition after_wait :: "env \<Rightarrow> 'w worker_pool \<Rightarrow> (nat \<times> (py_error, runtime_result) outcome) list \<Rightarrow>
    'w pool_state \<Rightarrow> ('w, 'w pool_state) call" where
  "after_wait env pl done st =
     andthen (each (finish_worker pl) done st) (\<lambda>st.
     andthen (external (wpl_should_stop pl)) (\<lambda>stop.
     if stop \<and> \<not> pls_cancelled st \<and> (done = [] \<or> pls_active st \<noteq> [])
     then cancel_active env pl st else ret st))"

text \<open>The loop of a pass, with fuel for its turns.\<close>

fun pool_loop :: "nat \<Rightarrow> env \<Rightarrow> 'w worker_pool \<Rightarrow> 'w pool_state \<Rightarrow> ('w, 'w pool_state option) call" where
  "pool_loop 0 env pl st = ret None"
| "pool_loop (Suc n) env pl st =
     andthen (fill env pl (pls_pending st) st) (\<lambda>st.
     if pls_active st = [] then ret (Some st)
     else andthen (external (wpl_wait pl (pls_active st) (wpl_wait_interval pl))) (\<lambda>done.
       andthen (after_wait env pl done st) (pool_loop n env pl)))"

definition recoverable_preparation :: "py_error \<Rightarrow> bool" where
  "recoverable_preparation e \<longleftrightarrow> (case e of DuplicateTaskError _ \<Rightarrow> True | ProviderRequestError \<Rightarrow> True
     | TaskStateChangedError _ _ _ \<Rightarrow> True | _ \<Rightarrow> False)"

definition run_pass :: "nat \<Rightarrow> env \<Rightarrow> 'w worker_pool \<Rightarrow> ('w, worker_session list option) call" where
  "run_pass n env pl =
     andthen (external (wpl_should_stop pl)) (\<lambda>stop.
     if stop then ret (Some [])
     else andthen (attempt (andthen (external (wpl_factory pl)) (\<lambda>c.
         andthen (prepare_pool env c) (\<lambda>_. pool_candidates env c)))) (\<lambda>r. case r of
       Inl e \<Rightarrow> if recoverable_preparation e then ret (Some []) else raise e
     | Inr candidates \<Rightarrow> andthen (pool_loop n env pl (pool_start candidates)) (\<lambda>r.
         ret (map_option pls_sessions r))))"

text \<open>Passes until a stop is requested; \<open>k\<close> passes of \<open>n\<close> turns.\<close>

fun pool_run :: "nat \<Rightarrow> nat \<Rightarrow> env \<Rightarrow> 'w worker_pool \<Rightarrow> ('w, unit option) call" where
  "pool_run 0 n env pl = ret None"
| "pool_run (Suc k) n env pl =
     andthen (external (wpl_should_stop pl)) (\<lambda>stop.
     if stop then ret (Some ())
     else andthen (run_pass n env pl) (\<lambda>sessions.
       if sessions = None then ret None
       else andthen (external (wpl_should_stop pl)) (\<lambda>stop.
         if stop then ret (Some ())
         else andthen (external (wpl_sleep pl (wpl_idle_interval pl))) (\<lambda>_. pool_run k n env pl))))"

end
