(* ===== verification/Pool_Facts.thy ===== *)
theory Pool_Facts
  imports Worker_Pool Factory_Refinement
begin

text \<open>
  Facts about the loops above the runtime: the watcher counts and stops, the pool runs every
  candidate at most once on a bounded number of threads.
\<close>

section \<open>The watcher\<close>

lemma wp_any: "(\<And>a u. wp (f a) Q (\<lambda>_ _. True) u) \<Longrightarrow> wp (andthen m f) Q (\<lambda>_ _. True) s"
  unfolding wp_andthen by (rule wp_mono [OF wp_trivial])

definition counts :: "watch_outcome \<Rightarrow> bool" where
  "counts a \<longleftrightarrow> wto_iterations a = wto_processed a + wto_idle_waits a"

lemma counted_fields [simp]:
  "wto_iterations (counted r a) = wto_iterations a + 1" "wto_last (counted r a) = Some r"
  "wto_stopped (counted r a) = wto_stopped a" "counts a \<Longrightarrow> counts (counted r a)"
  by (simp_all add: counted_def counts_def Let_def)

definition watched :: "int \<Rightarrow> watch_outcome \<Rightarrow> bool" where
  "watched m a \<longleftrightarrow> counts a \<and> int (wto_iterations a) \<le> max 0 m \<and>
     (\<not> wto_stopped a \<longrightarrow> max 0 m = int (wto_iterations a) \<and>
        (\<forall>r. wto_last a = Some r \<longrightarrow> \<not> human_gate r))"

lemma watch_loop_ends:
  assumes "wtc_max wt = Some m"
  shows "\<lbrakk>nat m - wto_iterations acc < n; int (wto_iterations acc) \<le> max 0 m; counts acc; \<not> wto_stopped acc;
      \<forall>r. wto_last acc = Some r \<longrightarrow> \<not> human_gate r\<rbrakk> \<Longrightarrow>
    wp (watch_loop n wt acc) (\<lambda>r _. case r of None \<Rightarrow> False | Some a \<Rightarrow> watched m a) (\<lambda>_ _. True) s"
proof (induction n arbitrary: acc s)
  case (Suc n)
  show ?case
  proof (cases "m \<le> int (wto_iterations acc)")
    case True
    then show ?thesis using Suc.prems assms by (auto simp: wp_ret watched_def)
  next
    case False
    have next_turn: "wp (watch_loop n wt (counted r acc)) (\<lambda>r _. case r of None \<Rightarrow> False | Some a \<Rightarrow> watched m a)
        (\<lambda>_ _. True) u" if "\<not> human_gate r" for r u
      using Suc.prems False that by (intro Suc.IH) auto
    have turn: "wp (if human_gate r then ret (Some ((counted r acc)\<lparr>wto_stopped := True\<rparr>))
        else andthen (if rsl_outcome r \<in> IDLE_OUTCOMES \<union> {''TIMEOUT_RESUMABLE''}
            then external (wtc_sleep wt (wtc_idle_interval wt)) else ret ()) (\<lambda>_. watch_loop n wt (counted r acc)))
        (\<lambda>r _. case r of None \<Rightarrow> False | Some a \<Rightarrow> watched m a) (\<lambda>_ _. True) u" for r u
    proof (cases "human_gate r")
      case True
      then show ?thesis using Suc.prems False by (auto simp: wp_ret watched_def counts_def counted_def Let_def)
    next
      case False
      show ?thesis
        unfolding if_not_P [OF False] by (rule wp_any) (rule next_turn [OF False])
    qed
    show ?thesis
      using False assms Suc.prems
      by (auto simp: wp_external wp_andthen [of "external _"] wp_if wp_ret watched_def counts_def
          split: sum.split prod.split intro!: wp_any turn)
  qed
qed simp

lemma wp_both:
  "wp m P (\<lambda>_ _. True) s \<Longrightarrow> wp m Q (\<lambda>_ _. True) s \<Longrightarrow> wp m (\<lambda>a u. P a u \<and> Q a u) (\<lambda>_ _. True) s"
  by (simp add: wp_def split: prod.splits sum.splits)

section \<open>The pool\<close>

declare fill.simps [simp del]

text \<open>A pool with a slot that nothing stops.\<close>

definition steady :: "'w worker_pool \<Rightarrow> bool" where
  "steady pl \<longleftrightarrow> 0 < wpl_concurrency pl \<and> (\<forall>w. fst (wpl_should_stop pl w) = Inr False)"

lemma steady_slot: "steady pl \<Longrightarrow> \<not> length (pls_active st) < wpl_concurrency pl \<Longrightarrow> pls_active st \<noteq> []"
  by (auto simp: steady_def)

lemma steady_runs: "steady pl \<Longrightarrow> wpl_should_stop pl w \<noteq> (Inr True, w')"
  unfolding steady_def by (metis fst_conv old.sum.inject(2))

definition worker_task :: "'w worker \<Rightarrow> string" where
  "worker_task x = fst (snd x)"

text \<open>Every candidate is pending, active or reported, once; the pending ones are the last of the list.\<close>

definition pool_ok :: "string list \<Rightarrow> nat \<Rightarrow> 'w pool_state \<Rightarrow> bool" where
  "pool_ok cands c st \<longleftrightarrow>
     mset (map wss_task (pls_sessions st)) + mset (map worker_task (pls_active st)) + mset (pls_pending st) = mset cands \<and>
     suffix (pls_pending st) cands \<and> distinct (map fst (pls_active st)) \<and>
     (\<forall>x \<in> set (pls_active st). fst x < pls_next st) \<and> length (pls_active st) \<le> c"

lemma pool_ok_start: "pool_ok cands c (pool_start cands)"
  by (simp add: pool_ok_def pool_start_def)

lemma pool_ok_submitted:
  assumes "pool_ok cands c st" "pls_pending st = t # ts" "length (pls_active st) < c"
  shows "pool_ok cands c (submitted rt t ts st)"
  using assms by (auto simp: pool_ok_def submitted_def worker_task_def dest: suffix_ConsD)

lemma fill_ok:
  "pool_ok cands (wpl_concurrency pl) st \<Longrightarrow> pls_pending st = ts \<Longrightarrow>
    wp (fill env pl ts st) (\<lambda>st' _. pool_ok cands (wpl_concurrency pl) st' \<and>
      (steady pl \<and> pls_active st' = [] \<longrightarrow>
        pls_pending st' = [])) (\<lambda>_ _. True) s"
proof (induction ts arbitrary: st s)
  case Nil
  then show ?case by (subst fill.simps) (auto simp: wp_simps split: sum.split prod.split)
next
  case (Cons t ts)
  show ?case
  proof (cases "length (pls_active st) < wpl_concurrency pl")
    case True
    have rest: "wp (fill env pl ts (submitted rt t ts st)) (\<lambda>st' _. pool_ok cands (wpl_concurrency pl) st' \<and>
      (steady pl \<and> pls_active st' = [] \<longrightarrow>
        pls_pending st' = [])) (\<lambda>_ _. True) u" for rt u
      using Cons.prems True by (intro Cons.IH pool_ok_submitted) (auto simp: submitted_def)
    then show ?thesis
      using True Cons.prems
      by (subst fill.simps)
        (auto simp: wp_andthen [of "external (wpl_should_stop pl)"] wp_external wp_ret
          split: sum.split prod.split intro!: wp_any rest dest: steady_runs)
  next
    case False
    then show ?thesis using Cons.prems by (subst fill.simps) (auto simp: wp_ret dest: steady_slot)
  qed
qed

lemma pool_ok_ended:
  assumes "pool_ok cands c st" "find (\<lambda>a. fst a = k) (pls_active st) = Some (k', t, rt)"
  shows "pool_ok cands c (ended k' (session_of t r) st)"
proof -
  have x: "(k', t, rt) \<in> set (pls_active st)" using assms(2) by (auto simp: find_Some_iff in_set_conv_nth)
  have "mset (map worker_task xs) = add_mset t (mset (map worker_task (filter (\<lambda>x. fst x \<noteq> k') xs)))"
    if "distinct (map fst xs)" "(k', t, rt) \<in> set xs" for xs :: "'a worker list"
    using that
  proof (induction xs)
    case (Cons y xs)
    show ?case
    proof (cases "fst y = k'")
      case True
      have n: "k' \<notin> fst ` set xs" using Cons.prems(1) True by simp
      then have "(k', t, rt) \<notin> set xs" by (metis fst_conv image_eqI)
      then have y: "y = (k', t, rt)" using Cons.prems(2) by simp
      moreover have "filter (\<lambda>x. fst x \<noteq> k') xs = xs" using n by (intro filter_True) blast
      ultimately show ?thesis by (simp add: worker_task_def)
    next
      case False
      then show ?thesis using Cons by auto
    qed
  qed simp
  from this [OF _ x] show ?thesis
    using assms(1) by (auto simp: pool_ok_def ended_def session_of_def distinct_map_filter split: sum.split
        intro: le_trans [OF length_filter_le])
qed

lemma finish_ok:
  assumes "pool_ok cands c st"
  shows "wp (each (finish_worker pl) done st) (\<lambda>st' _. pool_ok cands c st') (\<lambda>_ _. True) s"
proof (rule wp_each [where I = "\<lambda>st _. pool_ok cands c st"])
  fix x and st :: "'a pool_state" and u :: "'a sys" assume "pool_ok cands c st"
  then show "wp (finish_worker pl x st) (\<lambda>st' _. pool_ok cands c st') (\<lambda>_ _. True) u"
    unfolding finish_worker_def
    by (auto simp: wp_or_raise wp_andthen [of "or_raise _ _"] wp_ret intro!: wp_any pool_ok_ended
        split: option.split prod.split)
qed (rule assms)

lemma pool_ok_cancelled: "pool_ok cands c st \<Longrightarrow> pool_ok cands c (st\<lparr>pls_cancelled := True\<rparr>)"
  by (simp add: pool_ok_def)

lemma wp_then:
  assumes "wp m P (\<lambda>_ _. True) s" "\<And>a u. P a u \<Longrightarrow> wp (f a) Q (\<lambda>_ _. True) u"
  shows "wp (andthen m f) Q (\<lambda>_ _. True) s"
  unfolding wp_andthen by (rule wp_mono [OF assms(1)]) (use assms(2) in auto)

lemma after_wait_ok:
  assumes "pool_ok cands c st"
  shows "wp (after_wait env pl done st) (\<lambda>st' _. pool_ok cands c st') (\<lambda>_ _. True) s"
  unfolding after_wait_def
  by (rule wp_then [OF finish_ok [OF assms]], rule wp_any)
    (auto simp: wp_ret cancel_active_def intro!: wp_any pool_ok_cancelled)

lemma pool_loop_ok:
  "pool_ok cands (wpl_concurrency pl) st \<Longrightarrow>
    wp (pool_loop n env pl st) (\<lambda>r _. \<forall>st'. r = Some st' \<longrightarrow> pool_ok cands (wpl_concurrency pl) st' \<and>
      pls_active st' = [] \<and> (steady pl \<longrightarrow>
        pls_pending st' = [])) (\<lambda>_ _. True) s"
proof (induction n arbitrary: st s)
  case (Suc n)
  show ?case
    unfolding pool_loop.simps
  proof (rule wp_then [OF fill_ok [OF Suc.prems refl]])
    fix st' :: "'a pool_state" and u :: "'a sys"
    assume st': "pool_ok cands (wpl_concurrency pl) st' \<and>
      (steady pl \<and> pls_active st' = [] \<longrightarrow>
        pls_pending st' = [])"
    show "wp (if pls_active st' = [] then ret (Some st')
        else andthen (external (wpl_wait pl (pls_active st') (wpl_wait_interval pl))) (\<lambda>done.
          andthen (after_wait env pl done st') (pool_loop n env pl)))
      (\<lambda>r _. \<forall>st'. r = Some st' \<longrightarrow> pool_ok cands (wpl_concurrency pl) st' \<and> pls_active st' = [] \<and>
        (steady pl \<longrightarrow> pls_pending st' = [])) (\<lambda>_ _. True) u"
    proof (cases "pls_active st' = []")
      case True
      then show ?thesis using st' by (simp add: wp_ret)
    next
      case False
      show ?thesis
        unfolding if_not_P [OF False]
        by (rule wp_any, rule wp_then [OF after_wait_ok], use st' in blast, rule Suc.IH)
    qed
  qed
qed (simp add: wp_ret)

text \<open>The pool of threads is only asked about as many threads as the pool allows.\<close>

definition agrees_up_to :: "'w worker_pool \<Rightarrow>
    ('w worker list \<Rightarrow> int \<Rightarrow> ('w, (nat \<times> (py_error, runtime_result) outcome) list) port) \<Rightarrow> bool" where
  "agrees_up_to pl wait \<longleftrightarrow> (\<forall>a i. length a \<le> wpl_concurrency pl \<longrightarrow> wait a i = wpl_wait pl a i)"

lemma andthen_cong_value:
  "(\<And>a u. m s = (Inr a, u) \<Longrightarrow> f a u = g a u) \<Longrightarrow> andthen m f s = andthen m g s"
  by (auto simp: andthen_def split: prod.splits sum.splits)

lemma fill_wait: "fill env (pl\<lparr>wpl_wait := wait\<rparr>) ts st = fill env pl ts st"
proof (induction ts arbitrary: st)
  case Nil
  show ?case
    unfolding fill.simps [of env "pl\<lparr>wpl_wait := wait\<rparr>" "[]" st] fill.simps [of env pl "[]" st] by (simp cong: if_cong list.case_cong)
next
  case (Cons t ts)
  show ?case
    unfolding fill.simps [of env "pl\<lparr>wpl_wait := wait\<rparr>" "t # ts" st] fill.simps [of env pl "t # ts" st]
    by (simp add: Cons.IH cong: if_cong list.case_cong)
qed

lemma after_wait_wait: "after_wait env (pl\<lparr>wpl_wait := wait\<rparr>) = after_wait env pl"
proof -
  have "cancel_worker env (pl\<lparr>wpl_wait := wait\<rparr>) = cancel_worker env pl"
    "finish_worker (pl\<lparr>wpl_wait := wait\<rparr>) = finish_worker pl"
    by (simp_all add: fun_eq_iff cancel_worker_def finish_worker_def)
  then show ?thesis by (intro ext) (simp add: after_wait_def cancel_active_def cong: if_cong)
qed

lemma pool_loop_bounded:
  assumes A: "agrees_up_to pl wait"
  shows "pool_ok cands (wpl_concurrency pl) st \<Longrightarrow>
    pool_loop n env (pl\<lparr>wpl_wait := wait\<rparr>) st s = pool_loop n env pl st s"
proof (induction n arbitrary: st s)
  case (Suc n)
  have turn: "(if pls_active st' = [] then ret (Some st')
      else andthen (external (wait (pls_active st') i)) (\<lambda>done.
        andthen (after_wait env pl done st') (pool_loop n env (pl\<lparr>wpl_wait := wait\<rparr>)))) u =
    (if pls_active st' = [] then ret (Some st')
      else andthen (external (wpl_wait pl (pls_active st') i)) (\<lambda>done.
        andthen (after_wait env pl done st') (pool_loop n env pl))) u"
    if "fill env pl (pls_pending st) st s = (Inr st', u)" for st' u i
  proof -
    have st': "pool_ok cands (wpl_concurrency pl) st'"
      using wpD_Inr [OF fill_ok [OF Suc.prems refl] that] by blast
    have w: "wait (pls_active st') i = wpl_wait pl (pls_active st') i"
      using A st' by (simp add: agrees_up_to_def pool_ok_def)
    have "andthen (after_wait env pl done st') (pool_loop n env (pl\<lparr>wpl_wait := wait\<rparr>)) v =
        andthen (after_wait env pl done st') (pool_loop n env pl) v" for "done" v
      by (rule andthen_cong_value) (rule Suc.IH [OF wpD_Inr [OF after_wait_ok [OF st']]])
    then have "andthen (external (wpl_wait pl (pls_active st') i)) (\<lambda>done.
        andthen (after_wait env pl done st') (pool_loop n env (pl\<lparr>wpl_wait := wait\<rparr>))) u =
      andthen (external (wpl_wait pl (pls_active st') i)) (\<lambda>done.
        andthen (after_wait env pl done st') (pool_loop n env pl)) u"
      by (rule andthen_cong_value)
    then show ?thesis unfolding w by (cases "pls_active st' = []") simp_all
  qed
  have part: "wpl_wait (pl\<lparr>wpl_wait := wait\<rparr>) = wait"
    "wpl_wait_interval (pl\<lparr>wpl_wait := wait\<rparr>) = wpl_wait_interval pl" by simp_all
  show ?case
    unfolding pool_loop.simps fill_wait after_wait_wait part
    by (rule andthen_cong_value) (rule turn)
qed simp

text \<open>
  A wait with a time limit may return before any thread ended.  \<open>progresses pl K left\<close>: the threads
  do end, that is, \<open>left\<close>, at most \<open>K\<close>, bounds the waits that return nothing before one returns a thread
  that ended; asking for a stop and creating a runtime do not put that off.
\<close>

definition progresses :: "'w worker_pool \<Rightarrow> nat \<Rightarrow> ('w \<Rightarrow> nat) \<Rightarrow> bool" where
  "progresses pl K left \<longleftrightarrow> (\<forall>w. left w \<le> K) \<and>
     (\<forall>a i w w'. wpl_wait pl a i w = (Inr [], w') \<longrightarrow> left w' < left w) \<and>
     (\<forall>w. left (snd (wpl_should_stop pl w)) \<le> left w) \<and> (\<forall>w. left (snd (wpl_factory pl w)) \<le> left w)"

lemma progresses_external:
  assumes "progresses pl K left"
  shows "wp (external (wpl_should_stop pl)) (\<lambda>_ u. left (sys_world u) \<le> left (sys_world s)) (\<lambda>_ _. True) s"
    and "wp (external (wpl_factory pl)) (\<lambda>_ u. left (sys_world u) \<le> left (sys_world s)) (\<lambda>_ _. True) s"
  using assms
  by (auto simp: progresses_def wp_external split: prod.split sum.split) (metis snd_conv)+

lemma fill_left:
  assumes P: "progresses pl K left"
  shows "left (sys_world s) \<le> k \<Longrightarrow>
    wp (fill env pl ts st) (\<lambda>_ u. left (sys_world u) \<le> k) (\<lambda>_ _. True) s"
proof (induction ts arbitrary: st s)
  case Nil
  then show ?case
    by (subst fill.simps) (auto simp: wp_ret intro!: wp_then [OF progresses_external(1) [OF P]])
next
  case (Cons t ts)
  show ?case
    by (subst fill.simps)
      (use Cons in \<open>auto simp: wp_ret wp_andthen [of "fresh_id _"] wp_fresh_id wp_andthen [of "from_outcome _"] wp_from_outcome
        split: sum.split
        intro!: wp_then [OF progresses_external(1) [OF P]] wp_then [OF progresses_external(2) [OF P]] Cons.IH\<close>)
qed

lemma finish_counts:
  "wp (each (finish_worker pl) ends st)
    (\<lambda>st' _. length (pls_sessions st') = length (pls_sessions st) + length ends) (\<lambda>_ _. True) s"
proof (induction ends arbitrary: st s)
  case (Cons e ends)
  have "wp (finish_worker pl e st) (\<lambda>st' _. length (pls_sessions st') = length (pls_sessions st) + 1) (\<lambda>_ _. True) u" for u
    unfolding finish_worker_def
    by (auto simp: wp_or_raise wp_andthen [of "or_raise _ _"] wp_ret ended_def intro!: wp_any
        split: option.split prod.split)
  then show ?case
    unfolding each.simps by (rule wp_then) (rule wp_mono [OF Cons.IH], auto)
qed (simp add: wp_ret)

lemma after_wait_counts:
  "wp (after_wait env pl ends st)
    (\<lambda>st' _. length (pls_sessions st') = length (pls_sessions st) + length ends) (\<lambda>_ _. True) s"
  unfolding after_wait_def
  by (rule wp_then [OF finish_counts], rule wp_any) (auto simp: wp_ret cancel_active_def intro!: wp_any)

lemma pool_ok_room:
  assumes "pool_ok cands c st" "pls_active st \<noteq> []" shows "length (pls_sessions st) < length cands"
proof -
  have "length (pls_sessions st) + length (pls_active st) + length (pls_pending st) = length cands"
    using arg_cong [of _ _ size, OF assms(1) [unfolded pool_ok_def, THEN conjunct1]] by simp
  then show ?thesis using assms(2) by (cases "pls_active st") simp_all
qed

lemma fill_sessions:
  "wp (fill env pl ts st) (\<lambda>st' _. pls_sessions st' = pls_sessions st) (\<lambda>_ _. True) s"
proof (induction ts arbitrary: st s)
  case Nil
  show ?case by (subst fill.simps) (auto simp: wp_ret intro!: wp_any)
next
  case (Cons t ts)
  have "wp (fill env pl ts (submitted rt t ts st)) (\<lambda>st' _. pls_sessions st' = pls_sessions st) (\<lambda>_ _. True) u"
    for rt u using Cons.IH [of "submitted rt t ts st" u] by (simp add: submitted_def)
  then show ?case by (subst fill.simps) (auto simp: wp_ret intro!: wp_any)
qed

lemma after_empty_wait:
  assumes "steady pl" "progresses pl K left" "left (sys_world s) \<le> k"
  shows "wp (after_wait env pl [] st) (\<lambda>_ u. left (sys_world u) \<le> k) (\<lambda>_ _. True) s"
proof -
  have stop: "wp (external (wpl_should_stop pl)) (\<lambda>stop u. \<not> stop \<and> left (sys_world u) \<le> left (sys_world s)) (\<lambda>_ _. True) s"
    by (rule wp_both [OF _ progresses_external(1) [OF assms(2)]])
      (auto simp: wp_external steady_runs [OF assms(1)] split: prod.split sum.split)
  show ?thesis
    unfolding after_wait_def each.simps wp_andthen [of "ret st"] wp_ret
    by (rule wp_then [OF stop]) (use assms(3) in \<open>auto simp: wp_ret\<close>)
qed

lemma pool_loop_ends:
  assumes R: "steady pl" "progresses pl K left"
  shows "pool_ok cands (wpl_concurrency pl) st \<Longrightarrow>
    (length cands - length (pls_sessions st)) * (K + 1) + left (sys_world s) < n \<Longrightarrow>
    wp (pool_loop n env pl st) (\<lambda>r _. r \<noteq> None) (\<lambda>_ _. True) s"
proof (induction n arbitrary: st s)
  case (Suc n)
  show ?case
    unfolding pool_loop.simps
  proof (rule wp_then [OF wp_both [OF fill_ok [OF Suc.prems(1) refl] wp_both [OF fill_sessions fill_left [OF R(2) order_refl]]]])
    fix st' :: "'a pool_state" and u :: "'a sys"
    assume a: "(pool_ok cands (wpl_concurrency pl) st' \<and> (steady pl \<and> pls_active st' = [] \<longrightarrow> pls_pending st' = [])) \<and>
      pls_sessions st' = pls_sessions st \<and> left (sys_world u) \<le> left (sys_world s)"
    then have st': "pool_ok cands (wpl_concurrency pl) st'" and m: "left (sys_world u) \<le> left (sys_world s)"
      and same: "length (pls_sessions st') = length (pls_sessions st)" by auto
    show "wp (if pls_active st' = [] then ret (Some st')
        else andthen (external (wpl_wait pl (pls_active st') (wpl_wait_interval pl))) (\<lambda>ends.
          andthen (after_wait env pl ends st') (pool_loop n env pl))) (\<lambda>r _. r \<noteq> None) (\<lambda>_ _. True) u"
    proof (cases "pls_active st' = []")
      case True
      then show ?thesis by (simp add: wp_ret)
    next
      case False
      have room: "length (pls_sessions st) < length cands" using pool_ok_room [OF st' False] same by simp
      have reported: "wp (andthen (after_wait env pl ends st') (pool_loop n env pl)) (\<lambda>r _. r \<noteq> None) (\<lambda>_ _. True) v"
        if "ends \<noteq> []" for ends v
      proof (rule wp_then [OF wp_both [OF after_wait_ok [OF st'] after_wait_counts]], rule Suc.IH)
        fix x and v' :: "'a sys"
        assume x: "pool_ok cands (wpl_concurrency pl) x \<and> length (pls_sessions x) = length (pls_sessions st') + length ends"
        then show "pool_ok cands (wpl_concurrency pl) x" ..
        obtain d where d: "length cands - length (pls_sessions st) = Suc d"
          using room by (metis Suc_diff_Suc)
        have "length cands - length (pls_sessions x) \<le> d"
          using x d same that by (cases ends) auto
        then have "(length cands - length (pls_sessions x)) * (K + 1) \<le> d * (K + 1)" by (rule mult_le_mono1)
        moreover have "left (sys_world v') \<le> K" using R(2) by (simp add: progresses_def)
        moreover have "d * (K + 1) + K < n" using Suc.prems(2) unfolding d by simp
        ultimately show "(length cands - length (pls_sessions x)) * (K + 1) + left (sys_world v') < n" by linarith
      qed
      have empty: "wp (andthen (after_wait env pl [] st') (pool_loop n env pl)) (\<lambda>r _. r \<noteq> None) (\<lambda>_ _. True) v"
        if "left (sys_world v) < left (sys_world s)" for v
        by (rule wp_then [OF wp_both [OF after_wait_ok [OF st'] wp_both [OF after_wait_counts after_empty_wait [OF R order_refl]]]],
            rule Suc.IH) (use that Suc.prems(2) same in auto)
      obtain r w where r: "wpl_wait pl (pls_active st') (wpl_wait_interval pl) (sys_world u) = (r, w)"
        by (cases "wpl_wait pl (pls_active st') (wpl_wait_interval pl) (sys_world u)")
      then have "r = Inr [] \<Longrightarrow> left w < left (sys_world s)"
        using R(2) m unfolding progresses_def by (metis order_less_le_trans)
      then show ?thesis
        unfolding if_not_P [OF False] wp_andthen [of "external _"] wp_external r prod.case
        by (cases r; cases "r = Inr []") (auto intro: empty reported simp del: not_None_eq)
    qed
  qed
qed simp

section \<open>The coordinator refines the store\<close>

lemma safe_pass:
  assumes W: "confined P env" and F: "\<And>w rt. fst (wpl_factory pl w) = Inr rt \<Longrightarrow> safe_runtime P rt"
  shows "safe P (run_pass n env pl)"
proof -
  have fill: "safe P (fill env pl ts st)" for ts st
  proof (induction ts arbitrary: st)
    case Nil
    show ?case by (subst fill.simps, unfold list.case) (intro safe_basic safe_external)
  next
    case (Cons t ts)
    show ?case
      by (subst fill.simps, unfold list.case) (intro safe_basic safe_external Cons.IH safe_rules [OF W])
  qed
  have after: "safe P (after_wait env pl ends st)" for ends st
    unfolding after_wait_def finish_worker_def cancel_active_def cancel_worker_def
    by (intro safe_basic safe_external safe_rules [OF W])
  have loop: "safe P (pool_loop n env pl st)" for st
    by (induction n arbitrary: st) (auto intro!: safe_basic safe_external fill after)
  have from_factory: "safe P (andthen (external (wpl_factory pl)) f)"
    if "\<And>rt. safe_runtime P rt \<Longrightarrow> safe P (f rt)" for f :: "'a runtime \<Rightarrow> ('a, string list) call"
    using that F by (auto simp: keeps_def andthen_def external_def on_db_def performs_refl split: prod.split sum.split)
      (metis fst_conv sys.select_convs(1) sys.surjective sys.update_convs(2))
  have "safe P (andthen (prepare_pool env c) (\<lambda>_. pool_candidates env c))" if "safe_runtime P c" for c
    by (intro safe_basic safe_prepare_pool [OF W that] safe_rules [OF W])
  then have prep: "safe P (andthen (external (wpl_factory pl)) (\<lambda>c. andthen (prepare_pool env c) (\<lambda>_. pool_candidates env c)))"
    by (rule from_factory)
  have "safe P (andthen (external (wpl_should_stop pl)) (\<lambda>stop.
     if stop then ret (Some [])
     else andthen (attempt m) (\<lambda>r. case r of
       Inl e \<Rightarrow> if recoverable_preparation e then ret (Some []) else raise e
     | Inr candidates \<Rightarrow> andthen (pool_loop n env pl (pool_start candidates)) (\<lambda>r.
         ret (map_option pls_sessions r)))))" if "safe P m" for m
    by (intro safe_basic safe_external loop that)
  from this [OF prep] show ?thesis unfolding run_pass_def .
qed

end
