(* ===== verification/Projections.thy ===== *)
theory Projections
  imports Planning_Store Recovery_Service "HOL-Library.Multiset"
begin

text \<open>
  Read-only projections of the store: \<^verbatim>\<open>SqliteAuditEventStore\<close> (\<^verbatim>\<open>audit.py\<close>) and \<^verbatim>\<open>SqliteSprintMetrics\<close>
  (\<^verbatim>\<open>metrics.py\<close>).  SHA-256 is a parameter.  Rates and the lead time are the exact quotients; their
  rounding as binary floating point numbers is not modelled.
\<close>

section \<open>The audit trace\<close>

record audit_view =
  avw_sequence :: nat
  avw_name :: string
  avw_correlation :: string
  avw_task :: string
  avw_run :: "string option"
  avw_workspace :: "string option"
  avw_pull_request :: "string option"
  avw_cause :: string
  avw_aggregate_type :: string
  avw_aggregate_id :: string
  avw_aggregate_version :: nat
  avw_occurred_at :: int
  avw_provider :: "string option"
  avw_issue_number :: "int option"
  avw_project :: "string option"
  avw_evidence :: "(string \<times> json) list"

definition safe_id :: "(string \<Rightarrow> string) \<Rightarrow> string option \<Rightarrow> string option" where
  "safe_id sha x = (case x of None \<Rightarrow> None | Some s \<Rightarrow> if s = [] then None else Some (take 12 (sha s)))"

definition safe_text :: "(string \<Rightarrow> string) \<Rightarrow> string \<Rightarrow> string" where
  "safe_text sha s = (case safe_id sha (Some s) of None \<Rightarrow> [] | Some x \<Rightarrow> x)"

text \<open>\<open>_event\<close>, with the project of the left join.\<close>

definition event_view :: "(string \<Rightarrow> string) \<Rightarrow> store \<Rightarrow> audit_event \<Rightarrow> audit_view" where
  "event_view sha d e = \<lparr>avw_sequence = ev_seq e, avw_name = ev_name e, avw_correlation = ev_correlation e,
     avw_task = ev_task e, avw_run = safe_id sha (ev_run e), avw_workspace = ev_workspace e,
     avw_pull_request = ev_pull_request e, avw_cause = safe_text sha (ev_cause e),
     avw_aggregate_type = ev_aggregate_type e,
     avw_aggregate_id = (if ev_aggregate_type e = ''run'' then safe_text sha (ev_aggregate_id e) else ev_aggregate_id e),
     avw_aggregate_version = ev_aggregate_version e, avw_occurred_at = ev_occurred_at e,
     avw_provider = map_option src_provider (ev_source e),
     avw_issue_number = map_option src_issue_number (ev_source e),
     avw_project = map_option task_project (get_task d (ev_task e)), avw_evidence = ev_evidence e\<rparr>"

definition events_for_task :: "(string \<Rightarrow> string) \<Rightarrow> store \<Rightarrow> string \<Rightarrow> audit_view list" where
  "events_for_task sha d tid =
     map (event_view sha d) (sort_key ev_seq (filter (\<lambda>e. ev_task e = tid) (db_audit d)))"

definition events_for_sprint :: "(string \<Rightarrow> string) \<Rightarrow> store \<Rightarrow> string \<Rightarrow> audit_view list" where
  "events_for_sprint sha d sid = events_for_task sha d (''sprint:'' @ sid)"

definition events_for_issue :: "(string \<Rightarrow> string) \<Rightarrow> store \<Rightarrow> string \<Rightarrow> string \<Rightarrow> int \<Rightarrow> audit_view list" where
  "events_for_issue sha d provider repo n =
     (case find_by_source d \<lparr>src_provider = provider, src_repository = repo, src_issue_number = n\<rparr> of
        None \<Rightarrow> [] | Some t \<Rightarrow> events_for_task sha d (task_id t))"

definition events_for_work_item :: "(string \<Rightarrow> string) \<Rightarrow> store \<Rightarrow> string \<Rightarrow> string \<Rightarrow> audit_view list" where
  "events_for_work_item sha d provider external_id =
     (case find (\<lambda>l. lk_provider l = provider \<and> lk_external l = external_id \<and> lk_state l = MATERIALIZED)
         (db_links d) of
        None \<Rightarrow> []
      | Some l \<Rightarrow> (case lk_number l of None \<Rightarrow> []
          | Some n \<Rightarrow> events_for_issue sha d ''github'' (lk_repository l) n))"

section \<open>Metrics\<close>

record metrics =
  mtr_project :: string
  mtr_tasks :: nat
  mtr_throughput :: nat
  mtr_terminal :: nat
  mtr_started :: nat
  mtr_first_pass :: nat
  mtr_retries :: nat
  mtr_lead_times :: "int list"
  mtr_interventions :: nat

text \<open>The runs and the transitions of a task in the order of the queries.\<close>

definition task_runs :: "store \<Rightarrow> string \<Rightarrow> agent_run list" where
  "task_runs d tid = map rrow_run (filter (\<lambda>r. run_task_id (rrow_run r) = tid) (sort_key rrow_created (db_runs d)))"

definition task_history :: "store \<Rightarrow> string \<Rightarrow> task_transition list" where
  "task_history d tid = filter (\<lambda>x. tt_task_id x = tid) (sort_key tt_occurred_at (db_transitions d))"

definition first_pass :: "agent_run list \<Rightarrow> bool" where
  "first_pass runs \<longleftrightarrow> (case runs of [] \<Rightarrow> False
     | r # _ \<Rightarrow> run_status r = Run_SUCCEEDED \<and> run_gates r \<noteq> [] \<and>
         list_all (\<lambda>g. \<not> gate_required g \<or> gate_status g = Gate_PASSED) (run_gates r))"

definition lead_time :: "store \<Rightarrow> factory_task \<Rightarrow> int option" where
  "lead_time d t = (if task_status t \<noteq> Task_DONE then None
     else case find (\<lambda>x. tt_to x = Task_DONE) (task_history d (task_id t)) of None \<Rightarrow> None
     | Some x \<Rightarrow> Some (tt_occurred_at x - task_created_at t))"

definition interventions :: "task_transition list \<Rightarrow> nat" where
  "interventions h = length (filter (\<lambda>x. tt_to x \<in> {Task_WAITING_HUMAN, Task_CHANGES_REQUESTED}) h)"

definition no_metrics :: "string \<Rightarrow> metrics" where
  "no_metrics project = \<lparr>mtr_project = project, mtr_tasks = 0, mtr_throughput = 0, mtr_terminal = 0, mtr_started = 0,
     mtr_first_pass = 0, mtr_retries = 0, mtr_lead_times = [], mtr_interventions = 0\<rparr>"

definition one_if :: "bool \<Rightarrow> nat" where
  "one_if b = (if b then 1 else 0)"

text \<open>One turn of the loop of \<open>_calculate\<close>.\<close>

definition count_task :: "store \<Rightarrow> metrics \<Rightarrow> factory_task \<Rightarrow> metrics" where
  "count_task d m t = (let runs = task_runs d (task_id t); h = task_history d (task_id t) in
     m\<lparr>mtr_tasks := mtr_tasks m + 1,
       mtr_throughput := mtr_throughput m + one_if (task_status t = Task_DONE),
       mtr_lead_times := mtr_lead_times m @ (case lead_time d t of None \<Rightarrow> [] | Some x \<Rightarrow> [x]),
       mtr_terminal := mtr_terminal m + one_if (task_status t \<in> {Task_DONE, Task_FAILED, Task_CANCELLED}),
       mtr_started := mtr_started m + one_if (runs \<noteq> []),
       mtr_retries := mtr_retries m + one_if (1 < length runs),
       mtr_first_pass := mtr_first_pass m + one_if (first_pass runs),
       mtr_interventions := mtr_interventions m + interventions h\<rparr>)"

definition calculate :: "store \<Rightarrow> string \<Rightarrow> factory_task list \<Rightarrow> metrics" where
  "calculate d project ts = foldl (count_task d) (no_metrics project) ts"

text \<open>The groups: a dictionary in the order of its first keys.\<close>

fun add_group :: "string \<Rightarrow> 'a \<Rightarrow> (string \<times> 'a list) list \<Rightarrow> (string \<times> 'a list) list" where
  "add_group k x [] = [(k, [x])]"
| "add_group k x ((j, xs) # g) = (if j = k then (j, xs @ [x]) # g else (j, xs) # add_group k x g)"

definition groups :: "factory_task list \<Rightarrow> (string \<times> factory_task list) list" where
  "groups ts = fold (\<lambda>t. add_group (task_project t) t) ts [(''global'', ts)]"

definition report :: "store \<Rightarrow> metrics list" where
  "report d = (let ts = sort_key task_id (map trow_task (db_tasks d)) in
     map (\<lambda>(p, rows). calculate d p rows) (sort_key (\<lambda>(p, _). p \<noteq> ''global'') (groups ts)))"

definition rate :: "nat \<Rightarrow> nat \<Rightarrow> rat option" where
  "rate n k = (if k = 0 then None else Some (of_nat n / of_nat k))"

definition success_rate :: "metrics \<Rightarrow> rat option" where
  "success_rate m = rate (mtr_throughput m) (mtr_terminal m)"

definition first_pass_rate :: "metrics \<Rightarrow> rat option" where
  "first_pass_rate m = rate (mtr_first_pass m) (mtr_started m)"

definition retry_rate :: "metrics \<Rightarrow> rat option" where
  "retry_rate m = rate (mtr_retries m) (mtr_started m)"

definition lead_time_micros :: "metrics \<Rightarrow> rat option" where
  "lead_time_micros m = (if mtr_lead_times m = [] then None
     else Some (of_int (sum_list (mtr_lead_times m)) / of_nat (length (mtr_lead_times m))))"

section \<open>What the report says\<close>

lemma count_task_bounds:
  assumes "mtr_throughput m \<le> mtr_terminal m" "mtr_terminal m \<le> mtr_tasks m" "mtr_first_pass m \<le> mtr_started m"
    "mtr_retries m \<le> mtr_started m" "mtr_started m \<le> mtr_tasks m"
  shows "mtr_throughput (count_task d m t) \<le> mtr_terminal (count_task d m t)"
    "mtr_terminal (count_task d m t) \<le> mtr_tasks (count_task d m t)"
    "mtr_first_pass (count_task d m t) \<le> mtr_started (count_task d m t)"
    "mtr_retries (count_task d m t) \<le> mtr_started (count_task d m t)"
    "mtr_started (count_task d m t) \<le> mtr_tasks (count_task d m t)"
  using assms by (auto simp: count_task_def Let_def one_if_def first_pass_def split: list.splits)

definition bounded :: "metrics \<Rightarrow> bool" where
  "bounded m \<longleftrightarrow> mtr_throughput m \<le> mtr_terminal m \<and> mtr_terminal m \<le> mtr_tasks m \<and>
     mtr_first_pass m \<le> mtr_started m \<and> mtr_retries m \<le> mtr_started m \<and> mtr_started m \<le> mtr_tasks m"

lemma calculate_bounded: "bounded (calculate d p ts)"
proof -
  have "bounded m \<Longrightarrow> bounded (foldl (count_task d) m ts)" for m
    by (induction ts arbitrary: m) (auto simp: bounded_def count_task_bounds)
  then show ?thesis by (simp add: calculate_def bounded_def no_metrics_def)
qed

lemma rate_unit: "n \<le> k \<Longrightarrow> rate n k = Some x \<Longrightarrow> 0 \<le> x \<and> x \<le> 1"
  by (auto simp: rate_def split: if_splits)

lemma report_rates:
  assumes "m \<in> set (report d)" "success_rate m = Some x \<or> first_pass_rate m = Some x \<or> retry_rate m = Some x"
  shows "0 \<le> x \<and> x \<le> 1"
proof -
  have "bounded m" using assms(1) calculate_bounded by (auto simp: report_def Let_def)
  then show ?thesis
    using assms(2) rate_unit by (auto simp: bounded_def success_rate_def first_pass_rate_def retry_rate_def)
qed

text \<open>A counter that adds a weight per task adds up over the groups.\<close>

definition adds :: "store \<Rightarrow> (metrics \<Rightarrow> nat) \<Rightarrow> (factory_task \<Rightarrow> nat) \<Rightarrow> bool" where
  "adds d f w \<longleftrightarrow> (\<forall>p. f (no_metrics p) = 0) \<and> (\<forall>m t. f (count_task d m t) = f m + w t)"

lemma adds_calculate: "adds d f w \<Longrightarrow> f (calculate d p ts) = sum_list (map w ts)"
proof -
  assume a: "adds d f w"
  have "f (foldl (count_task d) m ts) = f m + sum_list (map w ts)" for m
    using a by (induction ts arbitrary: m) (auto simp: adds_def)
  then show ?thesis using a by (simp add: calculate_def adds_def)
qed

lemma calculate_project: "mtr_project (calculate d p ts) = p"
proof -
  have "mtr_project (foldl (count_task d) m ts) = mtr_project m" for m
    by (induction ts arbitrary: m) (simp_all add: count_task_def Let_def)
  then show ?thesis by (simp add: calculate_def no_metrics_def)
qed

lemma counters_add:
  "adds d mtr_tasks (\<lambda>_. 1)" "adds d mtr_throughput (\<lambda>t. one_if (task_status t = Task_DONE))"
  "adds d mtr_terminal (\<lambda>t. one_if (task_status t \<in> {Task_DONE, Task_FAILED, Task_CANCELLED}))"
  "adds d mtr_started (\<lambda>t. one_if (task_runs d (task_id t) \<noteq> []))"
  "adds d mtr_first_pass (\<lambda>t. one_if (first_pass (task_runs d (task_id t))))"
  "adds d mtr_retries (\<lambda>t. one_if (1 < length (task_runs d (task_id t))))"
  "adds d mtr_interventions (\<lambda>t. interventions (task_history d (task_id t)))"
  by (simp_all add: adds_def count_task_def no_metrics_def Let_def)

definition group_sum :: "('a \<Rightarrow> nat) \<Rightarrow> (string \<times> 'a list) list \<Rightarrow> nat" where
  "group_sum w g = sum_list (map (\<lambda>(_, xs). sum_list (map w xs)) g)"

lemma group_sum_add: "group_sum w (add_group k x g) = w x + group_sum w g"
  by (induction g) (auto simp: group_sum_def)

lemma add_group_keys: "set (map fst (add_group k x g)) = insert k (set (map fst g))"
  by (induction k x g rule: add_group.induct) (simp_all add: insert_commute del: set_map)

lemma fold_groups:
  assumes "\<forall>t \<in> set ts. task_project t \<noteq> k"
  shows "\<exists>g'. fold (\<lambda>t. add_group (task_project t) t) ts ((k, xs) # g) = (k, xs) # g' \<and>
    group_sum w g' = group_sum w g + sum_list (map w ts) \<and> (k \<notin> set (map fst g) \<longrightarrow> k \<notin> set (map fst g'))"
  using assms
proof (induction ts arbitrary: g)
  case (Cons t ts)
  with Cons.IH [of "add_group (task_project t) t g"] Cons.prems show ?case
    by (auto simp: group_sum_add add_group_keys simp del: set_map)
qed simp

lemma mset_map_sort: "mset (map h (sort_key k xs)) = mset (map h xs)"
  by (metis mset_map mset_sort)

lemma report_adds_up:
  assumes "adds d f w" "\<forall>r \<in> set (db_tasks d). task_project (trow_task r) \<noteq> ''global''"
  shows "\<exists>m \<in> set (report d). mtr_project m = ''global'' \<and>
    sum_list (map f (filter (\<lambda>m. mtr_project m \<noteq> ''global'') (report d))) = f m"
proof -
  define ts where "ts = sort_key task_id (map trow_task (db_tasks d))"
  have "\<forall>t \<in> set ts. task_project t \<noteq> ''global''" using assms(2) by (simp add: ts_def)
  from fold_groups [OF this, of ts "[]" w] obtain g where g: "groups ts = (''global'', ts) # g"
      "group_sum w g = sum_list (map w ts)" "''global'' \<notin> set (map fst g)"
    by (auto simp: groups_def group_sum_def)
  let ?calc = "\<lambda>(p, rows). calculate d p rows" and ?P = "\<lambda>m. mtr_project m \<noteq> ''global''"
  have report: "mset (report d) = mset (map ?calc (groups ts))"
    by (simp only: report_def Let_def ts_def [symmetric] multiset.map_comp mset_map_sort)
  have keep: "filter ?P (map ?calc xs) = map ?calc xs" if "''global'' \<notin> set (map fst xs)" for xs
    using that by (induction xs) (auto simp: calculate_project)
  have "sum_list (map f (filter ?P (report d))) = sum_list (map f (filter ?P (map ?calc (groups ts))))"
    by (simp add: report flip: sum_mset_sum_list)
  also have "\<dots> = sum_list (map f (map ?calc g))"
    using keep [OF g(3)] by (simp add: g(1) calculate_project)
  also have "\<dots> = group_sum w g"
    unfolding group_sum_def by (induction g) (auto simp: adds_calculate [OF assms(1)])
  also have "\<dots> = f (calculate d ''global'' ts)" by (simp add: g(2) adds_calculate [OF assms(1)])
  finally have "sum_list (map f (filter ?P (report d))) = f (calculate d ''global'' ts)" .
  moreover have "calculate d ''global'' ts \<in> set (report d)"
    using arg_cong [OF report, of set_mset] by (simp add: g(1))
  ultimately show ?thesis using calculate_project by blast
qed

end
