(* ===== verification/Operations_Properties.thy ===== *)
theory Operations_Properties
  imports Runtime_Properties Recovery_Facts Pool_Facts Memory_Store Projections
begin

text \<open>The guarantees of the operator's recoveries, of the loops above the runtime, of operational memory and of the
  metrics.\<close>

section \<open>Terminal recovery\<close>

lemma writesD: "writes (sys_db s) m W \<Longrightarrow> m s = (Inr a, u) \<Longrightarrow> W a (sys_db u)"
  by (auto simp: writes_def wp_def dest!: spec [of _ s])

text \<open>C17. A failed task is recovered only on evidence.  Alone, a recovery that raises leaves the store as it
  was.  One that returns was acknowledged, the named run is the latest attempt of a failed
  code task below the failure limit with no active run, and its issue is eligible.  Neither the store nor the
  provider, asked about the repository of the task, the branch of the workspace of that run and the
  configured base, knows a pull request.  The worker's own file, in the directory of the workspaces that holds that
  workspace, says that the deadline ended the run (this recovery also needs the sprints
  configured), or that it failed without a timeout and that same workspace has nothing unpublished
  against the configured base.  The store is then changed by the one operation of the repository.\<close>

theorem failure_recovery_evidenced:
  assumes "quiet env"
  shows "writes d (authorize_timeout env v tid rid ack) (\<lambda>t' d'. ack \<and> rcy_sprint v \<and>
      (\<exists>t w base dir. recovery_ground d v tid rid t w base dir \<and> worker_said v dir rid deadline_evidence) \<and>
      (\<exists>now uid. authorize_terminal_timeout_recovery now uid tid rid d = Inr (t', d'))) \<and>
    writes d (authorize_worker_failure env v tid rid ack) (\<lambda>t' d'. ack \<and>
      (\<exists>t w base dir clean. recovery_ground d v tid rid t w base dir \<and> worker_said v dir rid clean_exit_evidence \<and>
         rcy_clean v = Some clean \<and> answered_by (clean w base) True) \<and>
      (\<exists>now uid. authorize_terminal_worker_recovery now uid tid rid d = Inr (t', d')))"
  using authorize_timeout_writes [OF assms] authorize_worker_failure_writes [OF assms] by blast

definition failed_task :: factory_task where
  "failed_task = (sample_task ''a'' Task_FAILED)\<lparr>task_source := Some \<lparr>src_provider = ''github'',
     src_repository = ''o/r'', src_issue_number = 1\<rparr>\<rparr>"

definition branch_workspace :: workspace where
  "branch_workspace = sample_workspace\<lparr>ws_branch := ''factory/a/w''\<rparr>"

definition failed_ops :: "store_op list" where
  "failed_ops = [Save_task failed_task,
     Save_run 3 ((sample_run ''r'' Run_FAILED)\<lparr>run_workspace := Some branch_workspace\<rparr>)]"

definition worker_file :: "string \<Rightarrow> file_view" where
  "worker_file s = \<lparr>fvw_symlink = False, fvw_exists = True, fvw_regular = True, fvw_owned = True,
     fvw_size = length s, fvw_text = Some s\<rparr>"

definition exit_entries :: "(nat list \<times> jvalue) list" where
  "exit_entries = [(points ''status'', JV_string (points ''FAILED'')), (points ''exit_code'', JV_number ''1''),
     (points ''timed_out'', JV_bool False)]"

definition exit_members :: string where
  "exit_members = json_string ''status'' @ CHR '':'' # json_string ''FAILED'' @ CHR '','' #
     json_string ''exit_code'' @ '':1,'' @ json_string ''timed_out'' @ '':false}''"

definition pid_entries :: "(nat list \<times> jvalue) list" where
  "pid_entries = [(points ''worker_pid'', JV_number ''41''), (points ''codex_pid'', JV_number ''42'')]"

definition pid_members :: string where
  "pid_members = json_string ''worker_pid'' @ '':41,'' @ json_string ''codex_pid'' @ '':42}''"

definition sample_recovery :: "(string \<Rightarrow> file_view) \<Rightarrow> unit recovery" where
  "sample_recovery file = \<lparr>rcy_policy = default_policy, rcy_base = ''main'', rcy_registry = None, rcy_sprint = False,
     rcy_root = (\<lambda>u. (Inr ''/w'', u)), rcy_inside = (\<lambda>dir p u. (Inr True, u)),
     rcy_file = (\<lambda>dir name u. (Inr (file name), u)), rcy_probe = (\<lambda>pid u. (Inr Process_missing, u)),
     rcy_eligible = (\<lambda>t u. (Inr True, u)), rcy_sink = (\<lambda>repo head base u. (Inr None, u)),
     rcy_provisioner = sample_provisioner, rcy_clean = Some (\<lambda>w base u. (Inr True, u))\<rparr>"

definition returns :: "(py_error, 'a) outcome \<times> 's \<Rightarrow> bool" where
  "returns p = (case p of (Inr _, _) \<Rightarrow> True | _ \<Rightarrow> False)"

lemma returnsD: "returns p \<Longrightarrow> \<exists>a u. p = (Inr a, u)"
  by (auto simp: returns_def split: prod.splits sum.splits)

text \<open>The texts of the files are objects; numbers and words by evaluation.\<close>

lemma parse_members_json:
  "parse_members (Suc n) (json_string k @ CHR '':'' # s) = (case parse_value n (skip s) of None \<Rightarrow> None
     | Some (v, r) \<Rightarrow> if starts_with ''}'' (skip r) then Some ([(points k, v)], drop 1 (skip r))
         else if starts_with '','' (skip r)
         then map_option (\<lambda>(kvs, rest). ((points k, v) # kvs, rest)) (parse_members n (skip (drop 1 (skip r))))
         else None)"
  using parse_string_json [of k "CHR '':'' # s"]
  by (simp add: json_string_def json_space_def starts_with_def skip_def split: option.split)

lemma scalars:
  "parse_value (Suc n) (''1,'' @ s) = Some (JV_number ''1'', CHR '','' # s)"
  "parse_value (Suc n) (''false}'' @ s) = Some (JV_bool False, CHR ''}'' # s)"
  "parse_value (Suc n) (''41,'' @ s) = Some (JV_number ''41'', CHR '','' # s)"
  "parse_value (Suc n) (''42}'' @ s) = Some (JV_number ''42'', CHR ''}'' # s)"
  by (simp_all add: parse_scalar_def literals_def starts_with_def parse_number_def digits_def is_digit_def
      fraction_def exponent_def MAX_INT_DIGITS_def Let_def)

lemma skip_cons: "skip (c # s) = (if json_space c then skip s else c # s)"
  by (simp add: skip_def)

lemma file_members:
  "parse_members (Suc (Suc (Suc (Suc n)))) exit_members = Some (exit_entries, [])"
  "parse_members (Suc (Suc (Suc (Suc n)))) pid_members = Some (pid_entries, [])"
  using scalars unfolding exit_members_def exit_entries_def pid_members_def pid_entries_def
  by (simp_all add: parse_members_json parse_value_json starts_with_def json_space_def skip_cons
      del: parse_value.simps parse_members.simps)

lemma loads_object:
  assumes "\<And>n. parse_members (Suc (Suc (Suc (Suc n)))) (json_string k @ s) = Some (kvs, [])"
  shows "loads (CHR ''{'' # json_string k @ s) = Some (JV_object kvs)"
proof -
  have "4 \<le> 2 * length (CHR ''{'' # json_string k @ s)" by (simp add: json_string_def)
  moreover have "\<exists>m. k = Suc (Suc (Suc (Suc m)))" if "4 \<le> k" for k :: nat using that by presburger
  ultimately obtain m where "2 * length (CHR ''{'' # json_string k @ s) = Suc (Suc (Suc (Suc m)))"
    by blast
  moreover have "\<not> starts_with ''}'' (json_string k @ s)" by (simp add: starts_with_def json_string_def)
  ultimately have "parse_value (2 * length (CHR ''{'' # json_string k @ s) + 1) (CHR ''{'' # json_string k @ s) =
      Some (JV_object kvs, [])"
    using assms [of m] parse_value.simps(2) [of "Suc (Suc (Suc (Suc m)))" "CHR ''{'' # json_string k @ s"]
    by (simp only: Suc_eq_plus1 [symmetric] list.case if_False skip_json_string option.map prod.case if_True simp_thms)
      (simp only: char.inject simp_thms if_False)
  then show ?thesis by (simp add: loads_def skip_def json_space_def del: parse_value.simps)
qed

lemma loads_files:
  "loads (CHR ''{'' # exit_members) = Some (JV_object exit_entries)"
  "loads (CHR ''{'' # pid_members) = Some (JV_object pid_entries)"
  using file_members unfolding exit_members_def pid_members_def by (auto intro: loads_object)

lemma small_files:
  "length (CHR ''{'' # exit_members) \<le> 512" "ascii (CHR ''{'' # exit_members)"
  "length (CHR ''{'' # pid_members) \<le> 512" "ascii (CHR ''{'' # pid_members)"
  by code_simp+

lemma exit_file:
  "worker_result (sample_recovery (\<lambda>_. worker_file (CHR ''{'' # exit_members))) dir rid = ret exit_entries"
  using loads_files(1) small_files(1,2)
  by (simp add: worker_result_def sample_recovery_def worker_file_def external_def andthen_def fun_eq_iff ret_def
      trusted_file_def evidence_object_def or_raise_def check_def)

lemma exit_is_clean: "clean_exit_evidence exit_entries"
  by (simp add: clean_exit_evidence_def failed_process_def exit_entries_def entry_def int_entry_def int_literal_def)

lemma pid_file: "worker_pids (worker_file (CHR ''{'' # pid_members)) = Some (''41'', ''42'')"
  using loads_files(2) small_files(3,4)
  by (simp add: worker_pids_def worker_file_def evidence_object_def pid_entries_def pid_entry_def int_entry_def
      int_literal_def entry_def starts_with_def)

lemma worker_failure_returns:
  "returns (authorize_worker_failure sample_env (sample_recovery (\<lambda>_. worker_file (CHR ''{'' # exit_members))) ''a'' ''r'' True
     (sample_sys (run_ops failed_ops empty_store)))"
  unfolding authorize_worker_failure_def exit_file by code_simp

theorem failure_recovery_evidenced_witness:
  "\<exists>t w base dir. recovery_ground (run_ops failed_ops empty_store) (sample_recovery (\<lambda>_. worker_file (CHR ''{'' # exit_members)))
     ''a'' ''r'' t w base dir"
proof -
  let ?s = "sample_sys (run_ops failed_ops empty_store)"
  obtain a u where "authorize_worker_failure sample_env (sample_recovery (\<lambda>_. worker_file (CHR ''{'' # exit_members))) ''a'' ''r'' True ?s =
      (Inr a, u)" using returnsD [OF worker_failure_returns] by blast
  from writesD [OF conjunct2 [OF failure_recovery_evidenced [OF quiet_sample]] this] show ?thesis by auto
qed

text \<open>C18. A running task is recovered only when its worker is gone.  Alone, a recovery of an orphan that
  raises leaves the store as it was; one that returns was acknowledged, the named run is the task's
  active and latest one, its issue is eligible, neither the store nor the provider, asked about the
  repository of the task, the branch of its workspace and the configured base, knows a pull request, that
  workspace has nothing unpublished against that base, and both processes that the worker's own file, in the directory of the
  workspaces that holds it, names do not exist.  The store is then changed by the one operation of the repository.\<close>

theorem orphan_recovery_evidenced:
  assumes "quiet env"
  shows "writes d (authorize_orphan env v tid rid ack) (\<lambda>t' d'. ack \<and>
    (\<exists>t run w base dir f p q clean. latest_attempt d Run_RUNNING Task_RUNNING tid rid t run w \<and>
       find_active_run d tid = Some run \<and> configured_base v t base \<and> workspace_root v w dir \<and>
       task_source t \<noteq> None \<and> answered_by (rcy_eligible v t) True \<and> nothing_published d v t w base \<and>
       rcy_clean v = Some clean \<and> answered_by (clean w base) True \<and>
       answered_by (rcy_file v dir (rid @ ''.alive'')) f \<and> trusted_file f \<and>
       worker_pids f = Some (p, q) \<and> answered_by (rcy_probe v p) Process_missing \<and>
       answered_by (rcy_probe v q) Process_missing) \<and>
    (\<exists>now uid. authorize_orphaned_codex_recovery now uid tid rid d = Inr (t', d')))"
  by (rule authorize_orphan_writes [OF assms])

definition orphan_ops :: "store_op list" where
  "orphan_ops = [Save_task (failed_task\<lparr>task_status := Task_RUNNING\<rparr>),
     Save_run 3 ((sample_run ''r'' Run_RUNNING)\<lparr>run_workspace := Some branch_workspace\<rparr>)]"

definition orphan_files :: "string \<Rightarrow> file_view" where
  "orphan_files name = (if name = ''r.alive'' then worker_file (CHR ''{'' # pid_members)
     else (worker_file [])\<lparr>fvw_exists := False, fvw_regular := False\<rparr>)"

lemma orphan_gone: "worker_gone (sample_recovery orphan_files) dir ''r'' = ret ()"
  using small_files(3) pid_file
  by (simp add: worker_gone_def sample_recovery_def orphan_files_def external_def andthen_def fun_eq_iff ret_def
      trusted_file_def or_raise_def check_def worker_file_def)

lemma orphan_returns:
  "returns (authorize_orphan sample_env (sample_recovery orphan_files) ''a'' ''r'' True
     (sample_sys (run_ops orphan_ops empty_store)))"
  unfolding authorize_orphan_def orphan_gone by code_simp

theorem orphan_recovery_evidenced_witness:
  "\<exists>t run w. latest_attempt (run_ops orphan_ops empty_store) Run_RUNNING Task_RUNNING ''a'' ''r'' t run w"
proof -
  let ?s = "sample_sys (run_ops orphan_ops empty_store)"
  obtain a u where "authorize_orphan sample_env (sample_recovery orphan_files) ''a'' ''r'' True ?s = (Inr a, u)"
    using returnsD [OF orphan_returns] by blast
  moreover have "sys_db ?s = run_ops orphan_ops empty_store" by simp
  ultimately show ?thesis
    using writesD [OF orphan_recovery_evidenced [OF quiet_sample, of "sys_db ?s"]] by fastforce
qed

section \<open>The loops above the runtime\<close>

text \<open>C35. The watcher stops.  With a limit on its iterations and more fuel than the limit, the watcher
  never runs out of fuel: it raises what an invocation or the environment raises, or it returns
  counters that add up and respect the limit; when it was not stopped it used the whole
  limit and its last invocation did not wait for a human.\<close>

theorem watch_terminates:
  assumes "wtc_max wt = Some m" "nat m < n"
  shows "case fst (watch n wt s) of Inl e \<Rightarrow> True | Inr None \<Rightarrow> False
    | Inr (Some a) \<Rightarrow> wto_iterations a = wto_processed a + wto_idle_waits a \<and> int (wto_iterations a) \<le> max 0 m \<and>
        (\<not> wto_stopped a \<longrightarrow> int (wto_iterations a) = max 0 m \<and> (\<forall>r. wto_last a = Some r \<longrightarrow> \<not> human_gate r))"
proof -
  have "wp (watch_loop n wt watch_start) (\<lambda>r _. case r of None \<Rightarrow> False | Some a \<Rightarrow> watched m a) (\<lambda>_ _. True) s"
    using assms(2) by (intro watch_loop_ends [OF assms(1)]) (auto simp: watch_start_def counts_def)
  then show ?thesis
    by (auto simp: watch_def wp_def watched_def counts_def split: prod.splits sum.splits option.splits)
qed

definition silent_watcher :: "int watcher" where
  "silent_watcher = (make_watcher sample_env silent_runtime 5 (Some 2) (\<lambda>d u. (Inr (), u)) (\<lambda>u. (Inr False, u)))
     \<lparr>wtc_invoke := ret (nothing_done ''NO_ELIGIBLE_TASK'' no_intake)\<rparr>"

lemma watcher_returns:
  "case fst (watch 3 silent_watcher (timed_sys (run_ops running_ops empty_store))) of Inr (Some _) \<Rightarrow> True | _ \<Rightarrow> False"
  by code_simp

theorem watch_terminates_witness:
  "\<exists>a. fst (watch 3 silent_watcher (timed_sys (run_ops running_ops empty_store))) = Inr (Some a) \<and>
     wto_iterations a \<le> 2"
proof -
  have "wtc_max silent_watcher = Some 2" by (simp add: silent_watcher_def make_watcher_def)
  from watch_terminates [OF this, of 3 "timed_sys (run_ops running_ops empty_store)"] watcher_returns
  show ?thesis by (auto split: sum.splits option.splits)
qed

text \<open>C36. A pass runs every candidate once.  A wait of the pool has a time limit and may return
  no thread.  When the pool has a slot, nothing requests a stop and the threads end, in the sense that at most
  \<open>K\<close> waits in a row return nothing, whatever stop requests and new runtimes happen between them, a pass over \<open>c\<close> candidates whose fuel exceeds \<open>c * (K + 1) + K\<close> does
  not run out of it; when it returns, no thread is left and the sessions are exactly those of the
  candidates, one for each.\<close>

theorem pool_drains:
  assumes "steady pl" "progresses pl K left" "length cands * (K + 1) + K < n"
  shows "case fst (pool_loop n env pl (pool_start cands) s) of Inl e \<Rightarrow> True | Inr None \<Rightarrow> False
    | Inr (Some st) \<Rightarrow> mset (map wss_task (pls_sessions st)) = mset cands \<and> pls_active st = []"
proof -
  have "left (sys_world s) \<le> K" using assms(2) by (simp add: progresses_def)
  then have "(length cands - length (pls_sessions (pool_start cands))) * (K + 1) + left (sys_world s) < n"
    using assms(3) by (simp add: pool_start_def)
  note w = wp_both [OF pool_loop_ok [OF pool_ok_start] pool_loop_ends [OF assms(1,2) pool_ok_start this], of env]
  obtain r u where "pool_loop n env pl (pool_start cands) s = (r, u)" by (cases "pool_loop n env pl (pool_start cands) s")
  then show ?thesis
    using w assms(1) by (auto simp: wp_def pool_ok_def split: sum.splits option.splits)
qed

definition sample_pool :: "int worker_pool" where
  "sample_pool = \<lparr>wpl_factory = (\<lambda>u. (Inr silent_runtime, u)), wpl_concurrency = 2, wpl_idle_interval = 1,
     wpl_wait_interval = 20000, wpl_should_stop = (\<lambda>u. (Inr False, u)), wpl_sleep = (\<lambda>d u. (Inr (), u)),
     wpl_on_session = None, wpl_wait = (\<lambda>a i u. (Inr [(case a of [] \<Rightarrow> 0 | x # _ \<Rightarrow> fst x, Inl AssertionError)], u)),
     wpl_cancel = (\<lambda>rt run u. (Inr (), u))\<rparr>"

text \<open>Threads that take more than one wait to end: a wait that finds the world at 1 returns nothing.\<close>

definition slow_pool :: "int worker_pool" where
  "slow_pool = sample_pool\<lparr>wpl_wait := \<lambda>a i u. if u = 1 then (Inr [], 0) else case wpl_wait sample_pool a i u of (r, _) \<Rightarrow> (r, 1)\<rparr>"

lemma pool_returns:
  "case fst (pool_loop 8 sample_env slow_pool (pool_start [''a'', ''b'', ''c'']) (timed_sys empty_store)) of
     Inr (Some _) \<Rightarrow> True | _ \<Rightarrow> False"
  by code_simp

theorem pool_drains_witness:
  "\<exists>st. fst (pool_loop 8 sample_env slow_pool (pool_start [''a'', ''b'', ''c'']) (timed_sys empty_store)) = Inr (Some st) \<and>
     mset (map wss_task (pls_sessions st)) = {#''a'', ''b'', ''c''#}"
proof -
  have s: "steady slow_pool" by (simp add: slow_pool_def sample_pool_def steady_def)
  have "progresses slow_pool 1 (\<lambda>u. if u = 1 then 1 else 0)"
    by (auto simp: slow_pool_def sample_pool_def progresses_def split: if_splits)
  from pool_drains [OF s this, of "[''a'', ''b'', ''c'']" 8 sample_env "timed_sys empty_store"] pool_returns
  show ?thesis by (auto split: sum.splits option.splits)
qed

text \<open>C37. A pool runs at most two threads.  A pool that its constructor accepts behaves the same when its
  pool of threads is replaced by one that answers the same for at most \<open>max_concurrency\<close> threads, one or
  two: it never asks about more, whatever the stop requests, the callbacks and the other processes do.\<close>

theorem pool_concurrency:
  assumes "make_pool p = Inr pl" "\<forall>a i. length a \<le> wpl_concurrency pl \<longrightarrow> wait a i = wpl_wait pl a i"
  shows "pool_loop n env (pl\<lparr>wpl_wait := wait\<rparr>) (pool_start cands) s = pool_loop n env pl (pool_start cands) s \<and>
    wpl_concurrency pl \<in> {1, 2}"
proof -
  have "wpl_concurrency pl \<in> {1, 2}" using assms(1) by (auto simp: make_pool_def split: if_splits)
  moreover have "agrees_up_to pl wait" using assms(2) by (simp add: agrees_up_to_def)
  ultimately show ?thesis using pool_loop_bounded [OF _ pool_ok_start] by blast
qed

theorem pool_concurrency_witness:
  "pool_loop 4 sample_env (sample_pool\<lparr>wpl_wait := \<lambda>a i. if length a \<le> 2 then wpl_wait sample_pool a i
     else (\<lambda>u. (Inl AssertionError, u))\<rparr>) (pool_start [''a'', ''b'', ''c'']) (timed_sys empty_store) =
   pool_loop 4 sample_env sample_pool (pool_start [''a'', ''b'', ''c'']) (timed_sys empty_store)"
proof -
  have "make_pool sample_pool = Inr sample_pool" "wpl_concurrency sample_pool = 2"
    by (simp_all add: make_pool_def sample_pool_def)
  then show ?thesis
    using pool_concurrency [of sample_pool sample_pool
        "\<lambda>a i. if length a \<le> 2 then wpl_wait sample_pool a i else (\<lambda>u. (Inl AssertionError, u))"] by simp
qed

section \<open>Operational memory\<close>

lemma memory_path_approved:
  "memory_path s es (Some MS_APPROVED) \<Longrightarrow> s \<noteq> Some MS_APPROVED \<Longrightarrow>
    \<exists>e \<in> set es. mem_event_to e = MS_APPROVED \<and> (\<exists>actor. mem_event_actor e = Some actor \<and> actor \<noteq> [])"
proof (induction es arbitrary: s)
  case (Cons e es)
  then show ?case by (cases "mem_event_to e = MS_APPROVED") auto
qed simp

text \<open>C38. Retrieval returns approved memory only.  On every store that the operations reach, a search with a
  limit from 1 to 10 does not fail: it returns the best records of the repository that match the query, by the number of
  matching terms and then by identifier, at most as many as the limit.  Each of them has not expired, carries no
  secret and has an event that names who approved it.\<close>

theorem memory_retrieval:
  assumes "memory_reachable d" "1 \<le> limit" "limit \<le> 10"
  shows "\<exists>rs. search_approved now query repository limit d = Inr rs \<and> int (length rs) \<le> limit \<and>
    rs = take (nat limit) (sort_key (\<lambda>r. (- int (memory_score (set (map casefold (terms query))) r), mem_id r))
      (search_hits now (set (map casefold (terms query))) repository d)) \<and>
    (\<forall>r \<in> set rs. mem_status r = MS_APPROVED \<and> unexpired now r \<and> relevant repository r \<and>
       \<not> memory_secret (mem_title r) \<and> \<not> memory_secret (mem_content r) \<and>
       (\<exists>e \<in> set (memory_events_of d (mem_id r)). mem_event_to e = MS_APPROVED \<and>
          (\<exists>actor. mem_event_actor e = Some actor \<and> actor \<noteq> [])))"
proof -
  let ?w = "set (map casefold (terms query))"
  let ?rs = "take (nat limit) (sort_key (\<lambda>r. (- int (memory_score ?w r), mem_id r)) (search_hits now ?w repository d))"
  have ok: "memory_ok d" using memory_reachable_ok [OF assms(1)] .
  have "mem_status r = MS_APPROVED \<and> unexpired now r \<and> relevant repository r \<and>
      \<not> memory_secret (mem_title r) \<and> \<not> memory_secret (mem_content r) \<and>
      (\<exists>e \<in> set (memory_events_of d (mem_id r)). mem_event_to e = MS_APPROVED \<and>
         (\<exists>actor. mem_event_actor e = Some actor \<and> actor \<noteq> []))" if "r \<in> set ?rs" for r
  proof -
    have r: "r \<in> set (mst_rows d)" "mem_status r = MS_APPROVED" "unexpired now r" "relevant repository r"
      using in_set_takeD [OF that] by (auto simp: search_hits_def)
    then have "restored r = Inr r" "memory_path None (memory_events_of d (mem_id r)) (Some MS_APPROVED)"
      using ok unfolding memory_ok_def by metis+
    then show ?thesis
      using r memory_path_approved [of None] by (auto simp: restored_def check_memory_def split: if_splits)
  qed
  moreover have "int (length ?rs) \<le> limit" using assms(2) by simp
  ultimately show ?thesis using search_approved_result [OF ok assms(2,3), of now query repository] by blast
qed

definition sample_memory :: memory_record where
  "sample_memory = \<lparr>mem_id = ''m'', mem_kind = ''note'', mem_title = ''tip'', mem_content = ''x'',
     mem_version = 1, mem_status = MS_CANDIDATE, mem_evidence = [\<lparr>mev_repository = ''o/r'', mev_reference = ''x'',
       mev_task = None, mev_run = None, mev_gates = [], mev_observed_at = None\<rparr>],
     mem_approved_by = None, mem_expires_at = None, mem_supersedes = None\<rparr>"

definition approved_memory :: "(py_error, memory_record \<times> memory_store) outcome" where
  "approved_memory = (case save_candidate 1 sample_memory empty_memory of Inl e \<Rightarrow> Inl e
     | Inr (_, d) \<Rightarrow> transition_memory 2 ''m'' MS_CANDIDATE MS_APPROVED (Some ''op'') d)"

lemma sample_memory_steps:
  "case approved_memory of Inl e \<Rightarrow> False | Inr (r, d) \<Rightarrow> search_approved 3 ''tip'' ''o/r'' 5 d = Inr [r]"
  "restored sample_memory = Inr sample_memory"
  by code_simp+

theorem memory_retrieval_witness:
  "\<exists>r d. approved_memory = Inr (r, d) \<and> search_approved 3 ''tip'' ''o/r'' 5 d = Inr [r] \<and>
     mem_status r = MS_APPROVED"
proof -
  obtain x d1 where s: "save_candidate 1 sample_memory empty_memory = Inr (x, d1)"
    using sample_memory_steps(1) by (auto simp: approved_memory_def split: sum.splits)
  obtain r d where t: "transition_memory 2 ''m'' MS_CANDIDATE MS_APPROVED (Some ''op'') d1 = Inr (r, d)"
    using sample_memory_steps(1) s by (auto simp: approved_memory_def split: sum.splits)
  have "memory_reachable d"
    by (rule memory_moved [OF memory_saved [OF memory_empty sample_memory_steps(2) s] t])
  from memory_retrieval [OF this, of 5 3 "''tip''" "''o/r''"] show ?thesis
    using sample_memory_steps(1) s t by (auto simp: approved_memory_def)
qed

section \<open>Metrics\<close>

text \<open>C39. Metrics add up.  When no project is called \<open>global\<close>, every counter of the global entry of a report is
  the sum of that counter over the projects, and every rate of every entry lies between 0 and 1.\<close>

theorem metrics_add_up:
  assumes "\<forall>r \<in> set (db_tasks d). task_project (trow_task r) \<noteq> ''global''"
    and "f \<in> {mtr_tasks, mtr_throughput, mtr_terminal, mtr_started, mtr_first_pass, mtr_retries, mtr_interventions}"
  shows "(\<exists>m \<in> set (report d). mtr_project m = ''global'' \<and>
      sum_list (map f (filter (\<lambda>m. mtr_project m \<noteq> ''global'') (report d))) = f m) \<and>
    (\<forall>m \<in> set (report d). \<forall>x. success_rate m = Some x \<or> first_pass_rate m = Some x \<or> retry_rate m = Some x \<longrightarrow>
      0 \<le> x \<and> x \<le> 1)"
proof -
  obtain w where "adds d f w" using assms(2) counters_add [of d] by auto
  from report_adds_up [OF this assms(1)] show ?thesis using report_rates by blast
qed

theorem metrics_add_up_witness:
  "\<exists>m \<in> set (report (run_ops failed_ops empty_store)). mtr_project m = ''global'' \<and>
     sum_list (map mtr_terminal (filter (\<lambda>m. mtr_project m \<noteq> ''global'') (report (run_ops failed_ops empty_store)))) =
     mtr_terminal m"
proof -
  have "\<forall>r \<in> set (db_tasks (run_ops failed_ops empty_store)). task_project (trow_task r) \<noteq> ''global''" by code_simp
  from metrics_add_up [OF this, of mtr_terminal] show ?thesis by simp
qed

end
