(* ===== verification/Configuration.thy ===== *)
theory Configuration
  imports Operational_Policy "HOL-Library.Log_Nat"
begin

text \<open>
  \<^verbatim>\<open>infrastructure/config.py\<close>: the factory's configuration, read from environment variables.  Text is
  that of code points below 256; a value of the JSON settings that the configuration keeps as text and that is
  outside it is the error \<open>Unmodelled\<close>, as is a json_truthy base ref that is not text.  Floats are the rationals
  they denote, rounded as \<^verbatim>\<open>float()\<close> rounds.  The resolution of a path against the
  file system and the parsers of URLs and addresses are parameters.  A JSON number with more
  digits than Python converts is refused like any other text that is not JSON.
\<close>

text \<open>\<open>ValueError\<close>, \<open>InvalidGateSpecError\<close>, \<open>UnsupportedDatabaseError\<close>, what a path resolution
  raises, and \<open>AttributeError\<close>.\<close>

datatype config_error = Config_error string | Gate_error string | Database_error string | Path_error string
  | Attribute_error | Unmodelled

section \<open>Values of the environment\<close>

type_synonym environ = "string \<Rightarrow> string option"

definition clean :: "string option \<Rightarrow> string option" where
  "clean x = (case x of None \<Rightarrow> None
     | Some raw \<Rightarrow> let s = strip raw in
         if s = [] \<or> hd s = CHR ''<'' \<and> last s = CHR ''>'' then None else Some s)"

definition clean_or :: "string \<Rightarrow> string option \<Rightarrow> string" where
  "clean_or dflt x = (case clean x of None \<Rightarrow> dflt | Some s \<Rightarrow> s)"

definition lower_latin :: "char \<Rightarrow> char" where
  "lower_latin c = (let n = code_point c in
     if is_upper c \<or> 192 \<le> n \<and> n < 223 \<and> n \<noteq> 215 then char_of (n + 32) else c)"

definition lower :: "string \<Rightarrow> string" where
  "lower = map lower_latin"

text \<open>\<open>str.upper\<close>; the upper case of the code points 181 and 255 is outside the model's text.\<close>

definition upper :: "string \<Rightarrow> string" where
  "upper s = concat (map (\<lambda>c. let n = code_point c in
     if n = 223 then ''SS''
     else if is_lower c \<or> 224 \<le> n \<and> n < 255 \<and> n \<noteq> 247 then [char_of (n - 32)] else [c]) s)"

definition max_concurrency :: "string option \<Rightarrow> (config_error, int) outcome" where
  "max_concurrency raw = (case clean raw of None \<Rightarrow> Inr 2
     | Some s \<Rightarrow> if s = ''1'' then Inr 1 else if s = ''2'' then Inr 2
         else Inl (Config_error ''FACTORY_MAX_CONCURRENCY must be 1 or 2''))"

subsection \<open>Numbers\<close>

text \<open>Digits with single underscores between them, and the number they denote.\<close>

definition digit_or_score :: "char \<Rightarrow> bool" where
  "digit_or_score c \<longleftrightarrow> is_digit c \<or> c = CHR ''_''"

fun underscored :: "string \<Rightarrow> bool" where
  "underscored [] = False"
| "underscored [c] = is_digit c"
| "underscored (c # d # s) = (is_digit c \<and> (if d = CHR ''_'' then s \<noteq> [] \<and> underscored s else underscored (d # s)))"

definition digits_value :: "string \<Rightarrow> nat" where
  "digits_value s = foldl (\<lambda>n c. 10 * n + (code_point c - 48)) 0 (filter is_digit s)"

definition signed :: "string \<Rightarrow> bool \<times> string" where
  "signed s = (case s of [] \<Rightarrow> (False, [])
     | c # t \<Rightarrow> if c = CHR ''-'' then (True, t) else if c = CHR ''+'' then (False, t) else (False, s))"

text \<open>\<^verbatim>\<open>int(text)\<close> of stripped text, with the limit on its digits.\<close>

definition int_of_text :: "string \<Rightarrow> int option" where
  "int_of_text s = (let (neg, t) = signed s in
     if underscored t \<and> length (filter is_digit t) \<le> MAX_INT_DIGITS
     then Some (if neg then - int (digits_value t) else int (digits_value t)) else None)"

text \<open>The exact value of the text of a float: \<open>None\<close> when it is not one, \<open>Some None\<close> for an infinity or
  \<open>nan\<close>.\<close>

definition exponent_value :: "string \<Rightarrow> int option" where
  "exponent_value s = (case s of [] \<Rightarrow> Some 0
     | e # r \<Rightarrow> if e \<notin> {CHR ''e'', CHR ''E''} then None
       else let (neg, t) = signed r in
         if underscored t then Some (if neg then - int (digits_value t) else int (digits_value t)) else None)"

definition power_of :: "nat \<Rightarrow> int \<Rightarrow> rat" where
  "power_of b k = (if 0 \<le> k then of_nat b ^ nat k else 1 / of_nat b ^ nat (- k))"

definition decimal_value :: "string \<Rightarrow> rat option" where
  "decimal_value s =
     (let ip = takeWhile digit_or_score s; r = dropWhile digit_or_score s;
          dot = (case r of [] \<Rightarrow> False | c # _ \<Rightarrow> c = CHR ''.'');
          fp = (if dot then takeWhile digit_or_score (tl r) else []);
          rest = (if dot then dropWhile digit_or_score (tl r) else r)
      in if (ip = [] \<and> fp = []) \<or> (ip \<noteq> [] \<and> \<not> underscored ip) \<or> (fp \<noteq> [] \<and> \<not> underscored fp) then None
         else case exponent_value rest of None \<Rightarrow> None
         | Some e \<Rightarrow> Some (of_nat (digits_value (ip @ fp)) * power_of 10 (e - int (length (filter is_digit fp)))))"

definition float_text :: "string \<Rightarrow> rat option option" where
  "float_text s = (let (neg, t) = signed s in
     if lower t \<in> {''inf'', ''infinity'', ''nan''} then Some None
     else case decimal_value t of None \<Rightarrow> None | Some r \<Rightarrow> Some (Some (if neg then - r else r)))"

text \<open>Rounding to binary64: to nearest, ties to even; \<open>None\<close> is an overflow.\<close>

definition round_even :: "rat \<Rightarrow> int" where
  "round_even x = (let f = \<lfloor>x\<rfloor>; d = x - of_int f in
     if d < 1 / 2 \<or> d = 1 / 2 \<and> even f then f else f + 1)"

definition scale_of :: "rat \<Rightarrow> int" where
  "scale_of x = (case quotient_of x of (a, b) \<Rightarrow>
     let k = bitlen a - bitlen b; e = (if x < power_of 2 k then k - 1 else k) in max (e - 52) (- 1074))"

definition binary64 :: "rat \<Rightarrow> rat option" where
  "binary64 x = (if x = 0 then Some 0
     else let m = \<bar>x\<bar>; k = scale_of m; y = of_int (round_even (m / power_of 2 k)) * power_of 2 k in
       if power_of 2 1024 \<le> y then None else Some (if x < 0 then - y else y))"

definition duration :: "string option \<Rightarrow> rat \<Rightarrow> rat" where
  "duration raw dflt = (case clean raw of None \<Rightarrow> dflt
     | Some s \<Rightarrow> (case float_text s of
         Some (Some r) \<Rightarrow> (case binary64 r of Some x \<Rightarrow> if 0 \<le> x then x else dflt | None \<Rightarrow> dflt)
       | _ \<Rightarrow> dflt))"

definition status_port :: "string option \<Rightarrow> (config_error, int) outcome" where
  "status_port raw = (case clean raw of None \<Rightarrow> Inr 8765
     | Some s \<Rightarrow> (case int_of_text s of
         Some p \<Rightarrow> if 1 \<le> p \<and> p \<le> 65535 then Inr p
           else Inl (Config_error ''FACTORY_STATUS_PORT must be an integer from 1 to 65535'')
       | None \<Rightarrow> Inl (Config_error ''FACTORY_STATUS_PORT must be an integer from 1 to 65535'')))"

lemma duration_nonneg: "0 \<le> dflt \<Longrightarrow> 0 \<le> duration raw dflt"
  by (simp add: duration_def split: option.split)

section \<open>Text\<close>

fun partition_at :: "string \<Rightarrow> string \<Rightarrow> (string \<times> string) option" where
  "partition_at p [] = (if p = [] then Some ([], []) else None)"
| "partition_at p (c # s) = (if starts_with p (c # s) then Some ([], drop (length p) (c # s))
     else map_option (\<lambda>(a, b). (c # a, b)) (partition_at p s))"

fun split_char :: "char \<Rightarrow> string \<Rightarrow> string list" where
  "split_char c [] = [[]]"
| "split_char c (d # s) = (if d = c then [] # split_char c s
     else case split_char c s of [] \<Rightarrow> [[d]] | w # ws \<Rightarrow> (d # w) # ws)"

definition ends_with :: "string \<Rightarrow> string \<Rightarrow> bool" where
  "ends_with p s = starts_with (rev p) (rev s)"

text \<open>\<open>repr\<close> of text.\<close>

definition repr_char :: "char \<Rightarrow> char \<Rightarrow> string" where
  "repr_char q c = (let n = code_point c in
     if c = q \<or> n = 92 then [CHR 0x5C, c]
     else if n = 9 then [CHR 0x5C, CHR ''t''] else if n = 10 then [CHR 0x5C, CHR ''n'']
     else if n = 13 then [CHR 0x5C, CHR ''r''] else if is_printable c then [c]
     else [CHR 0x5C, CHR ''x'', hex_digit (n div 16), hex_digit (n mod 16)])"

definition repr :: "string \<Rightarrow> string" where
  "repr s = (let q = (if CHR 0x27 \<in> set s \<and> CHR 0x22 \<notin> set s then CHR 0x22 else CHR 0x27) in
     [q] @ concat (map (repr_char q) s) @ [q])"

definition text_points :: "nat list \<Rightarrow> string option" where
  "text_points ns = (if list_all (\<lambda>n. n < 256) ns then Some (map char_of ns) else None)"

text \<open>The items of a dictionary: keys in the order of their first occurrence, with their last value.\<close>

fun put_item :: "'k \<Rightarrow> 'v \<Rightarrow> ('k \<times> 'v) list \<Rightarrow> ('k \<times> 'v) list" where
  "put_item k v [] = [(k, v)]"
| "put_item k v ((j, u) # xs) = (if j = k then (k, v) # xs else (j, u) # put_item k v xs)"

definition items_of :: "('k \<times> 'v) list \<Rightarrow> ('k \<times> 'v) list" where
  "items_of kvs = fold (\<lambda>(k, v). put_item k v) kvs []"

section \<open>Targets of observations\<close>

type_synonym targets = "(string \<times> nat list) list"

definition database_target :: "nat list \<times> jvalue \<Rightarrow> (string \<times> nat list) option" where
  "database_target x = (case x of
       (k, JV_string p) \<Rightarrow> if safe_name k \<and> p \<noteq> [] \<and> hd p = 47 \<and> 0 \<notin> set p then Some (text_of k, p) else None
     | _ \<Rightarrow> None)"

definition parse_database_targets :: "string option \<Rightarrow> (config_error, targets) outcome" where
  "parse_database_targets raw =
     (let invalid = Config_error ''FACTORY_DATABASE_READONLY_TARGETS is invalid'' in
     if raw = None \<or> raw = Some [] then Inr []
     else case loads (the raw) of
       Some (JV_object kvs) \<Rightarrow> if 16 < length (items_of kvs) then Inl invalid
         else (case those (map database_target (items_of kvs)) of
             None \<Rightarrow> Inl invalid | Some ts \<Rightarrow> Inr (sort_key fst ts))
     | _ \<Rightarrow> Inl invalid)"

text \<open>What \<open>urlsplit\<close> and \<open>ip_address\<close> say of a URL; \<open>Inl\<close> is a \<open>ValueError\<close>, the port may be one too.\<close>

record url_parts =
  url_scheme :: string
  url_netloc :: string
  url_host :: "string option"
  url_user :: "string option"
  url_password :: "string option"
  url_query :: string
  url_fragment :: string
  url_path :: string
  url_port :: "(unit, int option) outcome"
  url_global :: "bool option"

type_synonym url_parser = "nat list \<Rightarrow> (config_error, url_parts) outcome"

definition health_host :: "string option \<Rightarrow> bool" where
  "health_host h \<longleftrightarrow> (case h of None \<Rightarrow> False
     | Some h \<Rightarrow> h \<noteq> [] \<and> lower h \<noteq> ''localhost'' \<and> \<not> ends_with ''.localhost'' (lower h) \<and>
         \<not> ends_with ''.local'' (lower h))"

definition health_url :: "nat list \<Rightarrow> url_parts \<Rightarrow> bool" where
  "health_url url u \<longleftrightarrow> url_scheme u = ''https'' \<and> health_host (url_host u) \<and> url_user u = None \<and>
     url_password u = None \<and> url_query u = [] \<and> url_fragment u = [] \<and>
     url_port u \<in> {Inr None, Inr (Some 443)} \<and> 92 \<notin> set url \<and> url_path u \<noteq> [] \<and>
     url_global u \<noteq> Some False \<and> list_all (\<lambda>n. 32 \<le> n \<and> n \<noteq> 127) url"

fun health_targets :: "url_parser \<Rightarrow> (nat list \<times> jvalue) list \<Rightarrow> (config_error, targets) outcome" where
  "health_targets split [] = Inr []"
| "health_targets split ((k, v) # xs) =
     (let invalid = Config_error ''FACTORY_SERVICE_HEALTH_TARGETS is invalid'' in
     case v of JV_string url \<Rightarrow> if \<not> safe_name k then Inl invalid
       else tx_step (split url) (\<lambda>u. if \<not> health_url url u then Inl invalid
         else tx_step (health_targets split xs) (\<lambda>ts. Inr ((text_of k, url) # ts)))
     | _ \<Rightarrow> Inl invalid)"

definition parse_service_health_targets :: "url_parser \<Rightarrow> string option \<Rightarrow> (config_error, targets) outcome" where
  "parse_service_health_targets split raw =
     (let invalid = Config_error ''FACTORY_SERVICE_HEALTH_TARGETS is invalid'' in
     if raw = None \<or> raw = Some [] then Inr []
     else case loads (the raw) of
       Some (JV_object kvs) \<Rightarrow> if 16 < length (items_of kvs) then Inl invalid
         else tx_step (health_targets split (items_of kvs)) (\<lambda>ts. Inr (sort_key fst ts))
     | _ \<Rightarrow> Inl invalid)"

definition hex_code :: "nat \<Rightarrow> bool" where
  "hex_code n \<longleftrightarrow> 48 \<le> n \<and> n \<le> 57 \<or> 65 \<le> n \<and> n \<le> 70 \<or> 97 \<le> n \<and> n \<le> 102"

text \<open>A full container id, or a name that is no shortened id.\<close>

definition container :: "nat list \<Rightarrow> bool" where
  "container p \<longleftrightarrow> (list_all hex_code p \<and> length p = 64 \<or>
       (case p of [] \<Rightarrow> False | n # rest \<Rightarrow> alnum_point n \<and> \<not> (48 \<le> n \<and> n \<le> 57) \<and> length rest \<le> 127 \<and>
          list_all name_point rest)) \<and>
     \<not> (list_all hex_code p \<and> 12 \<le> length p \<and> length p \<le> 63)"

definition docker_target :: "nat list \<times> jvalue \<Rightarrow> (string \<times> nat list) option" where
  "docker_target x = (case x of
       (k, JV_string p) \<Rightarrow> if safe_name k \<and> container p then Some (text_of k, p) else None
     | _ \<Rightarrow> None)"

definition parse_docker_targets :: "string option \<Rightarrow> (config_error, targets) outcome" where
  "parse_docker_targets raw =
     (let invalid = Config_error ''FACTORY_DOCKER_INSPECT_TARGETS is invalid'' in
     if raw = None \<or> raw = Some [] then Inr []
     else case loads (the raw) of
       Some (JV_object kvs) \<Rightarrow> if 16 < length (items_of kvs) \<or> items_of kvs = [] then Inl invalid
         else (case those (map docker_target (items_of kvs)) of None \<Rightarrow> Inl invalid
           | Some ts \<Rightarrow> if distinct (map snd ts) then Inr (sort_key fst ts) else Inl invalid)
     | _ \<Rightarrow> Inl invalid)"

section \<open>URLs and paths\<close>

definition redact_url :: "string option \<Rightarrow> string option" where
  "redact_url x = (case x of None \<Rightarrow> None
     | Some s \<Rightarrow> (case partition_at ''://'' s of None \<Rightarrow> Some s
         | Some (scheme, rest) \<Rightarrow> (case partition_at ''@'' rest of None \<Rightarrow> Some s
             | Some (_, host) \<Rightarrow> Some (scheme @ ''://***@'' @ host))))"

text \<open>\<open>DatabaseConfig.from_url\<close>: the path; the scheme is always SQLite.\<close>

definition DEFAULT_DATABASE_PATH :: string where
  "DEFAULT_DATABASE_PATH = ''./factory.db''"

definition database_from_url :: "string option \<Rightarrow> (config_error, string) outcome" where
  "database_from_url x = (case x of None \<Rightarrow> Inr DEFAULT_DATABASE_PATH
     | Some url \<Rightarrow>
       let shape = Database_error (''DATABASE_URL must look like '' @ [CHR 0x27] @ ''<scheme>://<path>'' @
             [CHR 0x27] @ '', got '' @ repr url)
       in case partition_at ''://'' url of None \<Rightarrow> Inl shape
       | Some (token, rest) \<Rightarrow> if token = [] then Inl shape
         else let scheme = lower (takeWhile (\<lambda>c. c \<noteq> CHR ''+'') token) in
           if scheme \<noteq> ''sqlite'' then Inl (Database_error (''unsupported database scheme '' @ repr scheme @
             ''; Phase 2A supports '' @ [CHR 0x27] @ ''sqlite'' @ [CHR 0x27] @ '' only''))
           else let path = (if starts_with ''/'' rest then tl rest else rest) in
             if path = [] then Inl (Database_error ''DATABASE_URL must name a database file'') else Inr path)"

definition database_url_of :: "string \<Rightarrow> string" where
  "database_url_of path = ''sqlite:///'' @ path"

definition database_path :: "string option \<Rightarrow> string option" where
  "database_path url = (case url of None \<Rightarrow> None
     | Some _ \<Rightarrow> (case database_from_url url of Inl _ \<Rightarrow> None | Inr p \<Rightarrow> Some p))"

text \<open>The protected paths, as the parts of a path; the first part is the root.\<close>

definition PRODUCTION_PATHS :: "string list list" where
  "PRODUCTION_PATHS = map (\<lambda>d. [''/'', ''srv'', ''ai-factory'', d])
     [''control-plane'', ''production'', ''state'', ''workspaces'', ''logs'']"

type_synonym resolver = "string \<Rightarrow> (config_error, string list) outcome"

definition protected :: "string list \<Rightarrow> bool" where
  "protected parts \<longleftrightarrow> list_ex (\<lambda>b. take (length b) parts = b) PRODUCTION_PATHS"

definition guard_path :: "resolver \<Rightarrow> string \<Rightarrow> string \<Rightarrow> (config_error, unit) outcome" where
  "guard_path resolve key raw = tx_step (resolve raw) (\<lambda>parts.
     if protected parts then Inl (Config_error (key @ '' points to a protected production path'')) else Inr ())"

datatype environment = Env_development | Env_staging | Env_production

definition guarded_paths :: "environ \<Rightarrow> (string \<times> string option) list" where
  "guarded_paths env = (''DATABASE_URL'', database_path (clean (env ''DATABASE_URL''))) #
     map (\<lambda>k. (k, clean (env k))) [''FACTORY_WORKSPACE_ROOT'', ''OPENHANDS_WORKSPACE_ROOT'',
       ''FACTORY_SOURCE_CHECKOUT'', ''FACTORY_OPERATIONAL_SCRATCH_ROOT'']"

fun guard_all :: "resolver \<Rightarrow> (string \<times> string option) list \<Rightarrow> (config_error, unit) outcome" where
  "guard_all resolve [] = Inr ()"
| "guard_all resolve ((key, p) # xs) = (case p of None \<Rightarrow> guard_all resolve xs
     | Some raw \<Rightarrow> if raw = '':memory:'' then guard_all resolve xs
         else tx_step (guard_path resolve key raw) (\<lambda>_. guard_all resolve xs))"

definition guard_runtime_paths :: "resolver \<Rightarrow> environment \<Rightarrow> environ \<Rightarrow> (config_error, unit) outcome" where
  "guard_runtime_paths resolve e env =
     (if e = Env_production then Inr () else guard_all resolve (guarded_paths env))"

definition list_id :: "string \<Rightarrow> bool" where
  "list_id s \<longleftrightarrow> s \<noteq> [] \<and> list_all (\<lambda>c. is_lower c \<or> is_upper c \<or> is_digit c) s"

text \<open>Duplicates are dropped after their first occurrence.\<close>

definition first_of_each :: "'a list \<Rightarrow> 'a list" where
  "first_of_each xs = rev (remdups (rev xs))"

definition trello_list_ids :: "environ \<Rightarrow> (config_error, string list) outcome" where
  "trello_list_ids env =
     (let raw = (case clean (env ''FACTORY_TRELLO_BACKLOG_LIST_IDS'') of
          Some s \<Rightarrow> split_char (CHR '','') s
        | None \<Rightarrow> (case clean (env ''FACTORY_TRELLO_BACKLOG_LIST_ID'') of None \<Rightarrow> [] | Some s \<Rightarrow> [s]))
      in if list_ex (\<lambda>s. \<not> list_id (strip s)) raw then Inl (Config_error ''invalid Trello backlog list ids'')
         else Inr (first_of_each (map strip raw)))"

section \<open>Quality gates\<close>

definition text_values :: "jvalue list \<Rightarrow> nat list list option" where
  "text_values vs = those (map (\<lambda>v. case v of JV_string ns \<Rightarrow> Some ns | _ \<Rightarrow> None) vs)"

definition gate_name_of :: "nat \<Rightarrow> jvalue option \<Rightarrow> (config_error, string) outcome" where
  "gate_name_of i v =
     (let missing = Gate_error (''quality gate #'' @ decimal i @ '' needs a non-empty name'')
      in case v of Some (JV_string ns) \<Rightarrow> (case text_points ns of None \<Rightarrow> Inl Unmodelled
           | Some name \<Rightarrow> if strip name = [] then Inl missing else Inr name)
         | _ \<Rightarrow> Inl missing)"

definition gate_argv_of :: "string \<Rightarrow> jvalue option \<Rightarrow> (config_error, string list) outcome" where
  "gate_argv_of name v =
     (let invalid = Gate_error (''quality gate '' @ repr name @ '' needs a non-empty argv list'')
      in case v of Some (JV_array vs) \<Rightarrow> if vs = [] then Inl invalid
           else (case text_values vs of None \<Rightarrow> Inl invalid
             | Some ps \<Rightarrow> (case those (map text_points ps) of None \<Rightarrow> Inl Unmodelled | Some argv \<Rightarrow> Inr argv))
         | _ \<Rightarrow> Inl invalid)"

definition gate_required_of :: "string \<Rightarrow> jvalue option \<Rightarrow> (config_error, bool) outcome" where
  "gate_required_of name v = (case v of None \<Rightarrow> Inr True | Some (JV_bool b) \<Rightarrow> Inr b
     | _ \<Rightarrow> Inl (Gate_error (''quality gate '' @ repr name @ '' '' @ repr ''required'' @ '' must be a boolean'')))"

definition gate_item :: "nat \<Rightarrow> jvalue \<Rightarrow> (config_error, gate_spec) outcome" where
  "gate_item i item = (case item of
       JV_object kvs \<Rightarrow>
         tx_step (gate_name_of i (entry ''name'' kvs)) (\<lambda>name.
         tx_step (gate_argv_of name (entry ''argv'' kvs)) (\<lambda>argv.
         tx_step (gate_required_of name (entry ''required'' kvs)) (\<lambda>required.
         Inr \<lparr>spec_name = name, spec_argv = argv, spec_required = required\<rparr>)))
     | _ \<Rightarrow> Inl (Gate_error (''quality gate #'' @ decimal i @ '' must be a JSON object'')))"

text \<open>The loop over the items, with the names seen so far.\<close>

fun gate_items :: "nat \<Rightarrow> string list \<Rightarrow> jvalue list \<Rightarrow> (config_error, gate_spec list) outcome" where
  "gate_items i seen [] = Inr []"
| "gate_items i seen (v # vs) = tx_step (gate_item i v) (\<lambda>g.
     if spec_name g \<in> set seen
     then Inl (Gate_error (''quality gate '' @ repr (spec_name g) @ '' is duplicated''))
     else tx_step (gate_items (i + 1) (spec_name g # seen) vs) (\<lambda>gs. Inr (g # gs)))"

definition parse_gate_items :: "jvalue list \<Rightarrow> (config_error, gate_spec list) outcome" where
  "parse_gate_items vs = gate_items 0 [] vs"

definition parse_gate_specs :: "string option \<Rightarrow> (config_error, gate_spec list) outcome" where
  "parse_gate_specs raw = (case clean raw of None \<Rightarrow> Inr []
     | Some s \<Rightarrow> (case loads s of None \<Rightarrow> Inl (Gate_error ''FACTORY_QUALITY_GATES must be valid JSON'')
         | Some (JV_array vs) \<Rightarrow> parse_gate_items vs
         | Some _ \<Rightarrow> Inl (Gate_error ''FACTORY_QUALITY_GATES must be a JSON array'')))"

type_synonym task_gates = "(string \<times> gate_spec list) list"

fun task_gate_items :: "(nat list \<times> jvalue) list \<Rightarrow> (config_error, task_gates) outcome" where
  "task_gate_items [] = Inr []"
| "task_gate_items ((k, v) # xs) = (case v of
       JV_array vs \<Rightarrow> tx_step (parse_gate_items vs) (\<lambda>gs.
         case text_points k of None \<Rightarrow> Inl Unmodelled
         | Some ref \<Rightarrow> tx_step (task_gate_items xs) (\<lambda>rest. Inr ((ref, gs) # rest)))
     | _ \<Rightarrow> Inl (Gate_error ''FACTORY_TASK_QUALITY_GATES entries must be gate arrays''))"

definition parse_task_gate_specs :: "string option \<Rightarrow> (config_error, task_gates) outcome" where
  "parse_task_gate_specs raw = (case clean raw of None \<Rightarrow> Inr []
     | Some s \<Rightarrow> (case loads s of None \<Rightarrow> Inl (Gate_error ''FACTORY_TASK_QUALITY_GATES must be valid JSON'')
         | Some (JV_object kvs) \<Rightarrow> task_gate_items (items_of kvs)
         | Some _ \<Rightarrow> Inl (Gate_error ''FACTORY_TASK_QUALITY_GATES must be a JSON object'')))"

section \<open>Projects\<close>

definition invalid_project :: config_error where
  "invalid_project = Config_error ''FACTORY_PROJECTS contains an invalid project profile''"

text \<open>The truth value of a JSON value; a number is false when it is zero as an integer or a float.\<close>

definition json_truthy :: "jvalue \<Rightarrow> bool" where
  "json_truthy v = (case v of JV_null \<Rightarrow> False | JV_bool b \<Rightarrow> b | JV_string ns \<Rightarrow> ns \<noteq> []
     | JV_array vs \<Rightarrow> vs \<noteq> [] | JV_object kvs \<Rightarrow> kvs \<noteq> []
     | JV_number s \<Rightarrow> (case float_text s of Some (Some r) \<Rightarrow> binary64 r \<noteq> Some 0 | _ \<Rightarrow> True))"

text \<open>Text that only has to match a pattern of ASCII text: anything else does not.\<close>

definition plain_text :: "jvalue option \<Rightarrow> string \<Rightarrow> (config_error, string) outcome" where
  "plain_text v std = (case v of None \<Rightarrow> Inr std
     | Some (JV_string ns) \<Rightarrow> (case text_points ns of None \<Rightarrow> Inl invalid_project | Some s \<Rightarrow> Inr s)
     | Some _ \<Rightarrow> Inl invalid_project)"

definition required_text :: "jvalue option \<Rightarrow> (config_error, string) outcome" where
  "required_text v = (if v = None then Inl invalid_project else plain_text v [])"

text \<open>\<open>tuple(...)\<close> of the required checks: text yields its characters, a dictionary its keys; a tuple with
  other elements than text is \<open>None\<close>, which the constructor refuses.\<close>

definition checks_of :: "jvalue option \<Rightarrow> (config_error, string list option) outcome" where
  "checks_of v =
     (let texts = (\<lambda>ps. case those (map text_points ps) of None \<Rightarrow> Inl Unmodelled | Some ss \<Rightarrow> Inr (Some ss))
      in case v of None \<Rightarrow> Inr (Some [])
      | Some (JV_array vs) \<Rightarrow> (case text_values vs of None \<Rightarrow> Inr None | Some ps \<Rightarrow> texts ps)
      | Some (JV_string ns) \<Rightarrow> texts (map (\<lambda>n. [n]) ns)
      | Some (JV_object kvs) \<Rightarrow> texts (map fst (items_of kvs))
      | Some _ \<Rightarrow> Inl invalid_project)"

definition flag_of :: "jvalue option \<Rightarrow> bool \<Rightarrow> (config_error, bool) outcome" where
  "flag_of v std = (case v of None \<Rightarrow> Inr std | Some (JV_bool b) \<Rightarrow> Inr b | Some _ \<Rightarrow> Inl invalid_project)"

text \<open>The checkout and the base ref, which are only tested for truth before the checkout is asked whether it
  starts with a slash.\<close>

definition checkout_of :: "jvalue option \<Rightarrow> (config_error, string) outcome" where
  "checkout_of v = (case v of None \<Rightarrow> Inl invalid_project
     | Some (JV_string ns) \<Rightarrow> (case text_points ns of None \<Rightarrow> Inl Unmodelled | Some s \<Rightarrow> Inr s)
     | Some u \<Rightarrow> if json_truthy u then Inl Attribute_error else Inl invalid_project)"

definition base_ref_of :: "jvalue option \<Rightarrow> (config_error, string) outcome" where
  "base_ref_of v = (case v of None \<Rightarrow> Inl invalid_project
     | Some (JV_string ns) \<Rightarrow> (case text_points ns of None \<Rightarrow> Inl Unmodelled | Some s \<Rightarrow> Inr s)
     | Some u \<Rightarrow> if json_truthy u then Inl Unmodelled else Inl invalid_project)"

definition refused_as :: "config_error \<Rightarrow> ('e, 'a) outcome \<Rightarrow> (config_error, 'a) outcome" where
  "refused_as e r = (case r of Inl _ \<Rightarrow> Inl e | Inr a \<Rightarrow> Inr a)"

definition gates_value :: "jvalue option \<Rightarrow> (config_error, gate_spec list) outcome" where
  "gates_value v = (case v of
       Some (JV_array vs) \<Rightarrow> (case parse_gate_items vs of Inl Unmodelled \<Rightarrow> Inl Unmodelled
         | r \<Rightarrow> refused_as invalid_project r)
     | _ \<Rightarrow> Inl invalid_project)"

text \<open>A profile: every field is read before the constructor checks them; a checkout that is no text
  is only noticed when the fields checked before it are valid, so those checks come first.\<close>

definition profile_of :: "jvalue \<Rightarrow> (config_error, project_profile) outcome" where
  "profile_of item = (case item of
       JV_object kvs \<Rightarrow>
         tx_step (gates_value (entry ''gates'' kvs)) (\<lambda>gates.
         tx_step (checks_of (entry ''required_ci_checks'' kvs)) (\<lambda>checks.
         tx_step (required_text (entry ''project_id'' kvs)) (\<lambda>pid.
         tx_step (required_text (entry ''repository'' kvs)) (\<lambda>repository.
         tx_step (plain_text (entry ''context_profile'' kvs) ''repository'') (\<lambda>context.
         if \<not> project_id_pattern pid \<or> \<not> repository_pattern repository \<or>
            context \<notin> {''repository'', ''repository+ecc''} \<or> entry ''source_checkout'' kvs = None
         then Inl invalid_project
         else tx_step (base_ref_of (entry ''base_ref'' kvs)) (\<lambda>base.
         if base = [] then Inl invalid_project
         else tx_step (checkout_of (entry ''source_checkout'' kvs)) (\<lambda>checkout.
         tx_step (plain_text (entry ''deploy_policy'' kvs) ''human-only'') (\<lambda>policy.
         tx_step (plain_text (entry ''git_host'' kvs) ''github.com'') (\<lambda>host.
         tx_step (flag_of (entry ''deploy_required'' kvs) False) (\<lambda>deploy.
         tx_step (flag_of (entry ''provider_ci_required'' kvs) True) (\<lambda>ci.
         if checks = None then Inl invalid_project
         else refused_as invalid_project (check_project_profile \<lparr>prof_project_id = pid, prof_repository = repository,
           prof_checkout = checkout, prof_base_ref = base, prof_gates = gates, prof_context_profile = context,
           prof_deploy_policy = policy, prof_git_host = host, prof_deploy_required = deploy,
           prof_provider_ci_required = ci, prof_required_ci_checks = the checks\<rparr>))))))))))))
     | _ \<Rightarrow> Inl invalid_project)"

fun profiles_of :: "jvalue list \<Rightarrow> (config_error, project_profile list) outcome" where
  "profiles_of [] = Inr []"
| "profiles_of (v # vs) = tx_step (profile_of v) (\<lambda>p. tx_step (profiles_of vs) (\<lambda>ps. Inr (p # ps)))"

definition parse_projects :: "string \<Rightarrow> (config_error, project_registry) outcome" where
  "parse_projects raw = (case loads raw of
       Some (JV_array vs) \<Rightarrow> tx_step (profiles_of vs) (\<lambda>ps. refused_as invalid_project (make_registry ps))
     | _ \<Rightarrow> Inl invalid_project)"

section \<open>The configuration\<close>

datatype agent_engine = Engine_codex | Engine_openhands

datatype log_format = Log_text | Log_json

record github_config =
  ghc_token :: "string option"
  ghc_api_url :: string
  ghc_control_repo :: "string option"
  ghc_target_repo :: "string option"

record agent_config =
  agc_api_key :: "string option"
  agc_base_url :: "string option"
  agc_session_key :: "string option"
  agc_profile :: "string option"

record logging_config =
  lgc_level :: string
  lgc_format :: log_format

record factory_config =
  cfg_environment :: environment
  cfg_github :: github_config
  cfg_openhands :: agent_config
  cfg_codex :: agent_config
  cfg_engine :: agent_engine
  cfg_database_url :: "string option"
  cfg_workspace_root :: string
  cfg_openhands_root :: string
  cfg_logging :: logging_config
  cfg_source_checkout :: "string option"
  cfg_base_ref :: "string option"
  cfg_gates :: "gate_spec list"
  cfg_task_gates :: task_gates
  cfg_ecc_skill :: "string option"
  cfg_codex_model :: string
  cfg_effort :: string
  cfg_write_token :: "string option"
  cfg_write_username :: string
  cfg_target_branch :: string
  cfg_git_host :: string
  cfg_poll_interval :: rat
  cfg_run_timeout :: rat
  cfg_watch_interval :: rat
  cfg_max_concurrency :: int
  cfg_heartbeat_interval :: rat
  cfg_missed_heartbeats :: int
  cfg_trello_card :: "string option"
  cfg_trello_key :: "string option"
  cfg_trello_token :: "string option"
  cfg_trello_list :: "string option"
  cfg_trello_lists :: "string list"
  cfg_trello_label :: "string option"
  cfg_trello_done :: "string option"
  cfg_hook_command :: "string option"
  cfg_scratch_root :: "string option"
  cfg_database_targets :: targets
  cfg_health_targets :: targets
  cfg_docker_targets :: targets
  cfg_registry :: "project_registry option"
  cfg_status_port :: int

definition github_from_env :: "environ \<Rightarrow> github_config" where
  "github_from_env env = \<lparr>ghc_token = clean (env ''GITHUB_TOKEN''),
     ghc_api_url = clean_or ''https://api.github.com'' (env ''GITHUB_API_URL''),
     ghc_control_repo = clean (env ''FACTORY_GITHUB_REPO''), ghc_target_repo = clean (env ''FACTORY_TARGET_REPO'')\<rparr>"

definition github_enabled :: "github_config \<Rightarrow> bool" where
  "github_enabled g \<longleftrightarrow> ghc_token g \<noteq> None"

definition agent_enabled :: "agent_config \<Rightarrow> bool" where
  "agent_enabled a \<longleftrightarrow> agc_api_key a \<noteq> None \<or> agc_base_url a \<noteq> None"

definition openhands_from_env :: "environ \<Rightarrow> agent_config" where
  "openhands_from_env env = \<lparr>agc_api_key = clean (env ''OPENHANDS_API_KEY''),
     agc_base_url = clean (env ''OPENHANDS_BASE_URL''), agc_session_key = clean (env ''OPENHANDS_SESSION_API_KEY''),
     agc_profile = clean (env ''OPENHANDS_AGENT_PROFILE_ID'')\<rparr>"

definition codex_from_env :: "environ \<Rightarrow> agent_config" where
  "codex_from_env env = \<lparr>agc_api_key = clean (env ''CODEX_API_KEY''), agc_base_url = None, agc_session_key = None,
     agc_profile = None\<rparr>"

definition logging_from_env :: "environ \<Rightarrow> (config_error, logging_config) outcome" where
  "logging_from_env env =
     (let fmt = lower (clean_or ''text'' (env ''FACTORY_LOG_FORMAT'')); level = clean_or ''INFO'' (env ''FACTORY_LOG_LEVEL'')
      in if list_ex (\<lambda>c. code_point c \<in> {181, 255}) level then Inl Unmodelled
         else Inr \<lparr>lgc_level = upper level, lgc_format = (if fmt = ''json'' then Log_json else Log_text)\<rparr>)"

subsection \<open>Checked settings\<close>

definition write_username :: "environ \<Rightarrow> (config_error, string) outcome" where
  "write_username env = (let u = clean_or ''x-access-token'' (env ''GITHUB_WRITE_USERNAME'') in
     if list_ex (\<lambda>c. is_space c \<or> code_point c < 32 \<or> code_point c = 127 \<or> c = CHR '':'') u
     then Inl (Config_error ''GITHUB_WRITE_USERNAME contains unsafe characters'') else Inr u)"

definition engine_of :: "environ \<Rightarrow> (config_error, agent_engine) outcome" where
  "engine_of env = (let e = clean_or ''codex'' (env ''FACTORY_AGENT_ENGINE'') in
     if e = ''codex'' then Inr Engine_codex else if e = ''openhands'' then Inr Engine_openhands
     else Inl (Config_error ''FACTORY_AGENT_ENGINE must be codex or openhands''))"

definition ecc_skill_of :: "environ \<Rightarrow> (config_error, string option) outcome" where
  "ecc_skill_of env = (let e = clean (env ''FACTORY_CODEX_ECC_SKILL'') in
     if e \<in> {None, Some ''verification-loop'', Some ''auto''} then Inr e
     else Inl (Config_error ''FACTORY_CODEX_ECC_SKILL must be auto, verification-loop or unset''))"

definition model_pattern :: "string \<Rightarrow> bool" where
  "model_pattern s = (case s of [] \<Rightarrow> False | c # rest \<Rightarrow> (is_lower c \<or> is_upper c \<or> is_digit c) \<and>
     length rest \<le> 127 \<and> list_all (\<lambda>d. is_lower d \<or> is_upper d \<or> is_digit d \<or> d \<in> set ''._:/-'') rest)"

definition codex_model_of :: "environ \<Rightarrow> (config_error, string) outcome" where
  "codex_model_of env = (let m = clean_or ''gpt-6-luna'' (env ''FACTORY_CODEX_MODEL'') in
     if model_pattern m then Inr m else Inl (Config_error ''FACTORY_CODEX_MODEL is invalid''))"

definition EFFORTS :: "string set" where
  "EFFORTS = {''minimal'', ''low'', ''medium'', ''high'', ''xhigh''}"

definition effort_of :: "environ \<Rightarrow> (config_error, string) outcome" where
  "effort_of env = (let e = lower (clean_or ''low'' (env ''FACTORY_CODEX_REASONING_EFFORT'')) in
     if e \<in> EFFORTS then Inr e else Inl (Config_error ''FACTORY_CODEX_REASONING_EFFORT is invalid''))"

definition environment_of :: "environ \<Rightarrow> environment" where
  "environment_of env = (let e = lower (clean_or ''development'' (env ''FACTORY_ENV'')) in
     if e = ''staging'' then Env_staging else if e = ''production'' then Env_production else Env_development)"

text \<open>The registry; outside production the checkouts of its projects are guarded too.\<close>

fun guard_checkouts :: "resolver \<Rightarrow> project_profile list \<Rightarrow> (config_error, unit) outcome" where
  "guard_checkouts resolve [] = Inr ()"
| "guard_checkouts resolve (p # ps) =
     tx_step (guard_path resolve ''FACTORY_PROJECTS'' (prof_checkout p)) (\<lambda>_. guard_checkouts resolve ps)"

definition registry_of :: "resolver \<Rightarrow> environment \<Rightarrow> environ \<Rightarrow> (config_error, project_registry option) outcome" where
  "registry_of resolve e env = (case clean (env ''FACTORY_PROJECTS'') of None \<Rightarrow> Inr None
     | Some raw \<Rightarrow> tx_step (parse_projects raw) (\<lambda>reg.
         if e = Env_production then Inr (Some reg)
         else tx_step (guard_checkouts resolve reg) (\<lambda>_. Inr (Some reg))))"

text \<open>A gate of an issue may not have the name of a gate of the repository.\<close>

definition own_names :: "gate_spec list \<Rightarrow> task_gates \<Rightarrow> (config_error, task_gates) outcome" where
  "own_names gates tasks =
     (if list_ex (\<lambda>(_, gs). list_ex (\<lambda>g. spec_name g \<in> spec_name ` set gates) gs) tasks
      then Inl (Gate_error ''task quality gate duplicates a repository gate'') else Inr tasks)"

definition clamp :: "'a::linorder \<Rightarrow> 'a \<Rightarrow> 'a \<Rightarrow> 'a" where
  "clamp lo hi x = max lo (min hi x)"

subsection \<open>Loading\<close>

text \<open>The settings that need no check, given those that do.\<close>

definition assemble :: "environ \<Rightarrow> environment \<Rightarrow> agent_engine \<Rightarrow> string \<Rightarrow> string option \<Rightarrow> string \<Rightarrow> string \<Rightarrow>
    gate_spec list \<Rightarrow> project_registry option \<Rightarrow> task_gates \<Rightarrow> logging_config \<Rightarrow> int \<Rightarrow> string list \<Rightarrow> targets \<Rightarrow>
    targets \<Rightarrow> targets \<Rightarrow> int \<Rightarrow> factory_config" where
  "assemble env e engine username skill model effort gates reg tasks logs concurrency cards db health docker port =
     \<lparr>cfg_environment = e, cfg_github = github_from_env env, cfg_openhands = openhands_from_env env,
      cfg_codex = codex_from_env env, cfg_engine = engine, cfg_database_url = clean (env ''DATABASE_URL''),
      cfg_workspace_root = clean_or ''./.workspaces'' (env ''FACTORY_WORKSPACE_ROOT''),
      cfg_openhands_root = clean_or ''./.workspaces'' (env ''OPENHANDS_WORKSPACE_ROOT''), cfg_logging = logs,
      cfg_source_checkout = clean (env ''FACTORY_SOURCE_CHECKOUT''),
      cfg_base_ref = clean (env ''FACTORY_WORKSPACE_BASE_REF''), cfg_gates = gates, cfg_task_gates = tasks,
      cfg_ecc_skill = skill, cfg_codex_model = model, cfg_effort = effort,
      cfg_write_token = clean (env ''GITHUB_WRITE_TOKEN''), cfg_write_username = username,
      cfg_target_branch = clean_or ''main'' (env ''FACTORY_TARGET_DEFAULT_BRANCH''),
      cfg_git_host = clean_or ''github.com'' (env ''FACTORY_GITHUB_GIT_HOST''),
      cfg_poll_interval = duration (env ''FACTORY_RUN_POLL_INTERVAL'') 5,
      cfg_run_timeout = duration (env ''FACTORY_RUN_TIMEOUT'') 1800,
      cfg_watch_interval = duration (env ''FACTORY_WATCH_IDLE_INTERVAL'') 60, cfg_max_concurrency = concurrency,
      cfg_heartbeat_interval = clamp 120 300 (duration (env ''FACTORY_HEARTBEAT_INTERVAL'') 180),
      cfg_missed_heartbeats = clamp 1 1000 \<lfloor>duration (env ''FACTORY_MISSED_HEARTBEATS'') 2\<rfloor>,
      cfg_trello_card = clean (env ''FACTORY_TRELLO_STATUS_CARD_ID''), cfg_trello_key = clean (env ''FACTORY_TRELLO_KEY''),
      cfg_trello_token = clean (env ''FACTORY_TRELLO_TOKEN''),
      cfg_trello_list = clean (env ''FACTORY_TRELLO_BACKLOG_LIST_ID''), cfg_trello_lists = cards,
      cfg_trello_label = clean (env ''FACTORY_TRELLO_READY_LABEL_ID''),
      cfg_trello_done = clean (env ''FACTORY_TRELLO_DONE_LIST_ID''),
      cfg_hook_command = clean (env ''OPENHANDS_SHARED_WORKSPACE_HOOK_COMMAND''),
      cfg_scratch_root = clean (env ''FACTORY_OPERATIONAL_SCRATCH_ROOT''), cfg_database_targets = db,
      cfg_health_targets = health, cfg_docker_targets = docker, cfg_registry = reg, cfg_status_port = port\<rparr>"

definition from_env :: "resolver \<Rightarrow> url_parser \<Rightarrow> environ \<Rightarrow> (config_error, factory_config) outcome" where
  "from_env resolve split env =
     tx_step (write_username env) (\<lambda>username.
     tx_step (engine_of env) (\<lambda>engine.
     tx_step (ecc_skill_of env) (\<lambda>skill.
     tx_step (codex_model_of env) (\<lambda>model.
     tx_step (effort_of env) (\<lambda>effort.
     let e = environment_of env in
     tx_step (guard_runtime_paths resolve e env) (\<lambda>_.
     tx_step (parse_gate_specs (env ''FACTORY_QUALITY_GATES'')) (\<lambda>gates.
     tx_step (registry_of resolve e env) (\<lambda>reg.
     tx_step (parse_task_gate_specs (env ''FACTORY_TASK_QUALITY_GATES'')) (\<lambda>parsed.
     tx_step (own_names gates parsed) (\<lambda>tasks.
     tx_step (logging_from_env env) (\<lambda>logs.
     tx_step (max_concurrency (env ''FACTORY_MAX_CONCURRENCY'')) (\<lambda>concurrency.
     tx_step (trello_list_ids env) (\<lambda>cards.
     tx_step (parse_database_targets (env ''FACTORY_DATABASE_READONLY_TARGETS'')) (\<lambda>db.
     tx_step (parse_service_health_targets split (env ''FACTORY_SERVICE_HEALTH_TARGETS'')) (\<lambda>health.
     tx_step (parse_docker_targets (env ''FACTORY_DOCKER_INSPECT_TARGETS'')) (\<lambda>docker.
     tx_step (status_port (env ''FACTORY_STATUS_PORT'')) (\<lambda>port.
     Inr (assemble env e engine username skill model effort gates reg tasks logs concurrency cards db health docker
       port))))))))))))))))))"

section \<open>The log-safe view\<close>

datatype view = V_none | V_text string | V_bool bool | V_int int | V_float rat | V_list "view list"
  | V_dict "(string \<times> view) list"

definition view_text :: "string option \<Rightarrow> view" where
  "view_text x = (case x of None \<Rightarrow> V_none | Some s \<Rightarrow> V_text s)"

text \<open>\<^verbatim>\<open>"***" if secret else None\<close>\<close>

definition masked :: "string option \<Rightarrow> view" where
  "masked x = (if x = None \<or> x = Some [] then V_none else V_text ''***'')"

definition environment_name :: "environment \<Rightarrow> string" where
  "environment_name e = (case e of Env_development \<Rightarrow> ''development'' | Env_staging \<Rightarrow> ''staging''
     | Env_production \<Rightarrow> ''production'')"

definition engine_name :: "agent_engine \<Rightarrow> string" where
  "engine_name e = (case e of Engine_codex \<Rightarrow> ''codex'' | Engine_openhands \<Rightarrow> ''openhands'')"

definition view_gates :: "gate_spec list \<Rightarrow> view" where
  "view_gates gs = V_list (map (\<lambda>g. V_dict [(''name'', V_text (spec_name g)), (''required'', V_bool (spec_required g))]) gs)"

definition view_project :: "project_profile \<Rightarrow> view" where
  "view_project p = V_dict [(''project_id'', V_text (prof_project_id p)), (''repository'', V_text (prof_repository p)),
     (''source_checkout'', V_text (prof_checkout p)), (''base_ref'', V_text (prof_base_ref p)),
     (''context_profile'', V_text (prof_context_profile p)), (''deploy_policy'', V_text (prof_deploy_policy p)),
     (''deploy_required'', V_bool (prof_deploy_required p)),
     (''provider_ci_required'', V_bool (prof_provider_ci_required p)),
     (''required_ci_checks'', V_list (map V_text (prof_required_ci_checks p))), (''git_host'', V_text (prof_git_host p)),
     (''gates'', V_list (map (V_text \<circ> spec_name) (prof_gates p)))]"

definition view_keys :: "targets \<Rightarrow> view" where
  "view_keys ts = V_list (map (V_text \<circ> fst) ts)"

definition redacted :: "factory_config \<Rightarrow> view" where
  "redacted c = V_dict
     [(''environment'', V_text (environment_name (cfg_environment c))), (''status_port'', V_int (cfg_status_port c)),
      (''github'', V_dict [(''api_url'', V_text (ghc_api_url (cfg_github c))),
         (''control_plane_repo'', view_text (ghc_control_repo (cfg_github c))),
         (''target_repo'', view_text (ghc_target_repo (cfg_github c))), (''token'', masked (ghc_token (cfg_github c)))]),
      (''openhands'', V_dict [(''base_url'', view_text (agc_base_url (cfg_openhands c))),
         (''agent_profile_id'', view_text (agc_profile (cfg_openhands c))),
         (''api_key'', masked (agc_api_key (cfg_openhands c))),
         (''session_api_key'', masked (agc_session_key (cfg_openhands c)))]),
      (''codex'', V_dict [(''api_key'', masked (agc_api_key (cfg_codex c)))]),
      (''agent_engine'', V_text (engine_name (cfg_engine c))),
      (''database_url'', view_text (redact_url (cfg_database_url c))),
      (''workspace_root'', V_text (cfg_workspace_root c)),
      (''openhands_workspace_root'', V_text (cfg_openhands_root c)),
      (''source_checkout'', view_text (cfg_source_checkout c)), (''workspace_base_ref'', view_text (cfg_base_ref c)),
      (''quality_gates'', view_gates (cfg_gates c)),
      (''projects'', V_list (case cfg_registry c of None \<Rightarrow> [] | Some reg \<Rightarrow> map view_project reg)),
      (''task_quality_gates'', V_dict (map (\<lambda>(ref, gs). (ref, view_gates gs)) (cfg_task_gates c))),
      (''codex_ecc_skill'', view_text (cfg_ecc_skill c)), (''codex_model'', V_text (cfg_codex_model c)),
      (''codex_reasoning_effort'', V_text (cfg_effort c)), (''github_write_token'', masked (cfg_write_token c)),
      (''github_write_username'', V_text (cfg_write_username c)),
      (''target_default_branch'', V_text (cfg_target_branch c)), (''github_git_host'', V_text (cfg_git_host c)),
      (''run_poll_interval'', V_float (cfg_poll_interval c)), (''run_timeout'', V_float (cfg_run_timeout c)),
      (''watch_idle_interval'', V_float (cfg_watch_interval c)), (''max_concurrency'', V_int (cfg_max_concurrency c)),
      (''heartbeat_interval'', V_float (cfg_heartbeat_interval c)),
      (''missed_heartbeats'', V_int (cfg_missed_heartbeats c)),
      (''trello_status_card_id'', view_text (cfg_trello_card c)), (''trello_key'', masked (cfg_trello_key c)),
      (''trello_token'', masked (cfg_trello_token c)), (''trello_backlog_list_id'', view_text (cfg_trello_list c)),
      (''trello_backlog_list_ids'', V_list (map V_text (cfg_trello_lists c))),
      (''trello_ready_label_id'', view_text (cfg_trello_label c)), (''trello_done_list_id'', view_text (cfg_trello_done c)),
      (''openhands_shared_workspace_hook_command'', view_text (cfg_hook_command c)),
      (''operational_scratch_root'', view_text (cfg_scratch_root c)),
      (''database_readonly_target_ids'', view_keys (cfg_database_targets c)),
      (''service_health_target_ids'', view_keys (cfg_health_targets c)),
      (''docker_inspect_target_ids'', view_keys (cfg_docker_targets c)),
      (''logging'', V_dict [(''level'', V_text (lgc_level (cfg_logging c))),
         (''format'', V_text (case lgc_format (cfg_logging c) of Log_text \<Rightarrow> ''text'' | Log_json \<Rightarrow> ''json''))])]"

end
