(* ===== verification/Configuration_Facts.thy ===== *)
theory Configuration_Facts
  imports Configuration
begin

text \<open>
  What a configuration that loads satisfies, and what its log-safe view depends on.
\<close>

section \<open>Lists and dictionaries\<close>

lemma those_Some: "those xs = Some ys \<longleftrightarrow> xs = map Some ys"
  by (induction xs arbitrary: ys) (auto split: option.splits)

lemma those_map:
  assumes "those (map f xs) = Some ys"
  shows "length ys = length xs" "\<And>x. x \<in> set xs \<Longrightarrow> \<exists>y \<in> set ys. f x = Some y"
    "(\<And>x y. x \<in> set xs \<Longrightarrow> f x = Some y \<Longrightarrow> g y = h x) \<Longrightarrow> map g ys = map h xs"
  using assms by (induction xs arbitrary: ys) (auto split: option.splits)

lemma put_item_keys:
  "set (map fst (put_item k v xs)) = insert k (set (map fst xs))"
  "distinct (map fst xs) \<Longrightarrow> distinct (map fst (put_item k v xs))"
proof -
  show keys: "set (map fst (put_item k v xs)) = insert k (set (map fst xs))" for k and v :: 'b and xs
    by (induction k v xs rule: put_item.induct) (auto simp del: set_map)
  show "distinct (map fst (put_item k v xs))" if "distinct (map fst xs)"
    using that
  proof (induction k v xs rule: put_item.induct)
    case (2 k v j u xs)
    then show ?case using keys [of k v xs] by (auto simp del: set_map)
  qed simp
qed

lemma items_of_distinct: "distinct (map fst (items_of kvs))"
proof -
  have "distinct (map fst xs) \<Longrightarrow> distinct (map fst (fold (\<lambda>(k, v). put_item k v) kvs xs))" for xs
    by (induction kvs arbitrary: xs) (auto simp: put_item_keys(2))
  then show ?thesis by (simp add: items_of_def)
qed

section \<open>Targets\<close>

lemma safe_name_points: "safe_name ns \<Longrightarrow> list_all (\<lambda>n. n < 256) ns"
proof -
  have "alnum_point n \<Longrightarrow> n < 256" "name_point n \<Longrightarrow> n < 256" for n
    by (auto simp: alnum_point_def name_point_def)
  then show "safe_name ns \<Longrightarrow> list_all (\<lambda>n. n < 256) ns"
    by (cases ns) (auto simp: safe_name_def list_all_iff)
qed

lemma text_of_inj: "safe_name a \<Longrightarrow> safe_name b \<Longrightarrow> text_of a = text_of b \<Longrightarrow> a = b"
  using points_text [OF safe_name_points] by metis

definition valid_targets :: "targets \<Rightarrow> bool" where
  "valid_targets ts \<longleftrightarrow> length ts \<le> 16 \<and> sorted (map fst ts) \<and> distinct (map fst ts) \<and>
     (\<forall>t \<in> set ts. safe_name (points (fst t)))"

lemma valid_targetsI:
  assumes "length ts \<le> 16" "map fst ts = map (text_of \<circ> fst) items" "distinct (map fst items)"
    "\<forall>x \<in> set items. safe_name (fst x)"
  shows "valid_targets (sort_key fst ts)"
proof -
  have "inj_on text_of (set (map fst items))" using assms(4) text_of_inj by (auto intro!: inj_onI)
  then have "distinct (map text_of (map fst items))" using assms(3) by (simp only: distinct_map)
  then have d: "distinct (map fst ts)" by (simp add: assms(2))
  have "mset (map fst (sort_key fst ts)) = mset (map fst ts)" by (metis mset_map mset_sort)
  then have "distinct (map fst (sort_key fst ts))" using d by (metis mset_eq_imp_distinct_iff)
  moreover have "safe_name (points (fst t))" if "t \<in> set ts" for t
  proof -
    have "fst t \<in> set (map (text_of \<circ> fst) items)" using that unfolding assms(2) [symmetric] by simp
    then show ?thesis using assms(4) points_text [OF safe_name_points] by auto
  qed
  ultimately show ?thesis using assms(1) by (simp add: valid_targets_def)
qed

lemma those_valid:
  assumes "those (map f xs) = Some ys" "length xs \<le> 16" "distinct (map fst xs)"
    and f: "\<And>x y. f x = Some y \<Longrightarrow> safe_name (fst x) \<and> fst y = text_of (fst x)"
  shows "valid_targets (sort_key fst ys)"
proof (rule valid_targetsI)
  show "map fst ys = map (text_of \<circ> fst) xs" by (rule those_map(3) [OF assms(1)]) (simp add: f)
  show "\<forall>x \<in> set xs. safe_name (fst x)" using those_map(2) [OF assms(1)] f by blast
qed (use assms(2,3) those_map(1) [OF assms(1)] in simp_all)

lemma valid_targets_Nil: "valid_targets []"
  by (simp add: valid_targets_def)

lemma database_targets_valid:
  assumes "parse_database_targets raw = Inr ts"
  shows "valid_targets ts \<and> (\<forall>t \<in> set ts. hd (snd t) = 47)"
proof (cases "raw = None \<or> raw = Some []")
  case False
  then obtain kvs us where len: "length (items_of kvs) \<le> 16" and us: "those (map database_target (items_of kvs)) = Some us"
    and ts: "ts = sort_key fst us"
    using assms by (auto simp: parse_database_targets_def Let_def not_less split: option.splits jvalue.splits if_splits)
  have one: "safe_name (fst x) \<and> fst y = text_of (fst x) \<and> hd (snd y) = 47" if "database_target x = Some y" for x y
    using that by (auto simp: database_target_def split: prod.splits jvalue.splits if_splits)
  have "valid_targets ts"
    unfolding ts using one by (intro those_valid [OF us len items_of_distinct]) blast
  moreover have "hd (snd t) = 47" if "t \<in> set us" for t
  proof -
    have "Some t \<in> set (map database_target (items_of kvs))"
      using us that unfolding those_Some by simp
    then show ?thesis using one by (metis (no_types, lifting) imageE list.set_map)
  qed
  ultimately show ?thesis by (simp add: ts)
qed (use assms in \<open>auto simp: parse_database_targets_def valid_targets_Nil\<close>)

lemma docker_targets_valid:
  assumes "parse_docker_targets raw = Inr ts"
  shows "valid_targets ts \<and> distinct (map snd ts)"
proof (cases "raw = None \<or> raw = Some []")
  case False
  then obtain kvs us where len: "length (items_of kvs) \<le> 16" and us: "those (map docker_target (items_of kvs)) = Some us"
    and ts: "ts = sort_key fst us" "distinct (map snd us)"
    using assms by (auto simp: parse_docker_targets_def Let_def not_less split: option.splits jvalue.splits if_splits)
  have one: "safe_name (fst x) \<and> fst y = text_of (fst x)" if "docker_target x = Some y" for x y
    using that by (auto simp: docker_target_def split: prod.splits jvalue.splits if_splits)
  have "valid_targets ts"
    unfolding ts(1) using one by (intro those_valid [OF us len items_of_distinct]) blast
  moreover have "distinct (map snd ts)"
    unfolding ts(1) using ts(2) by (metis mset_eq_imp_distinct_iff mset_map mset_sort)
  ultimately show ?thesis by simp
qed (use assms in \<open>auto simp: parse_docker_targets_def valid_targets_Nil\<close>)

lemma health_targets_keys:
  "health_targets split xs = Inr ts \<Longrightarrow> map fst ts = map (text_of \<circ> fst) xs \<and> (\<forall>x \<in> set xs. safe_name (fst x))"
proof (induction xs arbitrary: ts)
  case (Cons x xs)
  then show ?case
    by (cases x) (auto simp: Let_def tx_step_eq_Inr split: jvalue.splits if_splits)
qed simp

lemma health_targets_valid:
  assumes "parse_service_health_targets split raw = Inr ts" shows "valid_targets ts"
proof (cases "raw = None \<or> raw = Some []")
  case False
  then obtain kvs us where len: "length (items_of kvs) \<le> 16" and us: "health_targets split (items_of kvs) = Inr us"
    and ts: "ts = sort_key fst us"
    using assms by (auto simp: parse_service_health_targets_def Let_def not_less tx_step_eq_Inr
        split: option.splits jvalue.splits if_splits)
  have "length us = length (items_of kvs)" using health_targets_keys [OF us] by (metis length_map)
  then show ?thesis
    unfolding ts using health_targets_keys [OF us] len by (intro valid_targetsI [OF _ _ items_of_distinct]) auto
qed (use assms in \<open>auto simp: parse_service_health_targets_def valid_targets_Nil\<close>)

section \<open>Gates\<close>

definition valid_gates :: "gate_spec list \<Rightarrow> bool" where
  "valid_gates gs \<longleftrightarrow> distinct (map spec_name gs) \<and> (\<forall>g \<in> set gs. strip (spec_name g) \<noteq> [] \<and> spec_argv g \<noteq> [])"

lemma gate_name_valid: "gate_name_of i v = Inr name \<Longrightarrow> strip name \<noteq> []"
  by (auto simp: gate_name_of_def Let_def split: option.splits jvalue.splits if_splits)

lemma gate_argv_valid: "gate_argv_of name v = Inr argv \<Longrightarrow> argv \<noteq> []"
  by (auto simp: gate_argv_of_def text_values_def Let_def split: option.splits jvalue.splits if_splits
      dest!: those_map(1))

lemma gate_item_valid: "gate_item i v = Inr g \<Longrightarrow> strip (spec_name g) \<noteq> [] \<and> spec_argv g \<noteq> []"
  by (cases v) (auto simp: gate_item_def tx_step_eq_Inr gate_name_valid gate_argv_valid)

lemma gate_items_valid:
  "gate_items i seen vs = Inr gs \<Longrightarrow> valid_gates gs \<and> spec_name ` set gs \<inter> set seen = {}"
proof (induction vs arbitrary: i seen gs)
  case (Cons v vs)
  then obtain g rest where g: "gate_item i v = Inr g" "spec_name g \<notin> set seen" "gs = g # rest"
    "gate_items (i + 1) (spec_name g # seen) vs = Inr rest"
    by (auto simp: tx_step_eq_Inr split: if_splits)
  with Cons.IH [OF g(4)] gate_item_valid [OF g(1)] show ?case by (auto simp: valid_gates_def)
qed (simp add: valid_gates_def)

lemma parse_gate_specs_valid: "parse_gate_specs raw = Inr gs \<Longrightarrow> valid_gates gs"
  using gate_items_valid
  by (auto simp: parse_gate_specs_def parse_gate_items_def valid_gates_def split: option.splits jvalue.splits)

lemma task_gate_items_valid: "task_gate_items xs = Inr ts \<Longrightarrow> (ref, gs) \<in> set ts \<Longrightarrow> valid_gates gs"
proof (induction xs arbitrary: ts)
  case (Cons x xs)
  then show ?case
    using gate_items_valid
    by (cases x) (auto simp: tx_step_eq_Inr parse_gate_items_def split: jvalue.splits option.splits)
qed simp

lemma parse_task_gate_specs_valid: "parse_task_gate_specs raw = Inr ts \<Longrightarrow> (ref, gs) \<in> set ts \<Longrightarrow> valid_gates gs"
  using task_gate_items_valid by (auto simp: parse_task_gate_specs_def split: option.splits jvalue.splits)

section \<open>Paths\<close>

definition unprotected :: "resolver \<Rightarrow> string \<Rightarrow> bool" where
  "unprotected resolve raw \<longleftrightarrow> (\<exists>parts. resolve raw = Inr parts \<and> \<not> protected parts)"

lemma guard_path_ok: "guard_path resolve key raw = Inr u \<Longrightarrow> unprotected resolve raw"
  by (auto simp: guard_path_def tx_step_eq_Inr unprotected_def split: if_splits)

lemma guard_all_ok:
  "guard_all resolve xs = Inr u \<Longrightarrow> (k, Some raw) \<in> set xs \<Longrightarrow> raw \<noteq> '':memory:'' \<Longrightarrow> unprotected resolve raw"
  by (induction xs) (auto simp: tx_step_eq_Inr split: option.splits if_splits dest: guard_path_ok)

lemma guard_checkouts_ok: "guard_checkouts resolve ps = Inr u \<Longrightarrow> p \<in> set ps \<Longrightarrow> unprotected resolve (prof_checkout p)"
  by (induction ps) (auto simp: tx_step_eq_Inr dest: guard_path_ok)

section \<open>The log-safe view\<close>

lemma partition_at_here: "partition_at p (p @ c) = Some ([], c)"
proof (cases "p @ c")
  case (Cons y ys)
  have "starts_with p (p @ c)" "drop (length p) (p @ c) = c" by simp_all
  then show ?thesis unfolding Cons by simp
qed (cases c, simp_all)

lemma partition_at_Some:
  "partition_at p s = Some (a, b) \<Longrightarrow> s = a @ p @ b \<and> partition_at p (a @ p @ c) = Some (a, c)"
proof (induction p s arbitrary: a b rule: partition_at.induct)
  case (2 p x s)
  show ?case
  proof (cases "starts_with p (x # s)")
    case True
    then obtain t where t: "x # s = p @ t" by (auto simp: starts_with_iff)
    have "a = [] \<and> b = t" using 2(2) partition_at_here [of p t] unfolding t by simp
    then show ?thesis using t partition_at_here [of p c] by simp
  next
    case False
    then obtain a' where a: "a = x # a'" "partition_at p s = Some (a', b)" using 2 by auto
    note IH = "2.IH" [OF False a(2)]
    have "take (length p) (a @ p @ c) = take (length p) (a @ p @ b)" by simp
    then have "\<not> starts_with p (a @ p @ c)" using False IH by (simp add: starts_with_def a(1))
    then show ?thesis using IH a by simp
  qed
qed (use partition_at_here [of "[]" c] in \<open>auto split: if_splits\<close>)

lemma partition_at_char: "c \<notin> set a \<Longrightarrow> partition_at [c] (a @ [c] @ b) = Some (a, b)"
  by (induction a) (auto simp: starts_with_def)

text \<open>The same configuration with other secrets: tokens and keys, the user of the database URL, the
  values of the targets, and the arguments of the gates.\<close>

definition conceal_url :: "(string \<Rightarrow> string) \<Rightarrow> string \<Rightarrow> string" where
  "conceal_url f s = (case partition_at ''://'' s of None \<Rightarrow> s
     | Some (scheme, rest) \<Rightarrow> (case partition_at ''@'' rest of None \<Rightarrow> s
         | Some (user, host) \<Rightarrow> scheme @ ''://'' @ f user @ ''@'' @ host))"

definition conceal_gates :: "(string \<Rightarrow> string) \<Rightarrow> gate_spec list \<Rightarrow> gate_spec list" where
  "conceal_gates f gs = map (\<lambda>g. g\<lparr>spec_argv := map f (spec_argv g)\<rparr>) gs"

definition conceal_targets :: "(nat list \<Rightarrow> nat list) \<Rightarrow> targets \<Rightarrow> targets" where
  "conceal_targets h ts = map (\<lambda>(k, p). (k, h p)) ts"

definition conceal_agent :: "(string \<Rightarrow> string) \<Rightarrow> agent_config \<Rightarrow> agent_config" where
  "conceal_agent f a = a\<lparr>agc_api_key := map_option f (agc_api_key a), agc_session_key := map_option f (agc_session_key a)\<rparr>"

definition conceal :: "(string \<Rightarrow> string) \<Rightarrow> (nat list \<Rightarrow> nat list) \<Rightarrow> factory_config \<Rightarrow> factory_config" where
  "conceal f h c = c\<lparr>cfg_github := (cfg_github c)\<lparr>ghc_token := map_option f (ghc_token (cfg_github c))\<rparr>,
     cfg_openhands := conceal_agent f (cfg_openhands c), cfg_codex := conceal_agent f (cfg_codex c),
     cfg_database_url := map_option (conceal_url f) (cfg_database_url c),
     cfg_write_token := map_option f (cfg_write_token c), cfg_trello_key := map_option f (cfg_trello_key c),
     cfg_trello_token := map_option f (cfg_trello_token c),
     cfg_database_targets := conceal_targets h (cfg_database_targets c),
     cfg_health_targets := conceal_targets h (cfg_health_targets c),
     cfg_docker_targets := conceal_targets h (cfg_docker_targets c),
     cfg_gates := conceal_gates f (cfg_gates c),
     cfg_task_gates := map (\<lambda>(ref, gs). (ref, conceal_gates f gs)) (cfg_task_gates c),
     cfg_registry := map_option (map (\<lambda>p. p\<lparr>prof_gates := conceal_gates f (prof_gates p)\<rparr>)) (cfg_registry c)\<rparr>"

lemma redact_conceal_url:
  assumes "\<And>s. CHR ''@'' \<notin> set (f s)" shows "redact_url (Some (conceal_url f s)) = redact_url (Some s)"
proof (cases "partition_at ''://'' s")
  case (Some x)
  obtain scheme rest where x: "x = (scheme, rest)" by (cases x)
  show ?thesis
  proof (cases "partition_at ''@'' rest")
    case (Some y)
    obtain user host where y: "y = (user, host)" by (cases y)
    have "partition_at ''://'' (scheme @ ''://'' @ f user @ ''@'' @ host) = Some (scheme, f user @ ''@'' @ host)"
      using partition_at_Some \<open>partition_at ''://'' s = Some x\<close> x by blast
    moreover have "partition_at ''@'' (f user @ ''@'' @ host) = Some (f user, host)"
      using assms by (rule partition_at_char)
    ultimately show ?thesis
      using \<open>partition_at ''://'' s = Some x\<close> Some x y by (simp add: redact_url_def conceal_url_def del: partition_at.simps)
  qed (use \<open>partition_at ''://'' s = Some x\<close> x in \<open>simp add: redact_url_def conceal_url_def\<close>)
qed (simp add: redact_url_def conceal_url_def)

lemma conceal_parts:
  "view_gates (conceal_gates f gs) = view_gates gs" "view_keys (conceal_targets h ts) = view_keys ts"
  "map spec_name (conceal_gates f gs) = map spec_name gs"
  by (simp_all add: view_gates_def conceal_gates_def view_keys_def conceal_targets_def case_prod_beta comp_def)

lemma view_project_conceal: "view_project (p\<lparr>prof_gates := conceal_gates f (prof_gates p)\<rparr>) = view_project p"
  using conceal_parts(3) [of f "prof_gates p"] by (simp add: view_project_def flip: map_map)

lemma masked_conceal: "(\<And>s. f s = [] \<longleftrightarrow> s = []) \<Longrightarrow> masked (map_option f x) = masked x"
  by (cases x) (simp_all add: masked_def)

end
