(* ===== verification/Configuration_Properties.thy ===== *)
theory Configuration_Properties
  imports Configuration_Facts
begin

text \<open>The guarantees of the configuration.\<close>

section \<open>Settings that load\<close>

text \<open>C26. A configuration that loads is valid.  Concurrency, status port, heartbeat interval and missed
  heartbeats are in their ranges and no duration is negative, whatever the variables say; gates have distinct, non-blank
  names and a command, and no gate of an issue has the name of a gate of the repository; every set of observation
  targets has at most 16 sorted, distinct, safe names; and outside production no checkout, scratch root,
  database file or project of the settings lies in a protected path.\<close>

theorem configuration_valid:
  assumes "from_env resolve split env = Inr c"
  shows "cfg_max_concurrency c \<in> {1, 2} \<and> 1 \<le> cfg_status_port c \<and> cfg_status_port c \<le> 65535 \<and>
    120 \<le> cfg_heartbeat_interval c \<and> cfg_heartbeat_interval c \<le> 300 \<and>
    1 \<le> cfg_missed_heartbeats c \<and> cfg_missed_heartbeats c \<le> 1000 \<and>
    0 \<le> cfg_poll_interval c \<and> 0 \<le> cfg_run_timeout c \<and> 0 \<le> cfg_watch_interval c \<and>
    valid_gates (cfg_gates c) \<and> (\<forall>(ref, gs) \<in> set (cfg_task_gates c). valid_gates gs \<and>
      spec_name ` set gs \<inter> spec_name ` set (cfg_gates c) = {}) \<and>
    valid_targets (cfg_database_targets c) \<and> valid_targets (cfg_health_targets c) \<and>
    valid_targets (cfg_docker_targets c) \<and> distinct (map snd (cfg_docker_targets c)) \<and>
    (cfg_environment c \<noteq> Env_production \<longrightarrow>
      (\<forall>raw \<in> set_option (cfg_source_checkout c) \<union> set_option (cfg_scratch_root c) \<union>
         set_option (database_path (cfg_database_url c)). raw \<noteq> '':memory:'' \<longrightarrow> unprotected resolve raw) \<and>
      (\<forall>reg \<in> set_option (cfg_registry c). \<forall>p \<in> set reg. unprotected resolve (prof_checkout p)))"
proof -
  obtain username engine skill model effort gates reg parsed tasks logs concurrency cards db health docker port where
    guard: "guard_runtime_paths resolve (environment_of env) env = Inr ()"
    and gates: "parse_gate_specs (env ''FACTORY_QUALITY_GATES'') = Inr gates"
    and reg: "registry_of resolve (environment_of env) env = Inr reg"
    and parsed: "parse_task_gate_specs (env ''FACTORY_TASK_QUALITY_GATES'') = Inr parsed"
    and tasks: "own_names gates parsed = Inr tasks"
    and conc: "max_concurrency (env ''FACTORY_MAX_CONCURRENCY'') = Inr concurrency"
    and db: "parse_database_targets (env ''FACTORY_DATABASE_READONLY_TARGETS'') = Inr db"
    and health: "parse_service_health_targets split (env ''FACTORY_SERVICE_HEALTH_TARGETS'') = Inr health"
    and docker: "parse_docker_targets (env ''FACTORY_DOCKER_INSPECT_TARGETS'') = Inr docker"
    and port: "status_port (env ''FACTORY_STATUS_PORT'') = Inr port"
    and c: "c = assemble env (environment_of env) engine username skill model effort gates reg tasks logs concurrency
       cards db health docker port"
    using assms unfolding from_env_def Let_def tx_step_eq_Inr by auto
  have "tasks = parsed" and own: "\<forall>(ref, gs) \<in> set tasks. spec_name ` set gs \<inter> spec_name ` set gates = {}"
    using tasks by (auto simp: own_names_def list_ex_iff split: if_splits)
  then have "\<forall>(ref, gs) \<in> set tasks. valid_gates gs \<and> spec_name ` set gs \<inter> spec_name ` set gates = {}"
    using parse_task_gate_specs_valid [OF parsed] by blast
  moreover have "concurrency \<in> {1, 2}" using conc by (auto simp: max_concurrency_def split: option.splits if_splits)
  moreover have "1 \<le> port \<and> port \<le> 65535" using port by (auto simp: status_port_def split: option.splits if_splits)
  moreover have "unprotected resolve raw" if "environment_of env \<noteq> Env_production" "raw \<noteq> '':memory:''"
    "raw \<in> set_option (clean (env ''FACTORY_SOURCE_CHECKOUT'')) \<union>
       set_option (clean (env ''FACTORY_OPERATIONAL_SCRATCH_ROOT'')) \<union>
       set_option (database_path (clean (env ''DATABASE_URL'')))" for raw
  proof -
    have "Some raw \<in> snd ` set (guarded_paths env)"
      using that(3) unfolding guarded_paths_def list.set list.map image_insert snd_conv by (auto simp: elem_set)
    then obtain k where "(k, Some raw) \<in> set (guarded_paths env)" by auto
    moreover have "guard_all resolve (guarded_paths env) = Inr ()"
      using guard that(1) by (simp add: guard_runtime_paths_def)
    ultimately show ?thesis using guard_all_ok that(2) by blast
  qed
  moreover have "unprotected resolve (prof_checkout p)"
    if "environment_of env \<noteq> Env_production" "reg = Some profiles" "p \<in> set profiles" for profiles p
    using reg that guard_checkouts_ok
    by (auto simp: registry_of_def tx_step_eq_Inr split: option.splits)
  ultimately show ?thesis
    using parse_gate_specs_valid [OF gates] database_targets_valid [OF db] docker_targets_valid [OF docker]
      health_targets_valid [OF health]
    by (auto simp: c assemble_def clamp_def duration_nonneg elem_set)
qed

definition sample_environ :: environ where
  "sample_environ k = (if k = ''FACTORY_MAX_CONCURRENCY'' then Some '' 1 ''
     else if k = ''FACTORY_HEARTBEAT_INTERVAL'' then Some ''inf''
     else if k = ''FACTORY_SOURCE_CHECKOUT'' then Some ''/x''
     else if k = ''GITHUB_TOKEN'' then Some ''secret'' else None)"

definition sample_resolver :: resolver where
  "sample_resolver p = Inr [''/'', tl p]"

lemma sample_loads:
  "case from_env sample_resolver (\<lambda>u. Inl Unmodelled) sample_environ of
     Inr c \<Rightarrow> cfg_heartbeat_interval c = 180 \<and> cfg_max_concurrency c = 1 | Inl e \<Rightarrow> False"
  by code_simp

theorem configuration_valid_witness:
  "\<exists>c. from_env sample_resolver (\<lambda>u. Inl Unmodelled) sample_environ = Inr c \<and> cfg_heartbeat_interval c \<le> 300 \<and>
     (cfg_environment c \<noteq> Env_production \<longrightarrow> (\<forall>raw \<in> set_option (cfg_source_checkout c). raw \<noteq> '':memory:'' \<longrightarrow>
       unprotected sample_resolver raw))"
proof -
  obtain c where c: "from_env sample_resolver (\<lambda>u. Inl Unmodelled) sample_environ = Inr c"
    using sample_loads by (auto split: sum.splits)
  from configuration_valid [OF c] show ?thesis by (intro exI [of _ c]) (simp add: c)
qed

section \<open>The log-safe view\<close>

text \<open>C27. The log-safe view does not depend on secrets.  Replace every token and key by another, the user and
  password of the database URL up to its first \<^verbatim>\<open>@\<close>, the paths, URLs and containers of the targets and the
  arguments of the gates: the view stays the same.  So it tells of a secret at most whether it is set.\<close>

theorem redacted_hides_secrets:
  assumes "\<forall>s. (f s = [] \<longleftrightarrow> s = []) \<and> CHR ''@'' \<notin> set (f s)"
  shows "redacted (conceal f h c) = redacted c"
proof -
  have "view_text (redact_url (map_option (conceal_url f) u)) = view_text (redact_url u)" for u
    using redact_conceal_url [of f] assms by (cases u) simp_all
  moreover have "map (\<lambda>(ref, gs). (ref, view_gates gs)) (map (\<lambda>(ref, gs). (ref, conceal_gates f gs)) ts) =
      map (\<lambda>(ref, gs). (ref, view_gates gs)) ts" for ts :: task_gates
    by (simp add: conceal_parts case_prod_beta)
  moreover have "(case map_option (map (\<lambda>p. p\<lparr>prof_gates := conceal_gates f (prof_gates p)\<rparr>)) r of
        None \<Rightarrow> [] | Some reg \<Rightarrow> map view_project reg) = (case r of None \<Rightarrow> [] | Some reg \<Rightarrow> map view_project reg)"
    for r :: "project_registry option"
    by (cases r) (simp_all add: view_project_conceal)
  ultimately show ?thesis
    using assms masked_conceal [of f]
    by (simp add: redacted_def conceal_def conceal_agent_def conceal_parts del: map_map)
qed

text \<open>A password with an \<^verbatim>\<open>@\<close> shows its tail.\<close>

lemma password_tail: "redact_url (Some ''db://u:p@q@h/x'') = Some ''db://***@q@h/x''"
  by code_simp

definition starred :: "string \<Rightarrow> string" where
  "starred s = (if s = [] then [] else ''*'')"

theorem redacted_hides_secrets_witness:
  "\<exists>c. from_env sample_resolver (\<lambda>u. Inl Unmodelled) sample_environ = Inr c \<and>
     redacted (conceal starred (\<lambda>p. []) c) = redacted c"
proof -
  obtain c where c: "from_env sample_resolver (\<lambda>u. Inl Unmodelled) sample_environ = Inr c"
    using sample_loads by (auto split: sum.splits)
  have "\<forall>s. (starred s = [] \<longleftrightarrow> s = []) \<and> CHR ''@'' \<notin> set (starred s)" by (simp add: starred_def)
  from redacted_hides_secrets [OF this] c show ?thesis by blast
qed

end
