(* ===== verification/Shared_Policy.thy ===== *)
theory Shared_Policy
  imports Configuration "HOL-Library.Word"
begin

text \<open>
  \<^verbatim>\<open>shared_policy.py\<close> of \<^verbatim>\<open>integrations/workspace\<close>: the permissions of a workspace that two users share.  A
  directory tree carries the modes of its nodes, whether this process may change and open them, and
  the order in which a directory lists them; nothing else changes the tree during a walk.  What git
  ignores and what a path names are parameters.
\<close>

section \<open>Modes\<close>

type_synonym mode = "12 word"

definition SHARED_FILE_MODE :: mode where
  "SHARED_FILE_MODE = 432"

definition SHARED_EXECUTABLE_MODE :: mode where
  "SHARED_EXECUTABLE_MODE = 504"

definition SHARED_DIRECTORY_MODE :: mode where
  "SHARED_DIRECTORY_MODE = 1528"

definition PRIVATE_FILE_MODE :: mode where
  "PRIVATE_FILE_MODE = 384"

definition PRIVATE_EXECUTABLE_MODE :: mode where
  "PRIVATE_EXECUTABLE_MODE = 448"

definition PRIVATE_DIRECTORY_MODE :: mode where
  "PRIVATE_DIRECTORY_MODE = 448"

definition target_file_mode :: "bool \<Rightarrow> bool \<Rightarrow> mode" where
  "target_file_mode ignored executable =
     (if ignored then if executable then PRIVATE_EXECUTABLE_MODE else PRIVATE_FILE_MODE
      else if executable then SHARED_EXECUTABLE_MODE else SHARED_FILE_MODE)"

definition target_directory_mode :: "bool \<Rightarrow> mode" where
  "target_directory_mode ignored = (if ignored then PRIVATE_DIRECTORY_MODE else SHARED_DIRECTORY_MODE)"

text \<open>\<open>S_IXUSR\<close> is bit 6.\<close>

definition user_executable :: "mode \<Rightarrow> bool" where
  "user_executable m = bit m 6"

section \<open>The tree\<close>

text \<open>A node's mode, whether \<open>chmod\<close> and \<open>open\<close> succeed on it, and its hard links.\<close>

record meta =
  mta_mode :: mode
  mta_owned :: bool
  mta_opens :: bool
  mta_links :: nat

text \<open>A link to a directory is listed among the directories; its flag says whether opening it succeeds.\<close>

datatype node = Directory meta "(string \<times> node) list" | Regular meta | Link_file | Link_directory bool | Special

record ignored =
  ign_files :: "string list"
  ign_directories :: "string list"

definition below :: "string \<Rightarrow> string \<Rightarrow> string" where
  "below p name = (if p = [] then name else p @ ''/'' @ name)"

definition directory_path :: "string \<Rightarrow> string" where
  "directory_path p = (if p = [] then ''./'' else p @ ''/'')"

definition inside_ignored :: "ignored \<Rightarrow> string \<Rightarrow> bool" where
  "inside_ignored ig p = list_ex (\<lambda>d. starts_with d (directory_path p)) (ign_directories ig)"

definition ignored_directory :: "ignored \<Rightarrow> string \<Rightarrow> bool" where
  "ignored_directory ig p \<longleftrightarrow> p @ ''/'' \<in> set (ign_directories ig)"

section \<open>One walk\<close>

text \<open>\<open>fchmod\<close>, only when the mode differs; a step that fails leaves what the steps before it did.\<close>

definition chmod :: "mode \<Rightarrow> meta \<Rightarrow> meta \<times> bool" where
  "chmod m x = (if mta_mode x = m then (x, True) else if mta_owned x then (x\<lparr>mta_mode := m\<rparr>, True) else (x, False))"

text \<open>Opening first, when the mode differs.\<close>

definition open_chmod :: "mode \<Rightarrow> meta \<Rightarrow> meta \<times> bool" where
  "open_chmod m x = (if mta_mode x = m then (x, True) else if mta_opens x then chmod m x else (x, False))"

text \<open>An ignored directory becomes private and stays closed; a link in its place is unsafe.\<close>

definition fix_ignored :: "ignored \<Rightarrow> string \<Rightarrow> node \<Rightarrow> node \<times> bool" where
  "fix_ignored ig p x = (if \<not> ignored_directory ig p then (x, True) else case x of
       Directory m cs \<Rightarrow> (case open_chmod PRIVATE_DIRECTORY_MODE m of (m', ok) \<Rightarrow> (Directory m' cs, ok))
     | Link_directory _ \<Rightarrow> (x, False)
     | _ \<Rightarrow> (x, True))"

definition fix_file :: "ignored \<Rightarrow> string \<Rightarrow> node \<Rightarrow> node \<times> bool" where
  "fix_file ig p x = (case x of
       Regular m \<Rightarrow> if mta_links m \<noteq> 1 then (x, False)
         else (case open_chmod (target_file_mode (p \<in> set (ign_files ig)) (user_executable (mta_mode m))) m of
           (m', ok) \<Rightarrow> (Regular m', ok))
     | Special \<Rightarrow> (x, False)
     | _ \<Rightarrow> (x, True))"

text \<open>A loop over the entries of a directory, up to the first failure.\<close>

fun each_entry :: "(string \<Rightarrow> node \<Rightarrow> node \<times> bool) \<Rightarrow> string \<Rightarrow> (string \<times> node) list \<Rightarrow>
    (string \<times> node) list \<times> bool" where
  "each_entry f p [] = ([], True)"
| "each_entry f p ((name, x) # xs) = (case f (below p name) x of (x', ok) \<Rightarrow>
     if \<not> ok then ((name, x') # xs, False)
     else case each_entry f p xs of (xs', ok') \<Rightarrow> ((name, x') # xs', ok'))"

fun weight :: "node \<Rightarrow> nat" where
  "weight (Directory m cs) = Suc (sum_list (map (\<lambda>(_, x). Suc (weight x)) cs))"
| "weight _ = 0"

definition weights :: "(string \<times> node) list \<Rightarrow> nat" where
  "weights cs = sum_list (map (\<lambda>(_, x). Suc (weight x)) cs)"

lemma weights_simps [simp]: "weights [] = 0" "weights ((n, x) # cs) = Suc (weight x) + weights cs"
  by (simp_all add: weights_def)

lemma each_entry_weights:
  "(\<And>p x. weight (fst (f p x)) = weight x) \<Longrightarrow> weights (fst (each_entry f p cs)) = weights cs"
proof (induction f p cs rule: each_entry.induct)
  case (2 f p name x xs)
  obtain x' ok where x: "f (below p name) x = (x', ok)" by (cases "f (below p name) x")
  then have "weight x' = weight x" using 2(2) by (metis fst_conv)
  then show ?case using 2(1) [OF x [symmetric]] 2(2) x by (cases ok) (auto split: prod.splits)
qed simp

lemma fix_weight: "weight (fst (fix_ignored ig p x)) = weight x" "weight (fst (fix_file ig p x)) = weight x"
  by (auto simp: fix_ignored_def fix_file_def split: node.splits prod.splits)

text \<open>The walk: the directory, its ignored directories, its files, then its other directories in order.\<close>

function normalize_node :: "ignored \<Rightarrow> string \<Rightarrow> node \<Rightarrow> node \<times> bool"
and normalize_entries :: "ignored \<Rightarrow> string \<Rightarrow> (string \<times> node) list \<Rightarrow> (string \<times> node) list \<times> bool" where
  "normalize_node ig p (Directory m cs) =
     (if \<not> mta_opens m then (Directory m cs, False)
      else case chmod (target_directory_mode (inside_ignored ig p)) m of (m1, ok1) \<Rightarrow>
        if \<not> ok1 then (Directory m1 cs, False)
        else let r2 = each_entry (fix_ignored ig) p cs in
          if \<not> snd r2 then (Directory m1 (fst r2), False)
          else let r3 = each_entry (fix_file ig) p (fst r2) in
            if \<not> snd r3 then (Directory m1 (fst r3), False)
            else case normalize_entries ig p (fst r3) of (cs4, ok4) \<Rightarrow> (Directory m1 cs4, ok4))"
| "normalize_node ig p (Link_directory opens) = (Link_directory opens, opens)"
| "normalize_node ig p (Regular m) = (Regular m, True)"
| "normalize_node ig p Link_file = (Link_file, True)"
| "normalize_node ig p Special = (Special, True)"
| "normalize_entries ig p [] = ([], True)"
| "normalize_entries ig p ((name, x) # xs) =
     (case (if ignored_directory ig (below p name) then (x, True) else normalize_node ig (below p name) x) of (x', ok) \<Rightarrow>
       if \<not> ok then ((name, x') # xs, False)
       else case normalize_entries ig p xs of (xs', ok') \<Rightarrow> ((name, x') # xs', ok'))"
  by pat_completeness auto
termination
  by (relation "measure (\<lambda>y. case y of Inl (ig, p, x) \<Rightarrow> weight x | Inr (ig, p, cs) \<Rightarrow> weights cs)")
    (simp_all add: each_entry_weights [OF fix_weight(1)] each_entry_weights [OF fix_weight(2)] weights_def [symmetric])

text \<open>\<open>normalize_workspace\<close>: every failure is the one policy error.\<close>

definition normalize_workspace :: "ignored \<Rightarrow> node \<Rightarrow> node \<times> bool" where
  "normalize_workspace ig tree = normalize_node ig [] tree"

section \<open>Classification and the hook\<close>

definition NUL :: char where
  "NUL = CHR 0x00"

definition classified_paths :: "string \<Rightarrow> string \<Rightarrow> ignored" where
  "classified_paths files directories = \<lparr>ign_files = filter (\<lambda>s. s \<noteq> []) (split_char NUL files),
     ign_directories = filter (ends_with ''/'') (split_char NUL directories)\<rparr>"

text \<open>\<open>classify_ignored_paths\<close>: an output of git is missing when git cannot answer.\<close>

definition classify_ignored_paths :: "string option \<Rightarrow> string option \<Rightarrow> ignored option" where
  "classify_ignored_paths files directories = (case (files, directories) of
       (Some f, Some d) \<Rightarrow> Some (classified_paths f d) | _ \<Rightarrow> None)"

definition normalize_workspace_path :: "string option \<Rightarrow> string option \<Rightarrow> node \<Rightarrow> node \<times> bool" where
  "normalize_workspace_path files directories tree = (case classify_ignored_paths files directories of
       None \<Rightarrow> (tree, False) | Some ig \<Rightarrow> normalize_workspace ig tree)"

text \<open>The event on standard input names an absolute directory that is not a link.\<close>

definition working_dir :: "(nat list \<Rightarrow> bool) \<Rightarrow> string option \<Rightarrow> nat list option" where
  "working_dir usable stdin = (case stdin of None \<Rightarrow> None
     | Some raw \<Rightarrow> if strip raw = [] then None else (case loads raw of
         Some (JV_object kvs) \<Rightarrow> (case entry ''working_dir'' kvs of
             Some (JV_string ns) \<Rightarrow> if ns \<noteq> [] \<and> usable ns then Some ns else None | _ \<Rightarrow> None)
       | _ \<Rightarrow> None))"

text \<open>The exit code of the hook and what it leaves of the tree that the working directory names.\<close>

definition hook_main :: "(nat list \<Rightarrow> bool) \<Rightarrow> (nat list \<Rightarrow> string option \<times> string option \<times> node) \<Rightarrow> string option \<Rightarrow>
    nat \<times> node option" where
  "hook_main usable at_path stdin = (case working_dir usable stdin of None \<Rightarrow> (2, None)
     | Some ns \<Rightarrow> (case at_path ns of (files, directories, tree) \<Rightarrow>
         case normalize_workspace_path files directories tree of (tree', ok) \<Rightarrow>
           (if ok then 0 else 2, Some tree')))"

end
