(* ===== verification/Shared_Facts.thy ===== *)
theory Shared_Facts
  imports Shared_Policy
begin

text \<open>
  What the permission policy of a shared workspace demands of a tree, what a walk may touch, and
  that a walk that ends without an error establishes the one within the other.
\<close>

section \<open>The policy\<close>

definition is_directory :: "node \<Rightarrow> bool" where
  "is_directory x = (case x of Directory _ _ \<Rightarrow> True | Link_directory _ \<Rightarrow> True | _ \<Rightarrow> False)"

definition private_directory :: "node \<Rightarrow> bool" where
  "private_directory x = (case x of Directory m _ \<Rightarrow> mta_mode m = PRIVATE_DIRECTORY_MODE | _ \<Rightarrow> False)"

text \<open>Every node that is not inside an ignored directory has the mode of the policy, a single link, and,
  as a directory, can be walked.\<close>

function policy_settled :: "ignored \<Rightarrow> string \<Rightarrow> node \<Rightarrow> bool"
and settled_entries :: "ignored \<Rightarrow> string \<Rightarrow> (string \<times> node) list \<Rightarrow> bool" where
  "policy_settled ig p (Directory m cs) \<longleftrightarrow> mta_opens m \<and> mta_mode m = target_directory_mode (inside_ignored ig p) \<and>
     settled_entries ig p cs"
| "policy_settled ig p (Regular m) \<longleftrightarrow> mta_links m = 1 \<and>
     mta_mode m = target_file_mode (p \<in> set (ign_files ig)) (user_executable (mta_mode m))"
| "policy_settled ig p Link_file \<longleftrightarrow> True"
| "policy_settled ig p (Link_directory opens) \<longleftrightarrow> opens"
| "policy_settled ig p Special \<longleftrightarrow> False"
| "settled_entries ig p [] \<longleftrightarrow> True"
| "settled_entries ig p ((name, x) # xs) \<longleftrightarrow>
     (if ignored_directory ig (below p name) \<and> is_directory x then private_directory x
      else policy_settled ig (below p name) x) \<and> settled_entries ig p xs"
  by pat_completeness auto
termination
  by (relation "measure (\<lambda>y. case y of Inl (ig, p, x) \<Rightarrow> weight x | Inr (ig, p, cs) \<Rightarrow> weights cs)")
    (simp_all add: weights_def [symmetric])

text \<open>What a walk may not touch: the tree without the modes that it may set.\<close>

definition blank :: "meta \<Rightarrow> meta" where
  "blank m = (if mta_owned m then m\<lparr>mta_mode := 0\<rparr> else m)"

definition shell :: "node \<Rightarrow> node" where
  "shell x = (case x of Directory m cs \<Rightarrow> Directory (blank m) cs | _ \<Rightarrow> x)"

function erase :: "ignored \<Rightarrow> string \<Rightarrow> node \<Rightarrow> node"
and erase_entries :: "ignored \<Rightarrow> string \<Rightarrow> (string \<times> node) list \<Rightarrow> (string \<times> node) list" where
  "erase ig p (Directory m cs) = Directory (blank m) (erase_entries ig p cs)"
| "erase ig p (Regular m) = Regular (if mta_links m = 1 then blank m else m)"
| "erase ig p Link_file = Link_file"
| "erase ig p (Link_directory opens) = Link_directory opens"
| "erase ig p Special = Special"
| "erase_entries ig p [] = []"
| "erase_entries ig p ((name, x) # xs) = (name, if ignored_directory ig (below p name) \<and> is_directory x
     then shell x else erase ig (below p name) x) # erase_entries ig p xs"
  by pat_completeness auto
termination
  by (relation "measure (\<lambda>y. case y of Inl (ig, p, x) \<Rightarrow> weight x | Inr (ig, p, cs) \<Rightarrow> weights cs)")
    (simp_all add: weights_def [symmetric])

section \<open>Steps\<close>

lemma executable_target [simp]: "user_executable (target_file_mode i e) = e"
  by (simp add: target_file_mode_def user_executable_def PRIVATE_EXECUTABLE_MODE_def PRIVATE_FILE_MODE_def
      SHARED_EXECUTABLE_MODE_def SHARED_FILE_MODE_def)

lemma chmod_facts:
  "chmod m x = (y, ok) \<Longrightarrow> blank y = blank x \<and> mta_opens y = mta_opens x \<and> mta_links y = mta_links x \<and>
    (ok \<longrightarrow> mta_mode y = m)"
  "open_chmod m x = (y, ok) \<Longrightarrow> blank y = blank x \<and> mta_opens y = mta_opens x \<and> mta_links y = mta_links x \<and>
    (ok \<longrightarrow> mta_mode y = m)"
  by (auto simp: chmod_def open_chmod_def blank_def split: if_splits)

lemma chmod_same [simp]: "mta_mode x = m \<Longrightarrow> chmod m x = (x, True)" "mta_mode x = m \<Longrightarrow> open_chmod m x = (x, True)"
  by (simp_all add: chmod_def open_chmod_def)

lemma each_entry_ok:
  "each_entry f p cs = (cs', True) \<Longrightarrow>
    list_all2 (\<lambda>(n, x) (n', x'). n' = n \<and> f (below p n) x = (x', True)) cs cs'"
  by (induction f p cs arbitrary: cs' rule: each_entry.induct) (auto split: prod.splits if_splits)

lemma each_entry_same:
  "(\<And>n x. (n, x) \<in> set cs \<Longrightarrow> f (below p n) x = (x, True)) \<Longrightarrow> each_entry f p cs = (cs, True)"
  by (induction cs) (auto simp: case_prod_beta)

section \<open>A walk that succeeds\<close>

definition ready_entry :: "ignored \<Rightarrow> string \<Rightarrow> node \<Rightarrow> bool" where
  "ready_entry ig p x \<longleftrightarrow> (ignored_directory ig p \<and> is_directory x \<longrightarrow> private_directory x) \<and>
     (case x of Directory m cs \<Rightarrow> True | Link_directory b \<Rightarrow> True | _ \<Rightarrow> policy_settled ig p x)"

lemma fix_ignored_ready: "fix_ignored ig p x = (y, True) \<Longrightarrow> ignored_directory ig p \<and> is_directory y \<longrightarrow> private_directory y"
  by (auto simp: fix_ignored_def is_directory_def private_directory_def split: if_splits node.splits prod.splits
      dest: chmod_facts)

lemma fix_file_ready:
  "fix_file ig p x = (y, True) \<Longrightarrow> (is_directory x \<longrightarrow> y = x) \<and> is_directory y = is_directory x \<and>
    (\<not> is_directory y \<longrightarrow> policy_settled ig p y)"
  by (auto simp: fix_file_def is_directory_def split: if_splits node.splits prod.splits dest!: chmod_facts)

lemma ready_entries:
  assumes "each_entry (fix_ignored ig) p cs = (cs1, True)" "each_entry (fix_file ig) p cs1 = (cs2, True)"
  shows "\<forall>(n, x) \<in> set cs2. ready_entry ig (below p n) x"
proof -
  have one: "list_all (\<lambda>(n, x). ignored_directory ig (below p n) \<and> is_directory x \<longrightarrow> private_directory x) cs1"
    using each_entry_ok [OF assms(1)]
    by (induction cs cs1 rule: list_all2_induct) (auto dest: fix_ignored_ready)
  have "list_all (\<lambda>(n, x). ready_entry ig (below p n) x) cs2"
    using each_entry_ok [OF assms(2)] one
  proof (induction cs1 cs2 rule: list_all2_induct)
    case (Cons a as b bs)
    then show ?case
      by (auto simp: ready_entry_def is_directory_def dest!: fix_file_ready split: node.splits)
  qed simp
  then show ?thesis by (simp add: list_all_iff)
qed

lemma normalize_settles:
  "normalize_node ig p x = (y, True) \<Longrightarrow> (case x of Directory _ _ \<Rightarrow> True | Link_directory _ \<Rightarrow> True | _ \<Rightarrow> policy_settled ig p x) \<Longrightarrow>
    policy_settled ig p y"
  "normalize_entries ig p cs = (ds, True) \<Longrightarrow> \<forall>(n, x) \<in> set cs. ready_entry ig (below p n) x \<Longrightarrow>
    settled_entries ig p ds"
proof (induction ig p x and ig p cs arbitrary: y and ds rule: normalize_node_normalize_entries.induct)
  case (1 ig p m cs)
  obtain m1 ok1 where m1: "chmod (target_directory_mode (inside_ignored ig p)) m = (m1, ok1)"
    by (cases "chmod (target_directory_mode (inside_ignored ig p)) m")
  obtain cs1 ok2 where c1: "each_entry (fix_ignored ig) p cs = (cs1, ok2)" by (cases "each_entry (fix_ignored ig) p cs")
  obtain cs2 ok3 where c2: "each_entry (fix_file ig) p cs1 = (cs2, ok3)" by (cases "each_entry (fix_file ig) p cs1")
  obtain ds ok4 where d: "normalize_entries ig p cs2 = (ds, ok4)" by (cases "normalize_entries ig p cs2")
  have all: "mta_opens m" "ok1" "ok2" "ok3" "ok4" and y: "y = Directory m1 ds"
    using 1(2) m1 c1 c2 d by (auto simp: Let_def split: if_splits)
  have "settled_entries ig p ds"
    using 1(1) [OF _ m1 [symmetric] _ refl _ refl] all c1 c2 d ready_entries [of ig p cs cs1 cs2] by simp
  then show ?case using chmod_facts(1) [OF m1] all y by simp
next
  case (7 ig p name x xs)
  let ?q = "below p name"
  obtain x' ok where x: "(if ignored_directory ig ?q then (x, True) else normalize_node ig ?q x) = (x', ok)"
    by (cases "if ignored_directory ig ?q then (x, True) else normalize_node ig ?q x")
  obtain xs' ok' where xs: "normalize_entries ig p xs = (xs', ok')" by (cases "normalize_entries ig p xs")
  have ok: "ok" "ok'" and ds: "ds = (name, x') # xs'" using "7.prems"(1) x xs by (auto split: if_splits)
  have "settled_entries ig p xs'" using 7 x xs ok by auto
  moreover have "if ignored_directory ig ?q \<and> is_directory x' then private_directory x' else policy_settled ig ?q x'"
    using 7 x ok by (auto simp: ready_entry_def is_directory_def split: if_splits node.splits)
  ultimately show ?case by (simp add: ds)
qed (auto split: node.splits)

section \<open>What a walk leaves alone\<close>

lemma fix_erase:
  "(if ignored_directory ig p \<and> is_directory (fst (fix_ignored ig p x)) then shell (fst (fix_ignored ig p x))
    else erase ig p (fst (fix_ignored ig p x))) = (if ignored_directory ig p \<and> is_directory x then shell x else erase ig p x)"
  "(if ignored_directory ig p \<and> is_directory (fst (fix_file ig p x)) then shell (fst (fix_file ig p x))
    else erase ig p (fst (fix_file ig p x))) = (if ignored_directory ig p \<and> is_directory x then shell x else erase ig p x)"
  by (auto simp: fix_ignored_def fix_file_def is_directory_def shell_def split: node.splits prod.splits
      dest!: chmod_facts)

lemma each_entry_erase:
  assumes "\<And>q x. (if ignored_directory ig q \<and> is_directory (fst (f q x)) then shell (fst (f q x))
      else erase ig q (fst (f q x))) = (if ignored_directory ig q \<and> is_directory x then shell x else erase ig q x)"
  shows "erase_entries ig p (fst (each_entry f p cs)) = erase_entries ig p cs"
proof (induction cs)
  case (Cons a xs)
  obtain name x where a: "a = (name, x)" by (cases a)
  obtain x' ok where x: "f (below p name) x = (x', ok)" by (cases "f (below p name) x")
  show ?case using Cons assms [of "below p name" x] x by (auto simp: a split: prod.splits)
qed simp

lemmas phases_erase = each_entry_erase [of _ "fix_ignored _", OF fix_erase(1)]
  each_entry_erase [of _ "fix_file _", OF fix_erase(2)]

lemma normalize_erase:
  "erase ig p (fst (normalize_node ig p x)) = erase ig p x"
  "erase_entries ig p (fst (normalize_entries ig p cs)) = erase_entries ig p cs"
proof (induction ig p x and ig p cs rule: normalize_node_normalize_entries.induct)
  case (1 ig p m cs)
  obtain m1 ok1 where m1: "chmod (target_directory_mode (inside_ignored ig p)) m = (m1, ok1)"
    by (cases "chmod (target_directory_mode (inside_ignored ig p)) m")
  obtain cs1 ok2 where c1: "each_entry (fix_ignored ig) p cs = (cs1, ok2)" by (cases "each_entry (fix_ignored ig) p cs")
  obtain cs2 ok3 where c2: "each_entry (fix_file ig) p cs1 = (cs2, ok3)" by (cases "each_entry (fix_file ig) p cs1")
  obtain ds ok4 where d: "normalize_entries ig p cs2 = (ds, ok4)" by (cases "normalize_entries ig p cs2")
  have "blank m1 = blank m" using chmod_facts(1) [OF m1] by simp
  moreover have "erase_entries ig p cs1 = erase_entries ig p cs" "erase_entries ig p cs2 = erase_entries ig p cs1"
    using phases_erase(1) [of ig p cs] phases_erase(2) [of ig p cs1] c1 c2 by simp_all
  moreover have "erase_entries ig p ds = erase_entries ig p cs2" if "mta_opens m" "ok1" "ok2" "ok3"
    using 1(1) [OF _ m1 [symmetric] _ refl _ refl] that c1 c2 d by simp
  ultimately show ?case using m1 c1 c2 d by (auto simp: Let_def)
next
  case (7 ig p name x xs)
  let ?q = "below p name"
  obtain x' ok where x: "normalize_node ig ?q x = (x', ok)" by (cases "normalize_node ig ?q x")
  have "is_directory x' = is_directory x"
    using x by (cases x) (auto simp: is_directory_def Let_def split: if_splits prod.splits)
  moreover have "erase ig ?q x' = erase ig ?q x" if "\<not> ignored_directory ig ?q" using 7(1) that x by simp
  moreover have "erase_entries ig p (fst (normalize_entries ig p xs)) = erase_entries ig p xs"
    if "ignored_directory ig ?q \<or> ok"
    using 7(2) that x by (cases "ignored_directory ig ?q") auto
  ultimately show ?case using x by (auto split: prod.splits)
qed simp_all

section \<open>A policy_settled tree\<close>

lemma settled_same:
  "policy_settled ig p x \<Longrightarrow> normalize_node ig p x = (x, True)"
  "settled_entries ig p cs \<Longrightarrow> normalize_entries ig p cs = (cs, True) \<and> each_entry (fix_ignored ig) p cs = (cs, True) \<and>
    each_entry (fix_file ig) p cs = (cs, True)"
proof (induction ig p x and ig p cs rule: policy_settled_settled_entries.induct)
  case (7 ig p name x xs)
  let ?q = "below p name"
  have "fix_ignored ig ?q x = (x, True)" "fix_file ig ?q x = (x, True)"
    using 7(3) by (auto simp: fix_ignored_def fix_file_def is_directory_def private_directory_def
        split: node.splits if_splits)
  moreover have "(if ignored_directory ig ?q then (x, True) else normalize_node ig ?q x) = (x, True)"
    using 7 by (auto split: if_splits)
  ultimately show ?case using 7 by auto
qed (simp_all add: Let_def)

end
