(* ===== verification/Shared_Properties.thy ===== *)
theory Shared_Properties
  imports Shared_Facts
begin

text \<open>The guarantee of the permission policy of shared workspaces.\<close>

text \<open>C10. A walk that ends without an error has established the permission policy.  Every node outside the
  ignored directories then has its mode and a single link, ignored directories are private, and another walk
  changes nothing and needs no privilege to change modes.  However a walk ends, it has touched nothing but modes of
  directories and singly linked files of its own user: not what is inside an ignored directory, no link and no
  other user's node.\<close>

theorem workspace_normalized:
  assumes "normalize_workspace ig (Directory m cs) = (x, ok)"
  shows "erase ig [] x = erase ig [] (Directory m cs) \<and>
    (ok \<longrightarrow> policy_settled ig [] x \<and> normalize_workspace ig x = (x, True))"
proof -
  have r: "normalize_node ig [] (Directory m cs) = (x, ok)" using assms unfolding normalize_workspace_def .
  have "erase ig [] x = erase ig [] (Directory m cs)"
    using normalize_erase(1) [of ig "[]" "Directory m cs"] unfolding r fst_conv .
  moreover have "policy_settled ig [] x" if "ok"
    by (rule normalize_settles(1) [of ig "[]" "Directory m cs"]) (simp_all add: r that del: normalize_node.simps)
  ultimately show ?thesis using settled_same(1) [of ig "[]" x] by (auto simp: normalize_workspace_def)
qed

definition own :: "mode \<Rightarrow> meta" where
  "own m = \<lparr>mta_mode = m, mta_owned = True, mta_opens = True, mta_links = 1\<rparr>"

text \<open>A new source file with the mode of a temporary file, a private file, and a cache with a link in it.\<close>

definition sample_tree :: "(string \<times> node) list" where
  "sample_tree = [(''a'', Regular (own 384)), (''k'', Regular (own 432)), (''c'', Directory (own 1528) [(''l'', Special)])]"

definition sample_ignored :: ignored where
  "sample_ignored = \<lparr>ign_files = [''k''], ign_directories = [''c/'']\<rparr>"

lemma sample_walk:
  "normalize_workspace sample_ignored (Directory (own 448) sample_tree) = (Directory (own 1528)
     [(''a'', Regular (own 432)), (''k'', Regular (own 384)), (''c'', Directory (own 448) [(''l'', Special)])], True)"
  by (simp add: normalize_workspace_def sample_tree_def sample_ignored_def own_def chmod_def open_chmod_def
      fix_ignored_def fix_file_def ignored_directory_def inside_ignored_def below_def directory_path_def
      starts_with_def target_directory_mode_def target_file_mode_def user_executable_def Let_def
      SHARED_FILE_MODE_def SHARED_EXECUTABLE_MODE_def SHARED_DIRECTORY_MODE_def PRIVATE_FILE_MODE_def
      PRIVATE_EXECUTABLE_MODE_def PRIVATE_DIRECTORY_MODE_def)

theorem workspace_normalized_witness:
  "policy_settled sample_ignored [] (Directory (own 1528)
     [(''a'', Regular (own 432)), (''k'', Regular (own 384)), (''c'', Directory (own 448) [(''l'', Special)])])"
  using workspace_normalized [OF sample_walk] by blast

end
