(* ===== verification/Recorded_Calls.thy ===== *)
theory Recorded_Calls
  imports Factory_System
begin

text \<open>
  Calls to the outside that keep a record: a session has the state of the world and the log of everything
  that was asked of it, with the answers.  What a call adds to the log is a relation that composes.
\<close>

section \<open>Sessions\<close>

record ('w, 'c) recorded =
  ses_world :: 'w
  ses_log :: "'c list"

type_synonym ('w, 'c, 'a) recording = "(('w, 'c) recorded, py_error, 'a) sx"

definition looks :: "('w \<Rightarrow> 'a) \<Rightarrow> ('w, 'c, 'a) recording" where
  "looks f = reads (\<lambda>s. f (ses_world s))"

definition touches :: "('w, 'a) port \<Rightarrow> ('w, 'c, 'a) recording" where
  "touches p = (\<lambda>s. case p (ses_world s) of (r, w) \<Rightarrow> (r, s\<lparr>ses_world := w\<rparr>))"

text \<open>\<open>try: ... finally:\<close> with a clean-up that does not fail.\<close>

definition finally_do :: "('w \<Rightarrow> 'w) \<Rightarrow> ('w, 'c, 'a) recording \<Rightarrow> ('w, 'c, 'a) recording" where
  "finally_do f body = (\<lambda>s. case body s of (r, s') \<Rightarrow> (r, s'\<lparr>ses_world := f (ses_world s')\<rparr>))"

section \<open>Calls in sequence\<close>

lemma andthen_cases:
  assumes "andthen m f s = (r, s')"
  obtains e where "m s = (Inl e, s')" "r = Inl e" | a s1 where "m s = (Inr a, s1)" "f a s1 = (r, s')"
proof (cases "m s")
  case (Pair r1 s1)
  show thesis
  proof (cases r1)
    case (Inl e)
    then show thesis using that(1) [of e] assms Pair by (simp add: andthen_def)
  next
    case (Inr a)
    then show thesis using that(2) [of a s1] assms Pair by (simp add: andthen_def)
  qed
qed

lemma andthen_Inr:
  "andthen m f s = (Inr b, s') \<longleftrightarrow> (\<exists>a s1. m s = (Inr a, s1) \<and> f a s1 = (Inr b, s'))"
  by (auto simp: andthen_def split: prod.splits sum.splits)

lemma step_simps [simp]:
  "ret a s = (Inr a, s)"
  "raise e s = (Inl e, s)"
  "reads f s = (Inr (f s), s)"
  "looks g t = (Inr (g (ses_world t)), t)"
  "check b e s = (if b then Inr () else Inl e, s)"
  "or_raise x e s = (case x of None \<Rightarrow> (Inl e, s) | Some a \<Rightarrow> (Inr a, s))"
  by (simp_all add: ret_def raise_def reads_def looks_def check_def or_raise_def split: option.splits)

lemma andthen_looks [simp]: "andthen (looks g) f s = f (g (ses_world s)) s"
  by (simp add: andthen_def)

section \<open>What a call adds to the log\<close>

definition logs :: "('c \<Rightarrow> bool) \<Rightarrow> ('w, 'c) recorded \<Rightarrow> ('w, 'c) recorded \<Rightarrow> bool" where
  "logs P s s' \<longleftrightarrow> (\<exists>new. ses_log s' = ses_log s @ new \<and> list_all P new)"

interpretation logged: preorder_relation "logs P"
proof
  show "logs P s s" for s :: "('b, 'a) recorded" by (simp add: logs_def)
  show "logs P s u" if "logs P s t" "logs P t u" for s t u :: "('b, 'a) recorded"
    using that by (auto simp: logs_def)
qed

lemma keeps_looks: "keeps (logs P) (looks f)"
  by (simp add: looks_def logged.keeps_reads)

lemma keeps_touches: "keeps (logs P) (touches f)"
  by (auto simp: keeps_def logs_def touches_def split: prod.splits)

lemma keeps_finally_do: "keeps (logs P) m \<Longrightarrow> keeps (logs P) (finally_do f m)"
  by (auto simp: keeps_def logs_def finally_do_def split: prod.splits)
    (metis snd_conv)

lemma keeps_guard: "(\<not> b \<Longrightarrow> keeps (logs P) m) \<Longrightarrow> keeps (logs P) (if b then raise e else m)"
  by (simp add: logged.keeps_raise)

lemma keeps_andthen_returns:
  assumes "keeps (logs P) m" "\<And>s a s'. m s = (Inr a, s') \<Longrightarrow> Q a" "\<And>a. Q a \<Longrightarrow> keeps (logs P) (f a)"
  shows "keeps (logs P) (andthen m f)"
  unfolding keeps_def
proof
  fix s
  obtain r s' where r: "andthen m f s = (r, s')" by (cases "andthen m f s")
  from r show "logs P s (snd (andthen m f s))"
  proof (cases rule: andthen_cases)
    case (1 e)
    then show ?thesis using keepsD [OF assms(1)] r by simp
  next
    case (2 a s1)
    then have "logs P s s1" "logs P s1 s'"
      using keepsD [OF assms(1)] keepsD [OF assms(3)] assms(2) by blast+
    then show ?thesis using r logged.R_trans by (metis snd_conv)
  qed
qed

text \<open>Stage after stage: either the call ended with an error and only such entries, or the next stage runs.\<close>

lemma next_stage:
  assumes "andthen m f s = (r, s')" "\<not> (\<exists>e. r = Inl e \<and> logs P s0 s')" "keeps (logs P) m" "logs P s0 s"
  obtains a s1 where "logs P s0 s1" "m s = (Inr a, s1)" "f a s1 = (r, s')"
  using assms(1)
proof (cases rule: andthen_cases)
  case (1 e)
  then show thesis using assms(2) keepsD [OF assms(3) 1(1)] logged.R_trans [OF assms(4)] by blast
next
  case (2 a s1)
  then show thesis using that [of s1 a] keepsD [OF assms(3) 2(1)] logged.R_trans [OF assms(4)] by blast
qed

lemmas recorded_intros = logged.keeps_basic keeps_looks keeps_touches keeps_finally_do

end
