(* ===== verification/Git_Workspace.thy ===== *)
theory Git_Workspace
  imports Shared_Policy Recorded_Calls
begin

text \<open>
  The git side of a workspace: \<^verbatim>\<open>git.py\<close>, \<^verbatim>\<open>revision.py\<close> and \<^verbatim>\<open>recovery.py\<close> of \<^verbatim>\<open>integrations/workspace\<close>.  Git, the
  file system and the environment are the parameter \<open>machine\<close>; a session keeps the state of that world and
  the log of every command that was started, with its environment and its answer.
\<close>

section \<open>Commands\<close>

text \<open>A command that cannot be started or times out, or its exit code and what it printed.\<close>

datatype answer = Unrunnable | Exited int string

record command =
  cmd_directory :: string
  cmd_args :: "string list"
  cmd_env :: "(string \<times> string) list"
  cmd_answer :: answer

record 'w machine =
  mch_environ :: "string \<Rightarrow> string option"
  mch_git :: "string \<Rightarrow> string list \<Rightarrow> (string \<times> string) list \<Rightarrow> 'w \<Rightarrow> answer \<times> 'w"
  mch_expand :: "string \<Rightarrow> string"
  mch_parent :: "string \<Rightarrow> string"
  mch_is_link :: "string \<Rightarrow> 'w \<Rightarrow> bool"
  mch_exists :: "string \<Rightarrow> 'w \<Rightarrow> bool"
  mch_is_directory :: "string \<Rightarrow> 'w \<Rightarrow> bool"
  mch_make_shared :: "string \<Rightarrow> ('w, unit) port"
  mch_tree :: "string \<Rightarrow> 'w \<Rightarrow> node"
  mch_put_tree :: "string \<Rightarrow> node \<Rightarrow> 'w \<Rightarrow> 'w"
  mch_temporary :: "string \<Rightarrow> ('w, string) port"
  mch_remove :: "string \<Rightarrow> 'w \<Rightarrow> 'w"

type_synonym 'w session = "('w, command) recorded"

type_synonym ('w, 'a) git = "('w session, py_error, 'a) sx"

definition execute :: "'w machine \<Rightarrow> string \<Rightarrow> string list \<Rightarrow> (string \<times> string) list \<Rightarrow> ('w, answer) git" where
  "execute m dir args env = (\<lambda>s. case mch_git m dir args env (ses_world s) of (a, w) \<Rightarrow>
     (Inr a, s\<lparr>ses_world := w, ses_log := ses_log s @
       [\<lparr>cmd_directory = dir, cmd_args = args, cmd_env = env, cmd_answer = a\<rparr>]\<rparr>))"

section \<open>Environments\<close>

definition allowed_variables :: "string list" where
  "allowed_variables = [''PATH'', ''HOME'', ''TMPDIR'', ''TMP'', ''TEMP'', ''LANG'', ''LC_ALL'', ''SYSTEMROOT'']"

definition forwarded :: "'w machine \<Rightarrow> (string \<times> string) list" where
  "forwarded m = List.map_filter (\<lambda>k. map_option (Pair k) (mch_environ m k)) allowed_variables"

definition no_config :: "(string \<times> string) list" where
  "no_config = [(''GIT_CONFIG_GLOBAL'', ''/dev/null''), (''GIT_CONFIG_SYSTEM'', ''/dev/null'')]"

definition local_env :: "'w machine \<Rightarrow> (string \<times> string) list" where
  "local_env m = forwarded m @ [(''GIT_TERMINAL_PROMPT'', ''0''), (''GIT_ASKPASS'', '''')] @ no_config"

section \<open>Worktrees (git.py)\<close>

record git_provisioner =
  prv_source :: string
  prv_base_ref :: "string option"

text \<open>\<open>_run\<close> and \<open>_run_capture\<close>.\<close>

definition run_git :: "'w machine \<Rightarrow> string list \<Rightarrow> string \<Rightarrow> string \<Rightarrow> bool \<Rightarrow> ('w, int) git" where
  "run_git m args cwd wid allow_failure = andthen (execute m cwd args (local_env m)) (\<lambda>a. case a of
       Unrunnable \<Rightarrow> raise (WorkspaceProvisioningError wid)
     | Exited code _ \<Rightarrow> if code \<noteq> 0 \<and> \<not> allow_failure then raise (WorkspaceProvisioningError wid) else ret code)"

definition capture_git :: "'w machine \<Rightarrow> string list \<Rightarrow> string \<Rightarrow> string \<Rightarrow> ('w, string option) git" where
  "capture_git m args cwd wid = andthen (execute m cwd args (local_env m)) (\<lambda>a. case a of
       Unrunnable \<Rightarrow> raise (WorkspaceProvisioningError wid)
     | Exited code out \<Rightarrow> ret (if code \<noteq> 0 then None else Some out))"

definition require_source_checkout :: "'w machine \<Rightarrow> git_provisioner \<Rightarrow> string \<Rightarrow> ('w, unit) git" where
  "require_source_checkout m p wid = andthen (looks (mch_exists m (prv_source p @ ''/.git'')))
     (\<lambda>ok. check ok (WorkspaceProvisioningError wid))"

definition current_branch :: "'w machine \<Rightarrow> string \<Rightarrow> string \<Rightarrow> ('w, string option) git" where
  "current_branch m target wid =
     andthen (capture_git m [''rev-parse'', ''--abbrev-ref'', ''HEAD''] target wid) (\<lambda>out. ret (case out of
       None \<Rightarrow> None | Some t \<Rightarrow> if strip t = [] then None else Some (strip t)))"

definition confirm_existing :: "'w machine \<Rightarrow> string \<Rightarrow> workspace \<Rightarrow> ('w, unit) git" where
  "confirm_existing m target w = andthen (looks (mch_exists m (target @ ''/.git''))) (\<lambda>there.
     if \<not> there then raise (WorkspaceProvisioningError (ws_id w))
     else andthen (current_branch m target (ws_id w)) (\<lambda>actual.
       check (actual = Some (ws_branch w)) (WorkspaceProvisioningError (ws_id w))))"

definition branch_exists :: "'w machine \<Rightarrow> git_provisioner \<Rightarrow> string \<Rightarrow> string \<Rightarrow> ('w, bool) git" where
  "branch_exists m p branch wid =
     andthen (run_git m [''show-ref'', ''--verify'', ''--quiet'', ''refs/heads/'' @ branch] (prv_source p) wid True)
       (\<lambda>code. ret (code = 0))"

definition resolved_base :: "git_provisioner \<Rightarrow> string \<Rightarrow> ('w, string) git" where
  "resolved_base p wid = (case prv_base_ref p of None \<Rightarrow> ret ''HEAD''
     | Some b \<Rightarrow> if starts_with ''-'' b then raise (WorkspaceProvisioningError wid) else ret b)"

definition create_worktree :: "'w machine \<Rightarrow> git_provisioner \<Rightarrow> string \<Rightarrow> workspace \<Rightarrow> ('w, unit) git" where
  "create_worktree m p target w = (let branch = ws_branch w in
     if starts_with ''-'' branch \<or> CHR ''/'' \<notin> set branch then raise (WorkspaceProvisioningError (ws_id w))
     else andthen (branch_exists m p branch (ws_id w)) (\<lambda>known.
       andthen (if known then ret [''worktree'', ''add'', target, branch]
           else andthen (resolved_base p (ws_id w)) (\<lambda>base.
             ret [''worktree'', ''add'', ''-b'', branch, target, base])) (\<lambda>args.
         andthen (run_git m args (prv_source p) (ws_id w) False) (\<lambda>_. ret ()))))"

text \<open>\<open>normalize_workspace_path\<close> with the \<open>git ls-files\<close> that classifies; a failure is one error.\<close>

definition ls_files :: "'w machine \<Rightarrow> string \<Rightarrow> string list \<Rightarrow> ('w, string option) git" where
  "ls_files m top_dir args =
     andthen (execute m top_dir ([''-c'', ''safe.directory='' @ top_dir, ''ls-files''] @ args) (local_env m)) (\<lambda>a.
       ret (case a of Exited code out \<Rightarrow> if code = 0 then Some out else None | Unrunnable \<Rightarrow> None))"

definition walk_tree :: "'w machine \<Rightarrow> string \<Rightarrow> ignored \<Rightarrow> ('w, bool) git" where
  "walk_tree m top_dir ig = touches (\<lambda>w. case normalize_workspace ig (mch_tree m top_dir w) of
     (t, ok) \<Rightarrow> (Inr ok, mch_put_tree m top_dir t w))"

definition normalize_permissions :: "'w machine \<Rightarrow> string \<Rightarrow> string \<Rightarrow> ('w, unit) git" where
  "normalize_permissions m target wid =
     andthen (ls_files m target [''--others'', ''--ignored'', ''--exclude-standard'', ''-z'']) (\<lambda>files.
     andthen (or_raise files (WorkspaceProvisioningError wid)) (\<lambda>files.
     andthen (ls_files m target [''--others'', ''--ignored'', ''--exclude-standard'', ''--directory'', ''-z'']) (\<lambda>dirs.
     andthen (or_raise dirs (WorkspaceProvisioningError wid)) (\<lambda>dirs.
     andthen (walk_tree m target (classified_paths files dirs)) (\<lambda>ok.
       check ok (WorkspaceProvisioningError wid))))))"

definition prepare_worktree :: "'w machine \<Rightarrow> git_provisioner \<Rightarrow> workspace \<Rightarrow> ('w, workspace) git" where
  "prepare_worktree m p w = andthen (require_source_checkout m p (ws_id w)) (\<lambda>_.
     let target = mch_expand m (ws_path w) in
     andthen (looks (mch_is_link m target)) (\<lambda>link.
       if link then raise (WorkspaceProvisioningError (ws_id w))
       else andthen (looks (mch_exists m target)) (\<lambda>there.
         andthen (if there then ret () else
           andthen (looks (mch_exists m (mch_parent m target))) (\<lambda>parent.
           andthen (if parent then ret () else touches (mch_make_shared m (mch_parent m target))) (\<lambda>_.
             create_worktree m p target w))) (\<lambda>_.
         andthen (confirm_existing m target w) (\<lambda>_.
         andthen (normalize_permissions m target (ws_id w)) (\<lambda>_. ret w))))))"

definition repair_worktree :: "'w machine \<Rightarrow> git_provisioner \<Rightarrow> workspace \<Rightarrow> ('w, workspace) git" where
  "repair_worktree m p w = andthen (require_source_checkout m p (ws_id w)) (\<lambda>_.
     let target = mch_expand m (ws_path w) in
     andthen (looks (\<lambda>x. mch_is_link m target x \<or> \<not> mch_is_directory m target x)) (\<lambda>bad.
       if bad then raise (WorkspaceProvisioningError (ws_id w))
       else andthen (confirm_existing m target w) (\<lambda>_.
         andthen (normalize_permissions m target (ws_id w)) (\<lambda>_.
         andthen (confirm_existing m target w) (\<lambda>_. ret w)))))"

section \<open>Revision identity (revision.py)\<close>

definition index_env :: "'w machine \<Rightarrow> string \<Rightarrow> (string \<times> string) list" where
  "index_env m index = local_env m @ [(''GIT_INDEX_FILE'', index)]"

definition run_index :: "'w machine \<Rightarrow> string list \<Rightarrow> string \<Rightarrow> string \<Rightarrow> string \<Rightarrow> ('w, string) git" where
  "run_index m args cwd index wid = andthen (execute m cwd args (index_env m index)) (\<lambda>a. case a of
       Unrunnable \<Rightarrow> raise (WorkspaceRevisionError wid)
     | Exited code out \<Rightarrow> if code \<noteq> 0 then raise (WorkspaceRevisionError wid) else ret (strip out))"

definition git_fingerprint :: "'w machine \<Rightarrow> workspace \<Rightarrow> ('w, string) git" where
  "git_fingerprint m w = (let top_dir = mch_expand m (ws_path w) in
     andthen (looks (\<lambda>x. mch_is_directory m top_dir x \<and> mch_exists m (top_dir @ ''/.git'') x)) (\<lambda>ok.
       if \<not> ok then raise (WorkspaceRevisionError (ws_id w))
       else andthen (touches (mch_temporary m ''factory-index-'')) (\<lambda>index.
         andthen (finally_do (mch_remove m index)
             (andthen (run_index m [''read-tree'', ''HEAD''] top_dir index (ws_id w)) (\<lambda>_.
              andthen (run_index m [''add'', ''-A''] top_dir index (ws_id w)) (\<lambda>_.
                run_index m [''write-tree''] top_dir index (ws_id w))))) (\<lambda>out.
           if out = [] then raise (WorkspaceRevisionError (ws_id w)) else ret out))))"

section \<open>Evidence of a clean workspace (recovery.py)\<close>

definition clean_capture :: "'w machine \<Rightarrow> string \<Rightarrow> string list \<Rightarrow> ('w, string option) git" where
  "clean_capture m path args = andthen (execute m path args (forwarded m)) (\<lambda>a. ret (case a of
       Exited code out \<Rightarrow> if code = 0 then Some (strip out) else None | Unrunnable \<Rightarrow> None))"

definition is_clean_unpublished :: "'w machine \<Rightarrow> workspace \<Rightarrow> string \<Rightarrow> int \<Rightarrow> ('w, bool) git" where
  "is_clean_unpublished m w base_ref timeout =
     (if timeout \<le> 0 \<or> base_ref = [] \<or> starts_with ''-'' base_ref then ret False
      else let path = mch_expand m (ws_path w) in
        andthen (looks (\<lambda>x. mch_is_link m path x \<or> \<not> mch_is_directory m path x)) (\<lambda>bad.
          if bad then ret False
          else andthen (clean_capture m path [''branch'', ''--show-current'']) (\<lambda>branch.
            andthen (clean_capture m path [''status'', ''--porcelain'', ''--untracked-files=all'']) (\<lambda>dirty.
            andthen (clean_capture m path [''rev-list'', ''--count'', ''origin/'' @ base_ref @ ''..HEAD'', ''--''])
              (\<lambda>ahead. ret (branch = Some (ws_branch w) \<and> dirty = Some [] \<and> ahead = Some ''0''))))))"

end
