(* ===== verification/Git_Publish.thy ===== *)
theory Git_Publish
  imports Git_Workspace
begin

text \<open>
  \<^verbatim>\<open>git_publish.py\<close>: the one push of a validated workspace.  \<open>urlsplit\<close> is a parameter; the inspector of
  revisions is the default one of \<^verbatim>\<open>revision.py\<close>, which \<^verbatim>\<open>__main__.py\<close> uses.
\<close>

section \<open>The publisher\<close>

record git_publisher =
  pbl_remote :: string
  pbl_token :: "string option"
  pbl_username :: string
  pbl_host :: string

definition unsafe_username_char :: "char \<Rightarrow> bool" where
  "unsafe_username_char c \<longleftrightarrow> is_space c \<or> code_point c < 32 \<or> code_point c = 127 \<or> c = CHR '':''"

definition make_publisher :: "string \<Rightarrow> string option \<Rightarrow> string \<Rightarrow> string \<Rightarrow> (py_error, git_publisher) outcome" where
  "make_publisher remote token username host =
     (if username = [] \<or> list_ex unsafe_username_char username
      then Inl (ValueError ''write_username contains unsafe characters'')
      else Inr \<lparr>pbl_remote = remote, pbl_token = token, pbl_username = username,
        pbl_host = rstrip_char (CHR ''.'') (lower (strip host))\<rparr>)"

definition push_protected_branches :: "string list" where
  "push_protected_branches = [''main'', ''master'']"

definition commit_message_for :: "factory_task \<Rightarrow> string" where
  "commit_message_for t = ''factory: implement task '' @ task_id t"

abbreviation publication_error :: py_error where
  "publication_error \<equiv> OtherError ''PublicationError''"

definition validated_of :: "agent_run \<Rightarrow> string" where
  "validated_of r = (case run_validated_revision r of None \<Rightarrow> [] | Some v \<Rightarrow> strip v)"

section \<open>Destinations\<close>

text \<open>\<open>str.splitlines\<close>.\<close>

definition line_break :: "char \<Rightarrow> bool" where
  "line_break c \<longleftrightarrow> code_point c \<in> {10, 11, 12, 13, 28, 29, 30, 133}"

fun splitlines :: "string \<Rightarrow> string list" where
  "splitlines [] = []"
| "splitlines (c # s) =
     (if line_break c
      then [] # splitlines (if code_point c = 13 \<and> s \<noteq> [] \<and> code_point (hd s) = 10 then tl s else s)
      else case splitlines s of [] \<Rightarrow> [[c]] | l # ls \<Rightarrow> (c # l) # ls)"

text \<open>The text before the first \<^verbatim>\<open>://\<close>, when there is one.\<close>

fun scheme_of :: "string \<Rightarrow> string option" where
  "scheme_of [] = None"
| "scheme_of (c # s) = (if starts_with ''://'' (c # s) then Some [] else map_option (Cons c) (scheme_of s))"

definition is_alpha :: "char \<Rightarrow> bool" where
  "is_alpha c \<longleftrightarrow> is_lower c \<or> is_upper c \<or>
     code_point c \<in> {170, 181, 186} \<or> 192 \<le> code_point c \<and> code_point c \<notin> {215, 247}"

definition is_local_path :: "string \<Rightarrow> bool" where
  "is_local_path url \<longleftrightarrow> starts_with ''file://'' (lower url) \<or>
     list_ex (\<lambda>p. starts_with p url) [''/'', ''./'', ''../'', ''~''] \<or>
     2 \<le> length url \<and> url ! 1 = CHR '':'' \<and> is_alpha (url ! 0) \<or>
     scheme_of url = None \<and> CHR '':'' \<notin> set url"

definition allowed_url :: "string \<Rightarrow> factory_task \<Rightarrow> url_parts \<Rightarrow> bool" where
  "allowed_url host t u \<longleftrightarrow> lower (url_scheme u) = ''https'' \<and>
     CHR ''@'' \<notin> set (url_netloc u) \<and> url_user u = None \<and> url_password u = None \<and> url_port u = Inr None \<and>
     rstrip_char (CHR ''.'') (lower (case url_host u of None \<Rightarrow> [] | Some h \<Rightarrow> h)) = host \<and>
     url_query u = [] \<and> url_fragment u = [] \<and>
     url_path u \<in> {''/'' @ task_repository t, ''/'' @ task_repository t @ ''.git''}"

definition validate_network_destination :: "url_parser \<Rightarrow> git_publisher \<Rightarrow> factory_task \<Rightarrow> string \<Rightarrow> bool" where
  "validate_network_destination split p t url = (case split (map code_point url) of
       Inl _ \<Rightarrow> False | Inr u \<Rightarrow> allowed_url (pbl_host p) t u)"

section \<open>Commands of the publisher\<close>

definition publish_env :: "'w machine \<Rightarrow> (string \<times> string) list \<Rightarrow> (string \<times> string) list" where
  "publish_env m extra = forwarded m @ [(''GIT_TERMINAL_PROMPT'', ''0'')] @ no_config @ extra"

definition must_run :: "'w machine \<Rightarrow> workspace \<Rightarrow> (string \<times> string) list \<Rightarrow> string list \<Rightarrow> ('w, unit) git" where
  "must_run m w extra args = andthen (execute m (ws_path w) args (publish_env m extra)) (\<lambda>a.
     check (case a of Exited code _ \<Rightarrow> code = 0 | Unrunnable \<Rightarrow> False) publication_error)"

definition capture :: "'w machine \<Rightarrow> workspace \<Rightarrow> string list \<Rightarrow> ('w, string option) git" where
  "capture m w args = andthen (execute m (ws_path w) args (publish_env m [])) (\<lambda>a. case a of
       Unrunnable \<Rightarrow> raise publication_error
     | Exited code out \<Rightarrow> ret (if code \<noteq> 0 then None else Some out))"

definition require_branch :: "'w machine \<Rightarrow> workspace \<Rightarrow> ('w, string) git" where
  "require_branch m w = (let branch = ws_branch w in
     if branch \<in> set push_protected_branches \<or> starts_with ''-'' branch \<or> CHR ''/'' \<notin> set branch
     then raise publication_error
     else andthen (capture m w [''rev-parse'', ''--abbrev-ref'', ''HEAD'']) (\<lambda>actual.
       if map_option strip actual \<noteq> Some branch then raise publication_error else ret branch))"

definition require_isolated_workspace :: "'w machine \<Rightarrow> factory_task \<Rightarrow> workspace \<Rightarrow> ('w, unit) git" where
  "require_isolated_workspace m t w = (let path = mch_expand m (ws_path w) in
     andthen (looks (\<lambda>x. mch_is_directory m path x \<and> mch_exists m (path @ ''/.git'') x)) (\<lambda>ok.
       if \<not> ok then raise publication_error
       else andthen (require_branch m w) (\<lambda>branch.
         if branch \<in> set push_protected_branches then raise publication_error
         else check (ws_repository w = task_repository t) publication_error)))"

definition current_revision :: "'w machine \<Rightarrow> workspace \<Rightarrow> ('w, string option) git" where
  "current_revision m w = on_error (andthen (git_fingerprint m w) (\<lambda>v. ret (Some v))) (\<lambda>_. ret None)"

definition tree_of :: "'w machine \<Rightarrow> string \<Rightarrow> workspace \<Rightarrow> ('w, string option) git" where
  "tree_of m sha w = andthen (capture m w [''rev-parse'', sha @ ''^{tree}'']) (\<lambda>out. ret (case out of
       None \<Rightarrow> None | Some t \<Rightarrow> if t = [] then None else Some (strip t)))"

definition has_changes :: "'w machine \<Rightarrow> workspace \<Rightarrow> ('w, bool) git" where
  "has_changes m w = andthen (capture m w [''status'', ''--porcelain'']) (\<lambda>out.
     ret (case out of None \<Rightarrow> False | Some t \<Rightarrow> strip t \<noteq> []))"

definition git_commit :: "'w machine \<Rightarrow> factory_task \<Rightarrow> workspace \<Rightarrow> ('w, unit) git" where
  "git_commit m t w = andthen (must_run m w [] [''add'', ''-A'']) (\<lambda>_.
     must_run m w [] [''-c'', ''core.hooksPath=/dev/null'', ''-c'', ''user.name=ai-factory-lab'',
       ''-c'', ''user.email=factory@localhost'', ''commit'', ''-m'', commit_message_for t])"

definition commit_if_needed :: "'w machine \<Rightarrow> factory_task \<Rightarrow> workspace \<Rightarrow> ('w, string) git" where
  "commit_if_needed m t w = andthen (has_changes m w) (\<lambda>changed.
     andthen (if changed then git_commit m t w else ret ()) (\<lambda>_.
     andthen (capture m w [''rev-parse'', ''HEAD'']) (\<lambda>sha.
     andthen (or_raise sha publication_error) (\<lambda>sha.
     andthen (capture m w [''log'', ''-1'', ''--format=%s'']) (\<lambda>subject.
       if map_option strip subject \<noteq> Some (commit_message_for t)
       then raise (RevisionNotPublishableError (ws_id w)) else ret (strip sha))))))"

section \<open>The push\<close>

definition effective_push_urls :: "'w machine \<Rightarrow> git_publisher \<Rightarrow> workspace \<Rightarrow> ('w, string list) git" where
  "effective_push_urls m p w =
     andthen (capture m w [''remote'', ''get-url'', ''--push'', ''--all'', pbl_remote p]) (\<lambda>out.
     andthen (or_raise out publication_error) (\<lambda>out.
       let urls = filter (\<lambda>l. l \<noteq> []) (map strip (splitlines out)) in
       if urls = [] then raise publication_error else ret urls))"

definition refspec_of :: "string \<Rightarrow> string \<Rightarrow> string" where
  "refspec_of sha branch = sha @ '':refs/heads/'' @ branch"

definition push_local :: "'w machine \<Rightarrow> git_publisher \<Rightarrow> workspace \<Rightarrow> string \<Rightarrow> ('w, unit) git" where
  "push_local m p w refspec =
     must_run m w [] [''-c'', ''core.hooksPath=/dev/null'', ''push'', pbl_remote p, refspec]"

definition push_with_token :: "'w machine \<Rightarrow> git_publisher \<Rightarrow> workspace \<Rightarrow> string \<Rightarrow> ('w, unit) git" where
  "push_with_token m p w refspec = andthen (touches (mch_temporary m ''factory-askpass-'')) (\<lambda>askpass.
     finally_do (mch_remove m askpass) (must_run m w
       [(''GIT_ASKPASS'', askpass), (''GIT_FACTORY_USERNAME'', pbl_username p),
        (''GIT_FACTORY_PASSWORD'', case pbl_token p of None \<Rightarrow> [] | Some k \<Rightarrow> k)]
       [''-c'', ''core.hooksPath=/dev/null'', ''-c'', ''credential.helper='', ''push'', pbl_remote p, refspec]))"

definition push :: "'w machine \<Rightarrow> url_parser \<Rightarrow> git_publisher \<Rightarrow> factory_task \<Rightarrow> workspace \<Rightarrow> string \<Rightarrow> ('w, unit) git" where
  "push m split p t w sha = (let branch = ws_branch w in
     if branch \<in> set push_protected_branches \<or> starts_with ''+'' branch then raise publication_error
     else andthen (effective_push_urls m p w) (\<lambda>urls.
       if list_all is_local_path urls then push_local m p w (refspec_of sha branch)
       else if length urls \<noteq> 1 then raise (UnsafeRemoteError (ws_id w))
       else if \<not> validate_network_destination split p t (hd urls) then raise (UnsafeRemoteError (ws_id w))
       else if pbl_token p = None then raise publication_error
       else push_with_token m p w (refspec_of sha branch)))"

definition git_publish :: "'w machine \<Rightarrow> url_parser \<Rightarrow> git_publisher \<Rightarrow> factory_task \<Rightarrow> agent_run \<Rightarrow>
    ('w, published_revision) git" where
  "git_publish m split p t run = (case run_workspace run of
       None \<Rightarrow> raise publication_error
     | Some w \<Rightarrow> andthen (require_isolated_workspace m t w) (\<lambda>_.
         let validated = validated_of run in
         if validated = [] then raise (ValidatedRevisionMissingError (task_id t) (run_id run))
         else andthen (current_revision m w) (\<lambda>now.
           if now \<noteq> Some validated then raise (ValidatedRevisionMismatchError (ws_id w))
           else andthen (commit_if_needed m t w) (\<lambda>sha.
             andthen (tree_of m sha w) (\<lambda>tree.
               if tree \<noteq> Some validated then raise (ValidatedRevisionMismatchError (ws_id w))
               else andthen (push m split p t w sha) (\<lambda>_.
                 from_outcome (check_published_revision
                   \<lparr>rev_commit_sha = sha, rev_branch = ws_branch w\<rparr>)))))))"

end
