(* ===== verification/Git_Facts.thy ===== *)
theory Git_Facts
  imports Git_Publish Shared_Facts
begin

text \<open>
  Sessions with git: what a call adds to the log, for the worktrees, the revision inspector and the publisher.
\<close>

section \<open>What a call adds to the log\<close>

lemma keeps_execute:
  "(\<And>a. P \<lparr>cmd_directory = dir, cmd_args = args, cmd_env = env, cmd_answer = a\<rparr>) \<Longrightarrow>
    keeps (logs P) (execute m dir args env)"
  by (auto simp: keeps_def logs_def execute_def split: prod.splits)

lemma keeps_answer:
  "keeps R m1 \<Longrightarrow> (\<And>code out. keeps R (m2 code out)) \<Longrightarrow>
    keeps R (case a of Unrunnable \<Rightarrow> m1 | Exited code out \<Rightarrow> m2 code out)"
  by (simp split: answer.splits)

lemmas git_intros = recorded_intros keeps_answer

section \<open>Worktrees\<close>

definition no_option :: "string \<Rightarrow> bool" where
  "no_option s \<longleftrightarrow> \<not> starts_with ''-'' s"

text \<open>The revision a new branch starts from: the configured one or \<open>HEAD\<close>.\<close>

definition base_revision :: "git_provisioner \<Rightarrow> string" where
  "base_revision p = (case prv_base_ref p of None \<Rightarrow> ''HEAD'' | Some b \<Rightarrow> b)"

text \<open>All that preparing a workspace may ask of git: it looks at branches and ignored files and adds the one
  worktree, at the path and on the branch of the workspace, with the environment that has no credential.  The names of
  the branch and of the base revision do not start with a dash; the path is passed as it is.\<close>

definition provisioning :: "'w machine \<Rightarrow> git_provisioner \<Rightarrow> workspace \<Rightarrow> command \<Rightarrow> bool" where
  "provisioning m p w c \<longleftrightarrow> cmd_env c = local_env m \<and>
     (let target = mch_expand m (ws_path w); branch = ws_branch w in
       cmd_directory c = target \<and>
         (cmd_args c = [''rev-parse'', ''--abbrev-ref'', ''HEAD''] \<or>
          (\<exists>xs. cmd_args c = [''-c'', ''safe.directory='' @ target, ''ls-files''] @ xs)) \<or>
       cmd_directory c = prv_source p \<and> no_option branch \<and> CHR ''/'' \<in> set branch \<and>
         (cmd_args c = [''show-ref'', ''--verify'', ''--quiet'', ''refs/heads/'' @ branch] \<or>
          cmd_args c = [''worktree'', ''add'', target, branch] \<or>
          (\<exists>base. no_option base \<and> base = base_revision p \<and>
            cmd_args c = [''worktree'', ''add'', ''-b'', branch, target, base])))"

lemma confirm_provisioning: "keeps (logs (provisioning m p w)) (confirm_existing m (mch_expand m (ws_path w)) w)"
  unfolding confirm_existing_def current_branch_def capture_git_def
  by (intro git_intros keeps_execute) (simp add: provisioning_def Let_def)

lemma normalize_provisioning:
  "keeps (logs (provisioning m p w)) (normalize_permissions m (mch_expand m (ws_path w)) (ws_id w))"
  unfolding normalize_permissions_def ls_files_def walk_tree_def
  by (intro git_intros keeps_execute) (simp_all add: provisioning_def Let_def)

lemma create_provisioning:
  "keeps (logs (provisioning m p w)) (create_worktree m p (mch_expand m (ws_path w)) w)"
proof -
  let ?t = "mch_expand m (ws_path w)" and ?b = "ws_branch w"
  let ?ok = "\<lambda>args. args = [''worktree'', ''add'', ?t, ?b] \<or>
    (\<exists>base. no_option base \<and> base = base_revision p \<and> args = [''worktree'', ''add'', ''-b'', ?b, ?t, base])"
  have base: "no_option b \<and> b = base_revision p"
    if "resolved_base p (ws_id w) s = (Inr b, s')" for b and s s' :: "'a session"
    using that by (auto simp: resolved_base_def base_revision_def no_option_def starts_with_def split: option.splits if_splits)
  show ?thesis
    unfolding create_worktree_def Let_def
    apply (rule keeps_guard)
    apply (rule logged.keeps_andthen)
     apply (unfold branch_exists_def run_git_def)
     apply (intro git_intros keeps_execute)
     apply (simp add: provisioning_def Let_def no_option_def)
    apply (rule keeps_andthen_returns [where Q = ?ok])
      apply (unfold resolved_base_def)
      apply (intro git_intros)
     apply (fold resolved_base_def)
     apply (auto simp: andthen_Inr dest: base split: if_splits) []
    apply (intro git_intros keeps_execute)
    apply (auto simp: provisioning_def Let_def no_option_def)
    done
qed

lemma prepare_provisioning: "keeps (logs (provisioning m p w)) (prepare_worktree m p w)"
  unfolding prepare_worktree_def require_source_checkout_def Let_def
  by (intro git_intros create_provisioning confirm_provisioning normalize_provisioning)

lemma repair_provisioning: "keeps (logs (provisioning m p w)) (repair_worktree m p w)"
  unfolding repair_worktree_def require_source_checkout_def Let_def
  by (intro git_intros confirm_provisioning normalize_provisioning)

text \<open>The commands whose answers a successful preparation rests on.\<close>

definition asked :: "'w machine \<Rightarrow> string \<Rightarrow> string list \<Rightarrow> string \<Rightarrow> command" where
  "asked m target args out = \<lparr>cmd_directory = target, cmd_args = args, cmd_env = local_env m, cmd_answer = Exited 0 out\<rparr>"

definition ignored_query :: "string \<Rightarrow> string list \<Rightarrow> string list" where
  "ignored_query target extra = [''-c'', ''safe.directory='' @ target, ''ls-files'', ''--others'', ''--ignored'',
     ''--exclude-standard''] @ extra @ [''-z'']"

lemma executed:
  "execute m dir args env s = (r, s') \<longleftrightarrow> (\<exists>a w. mch_git m dir args env (ses_world s) = (a, w) \<and> r = Inr a \<and>
    s' = s\<lparr>ses_world := w, ses_log := ses_log s @
      [\<lparr>cmd_directory = dir, cmd_args = args, cmd_env = env, cmd_answer = a\<rparr>]\<rparr>)"
  by (auto simp: execute_def split: prod.splits)

lemma command_answered:
  assumes "andthen (execute m dir args env) f s = (Inr b, s')"
  obtains a s1 where "f a s1 = (Inr b, s')"
    "ses_log s1 = ses_log s @ [\<lparr>cmd_directory = dir, cmd_args = args, cmd_env = env, cmd_answer = a\<rparr>]"
  using assms by (auto simp: andthen_Inr executed)

lemma capture_git_Some:
  assumes "capture_git m args cwd wid s = (Inr (Some out), s')"
  shows "ses_log s' = ses_log s @ [asked m cwd args out]"
  using assms unfolding capture_git_def
  by (elim command_answered) (auto simp: asked_def split: answer.splits if_splits)

lemma confirmed:
  assumes "confirm_existing m target w s = (Inr u, s')"
  shows "\<exists>out. ses_log s' = ses_log s @ [asked m target [''rev-parse'', ''--abbrev-ref'', ''HEAD''] out] \<and>
    strip out = ws_branch w"
proof -
  obtain out where "capture_git m [''rev-parse'', ''--abbrev-ref'', ''HEAD''] target (ws_id w) s = (Inr (Some out), s')"
    "strip out = ws_branch w"
    using assms by (auto simp: confirm_existing_def current_branch_def andthen_Inr split: if_splits option.splits)
  then show ?thesis using capture_git_Some by blast
qed

lemma classified:
  assumes "ls_files m target args s = (Inr (Some out), s')"
  shows "ses_log s' = ses_log s @ [asked m target ([''-c'', ''safe.directory='' @ target, ''ls-files''] @ args) out]"
  using assms unfolding ls_files_def
  by (elim command_answered) (auto simp: asked_def split: answer.splits if_splits)

lemma walked:
  assumes "walk_tree m target ig s = (Inr True, s')" "\<And>t x. mch_tree m target (mch_put_tree m target t x) = t"
  shows "ses_log s' = ses_log s \<and>
    normalize_workspace ig (mch_tree m target (ses_world s')) = (mch_tree m target (ses_world s'), True)"
proof -
  obtain x ok where n: "normalize_workspace ig (mch_tree m target (ses_world s)) = (x, ok)" by fastforce
  then have ok: "ok" and s': "s' = s\<lparr>ses_world := mch_put_tree m target x (ses_world s)\<rparr>"
    using assms(1) by (auto simp: walk_tree_def touches_def)
  have "normalize_workspace ig x = (x, True)"
  proof (cases "mch_tree m target (ses_world s)")
    case (Directory d cs)
    have "policy_settled ig [] x"
      by (rule normalize_settles(1) [of ig "[]" "Directory d cs"])
        (use n ok Directory in \<open>simp_all add: normalize_workspace_def del: normalize_node.simps\<close>)
    then show ?thesis using settled_same(1) [of ig "[]" x] by (simp add: normalize_workspace_def)
  next
    case (Link_directory b)
    then show ?thesis using n ok by (auto simp: normalize_workspace_def)
  qed (use n ok in \<open>auto simp: normalize_workspace_def dest: sym\<close>)
  then show ?thesis using s' assms(2) by simp
qed

lemma normalized:
  assumes "normalize_permissions m target wid s = (Inr u, s')"
    "\<And>t x. mch_tree m target (mch_put_tree m target t x) = t"
  shows "\<exists>files dirs. ses_log s' = ses_log s @ [asked m target (ignored_query target []) files,
      asked m target (ignored_query target [''--directory'']) dirs] \<and>
    normalize_workspace (classified_paths files dirs) (mch_tree m target (ses_world s')) =
      (mch_tree m target (ses_world s'), True)"
proof -
  let ?q = "[''--others'', ''--ignored'', ''--exclude-standard'']"
  obtain files s1 dirs s2 where
    "ls_files m target (?q @ [''-z'']) s = (Inr (Some files), s1)"
    "ls_files m target (?q @ [''--directory'', ''-z'']) s1 = (Inr (Some dirs), s2)"
    "walk_tree m target (classified_paths files dirs) s2 = (Inr True, s')"
    using assms(1) by (auto simp: normalize_permissions_def andthen_Inr split: option.splits if_splits)
  from classified [OF this(1)] classified [OF this(2)] walked [OF this(3) assms(2)]
  show ?thesis
    by - (rule exI [of _ files], rule exI [of _ dirs], auto simp: ignored_query_def)
qed

lemma prepared:
  assumes "prepare_worktree m p w s = (Inr w', s')" "target = mch_expand m (ws_path w)"
    "\<And>t x. mch_tree m target (mch_put_tree m target t x) = t"
  shows "w' = w \<and> (\<exists>before out files dirs.
    ses_log s' = ses_log s @ before @ [asked m target [''rev-parse'', ''--abbrev-ref'', ''HEAD''] out,
      asked m target (ignored_query target []) files, asked m target (ignored_query target [''--directory'']) dirs] \<and>
    (mch_exists m target (ses_world s) \<longrightarrow> before = []) \<and> strip out = ws_branch w \<and>
    normalize_workspace (classified_paths files dirs) (mch_tree m target (ses_world s')) =
      (mch_tree m target (ses_world s'), True))"
proof -
  let ?make = "andthen (looks (mch_exists m (mch_parent m target))) (\<lambda>parent.
    andthen (if parent then ret () else touches (mch_make_shared m (mch_parent m target))) (\<lambda>_. create_worktree m p target w))"
  obtain s1 s2 u where w': "w' = w"
    and 1: "(if mch_exists m target (ses_world s) then ret () else ?make) s = (Inr (), s1)"
    and 2: "confirm_existing m target w s1 = (Inr (), s2)"
    and 3: "normalize_permissions m target (ws_id w) s2 = (Inr u, s')"
    using assms(1) unfolding prepare_worktree_def require_source_checkout_def assms(2) Let_def
    by (auto simp: andthen_Inr simp del: andthen_looks split: if_splits)
  have "keeps (logs (provisioning m p w)) ?make"
    unfolding assms(2) by (intro git_intros create_provisioning)
  then obtain before where b: "ses_log s1 = ses_log s @ before" "mch_exists m target (ses_world s) \<longrightarrow> before = []"
    using 1 by (auto simp: logs_def split: if_splits dest!: keepsD)
  from confirmed [OF 2] obtain out where o: "ses_log s2 = ses_log s1 @
    [asked m target [''rev-parse'', ''--abbrev-ref'', ''HEAD''] out]" "strip out = ws_branch w" by blast
  from normalized [OF 3 assms(3)] obtain files dirs where n:
    "ses_log s' = ses_log s2 @ [asked m target (ignored_query target []) files,
      asked m target (ignored_query target [''--directory'']) dirs]"
    "normalize_workspace (classified_paths files dirs) (mch_tree m target (ses_world s')) =
      (mch_tree m target (ses_world s'), True)" by blast
  show ?thesis
    by (rule conjI [OF w'], rule exI [of _ before], rule exI [of _ out], rule exI [of _ files], rule exI [of _ dirs])
      (use b o n in simp)
qed

section \<open>Revisions and clean workspaces\<close>

text \<open>Every command that computes a revision works on a private index.\<close>

lemma fingerprint_private_index:
  "keeps (logs (\<lambda>c. \<exists>i. (''GIT_INDEX_FILE'', i) \<in> set (cmd_env c))) (git_fingerprint m w)"
  unfolding git_fingerprint_def run_index_def Let_def
  by (intro git_intros keeps_execute) (auto simp: index_env_def)

text \<open>The evidence of a clean workspace is of exactly three answers.\<close>

lemma clean_capture_Some:
  assumes "clean_capture m path args s = (Inr (Some out), s')"
  shows "\<exists>raw. strip raw = out \<and> ses_log s' = ses_log s @
    [\<lparr>cmd_directory = path, cmd_args = args, cmd_env = forwarded m, cmd_answer = Exited 0 raw\<rparr>]"
  using assms unfolding clean_capture_def
  by (elim command_answered) (auto split: answer.splits if_splits)

lemma clean_evidence:
  assumes "is_clean_unpublished m w base timeout s = (Inr True, s')"
  shows "\<exists>b d a. map cmd_answer (drop (length (ses_log s)) (ses_log s')) = [Exited 0 b, Exited 0 d, Exited 0 a] \<and>
    strip b = ws_branch w \<and> strip d = [] \<and> strip a = ''0''"
proof -
  let ?path = "mch_expand m (ws_path w)"
  obtain s1 s2 where
    "clean_capture m ?path [''branch'', ''--show-current''] s = (Inr (Some (ws_branch w)), s1)"
    "clean_capture m ?path [''status'', ''--porcelain'', ''--untracked-files=all''] s1 = (Inr (Some []), s2)"
    "clean_capture m ?path [''rev-list'', ''--count'', ''origin/'' @ base @ ''..HEAD'', ''--''] s2 = (Inr (Some ''0''), s')"
    using assms by (auto simp: is_clean_unpublished_def andthen_Inr Let_def split: if_splits)
  from this [THEN clean_capture_Some] show ?thesis by auto
qed

section \<open>The publisher\<close>

text \<open>The subcommand of git after its \<^verbatim>\<open>-c\<close> options.\<close>

fun subcommand :: "string list \<Rightarrow> string" where
  "subcommand [] = []"
| "subcommand (x # xs) = (if x = ''-c'' then case xs of [] \<Rightarrow> [] | _ # ys \<Rightarrow> subcommand ys else x)"

definition credential_free :: "command \<Rightarrow> bool" where
  "credential_free c \<longleftrightarrow> ''GIT_FACTORY_PASSWORD'' \<notin> fst ` set (cmd_env c)"

text \<open>Commands that send nothing: they read, stage or commit in the workspace, with no credential.\<close>

definition quiet_command :: "command \<Rightarrow> bool" where
  "quiet_command c \<longleftrightarrow> credential_free c \<and> subcommand (cmd_args c) \<in>
     {''rev-parse'', ''status'', ''add'', ''commit'', ''log'', ''remote'', ''read-tree'', ''write-tree''}"

lemma forwarded_keys: "fst ` set (forwarded m) \<subseteq> set allowed_variables"
  by (auto simp: forwarded_def map_filter_def split: option.splits)

lemma no_credential:
  "''GIT_FACTORY_PASSWORD'' \<notin> fst ` set (publish_env m [])" "''GIT_FACTORY_PASSWORD'' \<notin> fst ` set (index_env m i)"
  using forwarded_keys [of m]
  by (auto simp: publish_env_def index_env_def local_env_def no_config_def allowed_variables_def)

lemma quiet_capture:
  "subcommand args \<in> {''rev-parse'', ''status'', ''add'', ''commit'', ''log'', ''remote''} \<Longrightarrow>
    keeps (logs quiet_command) (capture m w args)"
  unfolding capture_def
  by (intro git_intros keeps_execute) (simp add: quiet_command_def credential_free_def no_credential, blast)

lemma quiet_must_run:
  "subcommand args \<in> {''rev-parse'', ''status'', ''add'', ''commit'', ''log'', ''remote''} \<Longrightarrow>
    keeps (logs quiet_command) (must_run m w [] args)"
  unfolding must_run_def
  by (intro git_intros keeps_execute) (simp add: quiet_command_def credential_free_def no_credential, blast)

lemma quiet_index:
  "subcommand args \<in> {''read-tree'', ''add'', ''write-tree''} \<Longrightarrow> keeps (logs quiet_command) (run_index m args cwd i wid)"
  unfolding run_index_def
  by (intro git_intros keeps_execute) (simp add: quiet_command_def credential_free_def no_credential, blast)

lemma quiet_stages:
  "keeps (logs quiet_command) (require_isolated_workspace m t w)"
  "keeps (logs quiet_command) (current_revision m w)"
  "keeps (logs quiet_command) (commit_if_needed m t w)"
  "keeps (logs quiet_command) (tree_of m sha w)"
  "keeps (logs quiet_command) (effective_push_urls m p w)"
  unfolding require_isolated_workspace_def require_branch_def current_revision_def git_fingerprint_def
    commit_if_needed_def has_changes_def git_commit_def tree_of_def effective_push_urls_def Let_def
  by (intro git_intros quiet_capture quiet_must_run quiet_index; simp)+

definition told :: "'w machine \<Rightarrow> workspace \<Rightarrow> string list \<Rightarrow> string \<Rightarrow> command" where
  "told m w args out = \<lparr>cmd_directory = ws_path w, cmd_args = args, cmd_env = publish_env m [],
     cmd_answer = Exited 0 out\<rparr>"

lemma captured:
  assumes "capture m w args s = (Inr (Some out), s')"
  shows "ses_log s' = ses_log s @ [told m w args out]"
  using assms unfolding capture_def
  by (elim command_answered) (auto simp: told_def split: answer.splits if_splits)

lemma tree_told:
  assumes "tree_of m sha w s = (Inr (Some v), s')"
  shows "\<exists>out. ses_log s' = ses_log s @ [told m w [''rev-parse'', sha @ ''^{tree}''] out] \<and> strip out = v"
proof -
  obtain out where "capture m w [''rev-parse'', sha @ ''^{tree}''] s = (Inr (Some out), s')" "strip out = v"
    using assms by (auto simp: tree_of_def andthen_Inr split: option.splits if_splits)
  then show ?thesis using captured by blast
qed

definition destinations :: "string \<Rightarrow> string list" where
  "destinations out = filter (\<lambda>l. l \<noteq> []) (map strip (splitlines out))"

lemma urls_told:
  assumes "effective_push_urls m p w s = (Inr urls, s')"
  shows "\<exists>out. ses_log s' = ses_log s @ [told m w [''remote'', ''get-url'', ''--push'', ''--all'', pbl_remote p] out] \<and>
    urls = destinations out \<and> urls \<noteq> []"
proof -
  obtain out where "capture m w [''remote'', ''get-url'', ''--push'', ''--all'', pbl_remote p] s = (Inr (Some out), s')"
    "urls = destinations out" "urls \<noteq> []"
    using assms by (auto simp: effective_push_urls_def andthen_Inr destinations_def Let_def split: option.splits if_splits)
  then show ?thesis using captured by blast
qed

text \<open>What passes as a local destination.  The drive form is a path on Windows; elsewhere git reads it as an scp
  host with a name of one letter.\<close>

definition on_machine :: "string \<Rightarrow> bool" where
  "on_machine url \<longleftrightarrow> starts_with ''file://'' (lower url) \<or>
     (\<exists>p \<in> {''/'', ''./'', ''../'', ''~''}. starts_with p url) \<or> CHR '':'' \<notin> set url"

definition drive_form :: "string \<Rightarrow> bool" where
  "drive_form url \<longleftrightarrow> (\<exists>c rest. url = c # CHR '':'' # rest \<and> is_alpha c)"

lemma scheme_needs_colon: "CHR '':'' \<notin> set url \<Longrightarrow> scheme_of url = None"
  by (induction url rule: scheme_of.induct) (auto simp: starts_with_def)

lemma local_destinations: "is_local_path url \<longleftrightarrow> on_machine url \<or> drive_form url"
proof -
  have "2 \<le> length url \<and> url ! 1 = CHR '':'' \<and> is_alpha (url ! 0) \<longleftrightarrow> drive_form url"
    by (cases url rule: remdups_adj.cases) (auto simp: drive_form_def)
  then show ?thesis by (auto simp: is_local_path_def on_machine_def scheme_needs_colon)
qed

text \<open>The one command that may leave the machine: what it sends, to where, and with which credential.\<close>

definition pinned_push :: "'w machine \<Rightarrow> url_parser \<Rightarrow> git_publisher \<Rightarrow> factory_task \<Rightarrow> workspace \<Rightarrow> string \<Rightarrow>
    string list \<Rightarrow> command \<Rightarrow> bool" where
  "pinned_push m split p t w sha urls c \<longleftrightarrow>
     cmd_directory c = ws_path w \<and> ws_branch w \<notin> {''main'', ''master''} \<and> urls \<noteq> [] \<and>
     (let refspec = sha @ '':refs/heads/'' @ ws_branch w in
      if \<forall>url \<in> set urls. on_machine url \<or> drive_form url
      then cmd_env c = publish_env m [] \<and>
        cmd_args c = [''-c'', ''core.hooksPath=/dev/null'', ''push'', pbl_remote p, refspec]
      else (\<exists>url key askpass. urls = [url] \<and> pbl_token p = Some key \<and>
        validate_network_destination split p t url \<and>
        cmd_env c = publish_env m [(''GIT_ASKPASS'', askpass), (''GIT_FACTORY_USERNAME'', pbl_username p),
          (''GIT_FACTORY_PASSWORD'', key)] \<and>
        cmd_args c = [''-c'', ''core.hooksPath=/dev/null'', ''-c'', ''credential.helper='', ''push'',
          pbl_remote p, refspec]))"

lemma must_run_log:
  assumes "must_run m w extra args s = (r, s')"
  shows "\<exists>a. ses_log s' = ses_log s @ [\<lparr>cmd_directory = ws_path w, cmd_args = args, cmd_env = publish_env m extra,
      cmd_answer = a\<rparr>] \<and> (r = Inr () \<longrightarrow> (\<exists>out. a = Exited 0 out))"
  using assms unfolding must_run_def
  by (elim andthen_cases) (auto simp: executed split: answer.splits if_splits)

lemma with_token_log:
  assumes "push_with_token m p w refspec s = (r, s')" "pbl_token p = Some key"
  shows "(\<exists>e. r = Inl e \<and> ses_log s' = ses_log s) \<or> (\<exists>askpass a. ses_log s' = ses_log s @
      [\<lparr>cmd_directory = ws_path w, cmd_args = [''-c'', ''core.hooksPath=/dev/null'', ''-c'', ''credential.helper='',
          ''push'', pbl_remote p, refspec],
        cmd_env = publish_env m [(''GIT_ASKPASS'', askpass), (''GIT_FACTORY_USERNAME'', pbl_username p),
          (''GIT_FACTORY_PASSWORD'', key)], cmd_answer = a\<rparr>] \<and> (r = Inr () \<longrightarrow> (\<exists>out. a = Exited 0 out)))"
  using assms(1) unfolding push_with_token_def
proof (cases rule: andthen_cases)
  case (1 e)
  then show ?thesis by (auto simp: touches_def split: prod.splits)
next
  case (2 askpass s1)
  let ?extra = "[(''GIT_ASKPASS'', askpass), (''GIT_FACTORY_USERNAME'', pbl_username p), (''GIT_FACTORY_PASSWORD'', key)]"
  let ?args = "[''-c'', ''core.hooksPath=/dev/null'', ''-c'', ''credential.helper='', ''push'', pbl_remote p, refspec]"
  obtain s2 where s2: "must_run m w ?extra ?args s1 = (r, s2)" and s': "ses_log s' = ses_log s2"
    using 2(2) assms(2) by (auto simp: finally_do_def split: prod.splits)
  have "ses_log s1 = ses_log s" using 2(1) by (auto simp: touches_def split: prod.splits)
  then show ?thesis using must_run_log [OF s2] s' by auto
qed

lemma push_cases:
  assumes "push m split p t w sha s = (r, s')"
  shows "(\<exists>e. r = Inl e \<and> logs quiet_command s s') \<or> (\<exists>out c.
    ses_log s' = ses_log s @ [told m w [''remote'', ''get-url'', ''--push'', ''--all'', pbl_remote p] out, c] \<and>
    pinned_push m split p t w sha (destinations out) c \<and> (r = Inr () \<longrightarrow> (\<exists>text. cmd_answer c = Exited 0 text)))"
proof (cases "ws_branch w \<in> set push_protected_branches \<or> starts_with ''+'' (ws_branch w)")
  case True
  then show ?thesis using assms by (auto simp: push_def logs_def)
next
  case False
  let ?go = "\<lambda>urls. if list_all is_local_path urls then push_local m p w (refspec_of sha (ws_branch w))
    else if length urls \<noteq> 1 then raise (UnsafeRemoteError (ws_id w))
    else if \<not> validate_network_destination split p t (hd urls) then raise (UnsafeRemoteError (ws_id w))
    else if pbl_token p = None then raise publication_error
    else push_with_token m p w (refspec_of sha (ws_branch w))"
  have "andthen (effective_push_urls m p w) ?go s = (r, s')" using assms False by (simp add: push_def Let_def)
  then show ?thesis
  proof (cases rule: andthen_cases)
    case (1 e)
    then show ?thesis using keepsD [OF quiet_stages(5)] by blast
  next
    case (2 urls s1)
    have q: "logs quiet_command s s1" using keepsD [OF quiet_stages(5) 2(1)] .
    from urls_told [OF 2(1)] obtain out where out: "urls = destinations out" "urls \<noteq> []"
      "ses_log s1 = ses_log s @ [told m w [''remote'', ''get-url'', ''--push'', ''--all'', pbl_remote p] out]" by blast
    have b: "ws_branch w \<notin> {''main'', ''master''}" using False by (simp add: push_protected_branches_def)
    consider (locals) "list_all is_local_path urls" "push_local m p w (refspec_of sha (ws_branch w)) s1 = (r, s')"
      | (net) url key where "\<not> list_all is_local_path urls" "urls = [url]" "pbl_token p = Some key"
          "validate_network_destination split p t url"
          "push_with_token m p w (refspec_of sha (ws_branch w)) s1 = (r, s')"
      | (refused) e where "r = Inl e" "s' = s1"
      using 2(2) by (cases urls) (auto split: if_splits)
    then show ?thesis
    proof cases
      case locals
      from must_run_log [OF this(2) [unfolded push_local_def]] show ?thesis
        using locals(1) out b
        by (intro disjI2 exI [of _ out])
          (auto simp: pinned_push_def refspec_of_def Let_def list_all_iff local_destinations)
    next
      case net
      from with_token_log [OF net(5,3)] show ?thesis
      proof
        assume "\<exists>e. r = Inl e \<and> ses_log s' = ses_log s1"
        then show ?thesis using q by (auto simp: logs_def)
      next
        assume "\<exists>askpass a. ses_log s' = ses_log s1 @
          [\<lparr>cmd_directory = ws_path w, cmd_args = [''-c'', ''core.hooksPath=/dev/null'', ''-c'', ''credential.helper='',
              ''push'', pbl_remote p, refspec_of sha (ws_branch w)],
            cmd_env = publish_env m [(''GIT_ASKPASS'', askpass), (''GIT_FACTORY_USERNAME'', pbl_username p),
              (''GIT_FACTORY_PASSWORD'', key)], cmd_answer = a\<rparr>] \<and> (r = Inr () \<longrightarrow> (\<exists>out. a = Exited 0 out))"
        then show ?thesis using net out b
          by (intro disjI2 exI [of _ out]) (auto simp: pinned_push_def refspec_of_def Let_def list_all_iff local_destinations)
      qed
    next
      case refused
      then show ?thesis using q by blast
    qed
  qed
qed

lemma isolated:
  assumes "require_isolated_workspace m t w s = (Inr u, s')"
  shows "ws_repository w = task_repository t \<and> CHR ''/'' \<in> set (ws_branch w) \<and> \<not> starts_with ''-'' (ws_branch w)"
  using assms
  by (auto simp: require_isolated_workspace_def require_branch_def andthen_Inr Let_def split: if_splits)

lemma publish_cases:
  assumes "git_publish m split p t run s = (r, s')"
  shows "(\<exists>e. r = Inl e \<and> logs quiet_command s s') \<or> (\<exists>w before sha tree out c. run_workspace run = Some w \<and>
    ses_log s' = ses_log s @ before @ [told m w [''rev-parse'', sha @ ''^{tree}''] tree,
      told m w [''remote'', ''get-url'', ''--push'', ''--all'', pbl_remote p] out, c] \<and>
    list_all quiet_command before \<and> validated_of run \<noteq> [] \<and> strip tree = validated_of run \<and>
    ws_repository w = task_repository t \<and> pinned_push m split p t w sha (destinations out) c \<and>
    (\<forall>v. r = Inr v \<longrightarrow> v = \<lparr>rev_commit_sha = sha, rev_branch = ws_branch w\<rparr> \<and>
      (\<exists>text. cmd_answer c = Exited 0 text)))" (is "?quiet \<or> ?pushed")
proof (cases ?quiet)
  case True
  then show ?thesis by (rule disjI1)
next
  case n: False
  then obtain w where w: "run_workspace run = Some w"
    using assms by (auto simp: git_publish_def logged.R_refl split: option.splits)
  note r0 = assms [unfolded git_publish_def w option.case Let_def]
  obtain u s1 where s1: "logs quiet_command s s1" and iso: "require_isolated_workspace m t w s = (Inr u, s1)"
    and r1: "(if validated_of run = [] then raise (ValidatedRevisionMissingError (task_id t) (run_id run)) else
      andthen (current_revision m w) (\<lambda>now. if now \<noteq> Some (validated_of run)
        then raise (ValidatedRevisionMismatchError (ws_id w))
        else andthen (commit_if_needed m t w) (\<lambda>sha. andthen (tree_of m sha w) (\<lambda>tree.
          if tree \<noteq> Some (validated_of run) then raise (ValidatedRevisionMismatchError (ws_id w))
          else andthen (push m split p t w sha) (\<lambda>_. from_outcome (check_published_revision
            \<lparr>rev_commit_sha = sha, rev_branch = ws_branch w\<rparr>)))))) s1 = (r, s')"
    by (rule next_stage [OF r0 n quiet_stages(1) logged.R_refl])
  have v: "validated_of run \<noteq> []" using r1 n s1 by auto
  note r1 = r1 [unfolded if_not_P [OF v]]
  obtain now s2 where s2: "logs quiet_command s s2" and r2: "(if now \<noteq> Some (validated_of run)
      then raise (ValidatedRevisionMismatchError (ws_id w))
      else andthen (commit_if_needed m t w) (\<lambda>sha. andthen (tree_of m sha w) (\<lambda>tree.
        if tree \<noteq> Some (validated_of run) then raise (ValidatedRevisionMismatchError (ws_id w))
        else andthen (push m split p t w sha) (\<lambda>_. from_outcome (check_published_revision
          \<lparr>rev_commit_sha = sha, rev_branch = ws_branch w\<rparr>))))) s2 = (r, s')"
    by (rule next_stage [OF r1 n quiet_stages(2) s1])
  have now: "\<not> now \<noteq> Some (validated_of run)" using r2 n s2 by (auto split: if_splits)
  obtain sha s3 where s3: "logs quiet_command s s3" and r3: "andthen (tree_of m sha w) (\<lambda>tree.
      if tree \<noteq> Some (validated_of run) then raise (ValidatedRevisionMismatchError (ws_id w))
      else andthen (push m split p t w sha) (\<lambda>_. from_outcome (check_published_revision
        \<lparr>rev_commit_sha = sha, rev_branch = ws_branch w\<rparr>))) s3 = (r, s')"
    by (rule next_stage [OF r2 [unfolded if_not_P [OF now]] n quiet_stages(3) s2])
  obtain tree s4 where s4: "logs quiet_command s s4" and tr: "tree_of m sha w s3 = (Inr tree, s4)"
    and r4: "(if tree \<noteq> Some (validated_of run) then raise (ValidatedRevisionMismatchError (ws_id w))
      else andthen (push m split p t w sha) (\<lambda>_. from_outcome (check_published_revision
        \<lparr>rev_commit_sha = sha, rev_branch = ws_branch w\<rparr>))) s4 = (r, s')"
    by (rule next_stage [OF r3 n quiet_stages(4) s3])
  have tree: "\<not> tree \<noteq> Some (validated_of run)" using r4 n s4 by (auto split: if_splits)
  then obtain answer where told: "ses_log s4 = ses_log s3 @ [told m w [''rev-parse'', sha @ ''^{tree}''] answer]"
    "strip answer = validated_of run" using tree_told [of m sha w s3 "validated_of run" s4] tr by auto
  obtain before where b: "ses_log s3 = ses_log s @ before" "list_all quiet_command before" using s3 by (auto simp: logs_def)
  obtain r5 s5 where p: "push m split p t w sha s4 = (r5, s5)" by fastforce
  have r5: "s' = s5 \<and> (case r5 of Inl e \<Rightarrow> r = Inl e
      | Inr _ \<Rightarrow> r = check_published_revision \<lparr>rev_commit_sha = sha, rev_branch = ws_branch w\<rparr>)"
    using r4 tree p by (auto simp: andthen_def from_outcome_def split: sum.splits)
  then have "\<not> (\<exists>e. r5 = Inl e \<and> logs quiet_command s4 s5)" using n logged.R_trans [OF s4] by auto
  then obtain out c where push: "ses_log s' = ses_log s4 @
      [told m w [''remote'', ''get-url'', ''--push'', ''--all'', pbl_remote p] out, c]"
    "pinned_push m split p t w sha (destinations out) c" "r5 = Inr () \<longrightarrow> (\<exists>text. cmd_answer c = Exited 0 text)"
    using push_cases [OF p] r5 by blast
  have "\<forall>v. r = Inr v \<longrightarrow> v = \<lparr>rev_commit_sha = sha, rev_branch = ws_branch w\<rparr> \<and> (\<exists>text. cmd_answer c = Exited 0 text)"
    using r5 push(3) by (auto simp: check_published_revision_def split: sum.splits if_splits)
  then have ?pushed
    using w b told push(1,2) v isolated [OF iso] by auto
  then show ?thesis by (rule disjI2)
qed

text \<open>A network destination by \<open>scp\<close> syntax with a host of one letter counts as a path of a drive.\<close>

lemma one_letter_host_is_local: "is_local_path ''g:owner/repository.git''"
  by code_simp

end
