(* ===== verification/Git_Properties.thy ===== *)
theory Git_Properties
  imports Git_Facts Sample_Data Publication_Facts
begin

text \<open>The guarantees of the git side of a workspace.\<close>


text \<open>So this publisher is one that the publication service may rely on.\<close>

lemma git_publisher_contract:
  assumes "pub_publish p = git_publish m split g"
  shows "publisher_contract p"
  unfolding publisher_contract_def assms
proof (intro allI impI)
  fix t run x revision x'
  assume "git_publish m split g t run x = (Inr revision, x')"
  from publish_cases [OF this] show "Some (rev_branch revision) = map_option ws_branch (run_workspace run)" by auto
qed

text \<open>A world that answers from a script, and whose file system holds one tree.\<close>

definition scripted :: "(answer list \<times> node) machine" where
  "scripted = \<lparr>mch_environ = \<lambda>_. None,
     mch_git = \<lambda>_ _ _ w. (case w of (a # as, t) \<Rightarrow> (a, as, t) | ([], t) \<Rightarrow> (Unrunnable, [], t)),
     mch_expand = \<lambda>p. p, mch_parent = \<lambda>p. p, mch_is_link = \<lambda>_ _. False, mch_exists = \<lambda>p _. p \<noteq> ''/w'',
     mch_is_directory = \<lambda>_ _. True, mch_make_shared = \<lambda>_ w. (Inr (), w), mch_tree = \<lambda>_. snd,
     mch_put_tree = \<lambda>_ t w. (fst w, t), mch_temporary = \<lambda>_ w. (Inr ''/tmp/x'', w), mch_remove = \<lambda>_ w. w\<rparr>"

definition sample_place :: workspace where
  "sample_place = sample_workspace\<lparr>ws_path := ''/w'', ws_branch := ''f/a'', ws_repository := ''o/r''\<rparr>"








section \<open>Worktrees\<close>

text \<open>C9. Preparing a workspace asks git for nothing but to look at branches and ignored files and to add the one
  worktree, at the path and on the branch of the workspace; the names of the branch and of the base revision cannot
  be read as options.  When it succeeds,
  git has confirmed after all of this that the worktree is on exactly that branch, a workspace that existed
  was reused without adding anything, and the permission policy holds: another walk of the tree with git's
  classification changes nothing.  This supposes that the tree read back is the tree the walk left.\<close>

theorem workspace_prepared:
  assumes "prepare_worktree m p w s = (r, s')" "target = mch_expand m (ws_path w)"
    and "\<And>t x. mch_tree m target (mch_put_tree m target t x) = t"
  shows "logs (provisioning m p w) s s' \<and>
    (\<forall>w'. r = Inr w' \<longrightarrow> w' = w \<and> (\<exists>before out files dirs.
      ses_log s' = ses_log s @ before @ [asked m target [''rev-parse'', ''--abbrev-ref'', ''HEAD''] out,
        asked m target (ignored_query target []) files, asked m target (ignored_query target [''--directory'']) dirs] \<and>
      (mch_exists m target (ses_world s) \<longrightarrow> before = []) \<and> strip out = ws_branch w \<and>
      normalize_workspace (classified_paths files dirs) (mch_tree m target (ses_world s')) =
        (mch_tree m target (ses_world s'), True)))"
  using keepsD [OF prepare_provisioning assms(1)] prepared [of m p w s _ s' target] assms by blast

definition source_checkout :: git_provisioner where
  "source_checkout = \<lparr>prv_source = ''/s'', prv_base_ref = None\<rparr>"

definition worktree_script :: "answer list" where
  "worktree_script = [Exited 1 [], Exited 0 [], Exited 0 ''f/a'', Exited 0 ''k'', Exited 0 []]"

definition sample_preparation :: "(py_error, workspace) outcome \<times> (answer list \<times> node) session" where
  "sample_preparation = prepare_worktree scripted source_checkout sample_place
     \<lparr>ses_world = (worktree_script, Directory \<lparr>mta_mode = 448, mta_owned = True, mta_opens = True, mta_links = 2\<rparr> []),
      ses_log = []\<rparr>"

lemma sample_prepared: "fst sample_preparation = Inr sample_place"
  by code_simp

theorem workspace_prepared_witness:
  "\<exists>before out files dirs. ses_log (snd sample_preparation) =
      before @ [asked scripted ''/w'' [''rev-parse'', ''--abbrev-ref'', ''HEAD''] out,
        asked scripted ''/w'' (ignored_query ''/w'' []) files, asked scripted ''/w'' (ignored_query ''/w'' [''--directory'']) dirs] \<and>
    strip out = ''f/a'' \<and> list_all (provisioning scripted source_checkout sample_place) before"
proof -
  let ?s = "\<lparr>ses_world = (worktree_script, Directory \<lparr>mta_mode = 448, mta_owned = True, mta_opens = True, mta_links = 2\<rparr> []),
      ses_log = []\<rparr>"
  have p: "prepare_worktree scripted source_checkout sample_place ?s = (Inr sample_place, snd sample_preparation)"
    using sample_prepared unfolding sample_preparation_def by (metis prod.collapse)
  have x: "mch_expand scripted (ws_path sample_place) = ''/w''" "ws_branch sample_place = ''f/a''"
    by (simp_all add: scripted_def sample_place_def)
  have "mch_tree scripted ''/w'' (mch_put_tree scripted ''/w'' t x) = t" for t x
    by (simp add: scripted_def)
  from workspace_prepared [OF p x(1) [symmetric] this] show ?thesis by (auto simp: logs_def x) blast+
qed

end
