(* ===== verification/Github_Client.thy ===== *)
theory Github_Client
  imports Configuration Recorded_Calls
begin

text \<open>
  The provider of issues and pull requests as its clients see it (\<^verbatim>\<open>client.py\<close>, \<^verbatim>\<open>write_client.py\<close> of
  \<^verbatim>\<open>integrations/github\<close>): a request has a verb, a path, a query and perhaps a body, and is answered by a JSON
  value or a fault.  The HTTP exchange itself is the parameter \<open>provider\<close>; every request is logged.
\<close>

section \<open>Requests\<close>

text \<open>\<open>GitHubRequestError\<close> or \<open>GitHubWriteError\<close> with its status, \<open>GitHubAuthError\<close>, and exceptions the
  read transport does not translate: a \<open>ValueError\<close> or another one.\<close>

datatype fault = Request_fault int | Auth_fault | Value_fault | Untranslated

datatype verb = GET | POST | PATCH | DELETE

record request =
  req_verb :: verb
  req_path :: "nat list"
  req_query :: "(string \<times> string) list"
  req_body :: "jvalue option"
  req_answer :: "(fault, jvalue) outcome"

record 'w provider =
  prv_request :: "verb \<Rightarrow> nat list \<Rightarrow> (string \<times> string) list \<Rightarrow> jvalue option \<Rightarrow> 'w \<Rightarrow> (fault, jvalue) outcome \<times> 'w"
  prv_str :: "jvalue \<Rightarrow> nat list"
  prv_split :: url_parser

type_synonym ('w, 'a) exchange = "('w, request, 'a) recording"

definition ask :: "'w provider \<Rightarrow> verb \<Rightarrow> nat list \<Rightarrow> (string \<times> string) list \<Rightarrow> jvalue option \<Rightarrow>
    ('w, (fault, jvalue) outcome) exchange" where
  "ask g v path query body = (\<lambda>s. case prv_request g v path query body (ses_world s) of (a, w) \<Rightarrow>
     (Inr a, s\<lparr>ses_world := w, ses_log := ses_log s @
       [\<lparr>req_verb = v, req_path = path, req_query = query, req_body = body, req_answer = a\<rparr>]\<rparr>))"

section \<open>The read client\<close>

abbreviation auth_error :: py_error where
  "auth_error \<equiv> OtherError ''GitHubAuthError''"

definition read_error :: "fault \<Rightarrow> py_error" where
  "read_error f = (case f of Request_fault _ \<Rightarrow> ProviderRequestError | Auth_fault \<Rightarrow> auth_error
     | Value_fault \<Rightarrow> ValueError ''response'' | Untranslated \<Rightarrow> OtherError ''transport'')"

definition read_json :: "'w provider \<Rightarrow> nat list \<Rightarrow> (string \<times> string) list \<Rightarrow> ('w, jvalue) exchange" where
  "read_json g path query = andthen (ask g GET path query None) (\<lambda>r. case r of
       Inl f \<Rightarrow> raise (read_error f) | Inr v \<Rightarrow> ret v)"

section \<open>The write client\<close>

text \<open>Its base URL: no credential crosses a transport that is not encrypted.\<close>

definition secure_https :: "string \<Rightarrow> bool" where
  "secure_https url = starts_with ''https://'' (lower url)"

fun after_scheme :: "string \<Rightarrow> string option" where
  "after_scheme [] = None"
| "after_scheme (c # s) = (if starts_with ''://'' (c # s) then Some (drop 3 (c # s)) else after_scheme s)"

definition embedded_credentials :: "string \<Rightarrow> bool" where
  "embedded_credentials url = (case after_scheme url of None \<Rightarrow> False
     | Some r \<Rightarrow> CHR ''@'' \<in> set (takeWhile (\<lambda>c. c \<noteq> CHR ''/'') r))"

definition write_base :: "string \<Rightarrow> string option" where
  "write_base api_url = (let url = rstrip_char (CHR ''/'') (strip api_url) in
     if \<not> secure_https url \<or> embedded_credentials url then None else Some url)"

text \<open>\<open>_call\<close>: whatever the transport raises becomes a status, 0 when there is none.\<close>

definition write_status :: "fault \<Rightarrow> int" where
  "write_status f = (case f of Request_fault n \<Rightarrow> n | _ \<Rightarrow> 0)"

definition write_call :: "'w provider \<Rightarrow> verb \<Rightarrow> nat list \<Rightarrow> (string \<times> string) list \<Rightarrow> jvalue option \<Rightarrow>
    ('w, (int, jvalue) outcome) exchange" where
  "write_call g v path query body = andthen (ask g v path query body) (\<lambda>r. ret (case r of
       Inl f \<Rightarrow> Inl (write_status f) | Inr x \<Rightarrow> Inr x))"

section \<open>Reading a response\<close>

text \<open>\<open>item.get(key)\<close> of an object; a missing entry and a null are the same.\<close>

definition field :: "string \<Rightarrow> jvalue \<Rightarrow> jvalue" where
  "field k v = (case v of JV_object kvs \<Rightarrow> (case entry k kvs of None \<Rightarrow> JV_null | Some x \<Rightarrow> x) | _ \<Rightarrow> JV_null)"

definition has_field :: "string \<Rightarrow> jvalue \<Rightarrow> bool" where
  "has_field k v = (case v of JV_object kvs \<Rightarrow> entry k kvs \<noteq> None | _ \<Rightarrow> False)"

definition is_object :: "jvalue \<Rightarrow> bool" where
  "is_object v = (case v of JV_object _ \<Rightarrow> True | _ \<Rightarrow> False)"

definition is_text :: "jvalue \<Rightarrow> bool" where
  "is_text v = (case v of JV_string _ \<Rightarrow> True | _ \<Rightarrow> False)"

definition text_points_of :: "jvalue \<Rightarrow> nat list" where
  "text_points_of v = (case v of JV_string ns \<Rightarrow> ns | _ \<Rightarrow> [])"

definition says :: "jvalue \<Rightarrow> string \<Rightarrow> bool" where
  "says v s \<longleftrightarrow> v = JV_string (points s)"

text \<open>\<open>isinstance(x, int)\<close> holds of booleans too; a float equals the integer it denotes.\<close>

definition integer_text :: "string \<Rightarrow> bool" where
  "integer_text s = list_all (\<lambda>c. is_digit c \<or> c = CHR ''-'') s"

definition integer_of :: "string \<Rightarrow> int" where
  "integer_of s = (case signed s of (neg, t) \<Rightarrow> if neg then - int (digits_value t) else int (digits_value t))"

definition as_int :: "jvalue \<Rightarrow> int option" where
  "as_int v = (case v of JV_bool b \<Rightarrow> Some (if b then 1 else 0)
     | JV_number s \<Rightarrow> if integer_text s then Some (integer_of s) else None | _ \<Rightarrow> None)"

definition is_bool :: "jvalue \<Rightarrow> bool" where
  "is_bool v = (case v of JV_bool _ \<Rightarrow> True | _ \<Rightarrow> False)"

definition equals_int :: "jvalue \<Rightarrow> int \<Rightarrow> bool" where
  "equals_int v k = (case as_int v of Some n \<Rightarrow> n = k
     | None \<Rightarrow> (case v of JV_number s \<Rightarrow> (case float_text s of Some (Some r) \<Rightarrow> binary64 r = Some (of_int k) | _ \<Rightarrow> False)
         | _ \<Rightarrow> False))"

text \<open>\<open>splitlines\<close> of text given by its code points.\<close>

definition breaks_line :: "nat \<Rightarrow> bool" where
  "breaks_line n \<longleftrightarrow> n \<in> {10, 11, 12, 13, 28, 29, 30, 133, 8232, 8233}"

fun point_lines :: "nat list \<Rightarrow> nat list list" where
  "point_lines [] = []"
| "point_lines (c # s) =
     (if breaks_line c then [] # point_lines (if c = 13 \<and> s \<noteq> [] \<and> hd s = 10 then tl s else s)
      else case point_lines s of [] \<Rightarrow> [[c]] | l # ls \<Rightarrow> (c # l) # ls)"

end
