(* ===== verification/Github_Evidence.thy ===== *)
theory Github_Evidence
  imports Github_Client Recovery_Service Event_Store
begin

text \<open>
  \<^verbatim>\<open>delivery.py\<close> and \<^verbatim>\<open>pr_state.py\<close>: the evidence that a pull request was delivered, and the state of its review.
\<close>

section \<open>Parts of a pull request\<close>

definition repo_path :: "string \<Rightarrow> nat list" where
  "repo_path slug = points (''/repos/'' @ slug)"

definition pull_path :: "string \<Rightarrow> int \<Rightarrow> nat list" where
  "pull_path slug n = repo_path slug @ points (''/pulls/'' @ decimal_int n)"

text \<open>\<open>_repository\<close>: the text of the full name, whatever it is.\<close>

definition part_repository :: "'w provider \<Rightarrow> jvalue \<Rightarrow> nat list option" where
  "part_repository g part = (let repo = field ''repo'' part in
     if is_object repo then Some (case field ''full_name'' repo of JV_string ns \<Rightarrow> ns | v \<Rightarrow> prv_str g v) else None)"

definition current_pr_revision :: "'w provider \<Rightarrow> pull_request \<Rightarrow> ('w, string) exchange" where
  "current_pr_revision g pr = (case pr_number pr of
       None \<Rightarrow> raise (ValueError ''persisted pull request has no number'')
     | Some n \<Rightarrow> if n \<le> 0 then raise (ValueError ''persisted pull request has no number'')
         else andthen (read_json g (pull_path (pr_repository pr) n) []) (\<lambda>item.
           if \<not> is_object item \<or> \<not> equals_int (field ''number'' item) n
           then raise (ValueError ''invalid pull request response'')
           else let head = field ''head'' item; base = field ''base'' item in
             if \<not> is_object head \<or> \<not> is_object base \<or> \<not> says (field ''ref'' head) (pr_head_branch pr) \<or>
               \<not> says (field ''ref'' base) (pr_base_branch pr) \<or>
               part_repository g head \<noteq> Some (points (pr_repository pr)) \<or>
               part_repository g base \<noteq> Some (points (pr_repository pr)) \<or>
               text_points_of (field ''sha'' head) = []
             then raise (ValueError ''pull request identity mismatch'')
             else ret (text_of (text_points_of (field ''sha'' head)))))"

section \<open>The state of a review (pr_state.py)\<close>

definition review_repo :: "jvalue \<Rightarrow> nat list option" where
  "review_repo part = (case field ''full_name'' (field ''repo'' part) of JV_string ns \<Rightarrow> Some ns | _ \<Rightarrow> None)"

definition review_state :: "'w provider \<Rightarrow> pull_request \<Rightarrow> ('w, pull_request_state) exchange" where
  "review_state g pr = (case pr_number pr of
       None \<Rightarrow> raise (ValueError ''persisted pull request has no number'')
     | Some n \<Rightarrow> if n \<le> 0 then raise (ValueError ''persisted pull request has no number'')
         else andthen (read_json g (pull_path (pr_repository pr) n) []) (\<lambda>item.
           if \<not> is_object item then raise (ValueError ''invalid pull request response'')
           else let head = field ''head'' item; base = field ''base'' item; number = field ''number'' item;
               state = field ''state'' item; merged = field ''merged_at'' item in
             if \<not> equals_int number n \<or> is_bool number \<or> \<not> is_object head \<or> \<not> is_object base \<or>
               \<not> says (field ''ref'' head) (pr_head_branch pr) \<or> \<not> says (field ''ref'' base) (pr_base_branch pr) \<or>
               review_repo head \<noteq> Some (points (pr_repository pr)) \<or>
               review_repo base \<noteq> Some (points (pr_repository pr))
             then raise (ValueError ''pull request identity mismatch'')
             else if says state ''open'' \<and> merged = JV_null then ret PR_OPEN
             else if says state ''closed'' \<and> text_points_of merged \<noteq> [] then ret PR_MERGED
             else if says state ''closed'' \<and> merged = JV_null then ret PR_CLOSED
             else raise (ValueError ''ambiguous pull request state'')))"

section \<open>Required checks\<close>

text \<open>The names of the checks a branch requires; \<open>None\<close> when the answer is not understood.\<close>

definition protection_checks :: "jvalue \<Rightarrow> nat list list option" where
  "protection_checks payload = (if \<not> is_object payload then None
     else case (field ''contexts'' payload, if has_field ''checks'' payload then field ''checks'' payload else JV_array []) of
       (JV_array contexts, JV_array checks) \<Rightarrow>
         if list_all (\<lambda>c. is_object c \<and> is_text (field ''context'' c)) checks
         then Some (map text_points_of (filter is_text contexts) @ map (\<lambda>c. text_points_of (field ''context'' c)) checks)
         else None
     | _ \<Rightarrow> None)"

definition required_checks :: "'w provider \<Rightarrow> nat list \<Rightarrow> string \<Rightarrow> string list \<Rightarrow> ('w, nat list list option) exchange" where
  "required_checks g top_path branch configured = (if configured \<noteq> [] then ret (Some (map points configured))
     else andthen (ask g GET (top_path @ points (''/branches/'' @ branch @ ''/protection/required_status_checks'')) [] None)
       (\<lambda>r. case r of Inl (Request_fault n) \<Rightarrow> if n = 404 then ret (Some []) else raise (read_error (Request_fault n))
         | Inl f \<Rightarrow> raise (read_error f)
         | Inr payload \<Rightarrow> ret (protection_checks payload)))"

text \<open>What the statuses and the check runs of a commit say of each name; a later entry replaces an earlier one.\<close>

definition status_entry :: "string \<Rightarrow> jvalue \<Rightarrow> (nat list \<times> bool) option" where
  "status_entry sha row = (if is_object row \<and> says (field ''sha'' row) sha \<and> is_text (field ''context'' row)
     then Some (text_points_of (field ''context'' row), says (field ''state'' row) ''success'') else None)"

definition run_entry :: "string \<Rightarrow> jvalue \<Rightarrow> (nat list \<times> bool) option" where
  "run_entry sha row = (let i = field ''id'' row in
     if is_object row \<and> says (field ''head_sha'' row) sha \<and> (case as_int i of None \<Rightarrow> False | Some n \<Rightarrow> 0 < n) \<and>
       \<not> is_bool i \<and> is_text (field ''name'' row)
     then Some (text_points_of (field ''name'' row),
       says (field ''status'' row) ''completed'' \<and> says (field ''conclusion'' row) ''success'') else None)"

definition check_entries :: "string \<Rightarrow> jvalue list \<Rightarrow> jvalue list \<Rightarrow> (nat list \<times> bool) list" where
  "check_entries sha statuses runs =
     List.map_filter (status_entry sha) (rev statuses) @ List.map_filter (run_entry sha) runs"

definition checks_agree :: "string \<Rightarrow> nat list list \<Rightarrow> jvalue \<Rightarrow> jvalue \<Rightarrow> bool" where
  "checks_agree sha required statuses runs = (is_object statuses \<and> is_object runs \<and>
     (case (field ''statuses'' statuses, field ''check_runs'' runs, as_int (field ''total_count'' runs)) of
       (JV_array ss, JV_array rs, Some n) \<Rightarrow> n \<le> 100 \<and>
         list_all (\<lambda>name. map_of (rev (check_entries sha ss rs)) name = Some True) required
     | _ \<Rightarrow> False))"

definition checks_pass :: "'w provider \<Rightarrow> nat list \<Rightarrow> string \<Rightarrow> nat list list option \<Rightarrow> ('w, bool) exchange" where
  "checks_pass g top_path sha required = (case required of None \<Rightarrow> ret False
     | Some names \<Rightarrow> andthen (read_json g (top_path @ points (''/commits/'' @ sha @ ''/status'')) []) (\<lambda>statuses.
         andthen (read_json g (top_path @ points (''/commits/'' @ sha @ ''/check-runs'')) [(''per_page'', ''100'')]) (\<lambda>runs.
           ret (checks_agree sha names statuses runs))))"

section \<open>Deployment\<close>

definition id_text :: "jvalue \<Rightarrow> string" where
  "id_text v = (case v of JV_bool b \<Rightarrow> if b then ''True'' else ''False''
     | _ \<Rightarrow> (case as_int v of None \<Rightarrow> [] | Some n \<Rightarrow> decimal_int n))"

definition deployed_once :: "'w provider \<Rightarrow> nat list \<Rightarrow> jvalue \<Rightarrow> ('w, unit option) exchange" where
  "deployed_once g top_path d = (let i = field ''id'' d in
     if \<not> is_object d \<or> as_int i = None then ret None
     else andthen (read_json g (top_path @ points (''/deployments/'' @ id_text i @ ''/statuses'')) [(''per_page'', ''100'')])
       (\<lambda>v. ret (case v of JV_array (x # _) \<Rightarrow> if is_object x \<and> says (field ''state'' x) ''success'' then Some () else None
         | _ \<Rightarrow> None)))"

definition deployment_passed :: "'w provider \<Rightarrow> nat list \<Rightarrow> nat list \<Rightarrow> ('w, bool) exchange" where
  "deployment_passed g top_path sha =
     andthen (read_json g (top_path @ points ''/deployments'') [(''sha'', text_of sha), (''per_page'', ''100'')]) (\<lambda>v.
       case v of JV_array ds \<Rightarrow> if 100 \<le> length ds then ret False
           else andthen (first_result (deployed_once g top_path) ds) (\<lambda>r. ret (r \<noteq> None))
       | _ \<Rightarrow> ret False)"

section \<open>Evidence\<close>

definition evidence_caught :: "py_error \<Rightarrow> bool" where
  "evidence_caught e \<longleftrightarrow> e = ProviderRequestError \<or> e = auth_error \<or> is_value_error e \<or> (case e of KeyError _ \<Rightarrow> True | _ \<Rightarrow> False)"

definition evidence_of :: "bool \<Rightarrow> bool \<Rightarrow> bool \<Rightarrow> bool \<Rightarrow> delivery_evidence" where
  "evidence_of m i c d = \<lparr>dlv_merged = m, dlv_integration_verified = i, dlv_required_ci_passed = c,
     dlv_deploy_validated = d, dlv_blockers = False\<rparr>"

definition or_unverified :: "bool \<Rightarrow> ('w, delivery_evidence) exchange \<Rightarrow> ('w, delivery_evidence) exchange" where
  "or_unverified merged body = on_error body (\<lambda>e.
     if evidence_caught e then ret (evidence_of merged False False False) else raise e)"

text \<open>The facts that identify a merged pull request.\<close>

definition merged_as :: "'w provider \<Rightarrow> feedback_identity \<Rightarrow> string \<Rightarrow> jvalue \<Rightarrow> bool" where
  "merged_as g i base_ref pr = (let head = field ''head'' pr; base = field ''base'' pr in
     is_object head \<and> is_object base \<and> says (field ''sha'' head) (fid_commit_sha i) \<and>
     says (field ''ref'' head) (fid_branch i) \<and> part_repository g head = Some (points (fid_repository i)) \<and>
     part_repository g base = Some (points (fid_repository i)) \<and> says (field ''ref'' base) base_ref \<and>
     json_truthy (field ''merged'' pr) \<and> says (field ''state'' pr) ''closed'' \<and>
     is_text (field ''merged_at'' pr) \<and> is_text (field ''merge_commit_sha'' pr))"

definition merged_evidence :: "'w provider \<Rightarrow> project_profile \<Rightarrow> feedback_identity \<Rightarrow> nat list \<Rightarrow>
    ('w, delivery_evidence) exchange" where
  "merged_evidence g profile i merged_sha = (let top_path = repo_path (fid_repository i) in
     andthen (read_json g (top_path @ points ''/commits/'' @ merged_sha) []) (\<lambda>commit.
     andthen (if prof_provider_ci_required profile
         then andthen (required_checks g top_path (prof_base_ref profile) (prof_required_ci_checks profile)) (\<lambda>required.
           checks_pass g top_path (fid_commit_sha i) required)
         else ret True) (\<lambda>ci.
     andthen (if prof_deploy_required profile then deployment_passed g top_path merged_sha else ret True) (\<lambda>deployed.
       ret (evidence_of True (field ''sha'' commit = JV_string merged_sha) ci deployed)))))"

definition delivery_facts :: "'w provider \<Rightarrow> project_registry \<Rightarrow> feedback_identity \<Rightarrow> ('w, delivery_evidence) exchange" where
  "delivery_facts g reg i = or_unverified False (
     andthen (from_outcome (resolve_project reg (fid_project i) (Some (fid_repository i)))) (\<lambda>profile.
     andthen (read_json g (pull_path (fid_repository i) (fid_pr_number i)) []) (\<lambda>pr.
       if \<not> is_object pr \<or> \<not> equals_int (field ''number'' pr) (fid_pr_number i) \<or>
         \<not> merged_as g i (prof_base_ref profile) pr
       then ret (evidence_of False False False False)
       else or_unverified True (merged_evidence g profile i (text_points_of (field ''merge_commit_sha'' pr))))))"

end
