(* ===== verification/Github_Writes.thy ===== *)
theory Github_Writes
  imports Github_Client Event_Store
begin

text \<open>
  The adapters that write to the provider: \<^verbatim>\<open>pull_requests.py\<close>, \<^verbatim>\<open>issue_completion.py\<close> and
  \<^verbatim>\<open>backlog_issues.py\<close>.
\<close>

section \<open>Pull requests (pull_requests.py)\<close>

abbreviation publication_failed :: py_error where
  "publication_failed \<equiv> OtherError ''PublicationError''"

definition pr_bound_title :: "string \<Rightarrow> string" where
  "pr_bound_title title = (let cleaned = strip (filter is_printable title) in
     if cleaned = [] then ''factory pull request'' else take 200 cleaned)"

text \<open>\<open>_repo_full_name\<close>: two parts with one slash between them.\<close>

definition repo_full_name :: "jvalue \<Rightarrow> nat list option" where
  "repo_full_name repo = (case field ''full_name'' repo of
       JV_string ns \<Rightarrow> if count_list ns 47 = 1 \<and> hd ns \<noteq> 47 \<and> last ns \<noteq> 47 then Some ns else None
     | _ \<Rightarrow> None)"

text \<open>The identity a response must confirm.\<close>

definition pr_item_matches :: "jvalue \<Rightarrow> string \<Rightarrow> string \<Rightarrow> string \<Rightarrow> bool" where
  "pr_item_matches item slug head_branch base_branch \<longleftrightarrow>
     (let number = field ''number'' item; head = field ''head'' item; base = field ''base'' item in
      is_object item \<and> says (field ''state'' item) ''open'' \<and>
      \<not> is_bool number \<and> (case as_int number of None \<Rightarrow> False | Some n \<Rightarrow> 0 < n) \<and>
      is_object head \<and> says (field ''ref'' head) head_branch \<and>
      repo_full_name (field ''repo'' head) = Some (points slug) \<and>
      is_object base \<and> says (field ''ref'' base) base_branch \<and>
      (field ''repo'' base = JV_null \<or> repo_full_name (field ''repo'' base) = Some (points slug)))"

definition map_pull_request :: "int \<Rightarrow> jvalue \<Rightarrow> string \<Rightarrow> string \<Rightarrow> string \<Rightarrow> pull_request option" where
  "map_pull_request now item slug head_branch base_branch = (if \<not> pr_item_matches item slug head_branch base_branch then None
     else Some \<lparr>pr_repository = slug, pr_head_branch = head_branch, pr_base_branch = base_branch,
       pr_title = pr_bound_title (case field ''title'' item of JV_string ns \<Rightarrow> text_of ns | _ \<Rightarrow> ''factory pull request''),
       pr_body = [], pr_number = as_int (field ''number'' item),
       pr_url = (case field ''html_url'' item of JV_string ns \<Rightarrow> Some (text_of ns) | _ \<Rightarrow> None),
       pr_task_id = None, pr_run_id = None, pr_opened_at = now, pr_merged = False, pr_commit_sha = None\<rparr>)"

definition with_metadata :: "pull_request \<Rightarrow> pull_request \<Rightarrow> pull_request" where
  "with_metadata found source = \<lparr>pr_repository = pr_repository found, pr_head_branch = pr_head_branch found,
     pr_base_branch = pr_base_branch found, pr_title = pr_title found, pr_body = pr_body source,
     pr_number = pr_number found, pr_url = pr_url found, pr_task_id = pr_task_id source,
     pr_run_id = pr_run_id source, pr_opened_at = pr_opened_at source, pr_merged = False, pr_commit_sha = None\<rparr>"

fun first_some :: "('a \<Rightarrow> 'b option) \<Rightarrow> 'a list \<Rightarrow> 'b option" where
  "first_some f [] = None"
| "first_some f (x # xs) = (case f x of None \<Rightarrow> first_some f xs | Some y \<Rightarrow> Some y)"

definition owner_of :: "string \<Rightarrow> string" where
  "owner_of slug = takeWhile (\<lambda>c. c \<noteq> CHR ''/'') slug"

definition pulls_path :: "string \<Rightarrow> nat list" where
  "pulls_path slug = points (''/repos/'' @ slug @ ''/pulls'')"

definition find_open :: "'w provider \<Rightarrow> int \<Rightarrow> string \<Rightarrow> string \<Rightarrow> string \<Rightarrow> ('w, pull_request option) exchange" where
  "find_open g now slug head_branch base_branch =
     andthen (write_call g GET (pulls_path slug)
         [(''state'', ''open''), (''head'', owner_of slug @ '':'' @ head_branch)] None) (\<lambda>r. case r of
       Inl _ \<Rightarrow> raise publication_failed
     | Inr (JV_array items) \<Rightarrow> ret (first_some (\<lambda>i. map_pull_request now i slug head_branch base_branch) items)
     | Inr _ \<Rightarrow> ret None)"

definition find_open_pull_request :: "'w provider \<Rightarrow> int \<Rightarrow> repository \<Rightarrow> string \<Rightarrow> string \<Rightarrow>
    ('w, pull_request option) exchange" where
  "find_open_pull_request g now repo head_branch base_branch = (if base_branch = [] then ret None
     else find_open g now (repo_slug repo) head_branch base_branch)"

definition expected_base :: "pull_request \<Rightarrow> string" where
  "expected_base pr = (if pr_base_branch pr = [] then ''main'' else pr_base_branch pr)"

definition pr_payload :: "pull_request \<Rightarrow> jvalue" where
  "pr_payload pr = JV_object [(points ''title'', JV_string (points (pr_bound_title (pr_title pr)))),
     (points ''head'', JV_string (points (pr_head_branch pr))), (points ''base'', JV_string (points (expected_base pr))),
     (points ''body'', JV_string (points (pr_body pr)))]"

text \<open>An existing pull request of exactly this identity, or an error.\<close>

definition recovered :: "'w provider \<Rightarrow> int \<Rightarrow> pull_request \<Rightarrow> ('w, pull_request) exchange" where
  "recovered g now pr = andthen (find_open g now (pr_repository pr) (pr_head_branch pr) (expected_base pr)) (\<lambda>existing.
     case existing of None \<Rightarrow> raise publication_failed | Some e \<Rightarrow> ret (with_metadata e pr))"

definition open_pull_request :: "'w provider \<Rightarrow> int \<Rightarrow> pull_request \<Rightarrow> ('w, pull_request) exchange" where
  "open_pull_request g now pr =
     andthen (write_call g POST (pulls_path (pr_repository pr)) [] (Some (pr_payload pr))) (\<lambda>r. case r of
       Inl _ \<Rightarrow> recovered g now pr
     | Inr payload \<Rightarrow> (case map_pull_request now payload (pr_repository pr) (pr_head_branch pr) (expected_base pr) of
         Some created \<Rightarrow> ret (with_metadata created pr) | None \<Rightarrow> recovered g now pr))"

section \<open>Completing an issue (issue_completion.py)\<close>

abbreviation completion_error :: py_error where
  "completion_error \<equiv> OtherError ''IssueCompletionError''"

definition issue_path :: "string \<Rightarrow> int \<Rightarrow> nat list" where
  "issue_path slug n = points (''/repos/'' @ slug @ ''/issues/'' @ decimal_int n)"

definition comments_path :: "string \<Rightarrow> int \<Rightarrow> nat list" where
  "comments_path slug n = issue_path slug n @ points ''/comments''"

text \<open>A call of the write client, whose fault ends the completion with an error.\<close>

definition issue_call :: "'w provider \<Rightarrow> verb \<Rightarrow> nat list \<Rightarrow> (string \<times> string) list \<Rightarrow> jvalue option \<Rightarrow>
    ('w, jvalue) exchange" where
  "issue_call g v path query body = andthen (write_call g v path query body) (\<lambda>r. case r of
       Inl _ \<Rightarrow> raise completion_error | Inr x \<Rightarrow> ret x)"

definition provider_url :: "url_parts \<Rightarrow> string \<Rightarrow> int \<Rightarrow> bool" where
  "provider_url u slug n \<longleftrightarrow> url_scheme u = ''https'' \<and> url_host u = Some ''github.com'' \<and>
     url_path u = ''/'' @ slug @ ''/issues/'' @ decimal_int n \<and> url_query u = [] \<and> url_fragment u = []"

definition names_issue :: "jvalue \<Rightarrow> feedback_identity \<Rightarrow> url_parts option \<Rightarrow> bool" where
  "names_issue issue i url \<longleftrightarrow> equals_int (field ''number'' issue) (fid_issue_number i) \<and>
     \<not> has_field ''pull_request'' issue \<and>
     (case url of None \<Rightarrow> False | Some u \<Rightarrow> provider_url u (fid_repository i) (fid_issue_number i))"

definition issue_matches :: "jvalue \<Rightarrow> feedback_identity \<Rightarrow> url_parts option \<Rightarrow> bool" where
  "issue_matches issue i url \<longleftrightarrow> names_issue issue i url \<and>
     (says (field ''state'' issue) ''open'' \<or> says (field ''state'' issue) ''closed'') \<and>
     (case field ''labels'' issue of JV_array ls \<Rightarrow> list_all (\<lambda>l. is_object l \<and> is_text (field ''name'' l)) ls | _ \<Rightarrow> False)"

text \<open>Membership of a set raises a \<open>TypeError\<close> for a list or an object.\<close>

definition unhashable :: "jvalue \<Rightarrow> bool" where
  "unhashable v = (case v of JV_array _ \<Rightarrow> True | JV_object _ \<Rightarrow> True | _ \<Rightarrow> False)"

definition check_identity :: "jvalue \<Rightarrow> feedback_identity \<Rightarrow> url_parts option \<Rightarrow> ('w, unit) exchange" where
  "check_identity issue i url = (if names_issue issue i url \<and> unhashable (field ''state'' issue)
     then raise (OtherError ''TypeError'') else check (issue_matches issue i url) completion_error)"

definition check_issue :: "'w provider \<Rightarrow> jvalue \<Rightarrow> feedback_identity \<Rightarrow> ('w, unit) exchange" where
  "check_issue g issue i = (if \<not> is_object issue then raise completion_error
     else case field ''html_url'' issue of
       JV_string ns \<Rightarrow> (case prv_split g ns of Inl _ \<Rightarrow> raise (ValueError ''url'')
         | Inr u \<Rightarrow> check_identity issue i (Some u))
     | _ \<Rightarrow> check_identity issue i None)"

definition comment_page :: "'w provider \<Rightarrow> nat list \<Rightarrow> nat list \<Rightarrow> nat \<Rightarrow> ('w, bool option) exchange" where
  "comment_page g path marker page =
     andthen (issue_call g GET path [(''per_page'', ''100''), (''page'', decimal page)] None) (\<lambda>v. case v of
       JV_array cs \<Rightarrow> ret (
         if list_ex (\<lambda>c. is_object c \<and> is_text (field ''body'' c) \<and> marker \<in> set (point_lines (text_points_of (field ''body'' c)))) cs
         then Some True else if length cs < 100 then Some False else None)
     | _ \<Rightarrow> raise completion_error)"

definition has_comment :: "'w provider \<Rightarrow> nat list \<Rightarrow> string \<Rightarrow> ('w, bool) exchange" where
  "has_comment g path marker = andthen (first_result (comment_page g path (points marker)) [1..<101]) (\<lambda>r.
     or_raise r completion_error)"

definition body_of :: "string \<Rightarrow> jvalue" where
  "body_of s = JV_object [(points ''body'', JV_string (points s))]"

definition closing :: "string \<Rightarrow> jvalue" where
  "closing reason = JV_object [(points ''state'', JV_string (points ''closed'')), (points ''state_reason'', JV_string (points reason))]"

definition closed_as :: "string \<Rightarrow> jvalue \<Rightarrow> bool" where
  "closed_as reason issue \<longleftrightarrow> says (field ''state'' issue) ''closed'' \<and> says (field ''state_reason'' issue) reason"

definition label_list :: "jvalue \<Rightarrow> jvalue list" where
  "label_list issue = (case field ''labels'' issue of JV_array ls \<Rightarrow> ls | _ \<Rightarrow> [])"

definition ready_label :: "jvalue \<Rightarrow> bool" where
  "ready_label l \<longleftrightarrow> is_object l \<and> says (field ''name'' l) ''factory-ready''"

definition delivery_comment :: "feedback_identity \<Rightarrow> string" where
  "delivery_comment i = ''Factory delivery verified. Task: '' @ fid_task i @ ''; PR: #'' @ decimal_int (fid_pr_number i) @
     ''; commit: '' @ fid_commit_sha i @ ''.'' @ [char_of (10::nat)] @ ''<!-- factory-delivery:'' @ fid_task i @ '' -->''"

text \<open>Closing with a reason, and the check that it happened.\<close>

definition close_with :: "'w provider \<Rightarrow> feedback_identity \<Rightarrow> string \<Rightarrow> jvalue \<Rightarrow> ('w, unit) exchange" where
  "close_with g i reason issue = (if closed_as reason issue then ret ()
     else andthen (issue_call g PATCH (issue_path (fid_repository i) (fid_issue_number i)) [] (Some (closing reason))) (\<lambda>closed.
       andthen (check_issue g closed i) (\<lambda>_. check (closed_as reason closed) completion_error)))"

definition ensure_comment :: "'w provider \<Rightarrow> feedback_identity \<Rightarrow> string \<Rightarrow> string \<Rightarrow> ('w, unit) exchange" where
  "ensure_comment g i marker comment = (let path = comments_path (fid_repository i) (fid_issue_number i) in
     andthen (has_comment g path marker) (\<lambda>there. if there then ret ()
       else andthen (issue_call g POST path [] (Some (body_of comment))) (\<lambda>_. ret ())))"

definition complete_issue :: "'w provider \<Rightarrow> feedback_identity \<Rightarrow> ('w, unit) exchange" where
  "complete_issue g i = (let path = issue_path (fid_repository i) (fid_issue_number i) in
     andthen (issue_call g GET path [] None) (\<lambda>issue.
     andthen (check_issue g issue i) (\<lambda>_.
     andthen (ensure_comment g i (''<!-- factory-delivery:'' @ fid_task i @ '' -->'') (delivery_comment i)) (\<lambda>_.
     andthen (let remaining = map (field ''name'') (filter (\<lambda>l. \<not> ready_label l) (label_list issue)) in
         if length remaining \<noteq> length (label_list issue)
         then andthen (issue_call g PATCH path [] (Some (JV_object [(points ''labels'', JV_array remaining)]))) (\<lambda>_. ret ())
         else ret ()) (\<lambda>_.
     andthen (close_with g i ''completed'' issue) (\<lambda>_.
     andthen (issue_call g GET path [] None) (\<lambda>final.
     andthen (check_issue g final i) (\<lambda>_.
       check (closed_as ''completed'' final \<and> \<not> list_ex ready_label (label_list final)) completion_error))))))))"

definition close_issue :: "'w provider \<Rightarrow> feedback_identity \<Rightarrow> string \<Rightarrow> ('w, unit) exchange" where
  "close_issue g i reason = (if reason \<notin> {''completed'', ''not_planned'', ''duplicate''} then raise completion_error
     else let path = issue_path (fid_repository i) (fid_issue_number i);
         marker = ''<!-- factory-resolution:'' @ fid_task i @ '':'' @ reason @ '' -->'' in
       andthen (issue_call g GET path [] None) (\<lambda>issue.
       andthen (check_issue g issue i) (\<lambda>_.
         if closed_as reason issue then ret ()
         else andthen (ensure_comment g i marker (''Factory resolution: '' @ reason @ ''. '' @ marker)) (\<lambda>_.
         andthen (close_with g i reason issue) (\<lambda>_.
         andthen (issue_call g GET path [] None) (\<lambda>final.
         andthen (check_issue g final i) (\<lambda>_. check (closed_as reason final) completion_error)))))))"

text \<open>\<open>state\<close>, over either client: any exception of the read is the one error.\<close>

definition provider_issue_state :: "'w provider \<Rightarrow> string \<Rightarrow> int \<Rightarrow> ('w, string \<times> string option) exchange" where
  "provider_issue_state g slug n = andthen (issue_call g GET (issue_path slug n) [] None) (\<lambda>issue.
     let number = field ''number'' issue; state = field ''state'' issue; reason = field ''state_reason'' issue in
     if \<not> is_object issue \<or> is_bool number \<or> \<not> equals_int number n \<or> has_field ''pull_request'' issue
     then raise completion_error
     else if unhashable state \<or> says state ''closed'' \<and> unhashable reason then raise (OtherError ''TypeError'')
     else if \<not> (says state ''open'' \<or> says state ''closed'') \<or>
       says state ''closed'' \<and> \<not> list_ex (says reason) [''completed'', ''not_planned'', ''duplicate'']
     then raise completion_error
     else ret (text_of (text_points_of state), if reason = JV_null then None
       else Some (text_of (case reason of JV_string ns \<Rightarrow> ns | v \<Rightarrow> prv_str g v))))"

section \<open>Issues of the backlog (backlog_issues.py)\<close>

abbreviation materialization_error :: py_error where
  "materialization_error \<equiv> OtherError ''IssueMaterializationError''"

definition item_marker :: "(string \<Rightarrow> string) \<Rightarrow> work_item \<Rightarrow> string" where
  "item_marker sha item = ''<!-- factory-work-item:'' @ sha (item_provider item @ [char_of (0::nat)] @ item_external_id item) @ '' -->''"

definition created_issue :: "'w provider \<Rightarrow> jvalue \<Rightarrow> string \<Rightarrow> ('w, materialized_issue) exchange" where
  "created_issue g payload slug = (if \<not> is_object payload then raise materialization_error
     else case field ''html_url'' payload of
       JV_string ns \<Rightarrow> (case prv_split g ns of Inl _ \<Rightarrow> raise (ValueError ''url'')
         | Inr u \<Rightarrow> (case as_int (field ''number'' payload) of
             Some n \<Rightarrow> if \<not> is_bool (field ''number'' payload) \<and> 0 < n \<and> url_scheme u = ''https'' \<and>
                 url_host u \<notin> {None, Some []} \<and> url_user u = None \<and>
                 url_path u = ''/'' @ slug @ ''/issues/'' @ decimal_int n \<and> url_query u = [] \<and> url_fragment u = []
               then ret \<lparr>iss_repository = slug, iss_number = n, iss_url = text_of ns\<rparr>
               else raise materialization_error
           | None \<Rightarrow> raise materialization_error))
     | _ \<Rightarrow> raise materialization_error)"

definition backlog_call :: "'w provider \<Rightarrow> verb \<Rightarrow> nat list \<Rightarrow> (string \<times> string) list \<Rightarrow> jvalue option \<Rightarrow>
    ('w, jvalue) exchange" where
  "backlog_call g v path query body = andthen (write_call g v path query body) (\<lambda>r. case r of
       Inl _ \<Rightarrow> raise materialization_error | Inr x \<Rightarrow> ret x)"

definition carries_marker :: "nat list \<Rightarrow> jvalue \<Rightarrow> bool" where
  "carries_marker marker c \<longleftrightarrow> is_object c \<and> \<not> has_field ''pull_request'' c \<and> is_text (field ''body'' c) \<and>
     marker \<in> set (point_lines (text_points_of (field ''body'' c)))"

definition note_candidate :: "'w provider \<Rightarrow> nat list \<Rightarrow> string \<Rightarrow> jvalue \<Rightarrow> materialized_issue option \<Rightarrow>
    ('w, materialized_issue option) exchange" where
  "note_candidate g marker slug c found = (if \<not> carries_marker marker c then ret found
     else andthen (created_issue g c slug) (\<lambda>issue. case found of
         Some f \<Rightarrow> if iss_number f \<noteq> iss_number issue then raise materialization_error else ret (Some issue)
       | None \<Rightarrow> ret (Some issue)))"

text \<open>One page after another, with what the pages before have found.\<close>

fun find_from :: "'w provider \<Rightarrow> nat list \<Rightarrow> string \<Rightarrow> nat list \<Rightarrow> materialized_issue option \<Rightarrow>
    ('w, materialized_issue option) exchange" where
  "find_from g marker slug [] found = raise materialization_error"
| "find_from g marker slug (page # pages) found =
     andthen (backlog_call g GET (points (''/repos/'' @ slug @ ''/issues''))
         [(''state'', ''all''), (''per_page'', ''100''), (''page'', decimal page)] None) (\<lambda>v. case v of
       JV_array cs \<Rightarrow> andthen (each (note_candidate g marker slug) cs found) (\<lambda>found'.
         if length cs < 100 then ret found' else find_from g marker slug pages found')
     | _ \<Rightarrow> raise materialization_error)"

definition find_issue :: "'w provider \<Rightarrow> (string \<Rightarrow> string) \<Rightarrow> work_item \<Rightarrow> ('w, materialized_issue option) exchange" where
  "find_issue g sha item = find_from g (points (item_marker sha item)) (item_repository item) [1..<101] None"

definition issue_payload :: "(string \<Rightarrow> string) \<Rightarrow> work_item \<Rightarrow> jvalue" where
  "issue_payload sha item = JV_object [(points ''title'', JV_string (points (take 200 (item_title item)))),
     (points ''body'', JV_string (points (take 60000 (item_body item) @ [char_of (10::nat), char_of (10::nat)] @ item_marker sha item))),
     (points ''labels'', JV_array [JV_string (points ''factory-ready'')])]"

definition create_issue :: "'w provider \<Rightarrow> (string \<Rightarrow> string) \<Rightarrow> work_item \<Rightarrow> ('w, materialized_issue) exchange" where
  "create_issue g sha item =
     andthen (backlog_call g POST (points (''/repos/'' @ item_repository item @ ''/issues'')) [] (Some (issue_payload sha item)))
       (\<lambda>payload. created_issue g payload (item_repository item))"

end
