(* ===== verification/Github_Facts.thy ===== *)
theory Github_Facts
  imports Github_Evidence Github_Writes
begin

text \<open>
  What the provider was asked and what its answers must have said: evidence of a delivery, pull requests,
  completed issues.
\<close>

section \<open>Requests\<close>

lemma asked_request:
  "ask g v path query body s = (r, s') \<longleftrightarrow> (\<exists>a w. prv_request g v path query body (ses_world s) = (a, w) \<and> r = Inr a \<and>
    s' = s\<lparr>ses_world := w, ses_log := ses_log s @
      [\<lparr>req_verb = v, req_path = path, req_query = query, req_body = body, req_answer = a\<rparr>]\<rparr>)"
  by (auto simp: ask_def split: prod.splits)

lemma keeps_ask:
  "(\<And>a. P \<lparr>req_verb = v, req_path = path, req_query = query, req_body = body, req_answer = a\<rparr>) \<Longrightarrow>
    keeps (logs P) (ask g v path query body)"
  by (auto simp: keeps_def logs_def ask_def split: prod.splits)

lemma keeps_case_outcome:
  "(\<And>e. keeps R (m e)) \<Longrightarrow> (\<And>a. keeps R (n a)) \<Longrightarrow> keeps R (case x of Inl e \<Rightarrow> m e | Inr a \<Rightarrow> n a)"
  by (simp split: sum.splits)

lemma keeps_case_json:
  "keeps R n \<Longrightarrow> (\<And>b. keeps R (bl b)) \<Longrightarrow> (\<And>t. keeps R (nu t)) \<Longrightarrow> (\<And>t. keeps R (st t)) \<Longrightarrow>
    (\<And>vs. keeps R (ar vs)) \<Longrightarrow> (\<And>kvs. keeps R (ob kvs)) \<Longrightarrow>
    keeps R (case v of JV_null \<Rightarrow> n | JV_bool b \<Rightarrow> bl b | JV_number t \<Rightarrow> nu t | JV_string t \<Rightarrow> st t
      | JV_array vs \<Rightarrow> ar vs | JV_object kvs \<Rightarrow> ob kvs)"
  by (simp split: jvalue.splits)

lemma keeps_case_fault:
  "(\<And>n. keeps R (m1 n)) \<Longrightarrow> keeps R m2 \<Longrightarrow> keeps R m3 \<Longrightarrow> keeps R m4 \<Longrightarrow>
    keeps R (case f of Request_fault n \<Rightarrow> m1 n | Auth_fault \<Rightarrow> m2 | Value_fault \<Rightarrow> m3 | Untranslated \<Rightarrow> m4)"
  by (simp split: fault.splits)

lemmas provider_intros = recorded_intros keeps_ask keeps_case_outcome keeps_case_json keeps_case_fault
  logged.keeps_each logged.keeps_first

section \<open>Evidence of a delivery\<close>

definition asks_only :: "request \<Rightarrow> bool" where
  "asks_only c \<longleftrightarrow> req_verb c = GET"

lemma read_asks: "keeps (logs asks_only) (read_json g path query)"
  unfolding read_json_def by (intro provider_intros) (simp add: asks_only_def)

lemma evidence_asks: "keeps (logs asks_only) (delivery_facts g reg i)"
  unfolding delivery_facts_def or_unverified_def merged_evidence_def required_checks_def checks_pass_def
    deployment_passed_def deployed_once_def Let_def
  by (intro provider_intros read_asks) (simp_all add: asks_only_def)

text \<open>The provider answered a question with a value.\<close>

definition provider_said :: "request list \<Rightarrow> nat list \<Rightarrow> (string \<times> string) list \<Rightarrow> jvalue \<Rightarrow> bool" where
  "provider_said new path query v \<longleftrightarrow>
     \<lparr>req_verb = GET, req_path = path, req_query = query, req_body = None, req_answer = Inr v\<rparr> \<in> set new"

lemma read_value:
  assumes "read_json g path query s = (Inr v, s')"
  shows "ses_log s' = ses_log s @
    [\<lparr>req_verb = GET, req_path = path, req_query = query, req_body = None, req_answer = Inr v\<rparr>]"
proof -
  obtain a s1 where "ask g GET path query None s = (Inr a, s1)"
    and "(case a of Inl f \<Rightarrow> raise (read_error f) | Inr v \<Rightarrow> ret v) s1 = (Inr v, s')"
    using assms unfolding read_json_def andthen_Inr by blast
  then show ?thesis by (cases a) (auto simp: asked_request)
qed

lemma read_said:
  assumes "read_json g path query s = (Inr v, s')"
  shows "\<exists>new. ses_log s' = ses_log s @ new \<and> provider_said new path query v"
  using read_value [OF assms] by (auto simp: provider_said_def)

lemma provider_said_append [simp]: "provider_said (xs @ ys) path query v \<longleftrightarrow> provider_said xs path query v \<or> provider_said ys path query v"
  by (auto simp: provider_said_def)

lemma extends_log:
  assumes "keeps (logs P) m" "m s = (r, s')"
  obtains new where "ses_log s' = ses_log s @ new"
  using keepsD [OF assms] by (auto simp: logs_def)

definition rows :: "string \<Rightarrow> jvalue \<Rightarrow> jvalue list" where
  "rows k v = (case field k v of JV_array xs \<Rightarrow> xs | _ \<Rightarrow> [])"

text \<open>A check with this name succeeded on exactly this commit.\<close>

definition check_succeeded :: "string \<Rightarrow> nat list \<Rightarrow> jvalue \<Rightarrow> jvalue \<Rightarrow> bool" where
  "check_succeeded sha name statuses runs \<longleftrightarrow>
     (\<exists>row \<in> set (rows ''statuses'' statuses). says (field ''sha'' row) sha \<and>
       field ''context'' row = JV_string name \<and> says (field ''state'' row) ''success'') \<or>
     (\<exists>row \<in> set (rows ''check_runs'' runs). says (field ''head_sha'' row) sha \<and> field ''name'' row = JV_string name \<and>
       says (field ''status'' row) ''completed'' \<and> says (field ''conclusion'' row) ''success'')"

lemma map_filter_member: "y \<in> set (List.map_filter f xs) \<longleftrightarrow> (\<exists>x \<in> set xs. f x = Some y)"
  by (induction xs) (auto simp: map_filter_simps split: option.splits)

lemma text_points_of_text: "is_text v \<Longrightarrow> v = JV_string (text_points_of v)"
  by (cases v) (simp_all add: is_text_def text_points_of_def)

lemma status_entry_True:
  "status_entry sha row = Some (name, True) \<Longrightarrow> says (field ''sha'' row) sha \<and> field ''context'' row = JV_string name \<and>
    says (field ''state'' row) ''success''"
  by (auto simp: status_entry_def dest: text_points_of_text split: if_splits)

lemma run_entry_True:
  "run_entry sha row = Some (name, True) \<Longrightarrow> says (field ''head_sha'' row) sha \<and> field ''name'' row = JV_string name \<and>
    says (field ''status'' row) ''completed'' \<and> says (field ''conclusion'' row) ''success''"
  by (auto simp: run_entry_def Let_def dest: text_points_of_text split: if_splits)

lemma checks_agree_succeeded:
  assumes "checks_agree sha names statuses runs" "name \<in> set names"
  shows "check_succeeded sha name statuses runs"
proof -
  obtain ss rs where r: "field ''statuses'' statuses = JV_array ss" "field ''check_runs'' runs = JV_array rs"
    and "map_of (rev (check_entries sha ss rs)) name = Some True"
    using assms by (auto simp: checks_agree_def list_all_iff split: jvalue.splits option.splits)
  then have "(name, True) \<in> set (check_entries sha ss rs)" by (metis map_of_SomeD set_rev)
  then show ?thesis
    using r by (auto simp: check_entries_def map_filter_member check_succeeded_def rows_def
        dest!: status_entry_True run_entry_True)
qed

text \<open>
  The names the project requires: the configured ones, or else those that the protection of the base branch lists
  as contexts and as checks; a branch without protection (the provider answers 404) requires none.
\<close>

definition protection_path :: "nat list \<Rightarrow> string \<Rightarrow> nat list" where
  "protection_path top_path branch = top_path @ points (''/branches/'' @ branch @ ''/protection/required_status_checks'')"

definition protection_lists :: "jvalue \<Rightarrow> nat list list \<Rightarrow> bool" where
  "protection_lists payload names \<longleftrightarrow> (\<exists>cs. field ''contexts'' payload = JV_array cs) \<and>
     (\<forall>c \<in> set (rows ''checks'' payload). \<exists>ns. field ''context'' c = JV_string ns) \<and>
     set names = {ns. JV_string ns \<in> set (rows ''contexts'' payload)} \<union>
       {ns. \<exists>c \<in> set (rows ''checks'' payload). field ''context'' c = JV_string ns}"

definition names_required :: "request list \<Rightarrow> nat list \<Rightarrow> string \<Rightarrow> string list \<Rightarrow> nat list list \<Rightarrow> bool" where
  "names_required new top_path branch configured names \<longleftrightarrow>
     (if configured \<noteq> [] then names = map points configured
      else \<lparr>req_verb = GET, req_path = protection_path top_path branch, req_query = [], req_body = None,
             req_answer = Inl (Request_fault 404)\<rparr> \<in> set new \<and> names = [] \<or>
        (\<exists>payload. provider_said new (protection_path top_path branch) [] payload \<and> protection_lists payload names))"

lemma names_required_append:
  "names_required xs top_path branch configured names \<Longrightarrow> names_required (xs @ ys) top_path branch configured names"
  "names_required ys top_path branch configured names \<Longrightarrow> names_required (xs @ ys) top_path branch configured names"
  by (auto simp: names_required_def split: if_splits)

lemma protection_checks_lists:
  assumes "protection_checks payload = Some names" shows "protection_lists payload names"
proof -
  obtain cs ks where c: "field ''contexts'' payload = JV_array cs" "rows ''checks'' payload = ks"
    "list_all (\<lambda>c. is_object c \<and> is_text (field ''context'' c)) ks"
    "names = map text_points_of (filter is_text cs) @ map (\<lambda>c. text_points_of (field ''context'' c)) ks"
    using assms by (auto simp: protection_checks_def rows_def has_field_def field_def split: if_splits jvalue.splits option.splits)
  have textual: "is_text v \<longleftrightarrow> (\<exists>ns. v = JV_string ns)" for v by (cases v) (simp_all add: is_text_def)
  have "text_points_of ` {v \<in> set cs. is_text v} = {ns. JV_string ns \<in> set cs}"
    by (force simp: textual text_points_of_def)
  moreover have "(\<lambda>c. text_points_of (field ''context'' c)) ` set ks = {ns. \<exists>c \<in> set ks. field ''context'' c = JV_string ns}"
    using c(3) by (force simp: list_all_iff textual text_points_of_def)
  ultimately show ?thesis
    using c by (auto simp: protection_lists_def rows_def [of "''contexts''"] list_all_iff textual)
qed

lemma required_names:
  assumes "required_checks g top_path branch configured s = (Inr (Some names), s')"
  shows "\<exists>new. ses_log s' = ses_log s @ new \<and> names_required new top_path branch configured names"
proof (cases "configured = []")
  case False
  then show ?thesis using assms by (simp add: required_checks_def names_required_def)
next
  case True
  let ?c = "\<lambda>a. \<lparr>req_verb = GET, req_path = protection_path top_path branch, req_query = [], req_body = None, req_answer = a\<rparr>"
  obtain a s1 where q: "ask g GET (protection_path top_path branch) [] None s = (Inr a, s1)"
    and r: "(case a of Inl (Request_fault n) \<Rightarrow> if n = 404 then ret (Some []) else raise (read_error (Request_fault n))
         | Inl f \<Rightarrow> raise (read_error f) | Inr payload \<Rightarrow> ret (protection_checks payload)) s1 = (Inr (Some names), s')"
    using assms True unfolding required_checks_def protection_path_def [symmetric] by (auto simp: andthen_Inr)
  have l: "ses_log s1 = ses_log s @ [?c a]" using q by (auto simp: asked_request)
  have "s' = s1 \<and> (a = Inl (Request_fault 404) \<and> names = [] \<or> (\<exists>payload. a = Inr payload \<and> protection_lists payload names))"
    using r protection_checks_lists by (auto split: sum.splits fault.splits if_splits)
  then show ?thesis
    using True l by (intro exI [of _ "[?c a]"]) (auto simp: names_required_def provider_said_def)
qed

lemma checks_pass_True:
  assumes "checks_pass g top_path sha required s = (Inr True, s')"
  shows "\<exists>names statuses runs new. required = Some names \<and> ses_log s' = ses_log s @ new \<and>
    provider_said new (top_path @ points (''/commits/'' @ sha @ ''/status'')) [] statuses \<and>
    provider_said new (top_path @ points (''/commits/'' @ sha @ ''/check-runs'')) [(''per_page'', ''100'')] runs \<and>
    (\<forall>name \<in> set names. check_succeeded sha name statuses runs)"
proof -
  obtain names statuses s1 runs where names: "required = Some names"
    and st: "read_json g (top_path @ points (''/commits/'' @ sha @ ''/status'')) [] s = (Inr statuses, s1)"
    and ru: "read_json g (top_path @ points (''/commits/'' @ sha @ ''/check-runs'')) [(''per_page'', ''100'')] s1 = (Inr runs, s')"
    and ok: "checks_agree sha names statuses runs"
    using assms by (auto simp: checks_pass_def andthen_Inr split: option.splits)
  from read_said [OF st] obtain n1 where n1: "ses_log s1 = ses_log s @ n1"
    "provider_said n1 (top_path @ points (''/commits/'' @ sha @ ''/status'')) [] statuses" by blast
  from read_said [OF ru] obtain n2 where n2: "ses_log s' = ses_log s1 @ n2"
    "provider_said n2 (top_path @ points (''/commits/'' @ sha @ ''/check-runs'')) [(''per_page'', ''100'')] runs" by blast
  show ?thesis
    by (rule exI [of _ names], rule exI [of _ statuses], rule exI [of _ runs], rule exI [of _ "n1 @ n2"])
      (use names n1 n2 checks_agree_succeeded [OF ok] in simp)
qed

text \<open>A deployment of this commit whose latest status is a success.\<close>

definition deployment_succeeded :: "request list \<Rightarrow> nat list \<Rightarrow> nat list \<Rightarrow> bool" where
  "deployment_succeeded new top_path sha \<longleftrightarrow> (\<exists>ds d x xs.
     provider_said new (top_path @ points ''/deployments'') [(''sha'', text_of sha), (''per_page'', ''100'')] (JV_array ds) \<and>
     d \<in> set ds \<and> provider_said new (top_path @ points (''/deployments/'' @ id_text (field ''id'' d) @ ''/statuses''))
       [(''per_page'', ''100'')] (JV_array (x # xs)) \<and> says (field ''state'' x) ''success'')"

lemma first_result_Some:
  assumes "first_result f xs s = (Inr (Some b), s')" "\<And>x. keeps (logs P) (f x)"
  shows "\<exists>x \<in> set xs. \<exists>s1. logs P s s1 \<and> f x s1 = (Inr (Some b), s')"
  using assms(1)
proof (induction xs arbitrary: s)
  case (Cons x xs)
  obtain r s1 where x: "f x s = (Inr r, s1)"
    and rest: "(case r of None \<Rightarrow> first_result f xs | Some b \<Rightarrow> ret (Some b)) s1 = (Inr (Some b), s')"
    using Cons.prems by (auto simp: andthen_Inr)
  show ?case
  proof (cases r)
    case None
    then obtain y s2 where "y \<in> set xs" "logs P s1 s2" "f y s2 = (Inr (Some b), s')"
      using Cons.IH [of s1] rest by auto
    then show ?thesis using keepsD [OF assms(2) x] logged.R_trans by (metis list.set_intros(2))
  next
    case (Some c)
    then show ?thesis using x rest logged.R_refl by (intro bexI [of _ x] exI [of _ s]) auto
  qed
qed simp

lemma deployed_once_asks: "keeps (logs asks_only) (deployed_once g top_path d)"
  unfolding deployed_once_def Let_def by (intro provider_intros read_asks)

lemma deployed_once_Some:
  assumes "deployed_once g top_path d s = (Inr (Some u), s')"
  shows "\<exists>x xs new. ses_log s' = ses_log s @ new \<and>
    provider_said new (top_path @ points (''/deployments/'' @ id_text (field ''id'' d) @ ''/statuses''))
      [(''per_page'', ''100'')] (JV_array (x # xs)) \<and> says (field ''state'' x) ''success''"
proof -
  obtain v where v: "read_json g (top_path @ points (''/deployments/'' @ id_text (field ''id'' d) @ ''/statuses''))
      [(''per_page'', ''100'')] s = (Inr v, s')"
    and "Some u = (case v of JV_array (x # _) \<Rightarrow> if is_object x \<and> says (field ''state'' x) ''success'' then Some () else None
         | _ \<Rightarrow> None)"
    using assms by (auto simp: deployed_once_def Let_def andthen_Inr simp del: jvalue.case split: if_splits)
  then obtain x xs where "v = JV_array (x # xs)" "says (field ''state'' x) ''success''"
    by (auto split: jvalue.splits list.splits if_splits)
  then show ?thesis using read_said [OF v] by blast
qed

lemma deployment_passed_True:
  assumes "deployment_passed g top_path sha s = (Inr True, s')"
  shows "\<exists>new. ses_log s' = ses_log s @ new \<and> deployment_succeeded new top_path sha"
proof -
  obtain v s1 where d: "read_json g (top_path @ points ''/deployments'') [(''sha'', text_of sha), (''per_page'', ''100'')] s = (Inr v, s1)"
    and r: "(case v of JV_array ds \<Rightarrow> if 100 \<le> length ds then ret False
        else andthen (first_result (deployed_once g top_path) ds) (\<lambda>r. ret (r \<noteq> None)) | _ \<Rightarrow> ret False) s1 = (Inr True, s')"
    using assms unfolding deployment_passed_def andthen_Inr by blast
  then obtain ds u where ds: "v = JV_array ds" and f: "first_result (deployed_once g top_path) ds s1 = (Inr (Some u), s')"
    by (cases v) (auto simp: andthen_Inr split: if_splits)
  from first_result_Some [OF f deployed_once_asks] obtain x s2 mid where
    x: "x \<in> set ds" "ses_log s2 = ses_log s1 @ mid" "deployed_once g top_path x s2 = (Inr (Some u), s')"
    by (auto simp: logs_def)
  from read_said [OF d] obtain new1 where n1: "ses_log s1 = ses_log s @ new1"
    "provider_said new1 (top_path @ points ''/deployments'') [(''sha'', text_of sha), (''per_page'', ''100'')] (JV_array ds)"
    unfolding ds by blast
  from deployed_once_Some [OF x(3)] obtain y ys new2 where n2: "ses_log s' = ses_log s2 @ new2"
    "provider_said new2 (top_path @ points (''/deployments/'' @ id_text (field ''id'' x) @ ''/statuses''))
      [(''per_page'', ''100'')] (JV_array (y # ys))" "says (field ''state'' y) ''success''" by blast
  have "deployment_succeeded (new1 @ mid @ new2) top_path sha"
    unfolding deployment_succeeded_def
    by (rule exI [of _ ds], rule exI [of _ x], rule exI [of _ y], rule exI [of _ ys]) (use n1 n2 x in simp)
  then show ?thesis using n1 n2 x(2) by (intro exI [of _ "new1 @ mid @ new2"]) simp
qed

lemma or_unverified_complete:
  assumes "or_unverified m body s = (Inr e, s')" "delivery_complete e"
  shows "body s = (Inr e, s')"
  using assms
  by (auto simp: or_unverified_def on_error_def evidence_of_def delivery_complete_def split: prod.splits sum.splits if_splits)

lemma deployment_succeeded_append:
  "deployment_succeeded ys top_path sha \<Longrightarrow> deployment_succeeded (xs @ ys) top_path sha"
  unfolding deployment_succeeded_def provider_said_append by blast

text \<open>The checks the project requires succeeded on the reviewed commit.\<close>

definition ci_verified :: "request list \<Rightarrow> project_profile \<Rightarrow> feedback_identity \<Rightarrow> bool" where
  "ci_verified new profile i \<longleftrightarrow> (\<exists>names statuses runs.
     provider_said new (repo_path (fid_repository i) @ points (''/commits/'' @ fid_commit_sha i @ ''/status'')) [] statuses \<and>
     provider_said new (repo_path (fid_repository i) @ points (''/commits/'' @ fid_commit_sha i @ ''/check-runs''))
       [(''per_page'', ''100'')] runs \<and>
     names_required new (repo_path (fid_repository i)) (prof_base_ref profile) (prof_required_ci_checks profile) names \<and>
     (\<forall>name \<in> set names. check_succeeded (fid_commit_sha i) name statuses runs))"

lemma ci_verified_append: "ci_verified xs profile i \<or> ci_verified ys profile i \<Longrightarrow> ci_verified (xs @ ys) profile i"
  unfolding ci_verified_def provider_said_append by (blast intro: names_required_append)

lemma ci_passed:
  assumes "andthen (required_checks g (repo_path (fid_repository i)) (prof_base_ref profile) (prof_required_ci_checks profile))
      (\<lambda>required. checks_pass g (repo_path (fid_repository i)) (fid_commit_sha i) required) s = (Inr True, s')"
  shows "\<exists>new. ses_log s' = ses_log s @ new \<and> ci_verified new profile i"
proof -
  let ?top = "repo_path (fid_repository i)"
  obtain required s1 where
    q: "required_checks g ?top (prof_base_ref profile) (prof_required_ci_checks profile) s = (Inr required, s1)"
    and c: "checks_pass g ?top (fid_commit_sha i) required s1 = (Inr True, s')"
    using assms unfolding andthen_Inr by blast
  from checks_pass_True [OF c] obtain names statuses runs n2 where
    n2: "required = Some names" "ses_log s' = ses_log s1 @ n2"
    "provider_said n2 (?top @ points (''/commits/'' @ fid_commit_sha i @ ''/status'')) [] statuses"
    "provider_said n2 (?top @ points (''/commits/'' @ fid_commit_sha i @ ''/check-runs'')) [(''per_page'', ''100'')] runs"
    "\<forall>name \<in> set names. check_succeeded (fid_commit_sha i) name statuses runs" by blast
  from required_names [OF q [unfolded n2(1)]] obtain n1 where n1: "ses_log s1 = ses_log s @ n1"
    "names_required n1 ?top (prof_base_ref profile) (prof_required_ci_checks profile) names" by blast
  have "ci_verified (n1 @ n2) profile i"
    unfolding ci_verified_def provider_said_append using n2(3-5) names_required_append(1) [OF n1(2)] by blast
  then show ?thesis using n1(1) n2(2) by (intro exI [of _ "n1 @ n2"]) simp
qed

lemma merged_evidence_complete:
  assumes "merged_evidence g profile i sha s = (Inr e, s')" "delivery_complete e"
  shows "\<exists>new commit. ses_log s' = ses_log s @ new \<and>
    provider_said new (repo_path (fid_repository i) @ points ''/commits/'' @ sha) [] commit \<and> field ''sha'' commit = JV_string sha \<and>
    (prof_provider_ci_required profile \<longrightarrow> ci_verified new profile i) \<and>
    (prof_deploy_required profile \<longrightarrow> deployment_succeeded new (repo_path (fid_repository i)) sha)"
proof -
  let ?top = "repo_path (fid_repository i)"
  let ?ci = "if prof_provider_ci_required profile
    then andthen (required_checks g ?top (prof_base_ref profile) (prof_required_ci_checks profile)) (\<lambda>required.
      checks_pass g ?top (fid_commit_sha i) required) else ret True"
  let ?deploy = "if prof_deploy_required profile then deployment_passed g ?top sha else ret True"
  obtain commit s1 ci s2 deployed where c: "read_json g (?top @ points ''/commits/'' @ sha) [] s = (Inr commit, s1)"
    and ci: "?ci s1 = (Inr ci, s2)" and d: "?deploy s2 = (Inr deployed, s')"
    and e: "e = evidence_of True (field ''sha'' commit = JV_string sha) ci deployed"
    using assms(1) unfolding merged_evidence_def Let_def andthen_Inr by auto
  have ok: "field ''sha'' commit = JV_string sha" "ci" "deployed"
    using assms(2) by (simp_all add: e evidence_of_def delivery_complete_def)
  from read_said [OF c] obtain n1 where n1: "ses_log s1 = ses_log s @ n1"
    "provider_said n1 (?top @ points ''/commits/'' @ sha) [] commit" by blast
  obtain n2 where n2: "ses_log s2 = ses_log s1 @ n2" "prof_provider_ci_required profile \<longrightarrow> ci_verified n2 profile i"
    using ci ok(2) ci_passed [of g i profile s1 s2] by (cases "prof_provider_ci_required profile") auto
  obtain n3 where n3: "ses_log s' = ses_log s2 @ n3" "prof_deploy_required profile \<longrightarrow> deployment_succeeded n3 ?top sha"
    using d ok(3) deployment_passed_True [of g ?top sha s2 s'] by (cases "prof_deploy_required profile") auto
  show ?thesis
    by (rule exI [of _ "n1 @ n2 @ n3"], rule exI [of _ commit])
      (use n1 n2 n3 ok(1) in \<open>auto intro: ci_verified_append deployment_succeeded_append\<close>)
qed

lemma delivery_cases:
  assumes "delivery_facts g reg i s = (Inr e, s')" "delivery_complete e"
  shows "\<exists>profile pr sha commit new. resolve_project reg (fid_project i) (Some (fid_repository i)) = Inr profile \<and>
    ses_log s' = ses_log s @ new \<and> provider_said new (pull_path (fid_repository i) (fid_pr_number i)) [] pr \<and>
    equals_int (field ''number'' pr) (fid_pr_number i) \<and> merged_as g i (prof_base_ref profile) pr \<and>
    field ''merge_commit_sha'' pr = JV_string sha \<and>
    provider_said new (repo_path (fid_repository i) @ points ''/commits/'' @ sha) [] commit \<and> field ''sha'' commit = JV_string sha \<and>
    (prof_provider_ci_required profile \<longrightarrow> ci_verified new profile i) \<and>
    (prof_deploy_required profile \<longrightarrow> deployment_succeeded new (repo_path (fid_repository i)) sha)"
proof -
  let ?sha = "\<lambda>pr. text_points_of (field ''merge_commit_sha'' pr)"
  obtain profile pr s1 where p: "resolve_project reg (fid_project i) (Some (fid_repository i)) = Inr profile"
    and q: "read_json g (pull_path (fid_repository i) (fid_pr_number i)) [] s = (Inr pr, s1)"
    and b: "(if \<not> is_object pr \<or> \<not> equals_int (field ''number'' pr) (fid_pr_number i) \<or>
         \<not> merged_as g i (prof_base_ref profile) pr
       then ret (evidence_of False False False False)
       else or_unverified True (merged_evidence g profile i (?sha pr))) s1 = (Inr e, s')"
    using or_unverified_complete [OF assms(1) [unfolded delivery_facts_def] assms(2)]
    by (auto simp: andthen_Inr from_outcome_def)
  have ok: "equals_int (field ''number'' pr) (fid_pr_number i)" "merged_as g i (prof_base_ref profile) pr"
    and m: "merged_evidence g profile i (?sha pr) s1 = (Inr e, s')"
    using b assms(2) or_unverified_complete [OF _ assms(2), of True _ s1 s']
    by (auto simp: evidence_of_def delivery_complete_def split: if_splits)
  from read_said [OF q] obtain n1 where n1: "ses_log s1 = ses_log s @ n1"
    "provider_said n1 (pull_path (fid_repository i) (fid_pr_number i)) [] pr" by blast
  from merged_evidence_complete [OF m assms(2)] obtain n2 commit where n2: "ses_log s' = ses_log s1 @ n2"
    "provider_said n2 (repo_path (fid_repository i) @ points ''/commits/'' @ ?sha pr) [] commit"
    "field ''sha'' commit = JV_string (?sha pr)"
    "prof_provider_ci_required profile \<longrightarrow> ci_verified n2 profile i"
    "prof_deploy_required profile \<longrightarrow> deployment_succeeded n2 (repo_path (fid_repository i)) (?sha pr)" by blast
  have "field ''merge_commit_sha'' pr = JV_string (?sha pr)"
    by (rule text_points_of_text) (use ok(2) in \<open>simp add: merged_as_def Let_def\<close>)
  then show ?thesis
    by - (rule exI [of _ profile], rule exI [of _ pr], rule exI [of _ "?sha pr"], rule exI [of _ commit],
        rule exI [of _ "n1 @ n2"],
        use p ok n1 n2 in \<open>auto intro: ci_verified_append deployment_succeeded_append\<close>)
qed

section \<open>Pull requests\<close>

lemma first_some_member: "first_some f xs = Some y \<Longrightarrow> \<exists>x \<in> set xs. f x = Some y"
  by (induction xs) (auto split: option.splits)

lemma write_call_log:
  assumes "write_call g v path query body s = (r, s')"
  shows "\<exists>a. ses_log s' = ses_log s @
      [\<lparr>req_verb = v, req_path = path, req_query = query, req_body = body, req_answer = a\<rparr>] \<and>
    r = Inr (case a of Inl f \<Rightarrow> Inl (write_status f) | Inr x \<Rightarrow> Inr x)"
  using assms by (auto simp: write_call_def andthen_def ask_def split: prod.splits)

lemma find_open_log:
  assumes "find_open g now slug head_branch base_branch s = (r, s')"
  shows "\<exists>c. ses_log s' = ses_log s @ [c] \<and> req_verb c = GET \<and> (\<forall>pr. r = Inr (Some pr) \<longrightarrow>
    (\<exists>items item. req_answer c = Inr (JV_array items) \<and> item \<in> set items \<and>
      map_pull_request now item slug head_branch base_branch = Some pr))"
proof -
  obtain a s1 where w: "write_call g GET (pulls_path slug)
      [(''state'', ''open''), (''head'', owner_of slug @ '':'' @ head_branch)] None s = (Inr a, s1)"
    and r: "(case a of Inl _ \<Rightarrow> raise publication_failed
      | Inr (JV_array items) \<Rightarrow> ret (first_some (\<lambda>i. map_pull_request now i slug head_branch base_branch) items)
      | Inr _ \<Rightarrow> ret None) s1 = (r, s')"
    using assms unfolding find_open_def
    by (elim andthen_cases) (auto dest!: write_call_log)
  from write_call_log [OF w] obtain x where x: "ses_log s1 = ses_log s @
      [\<lparr>req_verb = GET, req_path = pulls_path slug, req_query = [(''state'', ''open''), (''head'', owner_of slug @ '':'' @ head_branch)],
        req_body = None, req_answer = x\<rparr>]" "a = (case x of Inl f \<Rightarrow> Inl (write_status f) | Inr x \<Rightarrow> Inr x)" by auto
  show ?thesis
  proof (cases x)
    case (Inl f)
    then show ?thesis using x r by auto
  next
    case (Inr v)
    then show ?thesis using x r by (cases v) (auto dest!: first_some_member)
  qed
qed

text \<open>A response that confirms the identity of a pull request, among the answers.\<close>

definition confirmed_by :: "request list \<Rightarrow> pull_request \<Rightarrow> pull_request \<Rightarrow> bool" where
  "confirmed_by new pr p \<longleftrightarrow> (\<exists>c item. c \<in> set new \<and>
     (req_answer c = Inr item \<or> (\<exists>items. req_answer c = Inr (JV_array items) \<and> item \<in> set items)) \<and>
     pr_item_matches item (pr_repository pr) (pr_head_branch pr) (expected_base pr) \<and>
     pr_number p = as_int (field ''number'' item))"

definition same_identity :: "pull_request \<Rightarrow> pull_request \<Rightarrow> bool" where
  "same_identity pr p \<longleftrightarrow> pr_repository p = pr_repository pr \<and> pr_head_branch p = pr_head_branch pr \<and>
     pr_base_branch p = expected_base pr \<and> pr_task_id p = pr_task_id pr \<and> pr_run_id p = pr_run_id pr \<and>
     \<not> pr_merged p \<and> (\<exists>n > 0. pr_number p = Some n)"

lemma mapped:
  assumes "map_pull_request now item slug head_branch base_branch = Some q"
  shows "pr_item_matches item slug head_branch base_branch \<and> pr_repository q = slug \<and> pr_head_branch q = head_branch \<and>
    pr_base_branch q = base_branch \<and> pr_number q = as_int (field ''number'' item) \<and> (\<exists>n > 0. pr_number q = Some n)"
  using assms
  by (auto simp: map_pull_request_def pr_item_matches_def Let_def split: if_splits option.splits)

lemma with_metadata_identity:
  assumes "map_pull_request now item (pr_repository pr) (pr_head_branch pr) (expected_base pr) = Some q"
  shows "same_identity pr (with_metadata q pr)" "pr_number (with_metadata q pr) = as_int (field ''number'' item)"
    "pr_item_matches item (pr_repository pr) (pr_head_branch pr) (expected_base pr)"
  using mapped [OF assms] by (auto simp: same_identity_def with_metadata_def)

lemma recovered_log:
  assumes "recovered g now pr s = (r, s')"
  shows "\<exists>c. ses_log s' = ses_log s @ [c] \<and> req_verb c = GET \<and>
    (\<forall>p. r = Inr p \<longrightarrow> same_identity pr p \<and> confirmed_by [c] pr p)"
proof -
  obtain e s1 where f: "find_open g now (pr_repository pr) (pr_head_branch pr) (expected_base pr) s = (e, s1)" by fastforce
  from find_open_log [OF f] obtain c where c: "ses_log s1 = ses_log s @ [c]" "req_verb c = GET"
    "\<forall>q. e = Inr (Some q) \<longrightarrow> (\<exists>items item. req_answer c = Inr (JV_array items) \<and> item \<in> set items \<and>
      map_pull_request now item (pr_repository pr) (pr_head_branch pr) (expected_base pr) = Some q)" by blast
  have "s' = s1 \<and> (\<forall>p. r = Inr p \<longrightarrow> (\<exists>q. e = Inr (Some q) \<and> p = with_metadata q pr))"
    using assms f by (auto simp: recovered_def andthen_def split: sum.splits option.splits)
  then show ?thesis
    using c with_metadata_identity unfolding confirmed_by_def by (metis list.set_intros(1))
qed

lemma open_log:
  assumes "open_pull_request g now pr s = (r, s')"
  shows "\<exists>post rest. ses_log s' = ses_log s @ post # rest \<and>
    req_verb post = POST \<and> req_path post = pulls_path (pr_repository pr) \<and> req_body post = Some (pr_payload pr) \<and>
    length rest \<le> 1 \<and> list_all asks_only rest \<and>
    (\<forall>p. r = Inr p \<longrightarrow> same_identity pr p \<and> confirmed_by (post # rest) pr p)"
proof -
  obtain a s1 where w: "write_call g POST (pulls_path (pr_repository pr)) [] (Some (pr_payload pr)) s = (Inr a, s1)"
    and r: "(case a of Inl _ \<Rightarrow> recovered g now pr
      | Inr payload \<Rightarrow> (case map_pull_request now payload (pr_repository pr) (pr_head_branch pr) (expected_base pr) of
         Some created \<Rightarrow> ret (with_metadata created pr) | None \<Rightarrow> recovered g now pr)) s1 = (r, s')"
    using assms unfolding open_pull_request_def by (elim andthen_cases) (auto dest!: write_call_log)
  from write_call_log [OF w] obtain x where x: "ses_log s1 = ses_log s @
      [\<lparr>req_verb = POST, req_path = pulls_path (pr_repository pr), req_query = [], req_body = Some (pr_payload pr), req_answer = x\<rparr>]"
    "a = (case x of Inl f \<Rightarrow> Inl (write_status f) | Inr x \<Rightarrow> Inr x)" by auto
  consider (created) payload q where "x = Inr payload" "r = Inr (with_metadata q pr)" "s' = s1"
      "map_pull_request now payload (pr_repository pr) (pr_head_branch pr) (expected_base pr) = Some q"
    | (recovered) "recovered g now pr s1 = (r, s')"
    using r x(2) by (cases x) (auto split: option.splits)
  then show ?thesis
  proof cases
    case created
    then show ?thesis
      using x(1) with_metadata_identity [OF created(4)] by (auto simp: confirmed_by_def intro!: exI [of _ "[]"])
  next
    case recovered
    from recovered_log [OF this] obtain c where "ses_log s' = ses_log s1 @ [c]" "req_verb c = GET"
      "\<forall>p. r = Inr p \<longrightarrow> same_identity pr p \<and> confirmed_by [c] pr p" by blast
    then show ?thesis using x(1)
      by (intro exI [of _ "\<lparr>req_verb = POST, req_path = pulls_path (pr_repository pr), req_query = [],
          req_body = Some (pr_payload pr), req_answer = x\<rparr>"] exI [of _ "[c]"])
        (auto simp: confirmed_by_def asks_only_def)
  qed
qed

end
