(* ===== verification/Issue_Facts.thy ===== *)
theory Issue_Facts
  imports Github_Facts
begin

text \<open>Completed issues: what is written, after which check, and which comments are found again.\<close>

section \<open>Calls and checks\<close>

lemma issue_call_log:
  assumes "issue_call g v path query body s = (r, s')"
  shows "\<exists>a. ses_log s' = ses_log s @
      [\<lparr>req_verb = v, req_path = path, req_query = query, req_body = body, req_answer = a\<rparr>] \<and>
    (\<forall>x. r = Inr x \<longrightarrow> a = Inr x)"
proof -
  obtain b s1 where w: "write_call g v path query body s = (b, s1)" by fastforce
  from write_call_log [OF w] obtain a where "ses_log s1 = ses_log s @
      [\<lparr>req_verb = v, req_path = path, req_query = query, req_body = body, req_answer = a\<rparr>]"
    "b = Inr (case a of Inl f \<Rightarrow> Inl (write_status f) | Inr x \<Rightarrow> Inr x)" by blast
  then show ?thesis using assms w by (cases a) (auto simp: issue_call_def andthen_def)
qed

text \<open>The identity of an issue, as a response must confirm it.\<close>

definition identified :: "'w provider \<Rightarrow> jvalue \<Rightarrow> feedback_identity \<Rightarrow> bool" where
  "identified g issue i \<longleftrightarrow> is_object issue \<and>
     (\<exists>ns u. field ''html_url'' issue = JV_string ns \<and> prv_split g ns = Inr u \<and> issue_matches issue i (Some u))"

lemma check_issue_state: "check_issue g issue i s = (r, s') \<Longrightarrow> s' = s"
  by (auto simp: check_issue_def check_identity_def split: if_splits jvalue.splits sum.splits)

lemma check_issue_Inr: "check_issue g issue i s = (Inr u, s') \<Longrightarrow> identified g issue i"
  by (auto simp: check_issue_def check_identity_def identified_def issue_matches_def names_issue_def
      split: if_splits jvalue.splits sum.splits)

section \<open>What completion may write\<close>

text \<open>The names of the labels of an issue but \<open>factory-ready\<close>.\<close>

definition other_labels :: "jvalue \<Rightarrow> jvalue list" where
  "other_labels issue = map (field ''name'') (filter (\<lambda>l. \<not> says (field ''name'' l) ''factory-ready'') (rows ''labels'' issue))"

definition completion_request :: "feedback_identity \<Rightarrow> jvalue \<Rightarrow> request \<Rightarrow> bool" where
  "completion_request i issue c \<longleftrightarrow>
     (let path = issue_path (fid_repository i) (fid_issue_number i);
          comments = comments_path (fid_repository i) (fid_issue_number i) in
      req_verb c = GET \<and> req_path c \<in> {path, comments} \<or>
      req_verb c = POST \<and> req_path c = comments \<and> req_body c = Some (body_of (delivery_comment i)) \<or>
      req_verb c = PATCH \<and> req_path c = path \<and> (req_body c = Some (closing ''completed'') \<or>
        req_body c = Some (JV_object [(points ''labels'', JV_array (other_labels issue))])))"

lemma keeps_issue_call:
  "(\<And>a. P \<lparr>req_verb = v, req_path = path, req_query = query, req_body = body, req_answer = a\<rparr>) \<Longrightarrow>
    keeps (logs P) (issue_call g v path query body)"
  unfolding issue_call_def write_call_def by (intro provider_intros)

lemma keeps_check_issue: "keeps (logs P) (check_issue g issue i)"
  using check_issue_state logged.R_refl by (metis keeps_def prod.collapse)

lemma remaining_labels:
  "map (field ''name'') (filter (\<lambda>l. \<not> ready_label l) (label_list issue)) = other_labels issue"
proof -
  have "ready_label l \<longleftrightarrow> says (field ''name'' l) ''factory-ready''" for l
    by (auto simp: ready_label_def says_def is_object_def field_def split: jvalue.splits)
  then show ?thesis by (simp add: other_labels_def label_list_def rows_def)
qed

lemma has_comment_requests:
  "(\<And>query a. P \<lparr>req_verb = GET, req_path = path, req_query = query, req_body = None, req_answer = a\<rparr>) \<Longrightarrow>
    keeps (logs P) (has_comment g path marker)"
  unfolding has_comment_def comment_page_def by (intro provider_intros keeps_issue_call)

lemma completion_steps:
  fixes i :: feedback_identity
  defines "path \<equiv> issue_path (fid_repository i) (fid_issue_number i)"
  shows "keeps (logs (completion_request i issue)) (issue_call g GET path [] None)"
    "keeps (logs (completion_request i issue)) (ensure_comment g i marker (delivery_comment i))"
    "keeps (logs (completion_request i issue)) (close_with g i ''completed'' issue)"
    "keeps (logs (completion_request i issue)) (issue_call g PATCH path []
      (Some (JV_object [(points ''labels'', JV_array (map (field ''name'') (filter (\<lambda>l. \<not> ready_label l) (label_list issue))))])))"
  unfolding path_def ensure_comment_def close_with_def Let_def
  by (intro provider_intros keeps_issue_call keeps_check_issue has_comment_requests;
      simp add: completion_request_def Let_def remaining_labels)+

text \<open>After the first look at the issue.\<close>

definition finish_issue :: "'w provider \<Rightarrow> feedback_identity \<Rightarrow> jvalue \<Rightarrow> ('w, unit) exchange" where
  "finish_issue g i issue = (let path = issue_path (fid_repository i) (fid_issue_number i) in
     andthen (ensure_comment g i (''<!-- factory-delivery:'' @ fid_task i @ '' -->'') (delivery_comment i)) (\<lambda>_.
     andthen (let remaining = map (field ''name'') (filter (\<lambda>l. \<not> ready_label l) (label_list issue)) in
         if length remaining \<noteq> length (label_list issue)
         then andthen (issue_call g PATCH path [] (Some (JV_object [(points ''labels'', JV_array remaining)]))) (\<lambda>_. ret ())
         else ret ()) (\<lambda>_.
     andthen (close_with g i ''completed'' issue) (\<lambda>_.
     andthen (issue_call g GET path [] None) (\<lambda>final.
     andthen (check_issue g final i) (\<lambda>_.
       check (closed_as ''completed'' final \<and> \<not> list_ex ready_label (label_list final)) completion_error))))))"

lemma complete_issue_finish:
  "complete_issue g i = andthen (issue_call g GET (issue_path (fid_repository i) (fid_issue_number i)) [] None) (\<lambda>issue.
     andthen (check_issue g issue i) (\<lambda>_. finish_issue g i issue))"
  by (simp add: complete_issue_def finish_issue_def Let_def)

lemma finish_requests: "keeps (logs (completion_request i issue)) (finish_issue g i issue)"
  unfolding finish_issue_def Let_def
  by (intro provider_intros completion_steps keeps_check_issue)

lemma finish_confirmed:
  assumes "finish_issue g i issue s = (Inr u, s')"
  shows "\<exists>new final. ses_log s' = ses_log s @ new @ [\<lparr>req_verb = GET,
      req_path = issue_path (fid_repository i) (fid_issue_number i), req_query = [], req_body = None, req_answer = Inr final\<rparr>] \<and>
    identified g final i \<and> closed_as ''completed'' final \<and> \<not> list_ex ready_label (label_list final)"
proof -
  let ?path = "issue_path (fid_repository i) (fid_issue_number i)"
  let ?labels = "let remaining = map (field ''name'') (filter (\<lambda>l. \<not> ready_label l) (label_list issue)) in
         if length remaining \<noteq> length (label_list issue)
         then andthen (issue_call g PATCH ?path [] (Some (JV_object [(points ''labels'', JV_array remaining)]))) (\<lambda>_. ret ())
         else ret ()"
  let ?marker = "''<!-- factory-delivery:'' @ fid_task i @ '' -->''"
  obtain u1 s1 u2 s2 u3 s3 final s4 u4 s5 where
    1: "ensure_comment g i ?marker (delivery_comment i) s = (Inr u1, s1)" and
    2: "?labels s1 = (Inr u2, s2)" and
    3: "close_with g i ''completed'' issue s2 = (Inr u3, s3)" and
    4: "issue_call g GET ?path [] None s3 = (Inr final, s4)" and
    5: "check_issue g final i s4 = (Inr u4, s5)" and
    6: "check (closed_as ''completed'' final \<and> \<not> list_ex ready_label (label_list final)) completion_error s5 = (Inr u, s')"
    using assms unfolding finish_issue_def Let_def andthen_Inr by blast
  have "logs (completion_request i issue) s s1" by (rule keepsD [OF completion_steps(2) 1])
  moreover have "keeps (logs (completion_request i issue)) ?labels"
    unfolding Let_def by (intro provider_intros completion_steps)
  then have "logs (completion_request i issue) s1 s2" using 2 by (rule keepsD)
  moreover have "logs (completion_request i issue) s2 s3" by (rule keepsD [OF completion_steps(3) 3])
  ultimately have "logs (completion_request i issue) s s3" using logged.R_trans by blast
  then obtain new where "ses_log s3 = ses_log s @ new" by (auto simp: logs_def)
  then show ?thesis
    using issue_call_log [OF 4] check_issue_state [OF 5] check_issue_Inr [OF 5] 6
    by (auto split: if_splits intro!: exI [of _ new] exI [of _ final])
qed

text \<open>A completion: one look, whose answer must identify the issue before anything is written.\<close>

lemma complete_cases:
  assumes "complete_issue g i s = (r, s')"
  shows "\<exists>first rest. ses_log s' = ses_log s @ first # rest \<and>
    req_verb first = GET \<and> req_path first = issue_path (fid_repository i) (fid_issue_number i) \<and>
    (rest = [] \<or> (\<exists>issue. req_answer first = Inr issue \<and> identified g issue i \<and>
       list_all (completion_request i issue) rest)) \<and>
    (\<forall>u. r = Inr u \<longrightarrow> (\<exists>before final. rest = before @ [\<lparr>req_verb = GET,
        req_path = issue_path (fid_repository i) (fid_issue_number i), req_query = [], req_body = None, req_answer = Inr final\<rparr>] \<and>
      identified g final i \<and> closed_as ''completed'' final \<and> \<not> list_ex ready_label (label_list final)))"
proof -
  let ?path = "issue_path (fid_repository i) (fid_issue_number i)"
  obtain a s1 where 1: "issue_call g GET ?path [] None s = (a, s1)" by fastforce
  from issue_call_log [OF this] obtain x where x: "ses_log s1 = ses_log s @
      [\<lparr>req_verb = GET, req_path = ?path, req_query = [], req_body = None, req_answer = x\<rparr>]" "\<forall>v. a = Inr v \<longrightarrow> x = Inr v" by blast
  let ?first = "\<lparr>req_verb = GET, req_path = ?path, req_query = [], req_body = None, req_answer = x\<rparr>"
  consider e where "r = Inl e" "s' = s1"
    | issue where "a = Inr issue" "identified g issue i" "finish_issue g i issue s1 = (r, s')"
  proof (cases a)
    case (Inl e)
    then show thesis using that(1) [of e] assms 1 by (simp add: complete_issue_finish andthen_def)
  next
    case (Inr issue)
    obtain b s2 where c: "check_issue g issue i s1 = (b, s2)" by fastforce
    then have s2: "s2 = s1" by (rule check_issue_state)
    show thesis
    proof (cases b)
      case (Inl e)
      then show thesis using that(1) [of e] assms 1 Inr c s2 by (simp add: complete_issue_finish andthen_def)
    next
      case (Inr u)
      have "identified g issue i" using c unfolding Inr by (rule check_issue_Inr)
      then show thesis
        using that(2) [of issue] assms 1 \<open>a = Inr issue\<close> c s2 Inr by (simp add: complete_issue_finish andthen_def)
    qed
  qed
  then show ?thesis
  proof cases
    case (1 e)
    then show ?thesis using x by (intro exI [of _ ?first] exI [of _ "[]"]) simp
  next
    case (2 issue)
    from keepsD [OF finish_requests 2(3)] obtain rest where rest: "ses_log s' = ses_log s1 @ rest"
      "list_all (completion_request i issue) rest" by (auto simp: logs_def)
    have "\<exists>before final. rest = before @ [\<lparr>req_verb = GET, req_path = ?path, req_query = [], req_body = None,
        req_answer = Inr final\<rparr>] \<and> identified g final i \<and> closed_as ''completed'' final \<and>
        \<not> list_ex ready_label (label_list final)" if "r = Inr u" for u
      using finish_confirmed [OF 2(3) [unfolded that]] rest(1) by auto
    then show ?thesis using x rest 2(1,2) by (intro exI [of _ ?first] exI [of _ rest]) simp
  qed
qed

section \<open>Comments that are found again\<close>

lemma whole_line: "m \<noteq> [] \<Longrightarrow> list_all (\<lambda>n. \<not> breaks_line n) m \<Longrightarrow> point_lines m = [m]"
proof (induction m)
  case (Cons c m)
  then show ?case by (cases "m = []") simp_all
qed simp

lemma last_line:
  assumes "m \<noteq> []" "list_all (\<lambda>n. \<not> breaks_line n) m"
  shows "m \<in> set (tl (point_lines (xs @ 10 # m)))"
proof (induction xs rule: length_induct)
  case (1 xs)
  show ?case
  proof (cases xs)
    case Nil
    then show ?thesis using whole_line [OF assms] by (simp add: breaks_line_def)
  next
    case (Cons c ys)
    have IH: "m \<in> set (tl (point_lines (zs @ 10 # m)))" if "length zs < length xs" for zs
      using 1 that by blast
    have tl: "m \<in> set (point_lines (zs @ 10 # m))" if "length zs < length xs" for zs
      using IH [OF that] by (cases "point_lines (zs @ 10 # m)") auto
    show ?thesis
    proof (cases "c = 13 \<and> hd (ys @ 10 # m) = 10")
      case True
      then show ?thesis using Cons whole_line [OF assms] tl [of "tl ys"] by (cases ys) (auto simp: breaks_line_def)
    next
      case False
      then show ?thesis using Cons tl [of ys] IH [of ys] by (auto split: list.splits)
    qed
  qed
qed

definition unbroken :: "string \<Rightarrow> bool" where
  "unbroken s \<longleftrightarrow> list_all (\<lambda>c. \<not> breaks_line (code_point c)) s"

lemma points_append [simp]: "points (s @ t) = points s @ points t"
  by (simp add: points_def)

lemma unbroken_points: "unbroken s \<Longrightarrow> list_all (\<lambda>n. \<not> breaks_line n) (points s)"
  by (simp add: unbroken_def points_def list_all_iff)

definition delivery_marker :: "feedback_identity \<Rightarrow> string" where
  "delivery_marker i = ''<!-- factory-delivery:'' @ fid_task i @ '' -->''"

lemma marker_found:
  assumes "unbroken (fid_task i)"
  shows "points (delivery_marker i) \<in> set (point_lines (points (delivery_comment i)))"
proof -
  let ?m = "points (delivery_marker i)"
  have "list_all (\<lambda>n. \<not> breaks_line n) ?m"
    by (rule unbroken_points) (use assms in \<open>simp add: delivery_marker_def unbroken_def breaks_line_def code_point_def\<close>)
  moreover have "?m \<noteq> []" by (simp add: delivery_marker_def points_def)
  ultimately have "?m \<in> set (tl (point_lines (xs @ 10 # ?m)))" for xs by (rule last_line [rotated])
  moreover have "\<exists>xs. points (delivery_comment i) = xs @ 10 # ?m"
    by (rule exI [of _ "points (''Factory delivery verified. Task: '' @ fid_task i @ ''; PR: #'' @
        decimal_int (fid_pr_number i) @ ''; commit: '' @ fid_commit_sha i @ ''.'')"])
      (simp add: delivery_comment_def delivery_marker_def points_def code_point_def)
  ultimately have "?m \<in> set (tl (point_lines (points (delivery_comment i))))" by metis
  then show ?thesis by (cases "point_lines (points (delivery_comment i))") auto
qed

text \<open>The comment of a closure has its marker in the same line as its text, so it is never recognised.\<close>

lemma resolution_comment_not_found:
  assumes "unbroken (fid_task i)" "unbroken reason"
  defines "marker \<equiv> ''<!-- factory-resolution:'' @ fid_task i @ '':'' @ reason @ '' -->''"
  shows "points marker \<notin> set (point_lines (points (''Factory resolution: '' @ reason @ ''. '' @ marker)))"
proof -
  let ?c = "''Factory resolution: '' @ reason @ ''. '' @ marker"
  have "unbroken ?c"
    using assms(1,2) by (simp add: marker_def unbroken_def breaks_line_def code_point_def)
  then have "point_lines (points ?c) = [points ?c]"
    by (intro whole_line unbroken_points) (simp_all add: points_def)
  moreover have "length (points marker) < length (points ?c)" by (simp add: points_def)
  ultimately show ?thesis by (metis empty_iff less_irrefl list.set(1) set_ConsD)
qed

end
