(* ===== verification/Github_Issues.thy ===== *)
theory Github_Issues
  imports Github_Client Operational_Policy Planning_Service
begin

text \<open>
  The issue sources: \<^verbatim>\<open>issues.py\<close> over the read client, and \<^verbatim>\<open>project_issues.py\<close>, which binds the tasks of another
  source to registered projects.  The id and the two timestamps of a new task are a parameter.
\<close>

section \<open>Issues (issues.py)\<close>

record issue_settings =
  iss_target :: "string option"
  iss_label :: string
  iss_per_page :: nat

definition make_issue_source :: "string option \<Rightarrow> string \<Rightarrow> int \<Rightarrow> issue_settings" where
  "make_issue_source target label per_page = \<lparr>iss_target = target, iss_label = label,
     iss_per_page = nat (max 1 (min per_page 100))\<rparr>"

definition label_name :: "jvalue \<Rightarrow> jvalue" where
  "label_name l = (if is_object l then field ''name'' l else l)"

definition label_names :: "jvalue \<Rightarrow> nat list list" where
  "label_names item = (case field ''labels'' item of
       JV_array ls \<Rightarrow> filter (\<lambda>ns. ns \<noteq> []) (map text_points_of (filter is_text (map label_name ls)))
     | _ \<Rightarrow> [])"

definition eligible_item :: "string \<Rightarrow> jvalue \<Rightarrow> bool" where
  "eligible_item label item \<longleftrightarrow> is_object item \<and> \<not> has_field ''pull_request'' item \<and>
     says (field ''state'' item) ''open'' \<and> points label \<in> set (label_names item)"

definition issue_kind :: "jvalue \<Rightarrow> task_kind" where
  "issue_kind item = (if points ''factory-operational'' \<in> set (label_names item) then OPERATIONAL else CODE)"

definition raw_body :: "jvalue \<Rightarrow> string" where
  "raw_body item = text_of (text_points_of (field ''body'' item))"

definition issue_body :: "string \<Rightarrow> jvalue \<Rightarrow> string" where
  "issue_body sha item = (if issue_kind item = OPERATIONAL
     then case canonical_operational_body sha (raw_body item) of Inr b \<Rightarrow> b | Inl _ \<Rightarrow> []
     else raw_body item)"

definition issue_target :: "issue_settings \<Rightarrow> string \<Rightarrow> string" where
  "issue_target cfg slug = (case iss_target cfg of None \<Rightarrow> slug | Some t \<Rightarrow> if t = [] then slug else t)"

definition map_issue :: "issue_settings \<Rightarrow> string \<Rightarrow> string \<times> int \<times> int \<Rightarrow> jvalue \<Rightarrow> string \<Rightarrow>
    (py_error, factory_task) outcome" where
  "map_issue cfg sha fresh item slug = (case (as_int (field ''number'' item), field ''title'' item) of
       (Some n, JV_string title) \<Rightarrow>
         if n \<le> 0 then Inl (ValueError ''issue is missing a valid number'')
         else if strip (text_of title) = [] then Inl (ValueError ''issue is missing a title'')
         else tx_step (check_task_source \<lparr>src_provider = ''github'', src_repository = slug, src_issue_number = n\<rparr>) (\<lambda>src.
           check_factory_task \<lparr>task_title = text_of title, task_repository = issue_target cfg slug, task_source = Some src,
             task_id = fst fresh, task_body = issue_body sha item, task_status = Task_DISCOVERED,
             task_labels = map text_of (label_names item), task_kind = issue_kind item, task_blocked_reason = None,
             task_created_at = fst (snd fresh), task_updated_at = snd (snd fresh), task_project = ''ai-factory-lab''\<rparr>)
     | (Some n, _) \<Rightarrow> if n \<le> 0 then Inl (ValueError ''issue is missing a valid number'')
         else Inl (ValueError ''issue is missing a title'')
     | (None, _) \<Rightarrow> Inl (ValueError ''issue is missing a valid number''))"

definition issues_path :: "string \<Rightarrow> nat list" where
  "issues_path slug = points (''/repos/'' @ slug @ ''/issues'')"

definition fetch_page :: "'w provider \<Rightarrow> issue_settings \<Rightarrow> string \<Rightarrow> nat \<Rightarrow> ('w, jvalue list) exchange" where
  "fetch_page g cfg slug page = andthen (read_json g (issues_path slug)
       [(''state'', ''open''), (''per_page'', decimal (iss_per_page cfg)), (''page'', decimal page)]) (\<lambda>v. case v of
     JV_array items \<Rightarrow> ret items | _ \<Rightarrow> raise ProviderRequestError)"

text \<open>The items of one page: a malformed one is skipped.\<close>

fun add_items :: "issue_settings \<Rightarrow> string \<Rightarrow> (nat \<Rightarrow> string \<times> int \<times> int) \<Rightarrow> string \<Rightarrow> jvalue list \<Rightarrow> factory_task list \<Rightarrow>
    (py_error, factory_task list) outcome" where
  "add_items cfg sha fresh slug [] ts = Inr ts"
| "add_items cfg sha fresh slug (item # items) ts =
     (if \<not> eligible_item (iss_label cfg) item then add_items cfg sha fresh slug items ts
      else case map_issue cfg sha (fresh (length ts)) item slug of
        Inr t \<Rightarrow> add_items cfg sha fresh slug items (ts @ [t])
      | Inl e \<Rightarrow> if is_value_error e then add_items cfg sha fresh slug items ts else Inl e)"

fun list_pages :: "'w provider \<Rightarrow> issue_settings \<Rightarrow> string \<Rightarrow> (nat \<Rightarrow> string \<times> int \<times> int) \<Rightarrow> string \<Rightarrow> nat list \<Rightarrow>
    factory_task list \<Rightarrow> ('w, factory_task list) exchange" where
  "list_pages g cfg sha fresh slug [] ts = ret ts"
| "list_pages g cfg sha fresh slug (page # pages) ts =
     andthen (fetch_page g cfg slug page) (\<lambda>items.
       if items = [] then ret ts
       else andthen (from_outcome (add_items cfg sha fresh slug items ts)) (\<lambda>ts'.
         if length items < iss_per_page cfg then ret ts' else list_pages g cfg sha fresh slug pages ts'))"

definition list_open_tasks :: "'w provider \<Rightarrow> issue_settings \<Rightarrow> string \<Rightarrow> (nat \<Rightarrow> string \<times> int \<times> int) \<Rightarrow> repository \<Rightarrow>
    ('w, factory_task list) exchange" where
  "list_open_tasks g cfg sha fresh repo = list_pages g cfg sha fresh (repo_slug repo) [1..<101] []"

definition fetch_issue :: "'w provider \<Rightarrow> repository \<Rightarrow> task_source \<Rightarrow> ('w, jvalue) exchange" where
  "fetch_issue g repo src =
     andthen (read_json g (points (''/repos/'' @ repo_slug repo @ ''/issues/'' @ decimal_int (src_issue_number src))) []) (\<lambda>v.
       if is_object v then ret v else raise ProviderRequestError)"

definition get_issue_task :: "'w provider \<Rightarrow> issue_settings \<Rightarrow> string \<Rightarrow> string \<times> int \<times> int \<Rightarrow> repository \<Rightarrow> task_source \<Rightarrow>
    ('w, factory_task) exchange" where
  "get_issue_task g cfg sha fresh repo src = andthen (fetch_issue g repo src) (\<lambda>v.
     if has_field ''pull_request'' v then raise ProviderRequestError
     else from_outcome (map_issue cfg sha fresh v (repo_slug repo)))"

definition readable_label :: "jvalue \<Rightarrow> bool" where
  "readable_label l \<longleftrightarrow> is_text (label_name l) \<and> text_points_of (label_name l) \<noteq> []"

definition issue_is_eligible :: "'w provider \<Rightarrow> issue_settings \<Rightarrow> repository \<Rightarrow> task_source \<Rightarrow> ('w, bool) exchange" where
  "issue_is_eligible g cfg repo src = andthen (fetch_issue g repo src) (\<lambda>v.
     if has_field ''pull_request'' v then ret False
     else if says (field ''state'' v) ''closed'' then ret False
     else if \<not> says (field ''state'' v) ''open'' then raise ProviderRequestError
     else case field ''labels'' v of
         JV_array ls \<Rightarrow> if \<not> list_all readable_label ls then raise ProviderRequestError
           else ret (points (iss_label cfg) \<in> set (label_names v))
       | _ \<Rightarrow> raise ProviderRequestError)"

section \<open>Issues of registered projects (project_issues.py)\<close>

definition bind_task :: "project_registry \<Rightarrow> factory_task \<Rightarrow> (py_error, factory_task) outcome" where
  "bind_task reg t = (case task_source t of None \<Rightarrow> Inl (ValueError ''project issue has no source'')
     | Some src \<Rightarrow> tx_step (for_repository reg (src_repository src)) (\<lambda>p.
         check_factory_task (t\<lparr>task_repository := prof_repository p, task_project := prof_project_id p\<rparr>)))"

definition bind_listed :: "project_registry \<Rightarrow> project_profile \<Rightarrow> factory_task \<Rightarrow> (py_error, factory_task) outcome" where
  "bind_listed reg p t = (case task_source t of
       None \<Rightarrow> Inl (ValueError ''issue source returned an issue for the wrong repository'')
     | Some src \<Rightarrow> if src_repository src \<noteq> prof_repository p
         then tx_step (for_repository reg (src_repository src)) (\<lambda>_.
           Inl (ValueError ''issue source returned an issue for the wrong repository''))
         else bind_task reg t)"

definition target_repo :: "project_profile \<Rightarrow> repository" where
  "target_repo p = \<lparr>repo_slug = prof_repository p, repo_role = TARGET, repo_default_branch = ''main'', repo_fork_slug = None\<rparr>"

definition list_of_profile :: "'w issue_source \<Rightarrow> project_registry \<Rightarrow> project_profile \<Rightarrow> factory_task list \<Rightarrow>
    ('w, py_error, factory_task list) sx" where
  "list_of_profile src reg p ts =
     andthen (on_error (andthen (iso_list src (target_repo p)) (\<lambda>found. ret (Some found)))
         (\<lambda>e. if e = ProviderRequestError then ret None else raise e)) (\<lambda>found.
       case found of None \<Rightarrow> ret ts
       | Some found \<Rightarrow> each (\<lambda>t ts. andthen (from_outcome (bind_listed reg p t)) (\<lambda>b. ret (ts @ [b]))) found ts)"

definition project_list :: "'w issue_source \<Rightarrow> project_registry \<Rightarrow> repository \<Rightarrow> ('w, py_error, factory_task list) sx" where
  "project_list src reg repo = each (list_of_profile src reg) reg []"

definition project_get :: "'w issue_source \<Rightarrow> project_registry \<Rightarrow> repository \<Rightarrow> task_source \<Rightarrow> ('w, py_error, factory_task) sx" where
  "project_get src reg repo i = (if repo_slug repo \<noteq> src_repository i
     then raise (ValueError ''issue project repository mismatch'')
     else andthen (from_outcome (for_repository reg (src_repository i))) (\<lambda>_.
       andthen (iso_get src repo i) (\<lambda>t. from_outcome (bind_task reg t))))"

definition project_eligible :: "'w issue_source \<Rightarrow> project_registry \<Rightarrow> repository \<Rightarrow> task_source \<Rightarrow> ('w, py_error, bool) sx" where
  "project_eligible src reg repo i = (if repo_slug repo \<noteq> src_repository i
     then raise (ValueError ''issue project repository mismatch'')
     else andthen (from_outcome (for_repository reg (src_repository i))) (\<lambda>_. iso_eligible src repo i))"

end
