(* ===== verification/Source_Facts.thy ===== *)
theory Source_Facts
  imports Github_Facts Github_Issues
begin

text \<open>Tasks that come from the issues of the provider.\<close>

text \<open>A task that an eligible issue of an answered page became.\<close>

definition task_of_issue :: "issue_settings \<Rightarrow> string \<Rightarrow> string \<Rightarrow> request list \<Rightarrow> factory_task \<Rightarrow> bool" where
  "task_of_issue cfg sha slug new t \<longleftrightarrow> (\<exists>c items item n. c \<in> set new \<and> req_path c = issues_path slug \<and>
     req_answer c = Inr (JV_array items) \<and> item \<in> set items \<and> eligible_item (iss_label cfg) item \<and>
     as_int (field ''number'' item) = Some n \<and> 0 < n \<and>
     task_source t = Some \<lparr>src_provider = ''github'', src_repository = slug, src_issue_number = n\<rparr> \<and>
     task_repository t = issue_target cfg slug \<and> task_status t = Task_DISCOVERED \<and> task_kind t = issue_kind item \<and>
     task_body t = issue_body sha item)"

lemma tx_step_value: "tx_step r f = Inr b \<Longrightarrow> \<exists>s. r = Inr s \<and> f s = Inr b"
  by (simp add: tx_step_eq_Inr)

lemma check_task_source_Inr: "check_task_source s = Inr s' \<Longrightarrow> s' = s"
  by (auto simp: check_task_source_def split: if_splits sum.splits)

lemma check_factory_task_Inr: "check_factory_task t = Inr t' \<Longrightarrow> t' = t"
  by (auto simp: check_factory_task_def split: if_splits sum.splits)

lemma map_issue_Inr:
  assumes "map_issue cfg sha fresh item slug = Inr t"
  shows "\<exists>n. as_int (field ''number'' item) = Some n \<and> 0 < n \<and>
    task_source t = Some \<lparr>src_provider = ''github'', src_repository = slug, src_issue_number = n\<rparr> \<and>
    task_repository t = issue_target cfg slug \<and> task_status t = Task_DISCOVERED \<and> task_kind t = issue_kind item \<and>
    task_body t = issue_body sha item"
proof -
  obtain n where n: "as_int (field ''number'' item) = Some n"
    using assms by (auto simp: map_issue_def split: option.splits)
  obtain title where title: "field ''title'' item = JV_string title"
    using assms n by (cases "field ''title'' item") (auto simp: map_issue_def split: if_splits)
  show ?thesis
    using assms unfolding map_issue_def n title
    by (auto simp: n split: if_splits dest!: tx_step_value check_task_source_Inr check_factory_task_Inr)
qed

lemma add_items_member:
  "add_items cfg sha fresh slug items ts = Inr ts' \<Longrightarrow> t \<in> set ts' \<Longrightarrow>
    t \<in> set ts \<or> (\<exists>item \<in> set items. \<exists>f. eligible_item (iss_label cfg) item \<and> map_issue cfg sha f item slug = Inr t)"
proof (induction cfg sha fresh slug items ts rule: add_items.induct)
  case (2 cfg sha fresh slug item items ts)
  show ?case
  proof (cases "eligible_item (iss_label cfg) item")
    case True
    show ?thesis
    proof (cases "map_issue cfg sha (fresh (length ts)) item slug")
      case (Inl e)
      then show ?thesis using 2 True by (auto split: if_splits)
    next
      case (Inr u)
      then show ?thesis using 2 True by (cases "fresh (length ts)") auto
    qed
  qed (use 2 in auto)
qed simp

lemma fetch_page_log:
  assumes "fetch_page g cfg slug page s = (r, s')"
  shows "\<exists>c. ses_log s' = ses_log s @ [c] \<and> req_verb c = GET \<and> req_path c = issues_path slug \<and>
    (\<forall>items. r = Inr items \<longrightarrow> req_answer c = Inr (JV_array items))"
  using assms unfolding fetch_page_def
proof (cases rule: andthen_cases)
  case (1 e)
  then show ?thesis
    by (auto simp: read_json_def andthen_def ask_def split: prod.splits sum.splits)
next
  case (2 v s1)
  from read_value [OF 2(1)] 2(2) show ?thesis by (cases v) auto
qed

lemma add_items_tasks:
  assumes "req_answer c = Inr (JV_array items)" "req_path c = issues_path slug"
    "add_items cfg sha fresh slug items ts = Inr ts'" "t \<in> set ts'" "t \<notin> set ts"
  shows "task_of_issue cfg sha slug (c # rest) t"
proof -
  obtain item f where "item \<in> set items" "eligible_item (iss_label cfg) item" "map_issue cfg sha f item slug = Inr t"
    using add_items_member [OF assms(3,4)] assms(5) by blast
  with map_issue_Inr [OF this(3)] assms(1,2) show ?thesis
    unfolding task_of_issue_def by (metis list.set_intros(1))
qed

lemma task_of_issue_later: "task_of_issue cfg sha slug new t \<Longrightarrow> task_of_issue cfg sha slug (c # new) t"
  unfolding task_of_issue_def by (metis list.set_intros(2))

lemma list_pages_tasks:
  "list_pages g cfg sha fresh slug pages ts s = (r, s') \<Longrightarrow>
    \<exists>new. ses_log s' = ses_log s @ new \<and> list_all asks_only new \<and> length new \<le> length pages \<and>
      (\<forall>us. r = Inr us \<longrightarrow> (\<forall>t \<in> set us. t \<in> set ts \<or> task_of_issue cfg sha slug new t))"
proof (induction pages arbitrary: ts s)
  case (Cons page pages)
  obtain a s1 where f: "fetch_page g cfg slug page s = (a, s1)" by fastforce
  from fetch_page_log [OF f] obtain c where c: "ses_log s1 = ses_log s @ [c]" "req_verb c = GET"
    "req_path c = issues_path slug" "\<forall>items. a = Inr items \<longrightarrow> req_answer c = Inr (JV_array items)" by blast
  have get: "asks_only c" using c(2) by (simp add: asks_only_def)
  note here = add_items_tasks [OF _ c(3)]
  consider (stop) "s' = s1" "\<forall>us. r = Inr us \<longrightarrow> (\<forall>t \<in> set us. t \<in> set ts \<or> task_of_issue cfg sha slug [c] t)"
    | (more) items ts' where "a = Inr items" "add_items cfg sha fresh slug items ts = Inr ts'"
        "list_pages g cfg sha fresh slug pages ts' s1 = (r, s')"
  proof (cases a)
    case (Inl e)
    then show thesis using stop Cons.prems f by (auto simp: andthen_def)
  next
    case (Inr items)
    show thesis
    proof (cases "items = []")
      case True
      then show thesis using stop Cons.prems f Inr by (auto simp: andthen_def)
    next
      case False
      note h = here [OF c(4) [rule_format, OF Inr]]
      have "list_pages g cfg sha fresh slug (page # pages) ts s = (case add_items cfg sha fresh slug items ts of Inl e \<Rightarrow> (Inl e, s1)
          | Inr us \<Rightarrow> if length items < iss_per_page cfg then (Inr us, s1) else list_pages g cfg sha fresh slug pages us s1)"
        using f Inr False
        by (cases "add_items cfg sha fresh slug items ts") (simp_all add: andthen_def from_outcome_def)
      note eq = this [unfolded Cons.prems]
      show thesis
      proof (cases "add_items cfg sha fresh slug items ts")
        case (Inl e)
        then show thesis using stop eq by simp
      next
        case added: (Inr us)
        show thesis
        proof (cases "length items < iss_per_page cfg")
          case True
          then show thesis using stop eq added h [OF added, where rest = "[]"] by auto
        next
          case False
          then show thesis using more [OF Inr added] eq added by simp
        qed
      qed
    qed
  qed
  then show ?case
  proof cases
    case stop
    then show ?thesis using c(1) get by (intro exI [of _ "[c]"]) simp
  next
    case more
    from Cons.IH [OF more(3)] obtain new where new: "ses_log s' = ses_log s1 @ new" "list_all asks_only new"
      "length new \<le> length pages" "\<forall>us. r = Inr us \<longrightarrow> (\<forall>t \<in> set us. t \<in> set ts' \<or> task_of_issue cfg sha slug new t)" by blast
    have "\<forall>us. r = Inr us \<longrightarrow> (\<forall>t \<in> set us. t \<in> set ts \<or> task_of_issue cfg sha slug (c # new) t)"
    proof (intro allI impI ballI)
      fix us t assume "r = Inr us" "t \<in> set us"
      then consider "t \<in> set ts" | "t \<in> set ts'" "t \<notin> set ts" | "task_of_issue cfg sha slug new t" using new(4) by blast
      then show "t \<in> set ts \<or> task_of_issue cfg sha slug (c # new) t"
        using here [OF c(4) [rule_format, OF more(1)] more(2)] task_of_issue_later by cases auto
    qed
    then show ?thesis using c(1) get new(1-3) by (intro exI [of _ "c # new"]) simp
  qed
qed auto

lemma operational_body:
  "task_of_issue cfg sha slug new t \<Longrightarrow> task_kind t = OPERATIONAL \<Longrightarrow>
    task_body t = [] \<or> (\<exists>raw. canonical_operational_body sha raw = Inr (task_body t))"
proof -
  assume "task_of_issue cfg sha slug new t" "task_kind t = OPERATIONAL"
  then obtain item where "issue_kind item = OPERATIONAL" "task_body t = issue_body sha item"
    unfolding task_of_issue_def by metis
  then show ?thesis by (cases "canonical_operational_body sha (raw_body item)") (auto simp: issue_body_def)
qed

end
