(* ===== verification/Github_Properties.thy ===== *)
theory Github_Properties
  imports Issue_Facts Source_Facts
begin

text \<open>The guarantees of the adapters of the provider.\<close>

section \<open>Issues\<close>

text \<open>C14. Whatever the provider answers, listing the open issues only reads, asks for at most one hundred
  pages, and every task it returns is an issue of an answered page: open, no pull request, with the label the
  factory waits for and a positive number, which is the identity of the task.  Of an operational issue the task keeps
  only the canonical text of a valid declaration, never its prose.\<close>

theorem issues_eligible:
  assumes "list_open_tasks g cfg sha fresh repo s = (r, s')"
  shows "\<exists>new. ses_log s' = ses_log s @ new \<and> list_all asks_only new \<and> length new \<le> 100 \<and>
    (\<forall>ts. r = Inr ts \<longrightarrow> (\<forall>t \<in> set ts. task_of_issue cfg sha (repo_slug repo) new t \<and>
      (task_kind t = OPERATIONAL \<longrightarrow> task_body t = [] \<or> (\<exists>raw. canonical_operational_body sha raw = Inr (task_body t)))))"
proof -
  from list_pages_tasks [OF assms [unfolded list_open_tasks_def]] obtain new where
    "ses_log s' = ses_log s @ new" "list_all asks_only new" "length new \<le> 100"
    "\<forall>ts. r = Inr ts \<longrightarrow> (\<forall>t \<in> set ts. task_of_issue cfg sha (repo_slug repo) new t)" by auto
  then show ?thesis using operational_body by (intro exI [of _ new]) blast
qed

text \<open>A provider that answers from a script.\<close>

definition scripted_provider :: "(fault, jvalue) outcome list provider" where
  "scripted_provider = \<lparr>prv_request = \<lambda>_ _ _ _ w. (case w of a # as \<Rightarrow> (a, as) | [] \<Rightarrow> (Inl Untranslated, [])),
     prv_str = \<lambda>_. [],
     prv_split = \<lambda>_. Inr \<lparr>url_scheme = ''https'', url_netloc = [], url_host = Some ''github.com'', url_user = None,
       url_password = None, url_query = [], url_fragment = [], url_path = ''/o/r/issues/4'', url_port = Inr None, url_global = None\<rparr>\<rparr>"

definition script :: "(fault, jvalue) outcome list \<Rightarrow> ((fault, jvalue) outcome list, request) recorded" where
  "script as = \<lparr>ses_world = as, ses_log = []\<rparr>"

definition obj :: "(string \<times> jvalue) list \<Rightarrow> jvalue" where
  "obj kvs = JV_object (map (\<lambda>(k, v). (points k, v)) kvs)"

definition str :: "string \<Rightarrow> jvalue" where
  "str s = JV_string (points s)"

definition ready_issue :: jvalue where
  "ready_issue = obj [(''number'', JV_number ''4''), (''title'', str ''t''), (''state'', str ''open''),
     (''labels'', JV_array [obj [(''name'', str ''factory-ready'')]]), (''html_url'', str ''u'')]"

definition sample_settings :: issue_settings where
  "sample_settings = make_issue_source None ''factory-ready'' 100"

definition sample_target :: repository where
  "sample_target = \<lparr>repo_slug = ''o/r'', repo_role = TARGET, repo_default_branch = ''main'', repo_fork_slug = None\<rparr>"

definition listing :: "(py_error, factory_task list) outcome \<times> ((fault, jvalue) outcome list, request) recorded" where
  "listing = list_open_tasks scripted_provider sample_settings ''s'' (\<lambda>n. (''id'', 1, 1)) sample_target
     (script [Inr (JV_array [JV_null, ready_issue])])"

lemma listed: "map_sum id (map task_source) (fst listing) =
  Inr [Some \<lparr>src_provider = ''github'', src_repository = ''o/r'', src_issue_number = 4\<rparr>]"
  by code_simp

theorem issues_eligible_witness:
  "\<exists>new t. ses_log (snd listing) = new \<and> length new \<le> 100 \<and> task_of_issue sample_settings ''s'' ''o/r'' new t"
proof -
  obtain t ts where t: "fst listing = Inr (t # ts)"
    using listed by (cases "fst listing") auto
  have "list_open_tasks scripted_provider sample_settings ''s'' (\<lambda>n. (''id'', 1, 1)) sample_target
      (script [Inr (JV_array [JV_null, ready_issue])]) = (Inr (t # ts), snd listing)"
    using t unfolding listing_def by (metis prod.collapse)
  from issues_eligible [OF this] show ?thesis
    by (auto simp: script_def sample_target_def)
qed

section \<open>Evidence of a delivery\<close>

text \<open>C11. Evidence of a delivery is complete only when the provider said all of it.  Gathering it only reads,
  and complete evidence means: the project is registered for the repository; the pull request, read by its number,
  is merged and closed, with exactly the commit and the branch of the identity, from and into this repository and
  into the base of the project; its merge commit exists; when the project asks for provider checks, each of the
  configured ones, or when none is configured each of those the protection of the base branch lists (none
  when the provider says the branch has no protection), succeeded on exactly this commit; and when it asks for a deployment, one of the merge commit succeeded.\<close>

theorem delivery_verified:
  assumes "delivery_facts g reg i s = (r, s')"
  shows "logs asks_only s s' \<and> (\<forall>e. r = Inr e \<and> delivery_complete e \<longrightarrow> (\<exists>profile pr sha commit new.
    resolve_project reg (fid_project i) (Some (fid_repository i)) = Inr profile \<and>
    ses_log s' = ses_log s @ new \<and> provider_said new (pull_path (fid_repository i) (fid_pr_number i)) [] pr \<and>
    equals_int (field ''number'' pr) (fid_pr_number i) \<and> merged_as g i (prof_base_ref profile) pr \<and>
    field ''merge_commit_sha'' pr = JV_string sha \<and>
    provider_said new (repo_path (fid_repository i) @ points ''/commits/'' @ sha) [] commit \<and> field ''sha'' commit = JV_string sha \<and>
    (prof_provider_ci_required profile \<longrightarrow> ci_verified new profile i) \<and>
    (prof_deploy_required profile \<longrightarrow> deployment_succeeded new (repo_path (fid_repository i)) sha)))"
  using keepsD [OF evidence_asks assms] delivery_cases [of g reg i s _ s'] assms by blast

definition delivered :: feedback_identity where
  "delivered = \<lparr>fid_project = ''p'', fid_repository = ''o/r'', fid_issue_number = 4, fid_task = ''a'', fid_run = ''r'',
     fid_workspace = ''w'', fid_commit_sha = ''c'', fid_pr_number = 7, fid_branch = ''f/a'', fid_sprint = None,
     fid_provider = None, fid_item = None\<rparr>"

definition checked_project :: project_profile where
  "checked_project = \<lparr>prof_project_id = ''p'', prof_repository = ''o/r'', prof_checkout = ''/c'', prof_base_ref = ''main'',
     prof_gates = [], prof_context_profile = [], prof_deploy_policy = [], prof_git_host = [], prof_deploy_required = True,
     prof_provider_ci_required = True, prof_required_ci_checks = []\<rparr>"

definition part :: "(string \<times> jvalue) list \<Rightarrow> jvalue" where
  "part kvs = obj ((''repo'', obj [(''full_name'', str ''o/r'')]) # kvs)"

definition delivery_script :: "(fault, jvalue) outcome list" where
  "delivery_script = [
     Inr (obj [(''number'', JV_number ''7''), (''head'', part [(''sha'', str ''c''), (''ref'', str ''f/a'')]),
       (''base'', part [(''ref'', str ''main'')]), (''merged'', JV_bool True), (''state'', str ''closed''),
       (''merged_at'', str ''t''), (''merge_commit_sha'', str ''m'')]),
     Inr (obj [(''sha'', str ''m'')]),
     Inr (obj [(''contexts'', JV_array [str ''k''])]),
     Inr (obj [(''statuses'', JV_array [])]),
     Inr (obj [(''total_count'', JV_number ''1''), (''check_runs'', JV_array [obj [(''id'', JV_number ''1''), (''name'', str ''k''),
       (''head_sha'', str ''c''), (''status'', str ''completed''), (''conclusion'', str ''success'')]])]),
     Inr (JV_array [obj [(''id'', JV_number ''2'')]]),
     Inr (JV_array [obj [(''state'', str ''success'')]])]"

definition gathering :: "(py_error, delivery_evidence) outcome \<times> ((fault, jvalue) outcome list, request) recorded" where
  "gathering = delivery_facts scripted_provider [checked_project] delivered (script delivery_script)"

lemma gathered: "case fst gathering of Inl _ \<Rightarrow> False | Inr e \<Rightarrow> delivery_complete e"
  by code_simp

theorem delivery_verified_witness:
  "\<exists>profile pr new. ses_log (snd gathering) = new \<and> merged_as scripted_provider delivered (prof_base_ref profile) pr \<and>
    resolve_project [checked_project] ''p'' (Some ''o/r'') = Inr profile \<and>
    prof_required_ci_checks profile = [] \<and> ci_verified new profile delivered"
proof -
  obtain e where e: "fst gathering = Inr e" "delivery_complete e"
    using gathered by (cases "fst gathering") auto
  have "delivery_facts scripted_provider [checked_project] delivered (script delivery_script) = (Inr e, snd gathering)"
    using e(1) unfolding gathering_def by (metis prod.collapse)
  moreover have "resolve_project [checked_project] ''p'' (Some ''o/r'') = Inr checked_project" by code_simp
  moreover have "prof_provider_ci_required checked_project" "prof_required_ci_checks checked_project = []"
    by (simp_all add: checked_project_def)
  ultimately show ?thesis
    using delivery_verified e(2) by (fastforce simp: script_def delivered_def)
qed

section \<open>Pull requests\<close>

text \<open>C13. Opening a pull request posts once and never again: after the one request with the title, the branches and
  the body of the factory there is at most one lookup.  A pull request is returned only when an answer of the
  provider confirmed it as open, with a positive number, from this branch of this repository into the
  expected base; it carries the task and the run of the request, and never counts as merged.\<close>

theorem pull_request_confirmed:
  assumes "open_pull_request g now pr s = (r, s')"
  shows "\<exists>post rest. ses_log s' = ses_log s @ post # rest \<and>
    req_verb post = POST \<and> req_path post = pulls_path (pr_repository pr) \<and> req_body post = Some (pr_payload pr) \<and>
    length rest \<le> 1 \<and> list_all asks_only rest \<and>
    (\<forall>p. r = Inr p \<longrightarrow> same_identity pr p \<and> confirmed_by (post # rest) pr p)"
  using assms by (rule open_log)

definition wanted :: pull_request where
  "wanted = \<lparr>pr_repository = ''o/r'', pr_head_branch = ''f/a'', pr_base_branch = ''main'', pr_title = ''t'', pr_body = [],
     pr_number = None, pr_url = None, pr_task_id = Some ''a'', pr_run_id = Some ''r'', pr_opened_at = 1, pr_merged = False,
     pr_commit_sha = None\<rparr>"

text \<open>The request fails because the pull request exists; a pull request into another base is passed over.\<close>

definition pr_opening :: "(py_error, pull_request) outcome \<times> ((fault, jvalue) outcome list, request) recorded" where
  "pr_opening = open_pull_request scripted_provider 1 wanted (script [Inl (Request_fault 422),
     Inr (JV_array (map (\<lambda>(n, b). obj [(''state'', str ''open''), (''number'', JV_number n), (''head'', part [(''ref'', str ''f/a'')]),
       (''base'', obj [(''ref'', str b)])]) [(''8'', ''dev''), (''7'', ''main'')]))])"

lemma opened: "case fst pr_opening of Inl _ \<Rightarrow> False | Inr p \<Rightarrow> pr_number p = Some 7"
  by code_simp

theorem pull_request_confirmed_witness:
  "\<exists>post rest p. ses_log (snd pr_opening) = post # rest \<and> length rest \<le> 1 \<and> fst pr_opening = Inr p \<and>
    pr_number p = Some 7 \<and> confirmed_by (post # rest) wanted p"
proof -
  obtain p where p: "fst pr_opening = Inr p" "pr_number p = Some 7"
    using opened by (cases "fst pr_opening") auto
  have "open_pull_request scripted_provider 1 wanted (script [Inl (Request_fault 422),
     Inr (JV_array (map (\<lambda>(n, b). obj [(''state'', str ''open''), (''number'', JV_number n), (''head'', part [(''ref'', str ''f/a'')]),
       (''base'', obj [(''ref'', str b)])]) [(''8'', ''dev''), (''7'', ''main'')]))]) = (Inr p, snd pr_opening)"
    using p(1) unfolding pr_opening_def by (metis prod.collapse)
  from pull_request_confirmed [OF this] p show ?thesis by (auto simp: script_def)
qed

section \<open>Completed issues\<close>

text \<open>C12. Completing an issue never writes before it knows the issue: everything after the first look happens only
  when its answer is the issue of the identity, by number and URL and not a pull request.  All it may
  write is its comment, the labels that answer gave this issue, in their order and without \<open>factory-ready\<close>, and the
  closure as completed, on this issue.  It returns only
  after a last look confirmed the same issue as closed, completed and without that label.\<close>

theorem issue_completed:
  assumes "complete_issue g i s = (r, s')"
  shows "\<exists>first rest. ses_log s' = ses_log s @ first # rest \<and>
    req_verb first = GET \<and> req_path first = issue_path (fid_repository i) (fid_issue_number i) \<and>
    (rest = [] \<or> (\<exists>issue. req_answer first = Inr issue \<and> identified g issue i \<and>
       list_all (completion_request i issue) rest)) \<and>
    (\<forall>u. r = Inr u \<longrightarrow> (\<exists>before final. rest = before @ [\<lparr>req_verb = GET,
        req_path = issue_path (fid_repository i) (fid_issue_number i), req_query = [], req_body = None, req_answer = Inr final\<rparr>] \<and>
      identified g final i \<and> closed_as ''completed'' final \<and> \<not> list_ex ready_label (label_list final)))"
  using assms by (rule complete_cases)

definition closed_issue_json :: jvalue where
  "closed_issue_json = obj [(''number'', JV_number ''4''), (''state'', str ''closed''), (''state_reason'', str ''completed''),
     (''labels'', JV_array []), (''html_url'', str ''u'')]"

definition completion :: "(py_error, unit) outcome \<times> ((fault, jvalue) outcome list, request) recorded" where
  "completion = complete_issue scripted_provider delivered (script [Inr ready_issue, Inr (JV_array []), Inr JV_null, Inr JV_null,
     Inr closed_issue_json, Inr closed_issue_json])"

lemma points_eq [simp]: "points s = points t \<longleftrightarrow> s = t"
  by (simp add: points_def inj_map_eq_map inj_def code_point_def)

lemma completed: "fst completion = Inr ()"
proof -
  have fields: "field ''labels'' ready_issue = JV_array [obj [(''name'', str ''factory-ready'')]]"
    "field ''html_url'' ready_issue = str ''u''" "field ''number'' ready_issue = JV_number ''4''"
    "field ''state'' ready_issue = str ''open''" "is_object ready_issue" "\<not> has_field ''pull_request'' ready_issue"
    "field ''labels'' closed_issue_json = JV_array []" "field ''html_url'' closed_issue_json = str ''u''"
    "field ''number'' closed_issue_json = JV_number ''4''" "field ''state'' closed_issue_json = str ''closed''"
    "field ''state_reason'' closed_issue_json = str ''completed''"
    "is_object closed_issue_json" "\<not> has_field ''pull_request'' closed_issue_json"
    "field ''name'' (obj [(''name'', str ''factory-ready'')]) = str ''factory-ready''"
    "is_object (obj [(''name'', str ''factory-ready'')])"
    by (simp_all add: ready_issue_def closed_issue_json_def obj_def field_def has_field_def is_object_def entry_def)
  have four: "equals_int (JV_number ''4'') 4" by code_simp
  have url: "decimal_int 4 = ''4''" by code_simp
  have pages: "[Suc 0..<101] = Suc 0 # [2..<101::nat]" by (simp add: upt_rec)
  show ?thesis
    by (simp add: completion_def script_def complete_issue_def issue_call_def write_call_def ask_def andthen_def
        scripted_provider_def check_issue_def check_identity_def unhashable_def names_issue_def issue_matches_def provider_url_def ensure_comment_def has_comment_def
        comment_page_def close_with_def closed_as_def label_list_def ready_label_def Let_def fields [unfolded str_def] four url pages
        says_def str_def delivered_def is_text_def)
qed

theorem issue_completed_witness:
  "\<exists>first before final. ses_log (snd completion) = first # before @ [\<lparr>req_verb = GET, req_path = issue_path ''o/r'' 4,
      req_query = [], req_body = None, req_answer = Inr final\<rparr>] \<and>
    closed_as ''completed'' final \<and> (\<exists>issue. req_answer first = Inr issue \<and> list_all (completion_request delivered issue) before)"
proof -
  have "complete_issue scripted_provider delivered (script [Inr ready_issue, Inr (JV_array []), Inr JV_null, Inr JV_null,
     Inr closed_issue_json, Inr closed_issue_json]) = (Inr (), snd completion)"
    using completed unfolding completion_def by (metis prod.collapse)
  from issue_completed [OF this] show ?thesis
    by (auto simp: script_def delivered_def)
qed

text \<open>C15. A completion that is repeated does not comment again.  When the first page of comments holds the
  comment that a completion posts, as an object with exactly that body, the next completion finds its marker in it:
  it reads that page and posts nothing.  The task id must not contain a line break.\<close>

theorem comment_posted_once:
  assumes "unbroken (fid_task i)"
    and "prv_request g GET (comments_path (fid_repository i) (fid_issue_number i))
      [(''per_page'', ''100''), (''page'', ''1'')] None (ses_world s) = (Inr (JV_array cs), w)"
    and "c \<in> set cs" "is_object c" "field ''body'' c = JV_string (points (delivery_comment i))"
  shows "ensure_comment g i (''<!-- factory-delivery:'' @ fid_task i @ '' -->'') (delivery_comment i) s =
    (Inr (), \<lparr>ses_world = w, ses_log = ses_log s @ [\<lparr>req_verb = GET,
      req_path = comments_path (fid_repository i) (fid_issue_number i), req_query = [(''per_page'', ''100''), (''page'', ''1'')],
      req_body = None, req_answer = Inr (JV_array cs)\<rparr>]\<rparr>)"
proof -
  let ?m = "''<!-- factory-delivery:'' @ fid_task i @ '' -->''"
  have "points ?m \<in> set (point_lines (points (delivery_comment i)))"
    using marker_found [OF assms(1)] unfolding delivery_marker_def .
  then have "list_ex (\<lambda>c. is_object c \<and> is_text (field ''body'' c) \<and>
      points ?m \<in> set (point_lines (text_points_of (field ''body'' c)))) cs"
    using assms(3-5) by (auto simp: list_ex_iff is_text_def text_points_of_def)
  moreover have "[1..<101] = 1 # [2..<101::nat]" by (simp add: upt_rec)
  moreover have "decimal 1 = ''1''" by code_simp
  ultimately show ?thesis
    using assms(2) by (simp add: ensure_comment_def has_comment_def comment_page_def issue_call_def write_call_def ask_def
        andthen_def Let_def)
qed

theorem comment_posted_once_witness:
  "ensure_comment scripted_provider delivered (''<!-- factory-delivery:'' @ ''a'' @ '' -->'') (delivery_comment delivered)
      (script [Inr (JV_array [obj [(''body'', str (delivery_comment delivered))]])]) =
    (Inr (), \<lparr>ses_world = [], ses_log = [\<lparr>req_verb = GET, req_path = comments_path ''o/r'' 4,
      req_query = [(''per_page'', ''100''), (''page'', ''1'')], req_body = None,
      req_answer = Inr (JV_array [obj [(''body'', str (delivery_comment delivered))]])\<rparr>]\<rparr>)"
proof -
  let ?c = "obj [(''body'', str (delivery_comment delivered))]"
  have 1: "unbroken (fid_task delivered)" by (simp add: unbroken_def delivered_def breaks_line_def code_point_def)
  have 2: "prv_request scripted_provider GET (comments_path (fid_repository delivered) (fid_issue_number delivered))
      [(''per_page'', ''100''), (''page'', ''1'')] None (ses_world (script [Inr (JV_array [?c])])) = (Inr (JV_array [?c]), [])"
    by (simp add: scripted_provider_def script_def)
  have 3: "is_object ?c" "field ''body'' ?c = JV_string (points (delivery_comment delivered))"
    by (simp_all add: obj_def is_object_def field_def entry_def str_def)
  from comment_posted_once [OF 1 2 _ 3] show ?thesis by (simp add: delivered_def script_def)
qed

end
