(* ===== verification/Text_Matching.thy ===== *)
theory Text_Matching
  imports Recorded_Calls "HOL-Library.Sublist"
begin

text \<open>
  Searching and replacing in text given by its code points: \<open>str.replace\<close>, \<open>re.sub\<close> with patterns that are
  fixed heads followed by greedy runs of classes, and \<open>str.split\<close> at whitespace.  What a replacement leaves.
\<close>

section \<open>Patterns\<close>

text \<open>A pattern names the classes of its first characters and then runs of classes with their minimal
  lengths; consecutive classes are disjoint, so that a greedy run is never given back.\<close>

record 'a pattern =
  pat_heads :: "('a \<Rightarrow> bool) list"
  pat_runs :: "(('a \<Rightarrow> bool) \<times> nat) list"

fun run_lengths :: "(('a \<Rightarrow> bool) \<times> nat) list \<Rightarrow> 'a list \<Rightarrow> nat option" where
  "run_lengths [] s = Some 0"
| "run_lengths ((c, k) # rs) s = (let n = length (takeWhile c s) in
     if n < k then None else map_option (\<lambda>m. n + m) (run_lengths rs (drop n s)))"

fun heads_match :: "('a \<Rightarrow> bool) list \<Rightarrow> 'a list \<Rightarrow> bool" where
  "heads_match [] s = True"
| "heads_match (p # ps) [] = False"
| "heads_match (p # ps) (c # s) = (p c \<and> heads_match ps s)"

text \<open>The length of the match at the head of the text; 0 when there is none.\<close>

definition match_length :: "'a pattern \<Rightarrow> 'a list \<Rightarrow> nat" where
  "match_length p s = (if heads_match (pat_heads p) s
     then (case run_lengths (pat_runs p) (drop (length (pat_heads p)) s) of None \<Rightarrow> 0
       | Some n \<Rightarrow> length (pat_heads p) + n) else 0)"

definition literal :: "'a list \<Rightarrow> 'a pattern" where
  "literal x = \<lparr>pat_heads = map (=) x, pat_runs = []\<rparr>"

section \<open>Replacing\<close>

fun scrub :: "('a list \<Rightarrow> nat) \<Rightarrow> 'a list \<Rightarrow> 'a list \<Rightarrow> 'a list" where
  "scrub m r [] = []"
| "scrub m r (c # s) = (if m (c # s) = 0 then c # scrub m r s else r @ scrub m r (drop (m (c # s) - 1) s))"

text \<open>Unicode whitespace, as \<open>str.isspace\<close> and the patterns have it.\<close>

definition space_point :: "nat \<Rightarrow> bool" where
  "space_point n \<longleftrightarrow> 9 \<le> n \<and> n \<le> 13 \<or> 28 \<le> n \<and> n \<le> 32 \<or> 8192 \<le> n \<and> n \<le> 8202 \<or>
     n \<in> {133, 160, 5760, 8232, 8233, 8239, 8287, 12288}"

function words :: "nat list \<Rightarrow> nat list list" where
  "words s = (let t = dropWhile space_point s in if t = [] then []
     else takeWhile (\<lambda>n. \<not> space_point n) t # words (dropWhile (\<lambda>n. \<not> space_point n) t))"
  by pat_completeness auto
termination
proof (relation "measure length", simp)
  fix s t assume t: "(t :: nat list) = dropWhile space_point s" "t \<noteq> []"
  then have "\<not> space_point (hd t)" using hd_dropWhile by blast
  then have "length (dropWhile (\<lambda>n. \<not> space_point n) t) < length t"
    using t(2) by (cases t) (auto intro: le_imp_less_Suc length_dropWhile_le)
  also have "\<dots> \<le> length s" by (simp add: t(1) length_dropWhile_le)
  finally show "(dropWhile (\<lambda>n. \<not> space_point n) t, s) \<in> measure length" by simp
qed

declare words.simps [simp del]

fun spaced :: "nat list list \<Rightarrow> nat list" where
  "spaced [] = []"
| "spaced [w] = w"
| "spaced (w # ws) = w @ 32 # spaced ws"

section \<open>What a replacement leaves\<close>

lemma scrub_prefix:
  assumes "prefix w (scrub m r t)" "w \<noteq> []" "set w \<inter> set r = {}" "r \<noteq> []"
  shows "prefix w t \<and> m t = 0"
  using assms
proof (induction m r t arbitrary: w rule: scrub.induct)
  case (2 m r c s)
  obtain x w' where w: "w = x # w'" using 2(4) by (cases w) auto
  show ?case
  proof (cases "m (c # s) = 0")
    case True
    then have "x = c" "prefix w' (scrub m r s)" using 2(3) w by auto
    then show ?thesis using 2(1) [OF True, of w'] 2(5,6) w True by (cases "w' = []") auto
  next
    case False
    obtain y r' where "r = y # r'" using 2(6) by (cases r) auto
    then show ?thesis using 2(3,5) w False by auto
  qed
qed simp

lemma sublist_past:
  assumes "sublist w (r @ x)" "w \<noteq> []" "set w \<inter> set r = {}" shows "sublist w x"
proof -
  from assms(1) consider "sublist w r" | "sublist w x"
    | u v where "w = u @ v" "suffix u r" "prefix v x"
    by (auto simp: sublist_append)
  then show ?thesis
  proof cases
    case 1
    then have "set w \<subseteq> set r" by (rule set_mono_sublist)
    then show ?thesis using assms(2,3) by (cases w) auto
  next
    case 3
    then have "u = []" using assms(3) set_mono_suffix [OF 3(2)] by (cases u) auto
    then show ?thesis using 3 by auto
  qed
qed

text \<open>What survives a replacement, apart from the replacement text, stood there before and was no match.\<close>

lemma scrub_survivor:
  assumes "sublist w (scrub m r t)" "w \<noteq> []" "set w \<inter> set r = {}" "r \<noteq> []"
  shows "\<exists>s. suffix s t \<and> prefix w s \<and> m s = 0"
  using assms
proof (induction m r t rule: scrub.induct)
  case (2 m r c s)
  show ?case
  proof (cases "m (c # s) = 0")
    case True
    note IH = 2(1) [OF True _ 2(4-6)] and past = 2(4-6)
    from True consider "prefix w (scrub m r (c # s))" | "sublist w (scrub m r s)"
      using 2(3) by (auto simp: sublist_Cons_right)
    then show ?thesis
    proof cases
      case 1
      then have "prefix w (c # s) \<and> m (c # s) = 0" using scrub_prefix [OF 1 past] by simp
      then show ?thesis by blast
    next
      case 2
      then obtain u where "suffix u s" "prefix w u" "m u = 0" using IH by auto
      then show ?thesis using suffix_ConsI [of u s c] by auto
    qed
  next
    case False
    then have "sublist w (scrub m r (drop (m (c # s) - 1) s))" using 2(3-5) sublist_past by auto
    then obtain u where "suffix u (drop (m (c # s) - 1) s)" "prefix w u" "m u = 0"
      using 2(2) [OF False _ 2(4-6)] by auto
    moreover from this(1) have "suffix u (c # s)"
      using suffix_drop [of "m (c # s) - 1" s] by (meson suffix_ConsI suffix_order.trans)
    ultimately show ?thesis by auto
  qed
qed simp

lemma scrub_survivor_sublist:
  assumes "sublist w (scrub m r t)" "w \<noteq> []" "set w \<inter> set r = {}" "r \<noteq> []" shows "sublist w t"
proof -
  from scrub_survivor [OF assms] obtain s where "suffix s t" "prefix w s" by blast
  then show ?thesis by (auto simp: suffix_def prefix_def sublist_def)
qed

section \<open>Matches in longer text\<close>

lemma heads_match_prefix: "heads_match ps w \<Longrightarrow> heads_match ps (w @ v)"
  by (induction ps w rule: heads_match.induct) auto

lemma heads_match_length: "heads_match ps w \<Longrightarrow> length ps \<le> length w"
  by (induction ps w rule: heads_match.induct) auto

lemma takeWhile_cut:
  "takeWhile c (w @ v) = (if takeWhile c w = w then w @ takeWhile c v else takeWhile c w)"
  by (induction w) auto

lemma run_lengths_Nil: "list_all (\<lambda>(c, k). 0 < k) rs \<Longrightarrow> run_lengths rs [] \<noteq> None \<Longrightarrow> rs = []"
  by (cases rs) (auto simp: Let_def)

lemma run_lengths_prefix:
  assumes "run_lengths rs w \<noteq> None" "list_all (\<lambda>(c, k). 0 < k) rs" shows "run_lengths rs (w @ v) \<noteq> None"
  using assms
proof (induction rs w rule: run_lengths.induct)
  case (2 c k rs s)
  define n where "n = length (takeWhile c s)"
  have k: "k \<le> n" and more: "run_lengths rs (drop n s) \<noteq> None"
    using 2(2) by (auto simp: n_def Let_def split: if_splits)
  show ?case
  proof (cases "takeWhile c s = s")
    case True
    then have "drop n s = []" unfolding n_def by (metis drop_all order_refl)
    then have "rs = []" using more 2(3) run_lengths_Nil [of rs] by auto
    then show ?thesis using k True by (simp add: takeWhile_cut n_def)
  next
    case False
    have "n < length s" using False length_takeWhile_le [of c s] takeWhile_eq_take [of c s]
      by (metis le_neq_implies_less n_def take_all_iff order_refl)
    then have "run_lengths rs (drop n s @ v) \<noteq> None"
      using 2(1) [OF refl] k more 2(3) by (simp add: n_def not_less)
    then show ?thesis using k False \<open>n < length s\<close> by (simp add: takeWhile_cut n_def Let_def del: takeWhile_eq_all_conv)
  qed
qed simp

lemma match_longer:
  assumes "prefix w s" "match_length p w \<noteq> 0" "list_all (\<lambda>(c, k). 0 < k) (pat_runs p)" "pat_heads p \<noteq> []"
  shows "match_length p s \<noteq> 0"
proof -
  from assms(1) obtain v where s: "s = w @ v" by (auto simp: prefix_def)
  have h: "heads_match (pat_heads p) w" and r: "run_lengths (pat_runs p) (drop (length (pat_heads p)) w) \<noteq> None"
    using assms(2) by (auto simp: match_length_def split: if_splits option.splits)
  have "run_lengths (pat_runs p) (drop (length (pat_heads p)) (w @ v)) \<noteq> None"
    using run_lengths_prefix [OF r assms(3), of v] heads_match_length [OF h] by simp
  then show ?thesis using heads_match_prefix [OF h, of v] assms(4) by (auto simp: match_length_def s split: option.splits)
qed

lemma match_literal: "x \<noteq> [] \<Longrightarrow> match_length (literal x) x \<noteq> 0"
proof -
  have "heads_match (map (=) x) x" by (induction x) auto
  then show "x \<noteq> [] \<Longrightarrow> ?thesis" by (simp add: match_length_def literal_def)
qed

lemma scrub_no_match:
  assumes "match_length p w \<noteq> 0" "list_all (\<lambda>(c, k). 0 < k) (pat_runs p)" "pat_heads p \<noteq> []"
    and "set w \<inter> set r = {}" "r \<noteq> []"
  shows "\<not> sublist w (scrub (match_length p) r t)"
proof
  assume s: "sublist w (scrub (match_length p) r t)"
  have "w \<noteq> []" using assms(1,3) by (cases "pat_heads p") (auto simp: match_length_def)
  then obtain u where "prefix w u" "match_length p u = 0" using scrub_survivor [OF s _ assms(4,5)] by blast
  then show False using match_longer [OF _ assms(1-3)] by blast
qed

end
