(* ===== verification/Openhands_Client.thy ===== *)
theory Openhands_Client
  imports Github_Client Text_Matching
begin

text \<open>
  The client of the agent server (\<^verbatim>\<open>openhands/client.py\<close>): what it sends for a conversation, how it reads the
  answers, and the removal of secrets from text that leaves it.  The HTTP exchange is the parameter
  \<open>agent_server\<close>; every request is logged with its headers.
\<close>

section \<open>Errors\<close>

definition connection_error :: py_error where
  "connection_error = OtherError ''could not reach the OpenHands agent server''"

definition request_error :: "int \<Rightarrow> py_error" where
  "request_error status = OtherError (''OpenHands agent server returned status '' @ decimal_int status)"

definition response_error :: "string \<Rightarrow> py_error" where
  "response_error what = OtherError (what @ '' returned no JSON object'')"

definition status_error :: py_error where
  "status_error = OtherError ''OpenHands reported an unrecognized execution status''"

section \<open>Text that leaves the client\<close>

definition word_point :: "nat \<Rightarrow> bool" where
  "word_point n \<longleftrightarrow> alnum_point n \<or> n = 95 \<or> n = 45"

definition literal_heads :: "string \<Rightarrow> (nat \<Rightarrow> bool) list" where
  "literal_heads s = map (=) (points s)"

definition cased_heads :: "string \<Rightarrow> (nat \<Rightarrow> bool) list" where
  "cased_heads s = map (\<lambda>c n. n = c \<or> n = c - 32) (points s)"

definition token_patterns :: "nat pattern list" where
  "token_patterns =
     [\<lparr>pat_heads = literal_heads ''sk-'', pat_runs = [(word_point, 4)]\<rparr>,
      \<lparr>pat_heads = literal_heads ''gAAAA'', pat_runs = [(\<lambda>n. word_point n \<or> n = 61, 4)]\<rparr>,
      \<lparr>pat_heads = literal_heads ''gh'' @ [\<lambda>n. n \<in> set (points ''pousr''), (=) 95], pat_runs = [(alnum_point, 4)]\<rparr>,
      \<lparr>pat_heads = cased_heads ''bearer'', pat_runs = [(space_point, 1), (\<lambda>n. \<not> space_point n, 1)]\<rparr>]"

definition stars :: "nat list" where
  "stars = points ''***''"

definition replace_secret :: "nat list \<Rightarrow> nat list \<Rightarrow> nat list" where
  "replace_secret x s = (if x = [] then s else scrub (match_length (literal x)) stars s)"

definition redact :: "nat list \<Rightarrow> nat list list \<Rightarrow> nat list" where
  "redact s secrets = fold (\<lambda>p. scrub (match_length p) stars) token_patterns (fold replace_secret secrets s)"

definition mask_url :: "string \<Rightarrow> string" where
  "mask_url url = (case partition_at ''://'' url of None \<Rightarrow> url
     | Some (scheme, rest) \<Rightarrow> if CHR ''@'' \<notin> set rest then url
         else scheme @ ''://***@'' @ (case partition_at ''@'' rest of Some (_, host) \<Rightarrow> host | None \<Rightarrow> []))"

definition MAX_DETAIL_CHARS :: nat where
  "MAX_DETAIL_CHARS = 200"

definition bound_text :: "nat list \<Rightarrow> nat \<Rightarrow> nat list" where
  "bound_text s limit = (let c = spaced (words s) in
     if length c \<le> limit then c else take limit c @ points ''...'')"

section \<open>The exchange\<close>

text \<open>\<open>ServerResponse\<close>: the body is the JSON value of the response, if it had one.\<close>

record server_response =
  rsp_status :: int
  rsp_body :: "jvalue option"

definition rsp_ok :: "server_response \<Rightarrow> bool" where
  "rsp_ok r \<longleftrightarrow> 200 \<le> rsp_status r \<and> rsp_status r < 300"

record server_call =
  cal_verb :: verb
  cal_url :: string
  cal_headers :: "(string \<times> string) list"
  cal_body :: "jvalue option"
  cal_answer :: "(py_error, server_response) outcome"

record 'w agent_server =
  srv_send :: "verb \<Rightarrow> string \<Rightarrow> (string \<times> string) list \<Rightarrow> jvalue option \<Rightarrow> ('w, server_response) port"
  srv_clock :: "('w, int) port"

record server_client =
  cli_base_url :: string
  cli_session_key :: "string option"

type_synonym ('w, 'a) server_exchange = "('w, server_call, 'a) recording"

definition make_client :: "string \<Rightarrow> string option \<Rightarrow> (py_error, server_client) outcome" where
  "make_client url key = (let cleaned = rstrip_char (CHR ''/'') (strip url) in
     if cleaned = [] then Inl (OtherError ''OpenHands base URL must not be empty'')
     else Inr \<lparr>cli_base_url = cleaned, cli_session_key = key\<rparr>)"

definition shown_url :: "server_client \<Rightarrow> string" where
  "shown_url c = mask_url (cli_base_url c)"

definition session_key :: "server_client \<Rightarrow> string list" where
  "session_key c = (case cli_session_key c of None \<Rightarrow> [] | Some k \<Rightarrow> if k = [] then [] else [k])"

definition request_headers :: "server_client \<Rightarrow> jvalue option \<Rightarrow> (string \<times> string) list" where
  "request_headers c payload = (''Accept'', ''application/json'') #
     (if payload = None then [] else [(''Content-Type'', ''application/json'')]) @
     map (\<lambda>k. (''X-Session-API-Key'', k)) (session_key c)"

definition send :: "'w agent_server \<Rightarrow> server_client \<Rightarrow> verb \<Rightarrow> string \<Rightarrow> jvalue option \<Rightarrow>
    ('w, server_response) server_exchange" where
  "send srv c v path payload = (\<lambda>s.
     let url = cli_base_url c @ path; hs = request_headers c payload in
     case srv_send srv v url hs payload (ses_world s) of (a, w) \<Rightarrow>
       (a, s\<lparr>ses_world := w, ses_log := ses_log s @
         [\<lparr>cal_verb = v, cal_url = url, cal_headers = hs, cal_body = payload, cal_answer = a\<rparr>]\<rparr>))"

definition raise_for_status :: "server_response \<Rightarrow> ('w, unit) server_exchange" where
  "raise_for_status r = check (rsp_ok r) (request_error (rsp_status r))"

definition as_mapping :: "server_response \<Rightarrow> jvalue option" where
  "as_mapping r = (case rsp_body r of Some (JV_object kvs) \<Rightarrow> Some (JV_object kvs) | _ \<Rightarrow> None)"

section \<open>Conversations\<close>

definition conversations_path :: string where
  "conversations_path = ''/api/conversations''"

definition create_conversation :: "'w agent_server \<Rightarrow> server_client \<Rightarrow> jvalue \<Rightarrow> ('w, jvalue) server_exchange" where
  "create_conversation srv c payload =
     andthen (send srv c POST conversations_path (Some payload)) (\<lambda>r.
     andthen (raise_for_status r) (\<lambda>_. or_raise (as_mapping r) (response_error ''conversation creation'')))"

definition get_conversation :: "'w agent_server \<Rightarrow> server_client \<Rightarrow> string \<Rightarrow> ('w, jvalue option) server_exchange" where
  "get_conversation srv c cid =
     andthen (send srv c GET (conversations_path @ ''/'' @ cid) None) (\<lambda>r.
       if rsp_status r = 404 then ret None
       else andthen (raise_for_status r) (\<lambda>_.
         andthen (or_raise (as_mapping r) (response_error ''conversation lookup'')) (\<lambda>b. ret (Some b))))"

definition interrupt_conversation :: "'w agent_server \<Rightarrow> server_client \<Rightarrow> string \<Rightarrow> ('w, bool) server_exchange" where
  "interrupt_conversation srv c cid =
     andthen (send srv c POST (conversations_path @ ''/'' @ cid @ ''/interrupt'') None) (\<lambda>r.
       if rsp_status r = 404 then ret False
       else andthen (raise_for_status r) (\<lambda>_. ret True))"

definition agent_final_response :: "'w agent_server \<Rightarrow> server_client \<Rightarrow> string \<Rightarrow>
    ('w, nat list option) server_exchange" where
  "agent_final_response srv c cid =
     andthen (send srv c GET (conversations_path @ ''/'' @ cid @ ''/agent_final_response'') None) (\<lambda>r.
       if rsp_status r = 404 then ret None
       else andthen (raise_for_status r) (\<lambda>_. ret (case as_mapping r of None \<Rightarrow> None
         | Some b \<Rightarrow> (case field ''response'' b of JV_string t \<Rightarrow> if words t = [] then None else Some t | _ \<Rightarrow> None))))"

section \<open>Redaction\<close>

lemma token_patterns_shape:
  "p \<in> set token_patterns \<Longrightarrow> list_all (\<lambda>(c, k). 0 < k) (pat_runs p) \<and> pat_heads p \<noteq> []"
  by (auto simp: token_patterns_def literal_heads_def cased_heads_def points_def)

lemma stars_set: "set stars = {42}" "stars \<noteq> []"
  by (simp_all add: stars_def points_def code_point_def)

lemma survives_patterns:
  assumes "sublist w (fold (\<lambda>p. scrub (match_length p) stars) ps s)" "w \<noteq> []" "42 \<notin> set w"
  shows "sublist w s"
  using assms(1)
proof (induction ps arbitrary: s)
  case (Cons p ps)
  then have "sublist w (scrub (match_length p) stars s)" by simp
  then show ?case by (rule scrub_survivor_sublist) (use assms stars_set in auto)
qed simp

lemma survives_secrets:
  assumes "sublist w (fold replace_secret xs s)" "w \<noteq> []" "42 \<notin> set w" shows "sublist w s"
  using assms(1)
proof (induction xs arbitrary: s)
  case (Cons x xs)
  then have "sublist w (replace_secret x s)" by simp
  then show ?case
    using scrub_survivor_sublist [of w "match_length (literal x)" stars s] assms(2,3) stars_set
    by (simp add: replace_secret_def split: if_splits)
qed simp

text \<open>No token shape and no known secret is left; text of stars stands for what was removed.\<close>

lemma redact_no_token:
  assumes p: "p \<in> set token_patterns" and w: "match_length p w \<noteq> 0" "42 \<notin> set w"
  shows "\<not> sublist w (redact s secrets)"
proof
  assume a: "sublist w (redact s secrets)"
  obtain qs rs where ps: "token_patterns = qs @ p # rs" using split_list [OF p] by blast
  define u where "u = fold (\<lambda>p. scrub (match_length p) stars) qs (fold replace_secret secrets s)"
  have ne: "w \<noteq> []" using w(1) token_patterns_shape [OF p] by (cases "pat_heads p") (auto simp: match_length_def)
  have "sublist w (fold (\<lambda>p. scrub (match_length p) stars) rs (scrub (match_length p) stars u))"
    using a by (simp add: redact_def ps u_def)
  then have "sublist w (scrub (match_length p) stars u)" by (rule survives_patterns) (use ne w in auto)
  moreover have "\<not> sublist w (scrub (match_length p) stars u)"
    by (rule scrub_no_match) (use w token_patterns_shape [OF p] stars_set in auto)
  ultimately show False by simp
qed

lemma redact_no_secret:
  assumes "x \<in> set secrets" "x \<noteq> []" "42 \<notin> set x" shows "\<not> sublist x (redact s secrets)"
proof
  assume a: "sublist x (redact s secrets)"
  obtain ys zs where xs: "secrets = ys @ x # zs" using split_list [OF assms(1)] by blast
  have "sublist x (fold replace_secret zs (replace_secret x (fold replace_secret ys s)))"
    using survives_patterns a assms(2,3) by (simp add: redact_def xs)
  then have "sublist x (scrub (match_length (literal x)) stars (fold replace_secret ys s))"
    using survives_secrets assms(2,3) by (fastforce simp: replace_secret_def)
  moreover have "\<not> sublist x (scrub (match_length (literal x)) stars (fold replace_secret ys s))"
    by (rule scrub_no_match) (use assms match_literal stars_set in \<open>auto simp: literal_def\<close>)
  ultimately show False by simp
qed

lemma bound_text_length: "length (bound_text s limit) \<le> limit + 3"
  by (simp add: bound_text_def Let_def points_def)

lemma mask_is_redact: "redact_url (Some url) = Some (mask_url url)"
proof -
  have "partition_at ''@'' s = None" if "CHR ''@'' \<notin> set s" for s
    using that by (induction s) (auto simp: starts_with_def)
  moreover have "partition_at ''@'' s \<noteq> None" if "CHR ''@'' \<in> set s" for s
    using that by (induction s) (auto simp: starts_with_def split: prod.split)
  ultimately have at: "(partition_at ''@'' s = None) = (CHR ''@'' \<notin> set s)" for s by blast
  show ?thesis
  proof (cases "partition_at ''://'' url")
    case None
    then show ?thesis by (simp add: redact_url_def mask_url_def del: partition_at.simps)
  next
    case (Some x)
    obtain scheme rest where x: "x = (scheme, rest)" by (cases x)
    show ?thesis using at [of rest] Some x
      by (cases "partition_at ''@'' rest") (auto simp add: redact_url_def mask_url_def simp del: partition_at.simps)
  qed
qed

end
