(* ===== verification/Openhands_Adapter.thy ===== *)
theory Openhands_Adapter
  imports Openhands_Client Dispatch_Service
begin

text \<open>
  The agent server as an engine of the factory: the execution request (\<^verbatim>\<open>execution.py\<close>), the mapping of its
  states (\<^verbatim>\<open>status.py\<close>), the paths inside its container (\<^verbatim>\<open>paths.py\<close>) and the adapter itself (\<^verbatim>\<open>adapter.py\<close>).
\<close>

section \<open>States (status.py)\<close>

definition status_names :: "(string \<times> run_status) list" where
  "status_names = [(''idle'', Run_PENDING), (''running'', Run_RUNNING), (''paused'', Run_RUNNING),
     (''waiting_for_confirmation'', Run_RUNNING), (''finished'', Run_SUCCEEDED), (''error'', Run_FAILED),
     (''stuck'', Run_FAILED), (''deleting'', Run_CANCELLED)]"

definition map_status :: "jvalue \<Rightarrow> (py_error, run_status) outcome" where
  "map_status raw = (case raw of
       JV_string ns \<Rightarrow> (case map_of (map (\<lambda>(n, st). (points n, st)) status_names) ns of
           Some st \<Rightarrow> Inr st | None \<Rightarrow> Inl status_error)
     | _ \<Rightarrow> Inl status_error)"

section \<open>The execution request (execution.py)\<close>

definition MAX_INSTRUCTION_CHARS :: nat where
  "MAX_INSTRUCTION_CHARS = 8000"

definition bound_instruction :: "string \<Rightarrow> nat \<Rightarrow> string" where
  "bound_instruction s limit = (if length s \<le> limit then s
     else take limit s @ [CHR 0x0A, CHR 0x0A] @ ''[truncated by AI Factory Lab]'')"

definition instruction_lead :: "factory_task \<Rightarrow> string" where
  "instruction_lead t = lines_of
     [''You are executing a task dispatched by AI Factory Lab (OpenHands Agent Server).'', [],
      ''Target repository: '' @ task_repository t,
      ''Task reference: '' @ (case task_external_ref t of None \<Rightarrow> task_id t | Some r \<Rightarrow> if r = [] then task_id t else r),
      ''Task title: '' @ task_title t, [], ''Task description:'', []]"

definition instruction_body :: "factory_task \<Rightarrow> string" where
  "instruction_body t = (if strip (task_body t) = [] then ''(no description provided)'' else strip (task_body t))"

definition instruction_limits :: string where
  "instruction_limits = lines_of [[], [], ''Hard boundaries:'',
     ''- Work only inside the workspace you were given.'',
     ''- Never push directly to a default branch (main/master).'',
     ''- Never merge a pull request.'',
     ''- Never deploy anything and never modify hosts, containers or secrets.'',
     ''- Do not modify any repository other than the target repository.'', [],
     ''When you are done, reply with a short summary of what you changed or '' @
     ''found. If the task cannot be completed, say so plainly and explain why.'']"

definition build_instruction :: "factory_task \<Rightarrow> string" where
  "build_instruction t =
     bound_instruction (instruction_lead t @ instruction_body t @ instruction_limits) MAX_INSTRUCTION_CHARS"

text \<open>\<open>OpenHandsExecution\<close>: a profile of the server, or settings given inline.\<close>

record execution =
  exe_profile :: "string option"
  exe_settings :: "(nat list \<times> jvalue) list option"
  exe_encrypted :: bool
  exe_iterations :: int
  exe_stuck :: bool
  exe_autotitle :: bool
  exe_hook :: "string option"
  exe_hook_timeout :: int

definition check_execution :: "execution \<Rightarrow> (py_error, execution) outcome" where
  "check_execution x =
     (if (exe_profile x = None) = (exe_settings x = None)
      then Inl (ValueError ''exactly one of agent_profile_id or agent_settings must be provided'')
      else if exe_iterations x < 1 then Inl (ValueError ''max_iterations must be positive'')
      else case exe_hook x of None \<Rightarrow> Inr x
        | Some cmd \<Rightarrow> if strip cmd = [] then Inl (ValueError ''shared_workspace_hook_command must not be blank'')
            else if exe_hook_timeout x < 1 then Inl (ValueError ''hook_timeout must be positive'') else Inr x)"

definition j_text :: "string \<Rightarrow> jvalue" where
  "j_text s = JV_string (points s)"

definition j_int :: "int \<Rightarrow> jvalue" where
  "j_int n = JV_number (decimal_int n)"

definition j_object :: "(string \<times> jvalue) list \<Rightarrow> jvalue" where
  "j_object kvs = JV_object (map (\<lambda>(k, v). (points k, v)) kvs)"

definition agent_payload :: "execution \<Rightarrow> (string \<times> jvalue) list" where
  "agent_payload x = (case exe_profile x of Some p \<Rightarrow> [(''agent_profile_id'', j_text p)]
     | None \<Rightarrow> [(''agent_settings'', JV_object (case exe_settings x of None \<Rightarrow> [] | Some kvs \<Rightarrow> kvs)),
         (''secrets_encrypted'', JV_bool (exe_encrypted x))])"

definition hook_payload :: "execution \<Rightarrow> jvalue option" where
  "hook_payload x = (case exe_hook x of None \<Rightarrow> None
     | Some cmd \<Rightarrow>
       let hook = j_object [(''type'', j_text ''command''), (''command'', j_text cmd),
             (''timeout'', j_int (exe_hook_timeout x)), (''async'', JV_bool False)]
       in Some (j_object [
         (''PostToolUse'', JV_array [j_object [(''matcher'', j_text ''file_editor''), (''hooks'', JV_array [hook])]]),
         (''Stop'', JV_array [j_object [(''hooks'', JV_array [hook])]])]))"

text \<open>Credentials in the settings: strings under a key that names one, to a depth of six.  Letters are
  folded to ASCII as \<open>lower\<close> does.\<close>

definition fold_point :: "nat \<Rightarrow> nat" where
  "fold_point n = (if 65 \<le> n \<and> n \<le> 90 then n + 32 else if n = 8490 then 107 else n)"

definition looks_secret :: "nat list \<Rightarrow> bool" where
  "looks_secret key \<longleftrightarrow> list_ex (\<lambda>t. sublist (points t) (map fold_point key))
     [''api_key'', ''apikey'', ''secret'', ''token'', ''password'']"

primrec collect_secrets :: "nat \<Rightarrow> jvalue \<Rightarrow> nat list list" where
  "collect_secrets 0 v = []"
| "collect_secrets (Suc n) v = (case v of
       JV_object kvs \<Rightarrow> concat (map (\<lambda>(k, x). if looks_secret k
           then (case x of JV_string s \<Rightarrow> if s = [] then [] else [s] | _ \<Rightarrow> [])
           else collect_secrets n x) (items_of kvs))
     | JV_array vs \<Rightarrow> concat (map (collect_secrets n) vs)
     | _ \<Rightarrow> [])"

definition secret_values :: "execution \<Rightarrow> nat list list" where
  "secret_values x = (case exe_settings x of None \<Rightarrow> [] | Some kvs \<Rightarrow> collect_secrets 7 (JV_object kvs))"

definition build_creation_payload :: "factory_task \<Rightarrow> string \<Rightarrow> execution \<Rightarrow> string option \<Rightarrow> jvalue" where
  "build_creation_payload t path x instruction = j_object (
     [(''workspace'', j_object [(''kind'', j_text ''LocalWorkspace''), (''working_dir'', j_text path)]),
      (''confirmation_policy'', j_object [(''kind'', j_text ''NeverConfirm'')]),
      (''max_iterations'', j_int (exe_iterations x)),
      (''stuck_detection'', JV_bool (exe_stuck x)),
      (''autotitle'', JV_bool (exe_autotitle x)),
      (''initial_message'', j_object [(''role'', j_text ''user''),
         (''content'', JV_array [j_object [(''type'', j_text ''text''),
            (''text'', j_text (case instruction of Some i \<Rightarrow> i | None \<Rightarrow> build_instruction t))]]),
         (''run'', JV_bool True)])] @
     (case hook_payload x of None \<Rightarrow> [] | Some h \<Rightarrow> [(''hook_config'', h)]) @ agent_payload x)"

section \<open>Paths (paths.py)\<close>

text \<open>A path is the list of its parts, the first of which is the root; resolving a path is a parameter.\<close>

record path_mapper =
  map_host :: "string list"
  map_container :: "string list"

definition make_mapper :: "(string \<Rightarrow> string list) \<Rightarrow> string \<Rightarrow> string \<Rightarrow> string list \<Rightarrow>
    (py_error, path_mapper) outcome" where
  "make_mapper resolve host croot parts =
     (if strip host = [] \<or> strip croot = [] then Inl (ValueError ''workspace roots must not be empty'')
      else if \<not> starts_with ''/'' croot then Inl (ValueError ''OpenHands workspace root must be absolute'')
      else Inr \<lparr>map_host = resolve host, map_container = parts\<rparr>)"

definition path_string :: "string list \<Rightarrow> string" where
  "path_string ps = (case ps of [] \<Rightarrow> ''.'' | p # rest \<Rightarrow> p @ join ''/'' rest)"

definition to_container :: "(string \<Rightarrow> string list) \<Rightarrow> path_mapper \<Rightarrow> string \<Rightarrow> (py_error, string) outcome" where
  "to_container resolve m host = (let candidate = resolve host; n = length (map_host m) in
     if take n candidate = map_host m then Inr (path_string (map_container m @ drop n candidate))
     else Inl (ValueError ''workspace path is outside FACTORY_WORKSPACE_ROOT''))"

section \<open>The adapter (adapter.py)\<close>

record 'w engine =
  eng_server :: "'w agent_server"
  eng_client :: server_client
  eng_execution :: execution
  eng_paths :: "path_mapper option"
  eng_resolve :: "string \<Rightarrow> string list"

definition server_now :: "'w engine \<Rightarrow> ('w, int) server_exchange" where
  "server_now e = touches (srv_clock (eng_server e))"

definition conversation_id :: "jvalue \<Rightarrow> (py_error, string) outcome" where
  "conversation_id d = (case field ''id'' d of
       JV_string ns \<Rightarrow> if ns = [] then Inl (OtherError ''OpenHands conversation creation returned no id'')
         else Inr (text_of ns)
     | _ \<Rightarrow> Inl (OtherError ''OpenHands conversation creation returned no id''))"

definition engine_dispatch :: "'w engine \<Rightarrow> factory_task \<Rightarrow> workspace \<Rightarrow> context_pack option \<Rightarrow>
    ('w, agent_run) server_exchange" where
  "engine_dispatch e t w pack =
     (if task_kind t = CODE \<and> pack = None then raise (ValueError ''CODE dispatch requires a context pack'')
      else andthen (from_outcome (case eng_paths e of None \<Rightarrow> Inr (ws_path w)
             | Some m \<Rightarrow> to_container (eng_resolve e) m (ws_path w))) (\<lambda>path.
      andthen (from_outcome (case pack of None \<Rightarrow> Inr None
             | Some p \<Rightarrow> tx_step (render_pack p) (\<lambda>i. Inr (Some i)))) (\<lambda>instruction.
      andthen (create_conversation (eng_server e) (eng_client e)
             (build_creation_payload t path (eng_execution e) instruction)) (\<lambda>d.
      andthen (from_outcome (conversation_id d)) (\<lambda>cid.
      andthen (from_outcome (map_status (field ''execution_status'' d))) (\<lambda>st.
      andthen (server_now e) (\<lambda>started.
      andthen (if terminal_run_status st then andthen (server_now e) (\<lambda>n. ret (Some n)) else ret None) (\<lambda>finished.
      ret \<lparr>run_task_id = task_id t, run_adapter = OPENHANDS, run_id = cid, run_status = st,
           run_workspace = Some w, run_summary = None, run_started_at = Some started,
           run_last_heartbeat = None, run_agent_heartbeat = None, run_finished_at = finished,
           run_gates = [], run_validated_revision = None, run_context_pack = None,
           run_project = default_project, run_worker_id = None, run_session_id = None\<rparr>)))))))) "

definition final_summary :: "'w engine \<Rightarrow> string \<Rightarrow> ('w, string option) server_exchange" where
  "final_summary e cid = andthen (agent_final_response (eng_server e) (eng_client e) cid) (\<lambda>x. ret (case x of
       None \<Rightarrow> None
     | Some s \<Rightarrow> Some (text_of (bound_text
         (redact s (map points (session_key (eng_client e)) @ secret_values (eng_execution e))) MAX_DETAIL_CHARS))))"

definition engine_collect :: "'w engine \<Rightarrow> agent_run \<Rightarrow> ('w, agent_run) server_exchange" where
  "engine_collect e run =
     andthen (get_conversation (eng_server e) (eng_client e) (run_id run)) (\<lambda>found. case found of
       None \<Rightarrow> raise (OtherError (''OpenHands conversation '' @ run_id run @ '' could not be located''))
     | Some d \<Rightarrow>
       andthen (from_outcome (map_status (field ''execution_status'' d))) (\<lambda>st.
         if terminal_run_status st
         then andthen (case run_finished_at run of Some n \<Rightarrow> ret n | None \<Rightarrow> server_now e) (\<lambda>finished.
              andthen (final_summary e (run_id run)) (\<lambda>summary.
              ret (run\<lparr>run_status := st, run_finished_at := Some finished, run_summary := summary\<rparr>)))
         else ret (run\<lparr>run_status := st, run_finished_at := None\<rparr>)))"

definition engine_cancel :: "'w engine \<Rightarrow> agent_run \<Rightarrow> ('w, unit) server_exchange" where
  "engine_cancel e run = (if is_terminal run then ret ()
     else andthen (interrupt_conversation (eng_server e) (eng_client e) (run_id run)) (\<lambda>_. ret ()))"

text \<open>As the factory's adapter port, over the world of recorded exchanges.\<close>

definition openhands_adapter :: "'w engine \<Rightarrow> ('w, server_call) recorded adapter" where
  "openhands_adapter e = \<lparr>ad_kind = OPENHANDS, ad_dispatch = (\<lambda>t w pack. engine_dispatch e t w (Some pack)),
     ad_collect = engine_collect e, ad_heartbeat = None\<rparr>"

end
