(* ===== verification/Openhands_Facts.thy ===== *)
theory Openhands_Facts
  imports Openhands_Adapter
begin

text \<open>
  The engine of the agent server: what a collected run must have been told, what a summary cannot carry,
  what one dispatch asks of the server, and where the code falls short of its comments.
\<close>

section \<open>Exchanges\<close>

lemma send_cases:
  assumes "send srv c v path payload s = (r, s')"
  obtains w where "srv_send srv v (cli_base_url c @ path) (request_headers c payload) payload (ses_world s) = (r, w)"
    "s' = s\<lparr>ses_world := w, ses_log := ses_log s @ [\<lparr>cal_verb = v, cal_url = cli_base_url c @ path,
       cal_headers = request_headers c payload, cal_body = payload, cal_answer = r\<rparr>]\<rparr>"
  using assms by (auto simp: send_def Let_def split: prod.splits)

definition told :: "server_call list \<Rightarrow> verb \<Rightarrow> string \<Rightarrow> server_response \<Rightarrow> bool" where
  "told calls v url r \<longleftrightarrow> (\<exists>c \<in> set calls. cal_verb c = v \<and> cal_url c = url \<and> cal_answer c = Inr r)"

lemma send_told:
  assumes "send srv c v path payload s = (Inr r, s')"
  shows "\<exists>x. ses_log s' = ses_log s @ [x] \<and> cal_verb x = v \<and> cal_url x = cli_base_url c @ path \<and>
    cal_body x = payload \<and> cal_headers x = request_headers c payload \<and> cal_answer x = Inr r"
  using assms by (auto elim!: send_cases)

lemma send_logs: "(\<And>a. P \<lparr>cal_verb = v, cal_url = cli_base_url c @ path, cal_headers = request_headers c payload,
    cal_body = payload, cal_answer = a\<rparr>) \<Longrightarrow> keeps (logs P) (send srv c v path payload)"
  by (auto simp: keeps_def logs_def send_def Let_def split: prod.splits)

lemma as_mapping_object: "as_mapping r = Some d \<Longrightarrow> rsp_body r = Some d \<and> is_object d"
  by (auto simp: as_mapping_def is_object_def split: option.splits jvalue.splits)

lemma conversation_told:
  assumes "get_conversation srv c cid s = (Inr (Some d), s')"
  shows "\<exists>x r. ses_log s' = ses_log s @ [x] \<and> cal_verb x = GET \<and>
    cal_url x = cli_base_url c @ conversations_path @ ''/'' @ cid \<and> cal_answer x = Inr r \<and> rsp_ok r \<and>
    rsp_body r = Some d \<and> is_object d"
proof -
  from assms obtain r s1 where a: "send srv c GET (conversations_path @ ''/'' @ cid) None s = (Inr r, s1)"
    and b: "(if rsp_status r = 404 then ret None else andthen (raise_for_status r) (\<lambda>_.
      andthen (or_raise (as_mapping r) (response_error ''conversation lookup'')) (\<lambda>b. ret (Some b)))) s1 = (Inr (Some d), s')"
    by (auto simp: get_conversation_def andthen_Inr)
  from b have "rsp_ok r" "as_mapping r = Some d" "s1 = s'"
    by (auto simp: raise_for_status_def andthen_def split: if_splits option.splits)
  then show ?thesis using send_told [OF a] as_mapping_object [of r d] by (auto intro!: exI [of _ r])
qed

section \<open>Collecting\<close>

lemma final_summary_redacted:
  assumes "final_summary e cid s = (Inr (Some u), s')"
  shows "\<exists>text. u = text_of (bound_text (redact text
    (map points (session_key (eng_client e)) @ secret_values (eng_execution e))) MAX_DETAIL_CHARS)"
  using assms by (auto simp: final_summary_def andthen_Inr split: option.splits)

lemma final_summary_asks: "keeps (logs (\<lambda>c. cal_verb c = GET)) (final_summary e cid)"
  unfolding final_summary_def agent_final_response_def raise_for_status_def
  by (intro recorded_intros send_logs) simp_all

lemma collect_cases:
  assumes "engine_collect e run s = (Inr r, s')"
  obtains d st s1 where "get_conversation (eng_server e) (eng_client e) (run_id run) s = (Inr (Some d), s1)"
    "map_status (field ''execution_status'' d) = Inr st" "\<not> terminal_run_status st"
    "r = run\<lparr>run_status := st, run_finished_at := None\<rparr>" "s' = s1"
  | d st s1 s2 n summary where "get_conversation (eng_server e) (eng_client e) (run_id run) s = (Inr (Some d), s1)"
    "map_status (field ''execution_status'' d) = Inr st" "terminal_run_status st"
    "final_summary e (run_id run) s2 = (Inr summary, s')" "ses_log s2 = ses_log s1"
    "r = run\<lparr>run_status := st, run_finished_at := Some n, run_summary := summary\<rparr>"
proof -
  from assms obtain found s1 where g: "get_conversation (eng_server e) (eng_client e) (run_id run) s = (Inr found, s1)"
    and rest: "(case found of None \<Rightarrow> raise (OtherError (''OpenHands conversation '' @ run_id run @ '' could not be located''))
     | Some d \<Rightarrow> andthen (from_outcome (map_status (field ''execution_status'' d))) (\<lambda>st.
         if terminal_run_status st
         then andthen (case run_finished_at run of Some n \<Rightarrow> ret n | None \<Rightarrow> server_now e) (\<lambda>finished.
              andthen (final_summary e (run_id run)) (\<lambda>summary.
              ret (run\<lparr>run_status := st, run_finished_at := Some finished, run_summary := summary\<rparr>)))
         else ret (run\<lparr>run_status := st, run_finished_at := None\<rparr>))) s1 = (Inr r, s')"
    unfolding engine_collect_def andthen_Inr by blast
  from rest obtain d where found: "found = Some d" by (cases found) auto
  with rest obtain st where st: "map_status (field ''execution_status'' d) = Inr st"
    and rest': "(if terminal_run_status st
         then andthen (case run_finished_at run of Some n \<Rightarrow> ret n | None \<Rightarrow> server_now e) (\<lambda>finished.
              andthen (final_summary e (run_id run)) (\<lambda>summary.
              ret (run\<lparr>run_status := st, run_finished_at := Some finished, run_summary := summary\<rparr>)))
         else ret (run\<lparr>run_status := st, run_finished_at := None\<rparr>)) s1 = (Inr r, s')"
    by (auto simp: andthen_Inr from_outcome_def)
  show thesis
  proof (cases "terminal_run_status st")
    case False
    then show thesis using that(1) [of d s1 st] g found st rest' by simp
  next
    case True
    then obtain n s2 summary where n: "(case run_finished_at run of Some n \<Rightarrow> ret n | None \<Rightarrow> server_now e) s1 = (Inr n, s2)"
      and f: "final_summary e (run_id run) s2 = (Inr summary, s')"
        "r = run\<lparr>run_status := st, run_finished_at := Some n, run_summary := summary\<rparr>"
      using rest' by (auto simp: andthen_Inr)
    have "ses_log s2 = ses_log s1"
      using n by (auto simp: server_now_def touches_def split: option.splits prod.splits)
    then show thesis using that(2) [of d s1 st s2 summary n] g found st True f by simp
  qed
qed

section \<open>One dispatch\<close>

definition creates :: "'w engine \<Rightarrow> server_call \<Rightarrow> bool" where
  "creates e c \<longleftrightarrow> cal_verb c = POST \<and> cal_url c = cli_base_url (eng_client e) @ conversations_path"

lemma quiet_steps:
  "from_outcome x s = (r, s') \<Longrightarrow> s' = s" "server_now e s = (r, s') \<Longrightarrow> ses_log s' = ses_log s"
  by (auto simp: from_outcome_def server_now_def touches_def split: prod.splits)

lemma create_once:
  assumes "create_conversation srv c payload s = (r, s')"
  shows "\<exists>x. ses_log s' = ses_log s @ [x] \<and> cal_verb x = POST \<and> cal_url x = cli_base_url c @ conversations_path \<and>
    cal_body x = Some payload \<and> (\<forall>d. r = Inr d \<longrightarrow> (\<exists>a. cal_answer x = Inr a \<and> rsp_ok a \<and> rsp_body a = Some d))"
proof -
  obtain q s1 where q: "send srv c POST conversations_path (Some payload) s = (q, s1)"
    by (cases "send srv c POST conversations_path (Some payload) s")
  have s: "s' = s1 \<and> (\<forall>d. r = Inr d \<longrightarrow> (\<exists>a. q = Inr a \<and> rsp_ok a \<and> rsp_body a = Some d))"
    using assms q
    by (auto simp: create_conversation_def andthen_def raise_for_status_def split: sum.splits if_splits option.splits
        dest: as_mapping_object)
  from q show ?thesis using s by (auto elim!: send_cases)
qed

text \<open>The directory of the conversation and its first message.\<close>

definition agent_path :: "'w engine \<Rightarrow> workspace \<Rightarrow> (py_error, string) outcome" where
  "agent_path e w = (case eng_paths e of None \<Rightarrow> Inr (ws_path w) | Some m \<Rightarrow> to_container (eng_resolve e) m (ws_path w))"

definition first_message :: "context_pack option \<Rightarrow> (py_error, string option) outcome" where
  "first_message pack = (case pack of None \<Rightarrow> Inr None | Some p \<Rightarrow> tx_step (render_pack p) (\<lambda>i. Inr (Some i)))"

lemma dispatch_cases:
  assumes "engine_dispatch e t w pack s = (r, s')"
  obtains (none) "ses_log s' = ses_log s" "\<exists>err. r = Inl err"
  | (asked) path instruction s1 q s2 where "ses_log s1 = ses_log s"
    "create_conversation (eng_server e) (eng_client e)
       (build_creation_payload t path (eng_execution e) instruction) s1 = (q, s2)"
    "ses_log s' = ses_log s2" "agent_path e w = Inr path" "first_message pack = Inr instruction"
    "task_kind t = CODE \<longrightarrow> pack \<noteq> None"
    "\<And>run. r = Inr run \<Longrightarrow> \<exists>d. q = Inr d \<and> conversation_id d = Inr (run_id run) \<and>
       map_status (field ''execution_status'' d) = Inr (run_status run) \<and> run_workspace run = Some w \<and>
       run_task_id run = task_id t \<and> (run_finished_at run \<noteq> None \<longleftrightarrow> is_terminal run)"
proof (cases "task_kind t = CODE \<and> pack = None")
  case True
  then show thesis using none assms by (auto simp: engine_dispatch_def)
next
  case False
  show thesis
  proof (cases "(\<exists>x. agent_path e w = Inl x) \<or> (\<exists>x. first_message pack = Inl x)")
    case True
    then show thesis
      using none assms False
      unfolding engine_dispatch_def agent_path_def [symmetric] first_message_def [symmetric]
      by (cases "agent_path e w") (auto simp: andthen_def from_outcome_def)
  next
    case ok: False
    then obtain path instruction where p: "agent_path e w = Inr path" "first_message pack = Inr instruction"
      by (cases "agent_path e w"; cases "first_message pack") auto
    obtain q s2 where q: "create_conversation (eng_server e) (eng_client e)
       (build_creation_payload t path (eng_execution e) instruction) s = (q, s2)" by force
    have run: "ses_log s' = ses_log s2 \<and> (\<forall>run. r = Inr run \<longrightarrow> (\<exists>d. q = Inr d \<and> conversation_id d = Inr (run_id run) \<and>
       map_status (field ''execution_status'' d) = Inr (run_status run) \<and> run_workspace run = Some w \<and>
       run_task_id run = task_id t \<and> (run_finished_at run \<noteq> None \<longleftrightarrow> is_terminal run)))"
      using assms False q
      unfolding engine_dispatch_def agent_path_def [symmetric] first_message_def [symmetric] p
      by (auto simp: andthen_def from_outcome_def server_now_def touches_def is_terminal_def
          split: sum.splits prod.splits if_splits)
    show thesis
      by (rule asked [OF refl q]) (use run p False in auto)
  qed
qed

section \<open>Where the code falls short of its comments\<close>

text \<open>A long body removes the boundaries from the instruction, and the result is longer than its cap.\<close>

lemma instruction_loses_limits:
  assumes "MAX_INSTRUCTION_CHARS \<le> length (instruction_body t)"
  shows "build_instruction t = take MAX_INSTRUCTION_CHARS (instruction_lead t @ instruction_body t) @
      [CHR 0x0A, CHR 0x0A] @ ''[truncated by AI Factory Lab]''"
    and "length (build_instruction t) = MAX_INSTRUCTION_CHARS + 31"
proof -
  have lead: "1 \<le> length instruction_limits" by (simp add: instruction_limits_def lines_of_def)
  then have "\<not> length (instruction_lead t @ instruction_body t @ instruction_limits) \<le> MAX_INSTRUCTION_CHARS"
    unfolding length_append using assms lead by linarith
  moreover have "take MAX_INSTRUCTION_CHARS ((instruction_lead t @ instruction_body t) @ instruction_limits) =
      take MAX_INSTRUCTION_CHARS (instruction_lead t @ instruction_body t)"
    using assms by (subst take_append) simp
  ultimately show a: "build_instruction t = take MAX_INSTRUCTION_CHARS (instruction_lead t @ instruction_body t) @
      [CHR 0x0A, CHR 0x0A] @ ''[truncated by AI Factory Lab]''"
    unfolding build_instruction_def bound_instruction_def by simp
  have "length (take MAX_INSTRUCTION_CHARS (instruction_lead t @ instruction_body t)) = MAX_INSTRUCTION_CHARS"
    using assms by simp
  then show "length (build_instruction t) = MAX_INSTRUCTION_CHARS + 31" unfolding a by simp
qed

text \<open>Settings grouped under a key that names secrets are not looked at.\<close>

lemma grouped_secrets_missed: "collect_secrets n (JV_object [(points ''secrets'', JV_object kvs)]) = []"
proof (cases n)
  case (Suc m)
  have "sublist (points ''secret'') (map fold_point (points ''secrets''))"
    by (simp add: points_def code_point_def fold_point_def sublist_code)
  then have "looks_secret (points ''secrets'')" by (simp add: looks_secret_def)
  then show ?thesis by (simp add: Suc items_of_def)
qed simp

text \<open>A final response that cannot be read ends the collection with an error, however the run ended.\<close>

lemma unread_response_raises:
  assumes "get_conversation (eng_server e) (eng_client e) (run_id run) s = (Inr (Some d), s1)"
    and "map_status (field ''execution_status'' d) = Inr st" "terminal_run_status st" "run_finished_at run = Some n"
    and "send (eng_server e) (eng_client e) GET (conversations_path @ ''/'' @ run_id run @ ''/agent_final_response'') None s1 =
      (Inr a, s2)" "rsp_status a = 500"
  shows "engine_collect e run s = (Inl (request_error 500), s2)"
  using assms by (simp add: engine_collect_def final_summary_def agent_final_response_def andthen_def from_outcome_def
      raise_for_status_def rsp_ok_def)

end
