(* ===== verification/Openhands_Properties.thy ===== *)
theory Openhands_Properties
  imports Openhands_Facts Sample_Data
begin

text \<open>The guarantees of the engine of the agent server.\<close>

section \<open>A server\<close>





section \<open>The properties\<close>

lemma success_said: "map_status v = Inr Run_SUCCEEDED \<Longrightarrow> says v ''finished''"
  by (auto simp: map_status_def status_names_def says_def split: jvalue.splits option.splits if_splits)

text \<open>A collected run says what the server said.  Collecting only reads.  The run that it returns has the status
  that the state reported for its own conversation maps to, so a success was reported as finished; it is over
  exactly if its status is terminal; and apart from status, end and summary it is the run it was.\<close>

lemma conversation_collected:
  assumes "engine_collect e run s = (Inr r, s')"
  shows "\<exists>new c a d. ses_log s' = ses_log s @ new \<and> list_all (\<lambda>c. cal_verb c = GET) new \<and> c \<in> set new \<and>
    cal_url c = cli_base_url (eng_client e) @ conversations_path @ ''/'' @ run_id run \<and>
    cal_answer c = Inr a \<and> rsp_ok a \<and> rsp_body a = Some d \<and>
    map_status (field ''execution_status'' d) = Inr (run_status r) \<and>
    (run_status r = Run_SUCCEEDED \<longrightarrow> says (field ''execution_status'' d) ''finished'') \<and>
    (run_finished_at r \<noteq> None \<longleftrightarrow> is_terminal r) \<and>
    r = run\<lparr>run_status := run_status r, run_finished_at := run_finished_at r, run_summary := run_summary r\<rparr>"
proof -
  from assms obtain d s1 where g: "get_conversation (eng_server e) (eng_client e) (run_id run) s = (Inr (Some d), s1)"
    and st: "map_status (field ''execution_status'' d) = Inr (run_status r)"
    and r: "run_finished_at r \<noteq> None \<longleftrightarrow> is_terminal r"
      "r = run\<lparr>run_status := run_status r, run_finished_at := run_finished_at r, run_summary := run_summary r\<rparr>"
    and more: "logs (\<lambda>c. cal_verb c = GET) s1 s'"
  proof (cases rule: collect_cases)
    case (1 d st s1)
    then show thesis using that [of d s1] by (simp add: is_terminal_def logged.R_refl)
  next
    case (2 d st s1 s2 n summary)
    have "logs (\<lambda>c. cal_verb c = GET) s2 s'" using keepsD [OF final_summary_asks 2(4)] .
    then show thesis using that [of d s1] 2 by (simp add: is_terminal_def logs_def)
  qed
  obtain x a where x: "ses_log s1 = ses_log s @ [x]" "cal_verb x = GET"
    "cal_url x = cli_base_url (eng_client e) @ conversations_path @ ''/'' @ run_id run"
    "cal_answer x = Inr a" "rsp_ok a" "rsp_body a = Some d"
    using conversation_told [OF g] by blast
  obtain rest where rest: "ses_log s' = ses_log s1 @ rest" "list_all (\<lambda>c. cal_verb c = GET) rest"
    using more by (auto simp: logs_def)
  show ?thesis
    by (rule exI [of _ "x # rest"], rule exI [of _ x], rule exI [of _ a], rule exI [of _ d])
      (use x rest st r success_said [of "field ''execution_status'' d"] in auto)
qed

text \<open>A summary carries no credential.  What a finished run is given as its summary has at most 203 characters
  and is the bounded form of a text in which no configured key, no credential of the settings and none of the four
  token shapes is left.\<close>

lemma summary_redacted:
  assumes "engine_collect e run s = (Inr r, s')" "is_terminal r" "run_summary r = Some u"
  shows "length u \<le> 203 \<and> (\<exists>clean. u = text_of (bound_text clean 200) \<and>
    (\<forall>x \<in> set (map points (session_key (eng_client e)) @ secret_values (eng_execution e)).
       x \<noteq> [] \<longrightarrow> 42 \<notin> set x \<longrightarrow> \<not> sublist x clean) \<and>
    (\<forall>p \<in> set token_patterns. \<forall>w. match_length p w \<noteq> 0 \<longrightarrow> 42 \<notin> set w \<longrightarrow> \<not> sublist w clean))"
  using assms(1)
proof (cases rule: collect_cases)
  case (1 d st s1)
  then show ?thesis using assms(2) by (simp add: is_terminal_def)
next
  case (2 d st s1 s2 n summary)
  then have "final_summary e (run_id run) s2 = (Inr (Some u), s')" using assms(3) by simp
  from final_summary_redacted [OF this] obtain answer where
    u: "u = text_of (bound_text (redact answer (map points (session_key (eng_client e)) @ secret_values (eng_execution e))) 200)"
    by (auto simp: MAX_DETAIL_CHARS_def)
  have "length u \<le> 203"
    using bound_text_length [of "redact answer (map points (session_key (eng_client e)) @ secret_values (eng_execution e))" 200]
    by (simp add: u text_of_def)
  then show ?thesis using u redact_no_secret redact_no_token by blast
qed



end
