(* ===== verification/Spec2Isabelle.thy ===== *)
theory Spec2Isabelle
  imports Store_Properties Service_Properties Publication_Properties Planning_Properties Runtime_Properties
    Operations_Properties Configuration_Properties Shared_Properties Git_Properties Github_Properties Openhands_Properties
    Factory_Refinement
begin

text \<open>
  AI Factory Lab takes issues and backlog cards, dispatches them as tasks to coding agents, validates
  what the agents produced, publishes it as pull requests and waits for human review.  All state
  is in one SQLite database; several processes may work on it.  This development models the
  domain layer, the durable store and the orchestration services of \<^verbatim>\<open>src/src/factory\<close>, and proves
  what makes them correct.

  \<^bold>\<open>How the parts interact.\<close>  The services of \<^verbatim>\<open>orchestration\<close> hold no state of their own: they
  read and write the store through the repositories of \<^verbatim>\<open>infrastructure/persistence\<close> and call
  engines, git and the issue provider through the ports of \<^verbatim>\<open>domain/ports.py\<close>.  A repository
  operation is one transaction.  Between two transactions of a service any other process may
  commit; that is the only concurrency, and the model has it.

  \<^bold>\<open>Theories.\<close>
  \<^item> \<open>Factory_Prelude\<close>: outcomes, transactions, the state-and-exception composition of calls with its
    weakest-precondition calculus, relations kept by a call, tables as lists of rows, strings.
  \<^item> \<open>Factory_Domain\<close> (\<^verbatim>\<open>domain/\<close>): enumerations, records, construction checks, the lifecycle graph,
    projects, work items, sprint manifests, exceptions.
  \<^item> \<open>Factory_Store\<close> (\<^verbatim>\<open>schema.py\<close>): the rows of every table, the audit and status-event triggers.
  \<^item> \<open>Task_Store\<close>, \<open>Task_Facts\<close> (\<^verbatim>\<open>sqlite.py\<close>), \<open>Run_Store\<close> (\<^verbatim>\<open>run_sqlite.py\<close>, \<^verbatim>\<open>pr_sqlite.py\<close>),
    \<open>Planning_Store\<close>, \<open>Planning_Facts\<close> (\<^verbatim>\<open>backlog_sqlite.py\<close>, \<^verbatim>\<open>sprint_sqlite.py\<close>): one definition per
    repository operation, in the order of the file, and its effect.
  \<^item> \<open>Store_Invariants\<close>, \<open>Store_Ops\<close>: the invariants of the tables, that every operation preserves
    them and loses nothing, sequences of operations and the reachable stores.
  \<^item> \<open>Event_Store\<close> (\<^verbatim>\<open>security.py\<close>, \<^verbatim>\<open>feedback_sqlite.py\<close>, \<^verbatim>\<open>status_events.py\<close> of
    \<^verbatim>\<open>infrastructure/persistence\<close>): security reviews, deliveries and the queue of status events,
    all facts in the two append-only event tables.
  \<^item> \<open>Factory_System\<close>: one process among others: calls that read and write the shared store, ask the
    clock and use external ports, with an arbitrary schedule of foreign operations in between.
  \<^item> \<open>Lifecycle_Service\<close> (\<^verbatim>\<open>machine.py\<close>, \<^verbatim>\<open>transitions.py\<close>), \<open>Recovery_Service\<close> (\<^verbatim>\<open>recovery.py\<close>,
    \<^verbatim>\<open>retry.py\<close>, \<^verbatim>\<open>rework.py\<close>), \<open>Context_Pack\<close> (\<^verbatim>\<open>context.py\<close> of both layers), \<open>Dispatch_Service\<close>,
    \<open>Dispatch_Facts\<close> (\<^verbatim>\<open>dispatch.py\<close>), \<open>Tracking_Service\<close>, \<open>Tracking_Facts\<close> (\<^verbatim>\<open>tracking.py\<close>): the
    services, one definition per method, and what their calls guarantee.
  \<^item> \<open>Publication_Service\<close>, \<open>Publication_Facts\<close> (\<^verbatim>\<open>publication.py\<close>): a validated revision becomes a
    pull request; \<open>Planning_Service\<close>, \<open>Sprint_Facts\<close> (\<^verbatim>\<open>intake.py\<close>, \<^verbatim>\<open>backlog.py\<close>, \<^verbatim>\<open>sprint.py\<close>):
    how issues and backlog cards become tasks, and sprints over them.
  \<^item> \<open>Json_Text\<close> (\<^verbatim>\<open>json.loads\<close>), \<open>Operational_Policy\<close> (\<^verbatim>\<open>domain/operational.py\<close>): the declaration of an
    operational issue, its parsers and its canonical form.
  \<^item> \<open>Feedback_Service\<close>, \<open>Feedback_Facts\<close> (\<^verbatim>\<open>reconciliation.py\<close>, \<^verbatim>\<open>feedback.py\<close>): repair of interrupted
    tasks, completion on evidence of a delivery; \<open>Status_Service\<close>, \<open>Status_Facts\<close> (\<^verbatim>\<open>status.py\<close>,
    \<^verbatim>\<open>status_events.py\<close>): the view of a task and the delivery of queued events.
  \<^item> \<open>Runtime_Service\<close>, \<open>Runtime_Steps\<close>, \<open>Runtime_Facts\<close> (\<^verbatim>\<open>runtime.py\<close>): the wiring of the services,
    selection, guards, polling, acceptance and publication of one invocation.
  \<^item> \<open>Factory_Refinement\<close>: the abstract factory is the store with its operations; every call of the runtime, whatever
    its ports answer, is a sequence of them (\<open>performs\<close>).
  \<^item> \<open>Terminal_Recovery\<close>, \<open>Recovery_Facts\<close> (\<^verbatim>\<open>terminal_recovery.py\<close>): the operator's recoveries, and a
    small calculus of what a call has learned before its only write; \<open>Worker_Pool\<close>, \<open>Pool_Facts\<close>
    (\<^verbatim>\<open>watch.py\<close>, \<^verbatim>\<open>worker_pool.py\<close>): the loops above the runtime.
  \<^item> \<open>Memory_Store\<close> (\<^verbatim>\<open>memory.py\<close>, \<^verbatim>\<open>memory_sqlite.py\<close>): operational memory, its lifecycle and its
    retrieval; \<open>Projections\<close> (\<^verbatim>\<open>audit.py\<close>, \<^verbatim>\<open>metrics.py\<close> of \<^verbatim>\<open>infrastructure/persistence\<close>).
  \<^item> \<open>Configuration\<close>, \<open>Configuration_Facts\<close> (\<^verbatim>\<open>infrastructure/config.py\<close>): the settings and their log-safe
    view.
  \<^item> \<open>Recorded_Calls\<close>: calls to the outside that keep a log of what was asked and answered.
  \<^item> \<open>Shared_Policy\<close>, \<open>Shared_Facts\<close> (\<^verbatim>\<open>shared_policy.py\<close>): the permissions of a shared workspace, as a walk over
    a tree of nodes with 12 bit modes; \<open>Git_Workspace\<close>, \<open>Git_Publish\<close>, \<open>Git_Facts\<close> (\<^verbatim>\<open>git.py\<close>, \<^verbatim>\<open>revision.py\<close>,
    \<^verbatim>\<open>recovery.py\<close>, \<^verbatim>\<open>git_publish.py\<close>): worktrees, revision identity and the push, as sessions that log every
    git command with its environment and its answer; the publisher meets the contract that
    \<open>Publication_Facts\<close> supposes of it (\<open>git_publisher_contract\<close>).
  \<^item> \<open>Github_Client\<close>, \<open>Github_Evidence\<close>, \<open>Github_Writes\<close>, \<open>Github_Issues\<close> with \<open>Github_Facts\<close>, \<open>Issue_Facts\<close>,
    \<open>Source_Facts\<close> (\<^verbatim>\<open>integrations/github\<close>): the adapters of the provider, as conversations of requests and JSON answers:
    evidence of a delivery, pull requests, completed issues, issues of the backlog, issues that become tasks.
  \<^item> \<open>Text_Matching\<close>, \<open>Openhands_Client\<close>, \<open>Openhands_Adapter\<close>, \<open>Openhands_Facts\<close> (\<^verbatim>\<open>integrations/openhands\<close>): the agent
    server as an engine, one of the adapters that the services call through their port: its conversations as exchanges
    that log every request and answer, and the removal of credentials from the text it returns.
  \<^item> \<open>Sample_Data\<close> and the theories \<open>Store_Properties\<close>, \<open>Service_Properties\<close>, \<open>Publication_Properties\<close>,
    \<open>Planning_Properties\<close>, \<open>Runtime_Properties\<close>, \<open>Operations_Properties\<close>, \<open>Configuration_Properties\<close>,
    \<open>Shared_Properties\<close>, \<open>Git_Properties\<close>, \<open>Github_Properties\<close>, \<open>Openhands_Properties\<close>:
    concrete inputs and the properties.

  \<^bold>\<open>Modelling.\<close>  Timestamps are integers in microseconds; generated ids and the clock are arguments
  of the operations, supplied by the environment of a process.  A raised exception is the left of
  a sum; what was committed before it stays.  Digests, engines, git, the provider API and the
  file system are parameters.  Strings range over U+0000 to U+00FF.  A block \<^verbatim>\<open>with self._connect()\<close>
  is one atomic transaction; SQLite gives this for its writes, while a read before the first write
  of a block is only isolated when no other process writes in between.  The threads of the worker
  pool are other processes: what they commit arrives through the schedule of the environment, and the pool
  is told which of them ended.

  \<^bold>\<open>Fuel.\<close>  Loops that may run forever carry fuel.  Polling a run needs more fuel than the poll
  intervals in its timeout, when the monotonic clock does not go back and a sleep lasts as long as asked
  (\<open>poll_terminates\<close>); the watcher needs more
  than its limit of iterations (\<open>watch_terminates\<close>); a pass of the pool more than \<open>c * (K + 1) + K\<close>
  for \<open>c\<close> candidates, when at most \<open>K\<close> waits in a row return no thread that ended (\<open>pool_drains\<close>); the JSON parser twice the length of
  its text plus one (\<open>parse_fuel\<close>).

  \<^bold>\<open>Not modelled.\<close>  The command line, logging, and the adapters of \<^verbatim>\<open>integrations/\<close> that talk to
  the Codex engine, to the card provider and to inspected services, which are the ports, and the owner reports; the HTTP exchange
  itself; what git does with a command, the file
  system below a workspace path and the effect of other processes on it; SHA-256, the parsers of URLs and addresses and the resolution of
  paths, which are parameters; the migrations of databases written by older versions and
  lock timeouts of SQLite (a transaction either commits or raises the exception its code
  raises); the limit on recursion; the decimal rounding of metrics.
\<close>

end
